(* ===== verification/Prelude.thy ===== *)
theory Prelude
  imports Main "HOL-Library.Char_ord" "HOL-Library.List_Lexorder"
begin

text \<open>
  What every component shares: the Go vocabulary of the model and the generic facts about it.

  Go values are read as follows.  A Go \<open>string\<close> is a byte string, here \<open>string\<close> (a list of
  8-bit characters), compared byte by byte as Go does; the routines that look at Unicode classes
  (\<open>strings.TrimSpace\<close>, \<open>strings.ToLower\<close>) are given on ASCII.  An \<open>int\<close> is a 64-bit
  two's complement number: it is an \<open>int\<close> here, with \<open>wrap64\<close> written out where an
  operation may leave the range.  A \<open>time.Time\<close> is the number of nanoseconds since the zero
  time, so that \<open>IsZero\<close> is \<open>t = 0\<close>.  A \<open>map[string]string\<close> that is only looked
  up is an association list.  An \<open>error\<close> is its message together with the sentinel it wraps,
  which is all the code ever asks of one (\<open>err.Error()\<close> and \<open>errors.Is\<close>).
\<close>

named_theorems go_simps \<open>unfolding rules for the Go library routines\<close>
named_theorems res_splits \<open>case splits for results\<close>

section \<open>Errors, results, time\<close>

datatype sentinel = NoRows | SwarmDisabled | AlreadyCurrent | CtxDone

datatype err = Err (wraps: "sentinel option") (msg: string)

type_synonym gotime = int

abbreviation (input) zero_time :: gotime where "zero_time \<equiv> 0"

abbreviation (input) second :: int where "second \<equiv> 1000000000"
abbreviation (input) minute :: int where "minute \<equiv> 60 * second"
abbreviation (input) hour :: int where "hour \<equiv> 60 * minute"

definition errors_new :: "string \<Rightarrow> err" where
  "errors_new m = Err None m"

text \<open>\<open>fmt.Errorf("...: %w", err)\<close>: the message is prefixed, the sentinel stays visible.\<close>

definition wrap_err :: "string \<Rightarrow> err \<Rightarrow> err" where
  "wrap_err m e = Err (wraps e) (m @ msg e)"

lemma wraps_errors_new [simp]: "wraps (errors_new m) = None"
  by (simp add: errors_new_def)

lemma msg_errors_new [simp]: "msg (errors_new m) = m"
  by (simp add: errors_new_def)

lemma wraps_wrap_err [simp]: "wraps (wrap_err m e) = wraps e"
  by (simp add: wrap_err_def)

lemmas [res_splits] = sum.splits option.splits prod.splits if_splits

text \<open>Sequencing of fallible steps: the first error is the result.\<close>

definition and_then :: "err + 'a \<Rightarrow> ('a \<Rightarrow> err + 'b) \<Rightarrow> err + 'b" where
  "and_then r f = (case r of Inl e \<Rightarrow> Inl e | Inr a \<Rightarrow> f a)"

lemma and_then_Inl [simp]: "and_then (Inl e) f = Inl e"
  by (simp add: and_then_def)

lemma and_then_Inr [simp]: "and_then (Inr a) f = f a"
  by (simp add: and_then_def)

lemma and_then_eq_Inr: "and_then r f = Inr b \<longleftrightarrow> (\<exists>a. r = Inr a \<and> f a = Inr b)"
  by (cases r) auto

fun fold_res :: "('x \<Rightarrow> 's \<Rightarrow> err + 's) \<Rightarrow> 'x list \<Rightarrow> 's \<Rightarrow> err + 's" where
  "fold_res f [] s = Inr s"
| "fold_res f (x # xs) s = and_then (f x s) (fold_res f xs)"

text \<open>The invariant rule of such a loop: what every successful step keeps, the loop keeps.\<close>

lemma fold_res_inv:
  assumes "fold_res f xs s = Inr s'" and "P s"
    and "\<And>x s s'. x \<in> set xs \<Longrightarrow> P s \<Longrightarrow> f x s = Inr s' \<Longrightarrow> P s'"
  shows "P s'"
  using assms
proof (induction xs arbitrary: s)
  case Nil
  then show ?case by simp
next
  case (Cons x xs)
  from Cons.prems(1) obtain s1 where s1: "f x s = Inr s1" "fold_res f xs s1 = Inr s'"
    by (auto simp: and_then_eq_Inr)
  from Cons.prems(2,3) s1(1) have "P s1" by auto
  with s1(2) Cons.prems(3) show ?case by (intro Cons.IH [of s1]) auto
qed

lemma fold_res_append:
  "fold_res f (xs @ ys) s = and_then (fold_res f xs s) (fold_res f ys)"
  by (induction xs arbitrary: s) (auto simp: and_then_def split: sum.splits)

section \<open>64-bit integers\<close>

definition wrap64 :: "int \<Rightarrow> int" where
  "wrap64 x = (x + 2 ^ 63) mod 2 ^ 64 - 2 ^ 63"

lemma wrap64_id: "- (2 ^ 63) \<le> x \<Longrightarrow> x < 2 ^ 63 \<Longrightarrow> wrap64 x = x"
  by (simp add: wrap64_def)

lemma wrap64_range: "- (2 ^ 63) \<le> wrap64 x \<and> wrap64 x < 2 ^ 63"
  by (simp add: wrap64_def)

section \<open>Maps that are only looked up\<close>

type_synonym labels = "(string \<times> string) list"

text \<open>\<open>m[k]\<close> on a \<open>map[string]string\<close>: the empty string when the key is missing.\<close>

definition label :: "labels \<Rightarrow> string \<Rightarrow> string" where
  "label m k = (case map_of m k of None \<Rightarrow> '''' | Some v \<Rightarrow> v)"

lemma label_Nil [simp]: "label [] k = ''''"
  by (simp add: label_def)

lemma label_Cons [simp]: "label ((k', v) # m) k = (if k = k' then v else label m k)"
  by (simp add: label_def)

section \<open>Lists of rows\<close>

text \<open>
  Tables are lists of rows in insertion order.  \<open>find_row\<close> is a lookup by a predicate,
  \<open>upd_rows\<close> an SQL \<open>UPDATE ... WHERE\<close>.
\<close>

definition upd_rows :: "('a \<Rightarrow> bool) \<Rightarrow> ('a \<Rightarrow> 'a) \<Rightarrow> 'a list \<Rightarrow> 'a list" where
  "upd_rows p f xs = map (\<lambda>x. if p x then f x else x) xs"

lemma upd_rows_Nil [simp]: "upd_rows p f [] = []"
  by (simp add: upd_rows_def)

lemma upd_rows_Cons [simp]: "upd_rows p f (x # xs) = (if p x then f x else x) # upd_rows p f xs"
  by (simp add: upd_rows_def)

lemma map_upd_rows: "(\<And>x. p x \<Longrightarrow> g (f x) = g x) \<Longrightarrow> map g (upd_rows p f xs) = map g xs"
  by (induction xs) auto

lemma image_upd_rows: "(\<And>x. p x \<Longrightarrow> g (f x) = g x) \<Longrightarrow> g ` set (upd_rows p f xs) = g ` set xs"
  using map_upd_rows [of p g f xs] by (metis set_map)

lemma set_upd_rows: "set (upd_rows p f xs) = f ` {x \<in> set xs. p x} \<union> {x \<in> set xs. \<not> p x}"
  by (induction xs) auto

lemma mem_upd_rowsE:
  assumes "y \<in> set (upd_rows p f xs)"
  obtains x where "x \<in> set xs" and "y = (if p x then f x else x)"
  using assms by (auto simp: upd_rows_def)

lemma find_eq_Some_mem: "find p xs = Some x \<Longrightarrow> x \<in> set xs \<and> p x"
  by (induction xs) (auto split: if_splits)

lemma find_eq_None_iff: "find p xs = None \<longleftrightarrow> (\<forall>x\<in>set xs. \<not> p x)"
  by (induction xs) auto

lemma find_append: "find p (xs @ ys) = (case find p xs of None \<Rightarrow> find p ys | Some x \<Rightarrow> Some x)"
  by (induction xs) auto

lemma find_upd_rows_same:
  "(\<And>x. p x \<Longrightarrow> q (f x) = q x) \<Longrightarrow>
   find q (upd_rows p f xs) = map_option (\<lambda>x. if p x then f x else x) (find q xs)"
  by (induction xs) auto

lemma find_filter_same: "(\<And>x. q x \<Longrightarrow> p x) \<Longrightarrow> find q (filter p xs) = find q xs"
  by (induction xs) auto

lemma distinct_map_filter_keep: "distinct (map g xs) \<Longrightarrow> distinct (map g (filter p xs))"
  by (induction xs) auto

lemma distinct_map_eq:
  "distinct (map g xs) \<Longrightarrow> x \<in> set xs \<Longrightarrow> y \<in> set xs \<Longrightarrow> g x = g y \<Longrightarrow> x = y"
  by (meson distinct_map inj_onD)

lemma find_by_key:
  "distinct (map g xs) \<Longrightarrow> x \<in> set xs \<Longrightarrow> find (\<lambda>y. g y = g x) xs = Some x"
  by (induction xs) force+

end
