(* ===== verification/GoStrings.thy ===== *)
theory GoStrings
  imports Prelude
begin

text \<open>
  The routines of Go's \<open>strings\<close> and \<open>strconv\<close> packages that the source calls, with the
  results Go documents: an index is \<open>-1\<close> when there is no match, \<open>strings.Split\<close> of an
  empty string is one empty field, \<open>strconv.Atoi\<close> takes an optional sign and decimal digits
  and fails outside the 64-bit range.
\<close>

section \<open>Prefixes and suffixes\<close>

fun hasPrefix :: "string \<Rightarrow> string \<Rightarrow> bool" where
  "hasPrefix s [] = True"
| "hasPrefix [] (p # ps) = False"
| "hasPrefix (c # s) (p # ps) = (c = p \<and> hasPrefix s ps)"

definition trimPrefix :: "string \<Rightarrow> string \<Rightarrow> string" where
  "trimPrefix s p = (if hasPrefix s p then drop (length p) s else s)"

definition hasSuffix :: "string \<Rightarrow> string \<Rightarrow> bool" where
  "hasSuffix s p = hasPrefix (rev s) (rev p)"

definition trimSuffix :: "string \<Rightarrow> string \<Rightarrow> string" where
  "trimSuffix s p = (if hasSuffix s p then take (length s - length p) s else s)"

lemma hasPrefix_iff: "hasPrefix s p \<longleftrightarrow> (\<exists>r. s = p @ r)"
  by (induction s p rule: hasPrefix.induct) auto

lemma hasPrefix_append [simp]: "hasPrefix (p @ s) p"
  by (auto simp: hasPrefix_iff)

lemma hasSuffix_iff: "hasSuffix s p \<longleftrightarrow> (\<exists>r. s = r @ p)"
proof -
  have "rev s = rev p @ r \<longleftrightarrow> s = rev r @ p" for r
    by (metis rev_append rev_rev_ident)
  then show ?thesis unfolding hasSuffix_def hasPrefix_iff by (metis rev_rev_ident)
qed

lemma trimSuffix_append [simp]: "trimSuffix (s @ p) p = s"
  by (auto simp: trimSuffix_def hasSuffix_iff)

lemma trimPrefix_append [simp]: "trimPrefix (p @ s) p = s"
  by (simp add: trimPrefix_def)

section \<open>Searching\<close>

fun containsStr :: "string \<Rightarrow> string \<Rightarrow> bool" where
  "containsStr [] p = (p = [])"
| "containsStr (c # s) p = (hasPrefix (c # s) p \<or> containsStr s p)"

text \<open>\<open>strings.IndexByte\<close>, \<open>strings.LastIndexByte\<close>, \<open>strings.IndexFunc\<close>.\<close>

fun indexFunc :: "(char \<Rightarrow> bool) \<Rightarrow> string \<Rightarrow> int" where
  "indexFunc p [] = -1"
| "indexFunc p (c # s) =
     (if p c then 0 else (let i = indexFunc p s in if i < 0 then -1 else i + 1))"

definition indexByte :: "string \<Rightarrow> char \<Rightarrow> int" where
  "indexByte s c = indexFunc (\<lambda>x. x = c) s"

definition lastIndexByte :: "string \<Rightarrow> char \<Rightarrow> int" where
  "lastIndexByte s c =
     (let i = indexByte (rev s) c in if i < 0 then -1 else int (length s) - 1 - i)"

text \<open>\<open>s[:i]\<close> and \<open>s[i:]\<close>.\<close>

definition upto :: "string \<Rightarrow> int \<Rightarrow> string" where "upto s i = take (nat i) s"
definition fromIdx :: "string \<Rightarrow> int \<Rightarrow> string" where "fromIdx s i = drop (nat i) s"

text \<open>The idiom \<open>if i := strings.IndexByte(s, c); i >= 0 { s = s[:i] }\<close>.\<close>

definition cutAt :: "char \<Rightarrow> string \<Rightarrow> string" where
  "cutAt c s = (let i = indexByte s c in if i \<ge> 0 then upto s i else s)"

lemma indexFunc_range: "-1 \<le> indexFunc p s \<and> indexFunc p s < int (length s) \<or> s = [] \<and> indexFunc p s = -1"
  by (induction s) (auto simp: Let_def)

lemma indexFunc_neg_iff: "indexFunc p s < 0 \<longleftrightarrow> (\<forall>c\<in>set s. \<not> p c)"
  by (induction s) (auto simp: Let_def)

lemma indexFunc_none: "\<forall>c\<in>set s. \<not> p c \<Longrightarrow> indexFunc p s = -1"
  by (induction s) auto

lemma indexFunc_ge: "-1 \<le> indexFunc p s"
  by (induction s) (auto simp: Let_def)

lemma indexFunc_skip: "\<forall>c\<in>set s. \<not> p c \<Longrightarrow>
  indexFunc p (s @ t) = (let i = indexFunc p t in if i < 0 then -1 else i + int (length s))"
  using indexFunc_ge [of p t] by (induction s) (auto simp: Let_def)

lemma indexFunc_first: "\<forall>c\<in>set s. \<not> p c \<Longrightarrow> p c \<Longrightarrow> indexFunc p (s @ c # t) = int (length s)"
  by (simp add: indexFunc_skip)

lemma indexByte_none [simp]: "c \<notin> set s \<Longrightarrow> indexByte s c = -1"
  by (auto simp: indexByte_def intro!: indexFunc_none)

lemma indexByte_first [simp]: "c \<notin> set s \<Longrightarrow> indexByte (s @ c # t) c = int (length s)"
  unfolding indexByte_def by (rule indexFunc_first) auto

lemma indexByte_neg_iff: "indexByte s c < 0 \<longleftrightarrow> c \<notin> set s"
  by (auto simp: indexByte_def indexFunc_neg_iff)

lemma cutAt_none [simp]: "c \<notin> set s \<Longrightarrow> cutAt c s = s"
  by (simp add: cutAt_def)

lemma cutAt_first [simp]: "c \<notin> set s \<Longrightarrow> cutAt c (s @ c # t) = s"
  by (simp add: cutAt_def Let_def upto_def)

lemma cutAt_takeWhile: "cutAt c s = takeWhile (\<lambda>x. x \<noteq> c) s"
proof (cases "c \<in> set s")
  case True
  then obtain u v where s: "s = u @ c # v" and u: "c \<notin> set u" by (metis split_list_first)
  from u have t: "takeWhile (\<lambda>x. x \<noteq> c) (u @ c # v) = u"
    by (induction u) auto
  show ?thesis unfolding s t using u by (rule cutAt_first)
next
  case False
  then have t: "takeWhile (\<lambda>x. x \<noteq> c) s = s" by (induction s) auto
  show ?thesis unfolding t using False by (rule cutAt_none)
qed

lemma lastIndexByte_none [simp]: "c \<notin> set s \<Longrightarrow> lastIndexByte s c = -1"
  by (simp add: lastIndexByte_def)

lemma lastIndexByte_last [simp]: "c \<notin> set t \<Longrightarrow> lastIndexByte (s @ c # t) c = int (length s)"
  by (simp add: lastIndexByte_def)

lemma lastIndexByte_less: "lastIndexByte s c < int (length s)"
proof (cases "c \<in> set s")
  case True
  then obtain u v where "s = u @ c # v" "c \<notin> set v"
    by (metis split_list_last)
  then show ?thesis by simp
qed simp

lemma lastIndexByte_append_notin:
  "c \<notin> set t \<Longrightarrow> lastIndexByte (s @ t) c = lastIndexByte s c"
proof (cases "c \<in> set s")
  case True
  then obtain u v where s: "s = u @ c # v" "c \<notin> set v" by (metis split_list_last)
  assume "c \<notin> set t"
  with s have "lastIndexByte (u @ c # (v @ t)) c = int (length u)"
    by (intro lastIndexByte_last) auto
  with s show ?thesis by simp
qed simp

section \<open>Splitting and joining\<close>

fun splitOn :: "char \<Rightarrow> string \<Rightarrow> string list" where
  "splitOn c [] = [[]]"
| "splitOn c (x # xs) =
     (if x = c then [] # splitOn c xs
      else (case splitOn c xs of [] \<Rightarrow> [[x]] | y # ys \<Rightarrow> (x # y) # ys))"

fun joinWith :: "string \<Rightarrow> string list \<Rightarrow> string" where
  "joinWith sep [] = []"
| "joinWith sep [s] = s"
| "joinWith sep (s # t # ss) = s @ sep @ joinWith sep (t # ss)"

lemma splitOn_not_Nil [simp]: "splitOn c s \<noteq> []"
  by (cases s) (auto split: list.splits)

lemma splitOn_no_sep: "f \<in> set (splitOn c s) \<Longrightarrow> c \<notin> set f"
  by (induction s arbitrary: f) (auto split: if_splits list.splits)

lemma splitOn_notin: "c \<notin> set s \<Longrightarrow> splitOn c s = [s]"
  by (induction s) auto

lemma splitOn_append: "c \<notin> set s \<Longrightarrow> splitOn c (s @ c # t) = s # splitOn c t"
  by (induction s) auto

lemma joinWith_Cons: "ss \<noteq> [] \<Longrightarrow> joinWith sep (s # ss) = s @ sep @ joinWith sep ss"
  by (cases ss) auto

lemma joinWith_splitOn: "joinWith [c] (splitOn c s) = s"
proof (induction s)
  case (Cons x xs)
  show ?case
  proof (cases "splitOn c xs")
    case (Cons y ys)
    with \<open>joinWith [c] (splitOn c xs) = xs\<close> show ?thesis
      by (cases ys) (auto simp: joinWith_Cons)
  qed simp
qed simp

lemma splitOn_joinWith:
  "ss \<noteq> [] \<Longrightarrow> \<forall>s\<in>set ss. c \<notin> set s \<Longrightarrow> splitOn c (joinWith [c] ss) = ss"
  by (induction "[c]" ss rule: joinWith.induct) (auto simp: splitOn_notin splitOn_append)

section \<open>Characters\<close>

definition isDigit :: "char \<Rightarrow> bool" where
  "isDigit c = (CHR ''0'' \<le> c \<and> c \<le> CHR ''9'')"

definition isHexDigit :: "char \<Rightarrow> bool" where
  "isHexDigit c = (isDigit c \<or> CHR ''a'' \<le> c \<and> c \<le> CHR ''f'' \<or> CHR ''A'' \<le> c \<and> c \<le> CHR ''F'')"

definition isSpace :: "char \<Rightarrow> bool" where
  "isSpace c = (c \<in> {CHR 0x09, CHR 0x0A, CHR 0x0B, CHR 0x0C, CHR 0x0D, CHR '' ''})"

definition trimSpace :: "string \<Rightarrow> string" where
  "trimSpace s = rev (dropWhile isSpace (rev (dropWhile isSpace s)))"

definition toLowerChar :: "char \<Rightarrow> char" where
  "toLowerChar c = (if CHR ''A'' \<le> c \<and> c \<le> CHR ''Z'' then char_of (of_char c + 32 :: nat) else c)"

definition toLower :: "string \<Rightarrow> string" where
  "toLower s = map toLowerChar s"

definition equalFold :: "string \<Rightarrow> string \<Rightarrow> bool" where
  "equalFold s t = (toLower s = toLower t)"

text \<open>\<open>strings.Trim(s, cutset)\<close> and \<open>strings.TrimLeft\<close> for a one-character cutset.\<close>

definition trimLeftByte :: "string \<Rightarrow> char \<Rightarrow> string" where
  "trimLeftByte s c = dropWhile (\<lambda>x. x = c) s"

definition trimByte :: "string \<Rightarrow> char \<Rightarrow> string" where
  "trimByte s c = rev (dropWhile (\<lambda>x. x = c) (rev (dropWhile (\<lambda>x. x = c) s)))"

lemma trimSpace_Nil [simp]: "trimSpace [] = []"
  by (simp add: trimSpace_def)

lemma dropWhile_id: "(\<And>c. c \<in> set (take 1 s) \<Longrightarrow> \<not> p c) \<Longrightarrow> dropWhile p s = s"
  by (cases s) auto

lemma trimSpace_id:
  assumes "s = [] \<or> \<not> isSpace (hd s) \<and> \<not> isSpace (last s)"
  shows "trimSpace s = s"
proof (cases "s = []")
  case False
  with assms have "dropWhile isSpace s = s" by (cases s) auto
  moreover from False assms have "dropWhile isSpace (rev s) = rev s"
    by (cases "rev s") (auto simp: last_rev hd_rev dest: arg_cong [of _ _ rev])
  ultimately show ?thesis by (simp add: trimSpace_def)
qed simp

lemma trimSpace_no_space: "\<forall>c\<in>set s. \<not> isSpace c \<Longrightarrow> trimSpace s = s"
  by (rule trimSpace_id) (cases s; auto)

lemma dropWhile_idem [simp]: "dropWhile p (dropWhile p s) = dropWhile p s"
  by (induction s) auto

section \<open>Numbers\<close>

definition digitVal :: "char \<Rightarrow> int" where
  "digitVal c = int (of_char c) - 48"

definition digitsVal :: "string \<Rightarrow> int" where
  "digitsVal s = foldl (\<lambda>n c. n * 10 + digitVal c) 0 s"

text \<open>\<open>strconv.Atoi\<close>: \<open>None\<close> is the error.\<close>

definition atoi :: "string \<Rightarrow> int option" where
  "atoi s =
     (let (neg, ds) = (case s of [] \<Rightarrow> (False, [])
                       | c # r \<Rightarrow> if c = CHR ''-'' then (True, r)
                                  else if c = CHR ''+'' then (False, r) else (False, s));
          n = (if neg then - digitsVal ds else digitsVal ds)
      in if ds = [] \<or> (\<exists>c\<in>set ds. \<not> isDigit c) then None
         else if n < - (2 ^ 63) \<or> 2 ^ 63 \<le> n then None else Some n)"

lemma isDigit_not_sign: "isDigit c \<Longrightarrow> c \<noteq> CHR ''-'' \<and> c \<noteq> CHR ''+''"
  by (auto simp: isDigit_def)

lemma atoi_digits:
  assumes "ds \<noteq> []" and "\<forall>c\<in>set ds. isDigit c" and "digitsVal ds < 2 ^ 63"
    and "0 \<le> digitsVal ds"
  shows "atoi ds = Some (digitsVal ds)"
  using assms isDigit_not_sign by (cases ds) (auto simp: atoi_def Let_def)

lemma atoi_bounds: "atoi s = Some n \<Longrightarrow> - (2 ^ 63) \<le> n \<and> n < 2 ^ 63"
  by (auto simp: atoi_def Let_def split: prod.splits if_splits list.splits)

lemma atoi_Nil [simp]: "atoi [] = None"
  by (simp add: atoi_def)

end
