(* ===== verification/SelfUpdate.thy ===== *)
theory SelfUpdate
  imports GoStrings
begin

text \<open>
  The self-update check of \<open>internal/selfupdate/selfupdate.go\<close>: the order on version strings
  (\<open>parseVersion\<close>, \<open>CompareVersions\<close>, \<open>IsNewer\<close>), the rewriting of image references
  (\<open>Retag\<close>, \<open>TagOf\<close>) and the checker that combines the two update signals
  (\<open>Checker.Check\<close>).  The release fetcher and the digest fetcher are injected functions in the
  code; here they are the answers those functions gave, \<open>None\<close> when the function is nil.
\<close>

section \<open>Data\<close>

datatype kind = KindNone | KindRelease | KindBuild

record sRelease =
  sr_tag :: string
  sr_url :: string
  sr_name :: string
  sr_published :: gotime
  sr_prerelease :: bool

record result =
  r_current :: string
  r_latest :: string
  r_kind :: kind
  r_available :: bool
  r_target :: string
  r_image :: string
  r_currentDigest :: string
  r_latestDigest :: string
  r_url :: string
  r_name :: string
  r_published :: gotime
  r_checkedAt :: gotime
  r_error :: string

record current =
  c_version :: string
  c_image :: string
  c_digest :: string

record checker =
  ck_result :: result

definition no_result :: result where
  "no_result = \<lparr>r_current = [], r_latest = [], r_kind = KindNone, r_available = False,
     r_target = [], r_image = [], r_currentDigest = [], r_latestDigest = [], r_url = [],
     r_name = [], r_published = zero_time, r_checkedAt = zero_time, r_error = []\<rparr>"

section \<open>Versions\<close>

record version =
  nums :: "int list"
  pre :: string

text \<open>The regular expression \<open>^\d+-g[0-9a-fA-F]+$\<close>.\<close>

definition describeRe :: "string \<Rightarrow> bool" where
  "describeRe s =
     (let ds = takeWhile isDigit s; r = dropWhile isDigit s
      in ds \<noteq> [] \<and> hasPrefix r ''-g'' \<and> drop 2 r \<noteq> [] \<and> (\<forall>c\<in>set (drop 2 r). isHexDigit c))"

text \<open>The loop over the dotted components, writing \<open>v.nums[i]\<close>.\<close>

fun fillNums :: "nat \<Rightarrow> int list \<Rightarrow> string list \<Rightarrow> int list option" where
  "fillNums i v [] = Some v"
| "fillNums i v (p # ps) =
     (if p = [] then None
      else (case atoi p of
              None \<Rightarrow> None
            | Some n \<Rightarrow> if n < 0 then None else fillNums (Suc i) (v[i := n]) ps))"

text \<open>The stages of \<open>parseVersion\<close>: trim and drop the leading \<open>v\<close>, drop build metadata,
  cut at the first dash, fold the git-describe and dirty markers away, keep three components.\<close>

definition versionBody :: "string \<Rightarrow> string" where
  "versionBody s = trimPrefix (trimPrefix (trimSpace s) ''v'') ''V''"

definition splitPre :: "string \<Rightarrow> string \<times> string" where
  "splitPre s = (let j = indexByte s CHR ''-''
                 in if j \<ge> 0 then (upto s j, fromIdx s (j + 1)) else (s, []))"

definition foldPre :: "string \<Rightarrow> string" where
  "foldPre p = (let p1 = trimSuffix p ''-dirty''
                in if p1 = ''dirty'' \<or> describeRe p1 then [] else p1)"

definition firstThree :: "string list \<Rightarrow> string list" where
  "firstThree parts = (if length parts > 3 then take 3 parts else parts)"

definition parseVersion :: "string \<Rightarrow> version option" where
  "parseVersion s =
     (let body = versionBody s
      in if body = [] then None
         else
           let (core, p) = splitPre (cutAt CHR ''+'' body)
           in (case fillNums 0 [0, 0, 0] (firstThree (splitOn CHR ''.'' core)) of
                 None \<Rightarrow> None
               | Some ns \<Rightarrow> Some \<lparr>nums = ns, pre = foldPre p\<rparr>))"

text \<open>The loop over the three numbers: the first difference decides, \<open>0\<close> when there is none.\<close>

fun cmpNums :: "int list \<Rightarrow> int list \<Rightarrow> int" where
  "cmpNums (x # xs) (y # ys) = (if x \<noteq> y then (if x > y then 1 else -1) else cmpNums xs ys)"
| "cmpNums _ _ = 0"

definition cmpPre :: "string \<Rightarrow> string \<Rightarrow> int" where
  "cmpPre p q = (if p = q then 0 else if p = [] then 1 else if q = [] then -1
                 else if p > q then 1 else -1)"

definition CompareVersions :: "string \<Rightarrow> string \<Rightarrow> int" where
  "CompareVersions a b =
     (case (parseVersion a, parseVersion b) of
        (Some av, Some bv) \<Rightarrow>
          (if cmpNums (nums av) (nums bv) \<noteq> 0 then cmpNums (nums av) (nums bv)
           else cmpPre (pre av) (pre bv))
      | _ \<Rightarrow> 0)"

definition IsNewer :: "string \<Rightarrow> string \<Rightarrow> bool" where
  "IsNewer candidate cur = (CompareVersions candidate cur > 0)"

section \<open>Image references\<close>

text \<open>Dropping the digest and then the tag of a reference, the common prefix of both routines.\<close>

definition stripDigest :: "string \<Rightarrow> string" where
  "stripDigest img = cutAt CHR ''@'' img"

definition Retag :: "string \<Rightarrow> string \<Rightarrow> string" where
  "Retag img tag =
     (if img = [] \<or> tag = [] then []
      else
        let base = stripDigest img;
            i = lastIndexByte base CHR '':'';
            base' = (if i > lastIndexByte base CHR ''/'' then upto base i else base)
        in base' @ '':'' @ tag)"

definition TagOf :: "string \<Rightarrow> string" where
  "TagOf img =
     (let base = stripDigest img;
          slash = lastIndexByte base CHR ''/'';
          colon = lastIndexByte base CHR '':''
      in if colon \<le> slash then [] else fromIdx base (colon + 1))"

section \<open>The checker\<close>

definition New :: "current \<Rightarrow> checker" where
  "New cur = \<lparr>ck_result = no_result\<lparr>r_current := c_version cur\<rparr>\<rparr>"

text \<open>Signal 1, a newer published release.\<close>

definition releaseSignal :: "current \<Rightarrow> (err + sRelease option) \<Rightarrow> result \<Rightarrow> result" where
  "releaseSignal cur answer res =
     (case answer of
        Inl e \<Rightarrow> res\<lparr>r_error := msg e\<rparr>
      | Inr None \<Rightarrow> res\<lparr>r_error := ''no published release found''\<rparr>
      | Inr (Some rel) \<Rightarrow>
          if sr_tag rel = [] then res\<lparr>r_error := ''no published release found''\<rparr>
          else
            let res1 = res\<lparr>r_latest := sr_tag rel, r_url := sr_url rel, r_name := sr_name rel,
                           r_published := sr_published rel\<rparr>
            in if IsNewer (sr_tag rel) (c_version cur)
               then (let res2 = res1\<lparr>r_kind := KindRelease\<rparr>
                     in if c_image cur \<noteq> [] then res2\<lparr>r_target := Retag (c_image cur) (sr_tag rel)\<rparr>
                        else res2)
               else res1)"

text \<open>Signal 2, the running tag was rebuilt; the argument is the digest fetcher, if there is one.\<close>

definition digestSignal ::
  "current \<Rightarrow> (string \<Rightarrow> string \<Rightarrow> err + bool \<times> string) option \<Rightarrow> result \<Rightarrow> result" where
  "digestSignal cur digest res =
     (case digest of
        None \<Rightarrow> res
      | Some f \<Rightarrow>
          if r_kind res = KindNone \<and> c_image cur \<noteq> [] \<and> c_digest cur \<noteq> []
          then (case f (c_image cur) (c_digest cur) of
                  Inr (True, latest) \<Rightarrow>
                    res\<lparr>r_kind := KindBuild, r_target := c_image cur, r_latestDigest := latest,
                        r_latest := []\<rparr>
                | _ \<Rightarrow> res)
          else res)"

definition finishResult :: "result \<Rightarrow> result" where
  "finishResult res =
     (let res1 = res\<lparr>r_available := (r_kind res \<noteq> KindNone)\<rparr>
      in if \<not> r_available res1 then res1\<lparr>r_target := []\<rparr> else res1)"

definition Check ::
  "gotime \<Rightarrow> current \<Rightarrow> (err + sRelease option) option
     \<Rightarrow> (string \<Rightarrow> string \<Rightarrow> err + bool \<times> string) option \<Rightarrow> checker \<Rightarrow> result \<times> checker" where
  "Check now cur fetched digest c =
     (let res0 = no_result\<lparr>r_current := c_version cur, r_image := c_image cur,
                           r_currentDigest := c_digest cur, r_checkedAt := now\<rparr>;
          res1 = (case fetched of None \<Rightarrow> res0 | Some a \<Rightarrow> releaseSignal cur a res0);
          res2 = digestSignal cur digest res1;
          res = finishResult res2
      in (res, c\<lparr>ck_result := res\<rparr>))"

definition Cached :: "checker \<Rightarrow> result" where
  "Cached c = ck_result c"

section \<open>The order on versions\<close>

lemma cmpNums_swap: "cmpNums ys xs = - cmpNums xs ys"
  by (induction xs ys rule: cmpNums.induct) auto

lemma cmpPre_swap: "cmpPre q p = - cmpPre p q"
  by (auto simp: cmpPre_def)

lemma cmpNums_sign: "cmpNums xs ys \<in> {-1, 0, 1}"
  by (induction xs ys rule: cmpNums.induct) auto

lemma cmpNums_trans_lt:
  "length xs = length ys \<Longrightarrow> length ys = length zs \<Longrightarrow>
   cmpNums xs ys > 0 \<Longrightarrow> cmpNums ys zs \<ge> 0 \<Longrightarrow> cmpNums xs zs > 0"
proof (induction xs ys arbitrary: zs rule: cmpNums.induct)
  case (1 x xs y ys)
  then show ?case by (cases zs) (auto split: if_splits)
qed auto

lemma cmpNums_eq_0: "length xs = length ys \<Longrightarrow> cmpNums xs ys = 0 \<longleftrightarrow> xs = ys"
  by (induction xs ys rule: cmpNums.induct) auto

lemma cmpNums_refl [simp]: "cmpNums xs xs = 0"
  by (induction xs) auto

lemma cmpPre_trans: "cmpPre p q > 0 \<Longrightarrow> cmpPre q r > 0 \<Longrightarrow> cmpPre p r > 0"
  by (auto simp: cmpPre_def split: if_splits)

lemma cmpPre_eq_0: "cmpPre p q = 0 \<longleftrightarrow> p = q"
  by (auto simp: cmpPre_def)

lemma fillNums_length: "fillNums i v ps = Some ns \<Longrightarrow> length ns = length v"
  by (induction ps arbitrary: i v) (auto split: if_splits option.splits)

lemma parseVersion_length: "parseVersion s = Some v \<Longrightarrow> length (nums v) = 3"
  by (auto simp: parseVersion_def Let_def dest: fillNums_length
      split: if_split_asm option.split_asm prod.split_asm)

lemma fillNums_bounds:
  "fillNums i v ps = Some ns \<Longrightarrow> \<forall>n\<in>set v. 0 \<le> n \<and> n < 2 ^ 63 \<Longrightarrow> \<forall>n\<in>set ns. 0 \<le> n \<and> n < 2 ^ 63"
proof (induction ps arbitrary: i v)
  case (Cons p ps)
  from Cons.prems(1) obtain n where n: "atoi p = Some n" "0 \<le> n" "fillNums (Suc i) (v[i := n]) ps = Some ns"
    by (auto split: if_splits option.splits)
  have "n < 2 ^ 63" using atoi_bounds [OF n(1)] by blast
  with n(2) Cons.prems(2) have "\<forall>m\<in>insert n (set v). 0 \<le> m \<and> m < 2 ^ 63" by blast
  then have "\<forall>m\<in>set (v[i := n]). 0 \<le> m \<and> m < 2 ^ 63"
    using set_update_subset_insert [of v i n] by blast
  with n(3) show ?case by (rule Cons.IH)
qed simp

lemma CompareVersions_swap: "CompareVersions b a = - CompareVersions a b"
proof (cases "parseVersion a"; cases "parseVersion b")
  fix av bv
  assume "parseVersion a = Some av" and "parseVersion b = Some bv"
  with cmpNums_swap [of "nums bv" "nums av"] cmpPre_swap [of "pre bv" "pre av"]
  show ?thesis by (simp add: CompareVersions_def)
qed (simp_all add: CompareVersions_def)

lemma IsNewerD:
  assumes "IsNewer a b"
  obtains av bv where "parseVersion a = Some av" "parseVersion b = Some bv"
    "cmpNums (nums av) (nums bv) > 0 \<or> nums av = nums bv \<and> cmpPre (pre av) (pre bv) > 0"
proof -
  from assms obtain av bv where v: "parseVersion a = Some av" "parseVersion b = Some bv"
    by (auto simp: IsNewer_def CompareVersions_def split: option.splits)
  then have "length (nums av) = length (nums bv)" by (simp add: parseVersion_length)
  with assms v have "cmpNums (nums av) (nums bv) > 0 \<or> nums av = nums bv \<and> cmpPre (pre av) (pre bv) > 0"
    by (auto simp: IsNewer_def CompareVersions_def cmpNums_eq_0 split: if_splits)
  with v show ?thesis by (rule that)
qed

lemma IsNewerI:
  "parseVersion a = Some av \<Longrightarrow> parseVersion b = Some bv \<Longrightarrow>
   cmpNums (nums av) (nums bv) > 0 \<or> nums av = nums bv \<and> cmpPre (pre av) (pre bv) > 0 \<Longrightarrow>
   IsNewer a b"
  using parseVersion_length [of a av] parseVersion_length [of b bv]
  by (auto simp: IsNewer_def CompareVersions_def cmpNums_eq_0)

lemma IsNewer_trans: "IsNewer a b \<Longrightarrow> IsNewer b c \<Longrightarrow> IsNewer a c"
proof (elim IsNewerD)
  fix av bv bv' cv
  assume a: "parseVersion a = Some av" and b: "parseVersion b = Some bv"
    and b': "parseVersion b = Some bv'" and c: "parseVersion c = Some cv"
    and ab: "cmpNums (nums av) (nums bv) > 0 \<or> nums av = nums bv \<and> cmpPre (pre av) (pre bv) > 0"
    and bc: "cmpNums (nums bv') (nums cv) > 0 \<or> nums bv' = nums cv \<and> cmpPre (pre bv') (pre cv) > 0"
  note len = parseVersion_length [OF a] parseVersion_length [OF b] parseVersion_length [OF c]
  have eq: "bv' = bv" using b b' by simp
  have "cmpNums (nums av) (nums cv) > 0 \<or> nums av = nums cv \<and> cmpPre (pre av) (pre cv) > 0"
    using ab bc len cmpNums_trans_lt [of "nums av" "nums bv" "nums cv"]
      cmpPre_trans [of "pre av" "pre bv" "pre cv"] unfolding eq by fastforce
  with a c show "IsNewer a c" by (rule IsNewerI)
qed

text \<open>"newer" is a strict order on version strings, also across strings that are no versions:
  nothing is newer than itself, two strings are never newer than each other, and the relation is
  transitive.  A chain of offered updates therefore never returns to an earlier version.\<close>

theorem IsNewer_strict_order:
  "\<not> IsNewer a a \<and> \<not> (IsNewer a b \<and> IsNewer b a) \<and> (IsNewer a b \<and> IsNewer b c \<longrightarrow> IsNewer a c)"
proof -
  have "\<not> IsNewer a a" using CompareVersions_swap [of a a] by (simp add: IsNewer_def)
  moreover have "\<not> (IsNewer a b \<and> IsNewer b a)"
    using CompareVersions_swap [of a b] by (simp add: IsNewer_def)
  ultimately show ?thesis using IsNewer_trans by blast
qed

theorem IsNewer_strict_order_witness:
  "IsNewer ''v0.10.0'' ''0.9.1'' \<and> IsNewer ''0.9.1'' ''v0.9.1-rc2'' \<and> IsNewer ''v0.10.0'' ''v0.9.1-rc2''"
proof -
  have 1: "IsNewer ''v0.10.0'' ''0.9.1''" by code_simp
  have 2: "IsNewer ''0.9.1'' ''v0.9.1-rc2''" by code_simp
  show ?thesis
    using 1 2 IsNewer_strict_order [of "''v0.10.0''" "''0.9.1''" "''v0.9.1-rc2''"] by blast
qed

section \<open>Git-describe builds\<close>

text \<open>A version core is what stands before the first dash: no blank, no dash, no plus sign.\<close>

definition is_core :: "string \<Rightarrow> bool" where
  "is_core s = (\<forall>c\<in>set s. c \<noteq> CHR ''-'' \<and> c \<noteq> CHR ''+'' \<and> \<not> isSpace c)"

lemma isHexDigit_props: "isHexDigit c \<Longrightarrow> c \<noteq> CHR ''+'' \<and> c \<noteq> CHR ''-'' \<and> \<not> isSpace c"
  by (auto simp: isHexDigit_def isDigit_def isSpace_def)

lemma isDigit_props: "isDigit c \<Longrightarrow> c \<noteq> CHR ''+'' \<and> c \<noteq> CHR ''-'' \<and> \<not> isSpace c"
  by (auto simp: isDigit_def isSpace_def)

lemma describeRe_intro:
  assumes "n \<noteq> []" "\<forall>c\<in>set n. isDigit c" "hex \<noteq> []" "\<forall>c\<in>set hex. isHexDigit c"
  shows "describeRe (n @ ''-g'' @ hex)"
proof -
  have dash: "\<not> isDigit CHR ''-''" by (simp add: isDigit_def)
  have "takeWhile isDigit (n @ ''-g'' @ hex) = n"
    using assms(2) dash by (simp add: takeWhile_append)
  moreover have "dropWhile isDigit (n @ ''-g'' @ hex) = ''-g'' @ hex"
    using assms(2) dash by (simp add: dropWhile_append)
  ultimately show ?thesis using assms by (simp add: describeRe_def)
qed

lemma hasPrefix_append_dash:
  "length p = 1 \<Longrightarrow> p \<noteq> ''-'' \<Longrightarrow> hasPrefix (core @ CHR ''-'' # suf) p = hasPrefix core p"
  by (cases p; cases core) auto

lemma is_coreD:
  assumes "is_core s"
  shows "CHR ''+'' \<notin> set s" "CHR ''-'' \<notin> set s" "\<forall>c\<in>set s. \<not> isSpace c"
  using assms unfolding is_core_def by blast+

lemma is_core_drop: "is_core s \<Longrightarrow> is_core (drop n s)"
  unfolding is_core_def by (blast dest: in_set_dropD)

lemma is_core_trimPrefix: "is_core s \<Longrightarrow> is_core (trimPrefix s p)"
  by (simp add: trimPrefix_def is_core_drop)

lemma versionBody_append:
  assumes "is_core core" and "\<forall>c\<in>set suf. \<not> isSpace c"
  shows "versionBody (core @ CHR ''-'' # suf) = versionBody core @ CHR ''-'' # suf"
    and "is_core (versionBody core)"
proof -
  have dash: "\<not> isSpace CHR ''-''" by (simp add: isSpace_def)
  have "\<forall>c\<in>set (core @ CHR ''-'' # suf). \<not> isSpace c"
    using is_coreD(3) [OF assms(1)] assms(2) dash by (simp only: set_append list.set) blast
  then have trims: "trimSpace (core @ CHR ''-'' # suf) = core @ CHR ''-'' # suf" "trimSpace core = core"
    using is_coreD(3) [OF assms(1)] by (simp_all only: trimSpace_no_space)
  have step: "trimPrefix (s @ CHR ''-'' # suf) p = trimPrefix s p @ CHR ''-'' # suf"
    if "length p = 1" "p \<noteq> ''-''" for s p
    using that hasPrefix_append_dash [of p s suf] by (cases s; cases p) (auto simp: trimPrefix_def)
  show "versionBody (core @ CHR ''-'' # suf) = versionBody core @ CHR ''-'' # suf"
    by (simp add: versionBody_def trims step)
  show "is_core (versionBody core)"
    unfolding versionBody_def trims by (intro is_core_trimPrefix assms(1))
qed

lemma splitPre_core: "is_core core \<Longrightarrow> splitPre core = (core, [])"
  by (simp add: splitPre_def is_coreD)

lemma splitPre_dash: "is_core core \<Longrightarrow> splitPre (core @ CHR ''-'' # suf) = (core, suf)"
  by (simp add: splitPre_def is_coreD upto_def fromIdx_def nat_add_distrib)

text \<open>A suffix that \<open>foldPre\<close> folds away does not change what is parsed.\<close>

lemma parseVersion_folded_suffix:
  assumes core: "is_core core" and suf: "\<forall>c\<in>set suf. \<not> isSpace c" "CHR ''+'' \<notin> set suf"
    and folded: "foldPre suf = []"
  shows "parseVersion (core @ CHR ''-'' # suf) = parseVersion core"
proof -
  let ?b = "versionBody core"
  have b: "versionBody (core @ CHR ''-'' # suf) = ?b @ CHR ''-'' # suf" "is_core ?b"
    using versionBody_append [OF core suf(1)] by auto
  have nil: "foldPre [] = []" by (simp add: foldPre_def trimSuffix_def)
  have cuts: "cutAt CHR ''+'' (?b @ CHR ''-'' # suf) = ?b @ CHR ''-'' # suf" "cutAt CHR ''+'' ?b = ?b"
    using is_coreD(1) [OF b(2)] suf(2) by simp_all
  have none: "fillNums 0 [0, 0, 0] (firstThree (splitOn CHR ''.'' [])) = None"
    by (simp add: firstThree_def)
  show ?thesis
  proof (cases "?b = []")
    case True
    with b cuts splitPre_dash [of "[]" suf] none show ?thesis
      by (simp add: parseVersion_def Let_def is_core_def del: fillNums.simps splitOn.simps)
  next
    case False
    with b cuts show ?thesis
      by (simp add: parseVersion_def Let_def splitPre_core splitPre_dash folded nil split: option.split)
  qed
qed

definition describe_suffix :: "string \<Rightarrow> string \<Rightarrow> bool \<Rightarrow> string" where
  "describe_suffix n hex dirty = n @ ''-g'' @ hex @ (if dirty then ''-dirty'' else [])"

lemma foldPre_describe:
  assumes "n \<noteq> []" "\<forall>c\<in>set n. isDigit c" "hex \<noteq> []" "\<forall>c\<in>set hex. isHexDigit c"
  shows "foldPre (describe_suffix n hex dirty) = []"
proof -
  have re: "describeRe (n @ ''-g'' @ hex)" using assms by (rule describeRe_intro)
  have "\<not> hasSuffix (n @ ''-g'' @ hex) ''-dirty''"
  proof
    assume "hasSuffix (n @ ''-g'' @ hex) ''-dirty''"
    then obtain r where "(n @ ''-g'') @ hex = (r @ ''-dirt'') @ ''y''" by (auto simp: hasSuffix_iff)
    then have "last hex = CHR ''y''" using assms(3) by (metis last_appendR last_snoc)
    moreover have "isHexDigit (last hex)" using assms(3,4) by simp
    ultimately show False by (simp add: isHexDigit_def isDigit_def)
  qed
  then have "trimSuffix (describe_suffix n hex dirty) ''-dirty'' = n @ ''-g'' @ hex"
    using trimSuffix_append [of "n @ ''-g'' @ hex" "''-dirty''"]
    by (cases dirty) (auto simp: describe_suffix_def trimSuffix_def)
  with re show ?thesis by (simp add: foldPre_def)
qed

lemma describe_suffix_chars:
  assumes "\<forall>c\<in>set n. isDigit c" "\<forall>c\<in>set hex. isHexDigit c"
  shows "\<forall>c\<in>set (describe_suffix n hex dirty). \<not> isSpace c"
    and "CHR ''+'' \<notin> set (describe_suffix n hex dirty)"
proof -
  have "\<forall>c\<in>set (describe_suffix n hex dirty). \<not> isSpace c \<and> c \<noteq> CHR ''+''"
    unfolding describe_suffix_def set_append ball_Un
    using assms isHexDigit_props isDigit_props by (cases dirty) (auto simp: isSpace_def)
  then show "\<forall>c\<in>set (describe_suffix n hex dirty). \<not> isSpace c"
    and "CHR ''+'' \<notin> set (describe_suffix n hex dirty)" by blast+
qed

text \<open>A git-describe build ("v0.1.1-3-gabc1234", with or without "-dirty") is ordered exactly as
  the release it was built from, against every other version string; so a build that already contains
  a release is never offered that release or an older one.\<close>

theorem describe_build_is_its_release:
  assumes "is_core core" and "n \<noteq> []" and "\<forall>c\<in>set n. isDigit c"
    and "hex \<noteq> []" and "\<forall>c\<in>set hex. isHexDigit c"
  shows "CompareVersions (core @ ''-'' @ describe_suffix n hex dirty) other = CompareVersions core other
    \<and> \<not> IsNewer core (core @ ''-'' @ describe_suffix n hex dirty)"
proof -
  let ?suf = "describe_suffix n hex dirty"
  have eq: "parseVersion (core @ ''-'' @ ?suf) = parseVersion core"
    using parseVersion_folded_suffix [OF assms(1) describe_suffix_chars foldPre_describe] assms(2-5)
    by simp
  have "CompareVersions core core = 0" using CompareVersions_swap [of core core] by simp
  then show ?thesis unfolding IsNewer_def CompareVersions_def eq by simp
qed

theorem describe_build_is_its_release_witness:
  "CompareVersions ''v0.1.1-3-gabc1234-dirty'' ''v0.1.2'' = CompareVersions ''v0.1.1'' ''v0.1.2''
   \<and> \<not> IsNewer ''v0.1.1'' ''v0.1.1-3-gabc1234-dirty''"
proof -
  have h: "is_core ''v0.1.1''" "''3'' \<noteq> []" "\<forall>c\<in>set ''3''. isDigit c"
    "''abc1234'' \<noteq> []" "\<forall>c\<in>set ''abc1234''. isHexDigit c"
    by code_simp+
  show ?thesis
    using describe_build_is_its_release [OF h, of True "''v0.1.2''"]
    by (simp add: describe_suffix_def)
qed

section \<open>Retagging\<close>

text \<open>The registry and repository of a reference: what \<open>Retag\<close> keeps.\<close>

definition repoPart :: "string \<Rightarrow> string" where
  "repoPart img =
     (let base = stripDigest img; i = lastIndexByte base CHR '':''
      in if i > lastIndexByte base CHR ''/'' then upto base i else base)"

lemma Retag_eq: "img \<noteq> [] \<Longrightarrow> tag \<noteq> [] \<Longrightarrow> Retag img tag = repoPart img @ CHR '':'' # tag"
  by (simp add: Retag_def repoPart_def Let_def)

lemma repoPart_no_at: "CHR ''@'' \<notin> set (repoPart img)"
  unfolding repoPart_def Let_def stripDigest_def cutAt_takeWhile upto_def
  by (auto dest: in_set_takeD set_takeWhileD split: if_splits)

lemma ref_with_tag:
  assumes "CHR ''@'' \<notin> set r" and "CHR ''@'' \<notin> set tag" "CHR ''/'' \<notin> set tag" "CHR '':'' \<notin> set tag"
  shows "TagOf (r @ CHR '':'' # tag) = tag" and "repoPart (r @ CHR '':'' # tag) = r"
proof -
  have strip: "stripDigest (r @ CHR '':'' # tag) = r @ CHR '':'' # tag"
    using assms(1,2) by (simp add: stripDigest_def)
  have colon: "lastIndexByte (r @ CHR '':'' # tag) CHR '':'' = int (length r)"
    using assms(4) by simp
  have "lastIndexByte (r @ CHR '':'' # tag) CHR ''/'' = lastIndexByte r CHR ''/''"
    using assms(3) lastIndexByte_append_notin [of "CHR ''/''" "CHR '':'' # tag" r] by simp
  then have slash: "lastIndexByte (r @ CHR '':'' # tag) CHR ''/'' < int (length r)"
    using lastIndexByte_less [of r "CHR ''/''"] by simp
  show "TagOf (r @ CHR '':'' # tag) = tag"
    using slash by (simp add: TagOf_def strip colon Let_def fromIdx_def nat_add_distrib)
  show "repoPart (r @ CHR '':'' # tag) = r"
    using slash by (simp add: repoPart_def strip colon Let_def upto_def)
qed

text \<open>Retagging an image reference sets exactly the tag: the tag read back is the new one, the
  registry (with its port) and repository are kept, a digest and an older tag are gone, and retagging
  twice is retagging once.\<close>

theorem Retag_roundtrip:
  assumes "img \<noteq> []" and "tag \<noteq> []"
    and "CHR ''@'' \<notin> set tag" and "CHR ''/'' \<notin> set tag" and "CHR '':'' \<notin> set tag"
  shows "TagOf (Retag img tag) = tag \<and> repoPart (Retag img tag) = repoPart img
     \<and> Retag (Retag img tag) tag' = Retag img tag'"
proof -
  note eq = Retag_eq [OF assms(1,2)]
  have "TagOf (Retag img tag) = tag" and "repoPart (Retag img tag) = repoPart img"
    unfolding eq using ref_with_tag [OF repoPart_no_at assms(3-5)] by auto
  moreover from this(2) have "Retag (Retag img tag) tag' = Retag img tag'"
    using Retag_eq [of "Retag img tag" tag'] Retag_eq [OF assms(1), of tag'] eq
    by (cases "tag' = []") (auto simp: Retag_def)
  ultimately show ?thesis by blast
qed

theorem Retag_roundtrip_witness:
  "TagOf (Retag ''localhost:5000/x/wnd@sha256:ab'' ''v0.1.2'') = ''v0.1.2''
   \<and> repoPart (Retag ''localhost:5000/x/wnd@sha256:ab'' ''v0.1.2'') = ''localhost:5000/x/wnd''"
proof -
  have r: "repoPart ''localhost:5000/x/wnd@sha256:ab'' = ''localhost:5000/x/wnd''" by code_simp
  show ?thesis
    using Retag_roundtrip [of "''localhost:5000/x/wnd@sha256:ab''" "''v0.1.2''"] by (simp add: r)
qed

section \<open>The check\<close>

lemma releaseSignal_kind:
  "r_kind res = KindNone \<Longrightarrow> r_kind (releaseSignal cur a res) = KindRelease \<or> r_kind (releaseSignal cur a res) = KindNone"
  by (auto simp: releaseSignal_def Let_def split: sum.splits option.splits)

lemma releaseSignal_fires:
  assumes "r_kind (releaseSignal cur a res) = KindRelease" and "r_kind res = KindNone" "r_target res = []"
  obtains rel where "a = Inr (Some rel)" "sr_tag rel \<noteq> []" "IsNewer (sr_tag rel) (c_version cur)"
    "r_latest (releaseSignal cur a res) = sr_tag rel"
    "r_target (releaseSignal cur a res) = Retag (c_image cur) (sr_tag rel)"
proof -
  from assms(1,2) obtain rel where rel: "a = Inr (Some rel)" "sr_tag rel \<noteq> []"
      "IsNewer (sr_tag rel) (c_version cur)"
    by (auto simp: releaseSignal_def Let_def split: sum.splits option.splits if_splits)
  moreover have "r_latest (releaseSignal cur a res) = sr_tag rel"
    using rel by (simp add: releaseSignal_def Let_def)
  moreover have "r_target (releaseSignal cur a res) = Retag (c_image cur) (sr_tag rel)"
    using rel assms(3) by (simp add: releaseSignal_def Let_def Retag_def)
  ultimately show ?thesis by (rule that)
qed

lemma releaseSignal_error: "r_error res = [] \<Longrightarrow> r_error (releaseSignal cur (Inl e) res) = msg e"
  by (simp add: releaseSignal_def)

lemma digestSignal_cases:
  obtains (same) "digestSignal cur d res = res"
  | (build) f latest where "d = Some f" "r_kind res = KindNone" "c_image cur \<noteq> []" "c_digest cur \<noteq> []"
      "f (c_image cur) (c_digest cur) = Inr (True, latest)"
      "digestSignal cur d res = res\<lparr>r_kind := KindBuild, r_target := c_image cur,
         r_latestDigest := latest, r_latest := []\<rparr>"
proof (cases "digestSignal cur d res = res")
  case False
  then obtain f where f: "d = Some f" "r_kind res = KindNone \<and> c_image cur \<noteq> [] \<and> c_digest cur \<noteq> []"
    by (auto simp: digestSignal_def split: option.splits if_splits)
  with False obtain latest where "f (c_image cur) (c_digest cur) = Inr (True, latest)"
    by (auto simp: digestSignal_def split: sum.splits prod.splits bool.splits)
  with f have "digestSignal cur d res = res\<lparr>r_kind := KindBuild, r_target := c_image cur,
         r_latestDigest := latest, r_latest := []\<rparr>"
    by (simp add: digestSignal_def)
  with f \<open>f _ _ = _\<close> show ?thesis by (intro build [of f latest]) simp_all
qed (rule same)

lemma finishResult_sel [simp]:
  "r_kind (finishResult res) = r_kind res" "r_latest (finishResult res) = r_latest res"
  "r_error (finishResult res) = r_error res"
  "r_available (finishResult res) = (r_kind res \<noteq> KindNone)"
  "r_target (finishResult res) = (if r_kind res = KindNone then [] else r_target res)"
  by (simp_all add: finishResult_def Let_def)

text \<open>What a check may conclude, as a specification: the verdicts of the two signals.\<close>

definition verdict_ok ::
  "current \<Rightarrow> (err + sRelease option) option \<Rightarrow> (string \<Rightarrow> string \<Rightarrow> err + bool \<times> string) option
     \<Rightarrow> result \<Rightarrow> bool" where
  "verdict_ok cur fetched digest res =
     (case r_kind res of
        KindNone \<Rightarrow> \<not> r_available res \<and> r_target res = []
      | KindRelease \<Rightarrow> r_available res \<and>
          (\<exists>rel. fetched = Some (Inr (Some rel)) \<and> IsNewer (sr_tag rel) (c_version cur)
             \<and> r_latest res = sr_tag rel \<and> r_target res = Retag (c_image cur) (sr_tag rel))
      | KindBuild \<Rightarrow> r_available res \<and> c_digest cur \<noteq> [] \<and> r_latest res = []
          \<and> r_target res = c_image cur
          \<and> (\<exists>f latest. digest = Some f \<and> f (c_image cur) (c_digest cur) = Inr (True, latest)))"

text \<open>A check offers an update only on one of its two signals: a published release that is strictly
  newer than the running version, deployed as the running image retagged to it, or a rebuilt tag of an
  image that has a registry digest, deployed as the very same reference.  A failed release lookup leaves
  its error in the result, and the cached result is the one just computed.\<close>

theorem Check_sound:
  "let (res, c') = Check now cur fetched digest c
   in verdict_ok cur fetched digest res \<and> Cached c' = res
      \<and> (\<forall>e. fetched = Some (Inl e) \<longrightarrow> r_error res = msg e)"
proof -
  define res0 where "res0 = no_result\<lparr>r_current := c_version cur, r_image := c_image cur,
                           r_currentDigest := c_digest cur, r_checkedAt := now\<rparr>"
  define res1 where "res1 = (case fetched of None \<Rightarrow> res0 | Some a \<Rightarrow> releaseSignal cur a res0)"
  define res2 where "res2 = digestSignal cur digest res1"
  have r0: "r_kind res0 = KindNone" "r_target res0 = []" "r_error res0 = []"
    by (simp_all add: res0_def no_result_def)
  have k1: "r_kind res1 = KindRelease \<or> r_kind res1 = KindNone"
    using releaseSignal_kind [OF r0(1)] r0(1) by (auto simp: res1_def split: option.splits)
  have eq: "Check now cur fetched digest c = (finishResult res2, c\<lparr>ck_result := finishResult res2\<rparr>)"
    unfolding Check_def res2_def res1_def res0_def Let_def by (rule refl)
  have err1: "\<forall>e. fetched = Some (Inl e) \<longrightarrow> r_error res1 = msg e"
    using releaseSignal_error [OF r0(3)] by (simp add: res1_def)
  have "verdict_ok cur fetched digest (finishResult res2) \<and> r_error res2 = r_error res1"
  proof (cases rule: digestSignal_cases [of cur digest res1])
    case same
    then have e: "res2 = res1" by (simp add: res2_def)
    from k1 show ?thesis
    proof
      assume k: "r_kind res1 = KindRelease"
      then obtain a where a: "fetched = Some a" "res1 = releaseSignal cur a res0"
        using r0(1) by (auto simp: res1_def split: option.splits)
      with k r0 obtain rel where "a = Inr (Some rel)" "IsNewer (sr_tag rel) (c_version cur)"
          "r_latest res1 = sr_tag rel" "r_target res1 = Retag (c_image cur) (sr_tag rel)"
        by (metis releaseSignal_fires)
      with a k e show ?thesis by (simp add: verdict_ok_def)
    qed (simp add: verdict_ok_def e)
  next
    case (build f latest)
    then show ?thesis by (simp add: verdict_ok_def res2_def)
  qed
  with eq err1 show ?thesis by (simp add: Cached_def)
qed

theorem Check_sound_witness:
  "r_target (fst (Check 7 \<lparr>c_version = ''v0.1.1'', c_image = ''ghcr.io/x/wnd:latest'', c_digest = ''sha256:old''\<rparr>
      (Some (Inl (errors_new ''boom''))) (Some (\<lambda>i d. Inr (True, ''sha256:new''))) (New \<lparr>c_version = ''v0.1.1'',
      c_image = [], c_digest = []\<rparr>))) = ''ghcr.io/x/wnd:latest''
   \<and> r_error (fst (Check 7 \<lparr>c_version = ''v0.1.1'', c_image = ''ghcr.io/x/wnd:latest'', c_digest = ''sha256:old''\<rparr>
      (Some (Inl (errors_new ''boom''))) (Some (\<lambda>i d. Inr (True, ''sha256:new''))) (New \<lparr>c_version = ''v0.1.1'',
      c_image = [], c_digest = []\<rparr>))) = ''boom''"
  using Check_sound [of 7 "\<lparr>c_version = ''v0.1.1'', c_image = ''ghcr.io/x/wnd:latest'', c_digest = ''sha256:old''\<rparr>"
      "Some (Inl (errors_new ''boom''))" "Some (\<lambda>i d. Inr (True, ''sha256:new''))"
      "New \<lparr>c_version = ''v0.1.1'', c_image = [], c_digest = []\<rparr>"]
  by (simp add: Check_def Let_def releaseSignal_def digestSignal_def no_result_def finishResult_def)

text \<open>The release signal does not look at the digest: an image without a registry digest (one built
  locally) is offered a newer published release all the same.\<close>

theorem local_build_is_offered_release:
  assumes "c_digest cur = []" and "sr_tag rel \<noteq> []" and "IsNewer (sr_tag rel) (c_version cur)"
  shows "r_available (fst (Check now cur (Some (Inr (Some rel))) digest c))"
proof -
  have "r_kind (releaseSignal cur (Inr (Some rel)) res) = KindRelease" for res
    using assms(2,3) by (simp add: releaseSignal_def Let_def)
  then show ?thesis
    using assms(1) by (simp add: Check_def Let_def digestSignal_def split: option.split)
qed

theorem local_build_is_offered_release_witness:
  "r_available (fst (Check 7 \<lparr>c_version = ''v0.1.1'', c_image = ''wnd:dev'', c_digest = []\<rparr>
     (Some (Inr (Some \<lparr>sr_tag = ''v0.1.2'', sr_url = [], sr_name = [], sr_published = 5, sr_prerelease = False\<rparr>)))
     None (New \<lparr>c_version = ''v0.1.1'', c_image = [], c_digest = []\<rparr>)))"
proof -
  have "IsNewer ''v0.1.2'' ''v0.1.1''" by code_simp
  then show ?thesis by (intro local_build_is_offered_release) simp_all
qed

end
