(* ===== verification/Models.thy ===== *)
theory Models
  imports GoStrings
begin

text \<open>
  The rows of \<open>internal/store/models.go\<close>.  The string-typed enumerations \<open>ServerKind\<close> and
  \<open>SwarmRole\<close> are datatypes with one more constructor for the empty (unset) string; they are only
  ever assigned from the constants.  A stack's kind, a container's state and a command's status come
  from the wire as free strings and stay strings.  A nullable column that the code reads through
  \<open>sql.NullString\<close> holds the empty string for NULL, which is what the code reads.
\<close>

datatype serverKind = KindUnset | ServerLocal | ServerAgent | ServerDirect

datatype swarmRole = RoleUnset | SwarmNone | SwarmWorker | SwarmManager

record server =
  sv_id :: string
  sv_name :: string
  sv_isLocal :: bool
  sv_kind :: serverKind
  sv_status :: string
  sv_lastSeen :: gotime
  sv_dockerVersion :: string
  sv_os :: string
  sv_arch :: string
  sv_cpus :: int
  sv_memory :: int
  sv_labels :: "string list"
  sv_role :: swarmRole
  sv_services :: bool
  sv_agentVersion :: string
  sv_agentImage :: string
  sv_agentDigest :: string
  sv_dockerHost :: string
  sv_tlsCA :: string
  sv_tlsCert :: string
  sv_tlsKey :: string
  sv_tokenHash :: string
  sv_nameCustom :: bool
  sv_created :: gotime
  sv_updated :: gotime

definition empty_server :: server where
  "empty_server = \<lparr>sv_id = [], sv_name = [], sv_isLocal = False, sv_kind = KindUnset, sv_status = [],
     sv_lastSeen = zero_time, sv_dockerVersion = [], sv_os = [], sv_arch = [], sv_cpus = 0,
     sv_memory = 0, sv_labels = [], sv_role = RoleUnset, sv_services = False, sv_agentVersion = [],
     sv_agentImage = [], sv_agentDigest = [], sv_dockerHost = [], sv_tlsCA = [], sv_tlsCert = [],
     sv_tlsKey = [], sv_tokenHash = [], sv_nameCustom = False, sv_created = zero_time,
     sv_updated = zero_time\<rparr>"

definition TLSEnabled :: "server \<Rightarrow> bool" where
  "TLSEnabled s \<longleftrightarrow> sv_tlsCA s \<noteq> [] \<or> sv_tlsCert s \<noteq> [] \<or> sv_tlsKey s \<noteq> []"

record stack =
  sk_id :: string
  sk_server :: string
  sk_name :: string
  sk_kind :: string
  sk_count :: nat

record container =
  ct_id :: string
  ct_server :: string
  ct_stackID :: string
  ct_stackName :: string
  ct_dockerID :: string
  ct_name :: string
  ct_image :: string
  ct_imageName :: string
  ct_imageTag :: string
  ct_imageDigest :: string
  ct_registry :: string
  ct_repository :: string
  ct_state :: string
  ct_status :: string
  ct_running :: bool
  ct_restartPolicy :: string
  ct_composeService :: string
  ct_created :: gotime
  ct_started :: gotime
  ct_labels :: labels
  ct_ports :: "string list"
  ct_pinned :: bool
  ct_systemdUnit :: string
  ct_managed :: bool
  ct_swarmServiceID :: string
  ct_swarmServiceName :: string
  ct_swarmTaskID :: string
  ct_swarmNodeID :: string
  ct_updated :: gotime

definition empty_container :: container where
  "empty_container = \<lparr>ct_id = [], ct_server = [], ct_stackID = [], ct_stackName = [], ct_dockerID = [],
     ct_name = [], ct_image = [], ct_imageName = [], ct_imageTag = [], ct_imageDigest = [],
     ct_registry = [], ct_repository = [], ct_state = [], ct_status = [], ct_running = False,
     ct_restartPolicy = [], ct_composeService = [], ct_created = zero_time, ct_started = zero_time,
     ct_labels = [], ct_ports = [], ct_pinned = False, ct_systemdUnit = [], ct_managed = False,
     ct_swarmServiceID = [], ct_swarmServiceName = [], ct_swarmTaskID = [], ct_swarmNodeID = [],
     ct_updated = zero_time\<rparr>"

record updateRow =
  up_id :: string
  up_container :: string
  up_repoKey :: string
  up_currentTag :: string
  up_latestTag :: string
  up_versionsBehind :: int
  up_source :: string
  up_sourceURL :: string
  up_checkedAt :: gotime

record release =
  rl_id :: string
  rl_repoKey :: string
  rl_tag :: string
  rl_title :: string
  rl_body :: string
  rl_url :: string
  rl_published :: gotime
  rl_prerelease :: bool

record user =
  us_id :: string
  us_username :: string
  us_role :: string
  us_hash :: string
  us_created :: gotime

record event =
  ev_id :: int
  ev_timestamp :: gotime
  ev_kind :: string
  ev_actor :: string
  ev_server :: string
  ev_container :: string
  ev_message :: string

record command =
  cm_id :: string
  cm_server :: string
  cm_kind :: string
  cm_container :: string
  cm_target :: string
  cm_status :: string
  cm_result :: string
  cm_created :: gotime
  cm_updated :: gotime

text \<open>\<open>ContainerWithUpdate\<close>: the embedded container is a field.\<close>

record containerWithUpdate =
  cu_container :: container
  cu_serverName :: string
  cu_update :: "updateRow option"

record containerFilter =
  cf_server :: string
  cf_stack :: string
  cf_registry :: string
  cf_repository :: string
  cf_state :: string
  cf_hasUpdate :: bool
  cf_search :: string
  cf_limit :: int

record updateFilter =
  uf_server :: string
  uf_stack :: string
  uf_search :: string

end
