(* ===== verification/Store.thy ===== *)
theory Store
  imports Models "HOL-Library.Product_Lexorder"
begin

text \<open>
  The persistence layer: \<open>internal/store/entities.go\<close>, \<open>extra.go\<close> and the settings of
  \<open>store.go\<close>.  The database is the record \<open>db\<close> of its tables, each a list of rows in
  insertion order.  A statement returns the new database or an error; the connection is serialised
  (\<open>SetMaxOpenConns(1)\<close>), so statements do not interleave, and a transaction that fails leaves the
  caller with the database it began with (\<open>tx.Rollback\<close>).  The constraints the schema declares
  (primary keys, UNIQUE, the foreign key of \<open>updates\<close> with its cascade) are checked by the
  statements themselves; I/O errors of the database file are not modelled.

  Calls of \<open>newID\<close> and \<open>time.Now\<close> are arguments: the id a statement would draw, or a
  supply \<open>ids\<close> of them where there are many, and the current time.
\<close>

section \<open>The database\<close>

record db =
  servers :: "server list"
  stacks :: "stack list"
  containers :: "container list"
  updates :: "updateRow list"
  releases :: "release list"
  users :: "user list"
  settings :: "(string \<times> string) list"
  events :: "event list"
  lastEvent :: int
  commands :: "command list"

definition empty_db :: db where
  "empty_db = \<lparr>servers = [], stacks = [], containers = [], updates = [], releases = [], users = [],
     settings = [], events = [], lastEvent = 0, commands = []\<rparr>"

definition errNoRows :: err where
  "errNoRows = Err (Some NoRows) ''sql: no rows in result set''"

definition errUnique :: "string \<Rightarrow> err" where
  "errUnique what = errors_new (''UNIQUE constraint failed: '' @ what)"

definition errForeignKey :: err where
  "errForeignKey = errors_new ''FOREIGN KEY constraint failed''"

text \<open>A statement that leaves the rows \<open>rows\<close> fails when they violate uniqueness of a key.\<close>

definition unique_on :: "string \<Rightarrow> ('a \<Rightarrow> 'k) \<Rightarrow> 'a list \<Rightarrow> err + 'a list" where
  "unique_on what key rows = (if distinct (map key rows) then Inr rows else Inl (errUnique what))"

lemma unique_on_Inr: "unique_on what key rows = Inr rows' \<longleftrightarrow> rows' = rows \<and> distinct (map key rows)"
  by (auto simp: unique_on_def)

text \<open>
  \<open>ts\<close> renders a time as RFC 3339 with a fraction of a second whose trailing zeros are dropped, and
  SQLite compares such columns as text.  Seconds have fixed width, so two times compare by their second
  and then by the text of the fraction, which ends in \<open>Z\<close>.
\<close>

definition digitChar :: "int \<Rightarrow> char" where
  "digitChar d = char_of (nat (48 + d))"

definition nanosText :: "int \<Rightarrow> string" where
  "nanosText n = map (\<lambda>k. digitChar (n div 10 ^ (8 - k) mod 10)) [0..<9]"

definition fractionText :: "int \<Rightarrow> string" where
  "fractionText n =
     (let ds = rev (dropWhile (\<lambda>c. c = CHR ''0'') (rev (nanosText n)))
      in (if ds = [] then [] else CHR ''.'' # ds) @ ''Z'')"

definition ts :: "gotime \<Rightarrow> int \<times> string" where
  "ts t = (t div second, fractionText (t mod second))"

section \<open>Settings\<close>

definition GetSetting :: "string \<Rightarrow> db \<Rightarrow> err + string" where
  "GetSetting key d = (case map_of (settings d) key of None \<Rightarrow> Inr [] | Some v \<Rightarrow> Inr v)"

fun put_setting :: "string \<Rightarrow> string \<Rightarrow> (string \<times> string) list \<Rightarrow> (string \<times> string) list" where
  "put_setting key v [] = [(key, v)]"
| "put_setting key v ((k, w) # kvs) = (if k = key then (k, v) # kvs else (k, w) # put_setting key v kvs)"

definition SetSetting :: "string \<Rightarrow> string \<Rightarrow> db \<Rightarrow> err + db" where
  "SetSetting key v d = Inr (d\<lparr>settings := put_setting key v (settings d)\<rparr>)"

section \<open>Servers\<close>

text \<open>Reading a row back: the local flag decides the kind, unset columns get their defaults, the token
  hash is never read.\<close>

definition scanServer :: "server \<Rightarrow> server" where
  "scanServer r = r\<lparr>sv_role := (if sv_role r = RoleUnset then SwarmNone else sv_role r),
     sv_tokenHash := [],
     sv_kind := (if sv_isLocal r then ServerLocal
                 else if sv_kind r = KindUnset then ServerAgent else sv_kind r)\<rparr>"

definition ListServers :: "db \<Rightarrow> server list" where
  "ListServers d = map scanServer (sort_key sv_name (servers d))"

definition GetServer :: "string \<Rightarrow> db \<Rightarrow> err + server" where
  "GetServer i d = (case find (\<lambda>r. sv_id r = i) (servers d) of
      None \<Rightarrow> Inl errNoRows | Some r \<Rightarrow> Inr (scanServer r))"

definition DeleteServer :: "string \<Rightarrow> db \<Rightarrow> err + db" where
  "DeleteServer i d = Inr (d\<lparr>servers := filter (\<lambda>r. sv_id r \<noteq> i) (servers d)\<rparr>)"

text \<open>A NULL column never equals a token hash, so an empty one selects nothing.\<close>

definition GetServerByTokenHash :: "string \<Rightarrow> db \<Rightarrow> err + server option" where
  "GetServerByTokenHash hash d =
     Inr (map_option scanServer (find (\<lambda>r. sv_tokenHash r \<noteq> [] \<and> sv_tokenHash r = hash) (servers d)))"

text \<open>The second component is the caller's \<open>*Server\<close>, whose id, kind and creation time are filled in.\<close>

definition CreateServer :: "string \<Rightarrow> gotime \<Rightarrow> server \<Rightarrow> db \<Rightarrow> err + server \<times> db" where
  "CreateServer newID now srv0 d =
     (let srv1 = (if sv_id srv0 = [] then srv0\<lparr>sv_id := newID\<rparr> else srv0);
          srv2 = (if sv_kind srv1 = KindUnset
                  then srv1\<lparr>sv_kind := (if sv_isLocal srv1 then ServerLocal else ServerAgent)\<rparr>
                  else srv1);
          srv = (if sv_created srv2 = zero_time then srv2\<lparr>sv_created := now\<rparr> else srv2);
          row = empty_server\<lparr>sv_id := sv_id srv, sv_name := sv_name srv, sv_isLocal := sv_isLocal srv,
                  sv_kind := sv_kind srv, sv_status := sv_status srv, sv_tokenHash := sv_tokenHash srv,
                  sv_dockerHost := sv_dockerHost srv, sv_tlsCA := sv_tlsCA srv,
                  sv_tlsCert := sv_tlsCert srv, sv_tlsKey := sv_tlsKey srv,
                  sv_nameCustom := sv_nameCustom srv, sv_labels := sv_labels srv,
                  sv_role := SwarmNone, sv_created := now, sv_updated := now\<rparr>
      in and_then (unique_on ''servers.id'' sv_id (servers d @ [row]))
           (\<lambda>rows. Inr (srv, d\<lparr>servers := rows\<rparr>)))"

definition upd_server :: "string \<Rightarrow> (server \<Rightarrow> server) \<Rightarrow> db \<Rightarrow> db" where
  "upd_server i f d = d\<lparr>servers := upd_rows (\<lambda>r. sv_id r = i) f (servers d)\<rparr>"

definition UpdateServerName :: "string \<Rightarrow> string \<Rightarrow> gotime \<Rightarrow> db \<Rightarrow> err + db" where
  "UpdateServerName i name now d =
     Inr (upd_server i (\<lambda>r. r\<lparr>sv_name := name, sv_nameCustom := True, sv_updated := now\<rparr>) d)"

definition UpdateServerEndpoint ::
  "string \<Rightarrow> string \<Rightarrow> string \<Rightarrow> string \<Rightarrow> string \<Rightarrow> gotime \<Rightarrow> db \<Rightarrow> err + db" where
  "UpdateServerEndpoint i dockerHost ca cert key now d =
     Inr (upd_server i (\<lambda>r. r\<lparr>sv_dockerHost := dockerHost, sv_tlsCA := ca, sv_tlsCert := cert,
            sv_tlsKey := key, sv_updated := now\<rparr>) d)"

definition ListServersByKind :: "serverKind \<Rightarrow> db \<Rightarrow> server list" where
  "ListServersByKind k d =
     map scanServer (sort_key sv_name (filter (\<lambda>r. sv_kind r = k) (servers d)))"

definition MarkServerOffline :: "string \<Rightarrow> db \<Rightarrow> err + db" where
  "MarkServerOffline i d = Inr (upd_server i (\<lambda>r. r\<lparr>sv_status := ''offline''\<rparr>) d)"

definition MarkAllOffline :: "db \<Rightarrow> err + db" where
  "MarkAllOffline d =
     Inr (d\<lparr>servers := upd_rows (\<lambda>r. \<not> sv_isLocal r) (\<lambda>r. r\<lparr>sv_status := ''offline''\<rparr>) (servers d)\<rparr>)"

text \<open>Deleting container rows takes their update rows along (ON DELETE CASCADE).\<close>

definition delete_containers :: "(container \<Rightarrow> bool) \<Rightarrow> db \<Rightarrow> db" where
  "delete_containers p d =
     (let gone = map ct_id (filter p (containers d))
      in d\<lparr>containers := filter (\<lambda>c. \<not> p c) (containers d),
           updates := filter (\<lambda>u. up_container u \<notin> set gone) (updates d)\<rparr>)"

definition DeleteServerCascade :: "string \<Rightarrow> db \<Rightarrow> err + db" where
  "DeleteServerCascade i d =
     (let d1 = d\<lparr>commands := filter (\<lambda>c. cm_server c \<noteq> i) (commands d)\<rparr>;
          d2 = delete_containers (\<lambda>c. ct_server c = i) d1;
          d3 = d2\<lparr>stacks := filter (\<lambda>s. sk_server s \<noteq> i) (stacks d2)\<rparr>
      in DeleteServer i d3)"

section \<open>Stacks and containers\<close>

definition ListStacks :: "string \<Rightarrow> db \<Rightarrow> stack list" where
  "ListStacks serverID d =
     map (\<lambda>s. s\<lparr>sk_count := length (filter (\<lambda>c. ct_stackID c = sk_id s) (containers d))\<rparr>)
       (sort_key sk_name (filter (\<lambda>s. serverID = [] \<or> sk_server s = serverID) (stacks d)))"

text \<open>SQLite's \<open>LIKE\<close>: \<open>%\<close> is any run of characters, \<open>_\<close> any one, letters match in either case.\<close>

fun sqlLike :: "string \<Rightarrow> string \<Rightarrow> bool" where
  "sqlLike [] t \<longleftrightarrow> t = []"
| "sqlLike (c # p) t \<longleftrightarrow>
     (if c = CHR ''%'' then (\<exists>k\<in>set [0..<Suc (length t)]. sqlLike p (drop k t))
      else t \<noteq> [] \<and> (c = CHR ''_'' \<or> toLowerChar c = toLowerChar (hd t)) \<and> sqlLike p (tl t))"

text \<open>The join of a container with its server (an inner join), its stack and its update (outer joins),
  and \<open>scanContainers\<close>, which reads the joined row.\<close>

definition join_container :: "db \<Rightarrow> container \<Rightarrow> containerWithUpdate option" where
  "join_container d c =
     (case find (\<lambda>r. sv_id r = ct_server c) (servers d) of
        None \<Rightarrow> None
      | Some srv \<Rightarrow>
          Some \<lparr>cu_container = c\<lparr>ct_stackName :=
                  (case find (\<lambda>s. ct_stackID c \<noteq> [] \<and> sk_id s = ct_stackID c) (stacks d) of
                     None \<Rightarrow> [] | Some s \<Rightarrow> sk_name s)\<rparr>,
                cu_serverName = sv_name srv,
                cu_update = find (\<lambda>u. up_container u = ct_id c) (updates d)\<rparr>)"

definition buildContainerWhere :: "containerFilter \<Rightarrow> containerWithUpdate \<Rightarrow> bool" where
  "buildContainerWhere f cu \<longleftrightarrow>
     (let c = cu_container cu in
      (cf_server f \<noteq> [] \<longrightarrow> ct_server c = cf_server f)
    \<and> (cf_stack f \<noteq> [] \<longrightarrow> ct_stackID c = cf_stack f)
    \<and> (cf_registry f \<noteq> [] \<longrightarrow> ct_registry c = cf_registry f)
    \<and> (cf_repository f \<noteq> [] \<longrightarrow> ct_repository c = cf_repository f)
    \<and> (cf_state f = ''running'' \<longrightarrow> ct_running c)
    \<and> (cf_state f = ''stopped'' \<longrightarrow> \<not> ct_running c)
    \<and> (cf_hasUpdate f \<longrightarrow> cu_update cu \<noteq> None)
    \<and> (cf_search f \<noteq> [] \<longrightarrow>
         (let like = ''%'' @ cf_search f @ ''%''
          in sqlLike like (ct_name c) \<or> sqlLike like (ct_image c) \<or> sqlLike like (cu_serverName cu))))"

definition ListContainers :: "containerFilter \<Rightarrow> db \<Rightarrow> containerWithUpdate list" where
  "ListContainers f d =
     (let rows = filter (buildContainerWhere f) (List.map_filter (join_container d) (containers d));
          sorted_rows = sort_key (\<lambda>cu. (cu_serverName cu, ct_stackName (cu_container cu), ct_name (cu_container cu))) rows
      in if cf_limit f > 0 then take (nat (cf_limit f)) sorted_rows else sorted_rows)"

definition GetContainer :: "string \<Rightarrow> db \<Rightarrow> err + containerWithUpdate" where
  "GetContainer i d =
     (case List.map_filter (join_container d) (filter (\<lambda>c. ct_id c = i) (containers d)) of
        [] \<Rightarrow> Inl errNoRows | cu # _ \<Rightarrow> Inr cu)"

definition SetContainerPinned :: "string \<Rightarrow> bool \<Rightarrow> db \<Rightarrow> err + db" where
  "SetContainerPinned i b d =
     Inr (d\<lparr>containers := upd_rows (\<lambda>c. ct_id c = i) (\<lambda>c. c\<lparr>ct_pinned := b\<rparr>) (containers d)\<rparr>)"

definition ContainerIDByDockerID :: "string \<Rightarrow> string \<Rightarrow> db \<Rightarrow> err + string" where
  "ContainerIDByDockerID serverID dockerID d =
     (case find (\<lambda>c. ct_server c = serverID \<and> ct_dockerID c = dockerID) (containers d) of
        None \<Rightarrow> Inl errNoRows | Some c \<Rightarrow> Inr (ct_id c))"

section \<open>Updates\<close>

definition UpsertUpdate :: "string \<Rightarrow> updateRow \<Rightarrow> db \<Rightarrow> err + db" where
  "UpsertUpdate newID u0 d =
     (let u = (if up_id u0 = [] then u0\<lparr>up_id := newID\<rparr> else u0) in
      if \<exists>r\<in>set (updates d). up_container r = up_container u
      then Inr (d\<lparr>updates := upd_rows (\<lambda>r. up_container r = up_container u)
                  (\<lambda>r. r\<lparr>up_repoKey := up_repoKey u, up_currentTag := up_currentTag u,
                     up_latestTag := up_latestTag u, up_versionsBehind := up_versionsBehind u,
                     up_source := up_source u, up_sourceURL := up_sourceURL u,
                     up_checkedAt := up_checkedAt u\<rparr>) (updates d)\<rparr>)
      else and_then (unique_on ''updates.id'' up_id (updates d @ [u]))
             (\<lambda>rows. if up_container u \<in> set (map ct_id (containers d))
                     then Inr (d\<lparr>updates := rows\<rparr>) else Inl errForeignKey))"

definition DeleteUpdate :: "string \<Rightarrow> db \<Rightarrow> err + db" where
  "DeleteUpdate containerID d =
     Inr (d\<lparr>updates := filter (\<lambda>u. up_container u \<noteq> containerID) (updates d)\<rparr>)"

definition ListUpdates :: "updateFilter \<Rightarrow> db \<Rightarrow> containerWithUpdate list" where
  "ListUpdates f d =
     ListContainers \<lparr>cf_server = uf_server f, cf_stack = uf_stack f, cf_registry = [], cf_repository = [],
       cf_state = [], cf_hasUpdate = True, cf_search = uf_search f, cf_limit = 0\<rparr> d"

section \<open>Releases\<close>

text \<open>One transaction: the repository's old rows go, the new ones are inserted one by one; the supply
  gives the k-th release its id when it has none.\<close>

definition insert_release :: "string \<Rightarrow> release \<Rightarrow> db \<Rightarrow> err + db" where
  "insert_release repoKey r d =
     and_then (unique_on ''releases.id'' rl_id (releases d @ [r\<lparr>rl_repoKey := repoKey\<rparr>]))
       (\<lambda>rows. and_then (unique_on ''releases.repo_key, releases.tag'' (\<lambda>x. (rl_repoKey x, rl_tag x)) rows)
          (\<lambda>rows. Inr (d\<lparr>releases := rows\<rparr>)))"

definition UpsertReleases :: "(nat \<Rightarrow> string) \<Rightarrow> string \<Rightarrow> release list \<Rightarrow> db \<Rightarrow> err + db" where
  "UpsertReleases ids repoKey rels d =
     fold_res (\<lambda>(k, r). insert_release repoKey (if rl_id r = [] then r\<lparr>rl_id := ids k\<rparr> else r))
       (enumerate 0 rels)
       (d\<lparr>releases := filter (\<lambda>r. rl_repoKey r \<noteq> repoKey) (releases d)\<rparr>)"

text \<open>Newest first: by the text of the publication time, then by tag, both descending.\<close>

definition ListReleases :: "string \<Rightarrow> int \<Rightarrow> db \<Rightarrow> release list" where
  "ListReleases repoKey limit d =
     (let rows = rev (sort_key (\<lambda>r. (ts (rl_published r), rl_tag r))
                        (filter (\<lambda>r. rl_repoKey r = repoKey) (releases d)))
      in if limit > 0 then take (nat limit) rows else rows)"

section \<open>Users\<close>

definition CreateUser :: "string \<Rightarrow> gotime \<Rightarrow> user \<Rightarrow> db \<Rightarrow> err + user \<times> db" where
  "CreateUser newID now u0 d =
     (let u = (if us_id u0 = [] then u0\<lparr>us_id := newID\<rparr> else u0) in
      and_then (unique_on ''users.id'' us_id (users d @ [u\<lparr>us_created := now\<rparr>]))
        (\<lambda>rows. and_then (unique_on ''users.username'' us_username rows)
           (\<lambda>rows. Inr (u, d\<lparr>users := rows\<rparr>))))"

definition GetUserByUsername :: "string \<Rightarrow> db \<Rightarrow> err + user option" where
  "GetUserByUsername name d = Inr (find (\<lambda>u. us_username u = name) (users d))"

definition ListUsers :: "db \<Rightarrow> user list" where
  "ListUsers d = sort_key us_username (users d)"

definition DeleteUser :: "string \<Rightarrow> db \<Rightarrow> err + db" where
  "DeleteUser i d = Inr (d\<lparr>users := filter (\<lambda>u. us_id u \<noteq> i) (users d)\<rparr>)"

definition UpdateUserRole :: "string \<Rightarrow> string \<Rightarrow> db \<Rightarrow> err + db" where
  "UpdateUserRole i role d =
     Inr (d\<lparr>users := upd_rows (\<lambda>u. us_id u = i) (\<lambda>u. u\<lparr>us_role := role\<rparr>) (users d)\<rparr>)"

definition UpdateUserPassword :: "string \<Rightarrow> string \<Rightarrow> db \<Rightarrow> err + db" where
  "UpdateUserPassword i hash d =
     Inr (d\<lparr>users := upd_rows (\<lambda>u. us_id u = i) (\<lambda>u. u\<lparr>us_hash := hash\<rparr>) (users d)\<rparr>)"

definition CountUsers :: "db \<Rightarrow> nat" where
  "CountUsers d = length (users d)"

section \<open>Events\<close>

text \<open>The id column is AUTOINCREMENT: an id is never given twice.\<close>

definition AddEvent :: "gotime \<Rightarrow> event \<Rightarrow> db \<Rightarrow> err + db" where
  "AddEvent now e d =
     (let row = e\<lparr>ev_id := lastEvent d + 1,
                  ev_timestamp := (if ev_timestamp e = zero_time then now else ev_timestamp e)\<rparr>
      in Inr (d\<lparr>events := events d @ [row], lastEvent := lastEvent d + 1\<rparr>))"

definition ListEvents :: "int \<Rightarrow> db \<Rightarrow> event list" where
  "ListEvents limit d =
     take (nat (if limit \<le> 0 then 100 else limit)) (rev (sort_key ev_id (events d)))"

section \<open>Commands\<close>

definition CreateCommand :: "string \<Rightarrow> gotime \<Rightarrow> command \<Rightarrow> db \<Rightarrow> err + command \<times> db" where
  "CreateCommand newID now c0 d =
     (let c = (if cm_id c0 = [] then c0\<lparr>cm_id := newID\<rparr> else c0);
          row = c\<lparr>cm_status := ''pending'', cm_result := [], cm_created := now, cm_updated := now\<rparr>
      in and_then (unique_on ''commands.id'' cm_id (commands d @ [row]))
           (\<lambda>rows. Inr (c, d\<lparr>commands := rows\<rparr>)))"

definition ListPendingCommands :: "string \<Rightarrow> db \<Rightarrow> command list" where
  "ListPendingCommands serverID d =
     sort_key (\<lambda>c. ts (cm_created c))
       (filter (\<lambda>c. cm_server c = serverID \<and> cm_status c = ''pending'') (commands d))"

definition UpdateCommandResult :: "string \<Rightarrow> string \<Rightarrow> string \<Rightarrow> gotime \<Rightarrow> db \<Rightarrow> err + db" where
  "UpdateCommandResult i status res now d =
     Inr (d\<lparr>commands := upd_rows (\<lambda>c. cm_id c = i)
            (\<lambda>c. c\<lparr>cm_status := status, cm_result := res, cm_updated := now\<rparr>) (commands d)\<rparr>)"

definition GetCommand :: "string \<Rightarrow> db \<Rightarrow> err + command" where
  "GetCommand i d = (case find (\<lambda>c. cm_id c = i) (commands d) of
      None \<Rightarrow> Inl errNoRows | Some c \<Rightarrow> Inr c)"

end
