(* ===== verification/Snapshot.thy ===== *)
theory Snapshot
  imports Store
begin

text \<open>
  \<open>ReplaceServerSnapshot\<close> of \<open>internal/store/entities.go\<close>: one transaction that upserts the
  server row, its stacks and its containers from a report, keeps the ids rows already have, and
  deletes what the report no longer names.  The supply \<open>ids\<close> gives the result of the k-th call of
  \<open>newID\<close> inside the transaction; \<open>drawn\<close> counts the calls.
\<close>

section \<open>The transaction\<close>

definition upsert_server :: "server \<Rightarrow> db \<Rightarrow> db" where
  "upsert_server srv d =
     (if sv_id srv \<in> set (map sv_id (servers d))
      then upd_server (sv_id srv)
             (\<lambda>r. r\<lparr>sv_name := (if sv_nameCustom r then sv_name r else sv_name srv),
                sv_status := sv_status srv, sv_lastSeen := sv_lastSeen srv,
                sv_dockerVersion := sv_dockerVersion srv, sv_os := sv_os srv, sv_arch := sv_arch srv,
                sv_cpus := sv_cpus srv, sv_memory := sv_memory srv, sv_labels := sv_labels srv,
                sv_role := (if sv_role srv = RoleUnset then SwarmNone else sv_role srv),
                sv_services := sv_services srv, sv_agentVersion := sv_agentVersion srv,
                sv_agentImage := sv_agentImage srv, sv_agentDigest := sv_agentDigest srv,
                sv_updated := sv_updated srv\<rparr>) d
      else d\<lparr>servers := servers d @ [srv\<lparr>sv_dockerHost := [], sv_tlsCA := [], sv_tlsCert := [],
              sv_tlsKey := [], sv_tokenHash := [],
              sv_role := (if sv_role srv = RoleUnset then SwarmNone else sv_role srv)\<rparr>]\<rparr>)"

text \<open>The state of the transaction: the database, the ids drawn so far, and the stacks and containers
  already written, in order, as the code leaves them.\<close>

record snap =
  sn_db :: db
  drawn :: nat
  sn_stacks :: "stack list"
  sn_containers :: "container list"

definition resolve_stack_id :: "(nat \<Rightarrow> string) \<Rightarrow> (string \<times> string) list \<Rightarrow> stack \<Rightarrow> nat \<Rightarrow> string \<times> nat" where
  "resolve_stack_id ids stackIDByName st k =
     (if sk_id st = []
      then (case map_of stackIDByName (sk_name st) of Some i \<Rightarrow> (i, k) | None \<Rightarrow> (ids k, Suc k))
      else (sk_id st, k))"

definition write_stack :: "string \<Rightarrow> stack \<Rightarrow> db \<Rightarrow> err + db" where
  "write_stack serverID st d =
     and_then (unique_on ''stacks.server_id, stacks.name'' (\<lambda>r. (sk_server r, sk_name r))
       (if sk_id st \<in> set (map sk_id (stacks d))
        then upd_rows (\<lambda>r. sk_id r = sk_id st) (\<lambda>r. r\<lparr>sk_name := sk_name st, sk_kind := sk_kind st\<rparr>) (stacks d)
        else stacks d @ [st\<lparr>sk_server := serverID, sk_count := 0\<rparr>]))
       (\<lambda>rows. Inr (d\<lparr>stacks := rows\<rparr>))"

definition put_stack ::
  "(nat \<Rightarrow> string) \<Rightarrow> string \<Rightarrow> (string \<times> string) list \<Rightarrow> stack \<Rightarrow> snap \<Rightarrow> err + snap" where
  "put_stack ids serverID stackIDByName st0 sn =
     (let (i, k) = resolve_stack_id ids stackIDByName st0 (drawn sn);
          st = st0\<lparr>sk_id := i\<rparr>
      in and_then (write_stack serverID st (sn_db sn))
           (\<lambda>d. Inr (sn\<lparr>sn_db := d, drawn := k, sn_stacks := sn_stacks sn @ [st]\<rparr>)))"

text \<open>The columns a conflicting container row takes from the report: not its server, its docker id
  or its pin.\<close>

definition merge_container :: "container \<Rightarrow> container \<Rightarrow> container" where
  "merge_container c r = r\<lparr>ct_stackID := ct_stackID c, ct_name := ct_name c, ct_image := ct_image c,
     ct_imageName := ct_imageName c, ct_imageTag := ct_imageTag c, ct_imageDigest := ct_imageDigest c,
     ct_registry := ct_registry c, ct_repository := ct_repository c, ct_state := ct_state c,
     ct_status := ct_status c, ct_running := ct_running c, ct_restartPolicy := ct_restartPolicy c,
     ct_composeService := ct_composeService c, ct_created := ct_created c, ct_started := ct_started c,
     ct_labels := ct_labels c, ct_ports := ct_ports c, ct_systemdUnit := ct_systemdUnit c,
     ct_managed := ct_managed c, ct_swarmServiceID := ct_swarmServiceID c,
     ct_swarmServiceName := ct_swarmServiceName c, ct_swarmTaskID := ct_swarmTaskID c,
     ct_swarmNodeID := ct_swarmNodeID c, ct_updated := ct_updated c\<rparr>"

definition write_container :: "string \<Rightarrow> container \<Rightarrow> db \<Rightarrow> err + db" where
  "write_container serverID c d =
     and_then (unique_on ''containers.server_id, containers.docker_id'' (\<lambda>r. (ct_server r, ct_dockerID r))
       (if ct_id c \<in> set (map ct_id (containers d))
        then upd_rows (\<lambda>r. ct_id r = ct_id c) (merge_container c) (containers d)
        else containers d @ [c\<lparr>ct_server := serverID, ct_stackName := []\<rparr>]))
       (\<lambda>rows. Inr (d\<lparr>containers := rows\<rparr>))"

text \<open>Stable identity: a known docker id keeps its row id and its pin.\<close>

definition resolve_container ::
  "(nat \<Rightarrow> string) \<Rightarrow> (string \<times> string \<times> bool) list \<Rightarrow> container \<Rightarrow> nat \<Rightarrow> container \<times> nat" where
  "resolve_container ids existing c k =
     (case map_of existing (ct_dockerID c) of
        Some (i, pinned) \<Rightarrow> (c\<lparr>ct_id := i, ct_pinned := ct_pinned c \<or> pinned\<rparr>, k)
      | None \<Rightarrow> if ct_id c = [] then (c\<lparr>ct_id := ids k\<rparr>, Suc k) else (c, k))"

definition resolve_container_stack :: "(string \<times> string) list \<Rightarrow> container \<Rightarrow> container" where
  "resolve_container_stack finalStackID c =
     (if ct_stackID c = [] \<and> ct_stackName c \<noteq> [] then c\<lparr>ct_stackID := label finalStackID (ct_stackName c)\<rparr>
      else c)"

definition put_container ::
  "(nat \<Rightarrow> string) \<Rightarrow> string \<Rightarrow> (string \<times> string \<times> bool) list \<Rightarrow> (string \<times> string) list
     \<Rightarrow> container \<Rightarrow> snap \<Rightarrow> err + snap" where
  "put_container ids serverID existing finalStackID c0 sn =
     (let (c1, k) = resolve_container ids existing c0 (drawn sn);
          c = resolve_container_stack finalStackID c1
      in and_then (write_container serverID c (sn_db sn))
           (\<lambda>d. Inr (sn\<lparr>sn_db := d, drawn := k, sn_containers := sn_containers sn @ [c]\<rparr>)))"

text \<open>The name-to-id map of the written stacks: the last stack of a name wins.\<close>

definition final_stack_ids :: "stack list \<Rightarrow> (string \<times> string) list" where
  "final_stack_ids sts = rev (map (\<lambda>s. (sk_name s, sk_id s)) (filter (\<lambda>s. sk_name s \<noteq> []) sts))"

definition stacks_of :: "string \<Rightarrow> db \<Rightarrow> (string \<times> string) list" where
  "stacks_of serverID d = map (\<lambda>r. (sk_name r, sk_id r)) (filter (\<lambda>r. sk_server r = serverID) (stacks d))"

definition containers_of :: "string \<Rightarrow> db \<Rightarrow> (string \<times> string \<times> bool) list" where
  "containers_of serverID d =
     map (\<lambda>r. (ct_dockerID r, ct_id r, ct_pinned r)) (filter (\<lambda>r. ct_server r = serverID) (containers d))"

text \<open>Stacks that disappeared, containers that disappeared.\<close>

definition drop_stacks :: "string list \<Rightarrow> string list \<Rightarrow> db \<Rightarrow> db" where
  "drop_stacks old seen d =
     d\<lparr>stacks := filter (\<lambda>r. \<not> (sk_id r \<in> set old \<and> sk_id r \<notin> set seen)) (stacks d)\<rparr>"

definition drop_containers :: "string list \<Rightarrow> string list \<Rightarrow> db \<Rightarrow> db" where
  "drop_containers old seen d = delete_containers (\<lambda>r. ct_id r \<in> set old \<and> ct_id r \<notin> set seen) d"

definition snapshot_stacks :: "(nat \<Rightarrow> string) \<Rightarrow> string \<Rightarrow> stack list \<Rightarrow> db \<Rightarrow> err + snap" where
  "snapshot_stacks ids serverID sts d =
     (let stackIDByName = stacks_of serverID d in
      and_then (fold_res (put_stack ids serverID stackIDByName) sts
                 \<lparr>sn_db = d, drawn = 0, sn_stacks = [], sn_containers = []\<rparr>)
        (\<lambda>sn. Inr (sn\<lparr>sn_db := drop_stacks (map snd stackIDByName) (map sk_id (sn_stacks sn)) (sn_db sn)\<rparr>)))"

definition snapshot_containers :: "(nat \<Rightarrow> string) \<Rightarrow> string \<Rightarrow> container list \<Rightarrow> snap \<Rightarrow> err + snap" where
  "snapshot_containers ids serverID cs sn0 =
     (let finalStackID = final_stack_ids (sn_stacks sn0);
          existing = containers_of serverID (sn_db sn0)
      in and_then (fold_res (put_container ids serverID existing finalStackID) cs sn0)
           (\<lambda>sn. Inr (sn\<lparr>sn_db := drop_containers (map (\<lambda>e. fst (snd e)) existing)
                               (map ct_id (sn_containers sn)) (sn_db sn)\<rparr>)))"

definition ReplaceServerSnapshot ::
  "(nat \<Rightarrow> string) \<Rightarrow> server \<Rightarrow> stack list \<Rightarrow> container list \<Rightarrow> db \<Rightarrow> err + db" where
  "ReplaceServerSnapshot ids srv sts cs d =
     and_then (snapshot_stacks ids (sv_id srv) sts (upsert_server srv d))
       (\<lambda>sn. and_then (snapshot_containers ids (sv_id srv) cs sn) (\<lambda>sn. Inr (sn_db sn)))"

end
