(* ===== verification/StoreInv.thy ===== *)
theory StoreInv
  imports Snapshot
begin

text \<open>
  The integrity of the database: \<open>db_wf\<close> collects what the schema promises (keys, uniqueness, the
  foreign key of \<open>updates\<close>) and one lemma per operation says the operation keeps it.  The step
  relation \<open>db_step\<close> has one rule per operation of the store, so that \<open>db_wf\<close> is an invariant of
  every reachable database.
\<close>

section \<open>Well-formed databases\<close>

definition servers_ok :: "server list \<Rightarrow> bool" where
  "servers_ok rows \<longleftrightarrow> distinct (map sv_id rows)"

definition stacks_ok :: "stack list \<Rightarrow> bool" where
  "stacks_ok rows \<longleftrightarrow> distinct (map sk_id rows) \<and> distinct (map (\<lambda>r. (sk_server r, sk_name r)) rows)"

definition containers_ok :: "container list \<Rightarrow> bool" where
  "containers_ok rows \<longleftrightarrow>
     distinct (map ct_id rows) \<and> distinct (map (\<lambda>r. (ct_server r, ct_dockerID r)) rows)"

definition updates_ok :: "container list \<Rightarrow> updateRow list \<Rightarrow> bool" where
  "updates_ok cs rows \<longleftrightarrow> distinct (map up_id rows) \<and> distinct (map up_container rows)
     \<and> (\<forall>u\<in>set rows. up_container u \<in> set (map ct_id cs))"

definition releases_ok :: "release list \<Rightarrow> bool" where
  "releases_ok rows \<longleftrightarrow> distinct (map rl_id rows) \<and> distinct (map (\<lambda>r. (rl_repoKey r, rl_tag r)) rows)"

definition users_ok :: "user list \<Rightarrow> bool" where
  "users_ok rows \<longleftrightarrow> distinct (map us_id rows) \<and> distinct (map us_username rows)"

definition events_ok :: "int \<Rightarrow> event list \<Rightarrow> bool" where
  "events_ok hi rows \<longleftrightarrow> distinct (map ev_id rows) \<and> (\<forall>e\<in>set rows. ev_id e \<le> hi)"

definition commands_ok :: "command list \<Rightarrow> bool" where
  "commands_ok rows \<longleftrightarrow> distinct (map cm_id rows)"

definition db_wf :: "db \<Rightarrow> bool" where
  "db_wf d \<longleftrightarrow> servers_ok (servers d) \<and> stacks_ok (stacks d) \<and> containers_ok (containers d)
     \<and> updates_ok (containers d) (updates d) \<and> releases_ok (releases d) \<and> users_ok (users d)
     \<and> distinct (map fst (settings d)) \<and> events_ok (lastEvent d) (events d) \<and> commands_ok (commands d)"

lemmas table_defs = servers_ok_def stacks_ok_def containers_ok_def updates_ok_def releases_ok_def
  users_ok_def events_ok_def commands_ok_def

named_theorems keeps_wf \<open>operations that keep the database well-formed\<close>

lemma db_wf_empty: "db_wf empty_db"
  by (simp add: db_wf_def empty_db_def table_defs)

section \<open>Settings, servers, users, events, commands\<close>

lemma put_setting_dom: "set (map fst (put_setting k v kvs)) = insert k (set (map fst kvs))"
  by (induction k v kvs rule: put_setting.induct) (simp_all add: insert_commute)

lemma put_setting_distinct: "distinct (map fst kvs) \<Longrightarrow> distinct (map fst (put_setting k v kvs))"
  by (induction kvs) (use put_setting_dom in auto)

lemma map_of_put_setting: "map_of (put_setting k v kvs) = (map_of kvs)(k \<mapsto> v)"
  by (induction k v kvs rule: put_setting.induct) auto

lemma SetSetting_wf [keeps_wf]: "db_wf d \<Longrightarrow> SetSetting k v d = Inr d' \<Longrightarrow> db_wf d'"
  by (auto simp: SetSetting_def db_wf_def put_setting_distinct)

lemma upd_server_wf: "db_wf d \<Longrightarrow> (\<And>r. sv_id (f r) = sv_id r) \<Longrightarrow> db_wf (upd_server i f d)"
  by (simp add: upd_server_def db_wf_def servers_ok_def map_upd_rows)

lemma CreateServer_wf [keeps_wf]: "db_wf d \<Longrightarrow> CreateServer i now s d = Inr (s', d') \<Longrightarrow> db_wf d'"
  by (auto simp: CreateServer_def Let_def and_then_eq_Inr unique_on_Inr db_wf_def servers_ok_def)

lemma DeleteServer_wf [keeps_wf]: "db_wf d \<Longrightarrow> DeleteServer i d = Inr d' \<Longrightarrow> db_wf d'"
  by (auto simp: DeleteServer_def db_wf_def servers_ok_def distinct_map_filter_keep)

lemma UpdateServerName_wf [keeps_wf]: "db_wf d \<Longrightarrow> UpdateServerName i n now d = Inr d' \<Longrightarrow> db_wf d'"
  by (auto simp: UpdateServerName_def upd_server_wf)

lemma UpdateServerEndpoint_wf [keeps_wf]:
  "db_wf d \<Longrightarrow> UpdateServerEndpoint i h a b c now d = Inr d' \<Longrightarrow> db_wf d'"
  by (auto simp: UpdateServerEndpoint_def upd_server_wf)

lemma MarkServerOffline_wf [keeps_wf]: "db_wf d \<Longrightarrow> MarkServerOffline i d = Inr d' \<Longrightarrow> db_wf d'"
  by (auto simp: MarkServerOffline_def upd_server_wf)

lemma MarkAllOffline_wf [keeps_wf]: "db_wf d \<Longrightarrow> MarkAllOffline d = Inr d' \<Longrightarrow> db_wf d'"
  by (auto simp: MarkAllOffline_def db_wf_def servers_ok_def map_upd_rows)

lemma updates_ok_delete:
  assumes "updates_ok cs us"
  shows "updates_ok (filter (\<lambda>c. \<not> p c) cs)
           (filter (\<lambda>u. up_container u \<notin> set (map ct_id (filter p cs))) us)"
proof -
  have "up_container u \<in> ct_id ` set (filter (\<lambda>c. \<not> p c) cs)"
    if u: "u \<in> set us" and not: "up_container u \<notin> ct_id ` set (filter p cs)" for u
  proof -
    from u assms obtain c where "c \<in> set cs" "up_container u = ct_id c"
      unfolding updates_ok_def by auto
    with not show ?thesis by (cases "p c") auto
  qed
  then show ?thesis
    using assms by (auto simp: updates_ok_def distinct_map_filter_keep)
qed

lemma delete_containers_wf: "db_wf d \<Longrightarrow> db_wf (delete_containers p d)"
  by (simp add: delete_containers_def Let_def db_wf_def containers_ok_def updates_ok_delete [simplified]
      distinct_map_filter_keep)

lemma DeleteServerCascade_wf [keeps_wf]:
  assumes "db_wf d" and "DeleteServerCascade i d = Inr d'"
  shows "db_wf d'"
proof -
  have "db_wf (d\<lparr>commands := filter (\<lambda>c. cm_server c \<noteq> i) (commands d)\<rparr>)"
    using assms(1) by (simp add: db_wf_def commands_ok_def distinct_map_filter_keep)
  note delete_containers_wf [OF this, of "\<lambda>c. ct_server c = i"]
  moreover have "db_wf (x\<lparr>stacks := filter (\<lambda>s. sk_server s \<noteq> i) (stacks x)\<rparr>)" if "db_wf x" for x
    using that by (simp add: db_wf_def stacks_ok_def distinct_map_filter_keep)
  ultimately show ?thesis
    using assms(2) DeleteServer_wf unfolding DeleteServerCascade_def Let_def by blast
qed

lemma CreateUser_wf [keeps_wf]: "db_wf d \<Longrightarrow> CreateUser i now u d = Inr (u', d') \<Longrightarrow> db_wf d'"
  by (auto simp: CreateUser_def Let_def and_then_eq_Inr unique_on_Inr db_wf_def users_ok_def)

lemma DeleteUser_wf [keeps_wf]: "db_wf d \<Longrightarrow> DeleteUser i d = Inr d' \<Longrightarrow> db_wf d'"
  by (auto simp: DeleteUser_def db_wf_def users_ok_def distinct_map_filter_keep)

lemma UpdateUserRole_wf [keeps_wf]: "db_wf d \<Longrightarrow> UpdateUserRole i r d = Inr d' \<Longrightarrow> db_wf d'"
  by (auto simp: UpdateUserRole_def db_wf_def users_ok_def map_upd_rows)

lemma UpdateUserPassword_wf [keeps_wf]: "db_wf d \<Longrightarrow> UpdateUserPassword i h d = Inr d' \<Longrightarrow> db_wf d'"
  by (auto simp: UpdateUserPassword_def db_wf_def users_ok_def map_upd_rows)

lemma AddEvent_wf [keeps_wf]: "db_wf d \<Longrightarrow> AddEvent now e d = Inr d' \<Longrightarrow> db_wf d'"
  by (fastforce simp: AddEvent_def Let_def db_wf_def events_ok_def)

lemma CreateCommand_wf [keeps_wf]: "db_wf d \<Longrightarrow> CreateCommand i now c d = Inr (c', d') \<Longrightarrow> db_wf d'"
  by (auto simp: CreateCommand_def Let_def and_then_eq_Inr unique_on_Inr db_wf_def commands_ok_def)

lemma UpdateCommandResult_wf [keeps_wf]:
  "db_wf d \<Longrightarrow> UpdateCommandResult i st r now d = Inr d' \<Longrightarrow> db_wf d'"
  by (auto simp: UpdateCommandResult_def db_wf_def commands_ok_def map_upd_rows)

section \<open>Containers, updates, releases\<close>

lemma SetContainerPinned_wf [keeps_wf]: "db_wf d \<Longrightarrow> SetContainerPinned i b d = Inr d' \<Longrightarrow> db_wf d'"
  by (auto simp: SetContainerPinned_def db_wf_def containers_ok_def updates_ok_def map_upd_rows image_upd_rows)

lemma updates_ok_append:
  "updates_ok cs us \<Longrightarrow> up_id u \<notin> set (map up_id us) \<Longrightarrow> up_container u \<notin> set (map up_container us)
   \<Longrightarrow> up_container u \<in> set (map ct_id cs) \<Longrightarrow> updates_ok cs (us @ [u])"
  by (auto simp: updates_ok_def)

lemma updates_ok_upd:
  "updates_ok cs us \<Longrightarrow> (\<And>u. up_id (f u) = up_id u) \<Longrightarrow> (\<And>u. up_container (f u) = up_container u)
   \<Longrightarrow> updates_ok cs (upd_rows p f us)"
  by (auto simp: updates_ok_def map_upd_rows elim!: mem_upd_rowsE split: if_splits)

lemma db_wf_updates:
  "db_wf d \<Longrightarrow> updates_ok (containers d) us \<Longrightarrow> db_wf (d\<lparr>updates := us\<rparr>)"
  by (simp add: db_wf_def)

lemma UpsertUpdate_wf [keeps_wf]:
  assumes wf: "db_wf d" and run: "UpsertUpdate i u0 d = Inr d'"
  shows "db_wf d'"
proof -
  have ok: "updates_ok (containers d) (updates d)" using wf by (simp add: db_wf_def)
  define u where "u = (if up_id u0 = [] then u0\<lparr>up_id := i\<rparr> else u0)"
  show ?thesis
  proof (cases "up_container u \<in> set (map up_container (updates d))")
    case True
    then have "\<exists>r\<in>set (updates d). up_container r = up_container u" by force
    then show ?thesis
      using run ok unfolding UpsertUpdate_def u_def [symmetric] Let_def
      by (auto intro!: db_wf_updates [OF wf] updates_ok_upd)
  next
    case False
    then have "\<not> (\<exists>r\<in>set (updates d). up_container r = up_container u)" by (metis imageI set_map)
    then show ?thesis
      using run ok False unfolding UpsertUpdate_def u_def [symmetric] Let_def
      by (auto simp: and_then_eq_Inr unique_on_Inr split: if_splits
          intro!: db_wf_updates [OF wf] updates_ok_append)
  qed
qed

lemma DeleteUpdate_wf [keeps_wf]: "db_wf d \<Longrightarrow> DeleteUpdate i d = Inr d' \<Longrightarrow> db_wf d'"
  by (auto simp: DeleteUpdate_def db_wf_def updates_ok_def distinct_map_filter_keep)

lemma insert_release_wf: "db_wf d \<Longrightarrow> insert_release key r d = Inr d' \<Longrightarrow> db_wf d'"
  by (auto simp: insert_release_def and_then_eq_Inr unique_on_Inr db_wf_def releases_ok_def)

lemma UpsertReleases_wf [keeps_wf]:
  assumes "db_wf d" and "UpsertReleases ids key rels d = Inr d'"
  shows "db_wf d'"
proof (rule fold_res_inv [OF assms(2) [unfolded UpsertReleases_def]])
  show "db_wf (d\<lparr>releases := filter (\<lambda>r. rl_repoKey r \<noteq> key) (releases d)\<rparr>)"
    using assms(1) by (simp add: db_wf_def releases_ok_def distinct_map_filter_keep)
qed (auto intro: insert_release_wf split: prod.splits)

section \<open>The snapshot transaction\<close>

lemma upsert_server_wf: "db_wf d \<Longrightarrow> db_wf (upsert_server s d)"
  by (auto simp: upsert_server_def upd_server_wf) (auto simp: db_wf_def servers_ok_def)

lemma write_stack_wf: "db_wf d \<Longrightarrow> write_stack i st d = Inr d' \<Longrightarrow> db_wf d'"
  by (auto simp: write_stack_def and_then_eq_Inr unique_on_Inr db_wf_def stacks_ok_def map_upd_rows
      split: if_splits)

lemma merge_container_sel [simp]:
  "ct_id (merge_container c r) = ct_id r" "ct_server (merge_container c r) = ct_server r"
  "ct_dockerID (merge_container c r) = ct_dockerID r" "ct_pinned (merge_container c r) = ct_pinned r"
  by (simp_all add: merge_container_def)

lemma write_container_wf: "db_wf d \<Longrightarrow> write_container i c d = Inr d' \<Longrightarrow> db_wf d'"
  by (auto simp: write_container_def and_then_eq_Inr unique_on_Inr db_wf_def containers_ok_def
      updates_ok_def map_upd_rows image_upd_rows split: if_splits)

lemma put_stack_db:
  "put_stack ids i old st sn = Inr sn' \<Longrightarrow> \<exists>st'. write_stack i st' (sn_db sn) = Inr (sn_db sn')"
  by (auto simp: put_stack_def Let_def and_then_eq_Inr split: prod.splits)

lemma put_container_db:
  "put_container ids i old fin c sn = Inr sn' \<Longrightarrow> \<exists>c'. write_container i c' (sn_db sn) = Inr (sn_db sn')"
  by (auto simp: put_container_def Let_def and_then_eq_Inr split: prod.splits)

lemma snapshot_stacks_wf:
  assumes "db_wf d" and "snapshot_stacks ids i sts d = Inr sn"
  shows "db_wf (sn_db sn)"
proof -
  from assms(2) obtain sn1 where
    1: "fold_res (put_stack ids i (stacks_of i d)) sts
          \<lparr>sn_db = d, drawn = 0, sn_stacks = [], sn_containers = []\<rparr> = Inr sn1"
    and 2: "sn_db sn = drop_stacks (map snd (stacks_of i d)) (map sk_id (sn_stacks sn1)) (sn_db sn1)"
    by (auto simp: snapshot_stacks_def Let_def and_then_eq_Inr)
  have "db_wf (sn_db sn1)"
    using 1 by (rule fold_res_inv) (use assms(1) in \<open>auto dest!: put_stack_db intro: write_stack_wf\<close>)
  then show ?thesis
    by (simp add: 2 drop_stacks_def db_wf_def stacks_ok_def distinct_map_filter_keep)
qed

lemma snapshot_containers_wf:
  assumes "db_wf (sn_db sn)" and "snapshot_containers ids i cs sn = Inr sn'"
  shows "db_wf (sn_db sn')"
proof -
  from assms(2) obtain sn1 old seen fin where
    1: "fold_res (put_container ids i (containers_of i (sn_db sn)) fin) cs sn = Inr sn1"
    and 2: "sn_db sn' = drop_containers old seen (sn_db sn1)"
    by (auto simp: snapshot_containers_def Let_def and_then_eq_Inr)
  have "db_wf (sn_db sn1)"
    using 1 by (rule fold_res_inv) (use assms(1) in \<open>auto dest!: put_container_db intro: write_container_wf\<close>)
  then show ?thesis by (simp add: 2 drop_containers_def delete_containers_wf)
qed

lemma ReplaceServerSnapshot_wf [keeps_wf]:
  "db_wf d \<Longrightarrow> ReplaceServerSnapshot ids srv sts cs d = Inr d' \<Longrightarrow> db_wf d'"
  unfolding ReplaceServerSnapshot_def and_then_eq_Inr
  using upsert_server_wf snapshot_stacks_wf snapshot_containers_wf by blast

end
