(* ===== verification/SnapshotProps.thy ===== *)
theory SnapshotProps
  imports StoreInv
begin

text \<open>
  What a snapshot does to the database, for a report that carries no row ids of its own (the rows'
  identity is then the store's): which containers exist afterwards, which ids and pins survive, and
  that the rows of every other server are untouched.
\<close>

section \<open>Rows by key\<close>

abbreviation ckey :: "container \<Rightarrow> string \<times> string \<times> string \<times> bool" where
  "ckey r \<equiv> (ct_server r, ct_dockerID r, ct_id r, ct_pinned r)"

lemma filter_upd_rows_outside:
  "(\<And>x. x \<in> set xs \<Longrightarrow> p x \<Longrightarrow> \<not> q x \<and> \<not> q (f x)) \<Longrightarrow> filter q (upd_rows p f xs) = filter q xs"
  by (induction xs) auto

lemma filter_filter_outside:
  "(\<And>x. x \<in> set xs \<Longrightarrow> q x \<Longrightarrow> p x) \<Longrightarrow> filter q (filter p xs) = filter q xs"
  by (induction xs) auto

lemma containers_ok_id:
  "containers_ok rows \<Longrightarrow> r \<in> set rows \<Longrightarrow> r' \<in> set rows \<Longrightarrow> ct_id r = ct_id r' \<Longrightarrow> r = r'"
  unfolding containers_ok_def using distinct_map_eq by metis

lemma containers_ok_docker:
  "containers_ok rows \<Longrightarrow> r \<in> set rows \<Longrightarrow> r' \<in> set rows \<Longrightarrow> ct_server r = ct_server r'
   \<Longrightarrow> ct_dockerID r = ct_dockerID r' \<Longrightarrow> r = r'"
  unfolding containers_ok_def using distinct_map_eq [of "\<lambda>r. (ct_server r, ct_dockerID r)" rows r r'] by simp

lemma containers_of_Some:
  "map_of (containers_of i d) dk = Some (j, p) \<Longrightarrow>
   \<exists>r\<in>set (containers d). ct_server r = i \<and> ct_dockerID r = dk \<and> ct_id r = j \<and> ct_pinned r = p"
  by (drule map_of_SomeD) (auto simp: containers_of_def)

lemma containers_of_mem:
  assumes "containers_ok (containers d)" and "r \<in> set (containers d)"
  shows "map_of (containers_of (ct_server r) d) (ct_dockerID r) = Some (ct_id r, ct_pinned r)"
proof -
  have "(ct_dockerID r, ct_id r, ct_pinned r) \<in> set (containers_of (ct_server r) d)"
    using assms(2) by (auto simp: containers_of_def)
  moreover have "distinct (map fst (containers_of (ct_server r) d))"
  proof -
    let ?own = "filter (\<lambda>x. ct_server x = ct_server r) (containers d)"
    have "distinct (map (\<lambda>x. (ct_server x, ct_dockerID x)) ?own)"
      using assms(1) by (auto simp: containers_ok_def intro: distinct_map_filter_keep)
    moreover have "map (\<lambda>x. (ct_server x, ct_dockerID x)) ?own = map (Pair (ct_server r) \<circ> ct_dockerID) ?own"
      by simp
    ultimately have "distinct (map (Pair (ct_server r)) (map ct_dockerID ?own))" by simp
    then show ?thesis unfolding containers_of_def by (auto simp: distinct_map inj_on_def)
  qed
  ultimately show ?thesis by simp
qed

section \<open>The container phase\<close>

text \<open>The supply of fresh ids: no id of the database, never the same twice, never empty.\<close>

definition fresh_ids :: "(nat \<Rightarrow> string) \<Rightarrow> string list \<Rightarrow> bool" where
  "fresh_ids ids used \<longleftrightarrow> inj ids \<and> (\<forall>k. ids k \<noteq> [] \<and> ids k \<notin> set used)"

text \<open>What holds of the transaction while the containers of server \<open>i\<close> are written: \<open>d0\<close> is the
  database the phase started from.\<close>

definition csnap_inv :: "(nat \<Rightarrow> string) \<Rightarrow> string \<Rightarrow> db \<Rightarrow> snap \<Rightarrow> bool" where
  "csnap_inv ids i d0 sn \<longleftrightarrow>
     (let rows = containers (sn_db sn) in
      sn_db sn = d0\<lparr>containers := rows\<rparr>
    \<and> filter (\<lambda>r. ct_server r \<noteq> i) rows = filter (\<lambda>r. ct_server r \<noteq> i) (containers d0)
    \<and> set (map ckey (containers d0)) \<subseteq> set (map ckey rows)
    \<and> (\<forall>r\<in>set rows. ckey r \<in> set (map ckey (containers d0))
         \<or> ct_server r = i \<and> (\<exists>k<drawn sn. ct_id r = ids k)
           \<and> ct_dockerID r \<in> set (map ct_dockerID (sn_containers sn)))
    \<and> (\<forall>c\<in>set (sn_containers sn). \<exists>r\<in>set rows. ct_server r = i \<and> ct_dockerID r = ct_dockerID c
         \<and> ct_id r = ct_id c))"

lemma resolve_container_stack_sel [simp]:
  "ct_id (resolve_container_stack fin c) = ct_id c"
  "ct_dockerID (resolve_container_stack fin c) = ct_dockerID c"
  "ct_pinned (resolve_container_stack fin c) = ct_pinned c"
  by (simp_all add: resolve_container_stack_def)

lemma ckey_merge [simp]: "ckey (merge_container c r) = ckey r"
  by simp

lemma resolve_container_cases:
  assumes "ct_id c = []"
  obtains (known) j p where "map_of old (ct_dockerID c) = Some (j, p)"
      "resolve_container ids old c k = (c\<lparr>ct_id := j, ct_pinned := ct_pinned c \<or> p\<rparr>, k)"
  | (new) "map_of old (ct_dockerID c) = None" "resolve_container ids old c k = (c\<lparr>ct_id := ids k\<rparr>, Suc k)"
  using assms by (cases "map_of old (ct_dockerID c)") (auto simp: resolve_container_def)

lemma put_container_known:
  assumes "map_of old (ct_dockerID c0) = Some (j, p)" and "j \<in> set (map ct_id (containers (sn_db sn)))"
    and "put_container ids i old fin c0 sn = Inr sn'"
  obtains c where "ct_id c = j" "ct_dockerID c = ct_dockerID c0"
    "sn' = sn\<lparr>sn_db := (sn_db sn)\<lparr>containers :=
        upd_rows (\<lambda>r. ct_id r = j) (merge_container c) (containers (sn_db sn))\<rparr>,
        sn_containers := sn_containers sn @ [c]\<rparr>"
proof -
  define c where "c = resolve_container_stack fin (c0\<lparr>ct_id := j, ct_pinned := ct_pinned c0 \<or> p\<rparr>)"
  have "resolve_container ids old c0 (drawn sn) = (c0\<lparr>ct_id := j, ct_pinned := ct_pinned c0 \<or> p\<rparr>, drawn sn)"
    using assms(1) by (simp add: resolve_container_def)
  then show ?thesis
    using assms(2,3) that [of c]
    by (auto simp: put_container_def write_container_def and_then_eq_Inr unique_on_Inr Let_def
        c_def [symmetric]) (simp_all add: c_def)
qed

lemma put_container_new:
  assumes "map_of old (ct_dockerID c0) = None" and "ct_id c0 = []"
    and "ids (drawn sn) \<notin> set (map ct_id (containers (sn_db sn)))"
    and "put_container ids i old fin c0 sn = Inr sn'"
  obtains c where "ct_id c = ids (drawn sn)" "ct_dockerID c = ct_dockerID c0"
    "sn' = sn\<lparr>sn_db := (sn_db sn)\<lparr>containers := containers (sn_db sn) @ [c\<lparr>ct_server := i, ct_stackName := []\<rparr>]\<rparr>,
        drawn := Suc (drawn sn), sn_containers := sn_containers sn @ [c]\<rparr>"
proof -
  define c where "c = resolve_container_stack fin (c0\<lparr>ct_id := ids (drawn sn)\<rparr>)"
  have "resolve_container ids old c0 (drawn sn) = (c0\<lparr>ct_id := ids (drawn sn)\<rparr>, Suc (drawn sn))"
    using assms(1,2) by (simp add: resolve_container_def)
  moreover have "ct_id c = ids (drawn sn)" "ct_dockerID c = ct_dockerID c0" by (simp_all add: c_def)
  ultimately show ?thesis
    using assms(3,4) that [of c]
    by (auto simp: put_container_def write_container_def and_then_eq_Inr unique_on_Inr Let_def
        c_def [symmetric])
qed


lemma csnap_inv_fresh:
  assumes "csnap_inv ids i d0 sn" and "fresh_ids ids (map ct_id (containers d0))"
  shows "ids (drawn sn) \<notin> set (map ct_id (containers (sn_db sn)))"
proof
  assume "ids (drawn sn) \<in> set (map ct_id (containers (sn_db sn)))"
  then obtain r where r: "r \<in> set (containers (sn_db sn))" "ct_id r = ids (drawn sn)" by auto
  with assms(1) have "ckey r \<in> set (map ckey (containers d0)) \<or> (\<exists>k<drawn sn. ct_id r = ids k)"
    unfolding csnap_inv_def Let_def by blast
  then show False
  proof
    assume "ckey r \<in> set (map ckey (containers d0))"
    then have "ct_id r \<in> set (map ct_id (containers d0))" by auto
    with r(2) assms(2) show False by (simp add: fresh_ids_def)
  next
    assume "\<exists>k<drawn sn. ct_id r = ids k"
    with r(2) assms(2) show False by (auto simp: fresh_ids_def dest: injD)
  qed
qed

lemma csnap_inv_step:
  assumes ok: "containers_ok (containers d0)" and fresh: "fresh_ids ids (map ct_id (containers d0))"
    and inv: "csnap_inv ids i d0 sn" and noid: "ct_id c0 = []"
    and run: "put_container ids i (containers_of i d0) fin c0 sn = Inr sn'"
  shows "csnap_inv ids i d0 sn'"
proof -
  let ?rows = "containers (sn_db sn)"
  from inv have db: "sn_db sn = d0\<lparr>containers := ?rows\<rparr>"
    and keep: "set (map ckey (containers d0)) \<subseteq> set (map ckey ?rows)"
    and others: "filter (\<lambda>r. ct_server r \<noteq> i) ?rows = filter (\<lambda>r. ct_server r \<noteq> i) (containers d0)"
    and each: "\<And>r. r \<in> set ?rows \<Longrightarrow> ckey r \<in> set (map ckey (containers d0))
         \<or> ct_server r = i \<and> (\<exists>k<drawn sn. ct_id r = ids k)
           \<and> ct_dockerID r \<in> set (map ct_dockerID (sn_containers sn))"
    and done_: "\<And>c. c \<in> set (sn_containers sn) \<Longrightarrow> \<exists>r\<in>set ?rows. ct_server r = i
         \<and> ct_dockerID r = ct_dockerID c \<and> ct_id r = ct_id c"
    unfolding csnap_inv_def Let_def by blast+
  have db': "(sn_db sn)\<lparr>containers := x\<rparr> = d0\<lparr>containers := x\<rparr>" for x
    by (subst db) simp
  show ?thesis
  proof (cases "map_of (containers_of i d0) (ct_dockerID c0)")
    case (Some jp)
    then obtain j p where jp: "map_of (containers_of i d0) (ct_dockerID c0) = Some (j, p)" by (cases jp) auto
    then obtain r0 where r0: "r0 \<in> set (containers d0)" "ct_server r0 = i"
        "ct_dockerID r0 = ct_dockerID c0" "ct_id r0 = j"
      by (blast dest: containers_of_Some)
    with keep have "ckey r0 \<in> set (map ckey ?rows)" by force
    then obtain r1 where r1: "r1 \<in> set ?rows" "ckey r1 = ckey r0" by (metis (lifting) imageE set_map)
    have "ct_id r1 = j" using r1(2) r0(4) by simp
    with r1(1) have "j \<in> set (map ct_id ?rows)" by auto
    from put_container_known [OF jp this run] obtain c where c: "ct_id c = j" "ct_dockerID c = ct_dockerID c0"
      and sn': "sn' = sn\<lparr>sn_db := (sn_db sn)\<lparr>containers :=
        upd_rows (\<lambda>r. ct_id r = j) (merge_container c) ?rows\<rparr>, sn_containers := sn_containers sn @ [c]\<rparr>" .
    have own: "ct_server x = i" if "x \<in> set ?rows" "ct_id x = j" for x
    proof -
      have "ct_server x = i" if "ckey x \<in> set (map ckey (containers d0))"
      proof -
        from that obtain x0 where "x0 \<in> set (containers d0)" "ckey x0 = ckey x"
          by (metis (lifting) imageE set_map)
        moreover from this have "x0 = r0"
          using containers_ok_id [OF ok, of x0 r0] r0(1,4) \<open>ct_id x = j\<close> by simp
        ultimately show ?thesis using r0(2) by simp
      qed
      then show ?thesis using each [OF that(1)] by blast
    qed
    have keys: "set (map ckey (upd_rows (\<lambda>r. ct_id r = j) (merge_container c) ?rows)) = set (map ckey ?rows)"
      by (simp add: map_upd_rows)
    have "filter (\<lambda>r. ct_server r \<noteq> i) (upd_rows (\<lambda>r. ct_id r = j) (merge_container c) ?rows)
        = filter (\<lambda>r. ct_server r \<noteq> i) ?rows"
      by (rule filter_upd_rows_outside) (use own in auto)
    moreover have "\<forall>x\<in>set (sn_containers sn @ [c]). \<exists>r\<in>set (upd_rows (\<lambda>r. ct_id r = j) (merge_container c) ?rows).
        ct_server r = i \<and> ct_dockerID r = ct_dockerID x \<and> ct_id r = ct_id x"
    proof
      fix x assume "x \<in> set (sn_containers sn @ [c])"
      then consider "x \<in> set (sn_containers sn)" | "x = c" by auto
      then obtain r where "r \<in> set ?rows" "ct_server r = i" "ct_dockerID r = ct_dockerID x" "ct_id r = ct_id x"
      proof cases
        case 1 with done_ that show ?thesis by blast
      next
        case 2 with r0 r1 c that [of r1] show ?thesis by simp
      qed
      then have "ckey r \<in> set (map ckey ?rows)" unfolding set_map by (intro imageI)
      then have "ckey r \<in> set (map ckey (upd_rows (\<lambda>r. ct_id r = j) (merge_container c) ?rows))"
        using keys by blast
      then obtain r' where "r' \<in> set (upd_rows (\<lambda>r. ct_id r = j) (merge_container c) ?rows)" "ckey r' = ckey r"
        by (metis (lifting) imageE set_map)
      then show "\<exists>r\<in>set (upd_rows (\<lambda>r. ct_id r = j) (merge_container c) ?rows).
          ct_server r = i \<and> ct_dockerID r = ct_dockerID x \<and> ct_id r = ct_id x"
        using \<open>ct_server r = i\<close> \<open>ct_dockerID r = _\<close> \<open>ct_id r = _\<close> by auto
    qed
    moreover have "\<forall>r\<in>set (upd_rows (\<lambda>r. ct_id r = j) (merge_container c) ?rows).
        ckey r \<in> set (map ckey (containers d0)) \<or> ct_server r = i \<and> (\<exists>k<drawn sn. ct_id r = ids k)
          \<and> ct_dockerID r \<in> set (map ct_dockerID (sn_containers sn @ [c]))"
    proof
      fix r assume "r \<in> set (upd_rows (\<lambda>r. ct_id r = j) (merge_container c) ?rows)"
      then obtain x where x: "x \<in> set ?rows" and "r = (if ct_id x = j then merge_container c x else x)"
        by (rule mem_upd_rowsE)
      then have "ckey r = ckey x" by simp
      with each [OF x] show "ckey r \<in> set (map ckey (containers d0)) \<or> ct_server r = i
          \<and> (\<exists>k<drawn sn. ct_id r = ids k) \<and> ct_dockerID r \<in> set (map ct_dockerID (sn_containers sn @ [c]))"
        by auto
    qed
    ultimately show ?thesis
      using keep others keys unfolding csnap_inv_def Let_def sn' by (simp add: db')
  next
    case None
    from put_container_new [OF None noid csnap_inv_fresh [OF inv fresh] run] obtain c where
      c: "ct_id c = ids (drawn sn)" "ct_dockerID c = ct_dockerID c0"
      and sn': "sn' = sn\<lparr>sn_db := (sn_db sn)\<lparr>containers := ?rows @ [c\<lparr>ct_server := i, ct_stackName := []\<rparr>]\<rparr>,
        drawn := Suc (drawn sn), sn_containers := sn_containers sn @ [c]\<rparr>" .
    have 1: "\<forall>r\<in>set (?rows @ [c\<lparr>ct_server := i, ct_stackName := []\<rparr>]).
        ckey r \<in> set (map ckey (containers d0)) \<or> ct_server r = i \<and> (\<exists>k<Suc (drawn sn). ct_id r = ids k)
          \<and> ct_dockerID r \<in> set (map ct_dockerID (sn_containers sn @ [c]))"
    proof
      fix r assume "r \<in> set (?rows @ [c\<lparr>ct_server := i, ct_stackName := []\<rparr>])"
      then consider "r \<in> set ?rows" | "r = c\<lparr>ct_server := i, ct_stackName := []\<rparr>" by auto
      then show "ckey r \<in> set (map ckey (containers d0)) \<or> ct_server r = i
          \<and> (\<exists>k<Suc (drawn sn). ct_id r = ids k)
          \<and> ct_dockerID r \<in> set (map ct_dockerID (sn_containers sn @ [c]))"
      proof cases
        case 1
        from each [OF this] show ?thesis
        proof
          assume "ckey r \<in> set (map ckey (containers d0))"
          then show ?thesis by (rule disjI1)
        next
          assume own: "ct_server r = i \<and> (\<exists>k<drawn sn. ct_id r = ids k)
            \<and> ct_dockerID r \<in> set (map ct_dockerID (sn_containers sn))"
          then obtain k where "k < Suc (drawn sn)" "ct_id r = ids k" using less_SucI by blast
          with own show ?thesis by auto
        qed
      next
        case 2
        then show ?thesis using c by auto
      qed
    qed
    have 2: "\<forall>x\<in>set (sn_containers sn @ [c]). \<exists>r\<in>set (?rows @ [c\<lparr>ct_server := i, ct_stackName := []\<rparr>]).
        ct_server r = i \<and> ct_dockerID r = ct_dockerID x \<and> ct_id r = ct_id x"
      using done_ by auto
    show ?thesis
      using keep others 1 2 unfolding csnap_inv_def Let_def sn' by (auto simp: db')
  qed
qed


lemma csnap_inv_start:
  "sn_containers sn = [] \<Longrightarrow> csnap_inv ids i (sn_db sn) sn"
  by (auto simp: csnap_inv_def Let_def)

lemma put_container_docker:
  assumes "put_container ids i old fin c sn = Inr sn'"
  shows "map ct_dockerID (sn_containers sn') = map ct_dockerID (sn_containers sn) @ [ct_dockerID c]"
proof -
  have kept: "ct_dockerID (fst (resolve_container ids old c k)) = ct_dockerID c" for k
    by (auto simp: resolve_container_def split: option.split)
  obtain c1 k where ck: "resolve_container ids old c (drawn sn) = (c1, k)" by fastforce
  with kept [of "drawn sn"] have "ct_dockerID c1 = ct_dockerID c" by simp
  with assms ck show ?thesis by (auto simp: put_container_def Let_def and_then_eq_Inr)
qed

lemma fold_put_container_docker:
  "fold_res (put_container ids i old fin) cs sn = Inr sn' \<Longrightarrow>
   map ct_dockerID (sn_containers sn') = map ct_dockerID (sn_containers sn) @ map ct_dockerID cs"
  by (induction cs arbitrary: sn) (auto simp: and_then_eq_Inr dest: put_container_docker)

section \<open>The stack phase\<close>

definition ssnap_inv :: "string \<Rightarrow> db \<Rightarrow> snap \<Rightarrow> bool" where
  "ssnap_inv i d0 sn \<longleftrightarrow>
     (let rows = stacks (sn_db sn) in
      sn_db sn = d0\<lparr>stacks := rows\<rparr> \<and> sn_containers sn = []
    \<and> filter (\<lambda>r. sk_server r \<noteq> i) rows = filter (\<lambda>r. sk_server r \<noteq> i) (stacks d0)
    \<and> (\<forall>r\<in>set rows. sk_server r = i \<or> (\<exists>r0\<in>set (stacks d0). sk_id r0 = sk_id r \<and> sk_server r0 = sk_server r)))"

lemma stacks_of_Some:
  "map_of (stacks_of i d) n = Some j \<Longrightarrow>
   \<exists>r\<in>set (stacks d). sk_server r = i \<and> sk_name r = n \<and> sk_id r = j"
  by (drule map_of_SomeD) (auto simp: stacks_of_def)

lemma write_stack_inv:
  assumes inv: "ssnap_inv i d0 sn" and run: "write_stack i st (sn_db sn) = Inr d'"
    and own: "\<forall>r0\<in>set (stacks d0). sk_id r0 = sk_id st \<longrightarrow> sk_server r0 = i"
  shows "ssnap_inv i d0 (sn\<lparr>sn_db := d', drawn := k, sn_stacks := sts\<rparr>)"
proof -
  let ?rows = "stacks (sn_db sn)"
  from inv have db: "sn_db sn = d0\<lparr>stacks := ?rows\<rparr>" and nil: "sn_containers sn = []"
    and others: "filter (\<lambda>r. sk_server r \<noteq> i) ?rows = filter (\<lambda>r. sk_server r \<noteq> i) (stacks d0)"
    and each: "\<And>r. r \<in> set ?rows \<Longrightarrow>
        sk_server r = i \<or> (\<exists>r0\<in>set (stacks d0). sk_id r0 = sk_id r \<and> sk_server r0 = sk_server r)"
    unfolding ssnap_inv_def Let_def by blast+
  have db': "(sn_db sn)\<lparr>stacks := x\<rparr> = d0\<lparr>stacks := x\<rparr>" for x
    by (subst db) simp
  have mine: "sk_server r = i" if "r \<in> set ?rows" "sk_id r = sk_id st" for r
    using each [OF that(1)] own that(2) by metis
  let ?upd = "upd_rows (\<lambda>r. sk_id r = sk_id st) (\<lambda>r. r\<lparr>sk_name := sk_name st, sk_kind := sk_kind st\<rparr>) ?rows"
  have f: "filter (\<lambda>r. sk_server r \<noteq> i) ?upd = filter (\<lambda>r. sk_server r \<noteq> i) ?rows"
    by (rule filter_upd_rows_outside) (use mine in auto)
  have e: "sk_server r = i \<or> (\<exists>r0\<in>set (stacks d0). sk_id r0 = sk_id r \<and> sk_server r0 = sk_server r)"
    if "r \<in> set ?upd" for r
  proof -
    from that obtain x where "x \<in> set ?rows" "sk_id r = sk_id x" "sk_server r = sk_server x"
      by (auto elim!: mem_upd_rowsE)
    with each [of x] show ?thesis by simp
  qed
  have "ssnap_inv i d0 (sn\<lparr>sn_db := (sn_db sn)\<lparr>stacks := ?upd\<rparr>, drawn := k, sn_stacks := sts\<rparr>)"
    using others f e nil by (simp add: ssnap_inv_def db')
  moreover have "ssnap_inv i d0 (sn\<lparr>sn_db := (sn_db sn)\<lparr>stacks := ?rows @ [st\<lparr>sk_server := i, sk_count := 0\<rparr>]\<rparr>,
      drawn := k, sn_stacks := sts\<rparr>)"
    using others each nil by (simp add: ssnap_inv_def db')
  ultimately show ?thesis
    using run unfolding write_stack_def and_then_eq_Inr unique_on_Inr by (auto split: if_splits)
qed

lemma ssnap_inv_step:
  assumes "stacks_ok (stacks d0)" and "fresh_ids ids (map sk_id (stacks d0))"
    and "ssnap_inv i d0 sn" and "sk_id st = []"
    and "put_stack ids i (stacks_of i d0) st sn = Inr sn'"
  shows "ssnap_inv i d0 sn'"
proof -
  obtain j k where jk: "resolve_stack_id ids (stacks_of i d0) st (drawn sn) = (j, k)" by fastforce
  with assms(5) obtain d' where d': "write_stack i (st\<lparr>sk_id := j\<rparr>) (sn_db sn) = Inr d'"
      "sn' = sn\<lparr>sn_db := d', drawn := k, sn_stacks := sn_stacks sn @ [st\<lparr>sk_id := j\<rparr>]\<rparr>"
    by (auto simp: put_stack_def Let_def and_then_eq_Inr)
  have "\<forall>r0\<in>set (stacks d0). sk_id r0 = j \<longrightarrow> sk_server r0 = i"
  proof (cases "map_of (stacks_of i d0) (sk_name st)")
    case None
    then show ?thesis
      using jk assms(2,4) unfolding resolve_stack_id_def fresh_ids_def by force
  next
    case (Some j')
    with jk assms(4) have "j' = j" by (simp add: resolve_stack_id_def)
    with Some obtain r where "r \<in> set (stacks d0)" "sk_server r = i" "sk_id r = j"
      by (blast dest: stacks_of_Some)
    then show ?thesis
      using assms(1) distinct_map_eq [of sk_id "stacks d0" r] unfolding stacks_ok_def by metis
  qed
  then show ?thesis
    unfolding d'(2) by (intro write_stack_inv [OF assms(3) d'(1)]) simp
qed

lemma snapshot_stacks_frame:
  assumes ok: "stacks_ok (stacks d)" and "fresh_ids ids (map sk_id (stacks d))"
    and "\<forall>st\<in>set sts. sk_id st = []" and run: "snapshot_stacks ids i sts d = Inr sn"
  shows "sn_db sn = d\<lparr>stacks := stacks (sn_db sn)\<rparr>" and "sn_containers sn = []"
    and "filter (\<lambda>r. sk_server r \<noteq> i) (stacks (sn_db sn)) = filter (\<lambda>r. sk_server r \<noteq> i) (stacks d)"
proof -
  from run obtain sn1 where
    1: "fold_res (put_stack ids i (stacks_of i d)) sts
          \<lparr>sn_db = d, drawn = 0, sn_stacks = [], sn_containers = []\<rparr> = Inr sn1"
    and sn: "sn = sn1\<lparr>sn_db := drop_stacks (map snd (stacks_of i d)) (map sk_id (sn_stacks sn1)) (sn_db sn1)\<rparr>"
    by (auto simp: snapshot_stacks_def Let_def and_then_eq_Inr)
  have inv: "ssnap_inv i d sn1"
    using 1
  proof (rule fold_res_inv)
    show "ssnap_inv i d \<lparr>sn_db = d, drawn = 0, sn_stacks = [], sn_containers = []\<rparr>"
      by (auto simp: ssnap_inv_def Let_def)
  qed (use ssnap_inv_step [OF assms(1,2)] assms(3) in auto)
  let ?rows = "stacks (sn_db sn1)"
  from inv have db: "sn_db sn1 = d\<lparr>stacks := ?rows\<rparr>" and nil: "sn_containers sn1 = []"
    and others: "filter (\<lambda>r. sk_server r \<noteq> i) ?rows = filter (\<lambda>r. sk_server r \<noteq> i) (stacks d)"
    and each: "\<And>r. r \<in> set ?rows \<Longrightarrow>
        sk_server r = i \<or> (\<exists>r0\<in>set (stacks d). sk_id r0 = sk_id r \<and> sk_server r0 = sk_server r)"
    unfolding ssnap_inv_def Let_def by blast+
  have "sk_id r \<notin> set (map snd (stacks_of i d))" if "r \<in> set ?rows" "sk_server r \<noteq> i" for r
  proof
    assume "sk_id r \<in> set (map snd (stacks_of i d))"
    then obtain r1 where "r1 \<in> set (stacks d)" "sk_server r1 = i" "sk_id r1 = sk_id r"
      by (auto simp: stacks_of_def)
    moreover from each [OF that(1)] that(2) obtain r0 where
      "r0 \<in> set (stacks d)" "sk_id r0 = sk_id r" "sk_server r0 = sk_server r" by blast
    ultimately show False
      using ok that(2) distinct_map_eq [of sk_id "stacks d" r0 r1] unfolding stacks_ok_def by metis
  qed
  then have "filter (\<lambda>r. sk_server r \<noteq> i) (stacks (sn_db sn)) = filter (\<lambda>r. sk_server r \<noteq> i) ?rows"
    unfolding sn drop_stacks_def by (simp del: filter_filter) (rule filter_filter_outside, auto)
  with others show "filter (\<lambda>r. sk_server r \<noteq> i) (stacks (sn_db sn)) = filter (\<lambda>r. sk_server r \<noteq> i) (stacks d)"
    by simp
  show "sn_db sn = d\<lparr>stacks := stacks (sn_db sn)\<rparr>"
    unfolding sn drop_stacks_def by (simp, subst db, simp)
  show "sn_containers sn = []" using nil by (simp add: sn)
qed


section \<open>The whole transaction\<close>

text \<open>A report that names no row ids, applied with fresh ids to a well-formed database.\<close>

definition plain_report :: "stack list \<Rightarrow> container list \<Rightarrow> bool" where
  "plain_report sts cs \<longleftrightarrow> (\<forall>st\<in>set sts. sk_id st = []) \<and> (\<forall>c\<in>set cs. ct_id c = [])"

definition fresh_for :: "(nat \<Rightarrow> string) \<Rightarrow> db \<Rightarrow> bool" where
  "fresh_for ids d \<longleftrightarrow> fresh_ids ids (map ct_id (containers d) @ map sk_id (stacks d))"

lemma upsert_server_frame [simp]:
  "stacks (upsert_server s d) = stacks d" "containers (upsert_server s d) = containers d"
  "updates (upsert_server s d) = updates d" "releases (upsert_server s d) = releases d"
  "users (upsert_server s d) = users d" "settings (upsert_server s d) = settings d"
  "events (upsert_server s d) = events d" "commands (upsert_server s d) = commands d"
  by (simp_all add: upsert_server_def upd_server_def)

text \<open>The transaction taken apart: \<open>rows\<close> are the container rows before the last deletion, \<open>seen\<close>
  the containers of the report as the transaction resolved them.\<close>

definition own_ids :: "string \<Rightarrow> db \<Rightarrow> string set" where
  "own_ids i d = ct_id ` {x \<in> set (containers d). ct_server x = i}"

lemma containers_of_ids: "set (map (\<lambda>e. fst (snd e)) (containers_of i d)) = own_ids i d"
  by (auto simp: containers_of_def own_ids_def image_iff)

lemma drop_containers_sel:
  "containers (drop_containers old seen d) = filter (\<lambda>r. ct_id r \<in> set old \<longrightarrow> ct_id r \<in> set seen) (containers d)"
  "updates (drop_containers old seen d) = filter (\<lambda>u. up_container u \<notin>
     set (map ct_id (filter (\<lambda>r. ct_id r \<in> set old \<and> ct_id r \<notin> set seen) (containers d)))) (updates d)"
  by (simp_all add: drop_containers_def delete_containers_def Let_def)

lemma snapshot_container_phase:
  assumes wf: "db_wf (sn_db s1)" and nil: "sn_containers s1 = []" and plain: "\<forall>c\<in>set cs. ct_id c = []"
    and fresh: "fresh_ids ids (map ct_id (containers (sn_db s1)))"
    and run: "fold_res (put_container ids i (containers_of i (sn_db s1)) fin) cs s1 = Inr sn"
  shows "csnap_inv ids i (sn_db s1) sn \<and> containers_ok (containers (sn_db sn))"
proof
  show "csnap_inv ids i (sn_db s1) sn"
    using run
  proof (rule fold_res_inv)
    show "csnap_inv ids i (sn_db s1) s1" by (rule csnap_inv_start [OF nil])
  next
    fix c s s' assume "c \<in> set cs" "csnap_inv ids i (sn_db s1) s"
      "put_container ids i (containers_of i (sn_db s1)) fin c s = Inr s'"
    then show "csnap_inv ids i (sn_db s1) s'"
      using csnap_inv_step [OF _ fresh] wf plain unfolding db_wf_def by blast
  qed
  have "db_wf (sn_db sn)"
    using run by (rule fold_res_inv) (use wf in \<open>auto dest!: put_container_db intro: write_container_wf\<close>)
  then show "containers_ok (containers (sn_db sn))" by (simp add: db_wf_def)
qed

lemma ReplaceServerSnapshot_parts:
  assumes wf: "db_wf d" and plain: "plain_report sts cs" and fresh: "fresh_for ids d"
    and run: "ReplaceServerSnapshot ids srv sts cs d = Inr d'"
  obtains sn d1 where "csnap_inv ids (sv_id srv) d1 sn" "containers_ok (containers (sn_db sn))"
    "d1 = (upsert_server srv d)\<lparr>stacks := stacks d'\<rparr>"
    "filter (\<lambda>r. sk_server r \<noteq> sv_id srv) (stacks d') = filter (\<lambda>r. sk_server r \<noteq> sv_id srv) (stacks d)"
    "map ct_dockerID (sn_containers sn) = map ct_dockerID cs"
    "d' = drop_containers (map (\<lambda>e. fst (snd e)) (containers_of (sv_id srv) d))
            (map ct_id (sn_containers sn)) (sn_db sn)"
proof -
  let ?i = "sv_id srv" and ?u = "upsert_server srv d"
  from run obtain s1 s2 where s1: "snapshot_stacks ids ?i sts ?u = Inr s1"
    and s2: "snapshot_containers ids ?i cs s1 = Inr s2" and d': "d' = sn_db s2"
    by (auto simp: ReplaceServerSnapshot_def and_then_eq_Inr)
  have "stacks_ok (stacks ?u)" "fresh_ids ids (map sk_id (stacks ?u))" "\<forall>st\<in>set sts. sk_id st = []"
    using wf fresh plain by (auto simp: db_wf_def fresh_for_def fresh_ids_def plain_report_def)
  note fr = snapshot_stacks_frame [OF this s1]
  have cont: "containers (sn_db s1) = containers d" by (subst fr(1)) simp
  then have old: "containers_of ?i (sn_db s1) = containers_of ?i d" by (simp add: containers_of_def)
  from s2 obtain sn where
    sn: "fold_res (put_container ids ?i (containers_of ?i (sn_db s1)) (final_stack_ids (sn_stacks s1))) cs s1 = Inr sn"
    and d2: "d' = drop_containers (map (\<lambda>e. fst (snd e)) (containers_of ?i d)) (map ct_id (sn_containers sn)) (sn_db sn)"
    unfolding snapshot_containers_def Let_def and_then_eq_Inr d' old by auto
  have "db_wf (sn_db s1)" by (rule snapshot_stacks_wf [OF upsert_server_wf [OF wf] s1])
  moreover have "\<forall>c\<in>set cs. ct_id c = []" using plain by (simp add: plain_report_def)
  moreover have "fresh_ids ids (map ct_id (containers (sn_db s1)))"
    using fresh by (auto simp: cont fresh_for_def fresh_ids_def)
  ultimately have inv: "csnap_inv ids ?i (sn_db s1) sn" and ok: "containers_ok (containers (sn_db sn))"
    using snapshot_container_phase [OF _ fr(2) _ _ sn] by blast+
  from inv have "stacks (sn_db sn) = stacks (sn_db s1)"
    unfolding csnap_inv_def Let_def by (metis db.select_convs(2) db.surjective db.update_convs(3))
  then have "stacks d' = stacks (sn_db s1)"
    by (simp add: d2 drop_containers_def delete_containers_def Let_def)
  with that [OF inv ok] fr d2 fold_put_container_docker [OF sn] show ?thesis by simp
qed


lemma csnap_invD:
  assumes "csnap_inv ids i d0 sn"
  shows "r \<in> set (containers (sn_db sn)) \<Longrightarrow> ckey r \<in> set (map ckey (containers d0))
      \<or> ct_server r = i \<and> (\<exists>k<drawn sn. ct_id r = ids k) \<and> ct_dockerID r \<in> set (map ct_dockerID (sn_containers sn))"
    and "c \<in> set (sn_containers sn) \<Longrightarrow> \<exists>r\<in>set (containers (sn_db sn)). ct_server r = i
      \<and> ct_dockerID r = ct_dockerID c \<and> ct_id r = ct_id c"
    and "x \<in> set (containers d0) \<Longrightarrow> \<exists>r\<in>set (containers (sn_db sn)). ckey r = ckey x"
    and "filter (\<lambda>r. ct_server r \<noteq> i) (containers (sn_db sn)) = filter (\<lambda>r. ct_server r \<noteq> i) (containers d0)"
    and "sn_db sn = d0\<lparr>containers := containers (sn_db sn)\<rparr>"
proof -
  from assms have "set (map ckey (containers d0)) \<subseteq> set (map ckey (containers (sn_db sn)))"
    unfolding csnap_inv_def Let_def by blast
  then show "x \<in> set (containers d0) \<Longrightarrow> \<exists>r\<in>set (containers (sn_db sn)). ckey r = ckey x"
    by (metis (mono_tags, lifting) imageE imageI set_map subsetD)
qed (use assms in \<open>unfold csnap_inv_def Let_def, blast\<close>)+

lemma snapshot_exact_rows:
  assumes "db_wf d" and "plain_report sts cs" and "fresh_for ids d"
    and "ReplaceServerSnapshot ids srv sts cs d = Inr d'"
  shows "ct_dockerID ` {r \<in> set (containers d'). ct_server r = sv_id srv} = ct_dockerID ` set cs"
proof -
  let ?i = "sv_id srv"
  obtain sn d1 where inv: "csnap_inv ids ?i d1 sn" and ok: "containers_ok (containers (sn_db sn))"
    and d1: "d1 = (upsert_server srv d)\<lparr>stacks := stacks d'\<rparr>"
    and dk: "map ct_dockerID (sn_containers sn) = map ct_dockerID cs"
    and d': "d' = drop_containers (map (\<lambda>e. fst (snd e)) (containers_of ?i d)) (map ct_id (sn_containers sn)) (sn_db sn)"
    by (rule ReplaceServerSnapshot_parts [OF assms])
  have cont: "containers d1 = containers d" by (simp add: d1)
  let ?rows = "containers (sn_db sn)" and ?seen = "set (map ct_id (sn_containers sn))"
  have rows': "r \<in> set (containers d') \<longleftrightarrow> r \<in> set ?rows \<and> (ct_id r \<in> own_ids ?i d \<longrightarrow> ct_id r \<in> ?seen)" for r
    unfolding d' drop_containers_sel containers_of_ids by simp
  have docker: "ct_dockerID ` set cs = ct_dockerID ` set (sn_containers sn)"
    using arg_cong [OF dk, of set] by simp
  show ?thesis
    unfolding docker
  proof (intro equalityI subsetI)
    fix k assume "k \<in> ct_dockerID ` {r \<in> set (containers d'). ct_server r = ?i}"
    then obtain r where r: "r \<in> set ?rows" "ct_server r = ?i" "k = ct_dockerID r"
      and seen: "ct_id r \<in> own_ids ?i d \<longrightarrow> ct_id r \<in> ?seen"
      using rows' by auto
    from csnap_invD(1) [OF inv r(1)] show "k \<in> ct_dockerID ` set (sn_containers sn)"
    proof
      assume "ckey r \<in> set (map ckey (containers d1))"
      then have "ct_id r \<in> own_ids ?i d" using r(2) by (auto simp: own_ids_def cont)
      with seen obtain c where c: "c \<in> set (sn_containers sn)" "ct_id c = ct_id r" by auto
      with csnap_invD(2) [OF inv] obtain r' where "r' \<in> set ?rows" "ct_dockerID r' = ct_dockerID c" "ct_id r' = ct_id r"
        by metis
      with containers_ok_id [OF ok _ r(1)] have "ct_dockerID r = ct_dockerID c" by metis
      with c r(3) show ?thesis by blast
    qed (auto simp: r(3))
  next
    fix k assume "k \<in> ct_dockerID ` set (sn_containers sn)"
    then obtain c where c: "c \<in> set (sn_containers sn)" "k = ct_dockerID c" by auto
    with csnap_invD(2) [OF inv c(1)] obtain r where
      r: "r \<in> set ?rows" "ct_server r = ?i" "ct_dockerID r = k" "ct_id r = ct_id c" by blast
    with c(1) have "r \<in> set (containers d')" by (simp add: rows')
    with r show "k \<in> ct_dockerID ` {r \<in> set (containers d'). ct_server r = ?i}" by blast
  qed
qed

text \<open>C5: after a report whose rows carry no row ids is stored in a database of integrity, the containers of its
  server are exactly the reported ones: a docker id is in the table under this server when and only when
  the report names it.  The snapshots of the Docker client are such reports; nothing is claimed of one that
  brings row ids of its own.\<close>

theorem snapshot_exact:
  assumes "db_wf d" and "plain_report sts cs" and "fresh_for ids d"
    and "ReplaceServerSnapshot ids srv sts cs d = Inr d'"
  shows "ct_dockerID ` {r \<in> set (containers d'). ct_server r = sv_id srv} = ct_dockerID ` set cs"
  by (rule snapshot_exact_rows [OF assms])

text \<open>C23: a known container keeps its identity under a report whose rows carry no row ids, as those of the Docker
  client's snapshots: its row id, its pin and its update record survive such a report, so no snapshot of
  that kind loses an operator's pin.  Nothing is claimed of a report that brings row ids of its own.\<close>

theorem snapshot_keeps_pins:
  assumes "db_wf d" and "plain_report sts cs" and "fresh_for ids d"
    and "ReplaceServerSnapshot ids srv sts cs d = Inr d'"
    and "r \<in> set (containers d)" and "ct_server r = sv_id srv" and "ct_dockerID r \<in> ct_dockerID ` set cs"
  shows "(\<exists>r'\<in>set (containers d'). ct_id r' = ct_id r \<and> ct_server r' = sv_id srv
            \<and> ct_dockerID r' = ct_dockerID r \<and> ct_pinned r' = ct_pinned r)
       \<and> filter (\<lambda>u. up_container u = ct_id r) (updates d') = filter (\<lambda>u. up_container u = ct_id r) (updates d)"
proof -
  let ?i = "sv_id srv"
  obtain sn d1 where inv: "csnap_inv ids ?i d1 sn" and ok: "containers_ok (containers (sn_db sn))"
    and d1: "d1 = (upsert_server srv d)\<lparr>stacks := stacks d'\<rparr>"
    and dk: "map ct_dockerID (sn_containers sn) = map ct_dockerID cs"
    and d': "d' = drop_containers (map (\<lambda>e. fst (snd e)) (containers_of ?i d)) (map ct_id (sn_containers sn)) (sn_db sn)"
    by (rule ReplaceServerSnapshot_parts [OF assms(1-4)])
  have cont: "containers d1 = containers d" by (simp add: d1)
  let ?rows = "containers (sn_db sn)" and ?seen = "set (map ct_id (sn_containers sn))"
  obtain c where c: "c \<in> set (sn_containers sn)" "ct_dockerID c = ct_dockerID r"
    using assms(7) arg_cong [OF dk, of set] by force
  with csnap_invD(2) [OF inv] obtain rc where
    rc: "rc \<in> set ?rows" "ct_server rc = ?i" "ct_dockerID rc = ct_dockerID r" "ct_id rc = ct_id c" by metis
  from csnap_invD(3) [OF inv] assms(5) obtain r' where r': "r' \<in> set ?rows" "ckey r' = ckey r"
    unfolding cont by blast
  with rc assms(6) have "rc = r'" by (intro containers_ok_docker [OF ok]) simp_all
  with rc(4) r'(2) have "ct_id r = ct_id c" by simp
  with c(1) have seen: "ct_id r \<in> ?seen" by simp
  then have "r' \<in> set (containers d')"
    using r' unfolding d' drop_containers_sel by simp
  moreover have "filter (\<lambda>u. up_container u = ct_id r) (updates d') = filter (\<lambda>u. up_container u = ct_id r) (updates d)"
  proof -
    have "updates (sn_db sn) = updates d"
      by (subst csnap_invD(5) [OF inv]) (simp add: d1)
    then show ?thesis
      unfolding d' drop_containers_sel
      by (simp del: filter_filter) (rule filter_filter_outside, use seen in auto)
  qed
  ultimately show ?thesis using r' assms(6) by auto
qed

text \<open>C4: a report whose rows carry no row ids, as those of the Docker client's snapshots, touches nothing but its
  own server: the stacks, the containers and the update records of every other server, the other servers,
  and all users, settings, events, releases and commands are what they were.  A report that brings the row id
  of another server's container does take that row over.\<close>

theorem snapshot_isolation:
  assumes "db_wf d" and "plain_report sts cs" and "fresh_for ids d"
    and "ReplaceServerSnapshot ids srv sts cs d = Inr d'"
  shows "filter (\<lambda>s. sv_id s \<noteq> sv_id srv) (servers d') = filter (\<lambda>s. sv_id s \<noteq> sv_id srv) (servers d)
       \<and> filter (\<lambda>s. sk_server s \<noteq> sv_id srv) (stacks d') = filter (\<lambda>s. sk_server s \<noteq> sv_id srv) (stacks d)
       \<and> filter (\<lambda>c. ct_server c \<noteq> sv_id srv) (containers d') = filter (\<lambda>c. ct_server c \<noteq> sv_id srv) (containers d)
       \<and> filter (\<lambda>u. up_container u \<notin> own_ids (sv_id srv) d) (updates d')
           = filter (\<lambda>u. up_container u \<notin> own_ids (sv_id srv) d) (updates d)
       \<and> users d' = users d \<and> settings d' = settings d \<and> events d' = events d
       \<and> releases d' = releases d \<and> commands d' = commands d"
proof -
  let ?i = "sv_id srv"
  obtain sn d1 where inv: "csnap_inv ids ?i d1 sn" and ok: "containers_ok (containers (sn_db sn))"
    and d1: "d1 = (upsert_server srv d)\<lparr>stacks := stacks d'\<rparr>"
    and sk: "filter (\<lambda>r. sk_server r \<noteq> ?i) (stacks d') = filter (\<lambda>r. sk_server r \<noteq> ?i) (stacks d)"
    and d': "d' = drop_containers (map (\<lambda>e. fst (snd e)) (containers_of ?i d)) (map ct_id (sn_containers sn)) (sn_db sn)"
    by (rule ReplaceServerSnapshot_parts [OF assms])
  note db = csnap_invD(5) [OF inv]
  have rest: "servers d' = servers (upsert_server srv d)" "users d' = users d" "settings d' = settings d"
    "events d' = events d" "releases d' = releases d" "commands d' = commands d"
    unfolding d' drop_containers_def delete_containers_def Let_def
    by (simp, subst db, simp add: d1)+
  have upd: "updates (sn_db sn) = updates d" by (subst db) (simp add: d1)
  have cont: "containers d1 = containers d" by (simp add: d1)
  have "ct_id r \<notin> own_ids ?i d" if r: "r \<in> set (containers (sn_db sn))" "ct_server r \<noteq> ?i" for r
  proof
    assume "ct_id r \<in> own_ids ?i d"
    then obtain x where x: "x \<in> set (containers d)" "ct_server x = ?i" "ct_id x = ct_id r"
      by (auto simp: own_ids_def)
    from csnap_invD(1) [OF inv r(1)] r(2) obtain y where "y \<in> set (containers d)" "ckey y = ckey r"
      unfolding cont by (metis (lifting) imageE set_map)
    moreover from this x have "x = y"
      using assms(1) by (intro containers_ok_id [of "containers d"]) (simp_all add: db_wf_def)
    ultimately show False using x r(2) by simp
  qed
  then have "filter (\<lambda>c. ct_server c \<noteq> ?i) (containers d') = filter (\<lambda>c. ct_server c \<noteq> ?i) (containers (sn_db sn))"
    unfolding d' drop_containers_sel containers_of_ids
    by (simp del: filter_filter) (rule filter_filter_outside, blast)
  also note csnap_invD(4) [OF inv, unfolded cont]
  finally have ct: "filter (\<lambda>c. ct_server c \<noteq> ?i) (containers d') = filter (\<lambda>c. ct_server c \<noteq> ?i) (containers d)" .
  have up: "filter (\<lambda>u. up_container u \<notin> own_ids ?i d) (updates d') = filter (\<lambda>u. up_container u \<notin> own_ids ?i d) (updates d)"
    unfolding d' drop_containers_sel containers_of_ids upd
    by (simp del: filter_filter) (rule filter_filter_outside, auto)
  have "filter (\<lambda>s. sv_id s \<noteq> ?i) (servers (upsert_server srv d)) = filter (\<lambda>s. sv_id s \<noteq> ?i) (servers d)"
    by (auto simp: upsert_server_def upd_server_def intro!: filter_upd_rows_outside)
  with rest sk ct up show ?thesis by simp
qed


section \<open>Examples\<close>

text \<open>A database with two servers: \<open>a\<close> runs \<open>web\<close> (pinned, with an update record) and \<open>old\<close>,
  \<open>b\<close> runs a container of its own; and a report of \<open>a\<close> that knows \<open>web\<close> and a new container.\<close>

definition demo_db :: db where
  "demo_db = empty_db\<lparr>
     servers := [empty_server\<lparr>sv_id := ''a'', sv_name := ''alpha'', sv_nameCustom := True, sv_kind := ServerAgent\<rparr>,
                 empty_server\<lparr>sv_id := ''b'', sv_name := ''beta'', sv_kind := ServerAgent\<rparr>],
     containers := [empty_container\<lparr>ct_id := ''1'', ct_server := ''a'', ct_dockerID := ''web'', ct_pinned := True\<rparr>,
                    empty_container\<lparr>ct_id := ''2'', ct_server := ''a'', ct_dockerID := ''old''\<rparr>,
                    empty_container\<lparr>ct_id := ''3'', ct_server := ''b'', ct_dockerID := ''web''\<rparr>],
     updates := [\<lparr>up_id = ''u'', up_container = ''1'', up_repoKey = [], up_currentTag = ''1.0'',
        up_latestTag = ''1.1'', up_versionsBehind = 1, up_source = ''registry'', up_sourceURL = [],
        up_checkedAt = 1\<rparr>]\<rparr>"

definition demo_ids :: "nat \<Rightarrow> string" where
  "demo_ids k = replicate (Suc k) CHR ''x''"

definition demo_report :: "container list" where
  "demo_report = [empty_container\<lparr>ct_dockerID := ''web'', ct_image := ''nginx:1.1''\<rparr>,
                  empty_container\<lparr>ct_dockerID := ''new'', ct_image := ''redis:7'', ct_stackName := ''s''\<rparr>]"

definition demo_stacks :: "stack list" where
  "demo_stacks = [\<lparr>sk_id = [], sk_server = [], sk_name = ''s'', sk_kind = ''compose'', sk_count = 0\<rparr>]"

definition demo_srv :: server where
  "demo_srv = empty_server\<lparr>sv_id := ''a'', sv_name := ''host-a'', sv_status := ''online''\<rparr>"

lemma demo_wf: "db_wf demo_db"
  by (simp add: demo_db_def db_wf_def empty_db_def table_defs empty_server_def empty_container_def)

lemma demo_plain: "plain_report demo_stacks demo_report"
  by (simp add: plain_report_def demo_stacks_def demo_report_def empty_container_def)

lemma demo_fresh: "fresh_for demo_ids demo_db"
  by (auto simp: fresh_for_def fresh_ids_def demo_ids_def demo_db_def empty_db_def empty_container_def
      inj_def)

lemma demo_run: "\<exists>d'. ReplaceServerSnapshot demo_ids demo_srv demo_stacks demo_report demo_db = Inr d'"
proof -
  have "case ReplaceServerSnapshot demo_ids demo_srv demo_stacks demo_report demo_db of Inl _ \<Rightarrow> False | Inr _ \<Rightarrow> True"
    by code_simp
  then show ?thesis by (auto split: sum.splits)
qed

lemmas demo_hyps = demo_wf demo_plain demo_fresh

theorem snapshot_exact_witness:
  "\<exists>d'. ReplaceServerSnapshot demo_ids demo_srv demo_stacks demo_report demo_db = Inr d'
     \<and> ct_dockerID ` {r \<in> set (containers d'). ct_server r = ''a''} = {''web'', ''new''}"
proof -
  have "ct_dockerID ` set demo_report = {''web'', ''new''}" "sv_id demo_srv = ''a''"
    by (auto simp: demo_report_def demo_srv_def)
  then show ?thesis using demo_run snapshot_exact [OF demo_hyps, of demo_srv] by fastforce
qed

theorem snapshot_keeps_pins_witness:
  "\<exists>d'. ReplaceServerSnapshot demo_ids demo_srv demo_stacks demo_report demo_db = Inr d'
     \<and> (\<exists>r'\<in>set (containers d'). ct_id r' = ''1'' \<and> ct_dockerID r' = ''web'' \<and> ct_pinned r')
     \<and> filter (\<lambda>u. up_container u = ''1'') (updates d') \<noteq> []"
proof -
  let ?r = "empty_container\<lparr>ct_id := ''1'', ct_server := ''a'', ct_dockerID := ''web'', ct_pinned := True\<rparr>"
  have r: "?r \<in> set (containers demo_db)" "ct_server ?r = sv_id demo_srv"
      "ct_dockerID ?r \<in> ct_dockerID ` set demo_report"
    by (auto simp: demo_db_def demo_srv_def demo_report_def)
  obtain d' where run: "ReplaceServerSnapshot demo_ids demo_srv demo_stacks demo_report demo_db = Inr d'"
    using demo_run by blast
  have "filter (\<lambda>u. up_container u = ''1'') (updates demo_db) \<noteq> []"
    by (simp add: demo_db_def)
  with snapshot_keeps_pins [OF demo_hyps run r] run show ?thesis by fastforce
qed

theorem snapshot_isolation_witness:
  "\<exists>d'. ReplaceServerSnapshot demo_ids demo_srv demo_stacks demo_report demo_db = Inr d'
     \<and> filter (\<lambda>c. ct_server c \<noteq> ''a'') (containers d') = [empty_container\<lparr>ct_id := ''3'', ct_server := ''b'', ct_dockerID := ''web''\<rparr>]"
proof -
  obtain d' where run: "ReplaceServerSnapshot demo_ids demo_srv demo_stacks demo_report demo_db = Inr d'"
    using demo_run by blast
  have "filter (\<lambda>c. ct_server c \<noteq> ''a'') (containers demo_db) = [empty_container\<lparr>ct_id := ''3'', ct_server := ''b'', ct_dockerID := ''web''\<rparr>]"
    by (simp add: demo_db_def empty_container_def)
  moreover have "sv_id demo_srv = ''a''" by (simp add: demo_srv_def)
  ultimately show ?thesis using snapshot_isolation [OF demo_hyps run] run by simp
qed

end
