(* ===== verification/StoreProps.thy ===== *)
theory StoreProps
  imports SnapshotProps
begin

text \<open>
  Properties of the store as a whole: the reachable databases are well-formed, operator-chosen names
  survive every report, deleting a server leaves nothing of it, listings return what their filter
  selects, and what goes wrong when a report carries row ids of its own.
\<close>

section \<open>Reachable databases\<close>

inductive db_step :: "db \<Rightarrow> db \<Rightarrow> bool" where
  set_setting: "SetSetting k v d = Inr d' \<Longrightarrow> db_step d d'"
| create_server: "CreateServer i now s d = Inr (s', d') \<Longrightarrow> db_step d d'"
| delete_server: "DeleteServer i d = Inr d' \<Longrightarrow> db_step d d'"
| delete_server_cascade: "DeleteServerCascade i d = Inr d' \<Longrightarrow> db_step d d'"
| update_server_name: "UpdateServerName i n now d = Inr d' \<Longrightarrow> db_step d d'"
| update_server_endpoint: "UpdateServerEndpoint i h a b c now d = Inr d' \<Longrightarrow> db_step d d'"
| mark_server_offline: "MarkServerOffline i d = Inr d' \<Longrightarrow> db_step d d'"
| mark_all_offline: "MarkAllOffline d = Inr d' \<Longrightarrow> db_step d d'"
| set_container_pinned: "SetContainerPinned i b d = Inr d' \<Longrightarrow> db_step d d'"
| upsert_update: "UpsertUpdate i u d = Inr d' \<Longrightarrow> db_step d d'"
| delete_update: "DeleteUpdate i d = Inr d' \<Longrightarrow> db_step d d'"
| upsert_releases: "UpsertReleases ids k rels d = Inr d' \<Longrightarrow> db_step d d'"
| create_user: "CreateUser i now u d = Inr (u', d') \<Longrightarrow> db_step d d'"
| delete_user: "DeleteUser i d = Inr d' \<Longrightarrow> db_step d d'"
| update_user_role: "UpdateUserRole i r d = Inr d' \<Longrightarrow> db_step d d'"
| update_user_password: "UpdateUserPassword i h d = Inr d' \<Longrightarrow> db_step d d'"
| add_event: "AddEvent now e d = Inr d' \<Longrightarrow> db_step d d'"
| create_command: "CreateCommand i now c d = Inr (c', d') \<Longrightarrow> db_step d d'"
| update_command_result: "UpdateCommandResult i st r now d = Inr d' \<Longrightarrow> db_step d d'"
| replace_snapshot: "ReplaceServerSnapshot ids srv sts cs d = Inr d' \<Longrightarrow> db_step d d'"

inductive db_reachable :: "db \<Rightarrow> bool" where
  init: "db_reachable empty_db"
| step: "db_reachable d \<Longrightarrow> db_step d d' \<Longrightarrow> db_reachable d'"

lemma db_step_wf: "db_step d d' \<Longrightarrow> db_wf d \<Longrightarrow> db_wf d'"
  by (induction rule: db_step.induct) (erule (1) keeps_wf)+

text \<open>Whatever sequence of store operations runs, with whatever arguments, the database stays
  well-formed: primary keys and the unique pairs stay unique, every update record belongs to an
  existing container, no event id is reused.\<close>

theorem reachable_wf: "db_reachable d \<Longrightarrow> db_wf d"
  by (induction rule: db_reachable.induct) (auto intro: db_wf_empty db_step_wf)

theorem reachable_wf_witness:
  "db_wf (empty_db\<lparr>settings := [(''oidc_issuer'', ''x'')], users := [\<lparr>us_id = ''1'', us_username = ''ann'',
      us_role = ''admin'', us_hash = ''h'', us_created = 7\<rparr>]\<rparr>)"
proof (rule reachable_wf, rule step, rule step, rule init)
  show "db_step empty_db (empty_db\<lparr>settings := [(''oidc_issuer'', ''x'')]\<rparr>)"
    by (rule set_setting [of "''oidc_issuer''" "''x''"]) (simp add: SetSetting_def empty_db_def)
  show "db_step (empty_db\<lparr>settings := [(''oidc_issuer'', ''x'')]\<rparr>) (empty_db\<lparr>settings := [(''oidc_issuer'', ''x'')],
      users := [\<lparr>us_id = ''1'', us_username = ''ann'', us_role = ''admin'', us_hash = ''h'', us_created = 7\<rparr>]\<rparr>)"
    by (rule create_user [of "''1''" 7 "\<lparr>us_id = [], us_username = ''ann'', us_role = ''admin'',
          us_hash = ''h'', us_created = 0\<rparr>"])
      (simp add: CreateUser_def empty_db_def unique_on_def)
qed

section \<open>The server row in a snapshot\<close>

text \<open>The tables a report does not write to are those the upsert of the server row leaves.\<close>

lemma ReplaceServerSnapshot_frame:
  assumes ws: "\<And>i st d d'. write_stack i st d = Inr d' \<Longrightarrow> f d' = f d"
    and wc: "\<And>i c d d'. write_container i c d = Inr d' \<Longrightarrow> f d' = f d"
    and ds: "\<And>old seen d. f (drop_stacks old seen d) = f d"
    and dc: "\<And>old seen d. f (drop_containers old seen d) = f d"
    and run: "ReplaceServerSnapshot ids srv sts cs d = Inr d'"
  shows "f d' = f (upsert_server srv d)"
proof -
  let ?i = "sv_id srv" and ?u = "upsert_server srv d"
  from run obtain s1 s2 where 1: "snapshot_stacks ids ?i sts ?u = Inr s1"
    and 2: "snapshot_containers ids ?i cs s1 = Inr s2" and d': "d' = sn_db s2"
    by (auto simp: ReplaceServerSnapshot_def and_then_eq_Inr)
  from 1 obtain a where a: "fold_res (put_stack ids ?i (stacks_of ?i ?u)) sts
      \<lparr>sn_db = ?u, drawn = 0, sn_stacks = [], sn_containers = []\<rparr> = Inr a"
    and s1: "f (sn_db s1) = f (sn_db a)"
    by (auto simp: snapshot_stacks_def Let_def and_then_eq_Inr ds)
  have "f (sn_db a) = f ?u"
    by (rule fold_res_inv [OF a]) (auto dest!: put_stack_db ws)
  moreover from 2 obtain b where b: "fold_res (put_container ids ?i (containers_of ?i (sn_db s1))
      (final_stack_ids (sn_stacks s1))) cs s1 = Inr b" and s2: "f (sn_db s2) = f (sn_db b)"
    by (auto simp: snapshot_containers_def Let_def and_then_eq_Inr dc)
  have "f (sn_db b) = f (sn_db s1)"
    by (rule fold_res_inv [OF b]) (auto dest!: put_container_db wc)
  ultimately show ?thesis using s1 s2 d' by simp
qed

lemmas snapshot_write_defs = write_stack_def write_container_def and_then_eq_Inr drop_stacks_def drop_containers_def
  delete_containers_def Let_def

lemma ReplaceServerSnapshot_tables:
  assumes "ReplaceServerSnapshot ids srv sts cs d = Inr d'"
  shows "servers d' = servers (upsert_server srv d)" "users d' = users d" "settings d' = settings d"
    "commands d' = commands d" "events d' = events d"
proof -
  show "servers d' = servers (upsert_server srv d)"
    by (rule ReplaceServerSnapshot_frame [OF _ _ _ _ assms]) (auto simp: snapshot_write_defs)
  have "users d' = users (upsert_server srv d)"
    by (rule ReplaceServerSnapshot_frame [OF _ _ _ _ assms]) (auto simp: snapshot_write_defs)
  then show "users d' = users d" by simp
  have "settings d' = settings (upsert_server srv d)"
    by (rule ReplaceServerSnapshot_frame [OF _ _ _ _ assms]) (auto simp: snapshot_write_defs)
  then show "settings d' = settings d" by simp
  have "commands d' = commands (upsert_server srv d)"
    by (rule ReplaceServerSnapshot_frame [OF _ _ _ _ assms]) (auto simp: snapshot_write_defs)
  then show "commands d' = commands d" by simp
  have "events d' = events (upsert_server srv d)"
    by (rule ReplaceServerSnapshot_frame [OF _ _ _ _ assms]) (auto simp: snapshot_write_defs)
  then show "events d' = events d" by simp
qed

lemmas ReplaceServerSnapshot_servers = ReplaceServerSnapshot_tables(1)

definition store_reports ::
  "((nat \<Rightarrow> string) \<times> server \<times> stack list \<times> container list) list \<Rightarrow> db \<Rightarrow> err + db" where
  "store_reports = fold_res (\<lambda>(ids, srv, sts, cs). ReplaceServerSnapshot ids srv sts cs)"

definition named_custom :: "string \<Rightarrow> string \<Rightarrow> db \<Rightarrow> bool" where
  "named_custom i n d \<longleftrightarrow> i \<in> set (map sv_id (servers d))
     \<and> (\<forall>r\<in>set (servers d). sv_id r = i \<longrightarrow> sv_name r = n \<and> sv_nameCustom r)"

lemma named_custom_snapshot:
  assumes "named_custom i n d" and "ReplaceServerSnapshot ids srv sts cs d = Inr d'"
  shows "named_custom i n d'"
proof -
  from assms(1) have i: "i \<in> set (map sv_id (servers d))"
    and r: "\<And>r. r \<in> set (servers d) \<Longrightarrow> sv_id r = i \<Longrightarrow> sv_name r = n \<and> sv_nameCustom r"
    unfolding named_custom_def by blast+
  show ?thesis
  proof (cases "sv_id srv \<in> set (map sv_id (servers d))")
    case True
    then show ?thesis
      using i r unfolding named_custom_def ReplaceServerSnapshot_servers [OF assms(2)] upsert_server_def upd_server_def
      by (auto simp: map_upd_rows image_upd_rows elim!: mem_upd_rowsE split: if_splits)
  next
    case False
    with i have "sv_id srv \<noteq> i" by blast
    with False show ?thesis
      using i r unfolding named_custom_def ReplaceServerSnapshot_servers [OF assms(2)] upsert_server_def by auto
  qed
qed

lemma named_custom_GetServer: "named_custom i n d \<Longrightarrow> \<exists>s. GetServer i d = Inr s \<and> sv_name s = n"
proof -
  assume "named_custom i n d"
  then obtain r where "find (\<lambda>r. sv_id r = i) (servers d) = Some r" "sv_name r = n"
    unfolding named_custom_def
    by (cases "find (\<lambda>r. sv_id r = i) (servers d)") (auto simp: find_eq_None_iff dest: find_eq_Some_mem)
  then show ?thesis by (auto simp: GetServer_def scanServer_def)
qed

text \<open>A name an operator chose is never overwritten: after a rename, whatever reports arrive and
  whatever host names they carry, the server is still shown under that name.\<close>

theorem rename_survives_reports:
  assumes "i \<in> set (map sv_id (servers d))" and "UpdateServerName i n now d = Inr d1"
    and "store_reports reports d1 = Inr d2"
  shows "\<exists>s. GetServer i d2 = Inr s \<and> sv_name s = n"
proof -
  have "named_custom i n d1"
    using assms(1,2) by (auto simp: UpdateServerName_def named_custom_def upd_server_def image_upd_rows
        elim!: mem_upd_rowsE split: if_splits)
  with assms(3) [unfolded store_reports_def] have "named_custom i n d2"
    by (rule fold_res_inv) (auto intro: named_custom_snapshot)
  then show ?thesis by (rule named_custom_GetServer)
qed

theorem rename_survives_reports_witness:
  "\<exists>d2 s. store_reports [(demo_ids, demo_srv, demo_stacks, demo_report)]
      (upd_server ''a'' (\<lambda>r. r\<lparr>sv_name := ''gamma'', sv_nameCustom := True, sv_updated := 9\<rparr>) demo_db) = Inr d2
    \<and> GetServer ''a'' d2 = Inr s \<and> sv_name s = ''gamma''"
proof -
  let ?d1 = "upd_server ''a'' (\<lambda>r. r\<lparr>sv_name := ''gamma'', sv_nameCustom := True, sv_updated := 9\<rparr>) demo_db"
  have "case ReplaceServerSnapshot demo_ids demo_srv demo_stacks demo_report ?d1 of Inl _ \<Rightarrow> False | Inr _ \<Rightarrow> True"
    by code_simp
  then obtain d2 where d2: "store_reports [(demo_ids, demo_srv, demo_stacks, demo_report)] ?d1 = Inr d2"
    by (auto simp: store_reports_def split: sum.splits)
  have "''a'' \<in> set (map sv_id (servers demo_db))" by (simp add: demo_db_def)
  moreover have "UpdateServerName ''a'' ''gamma'' 9 demo_db = Inr ?d1" by (simp add: UpdateServerName_def)
  ultimately show ?thesis using rename_survives_reports [OF _ _ d2] d2 by blast
qed

text \<open>A report cannot reclassify or repoint a server: its kind, its local flag, its token, its
  endpoint and its TLS files are what they were before, whatever the report claims.\<close>

theorem snapshot_keeps_endpoint:
  assumes "ReplaceServerSnapshot ids srv sts cs d = Inr d'" and "sv_id srv \<in> set (map sv_id (servers d))"
  shows "map (\<lambda>s. (sv_id s, sv_kind s, sv_isLocal s, sv_tokenHash s, sv_dockerHost s,
                   sv_tlsCA s, sv_tlsCert s, sv_tlsKey s, sv_nameCustom s)) (servers d')
       = map (\<lambda>s. (sv_id s, sv_kind s, sv_isLocal s, sv_tokenHash s, sv_dockerHost s,
                   sv_tlsCA s, sv_tlsCert s, sv_tlsKey s, sv_nameCustom s)) (servers d)"
  unfolding ReplaceServerSnapshot_servers [OF assms(1)] upsert_server_def upd_server_def
  using assms(2) by (simp add: map_upd_rows)

theorem snapshot_keeps_endpoint_witness:
  "\<exists>d'. ReplaceServerSnapshot demo_ids (demo_srv\<lparr>sv_kind := ServerDirect, sv_tokenHash := ''evil''\<rparr>)
       demo_stacks demo_report demo_db = Inr d'
     \<and> map (\<lambda>s. (sv_kind s, sv_tokenHash s)) (servers d') = [(ServerAgent, []), (ServerAgent, [])]"
proof -
  let ?srv = "demo_srv\<lparr>sv_kind := ServerDirect, sv_tokenHash := ''evil''\<rparr>"
  have "case ReplaceServerSnapshot demo_ids ?srv demo_stacks demo_report demo_db of Inl _ \<Rightarrow> False | Inr _ \<Rightarrow> True"
    by code_simp
  then obtain d' where d': "ReplaceServerSnapshot demo_ids ?srv demo_stacks demo_report demo_db = Inr d'"
    by (auto split: sum.splits)
  have "sv_id ?srv \<in> set (map sv_id (servers demo_db))" by (simp add: demo_srv_def demo_db_def)
  from arg_cong [OF snapshot_keeps_endpoint [OF d' this], of "map (\<lambda>(i, k, l, t, _). (k, t))"]
  have "map (\<lambda>s. (sv_kind s, sv_tokenHash s)) (servers d') = map (\<lambda>s. (sv_kind s, sv_tokenHash s)) (servers demo_db)"
    by (simp add: o_def)
  also have "servers demo_db = [empty_server\<lparr>sv_id := ''a'', sv_name := ''alpha'', sv_nameCustom := True, sv_kind := ServerAgent\<rparr>,
      empty_server\<lparr>sv_id := ''b'', sv_name := ''beta'', sv_kind := ServerAgent\<rparr>]"
    by (simp add: demo_db_def)
  finally have "map (\<lambda>s. (sv_kind s, sv_tokenHash s)) (servers d') = [(ServerAgent, []), (ServerAgent, [])]"
    by (simp add: empty_server_def)
  with d' show ?thesis by (intro exI conjI)
qed


section \<open>Deleting a server\<close>

lemma DeleteServerCascade_sel:
  assumes "DeleteServerCascade i d = Inr d'"
  shows "servers d' = filter (\<lambda>r. sv_id r \<noteq> i) (servers d)" "stacks d' = filter (\<lambda>s. sk_server s \<noteq> i) (stacks d)"
    "containers d' = filter (\<lambda>c. ct_server c \<noteq> i) (containers d)"
    "commands d' = filter (\<lambda>c. cm_server c \<noteq> i) (commands d)"
    "updates d' = filter (\<lambda>u. up_container u \<notin> own_ids i d) (updates d)"
  using assms by (auto simp: DeleteServerCascade_def DeleteServer_def delete_containers_def Let_def own_ids_def)

text \<open>Deleting a server leaves nothing of it: no server row, stack, container or queued command of
  it, and no update record of any of its containers; every update record left belongs to a container
  left, and the rows of the other servers stay.\<close>

theorem DeleteServerCascade_complete:
  assumes "db_wf d" and "DeleteServerCascade i d = Inr d'"
  shows "i \<notin> sv_id ` set (servers d') \<and> i \<notin> sk_server ` set (stacks d')
       \<and> i \<notin> ct_server ` set (containers d') \<and> i \<notin> cm_server ` set (commands d')
       \<and> (\<forall>u\<in>set (updates d'). up_container u \<notin> own_ids i d \<and> up_container u \<in> ct_id ` set (containers d'))
       \<and> (\<forall>c\<in>set (containers d). ct_server c \<noteq> i \<longrightarrow> c \<in> set (containers d')
            \<and> filter (\<lambda>u. up_container u = ct_id c) (updates d') = filter (\<lambda>u. up_container u = ct_id c) (updates d))"
proof -
  note sel = DeleteServerCascade_sel [OF assms(2)]
  have "db_wf d'" by (rule DeleteServerCascade_wf [OF assms])
  then have fk: "\<forall>u\<in>set (updates d'). up_container u \<in> ct_id ` set (containers d')"
    by (simp add: db_wf_def updates_ok_def)
  have keep: "filter (\<lambda>u. up_container u = ct_id c) (updates d') = filter (\<lambda>u. up_container u = ct_id c) (updates d)"
    if c: "c \<in> set (containers d)" "ct_server c \<noteq> i" for c
  proof -
    have "ct_id c \<notin> own_ids i d"
    proof
      assume "ct_id c \<in> own_ids i d"
      then obtain x where "x \<in> set (containers d)" "ct_server x = i" "ct_id x = ct_id c" by (auto simp: own_ids_def)
      moreover from this c assms(1) have "x = c"
        by (intro containers_ok_id [of "containers d"]) (simp_all add: db_wf_def)
      ultimately show False using c by simp
    qed
    then show ?thesis unfolding sel by (intro filter_filter_outside) auto
  qed
  show ?thesis
    using fk keep by (auto simp: sel)
qed

theorem DeleteServerCascade_complete_witness:
  "\<exists>d'. DeleteServerCascade ''a'' demo_db = Inr d' \<and> ''a'' \<notin> ct_server ` set (containers d')
     \<and> (\<forall>u\<in>set (updates d'). up_container u \<notin> own_ids ''a'' demo_db)"
proof -
  obtain d' where d': "DeleteServerCascade ''a'' demo_db = Inr d'"
    by (simp add: DeleteServerCascade_def DeleteServer_def Let_def)
  with DeleteServerCascade_complete [OF demo_wf d'] show ?thesis by (intro exI [of _ d']) blast
qed

section \<open>Listings\<close>

lemma sqlLike_any: "sqlLike (CHR ''%'' # p) t \<longleftrightarrow> (\<exists>k\<le>length t. sqlLike p (drop k t))"
proof -
  have "set [0..<Suc (length t)] = {..length t}" by auto
  then show ?thesis by (simp del: upt_Suc set_upt) blast
qed

lemma sqlLike_literal:
  assumes "CHR ''%'' \<notin> set p" and "CHR ''_'' \<notin> set p"
  shows "sqlLike (p @ ''%'') t \<longleftrightarrow> map toLowerChar (take (length p) t) = map toLowerChar p"
  using assms
proof (induction p arbitrary: t)
  case Nil
  have "\<exists>k\<in>set [0..<Suc (length t)]. drop k t = []"
    by (intro bexI [of _ "length t"]) auto
  then show ?case by simp
next
  case (Cons c p)
  then show ?case by (cases t) auto
qed

text \<open>The search box finds what it says: for a search text without wildcards the LIKE pattern the
  code builds matches exactly the strings that contain the text, upper and lower case not told apart.\<close>

theorem sqlLike_contains:
  assumes "CHR ''%'' \<notin> set p" and "CHR ''_'' \<notin> set p"
  shows "sqlLike (''%'' @ p @ ''%'') t \<longleftrightarrow>
     (\<exists>a m b. t = a @ m @ b \<and> map toLowerChar m = map toLowerChar p)"
proof -
  have "sqlLike (''%'' @ p @ ''%'') t \<longleftrightarrow>
      (\<exists>k\<le>length t. map toLowerChar (take (length p) (drop k t)) = map toLowerChar p)"
    using sqlLike_literal [OF assms] by (simp only: append.simps sqlLike_any)
  also have "\<dots> \<longleftrightarrow> (\<exists>a m b. t = a @ m @ b \<and> map toLowerChar m = map toLowerChar p)"
  proof
    assume "\<exists>k\<le>length t. map toLowerChar (take (length p) (drop k t)) = map toLowerChar p"
    then obtain k where "map toLowerChar (take (length p) (drop k t)) = map toLowerChar p" by blast
    moreover have "t = take k t @ take (length p) (drop k t) @ drop (length p) (drop k t)"
      by (simp only: append_take_drop_id)
    ultimately show "\<exists>a m b. t = a @ m @ b \<and> map toLowerChar m = map toLowerChar p" by blast
  next
    assume "\<exists>a m b. t = a @ m @ b \<and> map toLowerChar m = map toLowerChar p"
    then obtain a m b where t: "t = a @ m @ b" and m: "map toLowerChar m = map toLowerChar p" by blast
    from arg_cong [OF m, of length] have "length m = length p" by simp
    with t m have "length a \<le> length t \<and> map toLowerChar (take (length p) (drop (length a) t)) = map toLowerChar p"
      by simp
    then show "\<exists>k\<le>length t. map toLowerChar (take (length p) (drop k t)) = map toLowerChar p" by blast
  qed
  finally show ?thesis .
qed

theorem sqlLike_contains_witness:
  "sqlLike ''%Nginx%'' ''docker.io/library/nginx:1.25''"
proof -
  have "CHR ''%'' \<notin> set ''Nginx''" "CHR ''_'' \<notin> set ''Nginx''" by simp_all
  note sqlLike_contains [OF this, of "''docker.io/library/nginx:1.25''"]
  moreover have "\<exists>a m b. ''docker.io/library/nginx:1.25'' = a @ m @ b \<and> map toLowerChar m = map toLowerChar ''Nginx''"
  proof (intro exI conjI)
    show "''docker.io/library/nginx:1.25'' = ''docker.io/library/'' @ ''nginx'' @ '':1.25''" by simp
    show "map toLowerChar ''nginx'' = map toLowerChar ''Nginx''" by code_simp
  qed
  ultimately have "sqlLike (''%'' @ ''Nginx'' @ ''%'') ''docker.io/library/nginx:1.25''" by (rule iffD2)
  then show ?thesis by (simp only: append.simps)
qed

lemma join_container_id:
  "join_container d c = Some cu \<Longrightarrow> ct_id (cu_container cu) = ct_id c \<and> ct_server (cu_container cu) = ct_server c"
  by (auto simp: join_container_def split: option.splits)

lemma set_map_filter: "set (List.map_filter f xs) = {y. \<exists>x\<in>set xs. f x = Some y}"
  by (induction xs) (auto simp: List.map_filter_def split: option.splits)

text \<open>A listing without a limit returns exactly the joined rows its filter selects, each server's
  containers together, ordered by server, stack and container name; with a limit it returns the first
  rows of that list.\<close>

theorem ListContainers_spec:
  "set (ListContainers (f\<lparr>cf_limit := 0\<rparr>) d)
     = {cu. (\<exists>c\<in>set (containers d). join_container d c = Some cu) \<and> buildContainerWhere f cu}
   \<and> sorted_wrt (\<lambda>x y. (cu_serverName x, ct_stackName (cu_container x), ct_name (cu_container x))
                    \<le> (cu_serverName y, ct_stackName (cu_container y), ct_name (cu_container y)))
       (ListContainers f d)
   \<and> (\<exists>rest. ListContainers (f\<lparr>cf_limit := 0\<rparr>) d = ListContainers f d @ rest)"
proof -
  have w: "buildContainerWhere (f\<lparr>cf_limit := 0\<rparr>) = buildContainerWhere f"
    by (intro ext) (simp add: buildContainerWhere_def)
  let ?key = "\<lambda>cu. (cu_serverName cu, ct_stackName (cu_container cu), ct_name (cu_container cu))"
  let ?all = "sort_key ?key (filter (buildContainerWhere f) (List.map_filter (join_container d) (containers d)))"
  have all: "ListContainers (f\<lparr>cf_limit := 0\<rparr>) d = ?all" by (simp add: ListContainers_def w Let_def)
  have lim: "ListContainers f d = (if cf_limit f > 0 then take (nat (cf_limit f)) ?all else ?all)"
    by (simp add: ListContainers_def Let_def)
  have "sorted_wrt (\<lambda>x y. ?key x \<le> ?key y) ?all"
    using sorted_sort_key [of ?key] by (simp only: sorted_map)
  then have "sorted_wrt (\<lambda>x y. ?key x \<le> ?key y) (ListContainers f d)" by (simp add: lim sorted_wrt_take)
  moreover have "\<exists>rest. ?all = ListContainers f d @ rest"
  proof (cases "cf_limit f > 0")
    case True
    then show ?thesis
      by (intro exI [of _ "drop (nat (cf_limit f)) ?all"]) (simp only: lim if_True append_take_drop_id)
  qed (simp add: lim)
  moreover have "set ?all = {cu. (\<exists>c\<in>set (containers d). join_container d c = Some cu) \<and> buildContainerWhere f cu}"
    by (auto simp: set_map_filter)
  ultimately show ?thesis by (simp only: all)
qed

section \<open>Row ids in a report\<close>

text \<open>A report whose container carries a row id of its own is taken at its word: when that id is the id
  of another server's row, that row is overwritten, and stays under the other server.\<close>

lemma write_container_foreign:
  assumes "db_wf d" and "c \<in> set (containers d)" and "ct_id c' = ct_id c"
  shows "\<exists>d'. write_container i c' d = Inr d' \<and> containers d' = upd_rows (\<lambda>r. ct_id r = ct_id c) (merge_container c') (containers d)"
proof -
  have "distinct (map (\<lambda>r. (ct_server r, ct_dockerID r)) (upd_rows (\<lambda>r. ct_id r = ct_id c) (merge_container c') (containers d)))"
    using assms(1) by (simp add: map_upd_rows db_wf_def containers_ok_def)
  then show ?thesis
    using assms(2,3) by (auto simp: write_container_def unique_on_def)
qed

text \<open>C38: a report can change another server's container: a reported container that names that
  container's row id, with a docker id its own server does not know, overwrites the foreign row's
  image and name, and the row stays listed under the other server.\<close>

theorem report_overwrites_foreign_row:
  assumes wf: "db_wf d" and victim: "c \<in> set (containers d)" "ct_server c \<noteq> sv_id srv" "ct_id c \<noteq> []"
    and unknown: "\<forall>r\<in>set (containers d). ct_server r = sv_id srv \<longrightarrow> ct_dockerID r \<noteq> dk"
    and srv: "sv_id srv \<in> set (map sv_id (servers d))"
    and rep: "rep = empty_container\<lparr>ct_id := ct_id c, ct_dockerID := dk, ct_image := img, ct_name := name\<rparr>"
  shows "\<exists>d'. ReplaceServerSnapshot ids srv [] [rep] d = Inr d'
    \<and> (\<exists>r\<in>set (containers d'). ct_id r = ct_id c \<and> ct_server r = ct_server c \<and> ct_image r = img \<and> ct_name r = name)"
proof -
  let ?i = "sv_id srv" and ?u = "upsert_server srv d"
  let ?s1 = "\<lparr>sn_db = drop_stacks (map snd (stacks_of ?i ?u)) [] ?u, drawn = 0, sn_stacks = [], sn_containers = []\<rparr>"
  have s1: "snapshot_stacks ids ?i [] ?u = Inr ?s1" by (simp add: snapshot_stacks_def Let_def)
  have cont: "containers (sn_db ?s1) = containers d" by (simp add: drop_stacks_def)
  have wf1: "db_wf (sn_db ?s1)" by (rule snapshot_stacks_wf [OF upsert_server_wf [OF wf] s1])
  have "map_of (containers_of ?i (sn_db ?s1)) dk = None"
    using unknown by (auto simp: containers_of_def map_of_eq_None_iff cont [simplified])
  then have res: "resolve_container ids (containers_of ?i (sn_db ?s1)) rep 0 = (rep, 0)"
    using victim(3) by (simp add: resolve_container_def rep)
  obtain d2 where d2: "write_container ?i rep (sn_db ?s1) = Inr d2"
      "containers d2 = upd_rows (\<lambda>r. ct_id r = ct_id c) (merge_container rep) (containers d)"
    using write_container_foreign [OF wf1, of c rep ?i] victim(1) by (auto simp: cont [simplified] rep)
  have stk: "resolve_container_stack (final_stack_ids []) rep = rep"
    by (simp add: resolve_container_stack_def rep empty_container_def)
  let ?d' = "drop_containers (map (\<lambda>e. fst (snd e)) (containers_of ?i (sn_db ?s1))) [ct_id c] d2"
  have run: "ReplaceServerSnapshot ids srv [] [rep] d = Inr ?d'"
    unfolding ReplaceServerSnapshot_def s1 and_then_Inr snapshot_containers_def Let_def
    using res stk d2(1) by (simp add: put_container_def rep)
  have "merge_container rep c \<in> set (containers ?d')"
    using victim(1) by (auto simp: drop_containers_sel d2(2) set_upd_rows)
  moreover have "ct_image (merge_container rep c) = img" "ct_name (merge_container rep c) = name"
    by (simp_all add: merge_container_def rep)
  moreover have "ct_id (merge_container rep c) = ct_id c" "ct_server (merge_container rep c) = ct_server c"
    by simp_all
  ultimately show ?thesis by (intro exI [of _ ?d'] conjI run) blast
qed

theorem report_overwrites_foreign_row_witness:
  "\<exists>d'. ReplaceServerSnapshot demo_ids demo_srv []
      [empty_container\<lparr>ct_id := ''3'', ct_dockerID := ''x'', ct_image := ''evil:1'', ct_name := ''n''\<rparr>] demo_db = Inr d'
    \<and> (\<exists>r\<in>set (containers d'). ct_id r = ''3'' \<and> ct_server r = ''b'' \<and> ct_image r = ''evil:1'')"
proof -
  let ?c = "empty_container\<lparr>ct_id := ''3'', ct_server := ''b'', ct_dockerID := ''web''\<rparr>"
  have "?c \<in> set (containers demo_db)" "ct_server ?c \<noteq> sv_id demo_srv" "ct_id ?c \<noteq> []"
    "\<forall>r\<in>set (containers demo_db). ct_server r = sv_id demo_srv \<longrightarrow> ct_dockerID r \<noteq> ''x''"
    "sv_id demo_srv \<in> set (map sv_id (servers demo_db))"
    by (simp_all add: demo_db_def demo_srv_def)
  from report_overwrites_foreign_row [OF demo_wf this refl, of demo_ids "''n''" "''evil:1''"]
  show ?thesis by auto
qed

section \<open>The order of time columns\<close>

text \<open>The text order of the time columns is the order of time between different seconds, but not
  within one: a time on the full second sorts after a time half a second later.\<close>

theorem ts_order:
  "(t1 div second < t2 div second \<longrightarrow> ts t1 < ts t2) \<and> ts (5 * second + 500000000) < ts (5 * second)"
proof -
  have "ts (5 * second + 500000000) < ts (5 * second)" by code_simp
  then show ?thesis by (simp add: ts_def)
qed

theorem ts_order_witness: "ts (second) < ts (2 * second)"
  using ts_order [of second "2 * second"] by simp

end
