(* ===== verification/Sources.thy ===== *)
theory Sources
  imports GoStrings
begin

text \<open>
  Where release notes come from: \<open>internal/reference/reference.go\<close> (the normalised image reference)
  and the source resolution of \<open>internal/changelog/changelog.go\<close>.  The grammar of image references
  belongs to the library \<open>distribution/reference\<close>, so its parser is an argument, and so is the URL
  parser of \<open>net/url\<close>, of which the code reads the host and the path.
\<close>

section \<open>References\<close>

record reference =
  rf_registry :: string
  rf_repository :: string
  rf_name :: string
  rf_tag :: string
  rf_digest :: string
  rf_original :: string

text \<open>What the library's parsed name offers: domain, path, name, and a tag or digest if it has one.\<close>

record named =
  nm_domain :: string
  nm_path :: string
  nm_name :: string
  nm_tag :: "string option"
  nm_digest :: "string option"

definition orEmpty :: "string option \<Rightarrow> string" where
  "orEmpty x = (case x of None \<Rightarrow> [] | Some s \<Rightarrow> s)"

definition Parse :: "(string \<Rightarrow> err + named) \<Rightarrow> string \<Rightarrow> err + reference" where
  "Parse parseNormalizedNamed raw0 =
     (let raw = trimSpace raw0
      in if raw = [] then Inl (errors_new ''empty image reference'')
         else (case parseNormalizedNamed raw of
                 Inl e \<Rightarrow> Inl e
               | Inr n \<Rightarrow>
                   (let r = \<lparr>rf_registry = nm_domain n, rf_repository = nm_path n, rf_name = nm_name n,
                             rf_tag = orEmpty (nm_tag n), rf_digest = orEmpty (nm_digest n),
                             rf_original = raw\<rparr>
                    in Inr (if rf_tag r = [] \<and> rf_digest r = [] then r\<lparr>rf_tag := ''latest''\<rparr> else r))))"

definition reference_String :: "reference \<Rightarrow> string" where
  "reference_String r =
     (if rf_tag r \<noteq> [] then rf_name r @ '':'' @ rf_tag r
      else if rf_digest r \<noteq> [] then rf_name r @ ''@'' @ rf_digest r
      else rf_name r)"

definition IsGitHubRegistry :: "reference \<Rightarrow> bool" where
  "IsGitHubRegistry r \<longleftrightarrow> rf_registry r = ''ghcr.io''"

definition IsGitLabRegistry :: "reference \<Rightarrow> bool" where
  "IsGitLabRegistry r \<longleftrightarrow> rf_registry r = ''registry.gitlab.com''"

section \<open>Sources\<close>

datatype sourceType = SourceGitHub | SourceGitLab | SourceGitea | SourceRegistry | SourceNone

record source =
  so_type :: sourceType
  so_repo :: string
  so_baseURL :: string
  so_webURL :: string
  so_registry :: string
  so_repository :: string
  so_token :: string

definition no_source :: source where
  "no_source = \<lparr>so_type = SourceNone, so_repo = [], so_baseURL = [], so_webURL = [], so_registry = [],
     so_repository = [], so_token = []\<rparr>"

record registryConfig =
  rc_source :: string
  rc_baseURL :: string
  rc_repoMap :: "(string \<times> string) list"

type_synonym registries = "(string \<times> registryConfig) list"

definition sourceFromHint :: "registryConfig \<Rightarrow> string \<Rightarrow> source" where
  "sourceFromHint rc repo =
     (let src = no_source\<lparr>so_repo := repo, so_baseURL := rc_baseURL rc\<rparr>;
          s = toLower (rc_source rc);
          github = src\<lparr>so_type := SourceGitHub, so_webURL := ''https://github.com/'' @ repo\<rparr>
      in if s = ''github'' then github
         else if s = ''gitlab'' then src\<lparr>so_type := SourceGitLab\<rparr>
         else if s = ''gitea'' \<or> s = ''forgejo'' then src\<lparr>so_type := SourceGitea\<rparr>
         else if rc_baseURL rc \<noteq> [] \<and> \<not> containsStr (rc_baseURL rc) ''api.github.com''
         then src\<lparr>so_type := SourceGitea, so_webURL := trimSuffix (rc_baseURL rc) ''/api/v1''\<rparr>
         else github)"

definition registryBase :: "registries \<Rightarrow> string \<Rightarrow> string" where
  "registryBase regs registry =
     (case map_of regs registry of
        Some rc \<Rightarrow> if rc_baseURL rc \<noteq> [] then rc_baseURL rc else []
      | None \<Rightarrow> [])"

text \<open>\<open>urlParse\<close> answers with the host and the path of a URL.\<close>

definition sourceFromURL :: "(string \<Rightarrow> err + string \<times> string) \<Rightarrow> string \<Rightarrow> source option" where
  "sourceFromURL urlParse raw =
     (case urlParse (trimSpace raw) of
        Inl _ \<Rightarrow> None
      | Inr (uHost, uPath) \<Rightarrow>
          (let host = toLower uHost;
               path = trimSuffix (trimByte uPath CHR ''/'') ''.git'';
               segs = splitOn CHR ''/'' path
           in if length segs < 2 then None
              else
                let repo = segs ! 0 @ ''/'' @ segs ! 1
                in if host = ''github.com''
                   then Some (no_source\<lparr>so_type := SourceGitHub, so_repo := repo,
                                so_webURL := ''https://github.com/'' @ repo\<rparr>)
                   else if host = ''gitlab.com'' \<or> hasSuffix host ''.gitlab.com''
                   then Some (no_source\<lparr>so_type := SourceGitLab, so_repo := repo,
                                so_baseURL := ''https://gitlab.com''\<rparr>)
                   else if containsStr host ''gitea'' \<or> containsStr host ''forgejo'' \<or> host = ''codeberg.org''
                   then Some (no_source\<lparr>so_type := SourceGitea, so_repo := repo,
                                so_baseURL := ''https://'' @ host\<rparr>)
                   else None))"

text \<open>Step 2 of the resolution, the configured hints; step 3, the source label; step 4, the registries
  whose tags may be listed.\<close>

definition hintSource :: "registries \<Rightarrow> reference \<Rightarrow> source option" where
  "hintSource regs ref =
     (case map_of regs (rf_registry ref) of
        None \<Rightarrow> None
      | Some rc \<Rightarrow>
          (let mapped = label (rc_repoMap rc) (rf_repository ref); star = label (rc_repoMap rc) ''*''
           in if mapped \<noteq> [] then Some (sourceFromHint rc mapped)
              else if star \<noteq> [] then Some (sourceFromHint rc star)
              else if rc_source rc \<noteq> [] \<or> rc_baseURL rc \<noteq> []
              then Some (sourceFromHint rc (rf_repository ref))
              else None))"

definition labelSource :: "(string \<Rightarrow> err + string \<times> string) \<Rightarrow> labels \<Rightarrow> source option" where
  "labelSource urlParse lbls =
     (let src = label lbls ''org.opencontainers.image.source''
      in if src \<noteq> [] then sourceFromURL urlParse src else None)"

definition registrySource :: "reference \<Rightarrow> source option" where
  "registrySource ref =
     (if rf_registry ref \<in> set [''docker.io'', ''ghcr.io'', ''registry.gitlab.com'', ''gcr.io'',
                               ''public.ecr.aws'', ''quay.io'']
      then Some (no_source\<lparr>so_type := SourceRegistry, so_registry := rf_registry ref,
                   so_repository := rf_repository ref\<rparr>)
      else None)"

definition ResolveSource ::
  "registries \<Rightarrow> (string \<Rightarrow> err + string \<times> string) \<Rightarrow> reference \<Rightarrow> labels \<Rightarrow> source option" where
  "ResolveSource regs urlParse ref lbls =
     (if IsGitHubRegistry ref
      then Some (no_source\<lparr>so_type := SourceGitHub, so_repo := rf_repository ref,
                   so_webURL := ''https://github.com/'' @ rf_repository ref\<rparr>)
      else if IsGitLabRegistry ref
      then Some (no_source\<lparr>so_type := SourceGitLab, so_repo := rf_repository ref,
                   so_baseURL := registryBase regs (rf_registry ref)\<rparr>)
      else (case hintSource regs ref of
              Some s \<Rightarrow> Some s
            | None \<Rightarrow> (case labelSource urlParse lbls of
                         Some s \<Rightarrow> Some s
                       | None \<Rightarrow> registrySource ref)))"

section \<open>Properties\<close>

text \<open>A parsed reference always names what to run: a tag or a digest, \<open>latest\<close> exactly when the
  text had neither, and an empty text is refused.\<close>

theorem Parse_has_target:
  "case Parse parser raw of
     Inl _ \<Rightarrow> trimSpace raw = [] \<or> (\<exists>e. parser (trimSpace raw) = Inl e)
   | Inr r \<Rightarrow> rf_original r = trimSpace raw \<and> \<not> (rf_tag r = [] \<and> rf_digest r = [])
       \<and> (\<exists>n. parser (trimSpace raw) = Inr n \<and> rf_registry r = nm_domain n \<and> rf_repository r = nm_path n
           \<and> rf_digest r = orEmpty (nm_digest n)
           \<and> rf_tag r = (if orEmpty (nm_tag n) = [] \<and> orEmpty (nm_digest n) = [] then ''latest''
                        else orEmpty (nm_tag n)))"
  by (cases "parser (trimSpace raw)") (auto simp: Parse_def Let_def)

lemma sourceFromHint_type [simp]: "so_type (sourceFromHint rc repo) \<noteq> SourceRegistry"
  by (simp add: sourceFromHint_def Let_def no_source_def)

lemma sourceFromURL_type:
  "sourceFromURL f raw = Some s \<Longrightarrow> so_type s \<noteq> SourceRegistry"
  by (auto simp: sourceFromURL_def Let_def no_source_def split: sum.splits prod.splits if_splits)

text \<open>The registry itself is listed only as a last resort and only for the well-known hosts: a
  source of that kind is found exactly when the registry is one of them (other than the two with release
  notes of their own), no configured hint applies and the image's source label leads nowhere.\<close>

theorem ResolveSource_registry:
  "(\<exists>s. ResolveSource regs f ref lbls = Some s \<and> so_type s = SourceRegistry) \<longleftrightarrow>
     rf_registry ref \<in> {''docker.io'', ''gcr.io'', ''public.ecr.aws'', ''quay.io''}
     \<and> hintSource regs ref = None \<and> labelSource f lbls = None"
proof -
  have hint: "so_type s \<noteq> SourceRegistry" if "hintSource regs ref = Some s" for s
    using that by (auto simp: hintSource_def Let_def split: option.splits if_splits)
  have lab: "so_type s \<noteq> SourceRegistry" if "labelSource f lbls = Some s" for s
    using that sourceFromURL_type by (auto simp: labelSource_def Let_def split: if_splits)
  show ?thesis
    using hint lab
    by (auto simp: ResolveSource_def IsGitHubRegistry_def IsGitLabRegistry_def registrySource_def
        no_source_def split: option.splits)
qed

text \<open>An operator's mapping wins over what an image says about itself: for a registry other than
  the two built-in ones, a repository mapped in the configuration resolves to the mapped repository,
  whatever the image's labels claim.\<close>

theorem ResolveSource_mapping_wins:
  assumes "map_of regs (rf_registry ref) = Some rc"
    and "map_of (rc_repoMap rc) (rf_repository ref) = Some repo" and "repo \<noteq> []"
    and "rf_registry ref \<noteq> ''ghcr.io''" and "rf_registry ref \<noteq> ''registry.gitlab.com''"
  shows "ResolveSource regs f ref lbls = Some (sourceFromHint rc repo) \<and> so_repo (sourceFromHint rc repo) = repo"
proof -
  have "so_repo (sourceFromHint rc repo) = repo"
    by (simp add: sourceFromHint_def Let_def no_source_def)
  then show ?thesis
    using assms by (simp add: ResolveSource_def IsGitHubRegistry_def IsGitLabRegistry_def hintSource_def
        label_def Let_def)
qed

theorem ResolveSource_mapping_wins_witness:
  "ResolveSource [(''reg.example.org'', \<lparr>rc_source = ''gitea'', rc_baseURL = ''https://git.example.org'',
       rc_repoMap = [(''team/app'', ''upstream/app'')]\<rparr>)]
     (\<lambda>_. Inr (''github.com'', ''/evil/app''))
     \<lparr>rf_registry = ''reg.example.org'', rf_repository = ''team/app'', rf_name = ''reg.example.org/team/app'',
      rf_tag = ''1.0'', rf_digest = [], rf_original = ''reg.example.org/team/app:1.0''\<rparr>
     [(''org.opencontainers.image.source'', ''https://github.com/evil/app'')]
   = Some \<lparr>so_type = SourceGitea, so_repo = ''upstream/app'', so_baseURL = ''https://git.example.org'',
       so_webURL = [], so_registry = [], so_repository = [], so_token = []\<rparr>"
proof -
  let ?rc = "\<lparr>rc_source = ''gitea'', rc_baseURL = ''https://git.example.org'',
       rc_repoMap = [(''team/app'', ''upstream/app'')]\<rparr>"
  have "sourceFromHint ?rc ''upstream/app'' = \<lparr>so_type = SourceGitea, so_repo = ''upstream/app'',
      so_baseURL = ''https://git.example.org'', so_webURL = [], so_registry = [], so_repository = [], so_token = []\<rparr>"
    by code_simp
  then show ?thesis
    by (subst conjunct1 [OF ResolveSource_mapping_wins [where rc = ?rc and repo = "''upstream/app''"]]) simp_all
qed

end
