(* ===== verification/Updater.thy ===== *)
theory Updater
  imports StoreProps Sources "HOL-Library.Multiset"
begin

text \<open>
  Update detection, \<open>internal/updater/updater.go\<close>: which update a container is offered
  (\<open>computeUpdate\<close>) and the cycle that computes and stores the updates of the whole fleet
  (\<open>CheckAll\<close>).

  Semantic versions belong to the library \<open>Masterminds/semver\<close>: its operations are the record
  \<open>semver\<close>, and the laws of its order that the code relies on are the hypothesis \<open>semver_laws\<close>.
  \<open>sort.Slice\<close> leaves some permutation that its comparison cannot fault, which one it does not
  say; it is the operation \<open>sortNewest\<close> with that contract, \<open>sort_contract\<close>.  The upstream APIs
  and the clock are the record \<open>upstream\<close> of operations on the state \<open>'e\<close> of the outside world.
\<close>

section \<open>Releases and versions\<close>

record crelease =
  cl_tag :: string
  cl_title :: string
  cl_body :: string
  cl_url :: string
  cl_published :: gotime
  cl_prerelease :: bool

record 'v semver =
  NewVersion :: "string \<Rightarrow> 'v option"
  GreaterThan :: "'v \<Rightarrow> 'v \<Rightarrow> bool"
  Major :: "'v \<Rightarrow> nat"
  Minor :: "'v \<Rightarrow> nat"
  Prerelease :: "'v \<Rightarrow> string"
  sortNewest :: "(crelease \<times> 'v) list \<Rightarrow> (crelease \<times> 'v) list"

definition semver_laws :: "'v semver \<Rightarrow> bool" where
  "semver_laws L \<longleftrightarrow> NewVersion L [] = None \<and> (\<forall>a. \<not> GreaterThan L a a)
     \<and> (\<forall>a b c. GreaterThan L a b \<longrightarrow> GreaterThan L b c \<longrightarrow> GreaterThan L a c)"

definition sort_contract :: "'v semver \<Rightarrow> bool" where
  "sort_contract L \<longleftrightarrow> (\<forall>xs. mset (sortNewest L xs) = mset xs
     \<and> sorted_wrt (\<lambda>x y. \<not> GreaterThan L (snd y) (snd x)) (sortNewest L xs))"

text \<open>The loose coercion of a tag: its leading numeric dotted version, padded to three components,
  leading zeros dropped.\<close>

definition padParts :: "string list \<Rightarrow> string list" where
  "padParts parts = (let padded = parts @ replicate (3 - length parts) ''0''
                     in if length padded > 3 then take 3 padded else padded)"

definition dropZeros :: "string \<Rightarrow> string" where
  "dropZeros p = (let q = trimLeftByte p CHR ''0'' in if q = [] then ''0'' else q)"

definition coerceFrom :: "string \<Rightarrow> string option" where
  "coerceFrom s0 =
     (let i = indexByte s0 CHR ''+'';
          build = (if i \<ge> 0 then fromIdx s0 (i + 1) else []);
          s1 = (if i \<ge> 0 then upto s0 i else s0);
          j = indexByte s1 CHR ''-'';
          pre = (if j \<ge> 0 then fromIdx s1 (j + 1) else []);
          s2 = (if j \<ge> 0 then upto s1 j else s1);
          parts = splitOn CHR ''.'' s2
      in if length parts < 2 then None
         else Some (joinWith ''.'' (map dropZeros (padParts parts))
                @ (if pre \<noteq> [] then ''-'' @ pre else [])
                @ (if build \<noteq> [] then ''+'' @ build else [])))"

definition parseVer :: "'v semver \<Rightarrow> string \<Rightarrow> 'v option" where
  "parseVer L tag =
     (let s = trimSpace tag
      in case NewVersion L s of
           Some v \<Rightarrow> Some v
         | None \<Rightarrow>
             (let s1 = trimPrefix (trimPrefix s ''v'') ''V''; start = indexFunc isDigit s1
              in if start < 0 then None
                 else if start > 0 \<and> s1 ! nat (start - 1) \<notin> set ''-_'' then None
                 else (case coerceFrom (fromIdx s1 start) of
                         None \<Rightarrow> None | Some joined \<Rightarrow> NewVersion L joined)))"

definition versionPrecision :: "string \<Rightarrow> nat" where
  "versionPrecision tag =
     (let s = trimPrefix (trimPrefix (toLower (trimSpace tag)) ''v'') ''V'';
          i = indexFunc isDigit s
      in if i < 0 then 3
         else
           let s1 = fromIdx s i;
               j = indexFunc (\<lambda>c. c \<in> set ''-+'') s1;
               s2 = (if j \<ge> 0 then upto s1 j else s1);
               parts = splitOn CHR ''.'' s2
           in if length parts = 0 \<or> length parts > 3 then 3
              else if \<exists>p\<in>set parts. atoi p = None then 3
              else length parts)"

definition isUpdateTarget :: "'v semver \<Rightarrow> 'v \<Rightarrow> nat \<Rightarrow> 'v \<Rightarrow> bool" where
  "isUpdateTarget L cur precision v =
     (if precision = 1 then Major L v > Major L cur
      else if precision = 2
      then Major L v > Major L cur \<or> (Major L v = Major L cur \<and> Minor L v > Minor L cur)
      else GreaterThan L v cur)"

definition versionedReleases :: "'v semver \<Rightarrow> crelease list \<Rightarrow> (crelease \<times> 'v) list" where
  "versionedReleases L rels =
     sortNewest L (List.map_filter (\<lambda>r. map_option (Pair r) (parseVer L (cl_tag r))) rels)"

text \<open>Only the releases of the result are read: in the fallback their versions are nil.\<close>

definition orderBySemver :: "'v semver \<Rightarrow> crelease list \<Rightarrow> crelease list" where
  "orderBySemver L rels =
     (if \<forall>r\<in>set rels. parseVer L (cl_tag r) \<noteq> None then map fst (versionedReleases L rels) else rels)"

section \<open>The update of one container\<close>

text \<open>\<open>ManifestUpToDate\<close> as the updater sees it: registry, repository, tag and digest, answered by the
  outside world.\<close>

type_synonym 'e digest_query = "string \<Rightarrow> string \<Rightarrow> string \<Rightarrow> string \<Rightarrow> 'e \<Rightarrow> (err + bool) \<times> 'e"

definition new_update :: "string \<Rightarrow> string \<Rightarrow> nat \<Rightarrow> updateRow" where
  "new_update cur latest behind = \<lparr>up_id = [], up_container = [], up_repoKey = [], up_currentTag = cur,
     up_latestTag = latest, up_versionsBehind = int behind, up_source = [], up_sourceURL = [],
     up_checkedAt = zero_time\<rparr>"

definition registryFallback :: "'e digest_query \<Rightarrow> container \<Rightarrow> 'e \<Rightarrow> updateRow option \<times> 'e" where
  "registryFallback ask c e =
     (if ct_imageDigest c = [] \<or> ct_registry c = [] \<or> ct_repository c = [] then (None, e)
      else (case ask (ct_registry c) (ct_repository c) (ct_imageTag c) (ct_imageDigest c) e of
              (Inl _, e') \<Rightarrow> (None, e')
            | (Inr True, e') \<Rightarrow> (None, e')
            | (Inr False, e') \<Rightarrow> (Some (new_update (ct_imageTag c) (ct_imageTag c) 1), e')))"

definition withoutPrereleases :: "bool \<Rightarrow> crelease list \<Rightarrow> crelease list" where
  "withoutPrereleases includePre rels = filter (\<lambda>r. \<not> (cl_prerelease r \<and> \<not> includePre)) rels"

text \<open>The loop over the versioned releases, newest first: it counts the candidates and keeps the tag of
  the first one.\<close>

fun countNewer :: "'v semver \<Rightarrow> 'v \<Rightarrow> nat \<Rightarrow> (crelease \<times> 'v) list \<Rightarrow> nat \<times> string \<Rightarrow> nat \<times> string" where
  "countNewer L cur precision [] acc = acc"
| "countNewer L cur precision ((r, v) # vs) (behind, latest) =
     (if Prerelease L v \<noteq> Prerelease L cur \<or> \<not> isUpdateTarget L cur precision v
      then countNewer L cur precision vs (behind, latest)
      else countNewer L cur precision vs (Suc behind, if latest = [] then cl_tag r else latest))"

definition versionUpdate :: "'v semver \<Rightarrow> container \<Rightarrow> 'v \<Rightarrow> crelease list \<Rightarrow> updateRow option" where
  "versionUpdate L c cur rels =
     (let (behind, latest) =
        countNewer L cur (versionPrecision (ct_imageTag c)) (versionedReleases L rels) (0, [])
      in if behind > 0 then Some (new_update (ct_imageTag c) latest behind) else None)"

fun indexOfTag :: "string \<Rightarrow> crelease list \<Rightarrow> nat option" where
  "indexOfTag t [] = None"
| "indexOfTag t (r # rs) = (if cl_tag r = t then Some 0 else map_option Suc (indexOfTag t rs))"

text \<open>The update of a tag without a version when the digest is the only signal.\<close>

definition digestUpdate ::
  "'v semver \<Rightarrow> 'e digest_query \<Rightarrow> container \<Rightarrow> crelease list \<Rightarrow> 'e \<Rightarrow> updateRow option \<times> 'e" where
  "digestUpdate L ask c rels e =
     (case registryFallback ask c e of
        (None, e') \<Rightarrow> (None, e')
      | (Some upd, e') \<Rightarrow>
          (case versionedReleases L rels of
             [] \<Rightarrow> (Some upd, e')
           | (r, _) # _ \<Rightarrow> (Some (upd\<lparr>up_latestTag := cl_tag r\<rparr>), e')))"

definition computeUpdate ::
  "'v semver \<Rightarrow> bool \<Rightarrow> 'e digest_query \<Rightarrow> container \<Rightarrow> source \<Rightarrow> crelease list \<Rightarrow> 'e
     \<Rightarrow> updateRow option \<times> 'e" where
  "computeUpdate L includePre ask c src rels e =
     (let filtered = withoutPrereleases includePre rels
      in if filtered = [] then registryFallback ask c e
         else (case parseVer L (ct_imageTag c) of
                 Some cur \<Rightarrow>
                   (case versionUpdate L c cur filtered of
                      Some upd \<Rightarrow> (Some upd, e)
                    | None \<Rightarrow> registryFallback ask c e)
               | None \<Rightarrow>
                   (let ordered = orderBySemver L filtered
                    in case (if so_type src \<noteq> SourceRegistry then indexOfTag (ct_imageTag c) ordered else None) of
                         Some 0 \<Rightarrow> (None, e)
                       | Some idx \<Rightarrow> (Some (new_update (ct_imageTag c) (cl_tag (hd ordered)) idx), e)
                       | None \<Rightarrow> digestUpdate L ask c filtered e)))"

section \<open>Keys, links, ignored images\<close>

definition repoKey :: "source \<Rightarrow> string" where
  "repoKey src = (case so_type src of
      SourceGitHub \<Rightarrow> ''gh:'' @ so_repo src
    | SourceGitLab \<Rightarrow> ''gl:'' @ so_repo src
    | SourceGitea \<Rightarrow> ''gt:'' @ so_repo src
    | SourceRegistry \<Rightarrow> ''reg:'' @ so_registry src @ ''/'' @ so_repository src
    | SourceNone \<Rightarrow> ''none'')"

definition sourceURL :: "source \<Rightarrow> string" where
  "sourceURL src = (case so_type src of
      SourceGitHub \<Rightarrow> ''https://github.com/'' @ so_repo src
    | SourceGitLab \<Rightarrow>
        trimSuffix (if so_baseURL src = [] then ''https://gitlab.com'' else so_baseURL src) ''/'' @ ''/'' @ so_repo src
    | SourceGitea \<Rightarrow>
        (if so_webURL src \<noteq> [] then so_webURL src @ ''/'' @ so_repo src
         else trimSuffix (so_baseURL src) ''/api/v1'' @ ''/'' @ so_repo src)
    | SourceRegistry \<Rightarrow>
        (if so_registry src = ''docker.io'' then ''https://hub.docker.com/r/'' @ so_repository src
         else ''https://'' @ so_registry src @ ''/'' @ so_repository src)
    | SourceNone \<Rightarrow> [])"

definition sourceType_text :: "sourceType \<Rightarrow> string" where
  "sourceType_text t = (case t of SourceGitHub \<Rightarrow> ''github'' | SourceGitLab \<Rightarrow> ''gitlab''
     | SourceGitea \<Rightarrow> ''gitea'' | SourceRegistry \<Rightarrow> ''registry'' | SourceNone \<Rightarrow> ''none'')"

definition toStoreReleases :: "string \<Rightarrow> crelease list \<Rightarrow> release list" where
  "toStoreReleases key rels = map (\<lambda>r. \<lparr>rl_id = [], rl_repoKey = key, rl_tag = cl_tag r,
     rl_title = cl_title r, rl_body = cl_body r, rl_url = cl_url r, rl_published = cl_published r,
     rl_prerelease = cl_prerelease r\<rparr>) rels"

text \<open>\<open>path.Match\<close>: \<open>*\<close> is any run without a slash, \<open>?\<close> one character other than a slash, a
  bracket a character class, a backslash quotes; a malformed pattern matches nothing.\<close>

fun getEsc :: "string \<Rightarrow> (char \<times> string) option" where
  "getEsc [] = None"
| "getEsc (c # p) =
     (if c = CHR ''-'' \<or> c = CHR '']'' then None
      else if c = CHR 0x5C
      then (case p of [] \<Rightarrow> None | d # r \<Rightarrow> if r = [] then None else Some (d, r))
      else if p = [] then None else Some (c, p))"

lemma getEsc_less: "getEsc p = Some (c, r) \<Longrightarrow> length r < length p"
  by (cases p) (auto split: if_splits list.splits)

function inClass :: "char \<Rightarrow> bool \<Rightarrow> bool \<Rightarrow> string \<Rightarrow> (bool \<times> string) option" where
  "inClass c nonempty m p =
     (if p \<noteq> [] \<and> hd p = CHR '']'' \<and> nonempty then Some (m, tl p)
      else (case getEsc p of
              None \<Rightarrow> None
            | Some (lo, r) \<Rightarrow>
                if hd r = CHR ''-''
                then (case getEsc (tl r) of
                        None \<Rightarrow> None
                      | Some (hi, r2) \<Rightarrow> inClass c True (m \<or> (lo \<le> c \<and> c \<le> hi)) r2)
                else inClass c True (m \<or> lo = c) r))"
  by pat_completeness auto
termination
proof (relation "measure (\<lambda>(c, n, m, p). length p)")
  fix p :: string and x :: "char \<times> string" and lo r y hi r2 and c :: char and nonempty m :: bool
  assume "getEsc p = Some x" "(lo, r) = x" "getEsc (tl r) = Some y" "(hi, r2) = y"
  then have "length r < length p" "length r2 < length (tl r)" by (auto dest: getEsc_less)
  then show "((c, True, m \<or> lo \<le> c \<and> c \<le> hi, r2), (c, nonempty, m, p)) \<in> measure (\<lambda>(c, n, m, p). length p)"
    by simp
next
  fix p :: string and x :: "char \<times> string" and lo r and c :: char and nonempty m :: bool
  assume "getEsc p = Some x" "(lo, r) = x"
  then show "((c, True, m \<or> lo = c, r), (c, nonempty, m, p)) \<in> measure (\<lambda>(c, n, m, p). length p)"
    by (auto dest: getEsc_less)
qed simp

declare inClass.simps [simp del]

lemma inClass_step:
  assumes "\<not> (p \<noteq> [] \<and> hd p = CHR '']'' \<and> n)" and "getEsc p = Some (lo, q)"
  shows "inClass c n m p =
     (if hd q = CHR ''-''
      then (case getEsc (tl q) of
              None \<Rightarrow> None | Some (hi, r2) \<Rightarrow> inClass c True (m \<or> (lo \<le> c \<and> c \<le> hi)) r2)
      else inClass c True (m \<or> lo = c) q)"
  by (subst inClass.simps, subst if_not_P [OF assms(1)]) (simp add: assms(2))

lemma inClass_less: "inClass c n m p = Some (b, r) \<Longrightarrow> length r < length p"
proof (induction c n m p arbitrary: b r rule: inClass.induct)
  case (1 c n m p)
  show ?case
  proof (cases "p \<noteq> [] \<and> hd p = CHR '']'' \<and> n")
    case True
    with 1(3) have "r = tl p" by (subst (asm) inClass.simps) simp
    with True show ?thesis by (cases p) auto
  next
    case False
    with 1(3) obtain lo q where q: "getEsc p = Some (lo, q)"
      by (auto simp: inClass.simps [of c n m p] split: option.splits)
    show ?thesis
    proof (cases "hd q = CHR ''-''")
      case True
      with False q 1(3) obtain hi q2 where q2: "getEsc (tl q) = Some (hi, q2)"
          "inClass c True (m \<or> lo \<le> c \<and> c \<le> hi) q2 = Some (b, r)"
        by (auto simp: inClass.simps [of c n m p] split: option.splits)
      with 1(1) False q True have "length r < length q2" by blast
      with q q2(1) show ?thesis by (auto dest!: getEsc_less)
    next
      case no: False
      with 1(3) inClass_step [OF False q, of c m] have "inClass c True (m \<or> lo = c) q = Some (b, r)"
        by simp
      with 1(2) False q no have "length r < length q" by blast
      with q show ?thesis by (auto dest!: getEsc_less)
    qed
  qed
qed

function pathMatch :: "string \<Rightarrow> string \<Rightarrow> bool" where
  "pathMatch [] s \<longleftrightarrow> s = []"
| "pathMatch (k # p) s \<longleftrightarrow>
     (if k = CHR ''*''
      then pathMatch p s
        \<or> (case s of [] \<Rightarrow> False | d # t \<Rightarrow> if d = CHR ''/'' then False else pathMatch (k # p) t)
      else (case s of [] \<Rightarrow> False
            | d # t \<Rightarrow>
                if k = CHR ''?'' then (if d = CHR ''/'' then False else pathMatch p t)
                else if k = CHR ''[''
                then (let negated = (p \<noteq> [] \<and> hd p = CHR ''^'')
                      in case inClass d False False (if negated then tl p else p) of
                           None \<Rightarrow> False
                         | Some (m, r) \<Rightarrow> if m = negated then False else pathMatch r t)
                else if k = CHR 0x5C
                then (case p of [] \<Rightarrow> False | q # r \<Rightarrow> if d = q then pathMatch r t else False)
                else if d = k then pathMatch p t else False))"
  by pat_completeness auto
termination
  by (relation "measure (\<lambda>(p, s). length p + length s)")
    (auto dest!: inClass_less split: if_splits)

definition isIgnored :: "string list \<Rightarrow> container \<Rightarrow> bool" where
  "isIgnored ignoreImages c \<longleftrightarrow>
     (\<exists>g\<in>set ignoreImages. pathMatch g (ct_image c) \<or> pathMatch g (ct_imageName c))"


section \<open>The check cycle\<close>

text \<open>
  The outside world of a cycle: the context's error, the upstream release lists (\<open>None\<close> is a nil
  slice), the registry digests, the clock, the supply of \<open>newID\<close>, and the order in which Go happens
  to iterate over the map of sources.
\<close>

record 'e upstream =
  ctxErr :: "'e \<Rightarrow> err option"
  fetchReleases :: "source \<Rightarrow> 'e \<Rightarrow> (err + crelease list option) \<times> 'e"
  manifestUpToDate :: "'e digest_query"
  clock :: "'e \<Rightarrow> gotime \<times> 'e"
  freshIDs :: "'e \<Rightarrow> (nat \<Rightarrow> string) \<times> 'e"
  mapOrder :: "(string \<times> source) list \<Rightarrow> (string \<times> source) list"

record updatesConfig =
  uc_registries :: registries
  uc_includePre :: bool
  uc_ignoreImages :: "string list"

record ('v, 'e) updater =
  u_semver :: "'v semver"
  u_world :: "'e upstream"
  u_cfg :: updatesConfig
  u_parseNamed :: "string \<Rightarrow> err + named"
  u_parseURL :: "string \<Rightarrow> err + string \<times> string"

record pending =
  pd_c :: container
  pd_src :: source
  pd_key :: string

text \<open>The source of a container, if its image parses and has one.\<close>

definition containerSource :: "('v, 'e) updater \<Rightarrow> container \<Rightarrow> source option" where
  "containerSource u c =
     (case Parse (u_parseNamed u) (ct_image c) of
        Inl _ \<Rightarrow> None
      | Inr ref \<Rightarrow> ResolveSource (uc_registries (u_cfg u)) (u_parseURL u) ref (ct_labels c))"

definition ResolveRepoKey :: "('v, 'e) updater \<Rightarrow> container \<Rightarrow> string" where
  "ResolveRepoKey u c = (case containerSource u c of None \<Rightarrow> [] | Some src \<Rightarrow> repoKey src)"

definition skipped :: "('v, 'e) updater \<Rightarrow> container \<Rightarrow> bool" where
  "skipped u c \<longleftrightarrow> ct_pinned c \<or> isIgnored (uc_ignoreImages (u_cfg u)) c"

text \<open>The first pass: what is pinned or ignored loses its update record, the rest is queued with its
  source; \<open>seen\<close> keeps the first source of each key.\<close>

fun firstPass ::
  "('v, 'e) updater \<Rightarrow> containerWithUpdate list \<Rightarrow> pending list \<times> (string \<times> source) list \<times> db
     \<Rightarrow> pending list \<times> (string \<times> source) list \<times> db" where
  "firstPass u [] acc = acc"
| "firstPass u (cw # cws) (items, seen, d) =
     (let c = cu_container cw in
      if skipped u c
      then firstPass u cws (items, seen,
             if cu_update cw \<noteq> None
             then (case DeleteUpdate (ct_id c) d of Inl _ \<Rightarrow> d | Inr d' \<Rightarrow> d') else d)
      else (case containerSource u c of
              None \<Rightarrow> firstPass u cws (items, seen, d)
            | Some src \<Rightarrow>
                (let key = repoKey src
                 in firstPass u cws (items @ [\<lparr>pd_c = c, pd_src = src, pd_key = key\<rparr>],
                      if key \<in> fst ` set seen then seen else seen @ [(key, src)], d))))"

text \<open>Fetching the releases of each source once; the error is the result of the whole cycle.\<close>

type_synonym release_cache = "(string \<times> crelease list option) list"

fun fetchAll ::
  "('v, 'e) updater \<Rightarrow> (string \<times> source) list \<Rightarrow> release_cache \<times> db \<times> 'e
     \<Rightarrow> err option \<times> release_cache \<times> db \<times> 'e" where
  "fetchAll u [] (cache, d, e) = (None, cache, d, e)"
| "fetchAll u ((key, src) # rest) (cache, d, e) =
     (let (answer, e1) = fetchReleases (u_world u) src e in
      case answer of
        Inl _ \<Rightarrow>
          (case ctxErr (u_world u) e1 of
             Some ctxE \<Rightarrow> (Some ctxE, cache, d, e1)
           | None \<Rightarrow> fetchAll u rest ((key, None) # cache, d, e1))
      | Inr None \<Rightarrow> fetchAll u rest ((key, None) # cache, d, e1)
      | Inr (Some rels) \<Rightarrow>
          (let (ids, e2) = freshIDs (u_world u) e1;
               d' = (case UpsertReleases ids key (toStoreReleases key rels) d of Inl _ \<Rightarrow> d | Inr d' \<Rightarrow> d')
           in fetchAll u rest ((key, Some rels) # cache, d', e2)))"

definition cached :: "release_cache \<Rightarrow> string \<Rightarrow> crelease list" where
  "cached cache key = (case map_of cache key of Some (Some rels) \<Rightarrow> rels | _ \<Rightarrow> [])"

definition applyContainer ::
  "('v, 'e) updater \<Rightarrow> container \<Rightarrow> source \<Rightarrow> string \<Rightarrow> crelease list \<Rightarrow> db \<Rightarrow> 'e
     \<Rightarrow> err option \<times> db \<times> 'e" where
  "applyContainer u c src key rels d e =
     (case computeUpdate (u_semver u) (uc_includePre (u_cfg u)) (manifestUpToDate (u_world u)) c src rels e of
        (None, e1) \<Rightarrow>
          (case DeleteUpdate (ct_id c) d of Inl x \<Rightarrow> (Some x, d, e1) | Inr d' \<Rightarrow> (None, d', e1))
      | (Some upd, e1) \<Rightarrow>
          (let (now, e2) = clock (u_world u) e1;
               (ids, e3) = freshIDs (u_world u) e2;
               upd' = upd\<lparr>up_container := ct_id c, up_repoKey := key,
                        up_source := sourceType_text (so_type src), up_sourceURL := sourceURL src,
                        up_checkedAt := now\<rparr>
           in case UpsertUpdate (ids 0) upd' d of Inl x \<Rightarrow> (Some x, d, e3) | Inr d' \<Rightarrow> (None, d', e3)))"

fun secondPass ::
  "('v, 'e) updater \<Rightarrow> release_cache \<Rightarrow> pending list \<Rightarrow> db \<Rightarrow> 'e \<Rightarrow> err option \<times> db \<times> 'e" where
  "secondPass u cache [] d e = (None, d, e)"
| "secondPass u cache (it # its) d e =
     (case ctxErr (u_world u) e of
        Some x \<Rightarrow> (Some x, d, e)
      | None \<Rightarrow>
          (case applyContainer u (pd_c it) (pd_src it) (pd_key it) (cached cache (pd_key it)) d e of
             (Some x, d', e') \<Rightarrow> (Some x, d', e')
           | (None, d', e') \<Rightarrow> secondPass u cache its d' e'))"

definition all_containers :: containerFilter where
  "all_containers = \<lparr>cf_server = [], cf_stack = [], cf_registry = [], cf_repository = [], cf_state = [],
     cf_hasUpdate = False, cf_search = [], cf_limit = 0\<rparr>"

definition CheckAll :: "('v, 'e) updater \<Rightarrow> db \<Rightarrow> 'e \<Rightarrow> err option \<times> db \<times> 'e" where
  "CheckAll u d e =
     (case ctxErr (u_world u) e of
        Some x \<Rightarrow> (Some x, d, e)
      | None \<Rightarrow>
          (let (items, seen, d1) = firstPass u (ListContainers all_containers d) ([], [], d)
           in case fetchAll u (mapOrder (u_world u) seen) ([], d1, e) of
                (Some x, _, d2, e2) \<Rightarrow> (Some x, d2, e2)
              | (None, cache, d2, e2) \<Rightarrow> secondPass u cache items d2 e2))"

end
