(* ===== verification/Daemon.thy ===== *)
theory Daemon
  imports GoStrings
begin

text \<open>
  The Docker Engine API as the update flow uses it: \<open>containerDaemon\<close> of
  \<open>internal/dockerx/recreate.go\<close>.  The daemon is not part of the program, so its operations are the
  record \<open>daemon\<close>, on a state \<open>'d\<close> of the outside world that also carries the clock, the progress
  the caller sees and whatever else can change between two calls.  Of the API's data the records keep
  the fields the code reads or writes; what it only hands back (environment, mounts, endpoint settings
  and so on) is one opaque field.

  A call gets the context it is made with: \<open>Caller\<close> is the context of the request, \<open>Detached\<close> the
  one the code derives by \<open>context.WithoutCancel\<close> for its recovery work.

  The second half is the part of \<open>recreate.go\<close> every flow starts with, \<open>pullImage\<close>.
\<close>

section \<open>Decimal text\<close>

fun natText :: "nat \<Rightarrow> string" where
  "natText n = (if n < 10 then [char_of (48 + n)] else natText (n div 10) @ [char_of (48 + n mod 10)])"

declare natText.simps [simp del]

definition intText :: "int \<Rightarrow> string" where
  "intText x = (if x < 0 then ''-'' @ natText (nat (- x)) else natText (nat x))"

lemma digitVal_char_of: "n < 10 \<Longrightarrow> digitVal (char_of (48 + n)) = int n"
  by (simp add: digitVal_def)

lemma digitsVal_append1: "digitsVal (ds @ [c]) = 10 * digitsVal ds + digitVal c"
  by (simp add: digitsVal_def)

lemma digitsVal_natText: "digitsVal (natText n) = int n"
proof (induction n rule: natText.induct)
  case (1 n)
  show ?case
  proof (cases "n < 10")
    case True
    have "digitsVal [c] = digitVal c" for c by (simp add: digitsVal_def)
    with True show ?thesis by (subst natText.simps) (simp add: digitVal_char_of)
  next
    case False
    then have "digitsVal (natText n) = 10 * digitsVal (natText (n div 10)) + digitVal (char_of (48 + n mod 10))"
      by (subst natText.simps) (simp add: digitsVal_append1)
    also have "\<dots> = 10 * int (n div 10) + int (n mod 10)" using 1 False by (simp add: digitVal_char_of)
    also have "\<dots> = int n" by presburger
    finally show ?thesis .
  qed
qed

lemma natText_inject [simp]: "natText m = natText n \<longleftrightarrow> m = n"
  by (metis digitsVal_natText of_nat_eq_iff)

section \<open>The data of the API\<close>

datatype callCtx = Caller | Detached

record config =
  cfg_image :: string
  cfg_labels :: labels
  cfg_env :: "string list"
  cfg_rest :: string

record hostConfig =
  hc_swappiness :: "int option"
  hc_autoRemove :: bool
  hc_networkMode :: string
  hc_binds :: "string list"
  hc_groupAdd :: "string list"
  hc_mounts :: "(string \<times> string \<times> string \<times> bool) list"
  hc_restartPolicy :: string
  hc_rest :: string

text \<open>Endpoint settings by network name: the settings the code copies when it rebuilds them (addresses,
  aliases, links and so on) and the rest (driver options), which it does not.\<close>

record endpoint =
  ep_copied :: string
  ep_other :: string

type_synonym networks = "(string \<times> endpoint) list"

record mountPoint =
  mp_type :: string
  mp_source :: string
  mp_destination :: string
  mp_rw :: bool

record containerState =
  st_running :: bool
  st_startedAt :: string

record inspect =
  in_id :: string
  in_name :: string
  in_image :: string
  in_state :: "containerState option"
  in_config :: "config option"
  in_host :: "hostConfig option"
  in_networks :: "networks option"
  in_mounts :: "mountPoint list"

record summary =
  su_id :: string
  su_names :: "string list"
  su_state :: string

record pullMessage =
  pm_id :: string
  pm_error :: string
  pm_errorDetail :: string
  pm_current :: int
  pm_total :: int

record containerSpec =
  cs_image :: string
  cs_rest :: string

record serviceSpec =
  ss_name :: string
  ss_container :: "containerSpec option"
  ss_forceUpdate :: nat
  ss_rest :: string

record service =
  sw_id :: string
  sw_version :: nat
  sw_spec :: serviceSpec
  sw_tasks :: "(nat \<times> nat) option"
  sw_update :: "string option"

record serviceUpdateOptions =
  suo_queryRegistry :: bool
  suo_registryAuthFrom :: string
  suo_rollback :: string

section \<open>The operations\<close>

text \<open>\<open>ImagePull\<close> answers with the progress messages the decoder reads until the stream ends (or stops
  being JSON, which ends the loop the same way).  \<open>SleepOrDone\<close> is the \<open>select\<close> between
  \<open>ctx.Done()\<close> and \<open>time.After\<close>: it answers with the context's error when that came first.\<close>

record 'd daemon =
  ContainerInspect :: "callCtx \<Rightarrow> string \<Rightarrow> 'd \<Rightarrow> (err + inspect) \<times> 'd"
  ContainerStop :: "callCtx \<Rightarrow> string \<Rightarrow> int \<Rightarrow> 'd \<Rightarrow> err option \<times> 'd"
  ContainerRename :: "callCtx \<Rightarrow> string \<Rightarrow> string \<Rightarrow> 'd \<Rightarrow> err option \<times> 'd"
  ContainerCreate :: "callCtx \<Rightarrow> config \<Rightarrow> hostConfig option \<Rightarrow> networks option \<Rightarrow> string \<Rightarrow> 'd
                        \<Rightarrow> (err + string) \<times> 'd"
  ContainerStart :: "callCtx \<Rightarrow> string \<Rightarrow> 'd \<Rightarrow> err option \<times> 'd"
  ContainerRemove :: "callCtx \<Rightarrow> string \<Rightarrow> 'd \<Rightarrow> err option \<times> 'd"
  ContainerList :: "callCtx \<Rightarrow> string \<Rightarrow> 'd \<Rightarrow> (err + summary list) \<times> 'd"
  ImagePull :: "callCtx \<Rightarrow> string \<Rightarrow> 'd \<Rightarrow> (err + pullMessage list) \<times> 'd"
  ImageInspect :: "callCtx \<Rightarrow> string \<Rightarrow> 'd \<Rightarrow> (err + string) \<times> 'd"
  ServiceList :: "callCtx \<Rightarrow> string \<Rightarrow> 'd \<Rightarrow> (err + service list) \<times> 'd"
  ServiceInspect :: "callCtx \<Rightarrow> string \<Rightarrow> 'd \<Rightarrow> (err + service) \<times> 'd"
  ServiceUpdate :: "callCtx \<Rightarrow> string \<Rightarrow> nat \<Rightarrow> serviceSpec \<Rightarrow> serviceUpdateOptions \<Rightarrow> 'd \<Rightarrow> err option \<times> 'd"
  Now :: "'d \<Rightarrow> gotime"
  SleepOrDone :: "int \<Rightarrow> 'd \<Rightarrow> err option \<times> 'd"

text \<open>How a flow ends: with a nil error, with an error, or in a panic.\<close>

datatype outcome = Done | Failed err | Panicked

text \<open>\<open>ProgressFunc\<close>: a callback that may be nil.\<close>

type_synonym 'd progress = "(string \<Rightarrow> int \<Rightarrow> 'd \<Rightarrow> 'd) option"

definition report :: "'d progress \<Rightarrow> string \<Rightarrow> int \<Rightarrow> 'd \<Rightarrow> 'd" where
  "report p stage pct d = (case p of None \<Rightarrow> d | Some f \<Rightarrow> f stage pct d)"

section \<open>Pulling an image\<close>

text \<open>Go's division truncates towards zero.\<close>

definition quot64 :: "int \<Rightarrow> int \<Rightarrow> int" where
  "quot64 a b = wrap64 (sgn a * sgn b * (\<bar>a\<bar> div \<bar>b\<bar>))"

text \<open>The layers seen so far with their current and total bytes, in the order they were first seen;
  the sums wrap as Go's \<open>int64\<close> does.\<close>

type_synonym layers = "(string \<times> int \<times> int) list"

fun put_layer :: "string \<Rightarrow> int \<times> int \<Rightarrow> layers \<Rightarrow> layers" where
  "put_layer i l [] = [(i, l)]"
| "put_layer i l ((j, m) # ls) = (if j = i then (j, l) # ls else (j, m) # put_layer i l ls)"

definition get_layer :: "string \<Rightarrow> layers \<Rightarrow> int \<times> int" where
  "get_layer i ls = (case map_of ls i of None \<Rightarrow> (0, 0) | Some l \<Rightarrow> l)"

definition update_layer :: "pullMessage \<Rightarrow> layers \<Rightarrow> layers" where
  "update_layer m ls =
     (let (cur, tot) = get_layer (pm_id m) ls
      in put_layer (pm_id m)
           (if pm_current m > 0 then pm_current m else cur, if pm_total m > 0 then pm_total m else tot) ls)"

definition sum64 :: "int list \<Rightarrow> int" where
  "sum64 xs = foldl (\<lambda>s x. wrap64 (s + x)) 0 xs"

definition percent :: "layers \<Rightarrow> int" where
  "percent ls =
     (let cur = sum64 (map (\<lambda>l. fst (snd l)) ls); tot = sum64 (map (\<lambda>l. snd (snd l)) ls)
      in if tot > 0
         then (let pct = quot64 (wrap64 (cur * 100)) tot in if pct > 100 then 100 else pct)
         else 0)"

fun pullLoop :: "string \<Rightarrow> 'd progress \<Rightarrow> pullMessage list \<Rightarrow> layers \<Rightarrow> 'd \<Rightarrow> err option \<times> 'd" where
  "pullLoop ref p [] ls d = (None, d)"
| "pullLoop ref p (m # ms) ls d =
     (if pm_error m \<noteq> []
      then (Some (errors_new (''pull image '' @ ref @ '': ''
              @ (if pm_errorDetail m \<noteq> [] then pm_errorDetail m else pm_error m))), d)
      else if pm_id m = [] then pullLoop ref p ms ls d
      else
        let ls' = update_layer m ls
        in pullLoop ref p ms ls' (report p ''pulling'' (percent ls') d))"

definition pullImage :: "'d daemon \<Rightarrow> string \<Rightarrow> 'd progress \<Rightarrow> 'd \<Rightarrow> err option \<times> 'd" where
  "pullImage D ref p d =
     (case ImagePull D Caller ref d of
        (Inl e, d') \<Rightarrow> (Some (wrap_err (''pull image '' @ ref @ '': '') e), d')
      | (Inr msgs, d') \<Rightarrow> pullLoop ref p msgs [] d')"

text \<open>What a pull leaves alone: the daemon call keeps \<open>P\<close> and so does the progress callback.\<close>

lemma report_inv: "P d \<Longrightarrow> (\<And>f s n d. p = Some f \<Longrightarrow> P d \<Longrightarrow> P (f s n d)) \<Longrightarrow> P (report p stage pct d)"
  by (auto simp: report_def split: option.split)

lemma pullLoop_inv:
  assumes "pullLoop ref p ms ls d = (r, d')" and "P d"
    and "\<And>f s n d. p = Some f \<Longrightarrow> P d \<Longrightarrow> P (f s n d)"
  shows "P d'"
  using assms
proof (induction ref p ms ls d rule: pullLoop.induct)
  case (1 ref p ls d)
  then show ?case by simp
next
  case (2 ref p m ms ls d)
  then show ?case by (auto simp: Let_def report_inv split: if_splits)
qed

lemma pullImage_inv:
  assumes "pullImage D ref p d = (r, d')" and "P d"
    and "\<And>x d'. ImagePull D Caller ref d = (x, d') \<Longrightarrow> P d'"
    and "\<And>f s n d. p = Some f \<Longrightarrow> P d \<Longrightarrow> P (f s n d)"
  shows "P d'"
  using assms(1,3,4) unfolding pullImage_def
  by (auto split: prod.splits sum.splits intro: pullLoop_inv)

section \<open>What every call keeps\<close>

definition ops_keep :: "'d daemon \<Rightarrow> ('d \<Rightarrow> bool) \<Rightarrow> bool" where
  "ops_keep D P \<longleftrightarrow> (\<forall>d. P d \<longrightarrow>
     (\<forall>c i. P (snd (ContainerInspect D c i d))) \<and> (\<forall>c i t. P (snd (ContainerStop D c i t d)))
   \<and> (\<forall>c i n. P (snd (ContainerRename D c i n d))) \<and> (\<forall>c g h q n. P (snd (ContainerCreate D c g h q n d)))
   \<and> (\<forall>c i. P (snd (ContainerStart D c i d))) \<and> (\<forall>c i. P (snd (ContainerRemove D c i d)))
   \<and> (\<forall>c n. P (snd (ContainerList D c n d))) \<and> (\<forall>c n. P (snd (ImagePull D c n d)))
   \<and> (\<forall>c n. P (snd (ImageInspect D c n d))) \<and> (\<forall>c n. P (snd (ServiceList D c n d)))
   \<and> (\<forall>c i. P (snd (ServiceInspect D c i d))) \<and> (\<forall>c i v q z. P (snd (ServiceUpdate D c i v q z d)))
   \<and> (\<forall>t. P (snd (SleepOrDone D t d))))"

definition progress_keeps :: "'d progress \<Rightarrow> ('d \<Rightarrow> bool) \<Rightarrow> bool" where
  "progress_keeps p P \<longleftrightarrow> (\<forall>f s n d. p = Some f \<longrightarrow> P d \<longrightarrow> P (f s n d))"

lemma progress_keeps_None [simp]: "progress_keeps None P"
  by (simp add: progress_keeps_def)

lemma ops_keep_snd:
  assumes "ops_keep D P" and "P d"
  shows "P (snd (ContainerInspect D c i d))" "P (snd (ContainerStop D c i t d))" "P (snd (ContainerRename D c i n d))"
    "P (snd (ContainerCreate D c g h q n d))" "P (snd (ContainerStart D c i d))" "P (snd (ContainerRemove D c i d))"
    "P (snd (ContainerList D c n d))" "P (snd (ImagePull D c n d))" "P (snd (ImageInspect D c n d))"
    "P (snd (ServiceList D c n d))" "P (snd (ServiceInspect D c i d))" "P (snd (ServiceUpdate D c i v sp z d))"
    "P (snd (SleepOrDone D t d))"
  using assms(1) [unfolded ops_keep_def, THEN spec, THEN mp, OF assms(2)] by simp_all

lemma ops_keepD:
  assumes "ops_keep D P" and "P d"
  shows "ContainerInspect D c i d = (r1, d1) \<Longrightarrow> P d1" "ContainerStop D c i t d = (r2, d1) \<Longrightarrow> P d1"
    "ContainerRename D c i n d = (r2, d1) \<Longrightarrow> P d1" "ContainerCreate D c g h q n d = (r3, d1) \<Longrightarrow> P d1"
    "ContainerStart D c i d = (r2, d1) \<Longrightarrow> P d1" "ContainerRemove D c i d = (r2, d1) \<Longrightarrow> P d1"
    "ContainerList D c n d = (r4, d1) \<Longrightarrow> P d1" "ImagePull D c n d = (r5, d1) \<Longrightarrow> P d1"
    "ImageInspect D c n d = (r3, d1) \<Longrightarrow> P d1" "ServiceList D c n d = (r6, d1) \<Longrightarrow> P d1"
    "ServiceInspect D c i d = (r7, d1) \<Longrightarrow> P d1" "ServiceUpdate D c i v sp z d = (r2, d1) \<Longrightarrow> P d1"
    "SleepOrDone D t d = (r2, d1) \<Longrightarrow> P d1"
  using ops_keep_snd [OF assms] by (auto dest!: arg_cong [where f = snd])

lemma report_keeps: "progress_keeps p P \<Longrightarrow> P d \<Longrightarrow> P (report p s n d)"
  by (auto simp: progress_keeps_def report_def split: option.split)

lemma pullImage_keeps:
  "ops_keep D P \<Longrightarrow> progress_keeps p P \<Longrightarrow> P d \<Longrightarrow> pullImage D ref p d = (r, d') \<Longrightarrow> P d'"
  by (rule pullImage_inv) (auto simp: progress_keeps_def dest: ops_keepD(8))

section \<open>The reported percentage\<close>

lemma sum64_bounds:
  assumes "\<forall>x\<in>set xs. 0 \<le> x" and "s \<ge> 0" and "s + sum_list xs < 2 ^ 63"
  shows "foldl (\<lambda>s x. wrap64 (s + x)) s xs = s + sum_list xs"
  using assms
proof (induction xs arbitrary: s)
  case Nil
  then show ?case by simp
next
  case (Cons x xs)
  have "sum_list xs \<ge> 0" using Cons.prems(1) by (intro sum_list_nonneg) auto
  then have "wrap64 (s + x) = s + x" using Cons.prems by (intro wrap64_id) auto
  then show ?case using Cons.IH [of "s + x"] Cons.prems by simp
qed

text \<open>The progress a user sees is a percentage: it never exceeds 100, and it is never negative while
  the layers' sizes stay below the overflow bound (a hundred times their sum fits 64 bits).\<close>

theorem pull_percent_bounds:
  "percent ls \<le> 100
   \<and> ((\<forall>(i, cur, tot)\<in>set ls. 0 \<le> cur \<and> 0 \<le> tot)
      \<and> 100 * sum_list (map (\<lambda>l. fst (snd l)) ls) < 2 ^ 63 \<and> sum_list (map (\<lambda>l. snd (snd l)) ls) < 2 ^ 63
      \<longrightarrow> 0 \<le> percent ls)"
proof
  show "percent ls \<le> 100" by (simp add: percent_def Let_def)
  show "(\<forall>(i, cur, tot)\<in>set ls. 0 \<le> cur \<and> 0 \<le> tot)
      \<and> 100 * sum_list (map (\<lambda>l. fst (snd l)) ls) < 2 ^ 63 \<and> sum_list (map (\<lambda>l. snd (snd l)) ls) < 2 ^ 63
      \<longrightarrow> 0 \<le> percent ls"
  proof (intro impI, elim conjE)
    let ?c = "sum_list (map (\<lambda>l. fst (snd l)) ls)" and ?t = "sum_list (map (\<lambda>l. snd (snd l)) ls)"
    assume nn: "\<forall>(i, cur, tot)\<in>set ls. 0 \<le> cur \<and> 0 \<le> tot" and c: "100 * ?c < 2 ^ 63" and t: "?t < 2 ^ 63"
    have cs: "\<forall>x\<in>set (map (\<lambda>l. fst (snd l)) ls). 0 \<le> x" and ts: "\<forall>x\<in>set (map (\<lambda>l. snd (snd l)) ls). 0 \<le> x"
      using nn by auto
    have c0: "0 \<le> ?c" using cs by (intro sum_list_nonneg) auto
    have "sum64 (map (\<lambda>l. fst (snd l)) ls) = ?c"
      unfolding sum64_def using c c0 sum64_bounds [OF cs, of 0] by simp
    moreover have "sum64 (map (\<lambda>l. snd (snd l)) ls) = ?t"
      unfolding sum64_def using t sum64_bounds [OF ts, of 0] by simp
    moreover have "0 \<le> quot64 (wrap64 (?c * 100)) ?t" if "?t > 0"
    proof -
      have w: "wrap64 (?c * 100) = ?c * 100" using c c0 by (intro wrap64_id) auto
      have "0 \<le> ?c * 100 div ?t" using c0 that by (intro pos_imp_zdiv_nonneg_iff [THEN iffD2]) auto
      moreover have "?c * 100 div ?t \<le> ?c * 100" using c0 that zdiv_mono2 [of "?c * 100" 1 ?t] by simp
      ultimately have "wrap64 (?c * 100 div ?t) = ?c * 100 div ?t" using c by (intro wrap64_id) auto
      then show ?thesis
        using c0 that w \<open>0 \<le> ?c * 100 div ?t\<close> unfolding quot64_def by (auto simp: sgn_if)
    qed
    ultimately show "0 \<le> percent ls" by (simp add: percent_def Let_def)
  qed
qed

theorem pull_percent_bounds_witness: "0 \<le> percent [(''a'', 50, 200), (''b'', 10, 40)] \<and> percent [(''a'', 900, 200)] \<le> 100"
  using pull_percent_bounds [of "[(''a'', 50, 200), (''b'', 10, 40)]"] pull_percent_bounds [of "[(''a'', 900, 200)]"]
  by simp

end
