(* ===== verification/Fetchers.thy ===== *)
theory Fetchers
  imports Updater Daemon
begin

text \<open>
  The upstream APIs of \<open>internal/changelog\<close>: releases from GitHub, GitLab and Gitea
  (\<open>github.go\<close>, \<open>gitlab.go\<close>, \<open>gitea.go\<close>) and tags, manifests and anonymous tokens from
  container registries (\<open>registry.go\<close>).  The HTTP transport and the JSON decoding of the bodies are
  the record \<open>net\<close>; a request waits for the rate limiter before it is sent, which is part of the
  transport here.  Paging over Docker Hub follows links the answer gives and takes fuel; the other
  pagings are bounded in the code.
\<close>

section \<open>The transport\<close>

type_synonym headers = "(string \<times> string) list"

record response =
  rp_status :: int
  rp_body :: string
  rp_bodyErr :: "err option"
  rp_digest :: string
  rp_challenge :: string

record forgeRelease =
  fr_tagName :: string
  fr_name :: string
  fr_body :: string
  fr_url :: string
  fr_publishedAt :: string
  fr_prerelease :: bool
  fr_hidden :: bool

text \<open>\<open>forgeRelease\<close> is the decoded entry of all three forges: \<open>fr_hidden\<close> is \<open>draft\<close> for
  GitHub and Gitea and \<open>upcoming_release\<close> for GitLab.\<close>

record hubTag =
  ht_name :: string
  ht_lastUpdated :: string

record hubResponse =
  hr_results :: "hubTag list"
  hr_next :: string

text \<open>\<open>requestErr\<close> is the error of building a request for a URL; the decoders are
  \<open>json.Unmarshal\<close> into the structures of the code; \<open>rfc3339\<close> is \<open>time.Parse\<close> for
  that layout, whose failure leaves the zero time.\<close>

record 'e net =
  requestErr :: "string \<Rightarrow> err option"
  httpDo :: "string \<Rightarrow> headers \<Rightarrow> 'e \<Rightarrow> (err + response) \<times> 'e"
  decodeGitHub :: "string \<Rightarrow> err + forgeRelease list"
  decodeGitLab :: "string \<Rightarrow> err + forgeRelease list"
  decodeHub :: "string \<Rightarrow> err + hubResponse"
  decodeTags :: "string \<Rightarrow> err + string list"
  decodeIndex :: "string \<Rightarrow> err + string list"
  decodeToken :: "string \<Rightarrow> err + string"
  rfc3339 :: "string \<Rightarrow> gotime option"

record tokens =
  tk_github :: string
  tk_gitlab :: string

definition apiErr :: "int \<Rightarrow> string \<Rightarrow> err" where
  "apiErr status url = errors_new (''upstream API '' @ url @ '' returned '' @ intText status)"

definition parseTime :: "'e net \<Rightarrow> string \<Rightarrow> gotime" where
  "parseTime N s = (case rfc3339 N s of None \<Rightarrow> zero_time | Some t \<Rightarrow> t)"

definition firstNonEmpty :: "string \<Rightarrow> string \<Rightarrow> string" where
  "firstNonEmpty a b = (if a \<noteq> [] then a else b)"

definition readLimited :: "nat \<Rightarrow> response \<Rightarrow> err + string" where
  "readLimited n r = (case rp_bodyErr r of Some e \<Rightarrow> Inl e | None \<Rightarrow> Inr (take n (rp_body r)))"

abbreviation (input) eightMiB :: nat where "eightMiB \<equiv> 8388608"

section \<open>URL escaping\<close>

definition hexUpper :: "nat \<Rightarrow> char" where
  "hexUpper n = (if n < 10 then char_of (48 + n) else char_of (55 + n))"

definition isLetter :: "char \<Rightarrow> bool" where
  "isLetter c \<longleftrightarrow> (let n = (of_char c :: nat) in 65 \<le> n \<and> n \<le> 90 \<or> 97 \<le> n \<and> n \<le> 122)"

definition unreserved :: "char \<Rightarrow> bool" where
  "unreserved c \<longleftrightarrow> isLetter c \<or> isDigit c \<or> c \<in> set ''-_.~''"

definition percentEncode :: "char \<Rightarrow> string" where
  "percentEncode c = [CHR 0x25, hexUpper (of_char c div 16), hexUpper (of_char c mod 16)]"

text \<open>\<open>url.PathEscape\<close> and \<open>url.QueryEscape\<close>.\<close>

definition pathEscape :: "string \<Rightarrow> string" where
  "pathEscape s = concat (map (\<lambda>c. if unreserved c \<or> c \<in> set ''$&+:=@'' then [c] else percentEncode c) s)"

definition queryEscape :: "string \<Rightarrow> string" where
  "queryEscape s = concat (map (\<lambda>c. if c = CHR '' '' then ''+'' else if unreserved c then [c] else percentEncode c) s)"

section \<open>The forges\<close>

definition of_forge :: "'e net \<Rightarrow> forgeRelease \<Rightarrow> crelease" where
  "of_forge N r = \<lparr>cl_tag = fr_tagName r, cl_title = firstNonEmpty (fr_name r) (fr_tagName r), cl_body = fr_body r,
     cl_url = fr_url r, cl_published = parseTime N (fr_publishedAt r), cl_prerelease = fr_prerelease r\<rparr>"

definition shown :: "'e net \<Rightarrow> forgeRelease list \<Rightarrow> crelease list" where
  "shown N rels = map (of_forge N) (filter (\<lambda>r. \<not> fr_hidden r) rels)"

text \<open>One page: \<open>Inl\<close> ends the fetch with that result, \<open>Inr\<close> is the decoded page.\<close>

definition fetchPage ::
  "'e net \<Rightarrow> (string \<Rightarrow> err + forgeRelease list) \<Rightarrow> string \<Rightarrow> headers \<Rightarrow> crelease list option \<Rightarrow> 'e
     \<Rightarrow> ((err + crelease list option) + forgeRelease list) \<times> 'e" where
  "fetchPage N decode u hs out e =
     (case requestErr N u of
        Some x \<Rightarrow> (Inl (Inl x), e)
      | None \<Rightarrow>
          (case httpDo N u hs e of
             (Inl x, e1) \<Rightarrow> (Inl (Inl x), e1)
           | (Inr r, e1) \<Rightarrow>
               if rp_status r = 404 \<or> rp_status r = 401 then (Inl (Inr out), e1)
               else if rp_status r \<noteq> 200 then (Inl (Inl (apiErr (rp_status r) u)), e1)
               else (case readLimited eightMiB r of
                       Inl x \<Rightarrow> (Inl (Inl x), e1)
                     | Inr body \<Rightarrow>
                         (case decode body of
                            Inl x \<Rightarrow> (Inl (Inl x), e1)
                          | Inr rels \<Rightarrow> (Inr rels, e1)))))"

text \<open>Appending to a nil slice leaves it nil when there is nothing to append.\<close>

definition appendAll :: "'a list option \<Rightarrow> 'a list \<Rightarrow> 'a list option" where
  "appendAll out xs = (if xs = [] then out else Some ((case out of None \<Rightarrow> [] | Some ys \<Rightarrow> ys) @ xs))"

text \<open>The pages that are left, at most three in all; a short page is the last one.\<close>

fun fetchPages ::
  "'e net \<Rightarrow> (string \<Rightarrow> err + forgeRelease list) \<Rightarrow> (nat \<Rightarrow> string) \<Rightarrow> headers \<Rightarrow> nat \<Rightarrow> nat list
     \<Rightarrow> crelease list option \<Rightarrow> 'e \<Rightarrow> (err + crelease list option) \<times> 'e" where
  "fetchPages N decode url hs perPage [] out e = (Inr out, e)"
| "fetchPages N decode url hs perPage (page # pages) out e =
     (case fetchPage N decode (url page) hs out e of
        (Inl res, e1) \<Rightarrow> (res, e1)
      | (Inr rels, e1) \<Rightarrow>
          (let out1 = appendAll out (shown N rels)
           in if length rels < perPage then (Inr out1, e1)
              else fetchPages N decode url hs perPage pages out1 e1))"

definition githubDefaultBase :: string where
  "githubDefaultBase = ''https://api.github.com''"

definition githubHeaders :: "tokens \<Rightarrow> headers" where
  "githubHeaders tk = [(''Accept'', ''application/vnd.github+json''), (''X-GitHub-Api-Version'', ''2022-11-28'')]
     @ (if tk_github tk \<noteq> [] then [(''Authorization'', ''Bearer '' @ tk_github tk)] else [])"

definition githubReleases :: "'e net \<Rightarrow> tokens \<Rightarrow> source \<Rightarrow> 'e \<Rightarrow> (err + crelease list option) \<times> 'e" where
  "githubReleases N tk src e =
     (let base = (if so_baseURL src = [] then githubDefaultBase else so_baseURL src)
      in fetchPages N (decodeGitHub N)
           (\<lambda>page. base @ ''/repos/'' @ so_repo src @ ''/releases?per_page=100&page='' @ natText page)
           (githubHeaders tk) 100 [1, 2, 3] None e)"

definition giteaReleases :: "'e net \<Rightarrow> source \<Rightarrow> 'e \<Rightarrow> (err + crelease list option) \<times> 'e" where
  "giteaReleases N src e =
     (if so_baseURL src = [] then (Inl (errors_new ''gitea source requires a base URL''), e)
      else fetchPages N (decodeGitHub N)
             (\<lambda>page. so_baseURL src @ ''/api/v1/repos/'' @ so_repo src @ ''/releases?limit=50&page='' @ natText page)
             ([(''Accept'', ''application/json'')]
               @ (if so_token src \<noteq> [] then [(''Authorization'', ''token '' @ so_token src)] else []))
             50 [1, 2, 3] None e)"

text \<open>GitLab's releases have no prerelease flag.\<close>

definition gitlabReleases :: "'e net \<Rightarrow> tokens \<Rightarrow> source \<Rightarrow> 'e \<Rightarrow> (err + crelease list option) \<times> 'e" where
  "gitlabReleases N tk src e =
     (let base = (if so_baseURL src = [] then ''https://gitlab.com'' else so_baseURL src);
          u = base @ ''/api/v4/projects/'' @ pathEscape (so_repo src) @ ''/releases?per_page=100''
      in case fetchPage N (decodeGitLab N) u
                (if tk_gitlab tk \<noteq> [] then [(''PRIVATE-TOKEN'', tk_gitlab tk)] else []) None e of
           (Inl res, e1) \<Rightarrow> (res, e1)
         | (Inr rels, e1) \<Rightarrow> (Inr (Some (map (\<lambda>r. r\<lparr>cl_prerelease := False\<rparr>) (shown N rels))), e1))"

text \<open>\<open>LatestRelease\<close>: the first published release that is no prerelease, or else the first published one.\<close>

fun pickLatest :: "'e net \<Rightarrow> forgeRelease list \<Rightarrow> crelease option \<Rightarrow> crelease option" where
  "pickLatest N [] fallback = fallback"
| "pickLatest N (r # rs) fallback =
     (if fr_hidden r then pickLatest N rs fallback
      else if \<not> fr_prerelease r then Some (of_forge N r)
      else pickLatest N rs (case fallback of None \<Rightarrow> Some (of_forge N r) | Some f \<Rightarrow> Some f))"

definition LatestRelease :: "'e net \<Rightarrow> tokens \<Rightarrow> string \<Rightarrow> 'e \<Rightarrow> (err + crelease option) \<times> 'e" where
  "LatestRelease N tk repo e =
     (if repo = [] then (Inr None, e)
      else
        let u = githubDefaultBase @ ''/repos/'' @ repo @ ''/releases?per_page=20''
        in case requestErr N u of
             Some x \<Rightarrow> (Inl x, e)
           | None \<Rightarrow>
               (case httpDo N u (githubHeaders tk) e of
                  (Inl x, e1) \<Rightarrow> (Inl x, e1)
                | (Inr r, e1) \<Rightarrow>
                    if rp_status r = 404 \<or> rp_status r = 401 then (Inr None, e1)
                    else if rp_status r \<noteq> 200 then (Inl (apiErr (rp_status r) u), e1)
                    else (case readLimited 2097152 r of
                            Inl x \<Rightarrow> (Inl x, e1)
                          | Inr body \<Rightarrow>
                              (case decodeGitHub N body of
                                 Inl x \<Rightarrow> (Inl x, e1)
                               | Inr rels \<Rightarrow> (Inr (pickLatest N rels None), e1)))))"

section \<open>Registry tokens\<close>

text \<open>The parameters of a challenge; a later one of the same name replaces an earlier one.\<close>

definition challengeParam :: "string \<Rightarrow> (string \<times> string) option" where
  "challengeParam part =
     (let s = trimSpace part; i = indexByte s CHR ''=''
      in if i < 0 then None else Some (upto s i, trimByte (fromIdx s (i + 1)) CHR 0x22))"

definition challengeParams :: "string \<Rightarrow> (string \<times> string) list" where
  "challengeParams challenge =
     rev (List.map_filter challengeParam (splitOn CHR '','' (trimPrefix challenge ''Bearer '')))"

text \<open>\<open>url.Values.Encode\<close> sorts by key.\<close>

definition tokenQuery :: "(string \<times> string) list \<Rightarrow> string" where
  "tokenQuery params =
     joinWith ''&'' (List.map_filter
       (\<lambda>k. map_option (\<lambda>v. k @ ''='' @ queryEscape v) (map_of params k)) [''account'', ''scope'', ''service''])"

definition tokenURL :: "(string \<times> string) list \<Rightarrow> string \<Rightarrow> string" where
  "tokenURL params realm = (let q = tokenQuery params in if q = [] then realm else realm @ ''?'' @ q)"

text \<open>The result of a token request.  The error of building the request is ignored, so the request is
  nil for a realm that is no URL, and sending it is a nil dereference.\<close>

datatype 'a panicky = Returned 'a | NilDereference

definition fetchRegistryToken :: "'e net \<Rightarrow> string \<Rightarrow> 'e \<Rightarrow> (err + string) panicky \<times> 'e" where
  "fetchRegistryToken N challenge e =
     (let params = challengeParams challenge
      in case map_of params ''realm'' of
           None \<Rightarrow> (Returned (Inl (errors_new ''registry token challenge missing realm'')), e)
         | Some realm \<Rightarrow>
             if realm = [] then (Returned (Inl (errors_new ''registry token challenge missing realm'')), e)
             else
               let u = tokenURL params realm
               in if requestErr N u \<noteq> None then (NilDereference, e)
                  else (case httpDo N u [] e of
                          (Inl x, e1) \<Rightarrow> (Returned (Inl x), e1)
                        | (Inr r, e1) \<Rightarrow>
                            if rp_status r \<noteq> 200 then (Returned (Inl (apiErr (rp_status r) u)), e1)
                            else (Returned (decodeToken N (take 1048576 (rp_body r))), e1)))"

section \<open>Registry requests\<close>

text \<open>One authorised or anonymous try: body, status and content digest.\<close>

definition registryTry ::
  "'e net \<Rightarrow> string \<Rightarrow> string \<Rightarrow> string \<Rightarrow> 'e \<Rightarrow> (err + string \<times> int \<times> string) \<times> 'e" where
  "registryTry N url accept auth e =
     (case requestErr N url of
        Some x \<Rightarrow> (Inl x, e)
      | None \<Rightarrow>
          (case httpDo N url ((if accept \<noteq> [] then [(''Accept'', accept)] else [])
                  @ (if auth \<noteq> [] then [(''Authorization'', ''Bearer '' @ auth)] else [])) e of
             (Inl x, e1) \<Rightarrow> (Inl x, e1)
           | (Inr r, e1) \<Rightarrow>
               (case readLimited eightMiB r of
                  Inl x \<Rightarrow> (Inl x, e1)
                | Inr b \<Rightarrow> (Inr (b, rp_status r, rp_digest r), e1))))"

definition registryAnswer ::
  "string \<Rightarrow> string \<times> int \<times> string \<Rightarrow> err + (string \<times> string) option" where
  "registryAnswer url t =
     (let (body, status, digest) = t
      in if status = 404 \<or> status = 401 then Inr None
         else if status \<noteq> 200 then Inl (apiErr status url)
         else Inr (Some (body, digest)))"

text \<open>\<open>registryGet\<close>: \<open>Inr None\<close> is \<open>ok = false\<close>.  The second request asks for the challenge; a
  realm that is no URL makes the token request panic.\<close>

definition registryGet ::
  "'e net \<Rightarrow> string \<Rightarrow> string \<Rightarrow> 'e \<Rightarrow> (err + (string \<times> string) option) panicky \<times> 'e" where
  "registryGet N url accept e =
     (case registryTry N url accept [] e of
        (Inl x, e1) \<Rightarrow> (Returned (Inl x), e1)
      | (Inr (body, status, digest), e1) \<Rightarrow>
          if status \<noteq> 401 then (Returned (registryAnswer url (body, status, digest)), e1)
          else (case httpDo N url (if accept \<noteq> [] then [(''Accept'', accept)] else []) e1 of
                  (Inl x, e2) \<Rightarrow> (Returned (Inl x), e2)
                | (Inr r, e2) \<Rightarrow>
                    (case fetchRegistryToken N (rp_challenge r) e2 of
                       (NilDereference, e3) \<Rightarrow> (NilDereference, e3)
                     | (Returned (Inl x), e3) \<Rightarrow> (Returned (Inl x), e3)
                     | (Returned (Inr token), e3) \<Rightarrow>
                         if token = [] then (Returned (Inr None), e3)
                         else (case registryTry N url accept token e3 of
                                 (Inl x, e4) \<Rightarrow> (Returned (Inl x), e4)
                               | (Inr t, e4) \<Rightarrow> (Returned (registryAnswer url t), e4)))))"

section \<open>Manifests\<close>

definition manifestAccept :: string where
  "manifestAccept = ''application/vnd.docker.distribution.manifest.list.v2+json, ''
     @ ''application/vnd.oci.image.index.v1+json, ''
     @ ''application/vnd.docker.distribution.manifest.v2+json, ''
     @ ''application/vnd.oci.image.manifest.v1+json, ''
     @ ''application/vnd.docker.distribution.manifest.v1+prettyjws''"

definition manifestURL :: "string \<Rightarrow> string \<Rightarrow> string \<Rightarrow> string" where
  "manifestURL registry repo tag =
     ''https://'' @ (if registry = ''docker.io'' then ''registry-1.docker.io'' else registry)
       @ ''/v2/'' @ repo @ ''/manifests/'' @ tag"

text \<open>\<open>fetchManifest\<close> drops \<open>ok\<close>: without an answer both the body and the digest are empty.\<close>

definition fetchManifest ::
  "'e net \<Rightarrow> string \<Rightarrow> string \<Rightarrow> string \<Rightarrow> 'e \<Rightarrow> (err + string \<times> string) panicky \<times> 'e" where
  "fetchManifest N registry repo tag e =
     (case registryGet N (manifestURL registry repo tag) manifestAccept e of
        (NilDereference, e1) \<Rightarrow> (NilDereference, e1)
      | (Returned (Inl x), e1) \<Rightarrow> (Returned (Inl x), e1)
      | (Returned (Inr None), e1) \<Rightarrow> (Returned (Inr ([], [])), e1)
      | (Returned (Inr (Some bd)), e1) \<Rightarrow> (Returned (Inr bd), e1))"

definition manifestMatches :: "'e net \<Rightarrow> string \<Rightarrow> string \<Rightarrow> string \<Rightarrow> bool" where
  "manifestMatches N body digest imageDigest \<longleftrightarrow>
     equalFold digest imageDigest
     \<or> (case decodeIndex N body of
          Inl _ \<Rightarrow> False
        | Inr ds \<Rightarrow> \<exists>m\<in>set ds. equalFold m imageDigest)"

definition ManifestUpToDate ::
  "'e net \<Rightarrow> string \<Rightarrow> string \<Rightarrow> string \<Rightarrow> string \<Rightarrow> 'e \<Rightarrow> (err + bool) panicky \<times> 'e" where
  "ManifestUpToDate N registry repo tag imageDigest e =
     (case fetchManifest N registry repo tag e of
        (NilDereference, e1) \<Rightarrow> (NilDereference, e1)
      | (Returned (Inl x), e1) \<Rightarrow> (Returned (Inl x), e1)
      | (Returned (Inr (body, digest)), e1) \<Rightarrow>
          (Returned (Inr (if digest = [] then False else manifestMatches N body digest imageDigest)), e1))"

section \<open>Tags\<close>

definition of_hub :: "'e net \<Rightarrow> string \<Rightarrow> hubTag \<Rightarrow> crelease" where
  "of_hub N repo t = \<lparr>cl_tag = ht_name t, cl_title = [], cl_body = [],
     cl_url = ''https://hub.docker.com/r/'' @ repo @ ''/tags'', cl_published = parseTime N (ht_lastUpdated t),
     cl_prerelease = False\<rparr>"

fun hubPages ::
  "'e net \<Rightarrow> nat \<Rightarrow> string \<Rightarrow> string \<Rightarrow> crelease list option \<Rightarrow> 'e
     \<Rightarrow> ((err + crelease list option) \<times> 'e) option" where
  "hubPages N 0 repo pageURL out e = None"
| "hubPages N (Suc fuel) repo pageURL out e =
     (case requestErr N pageURL of
        Some x \<Rightarrow> Some (Inl x, e)
      | None \<Rightarrow>
          (case httpDo N pageURL [] e of
             (Inl x, e1) \<Rightarrow> Some (Inl x, e1)
           | (Inr r, e1) \<Rightarrow>
               if rp_status r = 404 then Some (Inr out, e1)
               else if rp_status r \<noteq> 200 then Some (Inl (apiErr (rp_status r) pageURL), e1)
               else (case readLimited eightMiB r of
                       Inl x \<Rightarrow> Some (Inl x, e1)
                     | Inr body \<Rightarrow>
                         (case decodeHub N body of
                            Inl x \<Rightarrow> Some (Inl x, e1)
                          | Inr hr \<Rightarrow>
                              (let out1 = appendAll out (map (of_hub N repo) (hr_results hr))
                               in if hr_next hr = [] \<or> length (case out1 of None \<Rightarrow> [] | Some xs \<Rightarrow> xs) \<ge> 300
                                  then Some (Inr out1, e1)
                                  else hubPages N fuel repo (hr_next hr) out1 e1)))))"

definition dockerHubTags ::
  "'e net \<Rightarrow> nat \<Rightarrow> string \<Rightarrow> 'e \<Rightarrow> ((err + crelease list option) \<times> 'e) option" where
  "dockerHubTags N fuel repo e =
     hubPages N fuel repo (''https://hub.docker.com/v2/repositories/'' @ repo
       @ ''/tags/?page_size=100&page=1&ordering=last_updated'') None e"

definition genericRegistryTags ::
  "'e net \<Rightarrow> string \<Rightarrow> string \<Rightarrow> 'e \<Rightarrow> (err + crelease list option) panicky \<times> 'e" where
  "genericRegistryTags N registry repo e =
     (case registryGet N (''https://'' @ registry @ ''/v2/'' @ repo @ ''/tags/list?n=500'') [] e of
        (NilDereference, e1) \<Rightarrow> (NilDereference, e1)
      | (Returned (Inl x), e1) \<Rightarrow> (Returned (Inl x), e1)
      | (Returned (Inr None), e1) \<Rightarrow> (Returned (Inr None), e1)
      | (Returned (Inr (Some (body, _))), e1) \<Rightarrow>
          (Returned (case decodeTags N body of
             Inl x \<Rightarrow> Inl x
           | Inr names \<Rightarrow> Inr (Some (map (\<lambda>t. \<lparr>cl_tag = t, cl_title = [], cl_body = [],
               cl_url = ''https://'' @ registry @ ''/v2/'' @ repo, cl_published = zero_time,
               cl_prerelease = False\<rparr>) names))), e1))"

section \<open>Dispatch\<close>

text \<open>\<open>FetchReleases\<close>; \<open>None\<close> says the fuel of a Docker Hub listing ran out.\<close>

definition registryTags ::
  "'e net \<Rightarrow> nat \<Rightarrow> source \<Rightarrow> 'e \<Rightarrow> ((err + crelease list option) panicky \<times> 'e) option" where
  "registryTags N fuel src e =
     (if so_registry src = ''docker.io''
      then map_option (\<lambda>(r, e1). (Returned r, e1)) (dockerHubTags N fuel (so_repository src) e)
      else Some (genericRegistryTags N (so_registry src) (so_repository src) e))"

definition FetchReleases ::
  "'e net \<Rightarrow> tokens \<Rightarrow> nat \<Rightarrow> source option \<Rightarrow> 'e \<Rightarrow> ((err + crelease list option) panicky \<times> 'e) option" where
  "FetchReleases N tk fuel src0 e =
     (case src0 of
        None \<Rightarrow> Some (Returned (Inr None), e)
      | Some src \<Rightarrow>
          (case so_type src of
             SourceGitHub \<Rightarrow> (let (r, e1) = githubReleases N tk src e in Some (Returned r, e1))
           | SourceGitLab \<Rightarrow> (let (r, e1) = gitlabReleases N tk src e in Some (Returned r, e1))
           | SourceGitea \<Rightarrow> (let (r, e1) = giteaReleases N src e in Some (Returned r, e1))
           | SourceRegistry \<Rightarrow> registryTags N fuel src e
           | SourceNone \<Rightarrow> Some (Returned (Inr None), e)))"

end
