(* ===== verification/UpdaterProps.thy ===== *)
theory UpdaterProps
  imports Updater
begin

text \<open>
  What the updater promises: which update a version pin is offered and why it is never a downgrade,
  when the registry digest alone decides, and what a whole cycle leaves in the database.
\<close>

section \<open>Counting the candidates\<close>

definition candidate :: "'v semver \<Rightarrow> string \<Rightarrow> 'v \<Rightarrow> 'v \<Rightarrow> bool" where
  "candidate L tag cur v \<longleftrightarrow> Prerelease L v = Prerelease L cur \<and> isUpdateTarget L cur (versionPrecision tag) v"

lemma countNewer_length:
  "fst (countNewer L cur p vs acc)
     = fst acc + length (filter (\<lambda>(r, v). Prerelease L v = Prerelease L cur \<and> isUpdateTarget L cur p v) vs)"
  by (induction L cur p vs acc rule: countNewer.induct) auto

lemma countNewer_first:
  assumes "\<forall>(r, v)\<in>set vs. cl_tag r \<noteq> []"
  shows "snd (countNewer L cur p vs (n, t))
     = (if t \<noteq> [] then t
        else (case filter (\<lambda>(r, v). Prerelease L v = Prerelease L cur \<and> isUpdateTarget L cur p v) vs of
                [] \<Rightarrow> [] | (r, _) # _ \<Rightarrow> cl_tag r))"
  using assms
proof (induction vs arbitrary: n t)
  case Nil
  then show ?case by simp
next
  case (Cons rv vs)
  then show ?case by (cases rv) auto
qed

section \<open>The versioned releases\<close>

text \<open>The releases with a version, in the order of the list; a tag that has a version is not empty,
  when the library refuses the empty string.\<close>

definition versioned_pairs :: "'v semver \<Rightarrow> crelease list \<Rightarrow> (crelease \<times> 'v) list" where
  "versioned_pairs L rels = List.map_filter (\<lambda>r. map_option (Pair r) (parseVer L (cl_tag r))) rels"

lemma set_versioned_pairs:
  "set (versioned_pairs L rels) = {(r, v). r \<in> set rels \<and> parseVer L (cl_tag r) = Some v}"
  by (auto simp: versioned_pairs_def set_map_filter)

lemma set_versionedReleases:
  "sort_contract L \<Longrightarrow> set (versionedReleases L rels) = {(r, v). r \<in> set rels \<and> parseVer L (cl_tag r) = Some v}"
  unfolding versionedReleases_def sort_contract_def versioned_pairs_def [symmetric]
  by (metis mset_eq_setD set_versioned_pairs)

lemma parseVer_nonempty:
  assumes "semver_laws L" and "parseVer L tag = Some v"
  shows "tag \<noteq> []"
proof
  assume "tag = []"
  moreover have "trimPrefix (trimPrefix [] ''v'') ''V'' = []" "indexFunc isDigit [] = -1"
    by (simp_all add: trimPrefix_def)
  ultimately show False using assms by (simp add: parseVer_def semver_laws_def)
qed

lemma length_filter_mset: "mset xs = mset ys \<Longrightarrow> length (filter P xs) = length (filter P ys)"
  by (metis mset_filter size_mset)

text \<open>How many releases are candidates, as the specification counts them.\<close>

definition candidates :: "'v semver \<Rightarrow> string \<Rightarrow> 'v \<Rightarrow> crelease list \<Rightarrow> (crelease \<times> 'v) list" where
  "candidates L tag cur rels = filter (\<lambda>(r, v). candidate L tag cur v) (versioned_pairs L rels)"

lemma versionUpdate_cases:
  assumes srt: "sort_contract L" and laws: "semver_laws L"
  shows "(candidates L (ct_imageTag c) cur rels = [] \<and> versionUpdate L c cur rels = None)
    \<or> (\<exists>r v. (r, v) \<in> set (candidates L (ct_imageTag c) cur rels)
         \<and> (\<forall>(r', v')\<in>set (candidates L (ct_imageTag c) cur rels). \<not> GreaterThan L v' v)
         \<and> versionUpdate L c cur rels
             = Some (new_update (ct_imageTag c) (cl_tag r) (length (candidates L (ct_imageTag c) cur rels))))"
proof -
  let ?p = "versionPrecision (ct_imageTag c)" and ?vs = "versionedReleases L rels"
  let ?P = "\<lambda>(r :: crelease, v). candidate L (ct_imageTag c) cur v"
  have P: "?P = (\<lambda>(r, v). Prerelease L v = Prerelease L cur \<and> isUpdateTarget L cur ?p v)"
    by (auto simp: candidate_def)
  have ms: "mset ?vs = mset (versioned_pairs L rels)"
    using srt by (simp add: sort_contract_def versionedReleases_def versioned_pairs_def)
  have len: "length (filter ?P ?vs) = length (candidates L (ct_imageTag c) cur rels)"
    unfolding candidates_def by (rule length_filter_mset [OF ms])
  have set: "set (filter ?P ?vs) = set (candidates L (ct_imageTag c) cur rels)"
    unfolding candidates_def set_filter using mset_eq_setD [OF ms] by simp
  have tags: "\<forall>(r, v)\<in>set ?vs. cl_tag r \<noteq> []"
    using set_versionedReleases [OF srt, of rels] parseVer_nonempty [OF laws] by auto
  obtain b t where bt: "countNewer L cur ?p ?vs (0, []) = (b, t)" by fastforce
  have b: "b = length (candidates L (ct_imageTag c) cur rels)"
    using countNewer_length [of L cur ?p ?vs "(0, [])"] bt len unfolding P by simp
  have t: "t = (case filter ?P ?vs of [] \<Rightarrow> [] | (r, _) # _ \<Rightarrow> cl_tag r)"
    using countNewer_first [OF tags, of L cur ?p 0 "[]"] bt unfolding P by simp
  have res: "versionUpdate L c cur rels = (if b > 0 then Some (new_update (ct_imageTag c) t b) else None)"
    by (simp add: versionUpdate_def bt)
  show ?thesis
  proof (cases "filter ?P ?vs")
    case Nil
    then show ?thesis using len b res by simp
  next
    case (Cons rv rest)
    obtain r v where rv: "rv = (r, v)" by fastforce
    have "sorted_wrt (\<lambda>x y. \<not> GreaterThan L (snd y) (snd x)) ?vs"
      using srt by (simp add: sort_contract_def versionedReleases_def)
    then have "sorted_wrt (\<lambda>x y. \<not> GreaterThan L (snd y) (snd x)) ((r, v) # rest)"
      using sorted_wrt_filter [of _ ?vs ?P] Cons rv by metis
    moreover have "\<not> GreaterThan L v v" using laws by (simp add: semver_laws_def)
    ultimately have "\<forall>(r', v')\<in>set (rv # rest). \<not> GreaterThan L v' v" by (auto simp: rv)
    then have max: "\<forall>(r', v')\<in>set (candidates L (ct_imageTag c) cur rels). \<not> GreaterThan L v' v"
      using set Cons by metis
    have mem: "(r, v) \<in> set (candidates L (ct_imageTag c) cur rels)"
      using set Cons rv by (metis list.set_intros(1))
    have "b > 0" using mem b by (metis length_pos_if_in_set)
    with res t Cons rv b have "versionUpdate L c cur rels
        = Some (new_update (ct_imageTag c) (cl_tag r) (length (candidates L (ct_imageTag c) cur rels)))"
      by simp
    with max mem show ?thesis by blast
  qed
qed


section \<open>Version pins\<close>

lemma computeUpdate_pinned:
  assumes "parseVer L (ct_imageTag c) = Some cur" and "withoutPrereleases ip rels \<noteq> []"
  shows "computeUpdate L ip ask c src rels e =
    (case versionUpdate L c cur (withoutPrereleases ip rels) of
       Some upd \<Rightarrow> (Some upd, e) | None \<Rightarrow> registryFallback ask c e)"
  using assms by (simp add: computeUpdate_def Let_def)

text \<open>C7: a container pinned to a version is offered the newest release it could move to: the offered
  tag is a release of the container's variant that is a reason to move, no such release is newer, and
  the count is the number of such releases.  When there is none, only the registry digest can still
  offer something, and that is the container's own tag.\<close>

theorem version_pin_newest:
  assumes "semver_laws L" and "sort_contract L" and "parseVer L (ct_imageTag c) = Some cur"
    and "withoutPrereleases ip rels \<noteq> []"
  shows "(let cands = candidates L (ct_imageTag c) cur (withoutPrereleases ip rels) in
      if cands = [] then computeUpdate L ip ask c src rels e = registryFallback ask c e
      else \<exists>(r, v)\<in>set cands. (\<forall>(r', v')\<in>set cands. \<not> GreaterThan L v' v)
        \<and> computeUpdate L ip ask c src rels e = (Some (new_update (ct_imageTag c) (cl_tag r) (length cands)), e))"
proof -
  let ?cands = "candidates L (ct_imageTag c) cur (withoutPrereleases ip rels)"
  from versionUpdate_cases [OF assms(2,1), of c cur "withoutPrereleases ip rels"] show ?thesis
  proof (elim disjE)
    assume "?cands = [] \<and> versionUpdate L c cur (withoutPrereleases ip rels) = None"
    then show ?thesis using computeUpdate_pinned [OF assms(3,4)] by (simp add: Let_def)
  next
    assume "\<exists>r v. (r, v) \<in> set ?cands \<and> (\<forall>(r', v')\<in>set ?cands. \<not> GreaterThan L v' v)
      \<and> versionUpdate L c cur (withoutPrereleases ip rels)
          = Some (new_update (ct_imageTag c) (cl_tag r) (length ?cands))"
    then obtain r v where rv: "(r, v) \<in> set ?cands" "\<forall>(r', v')\<in>set ?cands. \<not> GreaterThan L v' v"
      and u: "versionUpdate L c cur (withoutPrereleases ip rels)
          = Some (new_update (ct_imageTag c) (cl_tag r) (length ?cands))" by blast
    from u have "computeUpdate L ip ask c src rels e = (Some (new_update (ct_imageTag c) (cl_tag r) (length ?cands)), e)"
      using computeUpdate_pinned [OF assms(3,4)] by simp
    moreover from rv(1) have "?cands \<noteq> []" by auto
    ultimately show ?thesis using rv unfolding Let_def by (auto intro!: bexI [of _ "(r, v)"])
  qed
qed

lemma registryFallback_tag:
  "registryFallback ask c e = (Some u, e') \<Longrightarrow> up_latestTag u = ct_imageTag c \<and> up_versionsBehind u = 1"
  by (auto simp: registryFallback_def new_update_def split: if_splits sum.splits prod.splits bool.splits)

text \<open>What the code relies on when it compares components itself: the library orders by them first.\<close>

definition component_order :: "'v semver \<Rightarrow> bool" where
  "component_order L \<longleftrightarrow> (\<forall>a b. Major L b < Major L a \<or> Major L a = Major L b \<and> Minor L b < Minor L a \<longrightarrow> GreaterThan L a b)"

lemma isUpdateTarget_greater: "component_order L \<Longrightarrow> isUpdateTarget L cur n v \<Longrightarrow> GreaterThan L v cur"
  by (auto simp: component_order_def isUpdateTarget_def split: if_splits)

text \<open>C8: a version pin is never offered a downgrade, another variant or an unwanted prerelease: what is
  offered is either its own tag (rebuilt under it) or a release that is newer than the running
  version, has the same suffix, and is no prerelease unless prereleases are wanted; and a pin on a major version
  is offered nothing but a higher major.\<close>

theorem no_downgrade:
  assumes "semver_laws L" and "sort_contract L" and "component_order L" and "parseVer L (ct_imageTag c) = Some cur"
    and "computeUpdate L ip ask c src rels e = (Some u, e')"
  shows "up_latestTag u = ct_imageTag c
    \<or> (\<exists>r\<in>set rels. up_latestTag u = cl_tag r \<and> (cl_prerelease r \<longrightarrow> ip)
         \<and> (\<exists>v. parseVer L (cl_tag r) = Some v \<and> Prerelease L v = Prerelease L cur \<and> GreaterThan L v cur
              \<and> (versionPrecision (ct_imageTag c) = 1 \<longrightarrow> Major L cur < Major L v)))"
proof (cases "withoutPrereleases ip rels = []")
  case True
  then have "registryFallback ask c e = (Some u, e')" using assms(5) by (simp add: computeUpdate_def)
  then show ?thesis by (blast dest: registryFallback_tag)
next
  case False
  let ?cands = "candidates L (ct_imageTag c) cur (withoutPrereleases ip rels)"
  show ?thesis
  proof (cases "?cands = []")
    case True
    then have "registryFallback ask c e = (Some u, e')"
      using versionUpdate_cases [OF assms(2,1), of c cur "withoutPrereleases ip rels"]
        computeUpdate_pinned [OF assms(4) False, of ask src e] assms(5) by auto
    then show ?thesis by (blast dest: registryFallback_tag)
  next
    case ne: False
    from versionUpdate_cases [OF assms(2,1), of c cur "withoutPrereleases ip rels"] ne obtain r v where
      rv: "(r, v) \<in> set ?cands"
      and u: "versionUpdate L c cur (withoutPrereleases ip rels) = Some (new_update (ct_imageTag c) (cl_tag r) (length ?cands))"
      by blast
    then have "up_latestTag u = cl_tag r"
      using computeUpdate_pinned [OF assms(4) False, of ask src e] assms(5) by (auto simp: new_update_def)
    moreover from rv have "r \<in> set rels" "cl_prerelease r \<longrightarrow> ip" "parseVer L (cl_tag r) = Some v"
      "Prerelease L v = Prerelease L cur" "isUpdateTarget L cur (versionPrecision (ct_imageTag c)) v"
      by (auto simp: candidates_def candidate_def set_versioned_pairs withoutPrereleases_def)
    moreover note isUpdateTarget_greater [OF assms(3) this(5)]
    ultimately show ?thesis by (auto simp: isUpdateTarget_def)
  qed
qed


section \<open>An instance of the library operations\<close>

text \<open>Versions \<open>a.b.c\<close> and \<open>a.b.c-suffix\<close>, ordered by their numbers, sorted by insertion: a
  concrete library for the examples below.\<close>

definition demo_new :: "string \<Rightarrow> ((nat \<times> nat \<times> nat) \<times> string) option" where
  "demo_new s =
     (let j = indexByte s CHR ''-'';
          core = (if j \<ge> 0 then upto s j else s);
          suffix = (if j \<ge> 0 then fromIdx s (j + 1) else [])
      in case map (map_option nat \<circ> atoi) (splitOn CHR ''.'' core) of
           [Some a, Some b, Some c] \<Rightarrow> Some ((a, b, c), suffix)
         | _ \<Rightarrow> None)"

definition demo_semver :: "((nat \<times> nat \<times> nat) \<times> string) semver" where
  "demo_semver = \<lparr>NewVersion = demo_new, GreaterThan = (\<lambda>v w. fst v > fst w),
     Major = (\<lambda>v. fst (fst v)), Minor = (\<lambda>v. fst (snd (fst v))), Prerelease = snd,
     sortNewest = (\<lambda>xs. rev (sort_key (\<lambda>x. fst (snd x)) xs))\<rparr>"

lemma demo_semver_laws: "semver_laws demo_semver"
proof -
  have "demo_new [] = None" by code_simp
  then show ?thesis by (auto simp: semver_laws_def demo_semver_def)
qed

lemma demo_component_order: "component_order demo_semver"
  by (auto simp: component_order_def demo_semver_def less_prod_def)

lemma demo_sort_contract: "sort_contract demo_semver"
proof -
  have "sorted_wrt (\<lambda>x y. \<not> fst (snd y) > fst (snd x)) (rev (sort_key (\<lambda>x. fst (snd x)) xs))"
    for xs :: "(crelease \<times> (nat \<times> nat \<times> nat) \<times> string) list"
  proof -
    have "sorted_wrt (\<lambda>x y. fst (snd x) \<le> fst (snd y)) (sort_key (\<lambda>x. fst (snd x)) xs)"
      using sorted_sort_key [of "\<lambda>x. fst (snd x)" xs] by (simp only: sorted_map)
    then show ?thesis by (simp only: sorted_wrt_rev not_less)
  qed
  then show ?thesis by (simp add: sort_contract_def demo_semver_def)
qed

definition demo_rel :: "string \<Rightarrow> bool \<Rightarrow> crelease" where
  "demo_rel t p = \<lparr>cl_tag = t, cl_title = [], cl_body = [], cl_url = [], cl_published = 0, cl_prerelease = p\<rparr>"

definition demo_rels :: "crelease list" where
  "demo_rels = [demo_rel ''1.25.0-alpine'' False, demo_rel ''1.26.1'' False, demo_rel ''1.31.0-alpine'' False,
     demo_rel ''2.0.0-alpine'' True, demo_rel ''1.27.0-alpine'' False, demo_rel ''mainline'' False]"

definition demo_web :: container where
  "demo_web = empty_container\<lparr>ct_imageTag := ''1.25-alpine'', ct_registry := ''docker.io'',
     ct_repository := ''library/nginx'', ct_imageDigest := ''sha256:d''\<rparr>"

lemma demo_cur: "parseVer demo_semver (ct_imageTag demo_web) = Some ((1, 25, 0), ''alpine'')"
  by code_simp

theorem version_pin_newest_witness:
  "\<exists>u. computeUpdate demo_semver False (\<lambda>_ _ _ _ e. (Inr True, e)) demo_web no_source demo_rels () = (Some u, ())
     \<and> up_latestTag u = ''1.31.0-alpine'' \<and> up_versionsBehind u = 2"
proof -
  let ?rels = "withoutPrereleases False demo_rels"
  have ne: "?rels \<noteq> []" by code_simp
  have c: "map (\<lambda>(r, v). (cl_tag r, fst v)) (candidates demo_semver (ct_imageTag demo_web) ((1, 25, 0), ''alpine'') ?rels)
      = [(''1.31.0-alpine'', (1, 31, 0)), (''1.27.0-alpine'', (1, 27, 0))]"
    by code_simp
  let ?cands = "candidates demo_semver (ct_imageTag demo_web) ((1, 25, 0), ''alpine'') ?rels"
  have len: "length ?cands = 2" using arg_cong [OF c, of length] by simp
  have mem: "(\<lambda>(r, v). (cl_tag r, fst v)) ` set ?cands = {(''1.31.0-alpine'', (1, 31, 0)), (''1.27.0-alpine'', (1, 27, 0))}"
    using arg_cong [OF c, of set] by simp
  note newest = version_pin_newest [OF demo_semver_laws demo_sort_contract demo_cur ne,
      of "\<lambda>_ _ _ _ e. (Inr True, e)" no_source "()"]
  from len have "?cands \<noteq> []" by auto
  with newest obtain r v where rv: "(r, v) \<in> set ?cands" "\<forall>(r', v')\<in>set ?cands. \<not> GreaterThan demo_semver v' v"
    and u: "computeUpdate demo_semver False (\<lambda>_ _ _ _ e. (Inr True, e)) demo_web no_source demo_rels ()
        = (Some (new_update (ct_imageTag demo_web) (cl_tag r) (length ?cands)), ())"
    unfolding Let_def by auto
  from mem have "(''1.31.0-alpine'', (1, 31, 0)) \<in> (\<lambda>(r, v). (cl_tag r, fst v)) ` set ?cands" by simp
  then obtain r1 v1 where "(r1, v1) \<in> set ?cands" "fst v1 = (1, 31, 0)" by auto
  with rv(2) have "\<not> fst v < (1, 31, 0)" by (auto simp: demo_semver_def)
  moreover have "(cl_tag r, fst v) \<in> {(''1.31.0-alpine'', (1, 31, 0)), (''1.27.0-alpine'', (1, 27, 0))}"
    using rv(1) unfolding mem [symmetric] by force
  ultimately have "cl_tag r = ''1.31.0-alpine''" by auto
  with u len show ?thesis by (auto simp: new_update_def)
qed

theorem no_downgrade_witness:
  "\<exists>u. computeUpdate demo_semver False (\<lambda>_ _ _ _ e. (Inr True, e)) demo_web no_source demo_rels () = (Some u, ())
     \<and> (up_latestTag u = ''1.25-alpine'' \<or> (\<exists>r\<in>set demo_rels. up_latestTag u = cl_tag r \<and> \<not> cl_prerelease r))"
proof -
  have "case computeUpdate demo_semver False (\<lambda>_ _ _ _ e. (Inr True, e)) demo_web no_source demo_rels () of
      (None, _) \<Rightarrow> False | (Some _, _) \<Rightarrow> True" by code_simp
  then obtain u where u: "computeUpdate demo_semver False (\<lambda>_ _ _ _ e. (Inr True, e)) demo_web no_source demo_rels () = (Some u, ())"
    by (auto split: prod.splits option.splits)
  have "ct_imageTag demo_web = ''1.25-alpine''" by (simp add: demo_web_def)
  with no_downgrade [OF demo_semver_laws demo_sort_contract demo_component_order demo_cur u] u show ?thesis by auto
qed


section \<open>Tags without a version\<close>

lemma registryFallback_iff:
  "fst (registryFallback ask c e) \<noteq> None \<longleftrightarrow>
     ct_imageDigest c \<noteq> [] \<and> ct_registry c \<noteq> [] \<and> ct_repository c \<noteq> []
     \<and> fst (ask (ct_registry c) (ct_repository c) (ct_imageTag c) (ct_imageDigest c) e) = Inr False"
  by (cases "ask (ct_registry c) (ct_repository c) (ct_imageTag c) (ct_imageDigest c) e")
    (auto simp: registryFallback_def split: sum.splits bool.splits)

lemma digestUpdate_iff: "fst (digestUpdate L ask c rels e) = None \<longleftrightarrow> fst (registryFallback ask c e) = None"
  by (auto simp: digestUpdate_def split: prod.splits option.splits list.splits)

lemma indexOfTag_None: "indexOfTag t rs = None \<longleftrightarrow> t \<notin> cl_tag ` set rs"
  by (induction rs) auto

lemma set_orderBySemver: "sort_contract L \<Longrightarrow> set (orderBySemver L rels) = set rels"
  using set_versionedReleases [of L rels] by (force simp: orderBySemver_def image_iff)

text \<open>C9: for a tag that carries no version and names no known release, the registry digest is the only
  judge: an update is offered exactly when the container has a digest to compare and the registry
  answered that the tag has moved; an error of the registry never produces an update.\<close>

theorem floating_tag_digest_decides:
  assumes "sort_contract L" and "parseVer L (ct_imageTag c) = None"
    and "so_type src = SourceRegistry \<or> ct_imageTag c \<notin> cl_tag ` set rels"
  shows "fst (computeUpdate L ip ask c src rels e) \<noteq> None \<longleftrightarrow>
     ct_imageDigest c \<noteq> [] \<and> ct_registry c \<noteq> [] \<and> ct_repository c \<noteq> []
     \<and> fst (ask (ct_registry c) (ct_repository c) (ct_imageTag c) (ct_imageDigest c) e) = Inr False"
proof (cases "withoutPrereleases ip rels = []")
  case True
  then have "computeUpdate L ip ask c src rels e = registryFallback ask c e" by (simp add: computeUpdate_def)
  then show ?thesis by (simp only: registryFallback_iff)
next
  case False
  let ?f = "withoutPrereleases ip rels"
  have "(if so_type src \<noteq> SourceRegistry then indexOfTag (ct_imageTag c) (orderBySemver L ?f) else None) = None"
    using assms(3) by (auto simp: indexOfTag_None set_orderBySemver [OF assms(1)] withoutPrereleases_def)
  then have "computeUpdate L ip ask c src rels e = digestUpdate L ask c ?f e"
    using False assms(2) unfolding computeUpdate_def Let_def by simp
  then show ?thesis using registryFallback_iff digestUpdate_iff by metis
qed

theorem floating_tag_digest_decides_witness:
  "fst (computeUpdate demo_semver False (\<lambda>_ _ _ _ e. (Inr False, e)) (demo_web\<lparr>ct_imageTag := ''latest''\<rparr>)
      no_source demo_rels ()) \<noteq> None
   \<and> fst (computeUpdate demo_semver False (\<lambda>_ _ _ _ e. (Inl (errors_new ''down''), e))
      (demo_web\<lparr>ct_imageTag := ''latest''\<rparr>) no_source demo_rels ()) = None"
proof -
  let ?c = "demo_web\<lparr>ct_imageTag := ''latest''\<rparr>"
  have p: "parseVer demo_semver (ct_imageTag ?c) = None" by code_simp
  have n: "so_type no_source = SourceRegistry \<or> ct_imageTag ?c \<notin> cl_tag ` set demo_rels"
    by (simp add: demo_rels_def demo_rel_def)
  have f: "ct_imageDigest ?c \<noteq> []" "ct_registry ?c \<noteq> []" "ct_repository ?c \<noteq> []" by (simp_all add: demo_web_def)
  show ?thesis
    using floating_tag_digest_decides [OF demo_sort_contract p n, of False "\<lambda>_ _ _ _ e. (Inr False, e)" "()"]
      floating_tag_digest_decides [OF demo_sort_contract p n, of False "\<lambda>_ _ _ _ e. (Inl (errors_new ''down''), e)" "()"] f
    by simp
qed

section \<open>The cycle\<close>

text \<open>What a step of the cycle leaves alone: everything but the updates and the releases, and of the
  updates those of the containers outside \<open>S\<close>.\<close>

definition cycle_frame :: "string set \<Rightarrow> db \<Rightarrow> db \<Rightarrow> bool" where
  "cycle_frame S d d' \<longleftrightarrow>
     (\<exists>us rs. d' = d\<lparr>updates := us, releases := rs\<rparr>)
     \<and> (\<forall>i. i \<notin> S \<longrightarrow> i \<notin> up_container ` set (updates d) \<longrightarrow> i \<notin> up_container ` set (updates d'))"

lemma cycle_frameI:
  "d' = d\<lparr>updates := us, releases := rs\<rparr> \<Longrightarrow>
   (\<And>i. i \<notin> S \<Longrightarrow> i \<notin> up_container ` set (updates d) \<Longrightarrow> i \<notin> up_container ` set us) \<Longrightarrow> cycle_frame S d d'"
  unfolding cycle_frame_def by auto

lemma cycle_frame_refl [simp]: "cycle_frame S d d"
  by (rule cycle_frameI [where us = "updates d" and rs = "releases d"]) auto

lemma cycle_frame_trans:
  assumes "cycle_frame S d d'" and "cycle_frame S d' d''"
  shows "cycle_frame S d d''"
proof -
  from assms(1) obtain us rs where 1: "d' = d\<lparr>updates := us, releases := rs\<rparr>" by (auto simp: cycle_frame_def)
  from assms(2) obtain us' rs' where 2: "d'' = d'\<lparr>updates := us', releases := rs'\<rparr>" by (auto simp: cycle_frame_def)
  show ?thesis
  proof (rule cycle_frameI)
    show "d'' = d\<lparr>updates := us', releases := rs'\<rparr>" by (simp add: 1 2)
  next
    fix i assume "i \<notin> S" "i \<notin> up_container ` set (updates d)"
    then have "i \<notin> up_container ` set (updates d'')" using assms unfolding cycle_frame_def by blast
    then show "i \<notin> up_container ` set us'" by (simp add: 2)
  qed
qed

lemma cycle_frame_mono: "cycle_frame S d d' \<Longrightarrow> S \<subseteq> T \<Longrightarrow> cycle_frame T d d'"
  unfolding cycle_frame_def by blast

lemma DeleteUpdate_frame: "DeleteUpdate i d = Inr d' \<Longrightarrow> cycle_frame S d d'"
  by (rule cycle_frameI [where us = "updates d'" and rs = "releases d"]) (auto simp: DeleteUpdate_def)

lemma insert_release_frame: "insert_release k r d = Inr d' \<Longrightarrow> \<exists>rs. d' = d\<lparr>releases := rs\<rparr>"
  by (auto simp: insert_release_def and_then_eq_Inr)

lemma UpsertReleases_frame:
  assumes "UpsertReleases ids k rels d = Inr d'"
  shows "cycle_frame S d d'"
proof -
  have "\<exists>rs. d' = d\<lparr>releases := rs\<rparr>"
  proof (rule fold_res_inv [OF assms [unfolded UpsertReleases_def]])
    fix x s s' assume "\<exists>rs. s = d\<lparr>releases := rs\<rparr>"
      and "(case x of (j, r) \<Rightarrow> insert_release k (if rl_id r = [] then r\<lparr>rl_id := ids j\<rparr> else r)) s = Inr s'"
    then obtain rs rs' where "s = d\<lparr>releases := rs\<rparr>" "s' = s\<lparr>releases := rs'\<rparr>"
      by (cases x) (auto dest: insert_release_frame)
    then show "\<exists>rs. s' = d\<lparr>releases := rs\<rparr>" by auto
  qed auto
  then obtain rs where "d' = d\<lparr>releases := rs\<rparr>" by blast
  then show ?thesis by (intro cycle_frameI [where us = "updates d" and rs = rs]) auto
qed

lemma UpsertUpdate_frame:
  assumes "UpsertUpdate i u d = Inr d'" and "up_container u = j"
  shows "cycle_frame {j} d d'"
proof -
  define w where "w = (if up_id u = [] then u\<lparr>up_id := i\<rparr> else u)"
  have w: "up_container w = j" using assms(2) by (simp add: w_def)
  from assms(1) have "d' = d\<lparr>updates := updates d'\<rparr>
      \<and> up_container ` set (updates d') \<subseteq> insert j (up_container ` set (updates d))"
    unfolding UpsertUpdate_def w_def [symmetric] Let_def
    by (auto simp: and_then_eq_Inr unique_on_Inr w elim!: mem_upd_rowsE split: if_splits)
  then obtain us where "d' = d\<lparr>updates := us\<rparr>" "up_container ` set us \<subseteq> insert j (up_container ` set (updates d))"
    by blast
  then show ?thesis by (intro cycle_frameI [where us = us and rs = "releases d"]) auto
qed

lemma applyContainer_cases:
  assumes "applyContainer u c src key rels d e = (r, d', e')"
  obtains (del) "DeleteUpdate (ct_id c) d = Inr d'"
  | (put) i w where "UpsertUpdate i w d = Inr d'" "up_container w = ct_id c"
  | (fail) "d' = d" "r \<noteq> None"
proof -
  let ?comp = "computeUpdate (u_semver u) (uc_includePre (u_cfg u)) (manifestUpToDate (u_world u)) c src rels e"
  obtain res e1 where res: "?comp = (res, e1)" by fastforce
  show ?thesis
  proof (cases res)
    case None
    then show ?thesis
      using assms del fail unfolding applyContainer_def res by (auto split: sum.splits)
  next
    case (Some upd)
    obtain now e2 where "clock (u_world u) e1 = (now, e2)" by fastforce
    moreover obtain ids e3 where "freshIDs (u_world u) e2 = (ids, e3)" by fastforce
    ultimately show ?thesis
      using assms put fail Some unfolding applyContainer_def res by (auto simp: Let_def split: sum.splits)
  qed
qed

lemma applyContainer_frame:
  assumes "applyContainer u c src key rels d e = (r, d', e')"
  shows "cycle_frame {ct_id c} d d' \<and> (db_wf d \<longrightarrow> db_wf d')"
  using assms
proof (cases rule: applyContainer_cases)
  case del
  then show ?thesis using DeleteUpdate_frame DeleteUpdate_wf by blast
next
  case put
  then show ?thesis using UpsertUpdate_frame UpsertUpdate_wf by blast
qed simp

lemma firstPass_frame:
  assumes "firstPass u cws (items, seen, d) = (items', seen', d')"
  shows "cycle_frame {} d d' \<and> (db_wf d \<longrightarrow> db_wf d')"
  using assms
proof (induction cws arbitrary: items seen d)
  case Nil
  then show ?case by simp
next
  case (Cons cw cws)
  obtain d1 where d1: "DeleteUpdate (ct_id (cu_container cw)) d = Inr d1" by (simp add: DeleteUpdate_def)
  have "\<exists>items1 seen1 d2. firstPass u cws (items1, seen1, d2) = (items', seen', d') \<and> (d2 = d \<or> d2 = d1)"
    using Cons.prems d1
    by (simp add: Let_def split: if_splits option.splits) blast+
  then obtain items1 seen1 d2 where "firstPass u cws (items1, seen1, d2) = (items', seen', d')" "d2 = d \<or> d2 = d1"
    by blast
  moreover have "cycle_frame {} d d1 \<and> (db_wf d \<longrightarrow> db_wf d1)"
    using d1 DeleteUpdate_frame DeleteUpdate_wf by blast
  ultimately show ?case using Cons.IH cycle_frame_trans by blast
qed

lemma fetchAll_frame:
  assumes "fetchAll u srcs (cache, d, e) = (r, cache', d', e')"
  shows "cycle_frame {} d d' \<and> (db_wf d \<longrightarrow> db_wf d')"
  using assms
proof (induction srcs arbitrary: cache d e)
  case Nil
  then show ?case by simp
next
  case (Cons ks srcs)
  obtain key src where ks: "ks = (key, src)" by fastforce
  obtain a e1 where a: "fetchReleases (u_world u) src e = (a, e1)" by fastforce
  show ?case
  proof (cases a)
    case (Inl x)
    then show ?thesis
      using Cons.prems a ks Cons.IH by (auto split: option.splits)
  next
    case (Inr rs)
    show ?thesis
    proof (cases rs)
      case None
      then show ?thesis using Cons.prems a ks Inr Cons.IH by auto
    next
      case (Some rels)
      obtain ids e2 where ids: "freshIDs (u_world u) e1 = (ids, e2)" by fastforce
      let ?d1 = "case UpsertReleases ids key (toStoreReleases key rels) d of Inl _ \<Rightarrow> d | Inr d1 \<Rightarrow> d1"
      have "fetchAll u srcs ((key, Some rels) # cache, ?d1, e2) = (r, cache', d', e')"
        using Cons.prems a ks Inr Some ids by simp
      then have "cycle_frame {} ?d1 d' \<and> (db_wf ?d1 \<longrightarrow> db_wf d')" by (rule Cons.IH)
      moreover have "cycle_frame {} d ?d1 \<and> (db_wf d \<longrightarrow> db_wf ?d1)"
        by (cases "UpsertReleases ids key (toStoreReleases key rels) d")
          (auto intro: UpsertReleases_frame UpsertReleases_wf)
      ultimately show ?thesis using cycle_frame_trans by blast
    qed
  qed
qed

lemma secondPass_frame:
  assumes "secondPass u cache items d e = (r, d', e')"
  shows "cycle_frame ((\<lambda>it. ct_id (pd_c it)) ` set items) d d' \<and> (db_wf d \<longrightarrow> db_wf d')"
  using assms
proof (induction items arbitrary: d e)
  case Nil
  then show ?case by simp
next
  case (Cons it items)
  let ?S = "(\<lambda>it. ct_id (pd_c it)) ` set (it # items)"
  show ?case
  proof (cases "ctxErr (u_world u) e")
    case None
    obtain r1 d1 e1 where ap: "applyContainer u (pd_c it) (pd_src it) (pd_key it) (cached cache (pd_key it)) d e = (r1, d1, e1)"
      by (metis prod_cases3)
    from applyContainer_frame [OF this] have 1: "cycle_frame ?S d d1" "db_wf d \<longrightarrow> db_wf d1"
      using cycle_frame_mono [of "{ct_id (pd_c it)}" d d1 ?S] by auto
    show ?thesis
    proof (cases r1)
      case None
      then have "secondPass u cache items d1 e1 = (r, d', e')"
        using Cons.prems \<open>ctxErr (u_world u) e = None\<close> ap by simp
      from Cons.IH [OF this] have "cycle_frame ?S d1 d'" "db_wf d1 \<longrightarrow> db_wf d'"
        using cycle_frame_mono [of "(\<lambda>it. ct_id (pd_c it)) ` set items" d1 d' ?S] by auto
      with 1 show ?thesis using cycle_frame_trans by blast
    next
      case (Some x)
      then show ?thesis using Cons.prems \<open>ctxErr (u_world u) e = None\<close> ap 1 by simp
    qed
  next
    case (Some x)
    then show ?thesis using Cons.prems by simp
  qed
qed


lemma firstPass_items:
  "firstPass u cws (items, seen, d) = (items', seen', d') \<Longrightarrow> it \<in> set items' \<Longrightarrow>
   it \<in> set items \<or> (\<exists>cw\<in>set cws. pd_c it = cu_container cw \<and> \<not> skipped u (cu_container cw))"
proof (induction cws arbitrary: items seen d)
  case Nil
  then show ?case by simp
next
  case (Cons cw cws)
  show ?case
  proof (cases "skipped u (cu_container cw)")
    case True
    then show ?thesis using Cons.prems Cons.IH by (auto simp: Let_def)
  next
    case no: False
    show ?thesis
    proof (cases "containerSource u (cu_container cw)")
      case None
      then show ?thesis using no Cons.prems Cons.IH by (auto simp: Let_def)
    next
      case (Some src)
      define seen1 where "seen1 = (if repoKey src \<in> fst ` set seen then seen else seen @ [(repoKey src, src)])"
      define it1 where "it1 = \<lparr>pd_c = cu_container cw, pd_src = src, pd_key = repoKey src\<rparr>"
      have "firstPass u cws (items @ [it1], seen1, d) = (items', seen', d')"
        using Cons.prems(1) no Some by (simp add: Let_def seen1_def it1_def)
      from Cons.IH [OF this Cons.prems(2)] show ?thesis using no by (auto simp: it1_def)
    qed
  qed
qed

lemma firstPass_deletes:
  "firstPass u cws (items, seen, d) = (items', seen', d') \<Longrightarrow> cw \<in> set cws \<Longrightarrow>
   skipped u (cu_container cw) \<Longrightarrow> cu_update cw \<noteq> None \<Longrightarrow>
   ct_id (cu_container cw) \<notin> up_container ` set (updates d')"
proof (induction cws arbitrary: items seen d)
  case Nil
  then show ?case by simp
next
  case (Cons x cws)
  obtain d1 where d1: "DeleteUpdate (ct_id (cu_container x)) d = Inr d1" by (simp add: DeleteUpdate_def)
  show ?case
  proof (cases "cw = x")
    case True
    then have "firstPass u cws (items, seen, d1) = (items', seen', d')"
      using Cons.prems d1 by (auto simp: Let_def)
    from firstPass_frame [OF this] have "cycle_frame {} d1 d'" by blast
    moreover have "ct_id (cu_container x) \<notin> up_container ` set (updates d1)"
      using d1 by (auto simp: DeleteUpdate_def)
    ultimately show ?thesis unfolding cycle_frame_def True by blast
  next
    case False
    then have mem: "cw \<in> set cws" using Cons.prems(2) by simp
    have "\<exists>items1 seen1 d2. firstPass u cws (items1, seen1, d2) = (items', seen', d')"
      using Cons.prems(1) d1 by (simp add: Let_def split: if_splits option.splits) blast+
    then show ?thesis using Cons.IH mem Cons.prems(3,4) by blast
  qed
qed

lemma set_ListContainers_all:
  "set (ListContainers all_containers d) = {cu. \<exists>c\<in>set (containers d). join_container d c = Some cu}"
  by (auto simp: ListContainers_def all_containers_def buildContainerWhere_def Let_def set_map_filter)

lemma join_container_skipped:
  "join_container d c = Some cu \<Longrightarrow> skipped u (cu_container cu) = skipped u c"
  by (auto simp: join_container_def skipped_def isIgnored_def split: option.splits)

lemma join_container_update:
  "join_container d c = Some cu \<Longrightarrow> cu_update cu = find (\<lambda>w. up_container w = ct_id c) (updates d)"
  by (auto simp: join_container_def split: option.splits)

text \<open>After a check cycle that got to run, however it ended, no pinned container and no container of
  an ignored image has an update record, and the cycle has touched nothing but the update records and
  the stored releases.\<close>

theorem CheckAll_respects_pins:
  assumes wf: "db_wf d" and alive: "ctxErr (u_world u) e = None" and run: "CheckAll u d e = (r, d', e')"
    and c: "c \<in> set (containers d)" "skipped u c" and listed: "ct_server c \<in> sv_id ` set (servers d)"
  shows "(\<forall>w\<in>set (updates d'). up_container w \<noteq> ct_id c)
    \<and> (\<exists>us rs. d' = d\<lparr>updates := us, releases := rs\<rparr>) \<and> db_wf d'"
proof -
  obtain items seen d1 where fp: "firstPass u (ListContainers all_containers d) ([], [], d) = (items, seen, d1)"
    by (metis prod_cases3)
  obtain r2 cache d2 e2 where fa: "fetchAll u (mapOrder (u_world u) seen) ([], d1, e) = (r2, cache, d2, e2)"
    by (metis prod_cases4)
  let ?S = "(\<lambda>it. ct_id (pd_c it)) ` set items"
  have f12: "cycle_frame {} d d2" "db_wf d2"
    using firstPass_frame [OF fp] fetchAll_frame [OF fa] cycle_frame_trans wf by blast+
  have f2: "cycle_frame ?S d2 d' \<and> db_wf d'"
  proof (cases r2)
    case None
    then have "secondPass u cache items d2 e2 = (r, d', e')"
      using run alive fp fa by (simp add: CheckAll_def)
    from secondPass_frame [OF this] f12(2) show ?thesis by simp
  next
    case (Some x)
    then have "d' = d2" using run alive fp fa by (simp add: CheckAll_def)
    then show ?thesis using f12(2) by simp
  qed
  have "find (\<lambda>x. sv_id x = ct_server c) (servers d) \<noteq> None"
    using listed by (auto simp: find_eq_None_iff)
  then obtain cu where cu: "join_container d c = Some cu" by (auto simp: join_container_def)
  have id: "ct_id (cu_container cu) = ct_id c" using join_container_id [OF cu] by simp
  have mem: "cu \<in> set (ListContainers all_containers d)" using c(1) cu by (auto simp: set_ListContainers_all)
  have "ct_id c \<notin> up_container ` set (updates d1)"
  proof (cases "cu_update cu")
    case None
    then have "ct_id c \<notin> up_container ` set (updates d)"
      by (auto simp: join_container_update [OF cu] find_eq_None_iff)
    then show ?thesis using firstPass_frame [OF fp] unfolding cycle_frame_def by blast
  next
    case (Some w)
    then show ?thesis
      using firstPass_deletes [OF fp mem] c(2) join_container_skipped [OF cu, of u] id by simp
  qed
  then have "ct_id c \<notin> up_container ` set (updates d2)"
    using fetchAll_frame [OF fa] unfolding cycle_frame_def by blast
  moreover have "ct_id c \<notin> ?S"
  proof
    assume "ct_id c \<in> ?S"
    then obtain it where it: "it \<in> set items" "ct_id (pd_c it) = ct_id c" by auto
    with firstPass_items [OF fp] obtain cw where cw: "cw \<in> set (ListContainers all_containers d)"
        "ct_id (cu_container cw) = ct_id c" "\<not> skipped u (cu_container cw)" by fastforce
    then obtain x where x: "x \<in> set (containers d)" "join_container d x = Some cw"
      by (auto simp: set_ListContainers_all)
    then have "x = c"
      using join_container_id [OF x(2)] cw(2) c(1) wf containers_ok_id [of "containers d" x c]
      by (simp add: db_wf_def)
    then show False using cw(3) c(2) join_container_skipped [OF x(2), of u] by simp
  qed
  ultimately have "ct_id c \<notin> up_container ` set (updates d')" using f2 unfolding cycle_frame_def by blast
  moreover have "\<exists>us rs. d' = d\<lparr>updates := us, releases := rs\<rparr>"
  proof -
    from f12(1) obtain us rs where "d2 = d\<lparr>updates := us, releases := rs\<rparr>" by (auto simp: cycle_frame_def)
    moreover from f2 obtain us' rs' where "d' = d2\<lparr>updates := us', releases := rs'\<rparr>" by (auto simp: cycle_frame_def)
    ultimately show ?thesis by (intro exI [of _ us'] exI [of _ rs']) simp
  qed
  moreover have "db_wf d'" using f2 by (rule conjunct2)
  ultimately show ?thesis by (metis image_eqI)
qed

definition demo_updater :: "((nat \<times> nat \<times> nat) \<times> string, nat) updater" where
  "demo_updater = \<lparr>u_semver = demo_semver,
     u_world = \<lparr>ctxErr = (\<lambda>_. None), fetchReleases = (\<lambda>_ e. (Inr (Some demo_rels), e)),
        manifestUpToDate = (\<lambda>_ _ _ _ e. (Inr False, e)), clock = (\<lambda>e. (5, e)),
        freshIDs = (\<lambda>e. (demo_ids, e)), mapOrder = (\<lambda>xs. xs)\<rparr>,
     u_cfg = \<lparr>uc_registries = [], uc_includePre = False, uc_ignoreImages = [''*''] \<rparr>,
     u_parseNamed = (\<lambda>_. Inl (errors_new ''x'')), u_parseURL = (\<lambda>_. Inl (errors_new ''x''))\<rparr>"

theorem CheckAll_respects_pins_witness:
  "''1'' \<notin> up_container ` set (updates (fst (snd (CheckAll demo_updater demo_db 0))))"
proof -
  let ?c = "empty_container\<lparr>ct_id := ''1'', ct_server := ''a'', ct_dockerID := ''web'', ct_pinned := True\<rparr>"
  obtain r d' e' where run: "CheckAll demo_updater demo_db 0 = (r, d', e')" by (metis prod_cases3)
  have "ctxErr (u_world demo_updater) 0 = None" "?c \<in> set (containers demo_db)" "skipped demo_updater ?c"
    "ct_server ?c \<in> sv_id ` set (servers demo_db)"
    by (simp_all add: demo_updater_def demo_db_def skipped_def)
  from CheckAll_respects_pins [OF demo_wf this(1) run this(2-4)] show ?thesis by (auto simp: run)
qed

end
