(* ===== verification/FetchProps.thy ===== *)
theory FetchProps
  imports Fetchers UpdaterProps
begin

text \<open>
  What the fetchers guarantee: which answers make an image count as up to date, what an unreadable
  manifest or a malformed challenge does to an update check, where tokens can be sent, and when the
  paging over Docker Hub ends.
\<close>

section \<open>A transport written out\<close>

text \<open>Every URL answers the same way whatever was asked before; bodies decode by simple markers.\<close>

definition plainResponse :: "int \<Rightarrow> string \<Rightarrow> string \<Rightarrow> string \<Rightarrow> response" where
  "plainResponse status body digest challenge =
     \<lparr>rp_status = status, rp_body = body, rp_bodyErr = None, rp_digest = digest, rp_challenge = challenge\<rparr>"

definition site :: "(string \<Rightarrow> headers \<Rightarrow> response) \<Rightarrow> unit net" where
  "site f = \<lparr>requestErr = (\<lambda>u. if containsStr u ''%zz'' then Some (errors_new ''invalid URL escape'') else None),
     httpDo = (\<lambda>u hs e. (Inr (f u hs), e)),
     decodeGitHub = (\<lambda>b. Inr []), decodeGitLab = (\<lambda>b. Inr []),
     decodeHub = (\<lambda>b. Inr \<lparr>hr_results = [\<lparr>ht_name = b, ht_lastUpdated = []\<rparr>], hr_next = []\<rparr>),
     decodeTags = (\<lambda>b. Inr (splitOn CHR '','' b)), decodeIndex = (\<lambda>b. Inr (splitOn CHR '','' b)),
     decodeToken = (\<lambda>b. Inr b), rfc3339 = (\<lambda>s. None)\<rparr>"

section \<open>Manifests\<close>

lemma registryTry_ok:
  assumes "registryTry N url acc auth e = (Inr (b, s, dg), e')"
  shows "\<exists>hs r. httpDo N url hs e = (Inr r, e') \<and> rp_status r = s \<and> rp_digest r = dg \<and> b = take eightMiB (rp_body r)"
  using assms unfolding registryTry_def
  by (auto simp: readLimited_def split: option.splits prod.splits sum.splits)

lemma registryAnswer_ok:
  "registryAnswer url (b, s, dg) = Inr (Some (b', dg')) \<Longrightarrow> s = 200 \<and> b' = b \<and> dg' = dg"
  by (auto simp: registryAnswer_def split: if_splits)

lemma registryGet_ok:
  assumes "registryGet N url acc e = (Returned (Inr (Some (b, dg))), e')"
  shows "\<exists>hs e0 r. httpDo N url hs e0 = (Inr r, e') \<and> rp_status r = 200 \<and> rp_digest r = dg
    \<and> b = take eightMiB (rp_body r)"
proof -
  obtain t e1 where t: "registryTry N url acc [] e = (t, e1)" by fastforce
  with assms obtain b0 s dg0 where t0: "t = Inr (b0, s, dg0)"
    by (cases t) (auto simp: registryGet_def)
  show ?thesis
  proof (cases "s = 401")
    case False
    with assms t t0 have "registryAnswer url (b0, s, dg0) = Inr (Some (b, dg))" "e1 = e'"
      by (auto simp: registryGet_def)
    with registryTry_ok [OF t [unfolded t0]] show ?thesis
      by (auto dest!: registryAnswer_ok)
  next
    case True
    obtain c e2 where c: "httpDo N url (if acc \<noteq> [] then [(''Accept'', acc)] else []) e1 = (c, e2)" by fastforce
    with assms t t0 True obtain r where r: "c = Inr r" by (cases c) (auto simp: registryGet_def)
    obtain k e3 where k: "fetchRegistryToken N (rp_challenge r) e2 = (k, e3)" by fastforce
    with assms t t0 True c r obtain tok where tok: "k = Returned (Inr tok)" "tok \<noteq> []"
      by (cases k) (auto simp: registryGet_def split: sum.splits if_splits)
    obtain u e4 where u: "registryTry N url acc tok e3 = (u, e4)" by fastforce
    with assms t t0 True c r k tok obtain b1 s1 dg1 where u1: "u = Inr (b1, s1, dg1)"
      by (cases u) (auto simp: registryGet_def)
    with assms t t0 True c r k tok u have "registryAnswer url (b1, s1, dg1) = Inr (Some (b, dg))" "e4 = e'"
      by (auto simp: registryGet_def)
    with registryTry_ok [OF u [unfolded u1]] show ?thesis
      by (auto dest!: registryAnswer_ok)
  qed
qed

text \<open>C27: an image counts as up to date only on the registry's word: the last answer to a request for
  exactly that tag's manifest was a 200 whose content digest is the running image's, or whose body lists
  it as one of the platform manifests.  No error, redirect to nothing or refused token can do it.\<close>

theorem ManifestUpToDate_sound:
  assumes "ManifestUpToDate N registry repo tag imageDigest e = (Returned (Inr True), e')"
  shows "\<exists>hs e0 r. httpDo N (manifestURL registry repo tag) hs e0 = (Inr r, e') \<and> rp_status r = 200
     \<and> rp_digest r \<noteq> [] \<and> manifestMatches N (take eightMiB (rp_body r)) (rp_digest r) imageDigest"
proof -
  obtain g e1 where g: "registryGet N (manifestURL registry repo tag) manifestAccept e = (g, e1)" by fastforce
  then obtain b dg where "g = Returned (Inr (Some (b, dg)))" "e1 = e'" "dg \<noteq> []" "manifestMatches N b dg imageDigest"
    using assms unfolding ManifestUpToDate_def fetchManifest_def
    by (cases g) (auto split: sum.splits option.splits if_splits)
  with registryGet_ok g show ?thesis by metis
qed

theorem ManifestUpToDate_sound_witness:
  "\<exists>r. fst (httpDo (site (\<lambda>u hs. plainResponse 200 ''sha256:amd,sha256:arm'' ''sha256:list'' []))
              ''https://registry-1.docker.io/v2/library/nginx/manifests/1.25'' [] ()) = Inr r
     \<and> rp_status r = 200 \<and> rp_digest r \<noteq> []"
proof -
  let ?N = "site (\<lambda>u hs. plainResponse 200 ''sha256:amd,sha256:arm'' ''sha256:list'' [])"
  have "ManifestUpToDate ?N ''docker.io'' ''library/nginx'' ''1.25'' ''sha256:arm'' () = (Returned (Inr True), ())"
    by (simp add: ManifestUpToDate_def fetchManifest_def registryGet_def registryTry_def readLimited_def
        registryAnswer_def manifestMatches_def manifestURL_def manifestAccept_def site_def plainResponse_def
        equalFold_def toLower_def toLowerChar_def)
  from ManifestUpToDate_sound [OF this] show ?thesis
    by (auto simp: manifestURL_def site_def)
qed

text \<open>An unreadable manifest is offered as an update: for a container without release data whose tag
  the registry does not know (any more) or will not show, the digest check has no error and no match, and
  the container is told to update to the tag it runs.\<close>

theorem missing_manifest_offers_update:
  assumes "ct_imageDigest c \<noteq> []" and "ct_registry c \<noteq> []" and "ct_repository c \<noteq> []"
    and "requestErr N (manifestURL (ct_registry c) (ct_repository c) (ct_imageTag c)) = None"
    and "httpDo N (manifestURL (ct_registry c) (ct_repository c) (ct_imageTag c)) [(''Accept'', manifestAccept)] e
           = (Inr r, e')"
    and "rp_status r = 404" and "rp_bodyErr r = None"
    and "\<And>registry repo tag dg x y. ManifestUpToDate N registry repo tag dg e = (Returned x, y) \<Longrightarrow>
           ask registry repo tag dg e = (x, y)"
    and "withoutPrereleases inc rels = []"
  shows "computeUpdate L inc ask c src rels e = (Some (new_update (ct_imageTag c) (ct_imageTag c) 1), e')"
proof -
  have "manifestAccept \<noteq> []" by (simp add: manifestAccept_def)
  then have "ManifestUpToDate N (ct_registry c) (ct_repository c) (ct_imageTag c) (ct_imageDigest c) e
      = (Returned (Inr False), e')"
    using assms(4-7)
    by (simp add: ManifestUpToDate_def fetchManifest_def registryGet_def registryTry_def readLimited_def
        registryAnswer_def)
  from assms(8) [OF this] show ?thesis
    using assms(1-3,9) by (simp add: computeUpdate_def registryFallback_def)
qed

text \<open>The digest query of the updater over a transport, where a crash of the fetcher has no answer.\<close>

definition askOf :: "'e net \<Rightarrow> 'e digest_query" where
  "askOf N registry repo tag dg e =
     (case ManifestUpToDate N registry repo tag dg e of
        (Returned x, e1) \<Rightarrow> (x, e1)
      | (NilDereference, e1) \<Rightarrow> (Inl (errors_new ''panic''), e1))"

theorem missing_manifest_offers_update_witness:
  "computeUpdate demo_semver False (askOf (site (\<lambda>u hs. plainResponse 404 [] [] []))) demo_web no_source [] ()
     = (Some (new_update ''1.25-alpine'' ''1.25-alpine'' 1), ())"
proof -
  let ?N = "site (\<lambda>u hs. plainResponse 404 [] [] [])"
  have tag: "ct_imageTag demo_web = ''1.25-alpine''" by (simp add: demo_web_def)
  have "computeUpdate demo_semver False (askOf ?N) demo_web no_source [] ()
      = (Some (new_update (ct_imageTag demo_web) (ct_imageTag demo_web) 1), ())"
    by (rule missing_manifest_offers_update [where N = ?N and r = "plainResponse 404 [] [] []"])
      (simp_all add: site_def plainResponse_def askOf_def demo_web_def manifestURL_def withoutPrereleases_def)
  then show ?thesis by (simp only: tag)
qed

text \<open>A registry can crash the check: a 401 whose challenge names a realm that is no URL makes the
  manifest request build a nil request and dereference it, whatever tag and digest were asked for.\<close>

theorem malformed_realm_panics:
  assumes "requestErr N (manifestURL registry repo tag) = None"
    and "\<And>e. httpDo N (manifestURL registry repo tag) [(''Accept'', manifestAccept)] e = (Inr r, e)"
    and "rp_status r = 401" and "rp_bodyErr r = None"
    and "map_of (challengeParams (rp_challenge r)) ''realm'' = Some realm" and "realm \<noteq> []"
    and "requestErr N (tokenURL (challengeParams (rp_challenge r)) realm) \<noteq> None"
  shows "fst (ManifestUpToDate N registry repo tag imageDigest e) = NilDereference"
proof -
  have "manifestAccept \<noteq> []" by (simp add: manifestAccept_def)
  then show ?thesis
    using assms
    by (simp add: ManifestUpToDate_def fetchManifest_def registryGet_def registryTry_def readLimited_def
        fetchRegistryToken_def Let_def)
qed

theorem malformed_realm_panics_witness:
  "fst (ManifestUpToDate (site (\<lambda>u hs. plainResponse 401 [] [] ''Bearer realm=\"http://auth/%zz\",service=\"r\"''))
     ''reg.example.org'' ''team/app'' ''latest'' ''sha256:d'' ()) = NilDereference"
proof (rule malformed_realm_panics [where realm = "''http://auth/%zz''"])
  let ?c = "''Bearer realm=\"http://auth/%zz\",service=\"r\"''"
  have ps: "challengeParams ?c = [(''service'', ''r''), (''realm'', ''http://auth/%zz'')]" by code_simp
  have bad: "containsStr (tokenURL [(''service'', ''r''), (''realm'', ''http://auth/%zz'')] ''http://auth/%zz'') ''%zz''"
    by code_simp
  let ?N = "site (\<lambda>u hs. plainResponse 401 [] [] ?c)"
  show "requestErr ?N (manifestURL ''reg.example.org'' ''team/app'' ''latest'') = None"
    by (simp add: site_def manifestURL_def)
  show "httpDo ?N (manifestURL ''reg.example.org'' ''team/app'' ''latest'') [(''Accept'', manifestAccept)] e
      = (Inr (plainResponse 401 [] [] ?c), e)" for e
    by (simp add: site_def)
  show "map_of (challengeParams (rp_challenge (plainResponse 401 [] [] ?c))) ''realm'' = Some ''http://auth/%zz''"
    by (simp add: plainResponse_def ps)
  show "requestErr ?N (tokenURL (challengeParams (rp_challenge (plainResponse 401 [] [] ?c))) ''http://auth/%zz'') \<noteq> None"
    using bad by (simp add: plainResponse_def ps site_def)
qed (simp_all add: plainResponse_def)

section \<open>Tokens\<close>

text \<open>A transport that does something else with a request that carries a token to an untrusted place.\<close>

definition carriesToken :: "headers \<Rightarrow> bool" where
  "carriesToken hs \<longleftrightarrow> (\<exists>(k, v)\<in>set hs. k = ''Authorization'' \<or> k = ''PRIVATE-TOKEN'')"

definition trustedHost :: "string \<Rightarrow> bool" where
  "trustedHost u \<longleftrightarrow> hasPrefix u ''https://api.github.com/'' \<or> hasPrefix u ''https://gitlab.com/''"

definition leaky :: "'e net \<Rightarrow> (string \<Rightarrow> headers \<Rightarrow> 'e \<Rightarrow> (err + response) \<times> 'e) \<Rightarrow> 'e net" where
  "leaky N X = N\<lparr>httpDo := \<lambda>u hs e. if carriesToken hs \<and> \<not> trustedHost u then X u hs e else httpDo N u hs e\<rparr>"

lemma fetchPage_cong:
  assumes "httpDo M u hs = httpDo N u hs" and "requestErr M = requestErr N"
  shows "fetchPage M decode u hs out e = fetchPage N decode u hs out e"
  unfolding fetchPage_def assms by (rule refl)

lemma shown_cong: "rfc3339 M = rfc3339 N \<Longrightarrow> shown M = shown N"
  by (intro ext) (simp add: shown_def of_forge_def parseTime_def)

lemma fetchPages_cong:
  assumes "\<And>page. httpDo M (url page) hs = httpDo N (url page) hs" and "requestErr M = requestErr N"
    and "rfc3339 M = rfc3339 N"
  shows "fetchPages M decode url hs perPage pages out e = fetchPages N decode url hs perPage pages out e"
proof (induction pages arbitrary: out e)
  case (Cons page pages)
  then show ?case
    by (simp only: fetchPages.simps fetchPage_cong [OF assms(1,2)] shown_cong [OF assms(3)] Let_def)
qed simp

lemma leaky_sel [simp]:
  "requestErr (leaky N X) = requestErr N" "rfc3339 (leaky N X) = rfc3339 N"
  "decodeGitHub (leaky N X) = decodeGitHub N" "decodeGitLab (leaky N X) = decodeGitLab N"
  by (simp_all add: leaky_def)

lemma leaky_trusted: "trustedHost u \<Longrightarrow> httpDo (leaky N X) u hs = httpDo N u hs"
  by (simp add: leaky_def fun_eq_iff)

lemma leaky_no_token: "\<not> carriesToken hs \<Longrightarrow> httpDo (leaky N X) u hs = httpDo N u hs"
  by (simp add: leaky_def fun_eq_iff)

lemma labelSource_shape:
  assumes "labelSource f lbls = Some src"
  shows "so_token src = [] \<and> (so_type src = SourceGitHub \<and> so_baseURL src = []
     \<or> so_type src = SourceGitLab \<and> so_baseURL src = ''https://gitlab.com'' \<or> so_type src = SourceGitea)"
  using assms
  by (auto simp: labelSource_def sourceFromURL_def Let_def no_source_def split: if_splits sum.splits prod.splits)

text \<open>C28: an image cannot steer the operator's tokens: fetching the releases of a source that comes from
  an image's own label gives the same result on a transport that does anything at all with requests
  carrying a token to any host other than GitHub's API and gitlab.com; no such request is made.\<close>

theorem label_source_tokens_confined:
  assumes "labelSource f lbls = Some src"
  shows "FetchReleases (leaky N X) tk fuel (Some src) e = FetchReleases N tk fuel (Some src) e"
proof -
  from labelSource_shape [OF assms]
  consider "so_type src = SourceGitHub" "so_baseURL src = []"
    | "so_type src = SourceGitLab" "so_baseURL src = ''https://gitlab.com''"
    | "so_type src = SourceGitea" "so_token src = []"
    by blast
  then show ?thesis
  proof cases
    case 1
    have "githubReleases (leaky N X) tk src e = githubReleases N tk src e"
      unfolding githubReleases_def Let_def leaky_sel
      by (rule fetchPages_cong) (simp_all add: 1 leaky_trusted trustedHost_def githubDefaultBase_def)
    with 1 show ?thesis by (simp add: FetchReleases_def)
  next
    case 2
    have "fetchPage (leaky N X) dec (''https://gitlab.com'' @ p) hs out e = fetchPage N dec (''https://gitlab.com'' @ p) hs out e"
      if "hasPrefix p ''/''" for dec p hs out
      using that by (intro fetchPage_cong leaky_trusted) (auto simp: trustedHost_def hasPrefix_iff)
    then have "gitlabReleases (leaky N X) tk src e = gitlabReleases N tk src e"
      unfolding gitlabReleases_def Let_def leaky_sel 2 shown_cong [OF leaky_sel(2)]
      by (simp only: list.distinct if_False hasPrefix.simps append_Cons)
    with 2 show ?thesis by (simp add: FetchReleases_def)
  next
    case 3
    have "giteaReleases (leaky N X) src e = giteaReleases N src e"
      unfolding giteaReleases_def leaky_sel
      by (subst fetchPages_cong [where M = "leaky N X" and N = N]) (simp_all add: 3 leaky_no_token carriesToken_def del: fetchPages.simps)
    with 3 show ?thesis by (simp add: FetchReleases_def)
  qed
qed

theorem label_source_tokens_confined_witness:
  "\<exists>src. labelSource (\<lambda>_. Inr (''github.com'', ''/o/app'')) [(''org.opencontainers.image.source'', ''https://github.com/o/app'')] = Some src
     \<and> FetchReleases (leaky (site (\<lambda>u hs. plainResponse 200 [] [] [])) (\<lambda>u hs e. (Inl (errors_new ''leaked''), e)))
          \<lparr>tk_github = ''secret'', tk_gitlab = []\<rparr> 0 (Some src) ()
        = FetchReleases (site (\<lambda>u hs. plainResponse 200 [] [] [])) \<lparr>tk_github = ''secret'', tk_gitlab = []\<rparr> 0 (Some src) ()"
proof -
  have src: "labelSource (\<lambda>_. Inr (''github.com'', ''/o/app'')) [(''org.opencontainers.image.source'', ''https://github.com/o/app'')]
      = Some (no_source\<lparr>so_type := SourceGitHub, so_repo := ''o/app'', so_webURL := ''https://github.com/o/app''\<rparr>)"
    by code_simp
  show ?thesis by (intro exI conjI, rule src, rule label_source_tokens_confined [OF src])
qed

section \<open>Docker Hub\<close>

lemma appendAll_length: "length (case appendAll out xs of None \<Rightarrow> [] | Some ys \<Rightarrow> ys)
    = length (case out of None \<Rightarrow> [] | Some ys \<Rightarrow> ys) + length xs"
  by (simp add: appendAll_def split: option.split)

lemma hubPages_step:
  assumes "hubPages N (Suc fuel) repo u out e = None"
  shows "\<exists>b hr e1. decodeHub N b = Inr hr \<and> hr_next hr \<noteq> []
    \<and> length (case out of None \<Rightarrow> [] | Some ys \<Rightarrow> ys) + length (hr_results hr) < 300
    \<and> hubPages N fuel repo (hr_next hr) (appendAll out (map (of_hub N repo) (hr_results hr))) e1 = None"
proof -
  from assms have "requestErr N u = None" by (cases "requestErr N u") auto
  moreover obtain a e1 where a: "httpDo N u [] e = (a, e1)" by fastforce
  moreover from calculation assms obtain r where "a = Inr r" by (cases a) auto
  moreover from calculation assms obtain b where "readLimited eightMiB r = Inr b"
    by (cases "readLimited eightMiB r") (auto split: if_splits)
  moreover from calculation assms obtain hr where "decodeHub N b = Inr hr"
    by (cases "decodeHub N b") (auto split: if_splits)
  ultimately have "hr_next hr \<noteq> []
    \<and> length (case appendAll out (map (of_hub N repo) (hr_results hr)) of None \<Rightarrow> [] | Some ys \<Rightarrow> ys) < 300
    \<and> hubPages N fuel repo (hr_next hr) (appendAll out (map (of_hub N repo) (hr_results hr))) e1 = None"
    using assms by (auto simp: Let_def not_le split: if_splits)
  with \<open>decodeHub N b = Inr hr\<close> show ?thesis unfolding appendAll_length length_map by blast
qed

lemma hubPages_ends:
  assumes page: "\<And>b hr. decodeHub N b = Inr hr \<Longrightarrow> hr_next hr \<noteq> [] \<Longrightarrow> hr_results hr \<noteq> []"
    and "length (case out of None \<Rightarrow> [] | Some ys \<Rightarrow> ys) + n \<ge> 299"
  shows "hubPages N (Suc n) repo u out e \<noteq> None"
  using assms(2)
proof (induction n arbitrary: u out e)
  case 0
  show ?case
  proof
    assume "hubPages N (Suc 0) repo u out e = None"
    from hubPages_step [OF this] obtain b hr where h: "decodeHub N b = Inr hr" "hr_next hr \<noteq> []"
        "length (case out of None \<Rightarrow> [] | Some ys \<Rightarrow> ys) + length (hr_results hr) < 300" by blast
    with page [OF h(1,2)] 0 show False by (cases "hr_results hr") auto
  qed
next
  case (Suc n)
  show ?case
  proof
    assume "hubPages N (Suc (Suc n)) repo u out e = None"
    from hubPages_step [OF this] obtain b hr e1 where h: "decodeHub N b = Inr hr" "hr_next hr \<noteq> []"
        "hubPages N (Suc n) repo (hr_next hr) (appendAll out (map (of_hub N repo) (hr_results hr))) e1 = None"
      by blast
    with page [OF h(1,2)] Suc.prems
    have "length (case appendAll out (map (of_hub N repo) (hr_results hr)) of None \<Rightarrow> [] | Some ys \<Rightarrow> ys) + n \<ge> 299"
      unfolding appendAll_length by (cases "hr_results hr") auto
    from Suc.IH [OF this] h(3) show False by blast
  qed
qed

text \<open>Listing the tags of a Docker Hub repository ends: when every page that links to another one has
  at least one tag, 300 pages are enough, because the listing stops at 300 tags.\<close>

theorem dockerHubTags_ends:
  assumes "\<And>b hr. decodeHub N b = Inr hr \<Longrightarrow> hr_next hr \<noteq> [] \<Longrightarrow> hr_results hr \<noteq> []"
  shows "dockerHubTags N 300 repo e \<noteq> None"
proof -
  have "hubPages N (Suc 299) repo u None e \<noteq> None" for u by (rule hubPages_ends [OF assms]) auto
  moreover have "Suc 299 = (300 :: nat)" by simp
  ultimately show ?thesis unfolding dockerHubTags_def by metis
qed

theorem dockerHubTags_ends_witness:
  "dockerHubTags (site (\<lambda>u hs. plainResponse 200 ''1.25'' [] [])) 300 ''library/nginx'' () \<noteq> None"
  by (rule dockerHubTags_ends) (simp add: site_def)

text \<open>Without that it need not: an empty page that links to itself is fetched forever.\<close>

lemma hub_empty_pages_never_end:
  assumes "\<And>u. requestErr N u = None" and "\<And>u e. httpDo N u [] e = (Inr r, e)" and "rp_status r = 200" "rp_bodyErr r = None"
    and "\<And>b. decodeHub N b = Inr \<lparr>hr_results = [], hr_next = next'\<rparr>" and "next' \<noteq> []"
  shows "dockerHubTags N fuel repo e = None"
proof -
  have "hubPages N fuel repo u None e = None" for u
    by (induction fuel arbitrary: u) (simp_all add: assms readLimited_def appendAll_def)
  then show ?thesis by (simp add: dockerHubTags_def)
qed

section \<open>The latest release\<close>

lemma pickLatest_find:
  "pickLatest N rels fb = (case find (\<lambda>r. \<not> fr_hidden r \<and> \<not> fr_prerelease r) rels of
      Some r \<Rightarrow> Some (of_forge N r)
    | None \<Rightarrow> (case fb of Some f \<Rightarrow> Some f
              | None \<Rightarrow> map_option (of_forge N) (find (\<lambda>r. \<not> fr_hidden r) rels)))"
  by (induction N rels fb rule: pickLatest.induct) (auto split: option.split)

end
