(* ===== verification/Swarm.thy ===== *)
theory Swarm
  imports Daemon Models
begin

text \<open>
  Swarm support, \<open>internal/dockerx/swarm.go\<close>: the identity of a task, the cached probe of the
  services API and the rolling update of a service.  The poll loop of the rollout takes fuel: \<open>None\<close>
  means it is still polling.  How much fuel is enough, and when none is, is proved below.
\<close>

section \<open>Identity and role\<close>

record swarmIdentity =
  si_serviceID :: string
  si_serviceName :: string
  si_taskID :: string
  si_nodeID :: string

definition swarmTask :: "labels \<Rightarrow> swarmIdentity" where
  "swarmTask ls = \<lparr>si_serviceID = label ls ''com.docker.swarm.service.id'',
     si_serviceName = label ls ''com.docker.swarm.service.name'',
     si_taskID = label ls ''com.docker.swarm.task.id'',
     si_nodeID = label ls ''com.docker.swarm.node.id''\<rparr>"

definition IsSwarmTask :: "labels \<Rightarrow> bool" where
  "IsSwarmTask ls \<longleftrightarrow> label ls ''com.docker.swarm.task.id'' \<noteq> []"

definition swarmRoleFrom :: "string \<Rightarrow> bool \<Rightarrow> swarmRole" where
  "swarmRoleFrom localNodeState controlAvailable =
     (if localNodeState = ''active'' then (if controlAvailable then SwarmManager else SwarmWorker)
      else if localNodeState = ''pending'' then SwarmWorker
      else SwarmNone)"

section \<open>The capability probe\<close>

definition swarmCapabilityTTL :: int where
  "swarmCapabilityTTL = 5 * minute"

record swarmCapability =
  cap_checked :: gotime
  cap_ok :: bool

definition probeServices ::
  "'d daemon \<Rightarrow> swarmRole \<Rightarrow> swarmCapability \<Rightarrow> 'd \<Rightarrow> bool \<times> swarmCapability \<times> 'd" where
  "probeServices D role cap d =
     (if role \<noteq> SwarmManager then (False, cap, d)
      else if cap_checked cap \<noteq> zero_time \<and> Now D d - cap_checked cap < swarmCapabilityTTL
      then (cap_ok cap, cap, d)
      else
        let (answer, d') = ServiceList D Caller [] d;
            ok = (case answer of Inl _ \<Rightarrow> False | Inr _ \<Rightarrow> True)
        in (ok, \<lparr>cap_checked = Now D d', cap_ok = ok\<rparr>, d'))"

definition invalidateSwarmCapability :: "swarmCapability \<Rightarrow> swarmCapability" where
  "invalidateSwarmCapability cap = cap\<lparr>cap_checked := zero_time\<rparr>"

definition isServiceAPIDenied :: "err \<Rightarrow> bool" where
  "isServiceAPIDenied e \<longleftrightarrow>
     (let m = toLower (msg e)
      in containsStr m ''403'' \<or> containsStr m ''forbidden'' \<or> containsStr m ''permission denied''
         \<or> containsStr m ''not authorized'' \<or> containsStr m ''disabled'')"

section \<open>Rollout convergence\<close>

record serviceState =
  ser_running :: nat
  ser_desired :: nat
  ser_update :: string

datatype convergenceState = ConvergePending | ConvergeDone | ConvergeFailed | ConvergeRolledBack

definition classifyServiceConvergence :: "serviceState \<Rightarrow> bool \<Rightarrow> convergenceState" where
  "classifyServiceConvergence s deadlineReached =
     (if ser_update s = ''completed''
      then (if ser_running s \<ge> ser_desired s then ConvergeDone else ConvergePending)
      else if ser_update s = ''rollback_completed'' \<or> ser_update s = ''rollback_paused''
      then ConvergeRolledBack
      else if deadlineReached then ConvergeFailed
      else ConvergePending)"

definition serviceStateFrom :: "service \<Rightarrow> serviceState" where
  "serviceStateFrom svc =
     \<lparr>ser_running = (case sw_tasks svc of None \<Rightarrow> 0 | Some (r, _) \<Rightarrow> r),
      ser_desired = (case sw_tasks svc of None \<Rightarrow> 0 | Some (_, w) \<Rightarrow> w),
      ser_update = (case sw_update svc of None \<Rightarrow> [] | Some u \<Rightarrow> u)\<rparr>"

definition serviceStatus :: "'d daemon \<Rightarrow> string \<Rightarrow> 'd \<Rightarrow> (err + serviceState \<times> string) \<times> 'd" where
  "serviceStatus D serviceID d =
     (case ServiceList D Caller serviceID d of
        (Inl e, d') \<Rightarrow> (Inl e, d')
      | (Inr svcs, d') \<Rightarrow>
          (case find (\<lambda>svc. sw_id svc = serviceID) svcs of
             Some svc \<Rightarrow>
               (Inr (serviceStateFrom svc,
                     case ss_container (sw_spec svc) of None \<Rightarrow> [] | Some cs \<Rightarrow> cs_image cs), d')
           | None \<Rightarrow>
               (Inl (errors_new (''service '' @ serviceID @ '' disappeared during the rollout'')), d')))"

section \<open>Service updates\<close>

definition serviceConvergeTimeout :: int where
  "serviceConvergeTimeout = 5 * minute"

definition serviceConvergePoll :: int where
  "serviceConvergePoll = 2 * second"

definition ErrSwarmDisabled :: err where
  "ErrSwarmDisabled = Err (Some SwarmDisabled)
     (''swarm service updates are opt-in: grant the services API to your socket proxy ''
      @ ''(set SERVICES=1 alongside POST=1) and restart it, then try again'')"

text \<open>The dash in the messages is a three-byte character.\<close>

definition emDash :: string where
  "emDash = [CHR 0xE2, CHR 0x80, CHR 0x94]"

definition serviceLabel :: "service \<Rightarrow> string" where
  "serviceLabel svc = (if ss_name (sw_spec svc) \<noteq> [] then ss_name (sw_spec svc) else sw_id svc)"

definition rolledBackByDaemon :: "service \<Rightarrow> string \<Rightarrow> err" where
  "rolledBackByDaemon svc targetImage =
     errors_new (''service '' @ serviceLabel svc @ '' did not stay running on '' @ targetImage
       @ '', so swarm rolled it back to the previous version '' @ emDash
       @ '' check `docker service ps '' @ serviceLabel svc @ ''`'')"

definition rollbackService :: "'d daemon \<Rightarrow> service \<Rightarrow> string \<Rightarrow> 'd \<Rightarrow> err \<times> 'd" where
  "rollbackService D svc targetImage d =
     (case ServiceUpdate D Caller (sw_id svc) (sw_version svc) (sw_spec svc)
             \<lparr>suo_queryRegistry = False, suo_registryAuthFrom = ''previous-spec'', suo_rollback = ''previous''\<rparr> d of
        (Some e, d') \<Rightarrow>
          (errors_new (''service '' @ serviceLabel svc @ '' did not converge on '' @ targetImage
             @ '', and the rollback also failed ('' @ msg e @ '') '' @ emDash
             @ '' check `docker service ps '' @ serviceLabel svc @ ''`''), d')
      | (None, d') \<Rightarrow>
          (errors_new (''service '' @ serviceLabel svc @ '' did not converge on '' @ targetImage
             @ '' within 5m0s; the previous version was restored '' @ emDash
             @ '' check `docker service ps '' @ serviceLabel svc
             @ ''` for why the new tasks did not stay running''), d'))"

text \<open>One look at the service: \<open>Some\<close> ends the loop with that error, or none.\<close>

definition convergeStep ::
  "'d daemon \<Rightarrow> service \<Rightarrow> string \<Rightarrow> gotime \<Rightarrow> 'd \<Rightarrow> err option option \<times> 'd" where
  "convergeStep D svc targetImage deadline d =
     (case serviceStatus D (sw_id svc) d of
        (Inl _, d1) \<Rightarrow> (None, d1)
      | (Inr (state, _), d1) \<Rightarrow>
          (case classifyServiceConvergence state (\<not> Now D d1 < deadline) of
             ConvergeDone \<Rightarrow> (Some None, d1)
           | ConvergeRolledBack \<Rightarrow> (Some (Some (rolledBackByDaemon svc targetImage)), d1)
           | ConvergeFailed \<Rightarrow>
               (case ServiceInspect D Caller (sw_id svc) d1 of
                  (Inl ierr, d2) \<Rightarrow>
                    (Some (Some (wrap_err (''service '' @ serviceLabel svc @ '' did not converge on '' @ targetImage
                        @ '' and could not be re-read to roll it back: '') ierr)), d2)
                | (Inr cur, d2) \<Rightarrow>
                    (let (e, d3) = rollbackService D cur targetImage d2 in (Some (Some e), d3)))
           | ConvergePending \<Rightarrow> (None, d1)))"

fun converge ::
  "'d daemon \<Rightarrow> nat \<Rightarrow> service \<Rightarrow> string \<Rightarrow> gotime \<Rightarrow> 'd \<Rightarrow> (err option \<times> 'd) option" where
  "converge D 0 svc targetImage deadline d = None"
| "converge D (Suc fuel) svc targetImage deadline d =
     (case convergeStep D svc targetImage deadline d of
        (Some r, d1) \<Rightarrow> Some (r, d1)
      | (None, d1) \<Rightarrow>
          (case SleepOrDone D serviceConvergePoll d1 of
             (Some e, d2) \<Rightarrow> Some (Some e, d2)
           | (None, d2) \<Rightarrow> converge D fuel svc targetImage deadline d2))"

text \<open>The new spec: the target image, and a bumped force counter (a \<open>uint64\<close>) when the reference is
  the one the service already has.\<close>

definition targetSpec :: "service \<Rightarrow> containerSpec \<Rightarrow> string \<Rightarrow> serviceSpec" where
  "targetSpec svc cs targetImage =
     (let spec = (sw_spec svc)\<lparr>ss_container := Some (cs\<lparr>cs_image := targetImage\<rparr>)\<rparr>
      in if cs_image cs = targetImage
         then spec\<lparr>ss_forceUpdate := (ss_forceUpdate spec + 1) mod 2 ^ 64\<rparr> else spec)"

definition denied_or :: "string \<Rightarrow> err \<Rightarrow> err" where
  "denied_or what e = (if isServiceAPIDenied e then ErrSwarmDisabled else wrap_err what e)"

definition updateService ::
  "'d daemon \<Rightarrow> nat \<Rightarrow> string \<Rightarrow> string \<Rightarrow> 'd progress \<Rightarrow> 'd \<Rightarrow> (err option \<times> 'd) option" where
  "updateService D fuel serviceID targetImage p d =
     (case ServiceInspect D Caller serviceID d of
        (Inl e, d1) \<Rightarrow> Some (Some (denied_or ''inspect service: '' e), d1)
      | (Inr svc, d1) \<Rightarrow>
          (case ss_container (sw_spec svc) of
             None \<Rightarrow> Some (Some (errors_new (''service '' @ serviceLabel svc @ '' has no container spec'')), d1)
           | Some cs \<Rightarrow>
               (case pullImage D targetImage p d1 of
                  (Some e, d2) \<Rightarrow> Some (Some e, d2)
                | (None, d2) \<Rightarrow>
                    (case ServiceUpdate D Caller (sw_id svc) (sw_version svc) (targetSpec svc cs targetImage)
                            \<lparr>suo_queryRegistry = True, suo_registryAuthFrom = ''spec'', suo_rollback = []\<rparr>
                            (report p ''updating'' (-1) d2) of
                       (Some e, d3) \<Rightarrow> Some (Some (denied_or ''update service: '' e), d3)
                     | (None, d3) \<Rightarrow>
                         converge D fuel svc targetImage (Now D d3 + serviceConvergeTimeout) d3))))"

section \<open>Properties\<close>

text \<open>The services API is asked only on a manager, and on a manager at most once in five minutes:
  while an answer is fresh it is returned without a call.\<close>

theorem probe_is_cached:
  assumes "probeServices D role cap d = (ok, cap', d')"
  shows "(ok \<longrightarrow> role = SwarmManager)
    \<and> (role \<noteq> SwarmManager \<longrightarrow> d' = d \<and> cap' = cap)
    \<and> (role = SwarmManager \<and> Now D d' \<noteq> zero_time \<and> Now D d'' - Now D d' < swarmCapabilityTTL
         \<and> cap_checked cap' = Now D d'
       \<longrightarrow> probeServices D role cap' d'' = (ok, cap', d''))"
proof -
  have "cap_ok cap' = ok" if "role = SwarmManager"
    using assms that by (auto simp: probeServices_def Let_def split: if_splits prod.splits)
  then show ?thesis
    using assms by (auto simp: probeServices_def Let_def split: if_splits prod.splits)
qed

lemma convergeStep_success:
  assumes "convergeStep D svc img deadline d = (Some None, d')"
  shows "\<exists>s i. serviceStatus D (sw_id svc) d = (Inr (s, i), d') \<and> ser_update s = ''completed''
     \<and> ser_running s \<ge> ser_desired s"
proof -
  obtain r d1 where st: "serviceStatus D (sw_id svc) d = (r, d1)" by fastforce
  show ?thesis
  proof (cases r)
    case (Inl e)
    then show ?thesis using assms st by (simp add: convergeStep_def)
  next
    case (Inr si)
    obtain s i where si: "si = (s, i)" by fastforce
    show ?thesis
    proof (cases "classifyServiceConvergence s (\<not> Now D d1 < deadline)")
      case ConvergeDone
      then have "d' = d1" using assms st Inr si by (simp add: convergeStep_def)
      moreover have "ser_update s = ''completed'' \<and> ser_running s \<ge> ser_desired s"
        using ConvergeDone by (auto simp: classifyServiceConvergence_def split: if_splits)
      ultimately show ?thesis using st Inr si by blast
    qed (use assms st Inr si in \<open>auto simp: convergeStep_def split: prod.splits sum.splits\<close>)
  qed
qed

lemma converge_success:
  "converge D fuel svc img deadline d = Some (None, d') \<Longrightarrow>
   \<exists>d1 s i. serviceStatus D (sw_id svc) d1 = (Inr (s, i), d') \<and> ser_update s = ''completed''
     \<and> ser_running s \<ge> ser_desired s"
proof (induction D fuel svc img deadline d rule: converge.induct)
  case (2 D fuel svc img deadline d)
  obtain r d1 where st: "convergeStep D svc img deadline d = (r, d1)" by fastforce
  show ?case
  proof (cases r)
    case None
    obtain w d2 where "SleepOrDone D serviceConvergePoll d1 = (w, d2)" by fastforce
    then show ?thesis using 2 st None by (cases w) auto
  next
    case (Some x)
    then show ?thesis using 2 st convergeStep_success by fastforce
  qed
qed simp

text \<open>C10: a service update is a success only on the daemon's word: when it returns without an error, the
  daemon accepted a specification with the target image for the service, at the version it was inspected at,
  and the last look at the service showed a rollout the daemon calls completed with at least as many tasks
  running as desired.  No deadline, task count or missing status can stand in for that.\<close>

theorem updateService_success:
  assumes "updateService D fuel serviceID targetImage p d = Some (None, d')"
  shows "\<exists>svc spec cs o1 d0 d1 d2 d3 s i. ServiceInspect D Caller serviceID d = (Inr svc, d0)
     \<and> ss_container spec = Some cs \<and> cs_image cs = targetImage
     \<and> ServiceUpdate D Caller (sw_id svc) (sw_version svc) spec o1 d1 = (None, d2)
     \<and> serviceStatus D (sw_id svc) d3 = (Inr (s, i), d')
     \<and> ser_update s = ''completed'' \<and> ser_running s \<ge> ser_desired s"
proof -
  obtain r d1 where ins: "ServiceInspect D Caller serviceID d = (r, d1)" by fastforce
  from assms ins obtain svc where svc: "r = Inr svc" by (cases r) (auto simp: updateService_def)
  from assms ins svc obtain cs where cs: "ss_container (sw_spec svc) = Some cs"
    by (cases "ss_container (sw_spec svc)") (auto simp: updateService_def)
  obtain w d2 where pull: "pullImage D targetImage p d1 = (w, d2)" by fastforce
  let ?spec = "targetSpec svc cs targetImage"
  let ?o = "\<lparr>suo_queryRegistry = True, suo_registryAuthFrom = ''spec'', suo_rollback = []\<rparr>"
  obtain v d3 where upd: "ServiceUpdate D Caller (sw_id svc) (sw_version svc) ?spec ?o (report p ''updating'' (-1) d2) = (v, d3)"
    by fastforce
  have ok: "v = None" "converge D fuel svc targetImage (Now D d3 + serviceConvergeTimeout) d3 = Some (None, d')"
    using assms ins svc cs pull upd by (cases w; cases v; auto simp: updateService_def)+
  have spec: "ss_container ?spec = Some (cs\<lparr>cs_image := targetImage\<rparr>)" by (simp add: targetSpec_def Let_def)
  from converge_success [OF ok(2)] obtain d4 s i where "serviceStatus D (sw_id svc) d4 = (Inr (s, i), d')"
    "ser_update s = ''completed''" "ser_running s \<ge> ser_desired s" by blast
  with ins [unfolded svc] spec upd [unfolded ok(1)] show ?thesis
    by (intro exI [of _ svc] exI [of _ ?spec] exI [of _ "cs\<lparr>cs_image := targetImage\<rparr>"] exI [of _ ?o]) (simp, blast)
qed

section \<open>When the poll loop ends\<close>

text \<open>A clock: sleeping takes at least the time asked for, and no call turns it back.\<close>

definition clock_runs :: "'d daemon \<Rightarrow> bool" where
  "clock_runs D \<longleftrightarrow> (\<forall>t d d'. SleepOrDone D t d = (None, d') \<longrightarrow> Now D d' \<ge> Now D d + t)
     \<and> (\<forall>c i d r d'. ServiceList D c i d = (r, d') \<longrightarrow> Now D d' \<ge> Now D d)
     \<and> (\<forall>c i d r d'. ContainerList D c i d = (r, d') \<longrightarrow> Now D d' \<ge> Now D d)"

text \<open>A state the loop never decides on, whatever the time: a rollout the daemon calls completed that is
  short of tasks.\<close>

definition completed_short :: "serviceState \<Rightarrow> bool" where
  "completed_short s \<longleftrightarrow> ser_update s = ''completed'' \<and> ser_running s < ser_desired s"

lemma classify_pending:
  "classifyServiceConvergence s True = ConvergePending \<longleftrightarrow> completed_short s"
  by (auto simp: classifyServiceConvergence_def completed_short_def)

lemma serviceStatus_clock:
  assumes "clock_runs D" and "serviceStatus D i d = (r, d')"
  shows "Now D d' \<ge> Now D d"
proof -
  obtain a d1 where a: "ServiceList D Caller i d = (a, d1)" by fastforce
  then have "d' = d1" using assms(2) by (auto simp: serviceStatus_def split: sum.splits option.splits)
  with a assms(1) show ?thesis unfolding clock_runs_def by metis
qed

text \<open>What the daemon promises about a service: from the update it has accepted on, as long as nobody removes
  the service, it is in the daemon's list, and a rollout that is called completed has all its tasks.
  \<open>ready\<close> is an invariant of the host, \<open>known i\<close> says that service \<open>i\<close> is there.\<close>

definition answers_for :: "'d daemon \<Rightarrow> ('d \<Rightarrow> bool) \<Rightarrow> (string \<Rightarrow> 'd \<Rightarrow> bool) \<Rightarrow> bool" where
  "answers_for D ready known \<longleftrightarrow> ops_keep D ready
   \<and> (\<forall>i v spec opts d d'. ready d \<longrightarrow> ServiceUpdate D Caller i v spec opts d = (None, d') \<longrightarrow> known i d')
   \<and> (\<forall>i d. ready d \<longrightarrow> known i d \<longrightarrow> (\<exists>svcs d'. ServiceList D Caller i d = (Inr svcs, d') \<and> i \<in> sw_id ` set svcs
        \<and> (\<forall>svc\<in>set svcs. sw_id svc = i \<longrightarrow> \<not> completed_short (serviceStateFrom svc)) \<and> known i d'))
   \<and> (\<forall>i t d d'. ready d \<longrightarrow> known i d \<longrightarrow> SleepOrDone D t d = (None, d') \<longrightarrow> known i d')"

lemma answers_forD:
  assumes "answers_for D ready known"
  shows "ops_keep D ready"
    "ready d \<Longrightarrow> ServiceUpdate D Caller i v spec opts d = (None, d') \<Longrightarrow> known i d'"
    "ready d \<Longrightarrow> known i d \<Longrightarrow> (\<exists>svcs d'. ServiceList D Caller i d = (Inr svcs, d') \<and> i \<in> sw_id ` set svcs
        \<and> (\<forall>svc\<in>set svcs. sw_id svc = i \<longrightarrow> \<not> completed_short (serviceStateFrom svc)) \<and> known i d')"
    "ready d \<Longrightarrow> known i d \<Longrightarrow> SleepOrDone D t d = (None, d') \<Longrightarrow> known i d'"
proof -
  note parts = assms [unfolded answers_for_def]
  show "ops_keep D ready" by (rule parts [THEN conjunct1])
  show "ready d \<Longrightarrow> ServiceUpdate D Caller i v spec opts d = (None, d') \<Longrightarrow> known i d'"
    by (rule parts [THEN conjunct2, THEN conjunct1, rule_format])
  show "ready d \<Longrightarrow> known i d \<Longrightarrow> (\<exists>svcs d'. ServiceList D Caller i d = (Inr svcs, d') \<and> i \<in> sw_id ` set svcs
        \<and> (\<forall>svc\<in>set svcs. sw_id svc = i \<longrightarrow> \<not> completed_short (serviceStateFrom svc)) \<and> known i d')"
    by (rule parts [THEN conjunct2, THEN conjunct2, THEN conjunct1, THEN spec, THEN spec, THEN mp, THEN mp])
  show "ready d \<Longrightarrow> known i d \<Longrightarrow> SleepOrDone D t d = (None, d') \<Longrightarrow> known i d'"
    by (rule parts [THEN conjunct2, THEN conjunct2, THEN conjunct2, rule_format])
qed

lemma answers_for_status:
  assumes "answers_for D ready known" and "ready d" and "known i d"
  shows "\<exists>s j d'. serviceStatus D i d = (Inr (s, j), d') \<and> \<not> completed_short s \<and> ready d' \<and> known i d'"
proof -
  from assms obtain svcs d' where l: "ServiceList D Caller i d = (Inr svcs, d')" "i \<in> sw_id ` set svcs" "known i d'"
    "\<And>svc. svc \<in> set svcs \<Longrightarrow> sw_id svc = i \<Longrightarrow> \<not> completed_short (serviceStateFrom svc)"
    using answers_forD(3) [OF assms] by blast
  from l(2) obtain svc where f: "find (\<lambda>svc. sw_id svc = i) svcs = Some svc"
    by (cases "find (\<lambda>svc. sw_id svc = i) svcs") (auto simp: find_None_iff)
  then have "svc \<in> set svcs" "sw_id svc = i" by (auto simp: find_Some_iff)
  with l(4) have "\<not> completed_short (serviceStateFrom svc)" by blast
  moreover have "ready d'" by (rule ops_keepD(10) [OF answers_forD(1) [OF assms(1)] assms(2) l(1)])
  ultimately show ?thesis using l f by (simp add: serviceStatus_def)
qed

lemma converge_ends:
  assumes clock: "clock_runs D" and answers: "answers_for D ready known"
    and "ready d" and "known (sw_id svc) d" and "deadline - Now D d \<le> int n * serviceConvergePoll"
  shows "converge D (Suc n) svc img deadline d \<noteq> None"
  using assms(3-)
proof (induction n arbitrary: d)
  case 0
  obtain s i d1 where st: "serviceStatus D (sw_id svc) d = (Inr (s, i), d1)" "\<not> completed_short s"
    using answers_for_status [OF answers 0(1,2)] by blast
  have late: "\<not> Now D d1 < deadline" using serviceStatus_clock [OF clock st(1)] 0 by simp
  with st(2) have "classifyServiceConvergence s (\<not> Now D d1 < deadline) \<noteq> ConvergePending"
    by (simp add: classify_pending)
  then have "fst (convergeStep D svc img deadline d) \<noteq> None"
    using st(1) by (cases "classifyServiceConvergence s (\<not> Now D d1 < deadline)")
      (auto simp: convergeStep_def Let_def split: sum.split prod.split)
  then obtain r d2 where "convergeStep D svc img deadline d = (Some r, d2)" by (metis option.exhaust prod.collapse)
  then show ?case by simp
next
  case (Suc n)
  obtain r d1 where r: "convergeStep D svc img deadline d = (r, d1)" by fastforce
  show ?case
  proof (cases r)
    case None
    obtain w d2 where w: "SleepOrDone D serviceConvergePoll d1 = (w, d2)" by fastforce
    show ?thesis
    proof (cases w)
      case nosleep: None
      obtain s i d' where st: "serviceStatus D (sw_id svc) d = (Inr (s, i), d')" "ready d'" "known (sw_id svc) d'"
        using answers_for_status [OF answers Suc.prems(1,2)] by blast
      then have d': "d' = d1" using r None
        by (cases "classifyServiceConvergence s (\<not> Now D d' < deadline)")
          (auto simp: convergeStep_def split: sum.splits prod.splits)
      with st serviceStatus_clock [OF clock] have "Now D d1 \<ge> Now D d" by blast
      moreover have "Now D d2 \<ge> Now D d1 + serviceConvergePoll"
        using clock w nosleep unfolding clock_runs_def by metis
      ultimately have "deadline - Now D d2 \<le> int n * serviceConvergePoll"
        using Suc.prems(3) by (simp add: algebra_simps)
      moreover have "ready d2" "known (sw_id svc) d2"
        using ops_keepD(13) [OF answers_forD(1) [OF answers]] answers_forD(4) [OF answers] st(2,3) w
        unfolding d' nosleep by metis+
      ultimately have "converge D (Suc n) svc img deadline d2 \<noteq> None" using Suc.IH by blast
      moreover have "converge D (Suc (Suc n)) svc img deadline d = converge D (Suc n) svc img deadline d2"
        by (subst converge.simps) (simp add: r None w nosleep del: converge.simps)
      ultimately show ?thesis by simp
    next
      case (Some e)
      have "converge D (Suc (Suc n)) svc img deadline d = Some (Some e, d2)"
        by (subst converge.simps) (simp add: r None w Some del: converge.simps)
      then show ?thesis by simp
    qed
  next
    case (Some x)
    have "converge D (Suc (Suc n)) svc img deadline d = Some (x, d1)"
      by (subst converge.simps) (simp add: r Some del: converge.simps)
    then show ?thesis by simp
  qed
qed

text \<open>A service update ends: when the clock runs and the daemon answers for the service it updates, 151 polls are
  enough for the five minutes of a rollout.\<close>

theorem updateService_ends:
  assumes "clock_runs D" and "answers_for D ready known" and "progress_keeps p ready" and "ready d" and "151 \<le> fuel"
  shows "updateService D fuel serviceID targetImage p d \<noteq> None"
proof -
  note keep = answers_forD(1) [OF assms(2)]
  obtain n where n: "fuel = Suc n" "150 \<le> n" using assms(5) by (cases fuel) auto
  obtain r d1 where ins: "ServiceInspect D Caller serviceID d = (r, d1)" by fastforce
  show ?thesis
  proof (cases "\<exists>svc cs. r = Inr svc \<and> ss_container (sw_spec svc) = Some cs")
    case False
    with ins show ?thesis by (auto simp: updateService_def split: sum.split option.split)
  next
    case True
    then obtain svc cs where svc: "r = Inr svc" "ss_container (sw_spec svc) = Some cs" by blast
    obtain w d2 where pull: "pullImage D targetImage p d1 = (w, d2)" by fastforce
    have "ready d1" using ops_keepD(11) [OF keep assms(4) ins] .
    then have "ready d2" using pullImage_keeps [OF keep assms(3) _ pull] by blast
    then have rd: "ready (report p ''updating'' (-1) d2)" by (rule report_keeps [OF assms(3)])
    obtain v d3 where upd: "ServiceUpdate D Caller (sw_id svc) (sw_version svc) (targetSpec svc cs targetImage)
        \<lparr>suo_queryRegistry = True, suo_registryAuthFrom = ''spec'', suo_rollback = []\<rparr> (report p ''updating'' (-1) d2) = (v, d3)"
      by fastforce
    have d3: "ready d3" using ops_keepD(12) [OF keep rd upd] .
    have "converge D fuel svc targetImage (Now D d3 + serviceConvergeTimeout) d3 \<noteq> None" if "v = None"
    proof -
      from answers_forD(2) [OF assms(2) rd upd [unfolded that]] have "known (sw_id svc) d3" .
      from converge_ends [OF assms(1,2) d3 this, where n = n] n show ?thesis
        by (simp add: serviceConvergeTimeout_def serviceConvergePoll_def del: converge.simps)
    qed
    then show ?thesis using ins svc pull upd
      by (cases w; cases v) (auto simp: updateService_def simp del: converge.simps)
  qed
qed

text \<open>C37: otherwise it need not end: while the daemon keeps reporting a completed rollout that is short of
  tasks, or cannot be asked, the loop polls on past every deadline.\<close>

theorem converge_never_ends:
  assumes stuck: "\<forall>d. (\<exists>s i d'. serviceStatus D (sw_id svc) d = (Inr (s, i), d') \<and> completed_short s)
      \<or> (\<exists>e d'. serviceStatus D (sw_id svc) d = (Inl e, d'))"
    and alive: "\<forall>t d. fst (SleepOrDone D t d) = None"
  shows "converge D fuel svc img deadline d = None"
proof (induction fuel arbitrary: d)
  case 0
  show ?case by simp
next
  case (Suc fuel)
  have "fst (convergeStep D svc img deadline d) = None"
    using stuck [rule_format, of d]
    by (auto simp: convergeStep_def completed_short_def classifyServiceConvergence_def)
  moreover obtain w d2 where "SleepOrDone D serviceConvergePoll (snd (convergeStep D svc img deadline d)) = (w, d2)"
    by fastforce
  moreover from this alive have "w = None" by (metis fst_conv)
  ultimately show ?case
    using Suc.IH by (cases "convergeStep D svc img deadline d") auto
qed

text \<open>A rollout that has not settled at the deadline is undone: the service is re-read and sent back
  to its previous version with one rollback, and the caller gets an error whether that worked or not.\<close>

theorem deadline_rolls_back:
  assumes "serviceStatus D (sw_id svc) d = (Inr (s, i), d1)" and "Now D d1 \<ge> deadline"
    and "ser_update s \<notin> {''completed'', ''rollback_completed'', ''rollback_paused''}"
    and "ServiceInspect D Caller (sw_id svc) d1 = (Inr cur, d2)"
  shows "\<exists>e. converge D (Suc fuel) svc img deadline d
    = Some (Some e, snd (ServiceUpdate D Caller (sw_id cur) (sw_version cur) (sw_spec cur)
        \<lparr>suo_queryRegistry = False, suo_registryAuthFrom = ''previous-spec'', suo_rollback = ''previous''\<rparr> d2))"
proof -
  have "classifyServiceConvergence s (\<not> Now D d1 < deadline) = ConvergeFailed"
    using assms(2,3) by (simp add: classifyServiceConvergence_def)
  then show ?thesis
    using assms(1,4)
    by (auto simp: convergeStep_def rollbackService_def Let_def split: prod.splits option.splits)
qed

end
