(* ===== verification/Recreate.thy ===== *)
theory Recreate
  imports Swarm
begin

text \<open>
  Recreating a container on a new image: \<open>internal/dockerx/respawn.go\<close>, \<open>recreate.go\<close> and the
  container helpers of \<open>dockerx.go\<close>.  \<open>recreateContainer\<close> pulls the image and then takes one of
  three ways: a systemd (Quadlet) container is stopped and waited for, a swarm task has its service
  updated, anything else is stopped, renamed, replaced and removed.  The wait for systemd takes fuel.

  A nil pointer the code dereferences is the outcome \<open>Panicked\<close>.
\<close>

section \<open>Waiting for a respawn\<close>

record containerRef =
  cr_id :: string
  cr_state :: string

datatype respawnState = RespawnGone | RespawnOldStillThere | RespawnNotRunning | RespawnRunning

definition classifyRespawn :: "containerRef option \<Rightarrow> string \<Rightarrow> respawnState" where
  "classifyRespawn found oldID =
     (case found of
        None \<Rightarrow> RespawnGone
      | Some c \<Rightarrow> if cr_id c = oldID then RespawnOldStillThere
                  else if cr_state c = ''running'' then RespawnRunning
                  else RespawnNotRunning)"

record respawnOutcome =
  ro_done :: bool
  ro_ok :: bool
  ro_id :: string

definition decideRespawnOutcome :: "containerRef option \<Rightarrow> string \<Rightarrow> bool \<Rightarrow> respawnOutcome" where
  "decideRespawnOutcome found oldID deadlineReached =
     (if classifyRespawn found oldID = RespawnRunning
      then \<lparr>ro_done = True, ro_ok = True, ro_id = (case found of None \<Rightarrow> [] | Some c \<Rightarrow> cr_id c)\<rparr>
      else if \<not> deadlineReached then \<lparr>ro_done = False, ro_ok = False, ro_id = []\<rparr>
      else \<lparr>ro_done = True, ro_ok = False, ro_id = []\<rparr>)"

definition exactNameMatch :: "string list \<Rightarrow> string \<Rightarrow> bool" where
  "exactNameMatch names name \<longleftrightarrow> (\<exists>n\<in>set names. trimPrefix n ''/'' = name)"

definition findContainerByName :: "'d daemon \<Rightarrow> string \<Rightarrow> 'd \<Rightarrow> containerRef option \<times> 'd" where
  "findContainerByName D name d =
     (case ContainerList D Caller name d of
        (Inl _, d') \<Rightarrow> (None, d')
      | (Inr cs, d') \<Rightarrow>
          (map_option (\<lambda>c. \<lparr>cr_id = su_id c, cr_state = su_state c\<rparr>)
             (find (\<lambda>c. exactNameMatch (su_names c) name) cs), d'))"

section \<open>Helpers\<close>

definition containerStack :: "labels \<Rightarrow> string \<times> string" where
  "containerStack ls =
     (let ns = label ls ''com.docker.stack.namespace''; proj = label ls ''com.docker.compose.project'';
          pod = label ls ''io.kubernetes.pod.name''
      in if ns \<noteq> [] then (ns, ''swarm'')
         else if proj \<noteq> [] then (proj, ''compose'')
         else if pod \<noteq> [] then (pod, ''pod'')
         else ([], []))"

definition podmanSystemdUnit :: "labels \<Rightarrow> string" where
  "podmanSystemdUnit ls = label ls ''PODMAN_SYSTEMD_UNIT''"

text \<open>The endpoints are rebuilt field by field; the fields that are not named stay empty.\<close>

definition buildNetworkingConfig :: "networks option \<Rightarrow> networks option" where
  "buildNetworkingConfig settings =
     (case settings of
        None \<Rightarrow> None
      | Some nets \<Rightarrow>
          if length nets = 0 then None
          else Some (map (\<lambda>(n, ep). (n, \<lparr>ep_copied = ep_copied ep, ep_other = []\<rparr>)) nets))"

definition sanitizeHostConfig :: "hostConfig option \<Rightarrow> hostConfig option" where
  "sanitizeHostConfig hc =
     (case hc of
        None \<Rightarrow> None
      | Some h \<Rightarrow> Some (if hc_swappiness h = Some 0 then h\<lparr>hc_swappiness := None\<rparr> else h))"

definition isGone :: "err \<Rightarrow> bool" where
  "isGone e \<longleftrightarrow>
     (let m = toLower (msg e)
      in containsStr m ''no such container'' \<or> containsStr m ''not found''
         \<or> containsStr m ''no container with name or id'')"

definition stopTimeoutSeconds :: int where
  "stopTimeoutSeconds = 30"

definition systemdRespawnTimeout :: int where
  "systemdRespawnTimeout = 90 * second"

definition systemdRespawnPoll :: int where
  "systemdRespawnPoll = 500000000"

section \<open>The direct way\<close>

text \<open>Putting the original back: its name when it was renamed, its running state when it ran.  The calls
  are detached from the request and their errors ignored.\<close>

definition restore :: "'d daemon \<Rightarrow> string \<Rightarrow> string \<Rightarrow> bool \<Rightarrow> bool \<Rightarrow> 'd \<Rightarrow> 'd" where
  "restore D cid name renamed wasRunning d =
     (let d1 = (if renamed then snd (ContainerRename D Detached cid name d) else d)
      in if wasRunning then snd (ContainerStart D Detached cid d1) else d1)"

definition backupName :: "string \<Rightarrow> gotime \<Rightarrow> string" where
  "backupName name unixNano = name @ ''-prev-'' @ intText unixNano"

text \<open>\<open>UnixNano\<close> counts from 1970, our clock from the zero time.\<close>

definition unixEpoch :: gotime where
  "unixEpoch = 62135596800 * second"

definition startReplacement ::
  "'d daemon \<Rightarrow> string \<Rightarrow> string \<Rightarrow> bool \<Rightarrow> string \<Rightarrow> 'd \<Rightarrow> outcome \<times> 'd" where
  "startReplacement D oldID name wasRunning newID d =
     (case ContainerStart D Caller newID d of
        (Some e, d1) \<Rightarrow>
          (let d2 = snd (ContainerRemove D Detached newID d1)
           in (Failed (wrap_err ''start replacement container: '' e), restore D oldID name True wasRunning d2))
      | (None, d1) \<Rightarrow> (Done, snd (ContainerRemove D Caller oldID d1)))"

definition createReplacement ::
  "'d daemon \<Rightarrow> 'd progress \<Rightarrow> inspect \<Rightarrow> string \<Rightarrow> bool \<Rightarrow> string \<Rightarrow> 'd \<Rightarrow> outcome \<times> 'd" where
  "createReplacement D p insp name wasRunning targetImage d =
     (let d1 = report p ''recreating'' (-1) d
      in case in_config insp of
           None \<Rightarrow> (Panicked, d1)
         | Some cfg \<Rightarrow>
             (case ContainerCreate D Caller (cfg\<lparr>cfg_image := targetImage\<rparr>) (sanitizeHostConfig (in_host insp))
                     (buildNetworkingConfig (in_networks insp)) name d1 of
                (Inl e, d2) \<Rightarrow>
                  (Failed (wrap_err ''create replacement container: '' e), restore D (in_id insp) name True wasRunning d2)
              | (Inr newID, d2) \<Rightarrow> startReplacement D (in_id insp) name wasRunning newID d2))"

definition replaceStopped ::
  "'d daemon \<Rightarrow> 'd progress \<Rightarrow> inspect \<Rightarrow> string \<Rightarrow> bool \<Rightarrow> string \<Rightarrow> 'd \<Rightarrow> outcome \<times> 'd" where
  "replaceStopped D p insp name wasRunning targetImage d =
     (case ContainerRename D Caller (in_id insp) (backupName name (Now D d - unixEpoch)) d of
        (Some e, d1) \<Rightarrow>
          (Failed (wrap_err ''rename old container: '' e), restore D (in_id insp) name False wasRunning d1)
      | (None, d1) \<Rightarrow> createReplacement D p insp name wasRunning targetImage d1)"

definition wasRunningOf :: "inspect \<Rightarrow> bool" where
  "wasRunningOf insp = (case in_state insp of None \<Rightarrow> False | Some s \<Rightarrow> st_running s)"

definition recreateDirect :: "'d daemon \<Rightarrow> 'd progress \<Rightarrow> inspect \<Rightarrow> string \<Rightarrow> 'd \<Rightarrow> outcome \<times> 'd" where
  "recreateDirect D p insp targetImage d =
     (let name = trimPrefix (in_name insp) ''/''; wasRunning = wasRunningOf insp
      in if wasRunning
         then (case ContainerStop D Caller (in_id insp) stopTimeoutSeconds d of
                 (Some e, d1) \<Rightarrow> (Failed (wrap_err ''stop container: '' e), d1)
               | (None, d1) \<Rightarrow> replaceStopped D p insp name wasRunning targetImage d1)
         else replaceStopped D p insp name wasRunning targetImage d)"

section \<open>The systemd way\<close>

definition notRunningError :: "string \<Rightarrow> string \<Rightarrow> err" where
  "notRunningError name unit = errors_new (''cannot update '' @ name @ '': it is managed by the systemd unit ''
     @ unit @ '' and is not running '' @ emDash @ '' start it first (systemctl start '' @ unit
     @ '') so it comes up on the newly pulled image'')"

definition noRespawnError :: "string \<Rightarrow> string \<Rightarrow> err" where
  "noRespawnError name unit = errors_new (''systemd unit '' @ unit @ '' did not bring '' @ name
     @ '' back to a running state after the update: the image was pulled, but the unit needs a Restart= policy and the container has to start cleanly on the new image ''
     @ emDash @ '' check `systemctl status '' @ unit @ ''`'')"

definition sameImageError :: "string \<Rightarrow> string \<Rightarrow> err" where
  "sameImageError oldRef targetImage = errors_new (''the container came back running the same image it had before (''
     @ oldRef @ ''): the unit's Image= still resolves to the old image, so systemd's respawn did not pick up ''
     @ targetImage @ '' '' @ emDash
     @ '' edit the unit and run `systemctl daemon-reload`, or set AutoUpdate=registry and use `podman auto-update`'')"

definition verifyRespawnImage ::
  "'d daemon \<Rightarrow> string \<Rightarrow> string \<Rightarrow> string \<Rightarrow> 'd \<Rightarrow> err option \<times> 'd" where
  "verifyRespawnImage D newID imageBefore targetImage d =
     (if imageBefore = [] then (None, d)
      else (case ContainerInspect D Caller newID d of
              (Inl _, d') \<Rightarrow> (None, d')
            | (Inr after, d') \<Rightarrow>
                if in_image after = [] then (None, d')
                else if in_image after = imageBefore
                then (Some (sameImageError
                        (case in_config after of
                           Some cfg \<Rightarrow> if cfg_image cfg \<noteq> [] then cfg_image cfg else targetImage
                         | None \<Rightarrow> targetImage) targetImage), d')
                else (None, d')))"

fun awaitRespawn ::
  "'d daemon \<Rightarrow> nat \<Rightarrow> string \<Rightarrow> string \<Rightarrow> string \<Rightarrow> string \<Rightarrow> string \<Rightarrow> gotime \<Rightarrow> 'd
     \<Rightarrow> (err option \<times> 'd) option" where
  "awaitRespawn D 0 oldID name unit imageBefore targetImage deadline d = None"
| "awaitRespawn D (Suc fuel) oldID name unit imageBefore targetImage deadline d =
     (let (found, d1) = findContainerByName D name d;
          out = decideRespawnOutcome found oldID (\<not> Now D d1 < deadline)
      in if ro_done out
         then (if \<not> ro_ok out then Some (Some (noRespawnError name unit), d1)
               else Some (verifyRespawnImage D (ro_id out) imageBefore targetImage d1))
         else (case SleepOrDone D systemdRespawnPoll d1 of
                 (Some e, d2) \<Rightarrow> Some (Some e, d2)
               | (None, d2) \<Rightarrow> awaitRespawn D fuel oldID name unit imageBefore targetImage deadline d2))"

definition recreateSystemdManaged ::
  "'d daemon \<Rightarrow> nat \<Rightarrow> inspect \<Rightarrow> string \<Rightarrow> string \<Rightarrow> 'd progress \<Rightarrow> 'd \<Rightarrow> (err option \<times> 'd) option" where
  "recreateSystemdManaged D fuel insp targetImage unit p d =
     (let name = trimPrefix (in_name insp) ''/''
      in if \<not> wasRunningOf insp then Some (Some (notRunningError name unit), d)
         else
           let d1 = report p ''recreating'' (-1) d;
               (r, d2) = ContainerStop D Caller (in_id insp) stopTimeoutSeconds d1
           in case r of
                Some e \<Rightarrow>
                  if \<not> isGone e then Some (Some (wrap_err ''stop container: '' e), d2)
                  else awaitRespawn D fuel (in_id insp) name unit (in_image insp) targetImage
                         (Now D d2 + systemdRespawnTimeout) d2
              | None \<Rightarrow>
                  awaitRespawn D fuel (in_id insp) name unit (in_image insp) targetImage
                    (Now D d2 + systemdRespawnTimeout) d2)"

section \<open>The whole flow\<close>

definition of_error :: "(err option \<times> 'd) option \<Rightarrow> (outcome \<times> 'd) option" where
  "of_error r = map_option (\<lambda>(e, d). (case e of None \<Rightarrow> Done | Some x \<Rightarrow> Failed x, d)) r"

definition recreateContainer ::
  "'d daemon \<Rightarrow> nat \<Rightarrow> string \<Rightarrow> string \<Rightarrow> 'd progress \<Rightarrow> 'd \<Rightarrow> (outcome \<times> 'd) option" where
  "recreateContainer D fuel containerID targetImage p d =
     (case ContainerInspect D Caller containerID d of
        (Inl e, d1) \<Rightarrow> Some (Failed (wrap_err ''inspect container: '' e), d1)
      | (Inr insp, d1) \<Rightarrow>
          (case pullImage D targetImage p d1 of
             (Some e, d2) \<Rightarrow> Some (Failed e, d2)
           | (None, d2) \<Rightarrow>
               (let ls = (case in_config insp of None \<Rightarrow> [] | Some cfg \<Rightarrow> cfg_labels cfg);
                    unit = podmanSystemdUnit ls; sw = swarmTask ls
                in if unit \<noteq> []
                   then of_error (recreateSystemdManaged D fuel insp targetImage unit p d2)
                   else if si_taskID sw \<noteq> []
                   then (if si_serviceID sw = []
                         then Some (Failed (errors_new (''container '' @ trimPrefix (in_name insp) ''/''
                                @ '' is a swarm task but its service is unknown'')), d2)
                         else of_error (updateService D fuel (si_serviceID sw) targetImage p d2))
                   else Some (recreateDirect D p insp targetImage d2))))"


section \<open>The contract of the daemon\<close>

text \<open>
  What the Engine API promises about containers, as far as the flow relies on it: \<open>view\<close> is what an
  observer sees of each container, every call that reports success has done exactly its effect, and
  every call but the stop that reports an error has done nothing; a stop that fails may have happened.
  (A container started with \<open>--rm\<close> is outside this contract: stopping it removes it.)  \<open>good\<close> is the provider's own invariant.
\<close>

record cview =
  cv_name :: string
  cv_running :: bool
  cv_image :: string

locale container_daemon =
  fixes D :: "'d daemon" and good :: "'d \<Rightarrow> bool" and view :: "'d \<Rightarrow> string \<Rightarrow> cview option"
  assumes inspect_frame: "good d \<Longrightarrow> ContainerInspect D cx i d = (r, d') \<Longrightarrow> good d' \<and> view d' = view d"
    and inspect_view: "good d \<Longrightarrow> ContainerInspect D cx i d = (Inr insp, d') \<Longrightarrow>
      \<exists>v s. view d (in_id insp) = Some v \<and> in_name insp = ''/'' @ cv_name v \<and> in_image insp = cv_image v
        \<and> in_state insp = Some s \<and> st_running s = cv_running v"
    and stop_ok: "good d \<Longrightarrow> ContainerStop D cx i t d = (None, d') \<Longrightarrow>
      good d' \<and> (\<exists>v. view d i = Some v \<and> view d' = (view d)(i \<mapsto> v\<lparr>cv_running := False\<rparr>))"
    and rename_ok: "good d \<Longrightarrow> ContainerRename D cx i n d = (None, d') \<Longrightarrow>
      good d' \<and> (\<exists>v. view d i = Some v \<and> view d' = (view d)(i \<mapsto> v\<lparr>cv_name := n\<rparr>))"
    and rename_err: "good d \<Longrightarrow> ContainerRename D cx i n d = (Some e, d') \<Longrightarrow> good d' \<and> view d' = view d"
    and create_ok: "good d \<Longrightarrow> ContainerCreate D cx cfg hc nets n d = (Inr j, d') \<Longrightarrow>
      good d' \<and> view d j = None \<and> (\<exists>img. view d' = (view d)(j \<mapsto> \<lparr>cv_name = n, cv_running = False, cv_image = img\<rparr>))"
    and create_err: "good d \<Longrightarrow> ContainerCreate D cx cfg hc nets n d = (Inl e, d') \<Longrightarrow> good d' \<and> view d' = view d"
    and start_ok: "good d \<Longrightarrow> ContainerStart D cx i d = (None, d') \<Longrightarrow>
      good d' \<and> (\<exists>v. view d i = Some v \<and> view d' = (view d)(i \<mapsto> v\<lparr>cv_running := True\<rparr>))"
    and start_err: "good d \<Longrightarrow> ContainerStart D cx i d = (Some e, d') \<Longrightarrow> good d' \<and> view d' = view d"
    and remove_ok: "good d \<Longrightarrow> ContainerRemove D cx i d = (None, d') \<Longrightarrow> good d' \<and> view d' = (view d)(i := None)"
    and remove_err: "good d \<Longrightarrow> ContainerRemove D cx i d = (Some e, d') \<Longrightarrow> good d' \<and> view d' = view d"
    and pull_frame: "good d \<Longrightarrow> ImagePull D cx ref d = (ms, d') \<Longrightarrow> good d' \<and> view d' = view d"

text \<open>A progress callback that only watches.\<close>

definition watches_only :: "('d \<Rightarrow> bool) \<Rightarrow> ('d \<Rightarrow> string \<Rightarrow> cview option) \<Rightarrow> 'd progress \<Rightarrow> bool" where
  "watches_only good view p \<longleftrightarrow>
     (\<forall>f stage pct d. p = Some f \<longrightarrow> good d \<longrightarrow> good (f stage pct d) \<and> view (f stage pct d) = view d)"

text \<open>The recovery calls for a container get through: a name that no container bears can be given to it
  (one that is taken is a conflict, and the call fails), it can be started, and another container that
  exists can be removed.\<close>

definition recovery_works ::
  "'d daemon \<Rightarrow> ('d \<Rightarrow> bool) \<Rightarrow> ('d \<Rightarrow> string \<Rightarrow> cview option) \<Rightarrow> string \<Rightarrow> string \<Rightarrow> bool" where
  "recovery_works D good view cid name \<longleftrightarrow>
     (\<forall>d. good d \<longrightarrow> view d cid \<noteq> None \<longrightarrow>
        ((\<forall>k w. view d k = Some w \<longrightarrow> cv_name w \<noteq> name) \<longrightarrow> fst (ContainerRename D Detached cid name d) = None)
        \<and> fst (ContainerStart D Detached cid d) = None
        \<and> (\<forall>j. j \<noteq> cid \<longrightarrow> view d j \<noteq> None \<longrightarrow> fst (ContainerRemove D Detached j d) = None))"

context container_daemon
begin

lemma report_frame: "watches_only good view p \<Longrightarrow> good d \<Longrightarrow> good (report p s n d) \<and> view (report p s n d) = view d"
  by (auto simp: watches_only_def report_def split: option.split)

lemma pull_keeps:
  assumes "watches_only good view p" and "good d" and "pullImage D ref p d = (r, d')"
  shows "good d' \<and> view d' = view d"
proof (rule pullImage_inv [OF assms(3), where P = "\<lambda>x. good x \<and> view x = view d"])
  show "good d \<and> view d = view d" using assms(2) by simp
next
  fix x d1 assume "ImagePull D Caller ref d = (x, d1)"
  then show "good d1 \<and> view d1 = view d" using pull_frame assms(2) by blast
next
  fix f s n d1 assume "p = Some f" "good d1 \<and> view d1 = view d"
  then show "good (f s n d1) \<and> view (f s n d1) = view d" using assms(1) by (simp add: watches_only_def)
qed

text \<open>The recovery puts back what it knows of the container.\<close>

lemma restore_view:
  assumes rec: "recovery_works D good view cid name" and "good d" and v: "view d cid = Some v"
    and free: "renamed \<Longrightarrow> \<forall>k w. view d k = Some w \<longrightarrow> cv_name w \<noteq> name"
  shows "good (restore D cid name renamed run d)
    \<and> view (restore D cid name renamed run d)
        = (view d)(cid \<mapsto> v\<lparr>cv_name := (if renamed then name else cv_name v),
                            cv_running := (run \<or> cv_running v)\<rparr>)"
proof -
  let ?d1 = "if renamed then snd (ContainerRename D Detached cid name d) else d"
  let ?v1 = "v\<lparr>cv_name := (if renamed then name else cv_name v)\<rparr>"
  have 1: "good ?d1 \<and> view ?d1 = (view d)(cid \<mapsto> ?v1)"
  proof (cases renamed)
    case True
    have "fst (ContainerRename D Detached cid name d) = None"
      using rec assms(2) v free [OF True] unfolding recovery_works_def by blast
    then have "ContainerRename D Detached cid name d = (None, snd (ContainerRename D Detached cid name d))"
      by (metis prod.collapse)
    from rename_ok [OF assms(2) this] v True show ?thesis by auto
  qed (use assms(2) v in auto)
  show ?thesis
  proof (cases run)
    case True
    have "fst (ContainerStart D Detached cid ?d1) = None"
      using rec 1 unfolding recovery_works_def by (metis fun_upd_same option.distinct(1))
    then have "ContainerStart D Detached cid ?d1 = (None, snd (ContainerStart D Detached cid ?d1))"
      by (metis prod.collapse)
    from start_ok [OF conjunct1 [OF 1] this] 1 True show ?thesis
      by (simp add: restore_def Let_def del: fun_upd_apply) (auto simp: fun_upd_same)
  next
    case False
    then show ?thesis using 1 by (simp add: restore_def Let_def)
  qed
qed

end

end
