(* ===== verification/RecreateProps.thy ===== *)
theory RecreateProps
  imports Recreate
begin

text \<open>
  What an update does to the containers of a host.  The lemmas about the direct way are proved once
  inside \<open>container_daemon\<close>, for every daemon that keeps the contract; the properties state them with
  the contract as their hypothesis.  The ways of systemd units and swarm tasks need no contract.
\<close>

section \<open>The direct way\<close>

text \<open>No other container bears a name.\<close>

definition sole_name :: "(string \<Rightarrow> cview option) \<Rightarrow> string \<Rightarrow> string \<Rightarrow> bool" where
  "sole_name V cid name \<longleftrightarrow> (\<forall>k w. k \<noteq> cid \<longrightarrow> V k = Some w \<longrightarrow> cv_name w \<noteq> name)"

context container_daemon
begin

lemma backupName_ne: "backupName n t \<noteq> n"
  by (simp add: backupName_def)

lemma restore_undo:
  assumes rec: "recovery_works D good view cid (cv_name v)" and "good d" and V: "V cid = Some v"
    and only: "sole_name V cid (cv_name v)" and nb: "nb \<noteq> cv_name v"
    and v: "view d = V(cid \<mapsto> v\<lparr>cv_name := nb, cv_running := False\<rparr>)"
  shows "good (restore D cid (cv_name v) True (cv_running v) d)
    \<and> view (restore D cid (cv_name v) True (cv_running v) d) = V"
proof -
  have at: "view d cid = Some (v\<lparr>cv_name := nb, cv_running := False\<rparr>)" by (simp add: v)
  have "\<forall>k w. view d k = Some w \<longrightarrow> cv_name w \<noteq> cv_name v" using only nb by (auto simp: v sole_name_def)
  from restore_view [OF rec assms(2) at, of True "cv_running v", OF this] v V show ?thesis
    by (auto simp: fun_upd_idem)
qed

lemma restore_undo_stop:
  assumes rec: "recovery_works D good view cid name" and "good d" and V: "V cid = Some v"
    and v: "view d = V(cid \<mapsto> v\<lparr>cv_running := False\<rparr>)"
  shows "good (restore D cid name False (cv_running v) d) \<and> view (restore D cid name False (cv_running v) d) = V"
proof -
  have "view d cid = Some (v\<lparr>cv_running := False\<rparr>)" by (simp add: v)
  from restore_view [OF rec assms(2) this, of False "cv_running v"] v V show ?thesis
    by (auto simp: fun_upd_idem)
qed

lemma startReplacement_failed:
  assumes rec: "recovery_works D good view cid (cv_name v)" and "good d" and V: "V cid = Some v" and j: "V j = None"
    and only: "sole_name V cid (cv_name v)" and nb: "nb \<noteq> cv_name v"
    and v: "view d = V(cid \<mapsto> v\<lparr>cv_name := nb, cv_running := False\<rparr>, j \<mapsto> w)"
    and run: "startReplacement D cid (cv_name v) (cv_running v) j d = (Failed e, d')"
  shows "good d' \<and> view d' = V"
proof -
  have ne: "j \<noteq> cid" using V j by auto
  obtain r d1 where st: "ContainerStart D Caller j d = (r, d1)" by fastforce
  from run st obtain x where x: "r = Some x"
    by (cases r) (auto simp: startReplacement_def)
  from start_err [OF assms(2) st [unfolded x]] v have 1: "good d1"
    "view d1 = V(cid \<mapsto> v\<lparr>cv_name := nb, cv_running := False\<rparr>, j \<mapsto> w)" by auto
  then have "view d1 cid \<noteq> None" "view d1 j \<noteq> None" using ne by auto
  with rec 1(1) ne have "fst (ContainerRemove D Detached j d1) = None" unfolding recovery_works_def by blast
  then have "ContainerRemove D Detached j d1 = (None, snd (ContainerRemove D Detached j d1))"
    by (metis prod.collapse)
  from remove_ok [OF 1(1) this] have 2: "good (snd (ContainerRemove D Detached j d1))"
    "view (snd (ContainerRemove D Detached j d1)) = V(cid \<mapsto> v\<lparr>cv_name := nb, cv_running := False\<rparr>)"
    using 1(2) j ne by (auto simp: fun_upd_twist fun_upd_idem)
  from restore_undo [OF rec 2(1) V only nb 2(2)] run st x show ?thesis
    by (simp add: startReplacement_def Let_def)
qed

lemma createReplacement_failed:
  assumes rec: "recovery_works D good view (in_id insp) (cv_name v)" and w: "watches_only good view p" and "good d"
    and V: "V (in_id insp) = Some v"
    and only: "sole_name V (in_id insp) (cv_name v)" and nb: "nb \<noteq> cv_name v"
    and v: "view d = V(in_id insp \<mapsto> v\<lparr>cv_name := nb, cv_running := False\<rparr>)"
    and run: "createReplacement D p insp (cv_name v) (cv_running v) img d = (Failed e, d')"
  shows "good d' \<and> view d' = V"
proof -
  let ?d1 = "report p ''recreating'' (-1) d"
  from report_frame [OF w assms(3)] v have 1: "good ?d1"
    "view ?d1 = V(in_id insp \<mapsto> v\<lparr>cv_name := nb, cv_running := False\<rparr>)" by auto
  from run obtain cfg where cfg: "in_config insp = Some cfg"
    by (cases "in_config insp") (auto simp: createReplacement_def Let_def)
  obtain r d2 where cr: "ContainerCreate D Caller (cfg\<lparr>cfg_image := img\<rparr>) (sanitizeHostConfig (in_host insp))
      (buildNetworkingConfig (in_networks insp)) (cv_name v) ?d1 = (r, d2)" by fastforce
  show ?thesis
  proof (cases r)
    case (Inl x)
    from create_err [OF 1(1) cr [unfolded Inl]] 1(2) have "good d2"
      "view d2 = V(in_id insp \<mapsto> v\<lparr>cv_name := nb, cv_running := False\<rparr>)" by auto
    from restore_undo [OF rec this(1) V only nb this(2)] run cfg cr Inl show ?thesis
      by (simp add: createReplacement_def Let_def)
  next
    case (Inr j)
    from create_ok [OF 1(1) cr [unfolded Inr]] 1(2) obtain x where x: "good d2" "V j = None"
      "view d2 = V(in_id insp \<mapsto> v\<lparr>cv_name := nb, cv_running := False\<rparr>,
          j \<mapsto> \<lparr>cv_name = cv_name v, cv_running = False, cv_image = x\<rparr>)"
      by (auto split: if_splits)
    have "startReplacement D (in_id insp) (cv_name v) (cv_running v) j d2 = (Failed e, d')"
      using run cfg cr Inr by (simp add: createReplacement_def Let_def)
    from startReplacement_failed [OF rec x(1) V x(2) only nb x(3) this] show ?thesis .
  qed
qed

lemma replaceStopped_failed:
  assumes rec: "recovery_works D good view (in_id insp) (cv_name v)" and w: "watches_only good view p" and "good d"
    and V: "V (in_id insp) = Some v"
    and only: "sole_name V (in_id insp) (cv_name v)" and v: "view d = V(in_id insp \<mapsto> v\<lparr>cv_running := False\<rparr>)"
    and run: "replaceStopped D p insp (cv_name v) (cv_running v) img d = (Failed e, d')"
  shows "good d' \<and> view d' = V"
proof -
  obtain r d1 where rn: "ContainerRename D Caller (in_id insp) (backupName (cv_name v) (Now D d - unixEpoch)) d = (r, d1)"
    by fastforce
  show ?thesis
  proof (cases r)
    case None
    from rename_ok [OF assms(3) rn [unfolded None]] v have "good d1"
      "view d1 = V(in_id insp \<mapsto> v\<lparr>cv_name := backupName (cv_name v) (Now D d - unixEpoch), cv_running := False\<rparr>)"
      by (auto simp: fun_upd_def)
    moreover have "createReplacement D p insp (cv_name v) (cv_running v) img d1 = (Failed e, d')"
      using run rn None by (simp add: replaceStopped_def)
    ultimately show ?thesis by (rule createReplacement_failed [where V = V, OF rec w _ V only backupName_ne])
  next
    case (Some x)
    from rename_err [OF assms(3) rn [unfolded Some]] v have "good d1"
      "view d1 = V(in_id insp \<mapsto> v\<lparr>cv_running := False\<rparr>)" by auto
    from restore_undo_stop [OF rec this(1) V this(2)] run rn Some show ?thesis
      by (auto simp: replaceStopped_def)
  qed
qed

lemma recreateDirect_failed:
  assumes rec: "recovery_works D good view (in_id insp) (trimPrefix (in_name insp) ''/'')"
    and w: "watches_only good view p" and g: "good d"
    and ins: "ContainerInspect D Caller cid d0 = (Inr insp, d1)" "good d0" "view d = view d0"
    and only: "sole_name (view d0) (in_id insp) (trimPrefix (in_name insp) ''/'')"
    and stops: "wasRunningOf insp \<Longrightarrow> fst (ContainerStop D Caller (in_id insp) stopTimeoutSeconds d) = None"
    and run: "recreateDirect D p insp img d = (Failed e, d')"
  shows "good d' \<and> view d' = view d"
proof -
  from inspect_view [OF ins(2,1)] ins(3) obtain v s where v: "view d (in_id insp) = Some v"
    "in_name insp = ''/'' @ cv_name v" "in_state insp = Some s" "st_running s = cv_running v" by auto
  have nm: "trimPrefix (in_name insp) ''/'' = cv_name v" by (simp only: v(2) trimPrefix_append)
  have wr: "wasRunningOf insp = cv_running v" by (simp add: wasRunningOf_def v)
  note rec' = rec [unfolded nm]
  have only': "sole_name (view d) (in_id insp) (cv_name v)"
    using only ins(3) nm by simp
  show ?thesis
  proof (cases "cv_running v")
    case True
    obtain r d2 where st: "ContainerStop D Caller (in_id insp) stopTimeoutSeconds d = (r, d2)" by fastforce
    show ?thesis
    proof (cases r)
      case None
      from stop_ok [OF g st [unfolded None]] v(1) have 2: "good d2"
        "view d2 = (view d)(in_id insp \<mapsto> v\<lparr>cv_running := False\<rparr>)" by auto
      have "replaceStopped D p insp (cv_name v) (cv_running v) img d2 = (Failed e, d')"
        using run True st None by (simp add: recreateDirect_def wr nm)
      from replaceStopped_failed [where V = "view d", OF rec' w 2(1) v(1) only' 2(2) this] show ?thesis .
    qed (use stops st True in \<open>simp add: wr\<close>)
  next
    case False
    then have "view d = (view d)(in_id insp \<mapsto> v\<lparr>cv_running := False\<rparr>)"
      using v(1) by (simp add: fun_upd_idem)
    moreover have "replaceStopped D p insp (cv_name v) (cv_running v) img d = (Failed e, d')"
      using run False by (simp add: recreateDirect_def wr nm)
    ultimately show ?thesis by (rule replaceStopped_failed [where V = "view d", OF rec' w g v(1) only'])
  qed
qed

end


section \<open>A failed update\<close>

text \<open>C1: every failure after the stop puts the workload back: whatever step of the direct way fails once the
  container is stopped (the rename, the creation or the start of the replacement), every container of the
  host has afterwards the name, the running state and the image it had before, and no container was added
  or lost.  What it rests on: no other container bears the name, and the recovery calls themselves get
  through, the daemon refusing a rename to a name that is taken.  Nothing is claimed when the stop itself
  fails.\<close>

theorem failed_update_restores:
  assumes "container_daemon D good view"
    and "recovery_works D good view (in_id insp) (trimPrefix (in_name insp) ''/'')"
    and "watches_only good view p" and "good d0" and "ContainerInspect D Caller cid d0 = (Inr insp, d1)"
    and "sole_name (view d0) (in_id insp) (trimPrefix (in_name insp) ''/'')"
    and "good d" and "view d = view d0"
    and "wasRunningOf insp \<Longrightarrow> fst (ContainerStop D Caller (in_id insp) stopTimeoutSeconds d) = None"
    and "recreateDirect D p insp img d = (Failed e, d')"
  shows "view d' = view d0"
  using container_daemon.recreateDirect_failed [OF assms(1-3,7,5,4,8,6,9,10)] assms(8) by simp

text \<open>C3: nothing is touched before the new image is there: when the container cannot be inspected or the
  pull fails, the update ends with an error and no container has changed.\<close>

theorem failed_pull_touches_nothing:
  assumes "container_daemon D good view" and "watches_only good view p" and "good d"
    and "case ContainerInspect D Caller cid d of
           (Inl _, _) \<Rightarrow> True | (Inr _, d1) \<Rightarrow> fst (pullImage D img p d1) \<noteq> None"
  shows "\<exists>e d'. recreateContainer D fuel cid img p d = Some (Failed e, d') \<and> view d' = view d"
proof -
  obtain r d1 where ins: "ContainerInspect D Caller cid d = (r, d1)" by fastforce
  have 1: "good d1 \<and> view d1 = view d" by (rule container_daemon.inspect_frame [OF assms(1,3) ins])
  show ?thesis
  proof (cases r)
    case (Inl e)
    then show ?thesis using ins 1 by (simp add: recreateContainer_def)
  next
    case (Inr insp)
    obtain q d2 where pull: "pullImage D img p d1 = (q, d2)" by fastforce
    have 2: "view d2 = view d1"
      using container_daemon.pull_keeps [OF assms(1,2) conjunct1 [OF 1] pull] by simp
    from assms(4) ins Inr pull obtain e where "q = Some e" by auto
    then show ?thesis using ins Inr pull 1 2 by (simp add: recreateContainer_def)
  qed
qed


section \<open>A successful update\<close>

text \<open>What success means for container \<open>cid\<close>, seen before as \<open>V\<close> and afterwards as \<open>V'\<close>: a new
  container runs under its name, it is gone or at least stopped, and nothing else has changed.\<close>

definition replaced :: "string \<Rightarrow> (string \<Rightarrow> cview option) \<Rightarrow> (string \<Rightarrow> cview option) \<Rightarrow> bool" where
  "replaced cid V V' \<longleftrightarrow>
     (\<exists>v j x. V cid = Some v \<and> V j = None
        \<and> V' j = Some \<lparr>cv_name = cv_name v, cv_running = True, cv_image = x\<rparr>
        \<and> (\<forall>k. k \<noteq> cid \<and> k \<noteq> j \<longrightarrow> V' k = V k)
        \<and> (case V' cid of None \<Rightarrow> True | Some w \<Rightarrow> \<not> cv_running w))"

context container_daemon
begin

lemma startReplacement_done:
  assumes "good d" and V: "V cid = Some v" and j: "V j = None"
    and v: "view d = V(cid \<mapsto> v\<lparr>cv_name := nb, cv_running := False\<rparr>,
                       j \<mapsto> \<lparr>cv_name = cv_name v, cv_running = False, cv_image = x\<rparr>)"
    and run: "startReplacement D cid (cv_name v) r0 j d = (Done, d')"
  shows "replaced cid V (view d')"
proof -
  have ne: "j \<noteq> cid" using V j by auto
  obtain r d1 where st: "ContainerStart D Caller j d = (r, d1)" by fastforce
  from run st have r: "r = None" and d': "d' = snd (ContainerRemove D Caller cid d1)"
    by (auto simp: startReplacement_def Let_def split: option.splits)
  from start_ok [OF assms(1) st [unfolded r]] v ne have 1: "good d1"
    "view d1 = V(cid \<mapsto> v\<lparr>cv_name := nb, cv_running := False\<rparr>,
                  j \<mapsto> \<lparr>cv_name = cv_name v, cv_running = True, cv_image = x\<rparr>)" by auto
  obtain q where rm: "ContainerRemove D Caller cid d1 = (q, d')" using d' by (metis prod.collapse)
  have v': "view d' = view d1 \<or> view d' = (view d1)(cid := None)"
    using remove_ok [OF 1(1)] remove_err [OF 1(1)] rm by (cases q) auto
  have "V cid = Some v \<and> V j = None
      \<and> view d' j = Some \<lparr>cv_name = cv_name v, cv_running = True, cv_image = x\<rparr>
      \<and> (\<forall>k. k \<noteq> cid \<and> k \<noteq> j \<longrightarrow> view d' k = V k)
      \<and> (case view d' cid of None \<Rightarrow> True | Some w \<Rightarrow> \<not> cv_running w)"
    using v' ne V j by (auto simp: 1(2))
  then show ?thesis unfolding replaced_def by blast
qed

lemma replaceStopped_done:
  assumes w: "watches_only good view p" and g: "good d" and V: "V (in_id insp) = Some v"
    and v: "view d = V(in_id insp \<mapsto> v\<lparr>cv_running := False\<rparr>)"
    and run: "replaceStopped D p insp (cv_name v) r0 img d = (Done, d')"
  shows "replaced (in_id insp) V (view d')"
proof -
  obtain r d1 where rn: "ContainerRename D Caller (in_id insp) (backupName (cv_name v) (Now D d - unixEpoch)) d = (r, d1)"
    by fastforce
  from run rn have r: "r = None" by (cases r) (auto simp: replaceStopped_def)
  let ?nb = "backupName (cv_name v) (Now D d - unixEpoch)" and ?d2 = "report p ''recreating'' (-1) d1"
  from rename_ok [OF g rn [unfolded r]] v have 1: "good d1"
    "view d1 = V(in_id insp \<mapsto> v\<lparr>cv_name := ?nb, cv_running := False\<rparr>)" by auto
  have 2: "good ?d2" "view ?d2 = view d1" using report_frame [OF w 1(1)] by auto
  have cr: "createReplacement D p insp (cv_name v) r0 img d1 = (Done, d')"
    using run rn r by (simp add: replaceStopped_def)
  then obtain cfg where cfg: "in_config insp = Some cfg"
    by (cases "in_config insp") (auto simp: createReplacement_def Let_def)
  obtain q d3 where c: "ContainerCreate D Caller (cfg\<lparr>cfg_image := img\<rparr>) (sanitizeHostConfig (in_host insp))
      (buildNetworkingConfig (in_networks insp)) (cv_name v) ?d2 = (q, d3)" by fastforce
  with cr cfg obtain j where j: "q = Inr j" "startReplacement D (in_id insp) (cv_name v) r0 j d3 = (Done, d')"
    by (cases q) (auto simp: createReplacement_def Let_def)
  from create_ok [OF 2(1) c [unfolded j(1)]] obtain x where "good d3" "V j = None"
      "view d3 = V(in_id insp \<mapsto> v\<lparr>cv_name := ?nb, cv_running := False\<rparr>,
         j \<mapsto> \<lparr>cv_name = cv_name v, cv_running = False, cv_image = x\<rparr>)"
    unfolding 2(2) 1(2) by (auto split: if_splits)
  from startReplacement_done [where V = V, OF this(1) V this(2,3) j(2)] show ?thesis .
qed

lemma recreateDirect_done:
  assumes w: "watches_only good view p" and g: "good d"
    and ins: "ContainerInspect D Caller cid d0 = (Inr insp, d1)" "good d0" "view d = view d0"
    and run: "recreateDirect D p insp img d = (Done, d')"
  shows "replaced (in_id insp) (view d0) (view d')"
proof -
  from inspect_view [OF ins(2,1)] obtain v s where v: "view d0 (in_id insp) = Some v"
    "in_name insp = ''/'' @ cv_name v" "in_state insp = Some s" "st_running s = cv_running v" by auto
  have nm: "trimPrefix (in_name insp) ''/'' = cv_name v" by (simp only: v(2) trimPrefix_append)
  have wr: "wasRunningOf insp = cv_running v" by (simp add: wasRunningOf_def v)
  show ?thesis
  proof (cases "cv_running v")
    case True
    obtain r d2 where st: "ContainerStop D Caller (in_id insp) stopTimeoutSeconds d = (r, d2)" by fastforce
    then have r: "r = None" and rs: "replaceStopped D p insp (cv_name v) True img d2 = (Done, d')"
      using run True by (auto simp: recreateDirect_def wr nm split: option.splits)
    from stop_ok [OF g st [unfolded r]] v(1) ins(3) have 2: "good d2"
      "view d2 = (view d0)(in_id insp \<mapsto> v\<lparr>cv_running := False\<rparr>)" by auto
    from replaceStopped_done [where V = "view d0", OF w 2(1) v(1) 2(2) rs] show ?thesis .
  next
    case False
    then have "view d = (view d0)(in_id insp \<mapsto> v\<lparr>cv_running := False\<rparr>)"
      using v(1) ins(3) by (simp add: fun_upd_idem)
    moreover have "replaceStopped D p insp (cv_name v) False img d = (Done, d')"
      using run False by (simp add: recreateDirect_def wr nm)
    ultimately show ?thesis by (rule replaceStopped_done [where V = "view d0", OF w g v(1)])
  qed
qed

end


section \<open>What the direct way refuses\<close>

text \<open>An inspect without a configuration is fatal only on the direct way and only after the fact: the
  original has been stopped and renamed when the code dereferences the missing configuration, and no
  recovery runs.\<close>

theorem missing_config_panics_after_stop:
  assumes "in_config insp = None" and "in_state insp = Some s" and "st_running s"
    and "ContainerStop D Caller (in_id insp) stopTimeoutSeconds d = (None, d1)"
    and "ContainerRename D Caller (in_id insp) (backupName (trimPrefix (in_name insp) ''/'') (Now D d1 - unixEpoch)) d1
           = (None, d2)"
  shows "recreateDirect D p insp img d = (Panicked, report p ''recreating'' (-1) d2)"
  using assms by (simp add: recreateDirect_def wasRunningOf_def Let_def replaceStopped_def createReplacement_def)

section \<open>Containers somebody else owns\<close>

text \<open>The daemon with other container operations.\<close>

definition with_container_ops ::
  "'d daemon \<Rightarrow> 'd daemon \<Rightarrow> 'd daemon" where
  "with_container_ops D E = D\<lparr>ContainerStop := ContainerStop E, ContainerRename := ContainerRename E,
     ContainerCreate := ContainerCreate E, ContainerStart := ContainerStart E, ContainerRemove := ContainerRemove E\<rparr>"

lemma with_container_ops_sel [simp]:
  "ContainerInspect (with_container_ops D E) = ContainerInspect D" "ContainerList (with_container_ops D E) = ContainerList D"
  "ImagePull (with_container_ops D E) = ImagePull D" "ServiceList (with_container_ops D E) = ServiceList D"
  "ServiceInspect (with_container_ops D E) = ServiceInspect D" "ServiceUpdate (with_container_ops D E) = ServiceUpdate D"
  "Now (with_container_ops D E) = Now D" "SleepOrDone (with_container_ops D E) = SleepOrDone D"
  by (simp_all add: with_container_ops_def)

lemma pullImage_ops [simp]: "pullImage (with_container_ops D E) = pullImage D"
  by (intro ext, unfold pullImage_def with_container_ops_sel, rule refl)

lemma serviceStatus_ops [simp]: "serviceStatus (with_container_ops D E) = serviceStatus D"
  by (intro ext, unfold serviceStatus_def with_container_ops_sel, rule refl)

lemma rollbackService_ops [simp]: "rollbackService (with_container_ops D E) = rollbackService D"
  by (intro ext, unfold rollbackService_def with_container_ops_sel, rule refl)

lemma convergeStep_ops [simp]: "convergeStep (with_container_ops D E) = convergeStep D"
  by (intro ext, unfold convergeStep_def serviceStatus_ops rollbackService_ops with_container_ops_sel, rule refl)

lemma converge_ops [simp]:
  "converge (with_container_ops D E) fuel svc img deadline d = converge D fuel svc img deadline d"
  by (induction D fuel svc img deadline d rule: converge.induct) (auto split: prod.split option.split)

lemma updateService_ops: "updateService (with_container_ops D E) fuel sid img p d = updateService D fuel sid img p d"
  by (unfold updateService_def with_container_ops_sel pullImage_ops converge_ops, rule refl)

text \<open>A swarm task is never recreated directly: for a container that is a task and not systemd's, the
  update is the same whatever the daemon's stop, rename, create, start and remove do, because it makes
  none of these calls; only its service is updated.\<close>

theorem swarm_task_not_recreated:
  assumes "ContainerInspect D Caller cid d = (Inr insp, d1)" and "in_config insp = Some cfg"
    and "podmanSystemdUnit (cfg_labels cfg) = []" and "IsSwarmTask (cfg_labels cfg)"
  shows "recreateContainer (with_container_ops D E) fuel cid img p d = recreateContainer D fuel cid img p d"
proof -
  have "si_taskID (swarmTask (cfg_labels cfg)) \<noteq> []" using assms(4) by (simp add: swarmTask_def IsSwarmTask_def)
  moreover obtain q d2 where "pullImage D img p d1 = (q, d2)" by fastforce
  ultimately show ?thesis
    using assms(1-3) unfolding recreateContainer_def with_container_ops_sel pullImage_ops updateService_ops
    by (cases q) (simp_all add: Let_def)
qed


section \<open>Waiting for systemd\<close>

text \<open>The decision about a respawn: success exactly for a running container under a new id, at once;
  otherwise waiting until the deadline and failure from then on, whatever else was found.\<close>

theorem respawn_decision:
  "ro_ok (decideRespawnOutcome found oldID late) = (\<exists>c. found = Some c \<and> cr_id c \<noteq> oldID \<and> cr_state c = ''running'')
   \<and> (ro_done (decideRespawnOutcome found oldID late) \<longleftrightarrow> ro_ok (decideRespawnOutcome found oldID late) \<or> late)
   \<and> (\<forall>c. ro_ok (decideRespawnOutcome found oldID late) \<and> found = Some c
        \<longrightarrow> ro_id (decideRespawnOutcome found oldID late) = cr_id c)"
  by (cases found) (auto simp: decideRespawnOutcome_def classifyRespawn_def)

theorem respawn_decision_witness:
  "ro_id (decideRespawnOutcome (Some \<lparr>cr_id = ''new'', cr_state = ''running''\<rparr>) ''old'' False) = ''new''
   \<and> \<not> ro_ok (decideRespawnOutcome (Some \<lparr>cr_id = ''new'', cr_state = ''restarting''\<rparr>) ''old'' True)"
  using respawn_decision [of "Some \<lparr>cr_id = ''new'', cr_state = ''running''\<rparr>" "''old''" False]
    respawn_decision [of "Some \<lparr>cr_id = ''new'', cr_state = ''restarting''\<rparr>" "''old''" True]
  by auto

text \<open>The states a wait for a container of that name goes through: a look at the list, a sleep, and again.\<close>

inductive waits :: "'d daemon \<Rightarrow> string \<Rightarrow> 'd \<Rightarrow> 'd \<Rightarrow> bool" for D name where
  here: "waits D name d d"
| poll: "ContainerList D Caller name d = (a, d1) \<Longrightarrow> SleepOrDone D systemdRespawnPoll d1 = (None, d2)
    \<Longrightarrow> waits D name d2 d' \<Longrightarrow> waits D name d d'"

lemma findContainerByName_list:
  "findContainerByName D name d = (r, d') \<Longrightarrow> \<exists>a. ContainerList D Caller name d = (a, d')"
  by (auto simp: findContainerByName_def split: prod.splits sum.splits)

lemma trimmed_name: "trimPrefix n ''/'' = name \<Longrightarrow> n = ''/'' @ name \<or> n = name"
  by (cases n) (auto simp: trimPrefix_def hasPrefix_iff split: if_splits)

lemma findContainerByName_Some:
  assumes "findContainerByName D name d = (Some c, d')"
  shows "\<exists>cs s. ContainerList D Caller name d = (Inr cs, d') \<and> s \<in> set cs \<and> su_id s = cr_id c \<and> su_state s = cr_state c
    \<and> (''/'' @ name \<in> set (su_names s) \<or> name \<in> set (su_names s))"
proof -
  from assms obtain cs s where s: "ContainerList D Caller name d = (Inr cs, d')"
    "find (\<lambda>c. exactNameMatch (su_names c) name) cs = Some s" "c = \<lparr>cr_id = su_id s, cr_state = su_state s\<rparr>"
    by (auto simp: findContainerByName_def split: prod.splits sum.splits)
  from s(2) have "s \<in> set cs" "exactNameMatch (su_names s) name" by (auto simp: find_Some_iff)
  then obtain n where "n \<in> set (su_names s)" "n = ''/'' @ name \<or> n = name"
    unfolding exactNameMatch_def using trimmed_name by blast
  with s \<open>s \<in> set cs\<close> show ?thesis by (intro exI [of _ cs] exI [of _ s]) auto
qed

lemma awaitRespawn_success:
  "awaitRespawn D fuel oldID name unit imageBefore img deadline d = Some (None, d') \<Longrightarrow>
   \<exists>d1 d2 c. waits D name d d1 \<and> findContainerByName D name d1 = (Some c, d2) \<and> cr_id c \<noteq> oldID \<and> cr_state c = ''running''
     \<and> verifyRespawnImage D (cr_id c) imageBefore img d2 = (None, d')"
proof (induction D fuel oldID name unit imageBefore img deadline d rule: awaitRespawn.induct)
  case (2 D fuel oldID name unit imageBefore img deadline d)
  obtain found d1 where f: "findContainerByName D name d = (found, d1)" by fastforce
  let ?out = "decideRespawnOutcome found oldID (\<not> Now D d1 < deadline)"
  show ?case
  proof (cases "ro_done ?out")
    case True
    with 2(2) f have ok: "ro_ok ?out" and v: "verifyRespawnImage D (ro_id ?out) imageBefore img d1 = (None, d')"
      by (auto simp: Let_def split: if_splits)
    from ok obtain c where c: "found = Some c" "cr_id c \<noteq> oldID" "cr_state c = ''running''" "ro_id ?out = cr_id c"
      by (cases found) (auto simp: decideRespawnOutcome_def classifyRespawn_def split: if_splits)
    with f v waits.here show ?thesis by metis
  next
    case False
    obtain w d2 where w: "SleepOrDone D systemdRespawnPoll d1 = (w, d2)" by fastforce
    have step: "awaitRespawn D (Suc fuel) oldID name unit imageBefore img deadline d = (case w of
        Some e \<Rightarrow> Some (Some e, d2)
      | None \<Rightarrow> awaitRespawn D fuel oldID name unit imageBefore img deadline d2)"
      by (subst awaitRespawn.simps) (simp add: f w False Let_def del: awaitRespawn.simps)
    have rest: "awaitRespawn D fuel oldID name unit imageBefore img deadline d2 = Some (None, d')" and none: "w = None"
      using 2(2) unfolding step by (cases w; simp)+
    obtain a where a: "ContainerList D Caller name d = (a, d1)" using findContainerByName_list [OF f] ..
    from 2(1) [OF f [symmetric] refl refl False w [symmetric] none rest] waits.poll [OF a w [unfolded none]]
    show ?thesis by metis
  qed
qed simp


section \<open>What the whole flow keeps\<close>

lemma restore_keeps: "ops_keep D P \<Longrightarrow> P d \<Longrightarrow> P (restore D cid name renamed run d)"
  by (simp add: restore_def Let_def ops_keep_snd)

lemma startReplacement_keeps:
  assumes "ops_keep D P" and "P d" and "startReplacement D o' n w j d = (out, d')"
  shows "P d'"
proof -
  obtain r d1 where st: "ContainerStart D Caller j d = (r, d1)" by fastforce
  have "P d1" by (rule ops_keepD(5) [OF assms(1,2) st])
  with assms(1,3) st show ?thesis
    by (cases r) (auto simp: startReplacement_def Let_def intro: restore_keeps ops_keep_snd)
qed

lemma createReplacement_keeps:
  assumes "ops_keep D P" and "progress_keeps p P" and "P d" and "createReplacement D p insp n w img d = (out, d')"
  shows "P d'"
proof (cases "in_config insp")
  case None
  then show ?thesis using assms report_keeps by (auto simp: createReplacement_def Let_def)
next
  case (Some cfg)
  obtain r d1 where c: "ContainerCreate D Caller (cfg\<lparr>cfg_image := img\<rparr>) (sanitizeHostConfig (in_host insp))
      (buildNetworkingConfig (in_networks insp)) n (report p ''recreating'' (-1) d) = (r, d1)" by fastforce
  have "P d1" by (rule ops_keepD(4) [OF assms(1) report_keeps [OF assms(2,3)] c])
  with assms(1,4) c Some startReplacement_keeps show ?thesis
    by (cases r) (auto simp: createReplacement_def Let_def restore_keeps)
qed

lemma replaceStopped_keeps:
  assumes "ops_keep D P" and "progress_keeps p P" and "P d" and "replaceStopped D p insp n w img d = (out, d')"
  shows "P d'"
proof -
  obtain r d1 where rn: "ContainerRename D Caller (in_id insp) (backupName n (Now D d - unixEpoch)) d = (r, d1)" by fastforce
  have "P d1" by (rule ops_keepD(3) [OF assms(1,3) rn])
  with assms rn createReplacement_keeps [OF assms(1,2)] show ?thesis
    by (cases r) (auto simp: replaceStopped_def restore_keeps)
qed

lemma recreateDirect_keeps:
  assumes "ops_keep D P" and "progress_keeps p P" and "P d" and "recreateDirect D p insp img d = (out, d')"
  shows "P d'"
proof (cases "wasRunningOf insp")
  case True
  obtain r d1 where st: "ContainerStop D Caller (in_id insp) stopTimeoutSeconds d = (r, d1)" by fastforce
  have "P d1" by (rule ops_keepD(2) [OF assms(1,3) st])
  with assms(4) st True replaceStopped_keeps [OF assms(1,2)] show ?thesis
    by (cases r) (auto simp: recreateDirect_def Let_def)
qed (use assms replaceStopped_keeps [OF assms(1-3)] in \<open>auto simp: recreateDirect_def Let_def\<close>)

lemma findContainerByName_keeps:
  "ops_keep D P \<Longrightarrow> P d \<Longrightarrow> findContainerByName D name d = (r, d') \<Longrightarrow> P d'"
  using findContainerByName_list ops_keepD(7) by metis

lemma verifyRespawnImage_keeps:
  assumes "ops_keep D P" and "P d" and "verifyRespawnImage D i b img d = (r, d')"
  shows "P d'"
proof -
  obtain a d1 where a: "ContainerInspect D Caller i d = (a, d1)" by fastforce
  have "P d1" by (rule ops_keepD(1) [OF assms(1,2) a])
  with assms a show ?thesis by (cases a) (auto simp: verifyRespawnImage_def split: if_splits)
qed

lemma awaitRespawn_keeps:
  assumes keep: "ops_keep D P"
  shows "P d \<Longrightarrow> awaitRespawn D fuel o' name unit b img deadline d = Some (r, d') \<Longrightarrow> P d'"
proof (induction fuel arbitrary: d)
  case (Suc fuel)
  obtain found d1 where f: "findContainerByName D name d = (found, d1)" by fastforce
  have 1: "P d1" by (rule findContainerByName_keeps [OF keep Suc.prems(1) f])
  obtain w d2 where w: "SleepOrDone D systemdRespawnPoll d1 = (w, d2)" by fastforce
  have 2: "P d2" by (rule ops_keepD(13) [OF keep 1 w])
  from Suc.prems(2) f w 1 2 Suc.IH verifyRespawnImage_keeps [OF keep] show ?case
    by (cases w) (auto simp: Let_def simp del: awaitRespawn.simps(1) split: if_splits)
qed simp

lemma recreateSystemdManaged_keeps:
  assumes "ops_keep D P" and "progress_keeps p P" and "P d"
    and "recreateSystemdManaged D fuel insp img unit p d = Some (r, d')"
  shows "P d'"
proof -
  obtain q d1 where st: "ContainerStop D Caller (in_id insp) stopTimeoutSeconds (report p ''recreating'' (-1) d) = (q, d1)"
    by fastforce
  have "P d1" by (rule ops_keepD(2) [OF assms(1) report_keeps [OF assms(2,3)] st])
  with assms(3,4) st awaitRespawn_keeps [OF assms(1)] show ?thesis
    by (cases q) (auto simp: recreateSystemdManaged_def Let_def simp del: awaitRespawn.simps split: if_splits)
qed

lemma serviceStatus_keeps: "ops_keep D P \<Longrightarrow> P d \<Longrightarrow> serviceStatus D i d = (r, d') \<Longrightarrow> P d'"
  using ops_keepD(10) by (auto simp: serviceStatus_def split: prod.splits sum.splits option.splits)

lemma rollbackService_keeps: "ops_keep D P \<Longrightarrow> P d \<Longrightarrow> rollbackService D svc img d = (r, d') \<Longrightarrow> P d'"
  using ops_keepD(12) by (auto simp: rollbackService_def split: prod.splits option.splits)

lemma convergeStep_keeps:
  assumes "ops_keep D P" and "P d" and "convergeStep D svc img deadline d = (r, d')"
  shows "P d'"
proof -
  obtain a d1 where a: "serviceStatus D (sw_id svc) d = (a, d1)" by fastforce
  have 1: "P d1" by (rule serviceStatus_keeps [OF assms(1,2) a])
  obtain b d2 where b: "ServiceInspect D Caller (sw_id svc) d1 = (b, d2)" by fastforce
  have 2: "P d2" by (rule ops_keepD(11) [OF assms(1) 1 b])
  from assms(3) a b 1 2 rollbackService_keeps [OF assms(1) 2] show ?thesis
    by (auto simp: convergeStep_def Let_def split: sum.splits prod.splits convergenceState.splits)
qed

lemma converge_keeps:
  assumes keep: "ops_keep D P"
  shows "P d \<Longrightarrow> converge D fuel svc img deadline d = Some (r, d') \<Longrightarrow> P d'"
proof (induction fuel arbitrary: d)
  case (Suc fuel)
  obtain q d1 where q: "convergeStep D svc img deadline d = (q, d1)" by fastforce
  have 1: "P d1" by (rule convergeStep_keeps [OF keep Suc.prems(1) q])
  obtain w d2 where w: "SleepOrDone D serviceConvergePoll d1 = (w, d2)" by fastforce
  have 2: "P d2" by (rule ops_keepD(13) [OF keep 1 w])
  from Suc.prems(2) q w 1 2 Suc.IH show ?case by (cases q; cases w) auto
qed simp

lemma updateService_keeps:
  assumes "ops_keep D P" and "progress_keeps p P" and "P d" and "updateService D fuel i img p d = Some (r, d')"
  shows "P d'"
proof -
  obtain a d1 where a: "ServiceInspect D Caller i d = (a, d1)" by fastforce
  have 1: "P d1" by (rule ops_keepD(11) [OF assms(1,3) a])
  show ?thesis
  proof (cases "\<exists>svc cs. a = Inr svc \<and> ss_container (sw_spec svc) = Some cs")
    case False
    with assms(4) a 1 show ?thesis by (auto simp: updateService_def split: sum.splits option.splits)
  next
    case True
    then obtain svc cs where svc: "a = Inr svc" "ss_container (sw_spec svc) = Some cs" by blast
    obtain w d2 where w: "pullImage D img p d1 = (w, d2)" by fastforce
    have 2: "P d2" by (rule pullImage_keeps [OF assms(1,2) 1 w])
    obtain v d3 where v: "ServiceUpdate D Caller (sw_id svc) (sw_version svc) (targetSpec svc cs img)
        \<lparr>suo_queryRegistry = True, suo_registryAuthFrom = ''spec'', suo_rollback = []\<rparr> (report p ''updating'' (-1) d2) = (v, d3)"
      by fastforce
    have 3: "P d3" by (rule ops_keepD(12) [OF assms(1) report_keeps [OF assms(2) 2] v])
    from assms(4) a svc w v 2 3 converge_keeps [OF assms(1) 3] show ?thesis
      by (cases w; cases v) (auto simp: updateService_def simp del: converge.simps)
  qed
qed

lemma of_error_Some: "of_error r = Some (out, d') \<Longrightarrow> \<exists>e. r = Some (e, d')"
  by (auto simp: of_error_def)

lemma recreateContainer_keeps:
  assumes "ops_keep D P" and "progress_keeps p P" and "P d" and "recreateContainer D fuel cid img p d = Some (out, d')"
  shows "P d'"
proof -
  obtain a d1 where a: "ContainerInspect D Caller cid d = (a, d1)" by fastforce
  have 1: "P d1" by (rule ops_keepD(1) [OF assms(1,3) a])
  obtain w d2 where w: "pullImage D img p d1 = (w, d2)" by fastforce
  have 2: "P d2" by (rule pullImage_keeps [OF assms(1,2) 1 w])
  show ?thesis
  proof (cases a)
    case (Inr insp)
    with assms(4) a w 2 recreateSystemdManaged_keeps [OF assms(1,2) 2] updateService_keeps [OF assms(1,2) 2]
      recreateDirect_keeps [OF assms(1,2) 2] show ?thesis
      by (cases w) (auto simp: recreateContainer_def Let_def dest!: of_error_Some split: if_splits)
  qed (use assms(4) a 1 in \<open>simp add: recreateContainer_def\<close>)
qed

text \<open>Docker's inspect always has the configuration; then no update panics.\<close>

definition inspects_config :: "'d daemon \<Rightarrow> bool" where
  "inspects_config D \<longleftrightarrow> (\<forall>cx i d insp d'. ContainerInspect D cx i d = (Inr insp, d') \<longrightarrow> in_config insp \<noteq> None)"

lemma recreateContainer_no_panic:
  assumes "inspects_config D" and "recreateContainer D fuel cid img p d = Some (out, d')"
  shows "out \<noteq> Panicked"
proof -
  obtain a d1 where a: "ContainerInspect D Caller cid d = (a, d1)" by fastforce
  obtain w d2 where w: "pullImage D img p d1 = (w, d2)" by fastforce
  have direct: "fst (recreateDirect D p insp img d2) \<noteq> Panicked" if "a = Inr insp" for insp
  proof -
    from assms(1) a that obtain cfg where "in_config insp = Some cfg" unfolding inspects_config_def by blast
    then show ?thesis
      by (auto simp: recreateDirect_def replaceStopped_def createReplacement_def startReplacement_def Let_def
          split: prod.split option.split sum.split)
  qed
  have err: "of_error r \<noteq> Some (Panicked, d')" for r
    by (auto simp: of_error_def split: option.splits)
  show ?thesis
  proof (cases a)
    case (Inr insp)
    then show ?thesis using assms(2) a w direct [OF Inr] err
      by (cases w) (auto simp: recreateContainer_def Let_def split: if_splits)
  qed (use assms(2) a in \<open>auto simp: recreateContainer_def\<close>)
qed

section \<open>Every update ends\<close>

lemma awaitRespawn_ends:
  assumes clock: "clock_runs D"
  shows "deadline - Now D d \<le> int n * systemdRespawnPoll \<Longrightarrow>
    awaitRespawn D (Suc n) oldID name unit imageBefore img deadline d \<noteq> None"
proof (induction n arbitrary: d)
  case (0 d)
  obtain found d1 where f: "findContainerByName D name d = (found, d1)" by fastforce
  obtain a d0 where a: "ContainerList D Caller name d = (a, d0)" by fastforce
  with f have "d1 = d0" by (auto simp: findContainerByName_def split: sum.splits)
  with a clock have "Now D d1 \<ge> Now D d" unfolding clock_runs_def by metis
  with 0 have "\<not> Now D d1 < deadline" by simp
  then have "ro_done (decideRespawnOutcome found oldID (\<not> Now D d1 < deadline))"
    by (simp add: decideRespawnOutcome_def)
  then show ?case using f by (simp add: Let_def)
next
  case (Suc n d)
  obtain found d1 where f: "findContainerByName D name d = (found, d1)" by fastforce
  obtain w d2 where w: "SleepOrDone D systemdRespawnPoll d1 = (w, d2)" by fastforce
  obtain a d0 where a: "ContainerList D Caller name d = (a, d0)" by fastforce
  with f have "d1 = d0" by (auto simp: findContainerByName_def split: sum.splits)
  with a clock have "Now D d1 \<ge> Now D d" unfolding clock_runs_def by metis
  moreover have "w = None \<Longrightarrow> Now D d2 \<ge> Now D d1 + systemdRespawnPoll"
    using clock w unfolding clock_runs_def by metis
  ultimately have "w = None \<Longrightarrow> deadline - Now D d2 \<le> int n * systemdRespawnPoll"
    using Suc.prems by (simp add: algebra_simps)
  then have "w = None \<Longrightarrow> awaitRespawn D (Suc n) oldID name unit imageBefore img deadline d2 \<noteq> None"
    by (rule Suc.IH)
  then show ?case
    by (subst awaitRespawn.simps) (cases w, auto simp: f w Let_def simp del: awaitRespawn.simps)
qed

lemma of_error_None [simp]: "of_error r = None \<longleftrightarrow> r = None"
  by (simp add: of_error_def)

text \<open>C24: with a running clock and a daemon that answers for the services it updates, an update of any container ends:
  fuel for 181 polls (the 90 seconds of a respawn at two polls a second, which also covers the 151 of a rollout)
  is enough.  To answer for a service is to keep it in the list from the accepted update on and not to call it
  completed while it is short of tasks; nothing is asked about services the daemon does not have.\<close>

theorem recreateContainer_ends:
  assumes "clock_runs D" and "answers_for D ready known" and "progress_keeps p ready" and "ready d" and "181 \<le> fuel"
  shows "recreateContainer D fuel cid img p d \<noteq> None"
proof -
  note keep = answers_forD(1) [OF assms(2)]
  obtain n where n: "fuel = Suc n" "180 \<le> n" using assms(5) by (cases fuel) auto
  have sys: "recreateSystemdManaged D fuel insp img unit p d \<noteq> None" for insp unit d
  proof -
    have "awaitRespawn D (Suc n) o' m u b i (Now D x + systemdRespawnTimeout) x \<noteq> None" for o' m u b i x
      by (rule awaitRespawn_ends [OF assms(1)]) (use n(2) in \<open>simp add: systemdRespawnTimeout_def systemdRespawnPoll_def\<close>)
    then show ?thesis
      unfolding recreateSystemdManaged_def n(1)
      by (auto simp: Let_def simp del: awaitRespawn.simps split: option.split prod.split)
  qed
  obtain a d1 where a: "ContainerInspect D Caller cid d = (a, d1)" by fastforce
  have 1: "ready d1" by (rule ops_keepD(1) [OF keep assms(4) a])
  obtain w d2 where w: "pullImage D img p d1 = (w, d2)" by fastforce
  have 2: "ready d2" by (rule pullImage_keeps [OF keep assms(3) 1 w])
  have svc: "updateService D fuel i img p d2 \<noteq> None" for i
    using updateService_ends [OF assms(1-3) 2] assms(5) by simp
  show ?thesis
  proof (cases a)
    case (Inr insp)
    then show ?thesis using a w sys svc
      by (cases w) (simp_all add: recreateContainer_def Let_def del: not_None_eq)
  qed (use a in \<open>simp add: recreateContainer_def\<close>)
qed

end
