(* ===== verification/FakeDaemon.thy ===== *)
theory FakeDaemon
  imports RecreateProps "HOL-Library.AList"
begin

text \<open>
  The daemon of the repository's own tests, \<open>fakeDaemon\<close> of \<open>internal/dockerx/recreate_test.go\<close>: a
  host with containers and swarm services, and a switch for every call that should fail.  It is the
  provider the contract \<open>container_daemon\<close> is interpreted on, and the daemon on which the properties
  of the update flow are applied to concrete updates.

  The maps of the fake are association lists (Go's iteration order is arbitrary); the mutex, and what
  the fake only records for the tests to look at besides \<open>actions\<close>, are left out.  The fake runs on
  the machine's clock; here the state carries one, in nanoseconds, which sleeping advances.
\<close>

section \<open>The state\<close>

record fakeContainer =
  fc_id :: string
  fc_name :: string
  fc_image :: string
  fc_ref :: string
  fc_running :: bool
  fc_state :: string
  fc_labels :: labels
  fc_removed :: bool

record fakeService =
  fs_id :: string
  fs_name :: string
  fs_image :: string
  fs_spec :: serviceSpec
  fs_version :: nat
  fs_running :: nat
  fs_desired :: nat
  fs_updateState :: string
  fs_convergeAfter :: nat
  fs_inspections :: nat
  fs_rollbackOnUpdate :: bool

record fake =
  fk_containers :: "(string \<times> fakeContainer) list"
  fk_nextID :: nat
  fk_actions :: "string list"
  fk_services :: "(string \<times> fakeService) list"
  fk_clock :: gotime

text \<open>The switches.\<close>

record fakeConfig =
  fg_failRenameAt :: string
  fg_failCreate :: bool
  fg_failStartAt :: string
  fg_pullErr :: "err option"
  fg_onStop :: "(fake \<Rightarrow> fake) option"
  fg_pulledImageID :: string
  fg_failServiceAPI :: "err option"
  fg_failServiceUpd :: "err option"

definition record_action :: "string \<Rightarrow> fake \<Rightarrow> fake" where
  "record_action a d = d\<lparr>fk_actions := fk_actions d @ [a]\<rparr>"

definition alive :: "fake \<Rightarrow> string \<Rightarrow> fakeContainer option" where
  "alive d i = (case map_of (fk_containers d) i of
      None \<Rightarrow> None | Some c \<Rightarrow> if fc_removed c then None else Some c)"

definition put_fake :: "string \<Rightarrow> fakeContainer \<Rightarrow> fake \<Rightarrow> fake" where
  "put_fake i c d = d\<lparr>fk_containers := AList.update i c (fk_containers d)\<rparr>"

definition newFakeID :: "nat \<Rightarrow> string" where
  "newFakeID n = ''new'' @ natText n"

definition noSuchContainer :: "string \<Rightarrow> err" where
  "noSuchContainer i = errors_new (''no such container: '' @ i)"

section \<open>Containers\<close>

definition stateOr :: "fakeContainer \<Rightarrow> string" where
  "stateOr c = (if fc_state c \<noteq> [] then fc_state c else if fc_running c then ''running'' else ''exited'')"

definition fakeHostConfig :: hostConfig where
  "fakeHostConfig = \<lparr>hc_swappiness = None, hc_autoRemove = False, hc_networkMode = [], hc_binds = [],
     hc_groupAdd = [], hc_mounts = [], hc_restartPolicy = [], hc_rest = []\<rparr>"

definition fakeInspect :: "callCtx \<Rightarrow> string \<Rightarrow> fake \<Rightarrow> (err + inspect) \<times> fake" where
  "fakeInspect cx i d =
     (case alive d i of
        None \<Rightarrow> (Inl (noSuchContainer i), d)
      | Some c \<Rightarrow>
          (Inr \<lparr>in_id = fc_id c, in_name = ''/'' @ fc_name c, in_image = fc_image c,
              in_state = Some \<lparr>st_running = fc_running c, st_startedAt = []\<rparr>,
              in_config = Some \<lparr>cfg_image = fc_ref c, cfg_labels = fc_labels c, cfg_env = [], cfg_rest = []\<rparr>,
              in_host = Some fakeHostConfig, in_networks = None, in_mounts = []\<rparr>, d))"

definition fakeStop :: "fakeConfig \<Rightarrow> callCtx \<Rightarrow> string \<Rightarrow> int \<Rightarrow> fake \<Rightarrow> err option \<times> fake" where
  "fakeStop g cx i t d =
     (case alive d i of
        None \<Rightarrow> (Some (noSuchContainer i), d)
      | Some c \<Rightarrow>
          (let d1 = put_fake i (c\<lparr>fc_running := False, fc_state := ''exited''\<rparr>)
                      (record_action (''stop:'' @ fc_name c) d)
           in (None, case fg_onStop g of None \<Rightarrow> d1 | Some hook \<Rightarrow> hook d1)))"

definition fakeRename :: "fakeConfig \<Rightarrow> callCtx \<Rightarrow> string \<Rightarrow> string \<Rightarrow> fake \<Rightarrow> err option \<times> fake" where
  "fakeRename g cx i n d =
     (if i = fg_failRenameAt g then (Some (errors_new ''rename refused''), d)
      else (case alive d i of
              None \<Rightarrow> (Some (noSuchContainer i), d)
            | Some c \<Rightarrow>
                (None, put_fake i (c\<lparr>fc_name := n\<rparr>)
                         (record_action (''rename:'' @ fc_name c @ ''->'' @ n) d))))"

definition fakeCreate ::
  "fakeConfig \<Rightarrow> callCtx \<Rightarrow> config \<Rightarrow> hostConfig option \<Rightarrow> networks option \<Rightarrow> string \<Rightarrow> fake
     \<Rightarrow> (err + string) \<times> fake" where
  "fakeCreate g cx cfg hc nets n d =
     (if fg_failCreate g then (Inl (errors_new ''create refused''), d)
      else
        let i = newFakeID (fk_nextID d + 1)
        in (Inr i, record_action (''create:'' @ n)
              (put_fake i \<lparr>fc_id = i, fc_name = n, fc_image = ''sha256:created'', fc_ref = cfg_image cfg,
                 fc_running = False, fc_state = [], fc_labels = [], fc_removed = False\<rparr>
                 (d\<lparr>fk_nextID := fk_nextID d + 1\<rparr>))))"

definition fakeStart :: "fakeConfig \<Rightarrow> callCtx \<Rightarrow> string \<Rightarrow> fake \<Rightarrow> err option \<times> fake" where
  "fakeStart g cx i d =
     (if i = fg_failStartAt g then (Some (errors_new ''start refused''), d)
      else (case alive d i of
              None \<Rightarrow> (Some (noSuchContainer i), d)
            | Some c \<Rightarrow>
                (None, put_fake i (c\<lparr>fc_running := True, fc_state := ''running''\<rparr>)
                         (record_action (''start:'' @ fc_name c) d))))"

definition fakeRemove :: "callCtx \<Rightarrow> string \<Rightarrow> fake \<Rightarrow> err option \<times> fake" where
  "fakeRemove cx i d =
     (case map_of (fk_containers d) i of
        None \<Rightarrow> (None, d)
      | Some c \<Rightarrow> (None, put_fake i (c\<lparr>fc_removed := True\<rparr>) (record_action (''remove:'' @ fc_name c) d)))"

definition fakeList :: "callCtx \<Rightarrow> string \<Rightarrow> fake \<Rightarrow> (err + summary list) \<times> fake" where
  "fakeList cx n d =
     (Inr (map (\<lambda>(_, c). \<lparr>su_id = fc_id c, su_names = [''/'' @ fc_name c], su_state = stateOr c\<rparr>)
            (filter (\<lambda>(_, c). \<not> fc_removed c) (fk_containers d))), d)"

definition fakePull :: "fakeConfig \<Rightarrow> callCtx \<Rightarrow> string \<Rightarrow> fake \<Rightarrow> (err + pullMessage list) \<times> fake" where
  "fakePull g cx ref d =
     (case fg_pullErr g of
        Some e \<Rightarrow> (Inl e, d)
      | None \<Rightarrow> (Inr [\<lparr>pm_id = [], pm_error = [], pm_errorDetail = [], pm_current = 0, pm_total = 0\<rparr>], d))"

definition fakeImageInspect :: "fakeConfig \<Rightarrow> callCtx \<Rightarrow> string \<Rightarrow> fake \<Rightarrow> (err + string) \<times> fake" where
  "fakeImageInspect g cx i d =
     (if fg_pulledImageID g = [] then (Inl (errors_new (''no such image: '' @ i)), d)
      else (Inr (fg_pulledImageID g), d))"

text \<open>\<open>respawning\<close>: the hook that plays a systemd unit.  The first stopped container is removed and a
  fresh one comes up under its name.\<close>

definition respawning :: "string \<Rightarrow> string \<Rightarrow> fake \<Rightarrow> fake" where
  "respawning imageID state d =
     (case find (\<lambda>(_, c). \<not> fc_removed c \<and> \<not> fc_running c) (fk_containers d) of
        None \<Rightarrow> d
      | Some (k, c) \<Rightarrow>
          (let i = newFakeID (fk_nextID d + 1)
           in put_fake i \<lparr>fc_id = i, fc_name = fc_name c, fc_image = imageID, fc_ref = fc_ref c,
                fc_running = (state = ''running''), fc_state = state, fc_labels = [], fc_removed = False\<rparr>
                (put_fake k (c\<lparr>fc_removed := True\<rparr>) (d\<lparr>fk_nextID := fk_nextID d + 1\<rparr>))))"

section \<open>Services\<close>

definition fakeServiceView :: "fakeService \<Rightarrow> service" where
  "fakeServiceView s =
     (let cs = (case ss_container (fs_spec s) of None \<Rightarrow> \<lparr>cs_image = [], cs_rest = []\<rparr> | Some c \<Rightarrow> c)
      in \<lparr>sw_id = fs_id s, sw_version = fs_version s,
          sw_spec = (fs_spec s)\<lparr>ss_name := fs_name s, ss_container := Some (cs\<lparr>cs_image := fs_image s\<rparr>)\<rparr>,
          sw_tasks = Some (fs_running s, fs_desired s),
          sw_update = (if fs_updateState s \<noteq> [] then Some (fs_updateState s) else None)\<rparr>)"

definition fakeServiceInspect :: "fakeConfig \<Rightarrow> callCtx \<Rightarrow> string \<Rightarrow> fake \<Rightarrow> (err + service) \<times> fake" where
  "fakeServiceInspect g cx i d =
     (case fg_failServiceAPI g of
        Some e \<Rightarrow> (Inl e, d)
      | None \<Rightarrow>
          (case map_of (fk_services d) i of
             None \<Rightarrow> (Inl (errors_new (''no such service: '' @ i)), d)
           | Some s \<Rightarrow> (Inr (fakeServiceView s), d)))"

definition specImage :: "serviceSpec \<Rightarrow> string" where
  "specImage spec = (case ss_container spec of None \<Rightarrow> [] | Some c \<Rightarrow> cs_image c)"

definition rolled_back :: "fakeService \<Rightarrow> fakeService" where
  "rolled_back s = s\<lparr>fs_updateState := ''rollback_completed'', fs_running := fs_desired s\<rparr>"

definition put_service :: "string \<Rightarrow> fakeService \<Rightarrow> fake \<Rightarrow> fake" where
  "put_service i s d = d\<lparr>fk_services := AList.update i s (fk_services d)\<rparr>"

definition fakeServiceUpdate ::
  "fakeConfig \<Rightarrow> callCtx \<Rightarrow> string \<Rightarrow> nat \<Rightarrow> serviceSpec \<Rightarrow> serviceUpdateOptions \<Rightarrow> fake \<Rightarrow> err option \<times> fake" where
  "fakeServiceUpdate g cx i version spec options d =
     (case fg_failServiceAPI g of
        Some e \<Rightarrow> (Some e, d)
      | None \<Rightarrow>
          (case fg_failServiceUpd g of
             Some e \<Rightarrow> (Some e, d)
           | None \<Rightarrow>
               (case map_of (fk_services d) i of
                  None \<Rightarrow> (Some (errors_new (''no such service: '' @ i)), d)
                | Some s \<Rightarrow>
                    if suo_rollback options = ''previous''
                    then (None, put_service i (rolled_back s) (record_action (''service-rollback:'' @ fs_name s) d))
                    else
                      let s1 = s\<lparr>fs_spec := spec, fs_image := specImage spec, fs_version := version + 1,
                                 fs_running := 0, fs_inspections := 0, fs_updateState := ''updating''\<rparr>
                      in (None, put_service i (if fs_rollbackOnUpdate s1 then rolled_back s1 else s1)
                            (record_action (''service-update:'' @ fs_name s @ ''->'' @ specImage spec) d)))))"

definition advance_rollout :: "fakeService \<Rightarrow> fakeService" where
  "advance_rollout s =
     (if fs_updateState s = ''updating''
      then (let s1 = (if fs_inspections s \<ge> fs_convergeAfter s
                      then s\<lparr>fs_updateState := ''completed'', fs_running := fs_desired s\<rparr> else s)
            in s1\<lparr>fs_inspections := fs_inspections s + 1\<rparr>)
      else s)"

definition fakeServiceList :: "fakeConfig \<Rightarrow> callCtx \<Rightarrow> string \<Rightarrow> fake \<Rightarrow> (err + service list) \<times> fake" where
  "fakeServiceList g cx i d =
     (case fg_failServiceAPI g of
        Some e \<Rightarrow> (Inl e, d)
      | None \<Rightarrow>
          (let ss = map (\<lambda>(k, s). (k, advance_rollout s)) (fk_services d)
           in (Inr (map (\<lambda>(_, s). fakeServiceView s) ss), d\<lparr>fk_services := ss\<rparr>)))"

section \<open>The daemon\<close>

definition fakeDaemon :: "fakeConfig \<Rightarrow> fake daemon" where
  "fakeDaemon g = \<lparr>ContainerInspect = fakeInspect, ContainerStop = fakeStop g, ContainerRename = fakeRename g,
     ContainerCreate = fakeCreate g, ContainerStart = fakeStart g, ContainerRemove = fakeRemove,
     ContainerList = fakeList, ImagePull = fakePull g, ImageInspect = fakeImageInspect g,
     ServiceList = fakeServiceList g, ServiceInspect = fakeServiceInspect g,
     ServiceUpdate = fakeServiceUpdate g, Now = fk_clock,
     SleepOrDone = (\<lambda>t d. (None, d\<lparr>fk_clock := fk_clock d + t\<rparr>))\<rparr>"

text \<open>The switches all off, and a host with one container (\<open>newFakeDaemon\<close>).\<close>

definition fakeOk :: fakeConfig where
  "fakeOk = \<lparr>fg_failRenameAt = [], fg_failCreate = False, fg_failStartAt = [], fg_pullErr = None,
     fg_onStop = None, fg_pulledImageID = [], fg_failServiceAPI = None, fg_failServiceUpd = None\<rparr>"

definition baseContainer :: "string \<Rightarrow> string \<Rightarrow> string \<Rightarrow> string \<Rightarrow> bool \<Rightarrow> fakeContainer" where
  "baseContainer i name ref imageID run = \<lparr>fc_id = i, fc_name = name, fc_image = imageID, fc_ref = ref,
     fc_running = run, fc_state = [], fc_labels = [], fc_removed = False\<rparr>"

definition newFakeDaemon :: "fakeContainer \<Rightarrow> fake" where
  "newFakeDaemon c = \<lparr>fk_containers = [(fc_id c, c)], fk_nextID = 0, fk_actions = [], fk_services = [], fk_clock = 0\<rparr>"

section \<open>The fake keeps the contract\<close>

definition fake_good :: "fake \<Rightarrow> bool" where
  "fake_good d \<longleftrightarrow> distinct (map fst (fk_containers d)) \<and> (\<forall>i c. map_of (fk_containers d) i = Some c \<longrightarrow> fc_id c = i)
     \<and> (\<forall>n > fk_nextID d. map_of (fk_containers d) (newFakeID n) = None)"

definition container_view :: "fakeContainer \<Rightarrow> cview" where
  "container_view c = \<lparr>cv_name = fc_name c, cv_running = fc_running c, cv_image = fc_image c\<rparr>"

definition fake_view :: "fake \<Rightarrow> string \<Rightarrow> cview option" where
  "fake_view d i = map_option container_view (alive d i)"

definition quiet :: "fakeConfig \<Rightarrow> fakeConfig" where
  "quiet g = g\<lparr>fg_onStop := None\<rparr>"

lemma record_action_sel [simp]:
  "fk_containers (record_action a d) = fk_containers d" "fk_nextID (record_action a d) = fk_nextID d"
  by (simp_all add: record_action_def)

lemma put_fake_sel [simp]:
  "map_of (fk_containers (put_fake i c d)) = (map_of (fk_containers d))(i \<mapsto> c)"
  "fk_nextID (put_fake i c d) = fk_nextID d"
  by (simp_all add: put_fake_def update_conv')

lemma distinct_put [simp]:
  "distinct (map fst (fk_containers d)) \<Longrightarrow> distinct (map fst (fk_containers (put_fake i c d)))"
  by (simp add: put_fake_def distinct_update)

lemma newFakeID_inject [simp]: "newFakeID m = newFakeID n \<longleftrightarrow> m = n"
  by (simp add: newFakeID_def)

lemma alive_put: "alive (put_fake i c d) = (alive d)(i := if fc_removed c then None else Some c)"
  by (auto simp: alive_def fun_eq_iff)

lemma alive_record [simp]: "alive (record_action a d) = alive d"
  by (simp add: alive_def fun_eq_iff)

lemma view_put: "fake_view (put_fake i c d) = (fake_view d)(i := if fc_removed c then None else Some (container_view c))"
  by (auto simp: fake_view_def alive_put fun_eq_iff)

lemma view_record [simp]: "fake_view (record_action a d) = fake_view d"
  by (simp add: fake_view_def fun_eq_iff)

lemma view_nextID [simp]: "fake_view (d\<lparr>fk_nextID := n\<rparr>) = fake_view d"
  by (simp add: fake_view_def alive_def fun_eq_iff)

lemma good_record [simp]: "fake_good (record_action a d) = fake_good d"
  by (simp add: fake_good_def)

lemma alive_map: "alive d i = Some c \<Longrightarrow> map_of (fk_containers d) i = Some c \<and> \<not> fc_removed c"
  by (auto simp: alive_def split: option.splits if_splits)

lemma alive_removed: "alive d i = Some c \<Longrightarrow> fc_removed c \<Longrightarrow> False"
  by (simp add: alive_map)

lemma good_put: "fake_good d \<Longrightarrow> map_of (fk_containers d) i = Some c \<Longrightarrow> fc_id c' = fc_id c \<Longrightarrow> fake_good (put_fake i c' d)"
  by (fastforce simp: fake_good_def)

lemma good_put_alive: "fake_good d \<Longrightarrow> alive d i = Some c \<Longrightarrow> fc_id c' = fc_id c \<Longrightarrow>
    fake_good (put_fake i c' (record_action a d))"
  using good_put [of "record_action a d"] alive_map by fastforce

lemma good_new:
  "fake_good d \<Longrightarrow> fc_id c = newFakeID (fk_nextID d + 1) \<Longrightarrow>
   fake_good (put_fake (newFakeID (fk_nextID d + 1)) c (d\<lparr>fk_nextID := fk_nextID d + 1\<rparr>))"
  by (auto simp: fake_good_def)

lemma good_newFakeDaemon: "(\<And>n. fc_id c \<noteq> newFakeID n) \<Longrightarrow> fake_good (newFakeDaemon c)"
  by (auto simp: fake_good_def newFakeDaemon_def dest: sym)

lemma fake_inspect:
  assumes "fake_good d" and "fakeInspect cx i d = (r, d')"
  shows "fake_good d' \<and> fake_view d' = fake_view d"
    and "r = Inr insp \<Longrightarrow> \<exists>v s. fake_view d (in_id insp) = Some v \<and> in_name insp = ''/'' @ cv_name v
      \<and> in_image insp = cv_image v \<and> in_state insp = Some s \<and> st_running s = cv_running v"
  using assms by (auto simp: fakeInspect_def fake_view_def container_view_def fake_good_def
    split: option.splits dest!: alive_map) (auto simp: alive_def split: option.splits)

lemma fake_stop:
  "fake_good d \<Longrightarrow> fakeStop (quiet g) cx i t d = (None, d') \<Longrightarrow>
     fake_good d' \<and> (\<exists>v. fake_view d i = Some v \<and> fake_view d' = (fake_view d)(i \<mapsto> v\<lparr>cv_running := False\<rparr>))"
  by (auto simp: fakeStop_def quiet_def Let_def view_put container_view_def fake_view_def [of d]
    intro: good_put_alive dest: alive_removed split: option.splits)

lemma fake_rename:
  "fake_good d \<Longrightarrow> fakeRename g cx i n d = (None, d') \<Longrightarrow>
     fake_good d' \<and> (\<exists>v. fake_view d i = Some v \<and> fake_view d' = (fake_view d)(i \<mapsto> v\<lparr>cv_name := n\<rparr>))"
  "fakeRename g cx i n d = (Some e, d') \<Longrightarrow> d' = d"
  by (auto simp: fakeRename_def view_put container_view_def fake_view_def [of d]
    intro: good_put_alive dest: alive_removed split: option.splits if_splits)

lemma fake_start:
  "fake_good d \<Longrightarrow> fakeStart g cx i d = (None, d') \<Longrightarrow>
     fake_good d' \<and> (\<exists>v. fake_view d i = Some v \<and> fake_view d' = (fake_view d)(i \<mapsto> v\<lparr>cv_running := True\<rparr>))"
  "fakeStart g cx i d = (Some e, d') \<Longrightarrow> d' = d"
  by (auto simp: fakeStart_def view_put container_view_def fake_view_def [of d]
    intro: good_put_alive dest: alive_removed split: option.splits if_splits)

lemma fake_remove:
  "fake_good d \<Longrightarrow> fakeRemove cx i d = (r, d') \<Longrightarrow> r = None \<and> fake_good d' \<and> fake_view d' = (fake_view d)(i := None)"
  by (auto simp: fakeRemove_def view_put intro: good_put split: option.splits)
    (auto simp: fake_view_def alive_def fun_eq_iff)

lemma fresh_view [simp]: "fake_good d \<Longrightarrow> fake_view d (newFakeID (Suc (fk_nextID d))) = None"
  by (simp add: fake_view_def alive_def fake_good_def)

lemma fake_create:
  "fake_good d \<Longrightarrow> fakeCreate g cx cfg hc nets n d = (Inr j, d') \<Longrightarrow>
     fake_good d' \<and> fake_view d j = None
     \<and> (\<exists>img. fake_view d' = (fake_view d)(j \<mapsto> \<lparr>cv_name = n, cv_running = False, cv_image = img\<rparr>))"
  "fakeCreate g cx cfg hc nets n d = (Inl e, d') \<Longrightarrow> d' = d"
  by (auto simp: fakeCreate_def Let_def view_put container_view_def intro!: good_new [simplified] split: if_splits)

lemma fake_pull: "fakePull g cx ref d = (ms, d') \<Longrightarrow> d' = d"
  by (auto simp: fakePull_def split: option.splits)

interpretation fake: container_daemon "fakeDaemon (quiet g)" fake_good fake_view for g
proof (unfold_locales, goal_cases)
  case (1 d cx i r d')
  then show ?case using fake_inspect(1) by (simp add: fakeDaemon_def)
next
  case (2 d cx i insp d')
  then show ?case using fake_inspect(2) by (simp add: fakeDaemon_def)
next
  case (8 d cx i d')
  then show ?case using fake_start(1) by (simp add: fakeDaemon_def)
qed (auto simp: fakeDaemon_def dest: fake_stop fake_rename fake_create fake_start fake_remove fake_pull)

end
