(* ===== verification/FakeUpdates.thy ===== *)
theory FakeUpdates
  imports FakeDaemon
begin

text \<open>
  The properties of the update flow applied to concrete updates on the daemon of the tests: the
  scenarios of \<open>recreate_test.go\<close> and \<open>swarm_test.go\<close> (a refused create, a failed pull, a systemd unit
  that comes back, a rollout that converges or is stuck).  Each witness discharges every hypothesis of
  its property for a host and a configuration written out here.
\<close>

section \<open>Hosts\<close>

definition web :: fake where
  "web = newFakeDaemon (baseContainer ''old'' ''web'' ''nginx:1'' ''sha256:a'' True)"

definition web_inspect :: inspect where
  "web_inspect = \<lparr>in_id = ''old'', in_name = ''/web'', in_image = ''sha256:a'',
     in_state = Some \<lparr>st_running = True, st_startedAt = []\<rparr>,
     in_config = Some \<lparr>cfg_image = ''nginx:1'', cfg_labels = [], cfg_env = [], cfg_rest = []\<rparr>,
     in_host = Some fakeHostConfig, in_networks = None, in_mounts = []\<rparr>"

lemmas fake_eval = fakeDaemon_def fakeInspect_def fakeStop_def fakeRename_def fakeCreate_def fakeStart_def
  fakeRemove_def fakeList_def fakePull_def fakeServiceInspect_def fakeServiceUpdate_def fakeServiceList_def
  quiet_def fakeOk_def newFakeDaemon_def baseContainer_def alive_def put_fake_def noSuchContainer_def
  record_action_def put_service_def

lemma good_web: "fake_good web"
  unfolding web_def by (rule good_newFakeDaemon) (simp add: baseContainer_def newFakeID_def)

lemma inspect_web: "ContainerInspect (fakeDaemon g) Caller ''old'' web = (Inr web_inspect, web)"
  by (simp add: fake_eval web_def web_inspect_def)

lemma watches_none: "watches_only good view None"
  by (simp add: watches_only_def)

text \<open>The recovery of a container works unless its own rename or start is switched to fail.\<close>

lemma fake_recovery:
  assumes "cid \<noteq> fg_failRenameAt g" and "cid \<noteq> fg_failStartAt g"
  shows "recovery_works (fakeDaemon (quiet g)) fake_good fake_view cid name"
  using assms
  by (auto simp: recovery_works_def fakeDaemon_def fakeRename_def fakeStart_def fakeRemove_def quiet_def
      fake_view_def split: option.splits)

section \<open>The direct way\<close>

definition createFails :: fakeConfig where
  "createFails = fakeOk\<lparr>fg_failCreate := True\<rparr>"

lemma create_fails_run:
  "\<exists>e d'. recreateDirect (fakeDaemon (quiet createFails)) None web_inspect ''nginx:2'' web = (Failed e, d')"
  by (simp add: recreateDirect_def replaceStopped_def createReplacement_def wasRunningOf_def report_def
      fake_eval createFails_def web_def web_inspect_def trimPrefix_def Let_def)

theorem failed_update_restores_witness:
  "\<exists>e d'. recreateDirect (fakeDaemon (quiet createFails)) None web_inspect ''nginx:2'' web = (Failed e, d')
     \<and> fake_view d' = fake_view web"
proof -
  obtain e d' where run: "recreateDirect (fakeDaemon (quiet createFails)) None web_inspect ''nginx:2'' web = (Failed e, d')"
    using create_fails_run by blast
  have rec: "recovery_works (fakeDaemon (quiet createFails)) fake_good fake_view (in_id web_inspect)
      (trimPrefix (in_name web_inspect) ''/'')"
    by (rule fake_recovery) (simp_all add: createFails_def fakeOk_def web_inspect_def)
  have sole: "sole_name (fake_view web) (in_id web_inspect) (trimPrefix (in_name web_inspect) ''/'')"
    by (simp add: sole_name_def web_def newFakeDaemon_def baseContainer_def fake_view_def alive_def web_inspect_def)
  have stops: "fst (ContainerStop (fakeDaemon (quiet createFails)) Caller (in_id web_inspect) stopTimeoutSeconds web) = None"
    by (simp add: fake_eval web_def web_inspect_def Let_def)
  from failed_update_restores [OF fake.container_daemon_axioms rec watches_none good_web inspect_web sole good_web refl stops run]
    run show ?thesis by blast
qed

definition pullFails :: fakeConfig where
  "pullFails = fakeOk\<lparr>fg_pullErr := Some (errors_new ''manifest unknown'')\<rparr>"

theorem failed_pull_touches_nothing_witness:
  "\<exists>e d'. recreateContainer (fakeDaemon (quiet pullFails)) 0 ''old'' ''nginx:2'' None web = Some (Failed e, d')
     \<and> fake_view d' = fake_view web"
proof (rule failed_pull_touches_nothing [OF fake.container_daemon_axioms watches_none good_web])
  show "case ContainerInspect (fakeDaemon (quiet pullFails)) Caller ''old'' web of
      (Inl _, _) \<Rightarrow> True
    | (Inr _, d1) \<Rightarrow> fst (pullImage (fakeDaemon (quiet pullFails)) ''nginx:2'' None d1) \<noteq> None"
    by (simp add: inspect_web pullImage_def) (simp add: fakeDaemon_def fakePull_def quiet_def pullFails_def)
qed

lemma update_ok_run:
  "\<exists>d'. recreateDirect (fakeDaemon (quiet fakeOk)) None web_inspect ''nginx:2'' web = (Done, d')"
  by (simp add: recreateDirect_def replaceStopped_def createReplacement_def startReplacement_def wasRunningOf_def
      report_def fake_eval web_def web_inspect_def trimPrefix_def newFakeID_def Let_def)



theorem missing_config_panics_after_stop_witness:
  "\<exists>d'. recreateDirect (fakeDaemon fakeOk) None (web_inspect\<lparr>in_config := None\<rparr>) ''nginx:2'' web = (Panicked, d')
     \<and> fake_view d' ''old'' \<noteq> fake_view web ''old''"
proof -
  let ?D = "fakeDaemon fakeOk" and ?i = "web_inspect\<lparr>in_config := None\<rparr>"
  obtain d1 where d1: "ContainerStop ?D Caller ''old'' stopTimeoutSeconds web = (None, d1)"
      "alive d1 ''old'' = Some (baseContainer ''old'' ''web'' ''nginx:1'' ''sha256:a'' False\<lparr>fc_state := ''exited''\<rparr>)"
    by (simp add: fake_eval web_def)
  obtain d2 where d2: "ContainerRename ?D Caller ''old'' (backupName (trimPrefix ''/web'' ''/'') (Now ?D d1 - unixEpoch)) d1 = (None, d2)"
      "\<exists>v. fake_view d2 ''old'' = Some v \<and> \<not> cv_running v"
    using d1(2) by (simp add: fakeDaemon_def fakeRename_def fakeOk_def view_put container_view_def baseContainer_def)
  have "recreateDirect ?D None ?i ''nginx:2'' web = (Panicked, report None ''recreating'' (-1) d2)"
    by (rule missing_config_panics_after_stop [where s = "\<lparr>st_running = True, st_startedAt = []\<rparr>"])
      (use d1 d2 in \<open>simp_all add: web_inspect_def\<close>)
  moreover have "\<exists>v. fake_view web ''old'' = Some v \<and> cv_running v"
    by (simp add: web_def newFakeDaemon_def fake_view_def alive_def baseContainer_def container_view_def)
  ultimately show ?thesis using d2(2) by (auto simp: report_def)
qed

section \<open>Swarm services\<close>

text \<open>A host with a task of the service \<open>api\<close>; the rollout settles at the look after next.\<close>

definition apiService :: fakeService where
  "apiService = \<lparr>fs_id = ''s1'', fs_name = ''api'', fs_image = ''api:1'',
     fs_spec = \<lparr>ss_name = ''api'', ss_container = None, ss_forceUpdate = 0, ss_rest = []\<rparr>, fs_version = 7,
     fs_running = 2, fs_desired = 2, fs_updateState = [], fs_convergeAfter = 1, fs_inspections = 0,
     fs_rollbackOnUpdate = False\<rparr>"

definition taskLabels :: labels where
  "taskLabels = [(''com.docker.swarm.service.id'', ''s1''), (''com.docker.swarm.task.id'', ''t1'')]"

definition swarmHost :: fake where
  "swarmHost = (newFakeDaemon (baseContainer ''task'' ''api.1.x'' ''api:1'' ''sha256:a'' True\<lparr>fc_labels := taskLabels\<rparr>))
     \<lparr>fk_services := [(''s1'', apiService)]\<rparr>"

theorem swarm_task_not_recreated_witness:
  "recreateContainer (with_container_ops (fakeDaemon fakeOk) (fakeDaemon createFails)) 5 ''task'' ''api:2'' None swarmHost
     = recreateContainer (fakeDaemon fakeOk) 5 ''task'' ''api:2'' None swarmHost"
proof -
  obtain insp cfg where i: "ContainerInspect (fakeDaemon fakeOk) Caller ''task'' swarmHost = (Inr insp, swarmHost)"
      "in_config insp = Some cfg" and l: "cfg_labels cfg = taskLabels"
    by (simp add: swarmHost_def fake_eval)
  show ?thesis
    by (rule swarm_task_not_recreated [OF i])
      (simp_all add: l podmanSystemdUnit_def IsSwarmTask_def taskLabels_def label_def)
qed

theorem probe_is_cached_witness:
  "\<exists>cap. probeServices (fakeDaemon fakeOk) SwarmManager \<lparr>cap_checked = zero_time, cap_ok = False\<rparr>
           (swarmHost\<lparr>fk_clock := hour\<rparr>) = (True, cap, swarmHost\<lparr>fk_clock := hour\<rparr>)
     \<and> probeServices (fakeDaemon fakeOk) SwarmManager cap (swarmHost\<lparr>fk_clock := hour + minute\<rparr>)
         = (True, cap, swarmHost\<lparr>fk_clock := hour + minute\<rparr>)"
proof -
  let ?D = "fakeDaemon fakeOk" and ?d = "swarmHost\<lparr>fk_clock := hour\<rparr>"
  let ?cap = "\<lparr>cap_checked = hour, cap_ok = True\<rparr>"
  have p: "probeServices ?D SwarmManager \<lparr>cap_checked = zero_time, cap_ok = False\<rparr> ?d = (True, ?cap, ?d)"
    by (simp add: probeServices_def fake_eval swarmHost_def apiService_def advance_rollout_def)
  from probe_is_cached [OF p, of "swarmHost\<lparr>fk_clock := hour + minute\<rparr>"]
  have "probeServices ?D SwarmManager ?cap (swarmHost\<lparr>fk_clock := hour + minute\<rparr>)
      = (True, ?cap, swarmHost\<lparr>fk_clock := hour + minute\<rparr>)"
    by (simp add: fakeDaemon_def  swarmCapabilityTTL_def)
  with p show ?thesis by blast
qed

lemmas service_eval = updateService_def convergeStep_def serviceStatus_def serviceStateFrom_def targetSpec_def
  classifyServiceConvergence_def pullImage_def report_def fakeServiceView_def specImage_def advance_rollout_def

lemma api_converges:
  "\<exists>d'. updateService (fakeDaemon fakeOk) 3 ''s1'' ''api:2'' None swarmHost = Some (None, d')"
  by (simp add: service_eval fake_eval swarmHost_def apiService_def serviceConvergeTimeout_def
      serviceConvergePoll_def numeral_3_eq_3)

theorem updateService_success_witness:
  "\<exists>d' d0 d1 d2 d3 s i svc spec cs o1. updateService (fakeDaemon fakeOk) 3 ''s1'' ''api:2'' None swarmHost = Some (None, d')
     \<and> ServiceInspect (fakeDaemon fakeOk) Caller ''s1'' swarmHost = (Inr svc, d0)
     \<and> ss_container spec = Some cs \<and> cs_image cs = ''api:2''
     \<and> ServiceUpdate (fakeDaemon fakeOk) Caller (sw_id svc) (sw_version svc) spec o1 d2 = (None, d3)
     \<and> serviceStatus (fakeDaemon fakeOk) (sw_id svc) d1 = (Inr (s, i), d') \<and> ser_update s = ''completed''"
proof -
  obtain d' where run: "updateService (fakeDaemon fakeOk) 3 ''s1'' ''api:2'' None swarmHost = Some (None, d')"
    using api_converges by blast
  from updateService_success [OF run] run show ?thesis by blast
qed

text \<open>A daemon whose only service is always in one state.\<close>

definition steadyService :: "nat \<Rightarrow> string \<Rightarrow> string \<Rightarrow> service" where
  "steadyService run state i = \<lparr>sw_id = i, sw_version = 1,
     sw_spec = \<lparr>ss_name = ''api'', ss_container = Some \<lparr>cs_image = ''api:1'', cs_rest = []\<rparr>, ss_forceUpdate = 0, ss_rest = []\<rparr>,
     sw_tasks = Some (run, 1), sw_update = Some state\<rparr>"

definition steady :: "nat \<Rightarrow> string \<Rightarrow> fake daemon" where
  "steady run state = (fakeDaemon fakeOk)\<lparr>ServiceList := \<lambda>cx i d. (Inr [steadyService run state i], d),
     ServiceInspect := \<lambda>cx i d. (Inr (steadyService run state i), d)\<rparr>"

lemma steady_status:
  "serviceStatus (steady run state) i d
     = (Inr (\<lparr>ser_running = run, ser_desired = 1, ser_update = state\<rparr>, ''api:1''), d)"
  by (simp add: serviceStatus_def serviceStateFrom_def steady_def steadyService_def)

lemma steady_clock: "clock_runs (steady run state)"
  by (simp add: clock_runs_def steady_def fakeDaemon_def fakeList_def)

text \<open>The fake answers for its services: what it calls completed has all its tasks.\<close>

definition services_ready :: "fake \<Rightarrow> bool" where
  "services_ready d \<longleftrightarrow> (\<forall>k s. (k, s) \<in> set (fk_services d) \<longrightarrow> fs_id s = k
     \<and> (fs_updateState s = ''completed'' \<longrightarrow> fs_desired s \<le> fs_running s))"

definition service_known :: "string \<Rightarrow> fake \<Rightarrow> bool" where
  "service_known i d \<longleftrightarrow> i \<in> fst ` set (fk_services d)"

lemma services_frame [simp]:
  "fk_services (record_action a d) = fk_services d" "fk_services (put_fake i c d) = fk_services d"
  by (simp_all add: record_action_def put_fake_def)

lemma services_ready_cong: "fk_services d' = fk_services d \<Longrightarrow> services_ready d' = services_ready d"
  by (simp add: services_ready_def)

lemma set_update: "(k, s) \<in> set (AList.update i v xs) \<Longrightarrow> k = i \<and> s = v \<or> (k, s) \<in> set xs"
  by (induction xs) (auto split: if_splits)

lemma services_ready_put:
  "services_ready d \<Longrightarrow> fs_id s = i \<Longrightarrow> (fs_updateState s = ''completed'' \<longrightarrow> fs_desired s \<le> fs_running s)
    \<Longrightarrow> services_ready (put_service i s d)"
  by (auto simp: services_ready_def put_service_def dest!: set_update)

lemma fake_containers_keep:
  "fk_services (snd (fakeInspect c i d)) = fk_services d" "fk_services (snd (fakeStop fakeOk c i t d)) = fk_services d"
  "fk_services (snd (fakeRename g c i n d)) = fk_services d" "fk_services (snd (fakeCreate g c f h q n d)) = fk_services d"
  "fk_services (snd (fakeStart g c i d)) = fk_services d" "fk_services (snd (fakeRemove c i d)) = fk_services d"
  "fk_services (snd (fakeList c n d)) = fk_services d" "fk_services (snd (fakePull g c n d)) = fk_services d"
  "fk_services (snd (fakeImageInspect g c n d)) = fk_services d" "fk_services (snd (fakeServiceInspect g c i d)) = fk_services d"
  by (auto simp: fakeInspect_def fakeStop_def fakeRename_def fakeCreate_def fakeStart_def fakeRemove_def fakeList_def
      fakePull_def fakeImageInspect_def fakeServiceInspect_def fakeOk_def Let_def split: option.split)

lemma advance_rollout_id [simp]: "fs_id (advance_rollout s) = fs_id s"
  by (simp add: advance_rollout_def Let_def)

lemma advance_rollout_full:
  "(fs_updateState s = ''completed'' \<longrightarrow> fs_desired s \<le> fs_running s)
    \<Longrightarrow> fs_updateState (advance_rollout s) = ''completed'' \<Longrightarrow> fs_desired (advance_rollout s) \<le> fs_running (advance_rollout s)"
  by (simp add: advance_rollout_def Let_def split: if_splits)

lemma services_ready_listed:
  "services_ready d \<Longrightarrow> services_ready (snd (fakeServiceList g c i d))"
  by (auto simp: services_ready_def fakeServiceList_def Let_def intro: advance_rollout_full split: option.split)

lemma services_ready_updated:
  assumes "services_ready d"
  shows "services_ready (snd (fakeServiceUpdate g c i v spec opts d))"
proof (cases "map_of (fk_services d) i")
  case (Some s)
  then have "(i, s) \<in> set (fk_services d)" by (rule map_of_SomeD)
  then have i: "fs_id s = i" by (rule assms [unfolded services_ready_def, THEN spec, THEN spec, THEN mp, THEN conjunct1])
  have rec: "services_ready (record_action a d)" for a
    by (rule services_ready_cong [THEN iffD2, OF services_frame(1) assms])
  have put: "services_ready (put_service i t (record_action a d))"
    if "fs_id t = i" "fs_updateState t \<noteq> ''completed''" for a t
    by (rule services_ready_put [OF rec that(1)]) (use that(2) in blast)
  show ?thesis
    using Some assms i by (cases "fg_failServiceAPI g"; cases "fg_failServiceUpd g")
      (simp_all add: fakeServiceUpdate_def Let_def rolled_back_def put)
qed (use assms in \<open>auto simp: fakeServiceUpdate_def split: option.split\<close>)

lemma fake_services_keep: "ops_keep (fakeDaemon fakeOk) services_ready"
  unfolding ops_keep_def fakeDaemon_def
  by (auto simp: services_ready_listed services_ready_updated fake_containers_keep
      cong: services_ready_cong intro: services_ready_cong [THEN iffD2])

lemma fake_service_listed:
  assumes "services_ready d" and "service_known i d"
  shows "\<exists>svcs d'. fakeServiceList fakeOk Caller i d = (Inr svcs, d') \<and> i \<in> sw_id ` set svcs
    \<and> (\<forall>svc\<in>set svcs. sw_id svc = i \<longrightarrow> \<not> completed_short (serviceStateFrom svc)) \<and> service_known i d'"
proof -
  let ?ss = "map (\<lambda>(k, s). (k, advance_rollout s)) (fk_services d)" and ?d = "snd (fakeServiceList fakeOk Caller i d)"
  have run: "fakeServiceList fakeOk Caller i d = (Inr (map (\<lambda>(_, s). fakeServiceView s) ?ss), ?d)"
    by (simp add: fakeServiceList_def fakeOk_def Let_def)
  have d': "?d = d\<lparr>fk_services := ?ss\<rparr>" by (simp add: fakeServiceList_def fakeOk_def Let_def)
  have r: "services_ready ?d" by (rule services_ready_listed [OF assms(1)])
  have short: "\<not> completed_short (serviceStateFrom (fakeServiceView s))" if "(k, s) \<in> set ?ss" for k s
  proof -
    have "fs_updateState s = ''completed'' \<longrightarrow> fs_desired s \<le> fs_running s"
      using r that unfolding services_ready_def d' by simp
    then show ?thesis by (auto simp: completed_short_def serviceStateFrom_def fakeServiceView_def Let_def split: if_splits)
  qed
  from assms(2) obtain s where s: "(i, s) \<in> set (fk_services d)" by (auto simp: service_known_def)
  then have in_ss: "(i, advance_rollout s) \<in> set ?ss" by force
  from r have "fs_id (advance_rollout s) = i"
    using in_ss unfolding services_ready_def d' by (simp del: advance_rollout_id)
  then have "sw_id (fakeServiceView (advance_rollout s)) = i" by (simp add: fakeServiceView_def Let_def)
  moreover have "fakeServiceView (advance_rollout s) \<in> (\<lambda>(_, s). fakeServiceView s) ` set ?ss"
    by (rule image_eqI [OF _ in_ss]) simp
  ultimately have "i \<in> sw_id ` set (map (\<lambda>(_, s). fakeServiceView s) ?ss)" by (simp only: set_map) blast
  moreover have "service_known i ?d" using s by (force simp: service_known_def d')
  moreover have "\<forall>svc\<in>set (map (\<lambda>(_, s). fakeServiceView s) ?ss). sw_id svc = i \<longrightarrow> \<not> completed_short (serviceStateFrom svc)"
  proof
    fix svc assume "svc \<in> set (map (\<lambda>(_, s). fakeServiceView s) ?ss)"
    then obtain x where x: "x \<in> set ?ss" "svc = (\<lambda>(_, s). fakeServiceView s) x" by (simp only: set_map) blast
    obtain k s where "x = (k, s)" by (cases x)
    with x short [of k s] show "sw_id svc = i \<longrightarrow> \<not> completed_short (serviceStateFrom svc)"
      by (simp del: set_map)
  qed
  ultimately show ?thesis using run by blast
qed

lemma fake_answers: "answers_for (fakeDaemon fakeOk) services_ready service_known"
proof -
  have "service_known i d'" if "fakeServiceUpdate fakeOk Caller i v spec opts d = (None, d')" for i v spec opts d d'
    using that by (auto simp: fakeServiceUpdate_def service_known_def put_service_def dom_update fakeOk_def Let_def
        split: option.splits if_splits)
  moreover have "service_known i (d\<lparr>fk_clock := t\<rparr>) = service_known i d" for i d t by (simp add: service_known_def)
  ultimately show ?thesis
    using fake_services_keep fake_service_listed unfolding answers_for_def by (simp add: fakeDaemon_def)
qed

lemma fake_clock: "clock_runs (fakeDaemon fakeOk)"
  by (auto simp: clock_runs_def fakeDaemon_def fakeList_def fakeServiceList_def fakeOk_def Let_def)

lemma swarmHost_ready: "services_ready swarmHost"
  by (simp add: services_ready_def swarmHost_def apiService_def)

theorem updateService_ends_witness:
  "updateService (fakeDaemon fakeOk) 151 ''s1'' ''api:2'' None swarmHost \<noteq> None"
  by (rule updateService_ends [OF fake_clock fake_answers _ swarmHost_ready]) simp_all

theorem recreateContainer_ends_witness:
  "recreateContainer (fakeDaemon fakeOk) 181 ''task'' ''api:2'' None swarmHost \<noteq> None"
  by (rule recreateContainer_ends [OF fake_clock fake_answers _ swarmHost_ready]) simp_all

theorem converge_never_ends_witness:
  "converge (steady 0 ''completed'') 100000 (steadyService 0 ''completed'' ''s1'') ''api:2'' 0 swarmHost = None"
  by (rule converge_never_ends)
    (simp_all add: steady_status completed_short_def, simp add: steady_def fakeDaemon_def)

theorem deadline_rolls_back_witness:
  "\<exists>e. converge (steady 0 ''updating'') 1 (steadyService 0 ''updating'' ''s1'') ''api:2'' 0 (web\<lparr>fk_services := [(''s1'', apiService)]\<rparr>)
     = Some (Some e, snd (ServiceUpdate (fakeDaemon fakeOk) Caller ''s1'' 1 (sw_spec (steadyService 0 ''updating'' ''s1''))
         \<lparr>suo_queryRegistry = False, suo_registryAuthFrom = ''previous-spec'', suo_rollback = ''previous''\<rparr>
         (web\<lparr>fk_services := [(''s1'', apiService)]\<rparr>)))"
proof -
  let ?D = "steady 0 ''updating''" and ?s = "steadyService 0 ''updating'' ''s1''"
    and ?d = "web\<lparr>fk_services := [(''s1'', apiService)]\<rparr>"
  have i: "ServiceInspect ?D Caller (sw_id ?s) ?d = (Inr ?s, ?d)" by (simp add: steady_def steadyService_def)
  have "\<exists>e. converge ?D (Suc 0) ?s ''api:2'' 0 ?d
    = Some (Some e, snd (ServiceUpdate ?D Caller (sw_id ?s) (sw_version ?s) (sw_spec ?s)
        \<lparr>suo_queryRegistry = False, suo_registryAuthFrom = ''previous-spec'', suo_rollback = ''previous''\<rparr> ?d))"
    by (rule deadline_rolls_back [OF steady_status _ _ i])
      (simp_all add: steady_def fakeDaemon_def web_def newFakeDaemon_def)
  then show ?thesis by (simp add: steady_def steadyService_def del: converge.simps)
qed

section \<open>Systemd units\<close>

definition quadletHost :: fake where
  "quadletHost = newFakeDaemon (baseContainer ''old'' ''db'' ''pg:16'' ''sha256:a'' True
     \<lparr>fc_labels := [(''PODMAN_SYSTEMD_UNIT'', ''db.service'')]\<rparr>)"

definition unitRespawns :: fakeConfig where
  "unitRespawns = fakeOk\<lparr>fg_onStop := Some (respawning ''sha256:b'' ''running'')\<rparr>"

definition quadlet_inspect :: inspect where
  "quadlet_inspect = web_inspect\<lparr>in_name := ''/db''\<rparr>"

lemma unit_respawns_run:
  "\<exists>d'. recreateSystemdManaged (fakeDaemon unitRespawns) 1 quadlet_inspect ''pg:17'' ''db.service'' None quadletHost
     = Some (None, d')"
  by (simp add: recreateSystemdManaged_def fake_eval unitRespawns_def quadletHost_def quadlet_inspect_def web_inspect_def
      wasRunningOf_def report_def trimPrefix_def respawning_def newFakeID_def stateOr_def findContainerByName_def
      exactNameMatch_def decideRespawnOutcome_def classifyRespawn_def verifyRespawnImage_def Let_def)


end
