(* ===== verification/SelfHelper.thy ===== *)
theory SelfHelper
  imports FakeDaemon
begin

text \<open>
  How the application has itself replaced, \<open>internal/dockerx/selfupdate.go\<close>: a short-lived helper
  container, started from the image that already runs, recreates the application's container.  The
  definitions are followed by the contract the launch needs of the daemon besides
  \<open>container_daemon\<close>, the locale \<open>listing_daemon\<close>, and its interpretation.

  Where the code takes whichever network Go's map iteration yields first, the model takes the first of
  the list.
\<close>

section \<open>Who we are\<close>

definition isLowerHex :: "char \<Rightarrow> bool" where
  "isLowerHex c \<longleftrightarrow> isDigit c \<or> CHR ''a'' \<le> c \<and> c \<le> CHR ''f''"

definition SelfContainerID :: "err + string \<Rightarrow> string" where
  "SelfContainerID hostname =
     (case hostname of
        Inl _ \<Rightarrow> []
      | Inr h0 \<Rightarrow>
          (let h = trimSpace h0
           in if length h < 8 \<or> length h > 64 then []
              else if \<exists>c\<in>set h. \<not> isLowerHex c then []
              else h))"

section \<open>The helper's access to the daemon\<close>

record helperAccess =
  ha_dockerHost :: string
  ha_network :: "networks option"
  ha_binds :: "string list"
  ha_mounts :: "(string \<times> string \<times> string \<times> bool) list"
  ha_groupAdd :: "string list"

definition bindDestination :: "string \<Rightarrow> string" where
  "bindDestination bind =
     (let parts = splitOn CHR '':'' bind in if length parts = 1 then parts ! 0 else parts ! 1)"

definition socketMounts :: "mountPoint list \<Rightarrow> string \<Rightarrow> (string \<times> string \<times> string \<times> bool) list" where
  "socketMounts ms socket =
     map (\<lambda>m. (mp_type m, mp_source m, mp_destination m, \<not> mp_rw m)) (filter (\<lambda>m. mp_destination m = socket) ms)"

definition helperAccess :: "inspect \<Rightarrow> string \<Rightarrow> helperAccess" where
  "helperAccess insp dockerHost =
     (let acc = \<lparr>ha_dockerHost = dockerHost,
                 ha_network = (case in_networks insp of None \<Rightarrow> None | Some _ \<Rightarrow> buildNetworkingConfig (in_networks insp)),
                 ha_binds = [], ha_mounts = [], ha_groupAdd = []\<rparr>
      in case in_host insp of
           None \<Rightarrow> acc
         | Some hc \<Rightarrow>
             if \<not> hasPrefix dockerHost ''unix://'' then acc
             else
               let socket = trimPrefix dockerHost ''unix://'';
                   binds = filter (\<lambda>b. bindDestination b = socket) (hc_binds hc);
                   mounts = (if binds = [] then socketMounts (in_mounts insp) socket else [])
               in acc\<lparr>ha_binds := binds, ha_mounts := mounts,
                     ha_groupAdd := (if binds \<noteq> [] \<or> mounts \<noteq> [] then hc_groupAdd hc else [])\<rparr>)"

definition SelfUpdateHelperConfig :: "string \<Rightarrow> string \<Rightarrow> string \<Rightarrow> helperAccess \<Rightarrow> config \<times> hostConfig" where
  "SelfUpdateHelperConfig selfImage selfID targetImage access =
     (\<lparr>cfg_image = selfImage, cfg_labels = [(''com.whatsnewdock.role'', ''self-update'')],
       cfg_env = [''WND_MODE=self-update'', ''WND_SELFUPDATE_CONTAINER='' @ selfID,
                  ''WND_SELFUPDATE_IMAGE='' @ targetImage, ''WND_DOCKER_HOST='' @ ha_dockerHost access],
       cfg_rest = []\<rparr>,
      \<lparr>hc_swappiness = None, hc_autoRemove = True,
       hc_networkMode = (case ha_network access of Some ((name, _) # _) \<Rightarrow> name | _ \<Rightarrow> []),
       hc_binds = ha_binds access, hc_groupAdd = ha_groupAdd access, hc_mounts = ha_mounts access,
       hc_restartPolicy = [], hc_rest = []\<rparr>)"

section \<open>Launching the helper\<close>

definition selfUpdateHelperName :: string where
  "selfUpdateHelperName = ''whatsnewdock-self-update''"

definition ErrAlreadyCurrent :: "string \<Rightarrow> err" where
  "ErrAlreadyCurrent targetImage = Err (Some AlreadyCurrent) (''already running the newest build of '' @ targetImage)"

text \<open>The image was pulled: is there anything to deploy?\<close>

definition alreadyCurrent :: "'d daemon \<Rightarrow> inspect \<Rightarrow> config \<Rightarrow> string \<Rightarrow> 'd \<Rightarrow> bool \<times> 'd" where
  "alreadyCurrent D insp cfg targetImage d =
     (if cfg_image cfg \<noteq> targetImage then (False, d)
      else (case ImageInspect D Caller targetImage d of
              (Inl _, d') \<Rightarrow> (False, d')
            | (Inr i, d') \<Rightarrow> (i = in_image insp, d')))"

definition clearStale :: "'d daemon \<Rightarrow> 'd \<Rightarrow> 'd" where
  "clearStale D d =
     (case findContainerByName D selfUpdateHelperName d of
        (None, d') \<Rightarrow> d'
      | (Some c, d') \<Rightarrow> snd (ContainerRemove D Caller (cr_id c) d'))"

definition launchHelper :: "'d daemon \<Rightarrow> inspect \<Rightarrow> string \<Rightarrow> string \<Rightarrow> string \<Rightarrow> 'd \<Rightarrow> err option \<times> 'd" where
  "launchHelper D insp selfID targetImage dockerHost d =
     (let (cfg, hostCfg) = SelfUpdateHelperConfig (in_image insp) selfID targetImage (helperAccess insp dockerHost)
      in case ContainerCreate D Caller cfg (Some hostCfg) None selfUpdateHelperName (clearStale D d) of
           (Inl e, d1) \<Rightarrow> (Some (wrap_err ''create self-update helper: '' e), d1)
         | (Inr newID, d1) \<Rightarrow>
             (case ContainerStart D Caller newID d1 of
                (Some e, d2) \<Rightarrow>
                  (Some (wrap_err ''start self-update helper: '' e), snd (ContainerRemove D Detached newID d2))
              | (None, d2) \<Rightarrow> (None, d2)))"

definition startSelfUpdate :: "'d daemon \<Rightarrow> string \<Rightarrow> string \<Rightarrow> string \<Rightarrow> 'd \<Rightarrow> err option \<times> 'd" where
  "startSelfUpdate D selfID targetImage dockerHost d =
     (case ContainerInspect D Caller selfID d of
        (Inl e, d1) \<Rightarrow> (Some (wrap_err ''inspect own container: '' e), d1)
      | (Inr insp, d1) \<Rightarrow>
          (case in_config insp of
             None \<Rightarrow> (Some (errors_new ''cannot determine the image this container runs from''), d1)
           | Some cfg \<Rightarrow>
               if cfg_image cfg = []
               then (Some (errors_new ''cannot determine the image this container runs from''), d1)
               else (case pullImage D targetImage None d1 of
                       (Some e, d2) \<Rightarrow> (Some e, d2)
                     | (None, d2) \<Rightarrow>
                         (case alreadyCurrent D insp cfg targetImage d2 of
                            (True, d3) \<Rightarrow> (Some (ErrAlreadyCurrent targetImage), d3)
                          | (False, d3) \<Rightarrow> launchHelper D insp selfID targetImage dockerHost d3))))"

text \<open>What the helper does, with the fuel of the flow it runs.\<close>

definition RunSelfUpdateHelper :: "'d daemon \<Rightarrow> nat \<Rightarrow> string \<Rightarrow> string \<Rightarrow> 'd \<Rightarrow> (outcome \<times> 'd) option" where
  "RunSelfUpdateHelper D fuel selfID targetImage d =
     (if selfID = [] \<or> targetImage = []
      then Some (Failed (errors_new ''self-update helper needs both a container id and a target image''), d)
      else recreateContainer D fuel selfID targetImage None d)"

section \<open>Describing an image\<close>

definition ContainerImage :: "'d daemon \<Rightarrow> string \<Rightarrow> 'd \<Rightarrow> (err + string) \<times> 'd" where
  "ContainerImage D containerID d =
     (case ContainerInspect D Caller containerID d of
        (Inl e, d1) \<Rightarrow> (Inl e, d1)
      | (Inr insp, d1) \<Rightarrow>
          (case in_config insp of
             None \<Rightarrow> (Inl (errors_new (''container '' @ containerID @ '' has no image reference'')), d1)
           | Some cfg \<Rightarrow>
               if cfg_image cfg = []
               then (Inl (errors_new (''container '' @ containerID @ '' has no image reference'')), d1)
               else (Inr (cfg_image cfg), d1)))"

text \<open>\<open>SelfImage\<close> also asks for the repository digests of the image, which are an argument here.\<close>

definition firstDigest :: "err + string list \<Rightarrow> string" where
  "firstDigest repoDigests =
     (case repoDigests of
        Inr (r # _) \<Rightarrow> (let i = indexByte r CHR ''@'' in if i \<ge> 0 then fromIdx r (i + 1) else [])
      | _ \<Rightarrow> [])"

definition SelfImage ::
  "'d daemon \<Rightarrow> (string \<Rightarrow> 'd \<Rightarrow> (err + string list) \<times> 'd) \<Rightarrow> string \<Rightarrow> 'd \<Rightarrow> (err + string \<times> string) \<times> 'd" where
  "SelfImage D repoDigests containerID d =
     (case ContainerInspect D Caller containerID d of
        (Inl e, d1) \<Rightarrow> (Inl e, d1)
      | (Inr insp, d1) \<Rightarrow>
          (case in_config insp of
             None \<Rightarrow> (Inl (errors_new (''container '' @ containerID @ '' has no image reference'')), d1)
           | Some cfg \<Rightarrow>
               if cfg_image cfg = []
               then (Inl (errors_new (''container '' @ containerID @ '' has no image reference'')), d1)
               else (let (ds, d2) = repoDigests (in_image insp) d1 in (Inr (cfg_image cfg, firstDigest ds), d2))))"

section \<open>The contract of the launch\<close>

locale listing_daemon = container_daemon +
  assumes list_frame: "good d \<Longrightarrow> ContainerList D cx n d = (xs, d') \<Longrightarrow> good d' \<and> view d' = view d"
    and list_names: "good d \<Longrightarrow> ContainerList D cx n d = (Inr cs, d') \<Longrightarrow> c \<in> set cs \<Longrightarrow>
      \<exists>v. view d (su_id c) = Some v \<and> su_names c = [''/'' @ cv_name v]"
    and image_frame: "good d \<Longrightarrow> ImageInspect D cx i d = (a, d') \<Longrightarrow> good d' \<and> view d' = view d"

text \<open>The containers that are not a helper, as they were; what the launch may not disturb.\<close>

definition same_apps :: "(string \<Rightarrow> cview option) \<Rightarrow> (string \<Rightarrow> cview option) \<Rightarrow> bool" where
  "same_apps V V' \<longleftrightarrow> (\<forall>i v. V i = Some v \<and> cv_name v \<noteq> selfUpdateHelperName \<longrightarrow> V' i = Some v)"

text \<open>No container came up that was not there.\<close>

definition nothing_new :: "(string \<Rightarrow> cview option) \<Rightarrow> (string \<Rightarrow> cview option) \<Rightarrow> bool" where
  "nothing_new V V' \<longleftrightarrow> (\<forall>i. V' i \<noteq> None \<longrightarrow> V' i = V i)"

text \<open>Nothing new but a helper that never ran: what is left when its start fails and it cannot be removed.\<close>

definition helper_left :: "(string \<Rightarrow> cview option) \<Rightarrow> (string \<Rightarrow> cview option) \<Rightarrow> bool" where
  "helper_left V V' \<longleftrightarrow>
     (\<forall>i w. V' i = Some w \<longrightarrow> V i = Some w \<or> cv_name w = selfUpdateHelperName \<and> \<not> cv_running w)"

text \<open>A container that exists can be removed even after the request was cancelled.\<close>

definition removal_works :: "'d daemon \<Rightarrow> ('d \<Rightarrow> bool) \<Rightarrow> ('d \<Rightarrow> string \<Rightarrow> cview option) \<Rightarrow> bool" where
  "removal_works D good view \<longleftrightarrow>
     (\<forall>d j. good d \<longrightarrow> view d j \<noteq> None \<longrightarrow> fst (ContainerRemove D Detached j d) = None)"

lemma nothing_new_left: "nothing_new V V' \<Longrightarrow> helper_left V V'"
  unfolding nothing_new_def helper_left_def by (metis option.distinct(1))

lemma left_after:
  assumes "nothing_new V V0" and "same_apps V V0" and "V0 j = None"
  shows "same_apps V (V0(j \<mapsto> \<lparr>cv_name = selfUpdateHelperName, cv_running = False, cv_image = x\<rparr>))
    \<and> helper_left V (V0(j \<mapsto> \<lparr>cv_name = selfUpdateHelperName, cv_running = False, cv_image = x\<rparr>))"
proof
  have old: "cv_name v = selfUpdateHelperName" if "V j = Some v" for v
    using assms(2,3) that by (force simp: same_apps_def)
  show "same_apps V (V0(j \<mapsto> \<lparr>cv_name = selfUpdateHelperName, cv_running = False, cv_image = x\<rparr>))"
    using assms(2) old by (auto simp: same_apps_def)
  show "helper_left V (V0(j \<mapsto> \<lparr>cv_name = selfUpdateHelperName, cv_running = False, cv_image = x\<rparr>))"
    using nothing_new_left [OF assms(1)] by (auto simp: helper_left_def)
qed

text \<open>One helper came up.\<close>

definition helper_started :: "(string \<Rightarrow> cview option) \<Rightarrow> (string \<Rightarrow> cview option) \<Rightarrow> bool" where
  "helper_started V V' \<longleftrightarrow>
     (\<exists>j x. (\<forall>v. V j = Some v \<longrightarrow> cv_name v = selfUpdateHelperName)
        \<and> V' j = Some \<lparr>cv_name = selfUpdateHelperName, cv_running = True, cv_image = x\<rparr>
        \<and> (\<forall>i. i \<noteq> j \<longrightarrow> V' i \<noteq> None \<longrightarrow> V' i = V i))"

text \<open>How a launch ends, seen from outside.\<close>

definition launch_ends ::
  "'d daemon \<Rightarrow> ('d \<Rightarrow> bool) \<Rightarrow> ('d \<Rightarrow> string \<Rightarrow> cview option) \<Rightarrow> err option \<Rightarrow> (string \<Rightarrow> cview option)
     \<Rightarrow> (string \<Rightarrow> cview option) \<Rightarrow> bool" where
  "launch_ends D good view r V V' \<longleftrightarrow> same_apps V V'
    \<and> (case r of None \<Rightarrow> helper_started V V'
       | Some _ \<Rightarrow> helper_left V V' \<and> (removal_works D good view \<longrightarrow> nothing_new V V'))"

lemma started_after:
  assumes "nothing_new V V0" and "same_apps V V0" and "V0 j = None"
  shows "same_apps V (V0(j \<mapsto> \<lparr>cv_name = selfUpdateHelperName, cv_running = True, cv_image = x\<rparr>))
    \<and> helper_started V (V0(j \<mapsto> \<lparr>cv_name = selfUpdateHelperName, cv_running = True, cv_image = x\<rparr>))"
proof
  have old: "cv_name v = selfUpdateHelperName" if "V j = Some v" for v
    using assms(2,3) that by (force simp: same_apps_def)
  show "same_apps V (V0(j \<mapsto> \<lparr>cv_name = selfUpdateHelperName, cv_running = True, cv_image = x\<rparr>))"
    using assms(2) old by (auto simp: same_apps_def)
  show "helper_started V (V0(j \<mapsto> \<lparr>cv_name = selfUpdateHelperName, cv_running = True, cv_image = x\<rparr>))"
    unfolding helper_started_def
    by (intro exI [of _ j] exI [of _ x]) (use assms(1) old in \<open>auto simp: nothing_new_def\<close>)
qed

context listing_daemon
begin

lemma find_frame:
  assumes "good d" and "findContainerByName D n d = (r, d')"
  shows "good d' \<and> view d' = view d \<and> (\<forall>c. r = Some c \<longrightarrow> (\<exists>v. view d (cr_id c) = Some v \<and> cv_name v = n))"
proof -
  obtain a d1 where a: "ContainerList D Caller n d = (a, d1)" by fastforce
  then have d1: "d' = d1" using assms(2) by (auto simp: findContainerByName_def split: sum.splits)
  have "\<exists>v. view d (cr_id c) = Some v \<and> cv_name v = n" if "r = Some c" for c
  proof -
    from that assms(2) a obtain cs s where cs: "a = Inr cs" "find (\<lambda>c. exactNameMatch (su_names c) n) cs = Some s"
        "cr_id c = su_id s"
      by (auto simp: findContainerByName_def split: sum.splits)
    from find_eq_Some_mem [OF cs(2)] have s: "s \<in> set cs" "exactNameMatch (su_names s) n" by auto
    from list_names [OF assms(1) a [unfolded cs(1)] s(1)] obtain v where
      v: "view d (su_id s) = Some v" "su_names s = [''/'' @ cv_name v]" by blast
    have "trimPrefix (''/'' @ cv_name v) ''/'' = n" using s(2) v(2) by (simp only: exactNameMatch_def) auto
    then have "cv_name v = n" by (simp only: trimPrefix_append)
    with v(1) cs(3) show ?thesis by simp
  qed
  with list_frame [OF assms(1) a] d1 show ?thesis by blast
qed

lemma clearStale_view:
  assumes "good d"
  shows "good (clearStale D d) \<and> nothing_new (view d) (view (clearStale D d)) \<and> same_apps (view d) (view (clearStale D d))"
proof -
  obtain r d1 where f: "findContainerByName D selfUpdateHelperName d = (r, d1)" by fastforce
  note fr = find_frame [OF assms f]
  show ?thesis
  proof (cases r)
    case None
    then show ?thesis using f fr by (simp add: clearStale_def nothing_new_def same_apps_def)
  next
    case (Some c)
    obtain e d2 where rm: "ContainerRemove D Caller (cr_id c) d1 = (e, d2)" by fastforce
    then have d2: "clearStale D d = d2" using f Some by (simp add: clearStale_def)
    show ?thesis
    proof (cases e)
      case None
      from fr Some obtain v where v: "view d (cr_id c) = Some v" "cv_name v = selfUpdateHelperName" by blast
      from remove_ok [OF conjunct1 [OF fr] rm [unfolded None]] fr have "good d2" "view d2 = (view d)(cr_id c := None)"
        by auto
      with v show ?thesis unfolding d2 by (auto simp: nothing_new_def same_apps_def)
    next
      case err: (Some x)
      from remove_err [OF conjunct1 [OF fr] rm [unfolded err]] fr show ?thesis
        unfolding d2 by (simp add: nothing_new_def same_apps_def)
    qed
  qed
qed

lemma launchHelper_view:
  assumes g: "good d" and run: "launchHelper D insp selfID img host d = (r, d')"
  shows "launch_ends D good view r (view d) (view d')"
proof -
  let ?d0 = "clearStale D d"
  note c0 = clearStale_view [OF g]
  obtain cfg hostCfg where cfg: "SelfUpdateHelperConfig (in_image insp) selfID img (helperAccess insp host) = (cfg, hostCfg)"
    by fastforce
  obtain a d1 where a: "ContainerCreate D Caller cfg (Some hostCfg) None selfUpdateHelperName ?d0 = (a, d1)"
    by fastforce
  show ?thesis
  proof (cases a)
    case (Inl e)
    from create_err [OF conjunct1 [OF c0] a [unfolded Inl]] c0 nothing_new_left show ?thesis
      using run cfg a Inl by (auto simp: launchHelper_def launch_ends_def)
  next
    case (Inr j)
    from create_ok [OF conjunct1 [OF c0] a [unfolded Inr]] obtain x where 1: "good d1" "view ?d0 j = None"
      "view d1 = (view ?d0)(j \<mapsto> \<lparr>cv_name = selfUpdateHelperName, cv_running = False, cv_image = x\<rparr>)" by blast
    obtain s d2 where s: "ContainerStart D Caller j d1 = (s, d2)" by fastforce
    show ?thesis
    proof (cases s)
      case None
      from start_ok [OF 1(1) s [unfolded None]] 1(3) have 2:
        "view d2 = (view ?d0)(j \<mapsto> \<lparr>cv_name = selfUpdateHelperName, cv_running = True, cv_image = x\<rparr>)" by auto
      have r: "r = None" "d' = d2" using run cfg a Inr s None by (auto simp: launchHelper_def)
      from started_after [of "view d" "view ?d0" j x] c0 1(2) show ?thesis unfolding r 2 launch_ends_def by simp
    next
      case (Some e)
      from start_err [OF 1(1) s [unfolded Some]] 1(3) have 2: "good d2"
        "view d2 = (view ?d0)(j \<mapsto> \<lparr>cv_name = selfUpdateHelperName, cv_running = False, cv_image = x\<rparr>)" by auto
      obtain q d3 where q: "ContainerRemove D Detached j d2 = (q, d3)" by fastforce
      obtain e' where r: "r = Some e'" "d' = d3" using run cfg a Inr s Some q by (auto simp: launchHelper_def)
      show ?thesis
      proof (cases q)
        case None
        with remove_ok [OF 2(1)] q 2(2) have "view d3 = (view ?d0)(j := None)" by auto
        moreover have "(view ?d0)(j := None) = view ?d0" using 1(2) by (simp add: fun_upd_idem)
        ultimately show ?thesis using c0 nothing_new_left by (auto simp: launch_ends_def r)
      next
        case stuck: (Some y)
        from remove_err [OF 2(1) q [unfolded stuck]] have 3: "view d3 = view d2" by blast
        have "view d2 j \<noteq> None" by (simp add: 2(2))
        with q stuck 2(1) have "\<not> removal_works D good view" unfolding removal_works_def by (metis fst_conv option.distinct(1))
        then show ?thesis using left_after [of "view d" "view ?d0" j x] c0 1(2) by (simp add: launch_ends_def r 3 2(2))
      qed
    qed
  qed
qed

lemma startSelfUpdate_view:
  assumes g: "good d" and run: "startSelfUpdate D selfID img host d = (r, d')"
  shows "launch_ends D good view r (view d) (view d')"
proof -
  have stop: ?thesis if "r = Some e" "view d' = view d" for e
    using that by (simp add: launch_ends_def same_apps_def nothing_new_def helper_left_def)
  obtain a d1 where a: "ContainerInspect D Caller selfID d = (a, d1)" by fastforce
  from inspect_frame [OF g a] have 1: "good d1" "view d1 = view d" by auto
  show ?thesis
  proof (cases "\<exists>insp cfg. a = Inr insp \<and> in_config insp = Some cfg \<and> cfg_image cfg \<noteq> []")
    case False
    then have "\<exists>e. r = Some e \<and> d' = d1" using run a
      by (cases a) (auto simp: startSelfUpdate_def split: option.splits if_splits)
    with 1 stop show ?thesis by blast
  next
    case True
    then obtain insp cfg where i: "a = Inr insp" "in_config insp = Some cfg" "cfg_image cfg \<noteq> []" by blast
    obtain q d2 where q: "pullImage D img None d1 = (q, d2)" by fastforce
    have "watches_only good view None" by (simp add: watches_only_def)
    from pull_keeps [OF this 1(1) q] 1 have 2: "good d2" "view d2 = view d" by auto
    show ?thesis
    proof (cases q)
      case (Some e)
      then have "r = Some e" "d' = d2" using run a i q by (simp_all add: startSelfUpdate_def)
      with 2 stop show ?thesis by simp
    next
      case None
      obtain b d3 where b: "alreadyCurrent D insp cfg img d2 = (b, d3)" by fastforce
      have 3: "good d3 \<and> view d3 = view d2"
      proof (cases "cfg_image cfg = img")
        case True
        obtain x d4 where "ImageInspect D Caller img d2 = (x, d4)" by fastforce
        with True b image_frame [OF 2(1) this] show ?thesis by (cases x) (auto simp: alreadyCurrent_def)
      qed (use b 2 in \<open>auto simp: alreadyCurrent_def\<close>)
      show ?thesis
      proof (cases b)
        case True
        then have "r = Some (ErrAlreadyCurrent img)" "d' = d3" using run a i q None b
          by (simp_all add: startSelfUpdate_def)
        with 2 3 stop show ?thesis by simp
      next
        case False
        then have "launchHelper D insp selfID img host d3 = (r, d')"
          using run a i q None b by (simp add: startSelfUpdate_def)
        moreover have "view d3 = view d" using 2 3 by simp
        ultimately show ?thesis using launchHelper_view [OF conjunct1 [OF 3]] by metis
      qed
    qed
  qed
qed

end

lemma fake_list:
  assumes "fake_good d" and "fakeList cx n d = (Inr cs, d')" and "c \<in> set cs"
  shows "\<exists>v. fake_view d (su_id c) = Some v \<and> su_names c = [''/'' @ cv_name v]"
proof -
  from assms(2,3) obtain k f where f: "(k, f) \<in> set (fk_containers d)" "\<not> fc_removed f"
      "c = \<lparr>su_id = fc_id f, su_names = [''/'' @ fc_name f], su_state = stateOr f\<rparr>"
    by (auto simp: fakeList_def)
  with assms(1) have "map_of (fk_containers d) k = Some f" "fc_id f = k" by (auto simp: fake_good_def)
  with f show ?thesis by (simp add: fake_view_def alive_def container_view_def)
qed

interpretation fakes: listing_daemon "fakeDaemon (quiet g)" fake_good fake_view for g
proof (unfold_locales, goal_cases)
  case (1 d cx n xs d')
  then show ?case by (simp add: fakeDaemon_def fakeList_def)
next
  case (2 d cx n cs d' c)
  then show ?case using fake_list by (simp add: fakeDaemon_def)
next
  case (3 d cx i a d')
  then show ?case by (simp add: fakeDaemon_def fakeImageInspect_def split: if_splits)
qed

section \<open>Properties\<close>

text \<open>C18: launching a self-update disturbs nothing but a leftover helper: every container that does not bear the
  helper's name, our own above all, keeps its name, its running state and its image.  Success means that
  one helper runs.  Failure means that nothing new runs: at most a helper that was created, could not be
  started and then could not be removed either is left behind stopped, and where removals work no
  container has come up at all.\<close>

theorem startSelfUpdate_leaves_apps:
  assumes "listing_daemon D good view" and "good d" and "startSelfUpdate D selfID img host d = (r, d')"
  shows "same_apps (view d) (view d')
    \<and> (case r of None \<Rightarrow> helper_started (view d) (view d')
       | Some _ \<Rightarrow> helper_left (view d) (view d') \<and> (removal_works D good view \<longrightarrow> nothing_new (view d) (view d')))"
  using listing_daemon.startSelfUpdate_view [OF assms] unfolding launch_ends_def .

text \<open>The application of the fake host: a container the helper is asked to replace.\<close>

definition appHost :: fake where
  "appHost = newFakeDaemon (baseContainer ''0123456789ab'' ''wnd'' ''ghcr.io/o/wnd:1'' ''sha256:a'' True)"

lemma app_run:
  "\<exists>d'. startSelfUpdate (fakeDaemon (quiet fakeOk)) ''0123456789ab'' ''ghcr.io/o/wnd:2'' ''tcp://proxy:2375'' appHost = (None, d')"
  by (simp add: startSelfUpdate_def alreadyCurrent_def launchHelper_def clearStale_def SelfUpdateHelperConfig_def
      helperAccess_def pullImage_def findContainerByName_def exactNameMatch_def selfUpdateHelperName_def
      appHost_def fakeDaemon_def fakeInspect_def fakeCreate_def fakeStart_def fakeList_def fakePull_def quiet_def
      fakeOk_def newFakeDaemon_def baseContainer_def alive_def put_fake_def record_action_def newFakeID_def
      trimPrefix_def fakeHostConfig_def Let_def)

theorem startSelfUpdate_leaves_apps_witness:
  "\<exists>d'. startSelfUpdate (fakeDaemon (quiet fakeOk)) ''0123456789ab'' ''ghcr.io/o/wnd:2'' ''tcp://proxy:2375'' appHost = (None, d')
     \<and> same_apps (fake_view appHost) (fake_view d') \<and> helper_started (fake_view appHost) (fake_view d')"
proof -
  obtain d' where run: "startSelfUpdate (fakeDaemon (quiet fakeOk)) ''0123456789ab'' ''ghcr.io/o/wnd:2'' ''tcp://proxy:2375'' appHost
      = (None, d')" using app_run by blast
  have "fake_good appHost"
    unfolding appHost_def by (rule good_newFakeDaemon) (simp add: baseContainer_def newFakeID_def)
  from startSelfUpdate_leaves_apps [OF fakes.listing_daemon_axioms this run] run show ?thesis by auto
qed

text \<open>The helper is given the docker socket and nothing else: whatever it has mounted is mounted on the
  path of the socket and comes from our own container, in one form only, and without a socket it joins no
  group and mounts nothing.\<close>

theorem helper_mounts_only_socket:
  assumes "acc = helperAccess insp dockerHost"
  shows "(\<forall>b\<in>set (ha_binds acc). bindDestination b = trimPrefix dockerHost ''unix://''
        \<and> (\<exists>hc. in_host insp = Some hc \<and> b \<in> set (hc_binds hc)))
    \<and> (\<forall>(t, src, dst, ro)\<in>set (ha_mounts acc). dst = trimPrefix dockerHost ''unix://''
        \<and> (\<exists>m\<in>set (in_mounts insp). mp_source m = src \<and> mp_destination m = dst \<and> ro = (\<not> mp_rw m)))
    \<and> (ha_binds acc = [] \<or> ha_mounts acc = [])
    \<and> (ha_binds acc = [] \<and> ha_mounts acc = [] \<longrightarrow> ha_groupAdd acc = [])
    \<and> (\<not> hasPrefix dockerHost ''unix://'' \<longrightarrow> ha_binds acc = [] \<and> ha_mounts acc = [])"
  by (auto simp: assms helperAccess_def socketMounts_def Let_def split: option.splits)

theorem helper_mounts_only_socket_witness:
  "\<exists>acc. acc = helperAccess \<lparr>in_id = ''i'', in_name = ''/wnd'', in_image = ''sha256:a'', in_state = None, in_config = None,
       in_host = Some (fakeHostConfig\<lparr>hc_binds := [''/var/run/docker.sock:/var/run/docker.sock:ro'', ''data:/data''],
         hc_groupAdd := [''999'']\<rparr>), in_networks = None, in_mounts = []\<rparr> ''unix:///var/run/docker.sock''
     \<and> ha_binds acc = [''/var/run/docker.sock:/var/run/docker.sock:ro''] \<and> ha_mounts acc = []"
proof -
  let ?i = "\<lparr>in_id = ''i'', in_name = ''/wnd'', in_image = ''sha256:a'', in_state = None, in_config = None,
       in_host = Some (fakeHostConfig\<lparr>hc_binds := [''/var/run/docker.sock:/var/run/docker.sock:ro'', ''data:/data''],
         hc_groupAdd := [''999'']\<rparr>), in_networks = None, in_mounts = []\<rparr>"
  have "ha_binds (helperAccess ?i ''unix:///var/run/docker.sock'') = [''/var/run/docker.sock:/var/run/docker.sock:ro'']"
    by code_simp
  with helper_mounts_only_socket [OF refl, of ?i "''unix:///var/run/docker.sock''"] show ?thesis by auto
qed

end
