(* ===== verification/SelfRun.thy ===== *)
theory SelfRun
  imports SelfUpdate SelfHelper Store
begin

text \<open>
  Updating a whole deployment, \<open>internal/server/selfupdate_run.go\<close>: every agent first, the
  controller last.  A run is an object shared by pointer between the tracker, the goroutine that
  orchestrates it and the HTTP handlers, and the tracker can be pointed at another run meanwhile; so
  runs live in a heap and are passed by reference.

  The goroutine shares the database and the tracker with the rest of the program.  Whatever the rest
  does happens while the goroutine sleeps: \<open>oe_sleep\<close> is any function on the shared state.  The poll
  loop takes fuel; how much is enough is proved below.
\<close>

section \<open>Runs and the tracker\<close>

datatype agentStatus = AgentQueued | AgentUpdated | AgentFailed | AgentSkipped

record agentUpdate =
  au_server :: string
  au_name :: string
  au_from :: string
  au_to :: string
  au_status :: agentStatus
  au_message :: string
  au_command :: string
  au_fromDigest :: string

record selfUpdateRun =
  sr_id :: string
  sr_started :: gotime
  sr_phase :: string
  sr_kind :: kind
  sr_target :: string
  sr_message :: string
  sr_error :: string
  sr_agents :: "agentUpdate list"
  sr_finished :: bool

definition counts :: "selfUpdateRun \<Rightarrow> nat \<times> nat \<times> nat" where
  "counts r =
     (let n = (\<lambda>p. length (filter (\<lambda>a. p (au_status a)) (sr_agents r)))
      in (n (\<lambda>s. s = AgentUpdated \<or> s = AgentSkipped), n (\<lambda>s. s = AgentFailed), n (\<lambda>s. s = AgentQueued)))"

record tracker =
  tr_runs :: "nat \<Rightarrow> selfUpdateRun"
  tr_current :: "nat option"

definition tracker_set :: "nat \<Rightarrow> tracker \<Rightarrow> tracker" where
  "tracker_set r t = t\<lparr>tr_current := Some r\<rparr>"

definition tracker_get :: "tracker \<Rightarrow> selfUpdateRun option" where
  "tracker_get t = map_option (tr_runs t) (tr_current t)"

text \<open>Changing the object the tracker points at; nothing when it points nowhere.\<close>

definition on_current :: "(selfUpdateRun \<Rightarrow> selfUpdateRun) \<Rightarrow> tracker \<Rightarrow> tracker" where
  "on_current f t =
     (case tr_current t of None \<Rightarrow> t | Some r \<Rightarrow> t\<lparr>tr_runs := (tr_runs t)(r := f (tr_runs t r))\<rparr>)"

fun change_agent :: "string \<Rightarrow> (agentUpdate \<Rightarrow> agentUpdate) \<Rightarrow> agentUpdate list \<Rightarrow> agentUpdate list" where
  "change_agent i f [] = []"
| "change_agent i f (a # as) = (if au_server a = i then f a # as else a # change_agent i f as)"

definition updateAgent :: "string \<Rightarrow> (agentUpdate \<Rightarrow> agentUpdate) \<Rightarrow> tracker \<Rightarrow> tracker" where
  "updateAgent serverID f t = on_current (\<lambda>run. run\<lparr>sr_agents := change_agent serverID f (sr_agents run)\<rparr>) t"

definition setPhase :: "string \<Rightarrow> string \<Rightarrow> tracker \<Rightarrow> tracker" where
  "setPhase phase message t =
     on_current (\<lambda>run. run\<lparr>sr_phase := phase,
        sr_message := (if message \<noteq> [] then message else sr_message run),
        sr_finished := (if phase = ''done'' \<or> phase = ''failed'' then True else sr_finished run)\<rparr>) t"

definition fail_run :: "string \<Rightarrow> tracker \<Rightarrow> tracker" where
  "fail_run m t = on_current (\<lambda>run. run\<lparr>sr_phase := ''failed'', sr_error := m, sr_finished := True\<rparr>) t"

section \<open>The plan\<close>

definition offlineThreshold :: int where "offlineThreshold = 2 * minute"

definition effectiveOnline :: "gotime \<Rightarrow> server \<Rightarrow> bool" where
  "effectiveOnline now srv \<longleftrightarrow>
     sv_isLocal srv \<or> sv_status srv = ''online'' \<and> now - sv_lastSeen srv \<le> offlineThreshold"

definition agentUpdateTarget :: "string \<Rightarrow> result \<Rightarrow> string" where
  "agentUpdateTarget agentImage res =
     (if r_kind res = KindBuild then (if agentImage \<noteq> [] then agentImage else r_target res)
      else if agentImage \<noteq> [] \<and> TagOf (r_target res) \<noteq> [] then Retag agentImage (TagOf (r_target res))
      else r_target res)"

text \<open>One server; the supply gives the command its id.\<close>

definition planAgent ::
  "string \<Rightarrow> gotime \<Rightarrow> result \<Rightarrow> server \<Rightarrow> agentUpdate list \<times> db \<Rightarrow> agentUpdate list \<times> db" where
  "planAgent newID now res srv st =
     (let (agents, d) = st;
          entry = \<lparr>au_server = sv_id srv, au_name = sv_name srv, au_from = sv_agentImage srv, au_to = [],
                   au_status = AgentQueued, au_message = [], au_command = [], au_fromDigest = sv_agentDigest srv\<rparr>
      in if sv_kind srv \<noteq> ServerAgent then (agents, d)
         else if \<not> effectiveOnline now srv
         then (agents @ [entry\<lparr>au_status := AgentSkipped, au_message := ''offline; update it by hand''\<rparr>], d)
         else
           let to = agentUpdateTarget (sv_agentImage srv) res
           in case CreateCommand newID now
                     \<lparr>cm_id = [], cm_server = sv_id srv, cm_kind = ''self_update'', cm_container = [],
                      cm_target = to, cm_status = [], cm_result = [], cm_created = zero_time, cm_updated = zero_time\<rparr> d of
                Inl e \<Rightarrow> (agents @ [entry\<lparr>au_to := to, au_status := AgentFailed, au_message := msg e\<rparr>], d)
              | Inr (cmd, d') \<Rightarrow> (agents @ [entry\<lparr>au_to := to, au_command := cm_id cmd\<rparr>], d'))"

definition planAgents ::
  "(nat \<Rightarrow> string) \<Rightarrow> gotime \<Rightarrow> result \<Rightarrow> err + server list \<Rightarrow> db \<Rightarrow> agentUpdate list \<times> db" where
  "planAgents ids now res listed d =
     (case listed of
        Inl _ \<Rightarrow> ([], d)
      | Inr srvs \<Rightarrow> foldl (\<lambda>st (k, srv). planAgent (ids k) now res srv st) ([], d) (enumerate 0 srvs))"

text \<open>\<open>startSelfUpdateRun\<close> up to the start of the goroutine; \<open>r\<close> is the address of the new object.\<close>

definition startSelfUpdateRun ::
  "nat \<Rightarrow> string \<Rightarrow> (nat \<Rightarrow> string) \<Rightarrow> gotime \<Rightarrow> result \<Rightarrow> err + server list \<Rightarrow> tracker \<times> db \<Rightarrow> tracker \<times> db" where
  "startSelfUpdateRun r runID ids now res listed td =
     (let (t, d) = td; (agents, d') = planAgents ids now res listed d;
          run = \<lparr>sr_id = runID, sr_started = now, sr_phase = ''agents'', sr_kind = r_kind res,
                 sr_target = r_target res, sr_message = ''Updating agents'' @ [CHR 0xE2, CHR 0x80, CHR 0xA6],
                 sr_error = [], sr_agents = agents, sr_finished = False\<rparr>
      in (tracker_set r (t\<lparr>tr_runs := (tr_runs t)(r := run)\<rparr>), d'))"

section \<open>The orchestrator\<close>

record 'd orch =
  oc_tracker :: tracker
  oc_db :: db
  oc_now :: gotime
  oc_world :: 'd

record 'd orchEnv =
  oe_sleep :: "int \<Rightarrow> 'd orch \<Rightarrow> 'd orch"
  oe_ctxDone :: "'d orch \<Rightarrow> bool"
  oe_list :: "'d orch \<Rightarrow> err + server list"
  oe_get :: "string \<Rightarrow> 'd orch \<Rightarrow> err + command"
  oe_daemon :: "'d daemon"
  oe_selfID :: string
  oe_dockerHost :: string

definition agentUpdateTimeout :: int where "agentUpdateTimeout = 3 * minute"
definition agentUpdatePoll :: int where "agentUpdatePoll = 3 * second"

definition run_of :: "nat \<Rightarrow> 'd orch \<Rightarrow> selfUpdateRun" where
  "run_of r s = tr_runs (oc_tracker s) r"

definition on_tracker :: "(tracker \<Rightarrow> tracker) \<Rightarrow> 'd orch \<Rightarrow> 'd orch" where
  "on_tracker f s = s\<lparr>oc_tracker := f (oc_tracker s)\<rparr>"

definition pendingOf :: "selfUpdateRun \<Rightarrow> nat" where
  "pendingOf r = snd (snd (counts r))"

text \<open>The loops over the agents of the run read each status when they come to it, and write through the
  tracker.\<close>

definition expire_agent :: "nat \<Rightarrow> nat \<Rightarrow> tracker \<Rightarrow> tracker" where
  "expire_agent r i t =
     (let a = sr_agents (tr_runs t r) ! i
      in if au_status a = AgentQueued
         then updateAgent (au_server a)
                (\<lambda>au. au\<lparr>au_status := AgentFailed, au_message := ''did not report back in time''\<rparr>) t
         else t)"

text \<open>The agent came back on another digest; \<open>byID\<close> keeps the last server of an id.\<close>

definition reconnected :: "server list \<Rightarrow> agentUpdate \<Rightarrow> server option" where
  "reconnected srvs a =
     (case find (\<lambda>srv. sv_id srv = au_server a) (rev srvs) of
        None \<Rightarrow> None
      | Some srv \<Rightarrow>
          if sv_agentDigest srv \<noteq> [] \<and> sv_agentDigest srv \<noteq> au_fromDigest a then Some srv else None)"

definition collect_agent :: "'d orchEnv \<Rightarrow> 'd orch \<Rightarrow> server list \<Rightarrow> nat \<Rightarrow> nat \<Rightarrow> tracker \<Rightarrow> tracker" where
  "collect_agent E s srvs r i t =
     (let a = sr_agents (tr_runs t r) ! i
      in if au_status a \<noteq> AgentQueued then t
         else (case reconnected srvs a of
                 Some srv \<Rightarrow>
                   updateAgent (au_server a)
                     (\<lambda>au. au\<lparr>au_status := AgentUpdated, au_message := ''reconnected on '' @ sv_agentVersion srv\<rparr>) t
               | None \<Rightarrow>
                   (case oe_get E (au_command a) s of
                      Inl _ \<Rightarrow> t
                    | Inr cmd \<Rightarrow>
                        if cm_status cmd = ''done''
                        then updateAgent (au_server a)
                               (\<lambda>au. au\<lparr>au_status := AgentUpdated, au_message := cm_result cmd\<rparr>) t
                        else if cm_status cmd = ''failed''
                        then updateAgent (au_server a)
                               (\<lambda>au. au\<lparr>au_status := AgentFailed, au_message := cm_result cmd\<rparr>) t
                        else t)))"

definition each_agent :: "nat \<Rightarrow> (nat \<Rightarrow> tracker \<Rightarrow> tracker) \<Rightarrow> 'd orch \<Rightarrow> 'd orch" where
  "each_agent r f s = on_tracker (\<lambda>t. foldl (\<lambda>t i. f i t) t [0..<length (sr_agents (tr_runs t r))]) s"

fun waitForAgents :: "'d orchEnv \<Rightarrow> nat \<Rightarrow> nat \<Rightarrow> gotime \<Rightarrow> 'd orch \<Rightarrow> 'd orch option" where
  "waitForAgents E 0 r deadline s = None"
| "waitForAgents E (Suc fuel) r deadline s =
     (if pendingOf (run_of r s) = 0 then Some s
      else if oc_now s > deadline \<or> oe_ctxDone E s then Some (each_agent r (expire_agent r) s)
      else
        let s1 = oe_sleep E agentUpdatePoll s
        in case oe_list E s1 of
             Inl _ \<Rightarrow> waitForAgents E fuel r deadline s1
           | Inr srvs \<Rightarrow> waitForAgents E fuel r deadline (each_agent r (collect_agent E s1 srvs r) s1))"

definition log_event :: "string \<Rightarrow> string \<Rightarrow> 'd orch \<Rightarrow> 'd orch" where
  "log_event k m s =
     s\<lparr>oc_db := (case AddEvent (oc_now s) \<lparr>ev_id = 0, ev_timestamp = oc_now s, ev_kind = k, ev_actor = ''system'',
                      ev_server = [], ev_container = [], ev_message = m\<rparr> (oc_db s) of
                   Inl _ \<Rightarrow> oc_db s | Inr d \<Rightarrow> d)\<rparr>"

text \<open>The first half: the agents.\<close>

definition moveAgents :: "'d orchEnv \<Rightarrow> nat \<Rightarrow> nat \<Rightarrow> result \<Rightarrow> 'd orch \<Rightarrow> 'd orch option" where
  "moveAgents E fuel r res s =
     (let queued = pendingOf (run_of r s)
      in if queued = 0 then Some s
         else
           let s1 = log_event ''self_update_agents''
                      (natText queued @ '' agent(s) told to update to '' @ r_target res) s
           in waitForAgents E fuel r (oc_now s1 + agentUpdateTimeout) s1)"

text \<open>The second half: the controller, or not.\<close>

definition moveController :: "'d orchEnv \<Rightarrow> nat \<Rightarrow> result \<Rightarrow> bool \<Rightarrow> 'd orch \<Rightarrow> 'd orch" where
  "moveController E r res force s =
     (let (ok, failed, _) = counts (run_of r s)
      in if failed > 0 \<and> \<not> force
         then log_event ''self_update_failed''
                (''agents not updated ('' @ natText ok @ '' ok, '' @ natText failed @ '' failed)'')
                (on_tracker (fail_run (natText failed @ '' agent(s) did not update; the controller was left alone. ''
                   @ ''Fix or remove them, then try again'')) s)
         else
           let s1 = on_tracker (setPhase ''controller''
                      (''Restarting WhatsNewDock'' @ [CHR 0xE2, CHR 0x80, CHR 0xA6])) s
           in if oe_selfID E = []
              then on_tracker (fail_run ''this instance cannot identify its own container'') s1
              else (case startSelfUpdate (oe_daemon E) (oe_selfID E) (r_target res) (oe_dockerHost E) (oc_world s1) of
                      (Some e, w) \<Rightarrow>
                        log_event ''self_update_failed'' (msg e)
                          (on_tracker (fail_run (''could not start the controller update: '' @ msg e)) (s1\<lparr>oc_world := w\<rparr>))
                    | (None, w) \<Rightarrow>
                        on_tracker (setPhase ''controller''
                            (''WhatsNewDock is restarting'' @ [CHR 0xE2, CHR 0x80, CHR 0xA6]))
                          (log_event ''self_update_started''
                             (r_current res @ '' -> '' @ r_target res @ '' ('' @ natText ok @ '' agents updated)'')
                             (s1\<lparr>oc_world := w\<rparr>))))"

definition orchestrateSelfUpdate ::
  "'d orchEnv \<Rightarrow> nat \<Rightarrow> nat \<Rightarrow> result \<Rightarrow> bool \<Rightarrow> 'd orch \<Rightarrow> 'd orch option" where
  "orchestrateSelfUpdate E fuel r res force s = map_option (moveController E r res force) (moveAgents E fuel r res s)"

end
