(* ===== verification/SelfRunProps.thy ===== *)
theory SelfRunProps
  imports SelfRun StoreProps
begin

text \<open>
  What a run guarantees: the controller goes last as long as the tracker stays with the run, the wait
  ends, and what happens when a second run takes the tracker over.
\<close>

section \<open>The loops over the agents\<close>

definition with_agents :: "nat \<Rightarrow> agentUpdate list \<Rightarrow> tracker \<Rightarrow> tracker" where
  "with_agents r as t = t\<lparr>tr_runs := (tr_runs t)(r := (tr_runs t r)\<lparr>sr_agents := as\<rparr>)\<rparr>"

lemma with_agents_sel [simp]:
  "sr_agents (tr_runs (with_agents r as t) r) = as" "tr_current (with_agents r as t) = tr_current t"
  "with_agents r bs (with_agents r as t) = with_agents r bs t"
  "with_agents r (sr_agents (tr_runs t r)) t = t"
  by (simp_all add: with_agents_def)

lemma change_agent_distinct:
  "distinct (map au_server as) \<Longrightarrow> i < length as \<Longrightarrow> change_agent (au_server (as ! i)) f as = as[i := f (as ! i)]"
proof (induction as arbitrary: i)
  case (Cons a as)
  show ?case
  proof (cases i)
    case (Suc j)
    with Cons have "au_server (as ! j) \<in> au_server ` set as" by auto
    with Cons.prems have "au_server a \<noteq> au_server (as ! j)" by auto
    with Cons Suc show ?thesis by simp
  qed simp
qed simp

lemma update_one:
  assumes "tr_current t = Some r" and "distinct (map au_server (sr_agents (tr_runs t r)))"
    and "i < length (sr_agents (tr_runs t r))"
  shows "updateAgent (au_server (sr_agents (tr_runs t r) ! i)) f t
    = with_agents r ((sr_agents (tr_runs t r))[i := f (sr_agents (tr_runs t r) ! i)]) t"
  using assms by (simp add: updateAgent_def on_current_def with_agents_def change_agent_distinct)

text \<open>A loop whose body replaces the agent it is at is a map over the agents.\<close>

lemma agents_loop:
  assumes cur: "tr_current t = Some r" and dist: "distinct (map au_server (sr_agents (tr_runs t r)))"
    and body: "\<And>i t. tr_current t = Some r \<Longrightarrow> distinct (map au_server (sr_agents (tr_runs t r))) \<Longrightarrow>
      i < length (sr_agents (tr_runs t r)) \<Longrightarrow>
      f i t = with_agents r ((sr_agents (tr_runs t r))[i := h (sr_agents (tr_runs t r) ! i)]) t"
    and name: "\<And>a. au_server (h a) = au_server a"
  shows "k \<le> length (sr_agents (tr_runs t r)) \<Longrightarrow>
    foldl (\<lambda>t i. f i t) t [0..<k]
      = with_agents r (map h (take k (sr_agents (tr_runs t r))) @ drop k (sr_agents (tr_runs t r))) t"
proof (induction k)
  case 0
  then show ?case by simp
next
  case (Suc k)
  let ?as = "sr_agents (tr_runs t r)"
  let ?bs = "map h (take k ?as) @ drop k ?as"
  have "map au_server ?bs = map au_server ?as"
    by (simp add: name comp_def flip: drop_map take_map)
  then have d: "distinct (map au_server ?bs)" using dist by (simp del: map_append)
  have k: "?bs ! k = ?as ! k" using Suc.prems by (simp add: nth_append)
  have "foldl (\<lambda>t i. f i t) t [0..<Suc k] = f k (with_agents r ?bs t)" using Suc by simp
  also have "\<dots> = with_agents r (?bs[k := h (?as ! k)]) t"
    using body [of "with_agents r ?bs t" k] cur d k Suc.prems by simp
  also have "?bs[k := h (?as ! k)] = map h (take (Suc k) ?as) @ drop (Suc k) ?as"
    using Suc.prems by (simp add: list_update_append take_Suc_conv_app_nth Cons_nth_drop_Suc [symmetric])
  finally show ?case .
qed

definition expired :: "agentUpdate \<Rightarrow> agentUpdate" where
  "expired a = (if au_status a = AgentQueued
     then a\<lparr>au_status := AgentFailed, au_message := ''did not report back in time''\<rparr> else a)"

definition collected :: "'d orchEnv \<Rightarrow> 'd orch \<Rightarrow> server list \<Rightarrow> agentUpdate \<Rightarrow> agentUpdate" where
  "collected E s srvs a =
     (if au_status a \<noteq> AgentQueued then a
      else (case reconnected srvs a of
              Some srv \<Rightarrow> a\<lparr>au_status := AgentUpdated, au_message := ''reconnected on '' @ sv_agentVersion srv\<rparr>
            | None \<Rightarrow>
                (case oe_get E (au_command a) s of
                   Inl _ \<Rightarrow> a
                 | Inr cmd \<Rightarrow>
                     if cm_status cmd = ''done'' then a\<lparr>au_status := AgentUpdated, au_message := cm_result cmd\<rparr>
                     else if cm_status cmd = ''failed'' then a\<lparr>au_status := AgentFailed, au_message := cm_result cmd\<rparr>
                     else a)))"

lemma names_kept [simp]: "au_server (expired a) = au_server a" "au_server (collected E s srvs a) = au_server a"
  by (auto simp: expired_def collected_def split: option.split sum.split)

lemma expire_body:
  assumes "tr_current t = Some r" and "distinct (map au_server (sr_agents (tr_runs t r)))"
    and "i < length (sr_agents (tr_runs t r))"
  shows "expire_agent r i t = with_agents r ((sr_agents (tr_runs t r))[i := expired (sr_agents (tr_runs t r) ! i)]) t"
  by (simp add: expire_agent_def expired_def update_one [OF assms])

lemma collect_body:
  assumes "tr_current t = Some r" and "distinct (map au_server (sr_agents (tr_runs t r)))"
    and "i < length (sr_agents (tr_runs t r))"
  shows "collect_agent E s srvs r i t
    = with_agents r ((sr_agents (tr_runs t r))[i := collected E s srvs (sr_agents (tr_runs t r) ! i)]) t"
  by (auto simp: collect_agent_def collected_def update_one [OF assms] Let_def split: option.split sum.split)

text \<open>The run is the tracker's and its agents are different servers.\<close>

definition owned :: "nat \<Rightarrow> 'd orch \<Rightarrow> bool" where
  "owned r s \<longleftrightarrow> tr_current (oc_tracker s) = Some r \<and> distinct (map au_server (sr_agents (run_of r s)))"

definition keeps_run :: "'d orchEnv \<Rightarrow> nat \<Rightarrow> bool" where
  "keeps_run E r \<longleftrightarrow> (\<forall>s t. tr_current (oc_tracker s) = Some r \<longrightarrow>
     tr_current (oc_tracker (oe_sleep E t s)) = Some r \<and> run_of r (oe_sleep E t s) = run_of r s)"

lemma each_agent_map:
  assumes "owned r s" and "\<And>a. au_server (h a) = au_server a"
    and "\<And>i t. tr_current t = Some r \<Longrightarrow> distinct (map au_server (sr_agents (tr_runs t r))) \<Longrightarrow>
      i < length (sr_agents (tr_runs t r)) \<Longrightarrow>
      f i t = with_agents r ((sr_agents (tr_runs t r))[i := h (sr_agents (tr_runs t r) ! i)]) t"
  shows "owned r (each_agent r f s)" and "sr_agents (run_of r (each_agent r f s)) = map h (sr_agents (run_of r s))"
proof -
  have "foldl (\<lambda>t i. f i t) (oc_tracker s) [0..<length (sr_agents (tr_runs (oc_tracker s) r))]
      = with_agents r (map h (sr_agents (tr_runs (oc_tracker s) r))) (oc_tracker s)"
    using agents_loop [where f = f and h = h and t = "oc_tracker s" and r = r
        and k = "length (sr_agents (tr_runs (oc_tracker s) r))"] assms
    by (simp add: owned_def run_of_def)
  then show "owned r (each_agent r f s)" "sr_agents (run_of r (each_agent r f s)) = map h (sr_agents (run_of r s))"
    using assms(1,2) by (simp_all add: each_agent_def on_tracker_def owned_def run_of_def comp_def)
qed

lemma waitForAgents_settles:
  "waitForAgents E fuel r deadline s = Some s' \<Longrightarrow> keeps_run E r \<Longrightarrow> owned r s \<Longrightarrow>
   owned r s' \<and> pendingOf (run_of r s') = 0"
proof (induction E fuel r deadline s rule: waitForAgents.induct)
  case (1 E r deadline s)
  then show ?case by simp
next
  case (2 E fuel r deadline s)
  note keep = 2(4)
  let ?s1 = "oe_sleep E agentUpdatePoll s"
  have own1: "owned r ?s1" using keep 2(5) by (simp add: owned_def keeps_run_def)
  consider "pendingOf (run_of r s) = 0" | "pendingOf (run_of r s) \<noteq> 0" "oc_now s > deadline \<or> oe_ctxDone E s"
    | "pendingOf (run_of r s) \<noteq> 0" "\<not> (oc_now s > deadline \<or> oe_ctxDone E s)" by blast
  then show ?case
  proof cases
    case 1
    then show ?thesis using 2(3,5) by simp
  next
    case c: 2
    then have s': "s' = each_agent r (expire_agent r) s" using 2(3) by simp
    note m = each_agent_map [OF 2(5) names_kept(1) expire_body]
    have "pendingOf (run_of r s') = 0"
      unfolding s' by (auto simp: pendingOf_def counts_def m(2) Let_def filter_empty_conv expired_def)
    with m(1) s' show ?thesis by simp
  next
    case c: 3
    show ?thesis
    proof (cases "oe_list E ?s1")
      case (Inl e)
      with c 2(3) have "waitForAgents E fuel r deadline ?s1 = Some s'" by (simp add: Let_def)
      then show ?thesis by (rule 2(1) [OF c(1) c(2) refl Inl _ keep own1])
    next
      case (Inr srvs)
      let ?s2 = "each_agent r (collect_agent E ?s1 srvs r) ?s1"
      from c 2(3) Inr have "waitForAgents E fuel r deadline ?s2 = Some s'" by (simp add: Let_def)
      moreover have "owned r ?s2" by (rule each_agent_map(1) [OF own1 names_kept(2) collect_body])
      ultimately show ?thesis by (rule 2(2) [OF c(1) c(2) refl Inr _ keep])
    qed
  qed
qed

lemma log_event_sel [simp]:
  "oc_tracker (log_event k m s) = oc_tracker s" "oc_world (log_event k m s) = oc_world s"
  "run_of r (log_event k m s) = run_of r s" "oc_now (log_event k m s) = oc_now s"
  by (simp_all add: log_event_def run_of_def)

lemma moveAgents_settles:
  assumes "moveAgents E fuel r res s = Some s'" and "keeps_run E r" and "owned r s"
  shows "owned r s' \<and> pendingOf (run_of r s') = 0"
proof (cases "pendingOf (run_of r s) = 0")
  case True
  then show ?thesis using assms(1,3) by (simp add: moveAgents_def)
next
  case False
  then show ?thesis
    using assms waitForAgents_settles [of E fuel r _ "log_event k m s" s' for k m]
    by (auto simp: moveAgents_def Let_def owned_def)
qed

lemma on_current_agents:
  assumes "tr_current t = Some r" and "\<And>run. sr_agents (f run) = sr_agents run"
  shows "sr_agents (tr_runs (on_current f t) r) = sr_agents (tr_runs t r)"
  using assms by (simp add: on_current_def)

text \<open>C17: the controller goes last: unless the run was forced, a run the tracker stays with ends with every
  agent updated or skipped, or it fails before the controller's container is touched.\<close>

theorem controller_goes_last:
  assumes "keeps_run E r" and "owned r s" and "orchestrateSelfUpdate E fuel r res False s = Some s'"
  shows "\<exists>s1. moveAgents E fuel r res s = Some s1
    \<and> ((\<forall>a\<in>set (sr_agents (run_of r s1)). au_status a \<in> {AgentUpdated, AgentSkipped})
       \<or> oc_world s' = oc_world s1 \<and> sr_phase (run_of r s') = ''failed'' \<and> sr_finished (run_of r s'))"
proof -
  from assms(3) obtain s1 where s1: "moveAgents E fuel r res s = Some s1" "s' = moveController E r res False s1"
    by (auto simp: orchestrateSelfUpdate_def)
  from moveAgents_settles [OF s1(1) assms(1,2)] have own: "owned r s1" and none: "pendingOf (run_of r s1) = 0" by auto
  obtain ok failed p where cnt: "counts (run_of r s1) = (ok, failed, p)" by (metis prod_cases3)
  show ?thesis
  proof (cases "failed = 0")
    case True
    have "au_status a \<in> {AgentUpdated, AgentSkipped}" if "a \<in> set (sr_agents (run_of r s1))" for a
    proof -
      from True cnt none that have "au_status a \<noteq> AgentFailed" "au_status a \<noteq> AgentQueued"
        by (auto simp: counts_def pendingOf_def Let_def filter_empty_conv)
      then show ?thesis by (cases "au_status a") auto
    qed
    with s1(1) show ?thesis by blast
  next
    case False
    then have "oc_world s' = oc_world s1 \<and> sr_phase (run_of r s') = ''failed'' \<and> sr_finished (run_of r s')"
      using cnt own s1(2)
      by (simp add: moveController_def on_tracker_def fail_run_def on_current_def owned_def run_of_def log_event_def)
    with s1(1) show ?thesis by blast
  qed
qed

section \<open>The wait ends\<close>

lemma each_agent_now [simp]: "oc_now (each_agent r f s) = oc_now s"
  by (simp add: each_agent_def on_tracker_def)

lemma waitForAgents_ends:
  assumes clock: "\<And>t s. oc_now (oe_sleep E t s) \<ge> oc_now s + t"
  shows "deadline - oc_now s < int n * agentUpdatePoll \<Longrightarrow> waitForAgents E (Suc n) r deadline s \<noteq> None"
proof (induction n arbitrary: s)
  case 0
  then show ?case by simp
next
  case (Suc n)
  let ?s1 = "oe_sleep E agentUpdatePoll s"
  have less: "deadline - oc_now ?s1 < int n * agentUpdatePoll"
    using Suc.prems clock [of s agentUpdatePoll] by (simp add: algebra_simps)
  note ih = Suc.IH [OF less]
  have "waitForAgents E (Suc n) r deadline (each_agent r (collect_agent E ?s1 srvs r) ?s1) \<noteq> None" for srvs
    by (rule Suc.IH) (simp only: each_agent_now less)
  with ih show ?case
    by (subst waitForAgents.simps) (simp add: Let_def del: waitForAgents.simps split: sum.split)
qed

lemma moveAgents_ends:
  assumes "\<And>t s. oc_now (oe_sleep E t s) \<ge> oc_now s + t"
  shows "moveAgents E 62 r res s \<noteq> None"
proof -
  have s: "62 = Suc (61 :: nat)" by simp
  have w: "waitForAgents E 62 r (oc_now x + agentUpdateTimeout) x \<noteq> None" for x
    by (subst s, rule waitForAgents_ends [OF assms]) (simp add: agentUpdateTimeout_def agentUpdatePoll_def)
  show ?thesis unfolding moveAgents_def Let_def by (split if_split) (intro conjI impI w option.distinct(2))
qed

text \<open>C25: a run ends: with a clock that moves while the goroutine sleeps, 62 polls are enough for the three
  minutes the agents are given, whatever the rest of the program does meanwhile.\<close>

theorem orchestrate_ends:
  assumes "\<And>t s. oc_now (oe_sleep E t s) \<ge> oc_now s + t"
  shows "orchestrateSelfUpdate E 62 r res force s \<noteq> None"
  using moveAgents_ends [OF assms] by (simp add: orchestrateSelfUpdate_def)

section \<open>Two runs at once\<close>

lemma updateAgent_other:
  "tr_current t = Some q \<Longrightarrow> q \<noteq> r \<Longrightarrow>
   tr_current (updateAgent i f t) = Some q \<and> tr_runs (updateAgent i f t) r = tr_runs t r"
  by (simp add: updateAgent_def on_current_def)

lemma each_agent_other:
  assumes body: "\<And>i t. tr_current t = Some q \<Longrightarrow> tr_current (f i t) = Some q \<and> tr_runs (f i t) r = tr_runs t r"
    and "tr_current (oc_tracker s) = Some q"
  shows "tr_current (oc_tracker (each_agent r f s)) = Some q \<and> run_of r (each_agent r f s) = run_of r s"
proof -
  have "tr_current (foldl (\<lambda>t i. f i t) t is) = Some q \<and> tr_runs (foldl (\<lambda>t i. f i t) t is) r = tr_runs t r"
    if "tr_current t = Some q" for t "is"
    using that by (induction "is" arbitrary: t) (simp_all add: body)
  from this [OF assms(2)] show ?thesis by (simp add: each_agent_def on_tracker_def run_of_def)
qed

lemma collect_other: "tr_current t = Some q \<Longrightarrow> q \<noteq> r \<Longrightarrow>
    tr_current (collect_agent E s srvs r i t) = Some q \<and> tr_runs (collect_agent E s srvs r i t) r = tr_runs t r"
  by (auto simp: collect_agent_def Let_def updateAgent_other split: option.split sum.split)

lemma expire_other: "tr_current t = Some q \<Longrightarrow> q \<noteq> r \<Longrightarrow>
    tr_current (expire_agent r i t) = Some q \<and> tr_runs (expire_agent r i t) r = tr_runs t r"
  by (auto simp: expire_agent_def Let_def updateAgent_other)

lemma waitForAgents_superseded:
  "waitForAgents E fuel r deadline s = Some s' \<Longrightarrow> tr_current (oc_tracker s) = Some q \<Longrightarrow> q \<noteq> r \<Longrightarrow>
   (\<And>s t. tr_current (oc_tracker s) = Some q \<Longrightarrow>
      tr_current (oc_tracker (oe_sleep E t s)) = Some q \<and> run_of r (oe_sleep E t s) = run_of r s) \<Longrightarrow>
   run_of r s' = run_of r s"
proof (induction E fuel r deadline s rule: waitForAgents.induct)
  case (1 E r deadline s)
  then show ?case by simp
next
  case (2 E fuel r deadline s)
  let ?s1 = "oe_sleep E agentUpdatePoll s"
  have 1: "tr_current (oc_tracker ?s1) = Some q" "run_of r ?s1 = run_of r s" using 2(4,6) by auto
  have c: "tr_current (oc_tracker (each_agent r (collect_agent E ?s1 srvs r) ?s1)) = Some q
      \<and> run_of r (each_agent r (collect_agent E ?s1 srvs r) ?s1) = run_of r s" for srvs
    using each_agent_other [OF collect_other [OF _ 2(5)] 1(1)] 1(2) by simp
  have e: "run_of r (each_agent r (expire_agent r) s) = run_of r s"
    using each_agent_other [OF expire_other [OF _ 2(5)] 2(4)] by simp
  show ?case
  proof (cases "pendingOf (run_of r s) = 0 \<or> oc_now s > deadline \<or> oe_ctxDone E s")
    case True
    then show ?thesis using 2(3) e by (auto split: if_splits)
  next
    case False
    then have f: "pendingOf (run_of r s) \<noteq> 0" "\<not> (oc_now s > deadline \<or> oe_ctxDone E s)" by auto
    show ?thesis
    proof (cases "oe_list E ?s1")
      case (Inl x)
      with f 2(3) have "waitForAgents E fuel r deadline ?s1 = Some s'" by (simp add: Let_def)
      from 2(1) [OF f refl Inl this 1(1) 2(5,6)] 1(2) show ?thesis by simp
    next
      case (Inr srvs)
      with f 2(3) have "waitForAgents E fuel r deadline (each_agent r (collect_agent E ?s1 srvs r) ?s1) = Some s'"
        by (simp add: Let_def)
      from 2(2) [OF f refl Inr this conjunct1 [OF c] 2(5,6)] c show ?thesis by simp
    qed
  qed
qed

lemma moveAgents_superseded:
  assumes "moveAgents E fuel r res s = Some s'" and "tr_current (oc_tracker s) = Some q" and "q \<noteq> r"
    and "\<And>s t. tr_current (oc_tracker s) = Some q \<Longrightarrow>
      tr_current (oc_tracker (oe_sleep E t s)) = Some q \<and> run_of r (oe_sleep E t s) = run_of r s"
  shows "run_of r s' = run_of r s"
proof (cases "pendingOf (run_of r s) = 0")
  case True
  then show ?thesis using assms(1) by (simp add: moveAgents_def)
next
  case False
  let ?s1 = "log_event ''self_update_agents''
      (natText (pendingOf (run_of r s)) @ '' agent(s) told to update to '' @ r_target res) s"
  have "waitForAgents E fuel r (oc_now ?s1 + agentUpdateTimeout) ?s1 = Some s'"
    using assms(1) False by (simp add: moveAgents_def Let_def)
  from waitForAgents_superseded [OF this _ assms(3,4)] assms(2) show ?thesis by simp
qed

text \<open>A second run breaks the order of the first: once another run is the tracker's, the first run's
  goroutine changes none of its own agents any more, so none of them ever counts as failed, and when its
  wait is over it goes on to replace the controller although agents it queued have not reported.\<close>

theorem superseded_run_proceeds:
  assumes "tr_current (oc_tracker s) = Some q" and "q \<noteq> r"
    and "\<And>s t. tr_current (oc_tracker s) = Some q \<Longrightarrow>
      tr_current (oc_tracker (oe_sleep E t s)) = Some q \<and> run_of r (oe_sleep E t s) = run_of r s"
    and "\<forall>a\<in>set (sr_agents (run_of r s)). au_status a \<noteq> AgentFailed" and "oe_selfID E \<noteq> []"
    and "moveAgents E fuel r res s = Some s1"
  shows "sr_agents (run_of r s1) = sr_agents (run_of r s)
    \<and> oc_world (moveController E r res False s1)
        = snd (startSelfUpdate (oe_daemon E) (oe_selfID E) (r_target res) (oe_dockerHost E) (oc_world s1))"
proof -
  have same: "run_of r s1 = run_of r s" by (rule moveAgents_superseded [OF assms(6,1-3)])
  obtain ok p where cnt: "counts (run_of r s1) = (ok, 0, p)"
    using assms(4) unfolding same by (simp add: counts_def Let_def filter_empty_conv)
  obtain e w where w: "startSelfUpdate (oe_daemon E) (oe_selfID E) (r_target res) (oe_dockerHost E) (oc_world s1) = (e, w)"
    by fastforce
  have "oc_world (moveController E r res False s1) = w"
    using cnt w assms(5) by (cases e) (simp_all add: moveController_def on_tracker_def)
  with same w show ?thesis by simp
qed

section \<open>The plan\<close>

text \<open>The command an agent was told to run is waiting for it.\<close>

definition commanded :: "db \<Rightarrow> agentUpdate \<Rightarrow> bool" where
  "commanded d a \<longleftrightarrow> (\<exists>c\<in>set (commands d). cm_id c = au_command a \<and> cm_server c = au_server a
     \<and> cm_kind c = ''self_update'' \<and> cm_target c = au_to a \<and> cm_status c = ''pending'')"

lemma CreateCommand_row:
  assumes "CreateCommand i now c d = Inr (c', d')"
  shows "c' = (if cm_id c = [] then c\<lparr>cm_id := i\<rparr> else c)
    \<and> commands d' = commands d @ [c'\<lparr>cm_status := ''pending'', cm_result := [], cm_created := now, cm_updated := now\<rparr>]"
  using assms by (auto simp: CreateCommand_def Let_def unique_on_def and_then_eq_Inr split: if_splits)

lemma planAgent_step:
  assumes "planAgent i now res srv (as, d) = (as', d')"
    and "\<forall>a\<in>set as. au_status a = AgentQueued \<longrightarrow> commanded d a"
  shows "map au_server as' = map au_server as @ (if sv_kind srv = ServerAgent then [sv_id srv] else [])
    \<and> (\<forall>a\<in>set as'. au_status a = AgentQueued \<longrightarrow> commanded d' a)"
proof -
  have mono: "commanded d a \<Longrightarrow> set (commands d) \<subseteq> set (commands x) \<Longrightarrow> commanded x a" for a x
    by (auto simp: commanded_def)
  show ?thesis
  proof (cases "sv_kind srv = ServerAgent \<and> effectiveOnline now srv")
    case False
    then show ?thesis using assms by (auto simp: planAgent_def split: if_splits)
  next
    case True
    let ?to = "agentUpdateTarget (sv_agentImage srv) res"
    let ?c = "\<lparr>cm_id = [], cm_server = sv_id srv, cm_kind = ''self_update'', cm_container = [],
       cm_target = ?to, cm_status = [], cm_result = [], cm_created = zero_time, cm_updated = zero_time\<rparr>"
    show ?thesis
    proof (cases "CreateCommand i now ?c d")
      case (Inl e)
      then show ?thesis using True assms by (auto simp: planAgent_def Let_def)
    next
      case (Inr cd)
      obtain c' d1 where cd: "cd = (c', d1)" by fastforce
      note row = CreateCommand_row [OF Inr [unfolded cd]]
      have out: "d' = d1" "as' = as @ [\<lparr>au_server = sv_id srv, au_name = sv_name srv, au_from = sv_agentImage srv,
          au_to = ?to, au_status = AgentQueued, au_message = [], au_command = cm_id c', au_fromDigest = sv_agentDigest srv\<rparr>]"
        using assms(1) True Inr cd by (simp_all add: planAgent_def Let_def)
      have "commanded d' a" if "a \<in> set as" "au_status a = AgentQueued" for a
        using mono [of a d'] assms(2) that row out(1) by auto
      moreover have "commanded d' (last as')" unfolding out commanded_def using row by auto
      ultimately show ?thesis using True by (auto simp: out)
    qed
  qed
qed

lemma planAgents_loop:
  assumes "\<forall>a\<in>set as. au_status a = AgentQueued \<longrightarrow> commanded d a"
    and "foldl (\<lambda>st (k, srv). planAgent (ids k) now res srv st) (as, d) (enumerate n srvs) = (as', d')"
  shows "map au_server as' = map au_server as @ map sv_id (filter (\<lambda>srv. sv_kind srv = ServerAgent) srvs)
    \<and> (\<forall>a\<in>set as'. au_status a = AgentQueued \<longrightarrow> commanded d' a)"
  using assms
proof (induction srvs arbitrary: n as d)
  case (Cons srv srvs)
  obtain as1 d1 where 1: "planAgent (ids n) now res srv (as, d) = (as1, d1)" by fastforce
  from planAgent_step [OF 1 Cons.prems(1)] have
    "map au_server as1 = map au_server as @ (if sv_kind srv = ServerAgent then [sv_id srv] else [])"
    "\<forall>a\<in>set as1. au_status a = AgentQueued \<longrightarrow> commanded d1 a" by auto
  with Cons.IH [OF this(2), of "Suc n"] Cons.prems(2) 1 show ?case by auto
qed simp

text \<open>A run plans for every agent and tells each one it waits for: the entries of a new run are the
  deployment's agents, one each and in order, and each queued one has its command, with the target of its
  entry, pending in the queue.\<close>

theorem plan_covers_agents:
  assumes "startSelfUpdateRun r runID ids now res (Inr srvs) (t, d) = (t', d')"
  shows "tr_current t' = Some r
    \<and> map au_server (sr_agents (tr_runs t' r)) = map sv_id (filter (\<lambda>srv. sv_kind srv = ServerAgent) srvs)
    \<and> (\<forall>a\<in>set (sr_agents (tr_runs t' r)). au_status a = AgentQueued \<longrightarrow> commanded d' a)"
proof -
  obtain as d1 where p: "planAgents ids now res (Inr srvs) d = (as, d1)" by fastforce
  have "tr_current t' = Some r" "sr_agents (tr_runs t' r) = as" "d' = d1"
    using assms p by (auto simp: startSelfUpdateRun_def tracker_set_def)
  moreover note planAgents_loop [of "[]" d ids now res 0 srvs as d1] p
  ultimately show ?thesis by (simp add: planAgents_def)
qed

section \<open>A deployment with one agent\<close>

definition demoEnv :: "bool \<Rightarrow> fake orchEnv" where
  "demoEnv expired_ctx = \<lparr>oe_sleep = \<lambda>t s. s\<lparr>oc_now := oc_now s + t\<rparr>, oe_ctxDone = \<lambda>s. expired_ctx, oe_list = \<lambda>s. Inr [],
     oe_get = \<lambda>i s. Inr \<lparr>cm_id = i, cm_server = ''a'', cm_kind = ''self_update'', cm_container = [], cm_target = [],
       cm_status = ''done'', cm_result = ''updated'', cm_created = 0, cm_updated = 0\<rparr>,
     oe_daemon = fakeDaemon (quiet fakeOk), oe_selfID = ''0123456789ab'', oe_dockerHost = ''tcp://proxy:2375''\<rparr>"

definition demoRun :: selfUpdateRun where
  "demoRun = \<lparr>sr_id = ''r'', sr_started = 0, sr_phase = ''agents'', sr_kind = KindRelease, sr_target = ''ghcr.io/o/wnd:2'',
     sr_message = [], sr_error = [],
     sr_agents = [\<lparr>au_server = ''a'', au_name = ''edge'', au_from = [], au_to = [], au_status = AgentQueued, au_message = [],
       au_command = ''c1'', au_fromDigest = []\<rparr>], sr_finished = False\<rparr>"

definition demoOrch :: "nat \<Rightarrow> fake orch" where
  "demoOrch current = \<lparr>oc_tracker = \<lparr>tr_runs = \<lambda>_. demoRun, tr_current = Some current\<rparr>, oc_db = empty_db, oc_now = 0,
     oc_world = appHost\<rparr>"

definition demoResult :: result where
  "demoResult = no_result\<lparr>r_current := ''1'', r_target := ''ghcr.io/o/wnd:2'', r_kind := KindRelease\<rparr>"

lemma demo_keeps: "keeps_run (demoEnv b) r"
  by (simp add: keeps_run_def demoEnv_def run_of_def)

lemma demo_owned: "owned r (demoOrch r)"
  by (simp add: owned_def demoOrch_def run_of_def demoRun_def)

lemma demo_moves:
  "\<exists>s1. moveAgents (demoEnv False) 2 0 demoResult (demoOrch 0) = Some s1"
  by (simp add: moveAgents_def demoEnv_def demoOrch_def demoRun_def pendingOf_def counts_def run_of_def each_agent_def
      on_tracker_def collect_agent_def reconnected_def updateAgent_def on_current_def log_event_def AddEvent_def
      agentUpdateTimeout_def agentUpdatePoll_def numeral_2_eq_2 Let_def)

theorem controller_goes_last_witness:
  "\<exists>s1 s'. orchestrateSelfUpdate (demoEnv False) 2 0 demoResult False (demoOrch 0) = Some s'
     \<and> moveAgents (demoEnv False) 2 0 demoResult (demoOrch 0) = Some s1
     \<and> (au_status ` set (sr_agents (run_of 0 s1)) \<subseteq> {AgentUpdated, AgentSkipped} \<or> oc_world s' = oc_world s1)"
proof -
  obtain s' where run: "orchestrateSelfUpdate (demoEnv False) 2 0 demoResult False (demoOrch 0) = Some s'"
    using demo_moves by (auto simp: orchestrateSelfUpdate_def)
  from controller_goes_last [OF demo_keeps demo_owned run] obtain s1 where
    "moveAgents (demoEnv False) 2 0 demoResult (demoOrch 0) = Some s1"
    "(\<forall>a\<in>set (sr_agents (run_of 0 s1)). au_status a \<in> {AgentUpdated, AgentSkipped}) \<or> oc_world s' = oc_world s1"
    by blast
  with run show ?thesis by (intro exI [of _ s1] exI [of _ s'] conjI) auto
qed

theorem orchestrate_ends_witness:
  "orchestrateSelfUpdate (demoEnv False) 62 0 demoResult False (demoOrch 1) \<noteq> None"
  by (rule orchestrate_ends) (simp add: demoEnv_def)

lemma demo_superseded:
  "\<exists>s1. moveAgents (demoEnv True) 1 0 demoResult (demoOrch 1) = Some s1"
  by (simp add: moveAgents_def demoEnv_def demoOrch_def demoRun_def pendingOf_def counts_def run_of_def Let_def)

theorem superseded_run_proceeds_witness:
  "\<exists>s1. moveAgents (demoEnv True) 1 0 demoResult (demoOrch 1) = Some s1
     \<and> map au_status (sr_agents (run_of 0 s1)) = [AgentQueued]
     \<and> oc_world (moveController (demoEnv True) 0 demoResult False s1)
         = snd (startSelfUpdate (fakeDaemon (quiet fakeOk)) ''0123456789ab'' ''ghcr.io/o/wnd:2'' ''tcp://proxy:2375'' (oc_world s1))"
proof -
  obtain s1 where s1: "moveAgents (demoEnv True) 1 0 demoResult (demoOrch 1) = Some s1"
    using demo_superseded by blast
  have "sr_agents (run_of 0 s1) = sr_agents (run_of 0 (demoOrch 1))
    \<and> oc_world (moveController (demoEnv True) 0 demoResult False s1)
        = snd (startSelfUpdate (oe_daemon (demoEnv True)) (oe_selfID (demoEnv True)) (r_target demoResult)
            (oe_dockerHost (demoEnv True)) (oc_world s1))"
    by (rule superseded_run_proceeds [OF _ _ _ _ _ s1, where q = 1])
      (auto simp: demoOrch_def demoEnv_def run_of_def demoRun_def)
  with s1 show ?thesis by (simp add: demoEnv_def demoResult_def demoOrch_def demoRun_def run_of_def)
qed

definition demoFleet :: "server list" where
  "demoFleet = [empty_server\<lparr>sv_id := ''l'', sv_isLocal := True, sv_kind := ServerLocal\<rparr>,
     empty_server\<lparr>sv_id := ''a'', sv_kind := ServerAgent, sv_status := ''online'', sv_lastSeen := 0\<rparr>,
     empty_server\<lparr>sv_id := ''b'', sv_kind := ServerAgent, sv_status := ''offline''\<rparr>]"

theorem plan_covers_agents_witness:
  "\<exists>t' d'. startSelfUpdateRun 3 ''r'' (\<lambda>k. replicate (Suc k) CHR ''x'') 0 demoResult (Inr demoFleet) (oc_tracker (demoOrch 0), empty_db) = (t', d')
     \<and> map au_server (sr_agents (tr_runs t' 3)) = [''a'', ''b''] \<and> tr_current t' = Some 3"
proof -
  obtain t' d' where run: "startSelfUpdateRun 3 ''r'' (\<lambda>k. replicate (Suc k) CHR ''x'') 0 demoResult (Inr demoFleet)
      (oc_tracker (demoOrch 0), empty_db) = (t', d')" by fastforce
  from plan_covers_agents [OF run] run show ?thesis by (simp add: demoFleet_def empty_server_def)
qed

end
