(* ===== verification/GoTime.thy ===== *)
theory GoTime
  imports Daemon
begin

text \<open>
  Text of values, as Go's \<open>time\<close> and \<open>strconv\<close> packages read and write them where the
  configuration and the settings do: durations, booleans, comma-separated lists.  The fraction of a
  duration is scaled in exact arithmetic here, where Go goes through a \<open>float64\<close>; the program
  writes whole multiples of a second into its settings unless an operator chose otherwise.
\<close>

section \<open>Durations\<close>

definition unitMap :: "string \<Rightarrow> int option" where
  "unitMap u = map_of [(''ns'', 1), (''us'', 1000), ([CHR 0xC2, CHR 0xB5, CHR ''s''], 1000),
     ([CHR 0xCE, CHR 0xBC, CHR ''s''], 1000), (''ms'', 1000000), (''s'', second), (''m'', minute), (''h'', hour)] u"

text \<open>\<open>leadingFraction\<close>: digits beyond what fits 63 bits are dropped.\<close>

definition leadingFraction :: "string \<Rightarrow> int \<times> int" where
  "leadingFraction ds =
     (let (x, scale, over) =
        foldl (\<lambda>(x, scale, over) c.
            if over \<or> x > (2 ^ 63 - 1) div 10 \<or> x * 10 + digitVal c > 2 ^ 63 then (x, scale, True)
            else (x * 10 + digitVal c, scale * 10, over)) (0, 1, False) ds
      in (x, scale))"

text \<open>The loop of \<open>ParseDuration\<close>, one number with its unit after another; \<open>d\<close> is the sum so
  far.  The bounds are Go's checks against the overflow of an unsigned 64-bit number.\<close>

function parseTerms :: "string \<Rightarrow> int \<Rightarrow> int option" where
  "parseTerms s d =
     (if s = [] then Some d
      else if \<not> (hd s = CHR ''.'' \<or> isDigit (hd s)) then None
      else
        let ints = takeWhile isDigit s; s1 = dropWhile isDigit s;
            dot = (s1 \<noteq> [] \<and> hd s1 = CHR ''.'');
            frac = (if dot then takeWhile isDigit (tl s1) else []);
            s2 = (if dot then dropWhile isDigit (tl s1) else s1);
            u = takeWhile (\<lambda>c. c \<noteq> CHR ''.'' \<and> \<not> isDigit c) s2;
            rest = dropWhile (\<lambda>c. c \<noteq> CHR ''.'' \<and> \<not> isDigit c) s2;
            v = digitsVal ints; (f, scale) = leadingFraction frac
        in if v > 2 ^ 63 \<or> ints = [] \<and> frac = [] \<or> u = [] then None
           else (case unitMap u of
                   None \<Rightarrow> None
                 | Some unit \<Rightarrow>
                     if v > 2 ^ 63 div unit then None
                     else let w = v * unit + f * unit div scale
                          in if w > 2 ^ 63 \<or> d + w > 2 ^ 63 then None else parseTerms rest (d + w)))"
  by pat_completeness auto

lemma length_dropWhile_less: "takeWhile p s \<noteq> [] \<Longrightarrow> length (dropWhile p s) < length s"
  by (cases s) (auto split: if_splits intro: le_imp_less_Suc length_dropWhile_le)

lemma length_drop_unit:
  assumes "takeWhile p (if b then dropWhile q (tl (dropWhile q s)) else dropWhile q s) \<noteq> []"
  shows "length (dropWhile p (if b then dropWhile q (tl (dropWhile q s)) else dropWhile q s)) < length s"
proof -
  have "length (if b then dropWhile q (tl (dropWhile q s)) else dropWhile q s) \<le> length s"
    using length_dropWhile_le [of q s] length_dropWhile_le [of q "tl (dropWhile q s)"]
    by (auto simp del: length_dropWhile_le)
  with length_dropWhile_less [OF assms] show ?thesis by linarith
qed

termination parseTerms
  by (relation "measure (\<lambda>(s, d). length s)") (simp, simp only: in_measure case_prod_conv, rule length_drop_unit, simp)

declare parseTerms.simps [simp del]

definition parseDuration :: "string \<Rightarrow> int option" where
  "parseDuration s0 =
     (let neg = (s0 \<noteq> [] \<and> hd s0 = CHR ''-'');
          s = (if s0 \<noteq> [] \<and> (hd s0 = CHR ''-'' \<or> hd s0 = CHR ''+'') then tl s0 else s0)
      in if s = ''0'' then Some 0
         else if s = [] then None
         else (case parseTerms s 0 of
                 None \<Rightarrow> None
               | Some d \<Rightarrow> if neg then Some (- d) else if d > 2 ^ 63 - 1 then None else Some d))"

text \<open>\<open>fmtFrac\<close>: the last \<open>prec\<close> decimal digits as a fraction without trailing zeros.\<close>

definition fmtFrac :: "nat \<Rightarrow> nat \<Rightarrow> string" where
  "fmtFrac prec n =
     (let ds = rev (dropWhile (\<lambda>c. c = CHR ''0'')
                  (map (\<lambda>k. char_of (48 + n div 10 ^ k mod 10)) [0..<prec]))
      in if ds = [] then [] else CHR ''.'' # ds)"

definition durationString :: "int \<Rightarrow> string" where
  "durationString d =
     (let u = nat \<bar>d\<bar>; sec = u div 1000000000; mins = sec div 60; hrs = mins div 60;
          body =
            (if u = 0 then ''0s''
             else if u < 1000 then natText u @ ''ns''
             else if u < 1000000 then natText (u div 1000) @ fmtFrac 3 (u mod 1000) @ [CHR 0xC2, CHR 0xB5, CHR ''s'']
             else if u < 1000000000 then natText (u div 1000000) @ fmtFrac 6 (u mod 1000000) @ ''ms''
             else (if hrs > 0 then natText hrs @ ''h'' else [])
                  @ (if mins > 0 then natText (mins mod 60) @ ''m'' else [])
                  @ natText (sec mod 60) @ fmtFrac 9 (u mod 1000000000) @ ''s'')
      in if d < 0 then CHR ''-'' # body else body)"

section \<open>Booleans and lists\<close>

definition parseBool :: "string \<Rightarrow> bool option" where
  "parseBool s =
     (if s \<in> set [''1'', ''t'', ''T'', ''TRUE'', ''true'', ''True''] then Some True
      else if s \<in> set [''0'', ''f'', ''F'', ''FALSE'', ''false'', ''False''] then Some False
      else None)"

definition formatBool :: "bool \<Rightarrow> string" where
  "formatBool b = (if b then ''true'' else ''false'')"

text \<open>\<open>splitCSV\<close> of the settings, \<open>splitList\<close> of the configuration: the fields between commas,
  trimmed, the empty ones dropped.\<close>

definition splitCSV :: "string \<Rightarrow> string list" where
  "splitCSV v = filter (\<lambda>p. p \<noteq> []) (map trimSpace (splitOn CHR '','' v))"

section \<open>Round trips\<close>

lemma natText_digits: "\<forall>c\<in>set (natText n). isDigit c"
proof (induction n rule: natText.induct)
  case (1 n)
  have "isDigit (char_of (48 + k))" if "k < 10" for k :: nat
    using that by (auto simp: isDigit_def less_eq_char_def)
  with 1 show ?case by (subst natText.simps) (auto simp: isDigit_def)
qed

lemma natText_not_Nil [simp]: "natText n \<noteq> []"
  by (subst natText.simps) simp

lemma splitCSV_joinWith:
  assumes "\<forall>s\<in>set ss. s \<noteq> [] \<and> CHR '','' \<notin> set s \<and> trimSpace s = s"
  shows "splitCSV (joinWith '','' ss) = ss"
proof (cases "ss = []")
  case False
  then have "splitOn CHR '','' (joinWith '','' ss) = ss" using assms by (intro splitOn_joinWith) auto
  moreover have "map trimSpace ss = ss" using assms by (simp add: map_idI)
  ultimately show ?thesis using assms by (simp add: splitCSV_def)
qed (simp add: splitCSV_def)

text \<open>A duration of whole seconds is read back as it was written.\<close>

lemma takeWhile_digits: "\<forall>c\<in>set ds. isDigit c \<Longrightarrow> r = [] \<or> \<not> isDigit (hd r) \<Longrightarrow> takeWhile isDigit (ds @ r) = ds"
  by (induction ds) (cases r; auto)+

lemma dropWhile_digits: "\<forall>c\<in>set ds. isDigit c \<Longrightarrow> r = [] \<or> \<not> isDigit (hd r) \<Longrightarrow> dropWhile isDigit (ds @ r) = r"
  by (induction ds) (cases r; auto)+

lemma leadingFraction_Nil [simp]: "leadingFraction [] = (0, 1)"
  by (simp add: leadingFraction_def)

lemma parseTerms_Nil [simp]: "parseTerms [] d = Some d"
  by (simp add: parseTerms.simps)

lemma parseTerms_term:
  assumes c: "c \<noteq> CHR ''.''" "\<not> isDigit c" and u: "unitMap [c] = Some unit" "0 < unit"
    and r: "rest = [] \<or> isDigit (hd rest)"
    and b: "int n * unit + d \<le> 2 ^ 63" "0 \<le> d"
  shows "parseTerms (natText n @ c # rest) d = parseTerms rest (d + int n * unit)"
proof -
  let ?s = "natText n @ c # rest"
  from c have t: "takeWhile isDigit ?s = natText n" "dropWhile isDigit ?s = c # rest"
    using takeWhile_digits [OF natText_digits, of "c # rest" n] dropWhile_digits [OF natText_digits, of "c # rest" n] by auto
  from natText_digits [of n] have h: "?s \<noteq> []" "isDigit (hd ?s)" by (auto simp: hd_append)
  from r have w: "takeWhile (\<lambda>x. x \<noteq> CHR ''.'' \<and> \<not> isDigit x) rest = []"
      "dropWhile (\<lambda>x. x \<noteq> CHR ''.'' \<and> \<not> isDigit x) rest = rest"
    by (cases rest; auto)+
  from b u have n: "int n * unit \<le> 2 ^ 63" by linarith
  have "int n * 1 \<le> int n * unit" using u by (intro mult_left_mono) auto
  with n have v1: "int n \<le> 2 ^ 63" by linarith
  from n u have v2: "int n \<le> 2 ^ 63 div unit" using zdiv_mono1 [of "int n * unit" "2 ^ 63" unit] by simp
  show ?thesis
    using h b n v1 v2 u c
    by (subst parseTerms.simps) (simp add: t w Let_def digitsVal_natText)
qed

lemma char_of_48: "char_of (48 :: nat) = CHR ''0''"
  by (simp add: char_of_eq_iff)

lemma fmtFrac_0 [simp]: "fmtFrac 9 0 = []"
  by (simp add: fmtFrac_def upt_rec char_of_48)

lemma hd_natText [simp]: "isDigit (hd (natText n @ r))"
  using natText_digits [of n] by (simp add: hd_append)

lemma hd_natText' [simp]: "isDigit (hd (natText n))"
  using hd_natText [of n "[]"] by simp

lemma unit_steps:
  "unitMap ''h'' = Some hour" "unitMap ''m'' = Some minute" "unitMap ''s'' = Some second"
  by (simp_all add: unitMap_def)

lemma terms_h: "int n * hour + d \<le> 2 ^ 63 \<Longrightarrow> 0 \<le> d \<Longrightarrow> r = [] \<or> isDigit (hd r) \<Longrightarrow>
    parseTerms (natText n @ CHR ''h'' # r) d = parseTerms r (d + int n * hour)"
  and terms_m: "int n * minute + d \<le> 2 ^ 63 \<Longrightarrow> 0 \<le> d \<Longrightarrow> r = [] \<or> isDigit (hd r) \<Longrightarrow>
    parseTerms (natText n @ CHR ''m'' # r) d = parseTerms r (d + int n * minute)"
  and terms_s: "int n * second + d \<le> 2 ^ 63 \<Longrightarrow> 0 \<le> d \<Longrightarrow> r = [] \<or> isDigit (hd r) \<Longrightarrow>
    parseTerms (natText n @ CHR ''s'' # r) d = parseTerms r (d + int n * second)"
  by (rule parseTerms_term; simp add: unit_steps isDigit_def less_eq_char_def)+

lemma not_sign_natText: "natText n @ r = c # cs \<Longrightarrow> c \<noteq> CHR ''-'' \<and> c \<noteq> CHR ''+''"
  using hd_natText [of n r] by (auto simp: isDigit_def less_eq_char_def)

lemma parse_unsigned:
  assumes "s = natText n @ c # r" and "parseTerms s 0 = Some d" and "d < 2 ^ 63"
  shows "parseDuration s = Some d"
proof -
  from not_sign_natText [of n "c # r"] assms(1) have sg: "hd s \<noteq> CHR ''-''" "hd s \<noteq> CHR ''+''"
    by (cases "natText n"; auto)+
  have "s \<noteq> ''0''" using assms(1) by (cases "natText n") auto
  with sg assms show ?thesis by (simp add: parseDuration_def)
qed

lemma parse_ms:
  assumes "d + int m * minute + int s * second \<le> 2 ^ 63" and "0 \<le> d"
  shows "parseTerms (natText m @ CHR ''m'' # natText s @ ''s'') d = Some (d + int m * minute + int s * second)"
proof -
  have 1: "int m * minute + d \<le> 2 ^ 63" "int s * second + (d + int m * minute) \<le> 2 ^ 63" "0 \<le> d + int m * minute"
    using assms by linarith+
  show ?thesis using terms_m [OF 1(1) assms(2), of "natText s @ ''s''"] terms_s [OF 1(2,3), of "[]"] by simp
qed

lemma parse_hms:
  assumes "int h * hour + int m * minute + int s * second \<le> 2 ^ 63"
  shows "parseTerms (natText h @ CHR ''h'' # natText m @ CHR ''m'' # natText s @ ''s'') 0
     = Some (int h * hour + int m * minute + int s * second)"
proof -
  have 1: "int h * hour + 0 \<le> 2 ^ 63" "0 \<le> int h * hour" using assms by linarith+
  show ?thesis
    using terms_h [OF 1(1) order_refl, of "natText m @ CHR ''m'' # natText s @ ''s''"] parse_ms [OF assms 1(2)] by simp
qed

lemma split_60: "int n = 60 * int (n div 60) + int (n mod 60)"
  by (metis mult_div_mod_eq of_nat_add of_nat_mult of_nat_numeral)

lemma hms: "int n = 3600 * int (n div 60 div 60) + 60 * int (n div 60 mod 60) + int (n mod 60)"
  using split_60 [of n] split_60 [of "n div 60"] by linarith

theorem duration_roundtrip:
  assumes "0 \<le> k" and "k * second < 2 ^ 63"
  shows "parseDuration (durationString (k * second)) = Some (k * second)"
proof (cases "k = 0")
  case True
  then show ?thesis by (simp add: durationString_def parseDuration_def parseTerms.simps isDigit_def less_eq_char_def
    digitsVal_def digitVal_def unitMap_def Let_def)
next
  case False
  define n where "n = nat k"
  have k: "k = int n" using assms(1) by (simp add: n_def)
  let ?m = "n div 60" and ?s = "n mod 60"
  let ?h = "?m div 60" and ?mm = "?m mod 60"
  have n0: "0 < n" using False k by simp
  have nb: "int n * second < 2 ^ 63" using assms(2) k by simp
  have u: "nat \<bar>k * second\<bar> = n * 1000000000" by (simp add: k nat_mult_distrib)
  have written: "durationString (k * second) =
      (if ?h > 0 then natText ?h @ ''h'' else []) @ (if ?m > 0 then natText ?mm @ ''m'' else []) @ natText ?s @ ''s''"
    using n0 k unfolding durationString_def Let_def u by simp
  have sum: "int ?h * hour + int ?mm * minute + int ?s * second = int n * second"
    using hms [of n] by simp
  show ?thesis
  proof (cases "?h > 0")
    case True
    then have m: "?m > 0" by (intro gr0I) (simp only: div_0)
    with True have t: "durationString (k * second) = natText ?h @ CHR ''h'' # natText ?mm @ CHR ''m'' # natText ?s @ ''s''"
      by (simp add: written)
    have "parseTerms (durationString (k * second)) 0 = Some (k * second)"
      unfolding t using sum nb parse_hms [of ?h ?mm ?s] by (simp add: k)
    with t nb k show ?thesis by (intro parse_unsigned) auto
  next
    case h: False
    then have h0: "?h = 0" by simp
    show ?thesis
    proof (cases "?m > 0")
      case True
      with h have t: "durationString (k * second) = natText ?mm @ CHR ''m'' # natText ?s @ ''s''"
        by (simp add: written)
      have "parseTerms (durationString (k * second)) 0 = Some (k * second)"
        unfolding t using sum nb h0 parse_ms [of 0 ?mm ?s] by (simp add: k)
      with t nb k show ?thesis by (intro parse_unsigned) auto
    next
      case False
      with h have t: "durationString (k * second) = natText ?s @ CHR ''s'' # []"
        by (simp add: written)
      have "parseTerms (durationString (k * second)) 0 = Some (k * second)"
        unfolding t using sum nb False terms_s [of ?s 0 "[]"] by (simp add: k)
      with t nb k show ?thesis by (intro parse_unsigned) auto
    qed
  qed
qed

end
