(* ===== verification/Config.thy ===== *)
theory Config
  imports GoTime Updater
begin

text \<open>
  \<open>internal/config/config.go\<close>: the configuration, its defaults, and how a file, the environment and
  the command line are laid over them.  The YAML decoder is a library and a parameter, as are the files;
  the environment is a function to optional values (\<open>os.LookupEnv\<close>).  The mode and the
  authentication mode can be any text until \<open>Validate\<close> has looked at them.
\<close>

section \<open>The configuration\<close>

record dockerConfig =
  dc_host :: string
  dc_apiVersion :: string
  dc_tls :: bool
  dc_tlsCA :: string
  dc_tlsCert :: string
  dc_tlsKey :: string
  dc_enableRecreate :: bool

record selfUpdateConfig =
  sc_enabled :: bool
  sc_interval :: int
  sc_repo :: string
  sc_image :: string

record agentConfig =
  ac_serverURL :: string
  ac_token :: string
  ac_name :: string
  ac_interval :: int
  ac_tlsSkipVerify :: bool

text \<open>The updater reads three of these fields; the record extends the one it is modelled with.\<close>

record updatesSettings = updatesConfig +
  uc_interval :: int
  uc_changelogCount :: int
  uc_githubToken :: string
  uc_gitlabToken :: string

record oidcConfig =
  oc_issuerURL :: string
  oc_clientID :: string
  oc_clientSecret :: string
  oc_redirectURL :: string
  oc_scopes :: "string list"
  oc_usernameClaim :: string
  oc_defaultRole :: string

record authConfig =
  at_mode :: string
  at_sessionSecret :: string
  at_sessionTTL :: int
  at_oidc :: oidcConfig

record wndConfig =
  wc_mode :: string
  wc_host :: string
  wc_port :: int
  wc_baseURL :: string
  wc_dataDir :: string
  wc_logLevel :: string
  wc_trustedProxies :: string
  wc_docker :: dockerConfig
  wc_selfUpdate :: selfUpdateConfig
  wc_agent :: agentConfig
  wc_updates :: updatesSettings
  wc_auth :: authConfig
  wc_initialAdminUser :: string
  wc_initialAdminPassword :: string

definition DefaultSelfUpdateRepo :: string where
  "DefaultSelfUpdateRepo = ''TheRealChickenlegs/WhatsNewDock''"

definition Default :: wndConfig where
  "Default = \<lparr>wc_mode = ''server'', wc_host = ''0.0.0.0'', wc_port = 8080, wc_baseURL = [], wc_dataDir = ''/data'',
     wc_logLevel = ''info'', wc_trustedProxies = [],
     wc_docker = \<lparr>dc_host = ''unix:///var/run/docker.sock'', dc_apiVersion = [], dc_tls = False, dc_tlsCA = [],
        dc_tlsCert = [], dc_tlsKey = [], dc_enableRecreate = True\<rparr>,
     wc_selfUpdate = \<lparr>sc_enabled = True, sc_interval = 24 * hour, sc_repo = DefaultSelfUpdateRepo, sc_image = []\<rparr>,
     wc_agent = \<lparr>ac_serverURL = [], ac_token = [], ac_name = [], ac_interval = 30 * second, ac_tlsSkipVerify = False\<rparr>,
     wc_updates = \<lparr>uc_registries = [], uc_includePre = False, uc_ignoreImages = [], uc_interval = 6 * hour,
        uc_changelogCount = 5, uc_githubToken = [], uc_gitlabToken = []\<rparr>,
     wc_auth = \<lparr>at_mode = ''local'', at_sessionSecret = [], at_sessionTTL = 24 * hour,
        at_oidc = \<lparr>oc_issuerURL = [], oc_clientID = [], oc_clientSecret = [], oc_redirectURL = [],
          oc_scopes = [''openid'', ''profile'', ''email''], oc_usernameClaim = ''preferred_username'',
          oc_defaultRole = ''viewer''\<rparr>\<rparr>,
     wc_initialAdminUser = [], wc_initialAdminPassword = []\<rparr>"

section \<open>The environment\<close>

type_synonym environ = "string \<Rightarrow> string option"

text \<open>\<open>setString\<close>, \<open>setInt\<close>, \<open>setBool\<close>, \<open>setDur\<close>: the value of a variable that is set and
  can be read, otherwise what is there already.\<close>

definition setString :: "environ \<Rightarrow> string \<Rightarrow> string \<Rightarrow> string" where
  "setString E key dst = (case E key of None \<Rightarrow> dst | Some v \<Rightarrow> v)"

definition setRead :: "(string \<Rightarrow> 'a option) \<Rightarrow> environ \<Rightarrow> string \<Rightarrow> 'a \<Rightarrow> 'a" where
  "setRead read E key dst =
     (case E key of None \<Rightarrow> dst | Some v \<Rightarrow> (case read v of None \<Rightarrow> dst | Some x \<Rightarrow> x))"

definition setInt :: "environ \<Rightarrow> string \<Rightarrow> int \<Rightarrow> int" where "setInt = setRead atoi"
definition setBool :: "environ \<Rightarrow> string \<Rightarrow> bool \<Rightarrow> bool" where "setBool = setRead parseBool"
definition setDur :: "environ \<Rightarrow> string \<Rightarrow> int \<Rightarrow> int" where "setDur = setRead parseDuration"

text \<open>The two lists: an empty variable counts as unset.\<close>

definition setList :: "environ \<Rightarrow> string \<Rightarrow> string list \<Rightarrow> string list" where
  "setList E key dst = (let v = orEmpty (E key) in if v \<noteq> [] then splitCSV v else dst)"

definition applyEnv :: "environ \<Rightarrow> wndConfig \<Rightarrow> wndConfig" where
  "applyEnv E cfg =
     \<lparr>wc_mode = setString E ''WND_MODE'' (wc_mode cfg),
      wc_host = setString E ''WND_HOST'' (wc_host cfg),
      wc_port = setInt E ''WND_PORT'' (wc_port cfg),
      wc_baseURL = setString E ''WND_BASE_URL'' (wc_baseURL cfg),
      wc_dataDir = setString E ''WND_DATA_DIR'' (wc_dataDir cfg),
      wc_logLevel = setString E ''WND_LOG_LEVEL'' (wc_logLevel cfg),
      wc_trustedProxies = setString E ''WND_TRUSTED_PROXIES'' (wc_trustedProxies cfg),
      wc_docker =
       (let d = wc_docker cfg in
        \<lparr>dc_host = setString E ''WND_DOCKER_HOST'' (dc_host d),
         dc_apiVersion = setString E ''WND_DOCKER_API_VERSION'' (dc_apiVersion d),
         dc_tls = setBool E ''WND_DOCKER_TLS'' (dc_tls d),
         dc_tlsCA = setString E ''WND_DOCKER_TLS_CA'' (dc_tlsCA d),
         dc_tlsCert = setString E ''WND_DOCKER_TLS_CERT'' (dc_tlsCert d),
         dc_tlsKey = setString E ''WND_DOCKER_TLS_KEY'' (dc_tlsKey d),
         dc_enableRecreate = setBool E ''WND_DOCKER_ENABLE_RECREATE'' (dc_enableRecreate d)\<rparr>),
      wc_selfUpdate =
       (let s = wc_selfUpdate cfg in
        \<lparr>sc_enabled = setBool E ''WND_SELF_UPDATE'' (sc_enabled s),
         sc_interval = setDur E ''WND_SELF_UPDATE_INTERVAL'' (sc_interval s),
         sc_repo = setString E ''WND_SELF_UPDATE_REPO'' (sc_repo s),
         sc_image = setString E ''WND_SELF_UPDATE_IMAGE'' (sc_image s)\<rparr>),
      wc_agent =
       (let a = wc_agent cfg in
        \<lparr>ac_serverURL = setString E ''WND_AGENT_SERVER_URL'' (ac_serverURL a),
         ac_token = setString E ''WND_AGENT_TOKEN'' (ac_token a),
         ac_name = setString E ''WND_AGENT_NAME'' (ac_name a),
         ac_interval = setDur E ''WND_AGENT_INTERVAL'' (ac_interval a),
         ac_tlsSkipVerify = setBool E ''WND_AGENT_TLS_SKIP_VERIFY'' (ac_tlsSkipVerify a)\<rparr>),
      wc_updates =
       (let u = wc_updates cfg in
        \<lparr>uc_registries = uc_registries u,
         uc_includePre = setBool E ''WND_INCLUDE_PRERELEASES'' (uc_includePre u),
         uc_ignoreImages = setList E ''WND_IGNORE_IMAGES'' (uc_ignoreImages u),
         uc_interval = setDur E ''WND_UPDATE_INTERVAL'' (uc_interval u),
         uc_changelogCount = setInt E ''WND_CHANGELOG_COUNT'' (uc_changelogCount u),
         uc_githubToken = setString E ''WND_GITHUB_TOKEN'' (uc_githubToken u),
         uc_gitlabToken = setString E ''WND_GITLAB_TOKEN'' (uc_gitlabToken u)\<rparr>),
      wc_auth =
       (let a = wc_auth cfg; o' = at_oidc a in
        \<lparr>at_mode = setString E ''WND_AUTH_MODE'' (at_mode a),
         at_sessionSecret = setString E ''WND_AUTH_SESSION_SECRET'' (at_sessionSecret a),
         at_sessionTTL = setDur E ''WND_AUTH_SESSION_TTL'' (at_sessionTTL a),
         at_oidc =
           \<lparr>oc_issuerURL = setString E ''WND_OIDC_ISSUER'' (oc_issuerURL o'),
            oc_clientID = setString E ''WND_OIDC_CLIENT_ID'' (oc_clientID o'),
            oc_clientSecret = setString E ''WND_OIDC_CLIENT_SECRET'' (oc_clientSecret o'),
            oc_redirectURL = setString E ''WND_OIDC_REDIRECT_URL'' (oc_redirectURL o'),
            oc_scopes = setList E ''WND_OIDC_SCOPES'' (oc_scopes o'),
            oc_usernameClaim = setString E ''WND_OIDC_USERNAME_CLAIM'' (oc_usernameClaim o'),
            oc_defaultRole = setString E ''WND_OIDC_DEFAULT_ROLE'' (oc_defaultRole o')\<rparr>\<rparr>),
      wc_initialAdminUser = setString E ''WND_INITIAL_ADMIN_USER'' (wc_initialAdminUser cfg),
      wc_initialAdminPassword = setString E ''WND_INITIAL_ADMIN_PASSWORD'' (wc_initialAdminPassword cfg)\<rparr>"

section \<open>Validation and loading\<close>

definition Validate :: "wndConfig \<Rightarrow> err option" where
  "Validate c =
     (let m = wc_mode c; am = at_mode (wc_auth c); n = uc_changelogCount (wc_updates c) in
      if m \<noteq> ''server'' \<and> m \<noteq> ''agent'' \<and> m \<noteq> ''selfupdate''
      then Some (errors_new (''invalid mode \"'' @ m @ ''\" (want server, agent or selfupdate)''))
      else if wc_port c \<le> 0 \<or> wc_port c > 65535
      then Some (errors_new (''invalid port '' @ intText (wc_port c)))
      else if m = ''agent'' \<and> ac_serverURL (wc_agent c) = []
      then Some (errors_new ''agent mode requires WND_AGENT_SERVER_URL'')
      else if m = ''agent'' \<and> ac_token (wc_agent c) = []
      then Some (errors_new ''agent mode requires WND_AGENT_TOKEN'')
      else if am \<noteq> ''local'' \<and> am \<noteq> ''oidc'' \<and> am \<noteq> ''both''
      then Some (errors_new (''invalid auth mode \"'' @ am @ ''\" (want local, oidc or both)''))
      else if (am = ''oidc'' \<or> am = ''both'') \<and> oc_issuerURL (at_oidc (wc_auth c)) = []
      then Some (errors_new ''OIDC auth requires WND_OIDC_ISSUER'')
      else if n < 1 then Some (errors_new ''changelog count must be >= 1'')
      else if n > 100 then Some (errors_new ''changelog count must be <= 100'')
      else if wc_baseURL c \<noteq> [] \<and> \<not> hasPrefix (wc_baseURL c) ''http://'' \<and> \<not> hasPrefix (wc_baseURL c) ''https://''
      then Some (errors_new ''base_url must start with http:// or https://'')
      else None)"

record flags =
  fl_configPath :: string
  fl_mode :: string
  fl_host :: string
  fl_port :: int
  fl_dataDir :: string
  fl_version :: bool

record files =
  readFile :: "string \<Rightarrow> err + string"
  yamlUnmarshal :: "string \<Rightarrow> wndConfig \<Rightarrow> err + wndConfig"

definition loadFile :: "files \<Rightarrow> wndConfig \<Rightarrow> string \<Rightarrow> err + wndConfig" where
  "loadFile F cfg path =
     (case readFile F path of
        Inl e \<Rightarrow> Inl (wrap_err ''read config file: '' e)
      | Inr b \<Rightarrow>
          (case yamlUnmarshal F b cfg of
             Inl e \<Rightarrow> Inl (wrap_err (''parse config file '' @ path @ '': '') e)
           | Inr cfg' \<Rightarrow> Inr cfg'))"

definition applyFlags :: "flags option \<Rightarrow> wndConfig \<Rightarrow> wndConfig" where
  "applyFlags f cfg =
     (case f of
        None \<Rightarrow> cfg
      | Some f \<Rightarrow> cfg\<lparr>wc_mode := (if fl_mode f \<noteq> [] then fl_mode f else wc_mode cfg),
                      wc_host := (if fl_host f \<noteq> [] then fl_host f else wc_host cfg),
                      wc_port := (if fl_port f \<noteq> 0 then fl_port f else wc_port cfg),
                      wc_dataDir := (if fl_dataDir f \<noteq> [] then fl_dataDir f else wc_dataDir cfg)\<rparr>)"

definition Load :: "files \<Rightarrow> environ \<Rightarrow> flags option \<Rightarrow> err + wndConfig" where
  "Load F E f =
     (let path = (case f of Some fl \<Rightarrow> if fl_configPath fl \<noteq> [] then fl_configPath fl else orEmpty (E ''WND_CONFIG'')
                          | None \<Rightarrow> orEmpty (E ''WND_CONFIG''))
      in and_then (if path \<noteq> [] then loadFile F Default path else Inr Default)
           (\<lambda>cfg. let cfg' = applyFlags f (applyEnv E cfg)
                  in case Validate cfg' of Some e \<Rightarrow> Inl e | None \<Rightarrow> Inr cfg'))"

definition Address :: "wndConfig \<Rightarrow> string" where
  "Address c = wc_host c @ '':'' @ intText (wc_port c)"

section \<open>What a loaded configuration satisfies\<close>

lemma guard_None: "(if b then Some x else y) = None \<longleftrightarrow> \<not> b \<and> y = None"
  by simp

lemma Validate_None:
  "Validate c = None \<Longrightarrow> wc_mode c = ''server'' \<or> wc_mode c = ''agent'' \<or> wc_mode c = ''selfupdate''"
  "Validate c = None \<Longrightarrow> wc_mode c = ''agent'' \<Longrightarrow> ac_serverURL (wc_agent c) \<noteq> [] \<and> ac_token (wc_agent c) \<noteq> []"
  "Validate c = None \<Longrightarrow> at_mode (wc_auth c) = ''local'' \<or> at_mode (wc_auth c) = ''oidc'' \<or> at_mode (wc_auth c) = ''both''"
  "Validate c = None \<Longrightarrow> at_mode (wc_auth c) \<noteq> ''local'' \<Longrightarrow> oc_issuerURL (at_oidc (wc_auth c)) \<noteq> []"
  unfolding Validate_def Let_def guard_None by blast+

lemma Validate_None_bounds:
  "Validate c = None \<Longrightarrow> 0 < wc_port c \<and> wc_port c \<le> 65535"
  "Validate c = None \<Longrightarrow> 1 \<le> uc_changelogCount (wc_updates c) \<and> uc_changelogCount (wc_updates c) \<le> 100"
  unfolding Validate_def Let_def guard_None by linarith+

lemma Load_Validate: "Load F E f = Inr cfg \<Longrightarrow> Validate cfg = None"
  unfolding Load_def Let_def and_then_eq_Inr by (elim exE conjE) (simp split: option.splits)

text \<open>Whatever the file, the environment and the flags hold, a configuration the program starts with is
  sane: a known mode and authentication mode, a TCP port, a count of release notes between 1 and 100, an
  issuer where OIDC is on, a server and a token where it runs as an agent.\<close>

theorem Load_valid:
  assumes "Load F E f = Inr cfg"
  shows "(wc_mode cfg = ''server'' \<or> wc_mode cfg = ''agent'' \<or> wc_mode cfg = ''selfupdate'') \<and> 0 < wc_port cfg \<and> wc_port cfg \<le> 65535
    \<and> 1 \<le> uc_changelogCount (wc_updates cfg) \<and> uc_changelogCount (wc_updates cfg) \<le> 100
    \<and> (at_mode (wc_auth cfg) = ''local'' \<or> at_mode (wc_auth cfg) = ''oidc'' \<or> at_mode (wc_auth cfg) = ''both'')
    \<and> (at_mode (wc_auth cfg) \<noteq> ''local'' \<longrightarrow> oc_issuerURL (at_oidc (wc_auth cfg)) \<noteq> [])
    \<and> (wc_mode cfg = ''agent'' \<longrightarrow> ac_serverURL (wc_agent cfg) \<noteq> [] \<and> ac_token (wc_agent cfg) \<noteq> [])"
  using Validate_None [OF Load_Validate [OF assms]] Validate_None_bounds [OF Load_Validate [OF assms]] by blast

text \<open>The defaults alone are a configuration the program starts with.\<close>

definition noFiles :: files where
  "noFiles = \<lparr>readFile = (\<lambda>_. Inl (errors_new ''no such file'')), yamlUnmarshal = (\<lambda>_ c. Inr c)\<rparr>"

lemma applyEnv_empty: "applyEnv (\<lambda>_. None) c = c"
  by (simp add: applyEnv_def setString_def setInt_def setBool_def setDur_def setRead_def setList_def orEmpty_def Let_def)

lemma Load_default: "Load noFiles (\<lambda>_. None) None = Inr Default"
  by (simp add: Load_def orEmpty_def applyFlags_def applyEnv_empty Validate_def Default_def Let_def)

theorem Load_valid_witness:
  "Load noFiles (\<lambda>_. None) None = Inr Default \<and> wc_port Default \<le> 65535 \<and> 1 \<le> uc_changelogCount (wc_updates Default)"
  using Load_default Load_valid [OF Load_default] by blast

lemma Load_shape: "Load F E f = Inr cfg \<Longrightarrow> \<exists>c. cfg = applyFlags f (applyEnv E c)"
  unfolding Load_def Let_def and_then_eq_Inr by (elim exE conjE) (auto split: option.splits)

text \<open>Flags win over the environment, the environment over the file: what is set further to the right
  is what the program runs with.\<close>

theorem Load_precedence:
  assumes "Load F E (Some f) = Inr cfg"
  shows "(fl_mode f \<noteq> [] \<longrightarrow> wc_mode cfg = fl_mode f)
    \<and> (\<forall>v. fl_mode f = [] \<and> E ''WND_MODE'' = Some v \<longrightarrow> wc_mode cfg = v)
    \<and> (fl_host f \<noteq> [] \<longrightarrow> wc_host cfg = fl_host f)
    \<and> (\<forall>v. fl_host f = [] \<and> E ''WND_HOST'' = Some v \<longrightarrow> wc_host cfg = v)
    \<and> (fl_dataDir f \<noteq> [] \<longrightarrow> wc_dataDir cfg = fl_dataDir f)
    \<and> (\<forall>v. fl_dataDir f = [] \<and> E ''WND_DATA_DIR'' = Some v \<longrightarrow> wc_dataDir cfg = v)
    \<and> (fl_port f \<noteq> 0 \<longrightarrow> wc_port cfg = fl_port f)"
proof -
  from Load_shape [OF assms] obtain c where "cfg = applyFlags (Some f) (applyEnv E c)" by blast
  then show ?thesis by (simp add: applyFlags_def applyEnv_def setString_def)
qed

theorem Load_precedence_witness:
  "\<exists>cfg. Load noFiles ((\<lambda>_. None)(''WND_HOST'' \<mapsto> ''127.0.0.1'', ''WND_PORT'' \<mapsto> ''80''))
      (Some \<lparr>fl_configPath = [], fl_mode = [], fl_host = [], fl_port = 9000, fl_dataDir = [], fl_version = False\<rparr>) = Inr cfg
     \<and> wc_host cfg = ''127.0.0.1'' \<and> wc_port cfg = 9000"
proof -
  let ?E = "(\<lambda>_. None)(''WND_HOST'' \<mapsto> ''127.0.0.1'', ''WND_PORT'' \<mapsto> ''80'')"
  let ?f = "\<lparr>fl_configPath = [], fl_mode = [], fl_host = [], fl_port = 9000, fl_dataDir = [], fl_version = False\<rparr>"
  have "Validate (applyFlags (Some ?f) (applyEnv ?E Default)) = None"
    by (simp add: Validate_def Let_def applyFlags_def applyEnv_def setString_def setInt_def setRead_def Default_def)
  then have load: "Load noFiles ?E (Some ?f) = Inr (applyFlags (Some ?f) (applyEnv ?E Default))"
    by (simp add: Load_def orEmpty_def)
  show ?thesis
  proof (intro exI conjI)
    show "Load noFiles ?E (Some ?f) = Inr (applyFlags (Some ?f) (applyEnv ?E Default))" by (rule load)
  qed (use Load_precedence [OF load] in simp_all)
qed

end
