(* ===== verification/ServerState.thy ===== *)
theory ServerState
  imports Config SelfRun
begin

text \<open>
  What the HTTP side of \<open>internal/server\<close> works on: requests and responses, and the state of the
  running server (the \<open>Server\<close> struct with everything its handlers change).

  A request carries its body as what \<open>encoding/json\<close> makes of it for each of the request types the
  handlers read.  A response body is a JSON value; a Go struct that is encoded whole is a leaf of it.
  Everything a request depends on that the program does not compute is in the record \<open>ctx\<close>: the
  time and the random values drawn while it is served, the configuration fixed at start, and the
  libraries (bcrypt, JWT, OIDC, the rate limiter, the Docker client constructor, file and address
  lookups).  Docker clients are values of type \<open>'c\<close>, rate limiters of type \<open>'l\<close>.  One request
  reads the clock once.  A goroutine a handler starts is an entry of \<open>ap_tasks\<close>.
\<close>

section \<open>Requests and responses\<close>

record claims =
  cl_username :: string
  cl_role :: string
  cl_source :: string
  cl_issuedAt :: gotime
  cl_expiresAt :: gotime
  cl_issuer :: string

record loginRequest =
  lr_username :: string
  lr_password :: string

record createServerRequest =
  csr_name :: string
  csr_kind :: string
  csr_dockerHost :: string
  csr_tlsCA :: string
  csr_tlsCert :: string
  csr_tlsKey :: string

record settingsRequest =
  sq_changelogCount :: "int option"
  sq_includePre :: "bool option"
  sq_ignoreImages :: "string list option"
  sq_updateInterval :: "string option"
  sq_selfUpdate :: "bool option"
  sq_selfUpdateInterval :: "string option"
  sq_githubToken :: string
  sq_gitlabToken :: string

record createUserRequest =
  cur_username :: string
  cur_password :: string
  cur_role :: string

text \<open>\<open>runtimeAuth\<close>, which is stored, and \<open>putAuthSettingsRequest\<close> have the same fields.\<close>

record authSettingsRequest =
  asr_mode :: string
  asr_sessionTTL :: string
  asr_oidc :: oidcConfig

text \<open>\<open>internal/protocol\<close>.\<close>

record report =
  rpt_agentName :: string
  rpt_version :: string
  rpt_info :: server
  rpt_selfImage :: string
  rpt_selfDigest :: string
  rpt_stacks :: "stack list"
  rpt_containers :: "container list"

record protocolCommand =
  pc_id :: string
  pc_kind :: string
  pc_container :: string
  pc_target :: string

record commandResult =
  cr_status :: string
  cr_message :: string

record body =
  bd_login :: "err + loginRequest"
  bd_server :: "err + createServerRequest"
  bd_pinned :: "err + bool"
  bd_force :: "err + bool"
  bd_settings :: "err + settingsRequest"
  bd_user :: "err + createUserRequest"
  bd_userPatch :: "err + string \<times> string"
  bd_authSettings :: "err + authSettingsRequest"
  bd_report :: "err + report"
  bd_result :: "err + commandResult"

record httpRequest =
  rq_method :: string
  rq_path :: string
  rq_header :: "string \<Rightarrow> string"
  rq_cookie :: "string \<Rightarrow> string option"
  rq_query :: "string \<Rightarrow> string"
  rq_remoteAddr :: string
  rq_tls :: bool
  rq_contentLength :: int
  rq_body :: body
  rq_id :: string
  rq_claims :: "claims option"

datatype jobStatus = JobQueued | JobPulling | JobRecreating | JobUpdating | JobDone | JobFailed

record updateJob =
  jb_container :: string
  jb_name :: string
  jb_status :: jobStatus
  jb_progress :: int
  jb_message :: string
  jb_updated :: gotime

datatype json =
    JBool bool
  | JInt int
  | JStr string
  | JTime gotime
  | JList "json list"
  | JObj "(string \<times> json) list"
  | JStack stack
  | JContainer containerWithUpdate
  | JUpdate "updateRow option"
  | JRelease release
  | JEvent event
  | JUser user
  | JJob updateJob
  | JCommand protocolCommand
  | JRun selfUpdateRun
  | JResult result

record cookie =
  co_name :: string
  co_value :: string
  co_path :: string
  co_httpOnly :: bool
  co_secure :: bool
  co_sameSiteLax :: bool
  co_maxAge :: int

text \<open>What a response carries: a JSON value, or the text of a page.\<close>

datatype content = JsonBody json | TextBody string

record httpResponse =
  rs_status :: int
  rs_headers :: "(string \<times> string) list"
  rs_cookies :: "cookie list"
  rs_body :: "content option"

definition writeJSON :: "int \<Rightarrow> json \<Rightarrow> httpResponse" where
  "writeJSON status v = \<lparr>rs_status = status, rs_headers = [(''Content-Type'', ''application/json'')],
     rs_cookies = [], rs_body = Some (JsonBody v)\<rparr>"

definition writeError :: "int \<Rightarrow> string \<Rightarrow> httpResponse" where
  "writeError status m = writeJSON status (JObj [(''error'', JStr m)])"

definition setCookie :: "cookie \<Rightarrow> httpResponse \<Rightarrow> httpResponse" where
  "setCookie c r = r\<lparr>rs_cookies := c # rs_cookies r\<rparr>"

definition okJSON :: httpResponse where
  "okJSON = writeJSON 200 (JObj [(''ok'', JBool True)])"

section \<open>The state of the server\<close>

record checkRun =
  kr_running :: bool
  kr_trigger :: string
  kr_startedAt :: gotime
  kr_finishedAt :: gotime
  kr_err :: string

record 'c endpointEntry =
  ee_fingerprint :: string
  ee_client :: "err + 'c"

text \<open>What an initialised OIDC client was built from.\<close>

record oidcClient =
  ol_issuer :: string
  ol_clientID :: string
  ol_clientSecret :: string
  ol_redirectURL :: string
  ol_scopes :: "string list"

record 'l loginLimiter =
  ll_ips :: "string \<Rightarrow> 'l option"
  ll_last :: gotime

text \<open>Goroutines: an update on a client of this process, the snapshot of a direct endpoint, an update
  check, a self-update run.\<close>

datatype 'c task =
    TaskUpdate 'c containerWithUpdate string string
  | TaskSnapshot server
  | TaskCheck string
  | TaskSelfUpdate nat result bool

record ('c, 'l) app =
  ap_db :: db
  ap_localID :: string
  ap_auth :: authConfig
  ap_updates :: updatesSettings
  ap_self :: selfUpdateConfig
  ap_githubToken :: string
  ap_gitlabToken :: string
  ap_oidc :: "oidcClient option"
  ap_limiter :: "'l loginLimiter"
  ap_jobs :: "string \<Rightarrow> updateJob option"
  ap_checks :: checkRun
  ap_endpoints :: "string \<Rightarrow> 'c endpointEntry option"
  ap_checker :: checker
  ap_tracker :: tracker
  ap_nextRun :: nat
  ap_tasks :: "'c task list"

record urlParts =
  ur_scheme :: string
  ur_host :: string
  ur_path :: string
  ur_hostname :: string

datatype jwtAlg = HMAC | OtherAlg

record ('c, 'l) ctx =
  x_now :: gotime
  x_ids :: "nat \<Rightarrow> string"
  x_salt :: string
  x_cfg :: wndConfig
  x_version :: string
  x_docker :: "'c option"
  x_selfID :: string
  x_secret :: string
  hashToken :: "string \<Rightarrow> string"
  bcryptHash :: "string \<Rightarrow> string \<Rightarrow> err + string"
  bcryptOK :: "string \<Rightarrow> string \<Rightarrow> bool"
  jwtSign :: "string \<Rightarrow> claims \<Rightarrow> err + string"
  jwtParse :: "gotime \<Rightarrow> string \<Rightarrow> (jwtAlg \<Rightarrow> err + string) \<Rightarrow> err + claims"
  newProvider :: "string \<Rightarrow> err option"
  authCodeURL :: "oidcClient \<Rightarrow> string \<Rightarrow> string"
  oauthExchange :: "oidcClient \<Rightarrow> string \<Rightarrow> err + string option"
  verifyIDToken :: "oidcClient \<Rightarrow> string \<Rightarrow> err + string"
  tokenClaims :: "string \<Rightarrow> err + (string \<Rightarrow> string option)"
  newLimiter :: "gotime \<Rightarrow> 'l"
  limiterAllow :: "gotime \<Rightarrow> 'l \<Rightarrow> bool \<times> 'l"
  dockerNew :: "dockerConfig \<Rightarrow> err + 'c"
  x_stat :: "string \<Rightarrow> err + bool"
  x_parseURL :: "string \<Rightarrow> err + urlParts"
  x_parseIP :: "string \<Rightarrow> string option"
  x_loopbackIP :: "string \<Rightarrow> bool"
  x_inCIDR :: "string \<Rightarrow> (string \<Rightarrow> bool) option"
  selfImage :: "'c \<Rightarrow> string \<Rightarrow> err + string \<times> string"
  dockerPing :: "'c \<Rightarrow> err option"
  dockerInfo :: "'c \<Rightarrow> err + server"
  x_parseNamed :: "string \<Rightarrow> err + named"
  x_hostPath :: "string \<Rightarrow> err + string \<times> string"
  latestRelease :: "string \<Rightarrow> err + sRelease option"
  x_manifestUpToDate :: "string \<Rightarrow> string \<Rightarrow> string \<Rightarrow> string \<Rightarrow> err + bool"
  encodeAuth :: "authSettingsRequest \<Rightarrow> string"
  decodeAuth :: "string \<Rightarrow> err + authSettingsRequest"

type_synonym ('c, 'l) handler = "('c, 'l) ctx \<Rightarrow> httpRequest \<Rightarrow> ('c, 'l) app \<Rightarrow> httpResponse \<times> ('c, 'l) app"

definition eventNow :: "('c, 'l) ctx \<Rightarrow> string \<Rightarrow> string \<Rightarrow> string \<Rightarrow> string \<Rightarrow> string \<Rightarrow> event" where
  "eventNow X k actor serverID containerID m =
     \<lparr>ev_id = 0, ev_timestamp = x_now X, ev_kind = k, ev_actor = actor, ev_server = serverID,
      ev_container = containerID, ev_message = m\<rparr>"

text \<open>\<open>_ = s.st.AddEvent(...)\<close>: an event that cannot be written is dropped.\<close>

definition addEvent :: "('c, 'l) ctx \<Rightarrow> event \<Rightarrow> ('c, 'l) app \<Rightarrow> ('c, 'l) app" where
  "addEvent X ev s =
     s\<lparr>ap_db := (case AddEvent (x_now X) ev (ap_db s) of Inl _ \<Rightarrow> ap_db s | Inr d \<Rightarrow> d)\<rparr>"

definition setJob :: "('c, 'l) ctx \<Rightarrow> string \<Rightarrow> updateJob \<Rightarrow> ('c, 'l) app \<Rightarrow> ('c, 'l) app" where
  "setJob X i j s = s\<lparr>ap_jobs := (ap_jobs s)(i \<mapsto> j\<lparr>jb_updated := x_now X\<rparr>)\<rparr>"

definition spawn :: "'c task \<Rightarrow> ('c, 'l) app \<Rightarrow> ('c, 'l) app" where
  "spawn t s = s\<lparr>ap_tasks := ap_tasks s @ [t]\<rparr>"

definition actorOf :: "httpRequest \<Rightarrow> string" where
  "actorOf r = (case rq_claims r of None \<Rightarrow> [] | Some c \<Rightarrow> cl_username c)"

end
