(* ===== verification/Auth.thy ===== *)
theory Auth
  imports ServerState
begin

text \<open>
  Who may come in: \<open>internal/server/auth/auth.go\<close>, the authentication handlers of
  \<open>handlers.go\<close> and the login limiter of \<open>ratelimit.go\<close>.
\<close>

section \<open>Sessions and passwords\<close>

definition RoleAdmin :: string where "RoleAdmin = ''admin''"
definition RoleViewer :: string where "RoleViewer = ''viewer''"

text \<open>\<open>loadSecret\<close>: the configured secret, else the stored one, else a fresh one that is stored.\<close>

definition loadSecret :: "authConfig \<Rightarrow> err + string \<Rightarrow> db \<Rightarrow> err + string \<times> db" where
  "loadSecret cfg fresh d =
     (if at_sessionSecret cfg \<noteq> [] then Inr (at_sessionSecret cfg, d)
      else and_then (GetSetting ''session_secret'' d)
        (\<lambda>got. if got \<noteq> [] then Inr (got, d)
               else (case fresh of
                       Inl e \<Rightarrow> Inl (wrap_err ''generate session secret: '' e)
                     | Inr secret \<Rightarrow> and_then (SetSetting ''session_secret'' secret d) (\<lambda>d'. Inr (secret, d')))))"

text \<open>A JWT keeps times to the second.\<close>

definition numericDate :: "gotime \<Rightarrow> gotime" where
  "numericDate t = t - t mod second"

definition IssueSession ::
  "('c, 'l) ctx \<Rightarrow> authConfig \<Rightarrow> string \<Rightarrow> string \<Rightarrow> string \<Rightarrow> err + string" where
  "IssueSession X cfg username role src =
     (let ttl = (if at_sessionTTL cfg \<le> 0 then 24 * hour else at_sessionTTL cfg)
      in jwtSign X (x_secret X)
           \<lparr>cl_username = username, cl_role = role, cl_source = src, cl_issuedAt = numericDate (x_now X),
            cl_expiresAt = numericDate (x_now X + ttl), cl_issuer = ''whatsnewdock''\<rparr>)"

definition ValidateSession :: "('c, 'l) ctx \<Rightarrow> string \<Rightarrow> err + claims" where
  "ValidateSession X token =
     jwtParse X (x_now X) token
       (\<lambda>alg. if alg \<noteq> HMAC then Inl (errors_new ''unexpected signing method'') else Inr (x_secret X))"

definition AuthenticateLocal ::
  "('c, 'l) ctx \<Rightarrow> db \<Rightarrow> string \<Rightarrow> string \<Rightarrow> err + user" where
  "AuthenticateLocal X d username password =
     and_then (GetUserByUsername username d)
       (\<lambda>u. case u of
              None \<Rightarrow> Inl (errors_new ''invalid credentials'')
            | Some u \<Rightarrow> if bcryptOK X (us_hash u) password then Inr u
                        else Inl (errors_new ''invalid credentials''))"

section \<open>OpenID Connect\<close>

definition OIDCEnabled :: "authConfig \<Rightarrow> bool" where
  "OIDCEnabled cfg \<longleftrightarrow> oc_issuerURL (at_oidc cfg) \<noteq> [] \<and> (at_mode cfg = ''oidc'' \<or> at_mode cfg = ''both'')"

definition InvalidateOIDC :: "('c, 'l) app \<Rightarrow> ('c, 'l) app" where
  "InvalidateOIDC s = s\<lparr>ap_oidc := None\<rparr>"

definition ensureOIDC :: "('c, 'l) ctx \<Rightarrow> ('c, 'l) app \<Rightarrow> (err + oidcClient) \<times> ('c, 'l) app" where
  "ensureOIDC X s =
     (case ap_oidc s of
        Some c \<Rightarrow> (Inr c, s)
      | None \<Rightarrow>
          (let oc = at_oidc (ap_auth s); issuer = trimSuffix (oc_issuerURL oc) ''/''
           in case newProvider X issuer of
                Some e \<Rightarrow> (Inl (wrap_err ''init oidc provider: '' e), s)
              | None \<Rightarrow>
                  (let c = \<lparr>ol_issuer = issuer, ol_clientID = oc_clientID oc,
                        ol_clientSecret = oc_clientSecret oc,
                        ol_redirectURL = (if oc_redirectURL oc = []
                           then trimSuffix (wc_baseURL (x_cfg X)) ''/'' @ ''/api/auth/oidc/callback''
                           else oc_redirectURL oc),
                        ol_scopes = (if oc_scopes oc = [] then [''openid'', ''profile'', ''email''] else oc_scopes oc)\<rparr>
                   in (Inr c, s\<lparr>ap_oidc := Some c\<rparr>))))"

definition OIDCAuthURL :: "('c, 'l) ctx \<Rightarrow> string \<Rightarrow> ('c, 'l) app \<Rightarrow> (err + string) \<times> ('c, 'l) app" where
  "OIDCAuthURL X state s =
     (case ensureOIDC X s of (Inl e, s') \<Rightarrow> (Inl e, s') | (Inr c, s') \<Rightarrow> (Inr (authCodeURL X c state), s'))"

text \<open>The username and the role.  The token's claims name the user by the configured claim, where a claim
  that is not a string counts as missing; \<open>sub\<close> is the subject.\<close>

definition oidcRole :: "oidcConfig \<Rightarrow> string" where
  "oidcRole oc = (if oc_defaultRole oc \<noteq> RoleAdmin \<and> oc_defaultRole oc \<noteq> RoleViewer then RoleViewer else oc_defaultRole oc)"

definition ExchangeOIDC ::
  "('c, 'l) ctx \<Rightarrow> string \<Rightarrow> ('c, 'l) app \<Rightarrow> (err + string \<times> string) \<times> ('c, 'l) app" where
  "ExchangeOIDC X code s =
     (case ensureOIDC X s of
        (Inl e, s') \<Rightarrow> (Inl e, s')
      | (Inr c, s') \<Rightarrow>
          ((case oauthExchange X c code of
              Inl e \<Rightarrow> Inl (wrap_err ''oidc token exchange: '' e)
            | Inr None \<Rightarrow> Inl (errors_new ''oidc: no id_token in response'')
            | Inr (Some rawID) \<Rightarrow>
                (case verifyIDToken X c rawID of
                   Inl e \<Rightarrow> Inl (wrap_err ''oidc id_token verification: '' e)
                 | Inr subject \<Rightarrow>
                     (case tokenClaims X rawID of
                        Inl e \<Rightarrow> Inl (wrap_err ''oidc claims: '' e)
                      | Inr cl \<Rightarrow>
                          (let oc = at_oidc (ap_auth s'); name = orEmpty (cl (oc_usernameClaim oc))
                           in Inr (if name = [] then subject else name, oidcRole oc))))), s'))"

section \<open>The login limiter\<close>

definition newLoginLimiter :: "gotime \<Rightarrow> 'l loginLimiter" where
  "newLoginLimiter now = \<lparr>ll_ips = (\<lambda>_. None), ll_last = now\<rparr>"

definition allow :: "('c, 'l) ctx \<Rightarrow> string \<Rightarrow> 'l loginLimiter \<Rightarrow> bool \<times> 'l loginLimiter" where
  "allow X ip0 l0 =
     (let ip = (if ip0 = [] then ''unknown'' else ip0);
          l = (if x_now X - ll_last l0 > 10 * minute then \<lparr>ll_ips = (\<lambda>_. None), ll_last = x_now X\<rparr> else l0);
          lim = (case ll_ips l ip of None \<Rightarrow> newLimiter X (x_now X) | Some lim \<Rightarrow> lim);
          (ok, lim') = limiterAllow X (x_now X) lim
      in (ok, l\<lparr>ll_ips := (ll_ips l)(ip \<mapsto> lim')\<rparr>))"

section \<open>Where a request comes from\<close>

text \<open>\<open>net.SplitHostPort\<close>; \<open>None\<close> is its error.\<close>

definition splitHostPort :: "string \<Rightarrow> (string \<times> string) option" where
  "splitHostPort hp =
     (let i = lastIndexByte hp CHR '':'' in
      if i < 0 then None
      else if hp \<noteq> [] \<and> hd hp = CHR ''[''
      then (let e = indexByte hp CHR '']''
            in if e < 0 \<or> e + 1 \<noteq> i then None
               else
                 let h = take (nat e - 1) (drop 1 hp)
                 in if CHR ''['' \<in> set h \<or> CHR ''['' \<in> set (fromIdx hp (e + 1)) \<or> CHR '']'' \<in> set (fromIdx hp (e + 1))
                    then None
                    else Some (h, fromIdx hp (i + 1)))
      else
        let h = upto hp i
        in if CHR '':'' \<in> set h \<or> CHR ''['' \<in> set hp \<or> CHR '']'' \<in> set hp then None
           else Some (h, fromIdx hp (i + 1)))"

definition joinHostPort :: "string \<Rightarrow> string \<Rightarrow> string" where
  "joinHostPort h port =
     (if CHR '':'' \<in> set h then ''['' @ h @ '']:'' @ port else h @ '':'' @ port)"

definition remoteIP :: "('c, 'l) ctx \<Rightarrow> httpRequest \<Rightarrow> string option" where
  "remoteIP X r =
     x_parseIP X (case splitHostPort (rq_remoteAddr r) of None \<Rightarrow> rq_remoteAddr r | Some (h, _) \<Rightarrow> h)"

definition parseTrustedCIDRs :: "('c, 'l) ctx \<Rightarrow> string \<Rightarrow> (string \<Rightarrow> bool) list" where
  "parseTrustedCIDRs X raw =
     List.map_filter (\<lambda>part0. let part = trimSpace part0 in if part = [] then None else x_inCIDR X part)
       (splitOn CHR '','' raw)"

definition isTrustedProxy :: "('c, 'l) ctx \<Rightarrow> httpRequest \<Rightarrow> bool" where
  "isTrustedProxy X r \<longleftrightarrow>
     (case remoteIP X r of
        None \<Rightarrow> False
      | Some ip \<Rightarrow> \<exists>cidr\<in>set (parseTrustedCIDRs X (wc_trustedProxies (x_cfg X))). cidr ip)"

definition isTLS :: "('c, 'l) ctx \<Rightarrow> httpRequest \<Rightarrow> bool" where
  "isTLS X r \<longleftrightarrow>
     (if rq_tls r then True
      else if isTrustedProxy X r then rq_header r ''X-Forwarded-Proto'' = ''https''
      else if wc_trustedProxies (x_cfg X) = [] then hasPrefix (wc_baseURL (x_cfg X)) ''https://''
      else False)"

section \<open>Cookies\<close>

definition sessionCookie :: string where "sessionCookie = ''wnd_session''"

definition newCookie :: "string \<Rightarrow> string \<Rightarrow> bool \<Rightarrow> int \<Rightarrow> cookie" where
  "newCookie name v secure maxAge =
     \<lparr>co_name = name, co_value = v, co_path = ''/'', co_httpOnly = True, co_secure = secure,
      co_sameSiteLax = True, co_maxAge = maxAge\<rparr>"

definition setSessionCookie ::
  "('c, 'l) ctx \<Rightarrow> httpRequest \<Rightarrow> ('c, 'l) app \<Rightarrow> string \<Rightarrow> httpResponse \<Rightarrow> httpResponse" where
  "setSessionCookie X r s token =
     setCookie (newCookie sessionCookie token (isTLS X r) (quot64 (at_sessionTTL (ap_auth s)) second))"

definition clearCookie :: "string \<Rightarrow> httpResponse \<Rightarrow> httpResponse" where
  "clearCookie name = setCookie (newCookie name [] True (-1))"

text \<open>\<open>safeRedirect\<close>.\<close>

definition safeRedirect :: "string \<Rightarrow> string" where
  "safeRedirect raw =
     (if raw = [] then ''/''
      else if \<not> hasPrefix raw ''/'' \<or> hasPrefix raw ''//'' then ''/''
      else if containsStr raw ''://'' \<or> (\<exists>c\<in>set raw. c \<in> {CHR 0x5C, CHR 0x0D, CHR 0x0A}) then ''/''
      else raw)"

section \<open>The handlers\<close>

definition handleLogin :: "('c, 'l) handler" where
  "handleLogin X r s =
     (if at_mode (ap_auth s) = ''oidc'' then (writeError 400 ''local login disabled; use OIDC'', s)
      else
        let (ok, lim) = allow X (case remoteIP X r of None \<Rightarrow> ''<nil>'' | Some ip \<Rightarrow> ip) (ap_limiter s);
            s1 = s\<lparr>ap_limiter := lim\<rparr>
        in if \<not> ok then (writeError 429 ''too many login attempts; try again later'', s1)
           else (case bd_login (rq_body r) of
                   Inl _ \<Rightarrow> (writeError 400 ''invalid request body'', s1)
                 | Inr req \<Rightarrow>
                     (case AuthenticateLocal X (ap_db s1) (lr_username req) (lr_password req) of
                        Inl _ \<Rightarrow> (writeError 401 ''invalid credentials'', s1)
                      | Inr u \<Rightarrow>
                          (case IssueSession X (ap_auth s1) (us_username u) (us_role u) ''local'' of
                             Inl _ \<Rightarrow> (writeError 500 ''session error'', s1)
                           | Inr token \<Rightarrow>
                               (setSessionCookie X r s1 token
                                  (writeJSON 200 (JObj [(''username'', JStr (us_username u)), (''role'', JStr (us_role u))])),
                                addEvent X (eventNow X ''auth'' (us_username u) [] [] ''local login'') s1)))))"

definition handleLogout :: "('c, 'l) handler" where
  "handleLogout X r s = (clearCookie sessionCookie okJSON, s)"

text \<open>The session of a request: its cookie, if there is one that is not empty, read back.\<close>

definition sessionOf :: "('c, 'l) ctx \<Rightarrow> httpRequest \<Rightarrow> claims option" where
  "sessionOf X r =
     (case rq_cookie r sessionCookie of
        None \<Rightarrow> None
      | Some v \<Rightarrow> if v = [] then None
                  else (case ValidateSession X v of Inl _ \<Rightarrow> None | Inr c \<Rightarrow> Some c))"

definition handleMe :: "('c, 'l) handler" where
  "handleMe X r s =
     ((case sessionOf X r of
         None \<Rightarrow> writeJSON 200 (JObj [(''authenticated'', JBool False)])
       | Some c \<Rightarrow> writeJSON 200 (JObj [(''authenticated'', JBool True), (''username'', JStr (cl_username c)),
                                 (''role'', JStr (cl_role c)), (''source'', JStr (cl_source c))])), s)"

definition handleAuthConfig :: "('c, 'l) handler" where
  "handleAuthConfig X r s =
     (writeJSON 200 (JObj [(''auth_mode'', JStr (at_mode (ap_auth s))), (''oidc_enabled'', JBool (OIDCEnabled (ap_auth s)))]), s)"

text \<open>The random state of \<open>handleOIDCURL\<close> is the first value drawn.\<close>

definition handleOIDCURL :: "('c, 'l) handler" where
  "handleOIDCURL X r s =
     (if \<not> OIDCEnabled (ap_auth s) then (writeError 404 ''oidc not configured'', s)
      else
        let state = x_ids X 0; redirect = safeRedirect (rq_query r ''redirect'');
            cookies = (\<lambda>resp. setCookie (newCookie ''wnd_oidc_redirect'' redirect (isTLS X r) 600)
                                (setCookie (newCookie ''wnd_oidc_state'' state (isTLS X r) 600) resp))
        in (case OIDCAuthURL X state s of
              (Inl e, s1) \<Rightarrow> (cookies (writeError 500 (''oidc init failed: '' @ msg e)), s1)
            | (Inr url, s1) \<Rightarrow> (cookies (writeJSON 200 (JObj [(''url'', JStr url)])), s1)))"

subsection \<open>Redirects\<close>

text \<open>\<open>path.Clean\<close>: empty and single-dot elements go, a double dot takes the element before it along, and at
  the root it goes itself.  The stack holds what is kept, the last element first.\<close>

fun cleanSegs :: "bool \<Rightarrow> string list \<Rightarrow> string list \<Rightarrow> string list" where
  "cleanSegs rooted [] st = rev st"
| "cleanSegs rooted (x # xs) st =
     (if x = [] \<or> x = ''.'' then cleanSegs rooted xs st
      else if x \<noteq> ''..'' then cleanSegs rooted xs (x # st)
      else if st = [] \<and> rooted then cleanSegs rooted xs st
      else if st = [] \<or> hd st = ''..'' then cleanSegs rooted xs (x # st)
      else cleanSegs rooted xs (tl st))"

definition cleanPath :: "string \<Rightarrow> string" where
  "cleanPath p =
     (let rooted = hasPrefix p ''/'';
          out = (if rooted then ''/'' else []) @ joinWith ''/'' (cleanSegs rooted (splitOn CHR ''/'' p) [])
      in if out = [] then ''.'' else out)"

text \<open>\<open>http.Redirect\<close>.  A location without scheme and host is made absolute by the directory of the request's
  path and cleaned, but for a trailing slash and for the query; what \<open>url.Parse\<close> refuses is left alone.  No
  caller passes a location that is not absolute.\<close>

definition redirectLocation :: "('c, 'l) ctx \<Rightarrow> httpRequest \<Rightarrow> string \<Rightarrow> string" where
  "redirectLocation X r url =
     (case x_parseURL X url of
        Inl _ \<Rightarrow> url
      | Inr u \<Rightarrow>
          if ur_scheme u \<noteq> [] \<or> ur_host u \<noteq> [] then url
          else
            let old = (if rq_path r = [] then ''/'' else rq_path r);
                full = (if hasPrefix url ''/'' then url else upto old (lastIndexByte old CHR ''/'' + 1) @ url);
                path = cutAt CHR ''?'' full; query = drop (length path) full;
                clean = cleanPath path
            in (if hasSuffix path ''/'' \<and> \<not> hasSuffix clean ''/'' then clean @ ''/'' else clean) @ query)"

definition hexDigitOf :: "nat \<Rightarrow> char" where
  "hexDigitOf n = ''0123456789abcdef'' ! n"

definition hexEscapeNonASCII :: "string \<Rightarrow> string" where
  "hexEscapeNonASCII s =
     concat (map (\<lambda>c. let n = of_char c :: nat in
       if n \<ge> 128 then [CHR ''%'', hexDigitOf (n div 16), hexDigitOf (n mod 16)] else [c]) s)"

definition htmlEscape :: "string \<Rightarrow> string" where
  "htmlEscape s =
     concat (map (\<lambda>c. if c = CHR ''&'' then ''&amp;'' else if c = CHR ''<'' then ''&lt;'' else if c = CHR ''>'' then ''&gt;''
       else if c = CHR 0x22 then ''&#34;'' else if c = CHR 0x27 then ''&#39;'' else [c]) s)"

text \<open>The status is 302, whose text is Found.  The response has no content type yet in any of the calls, so the
  answer to a GET carries a short page.\<close>

definition redirectTo :: "('c, 'l) ctx \<Rightarrow> httpRequest \<Rightarrow> string \<Rightarrow> httpResponse" where
  "redirectTo X r target =
     (let url = redirectLocation X r target in
      \<lparr>rs_status = 302,
       rs_headers = (''Location'', hexEscapeNonASCII url)
         # (if rq_method r = ''GET'' \<or> rq_method r = ''HEAD'' then [(''Content-Type'', ''text/html; charset=utf-8'')] else []),
       rs_cookies = [],
       rs_body = (if rq_method r = ''GET''
                  then Some (TextBody (''<a href='' @ [CHR 0x22] @ htmlEscape url @ [CHR 0x22] @ ''>Found</a>.'' @ [CHR 0x0A, CHR 0x0A]))
                  else None)\<rparr>)"

subsection \<open>The callback\<close>

text \<open>Only the GET route exists, so the form values of the callback are those of the query.\<close>

definition handleOIDCCallback :: "('c, 'l) handler" where
  "handleOIDCCallback X r s =
     (if rq_query r ''error'' \<noteq> [] then (redirectTo X r ''/login?error=oidc_error'', s)
      else
        let stateParam = rq_query r ''state''; cookieValue = orEmpty (rq_cookie r ''wnd_oidc_state'')
        in if cookieValue = [] \<or> cookieValue \<noteq> stateParam then (writeError 400 ''invalid oidc state'', s)
           else if rq_query r ''code'' = [] then (writeError 400 ''missing code'', s)
           else (case ExchangeOIDC X (rq_query r ''code'') s of
                   (Inl e, s1) \<Rightarrow> (writeError 401 (''oidc exchange failed: '' @ msg e), s1)
                 | (Inr (username, role), s1) \<Rightarrow>
                     (case IssueSession X (ap_auth s1) username role ''oidc'' of
                        Inl _ \<Rightarrow> (writeError 500 ''session error'', s1)
                      | Inr token \<Rightarrow>
                          (let redirect = (case rq_cookie r ''wnd_oidc_redirect'' of None \<Rightarrow> ''/'' | Some v \<Rightarrow> safeRedirect v)
                           in (clearCookie ''wnd_oidc_redirect'' (clearCookie ''wnd_oidc_state''
                                 (setSessionCookie X r s1 token (redirectTo X r redirect))),
                               addEvent X (eventNow X ''auth'' username [] [] ''oidc login'') s1)))))"

section \<open>Starting up\<close>

text \<open>\<open>ensureInitialAdmin\<close>: an administrator, if there is no user at all.  \<open>fresh\<close> is the
  password that is drawn when none is configured.\<close>

definition ensureInitialAdmin :: "('c, 'l) ctx \<Rightarrow> string \<Rightarrow> db \<Rightarrow> err + db" where
  "ensureInitialAdmin X fresh d =
     (if CountUsers d > 0 then Inr d
      else
        let username = (if wc_initialAdminUser (x_cfg X) = [] then ''admin'' else wc_initialAdminUser (x_cfg X));
            password = (if wc_initialAdminPassword (x_cfg X) = [] then fresh else wc_initialAdminPassword (x_cfg X))
        in and_then (bcryptHash X (x_salt X) password)
             (\<lambda>h. and_then (CreateUser (x_ids X 0) (x_now X)
                    \<lparr>us_id = [], us_username = username, us_role = RoleAdmin, us_hash = h, us_created = zero_time\<rparr> d)
                (\<lambda>(_, d'). Inr d')))"

definition passwordChars :: string where
  "passwordChars = ''abcdefghjkmnpqrstuvwxyz'' @ ''ABCDEFGHJKMNPQRSTUVWXYZ'' @ ''23456789''"

definition randomPassword :: "char list \<Rightarrow> string" where
  "randomPassword bytes = map (\<lambda>b. passwordChars ! (of_char b mod length passwordChars)) bytes"

end
