(* ===== verification/Endpoints.thy ===== *)
theory Endpoints
  imports Auth
begin

text \<open>
  Agentless hosts, \<open>internal/server/endpoints.go\<close>: the pool of Docker clients, keyed by server and
  rebuilt when the connection settings change, and the validation of such settings.  Closing a client
  has no effect on the model.
\<close>

section \<open>The pool\<close>

definition dockerConfigFor :: "server \<Rightarrow> dockerConfig" where
  "dockerConfigFor srv = \<lparr>dc_host = sv_dockerHost srv, dc_apiVersion = [], dc_tls = TLSEnabled srv,
     dc_tlsCA = sv_tlsCA srv, dc_tlsCert = sv_tlsCert srv, dc_tlsKey = sv_tlsKey srv, dc_enableRecreate = False\<rparr>"

definition endpointFingerprint :: "server \<Rightarrow> string" where
  "endpointFingerprint srv =
     joinWith [CHR 0x00] [sv_dockerHost srv, sv_tlsCA srv, sv_tlsCert srv, sv_tlsKey srv]"

type_synonym 'c pool = "string \<Rightarrow> 'c endpointEntry option"

definition pool_get :: "('c, 'l) ctx \<Rightarrow> server \<Rightarrow> 'c pool \<Rightarrow> (err + 'c) \<times> 'c pool" where
  "pool_get X srv p =
     (let fp = endpointFingerprint srv;
          fresh = (let e = \<lparr>ee_fingerprint = fp, ee_client = dockerNew X (dockerConfigFor srv)\<rparr>
                   in (ee_client e, p(sv_id srv \<mapsto> e)))
      in case p (sv_id srv) of
           None \<Rightarrow> fresh
         | Some e \<Rightarrow> if ee_fingerprint e = fp then (ee_client e, p) else fresh)"

definition pool_forget :: "string \<Rightarrow> 'c pool \<Rightarrow> 'c pool" where
  "pool_forget i p = p(i := None)"

definition pool_closeAll :: "'c pool \<Rightarrow> 'c pool" where
  "pool_closeAll p = (\<lambda>_. None)"

section \<open>Validation\<close>

record endpointSpec =
  es_host :: string
  es_tlsCA :: string
  es_tlsCert :: string
  es_tlsKey :: string

definition specTLSEnabled :: "endpointSpec \<Rightarrow> bool" where
  "specTLSEnabled e \<longleftrightarrow> es_tlsCA e \<noteq> [] \<or> es_tlsCert e \<noteq> [] \<or> es_tlsKey e \<noteq> []"

definition normalizeDockerHost :: "('c, 'l) ctx \<Rightarrow> string \<Rightarrow> err + string" where
  "normalizeDockerHost X raw0 =
     (let raw1 = trimSpace raw0 in
      if raw1 = [] then Inl (errors_new ''docker host is required'')
      else
        let raw = (if \<not> containsStr raw1 ''://'' then ''tcp://'' @ raw1 else raw1)
        in case x_parseURL X raw of
             Inl e \<Rightarrow> Inl (wrap_err ''invalid docker host: '' e)
           | Inr u \<Rightarrow>
               if ur_scheme u = ''unix'' then Inr (''unix://'' @ ur_path u)
               else if ur_scheme u = ''tcp'' \<or> ur_scheme u = ''http'' \<or> ur_scheme u = ''https''
               then if ur_host u = [] then Inl (errors_new ''docker host must include a hostname'')
                    else
                      let (host, port) = (case splitHostPort (ur_host u) of None \<Rightarrow> (ur_host u, []) | Some hp \<Rightarrow> hp)
                      in if host = [] then Inl (errors_new ''docker host must include a hostname'')
                         else
                           let port' = (if port = [] then (if ur_scheme u = ''https'' then ''2376'' else ''2375'') else port)
                           in Inr (''tcp://'' @ joinHostPort host port')
               else if ur_scheme u = ''ssh''
               then Inl (errors_new ''ssh:// endpoints are not supported; use a TLS-protected tcp:// endpoint'')
               else Inl (errors_new (''unsupported docker host scheme \"'' @ ur_scheme u @ ''\"'')))"

definition hostIsLoopback :: "('c, 'l) ctx \<Rightarrow> string \<Rightarrow> bool" where
  "hostIsLoopback X host \<longleftrightarrow>
     (case x_parseURL X host of
        Inl _ \<Rightarrow> False
      | Inr u \<Rightarrow>
          if ur_scheme u = ''unix'' then True
          else if ur_hostname u = [] then False
          else if equalFold (ur_hostname u) ''localhost'' then True
          else x_loopbackIP X (ur_hostname u))"

text \<open>The files are looked at in the order of a map; which of two bad ones is named is not fixed.\<close>

definition fileProblem :: "('c, 'l) ctx \<Rightarrow> string \<times> string \<Rightarrow> err option" where
  "fileProblem X lp =
     (let (lbl, path) = lp in
      if path = [] then None
      else (case x_stat X path of
              Inl e \<Rightarrow> Some (wrap_err (lbl @ '' not readable at '' @ path @ '': '') e)
            | Inr isDir \<Rightarrow>
                if isDir then Some (errors_new (lbl @ '' path '' @ path @ '' is a directory, expected a file''))
                else None))"

definition validateEndpoint ::
  "('c, 'l) ctx \<Rightarrow> string \<Rightarrow> string \<Rightarrow> string \<Rightarrow> string \<Rightarrow> err + endpointSpec" where
  "validateEndpoint X rawHost ca cert key =
     and_then (normalizeDockerHost X rawHost)
       (\<lambda>host.
          let spec = \<lparr>es_host = host, es_tlsCA = trimSpace ca, es_tlsCert = trimSpace cert, es_tlsKey = trimSpace key\<rparr>
          in if \<not> hostIsLoopback X host \<and> \<not> specTLSEnabled spec
             then Inl (errors_new (''refusing to use the unencrypted Docker API at '' @ host
                    @ '': remote endpoints require TLS (provide a CA, and a client certificate + key for mutual TLS)''))
             else if es_tlsCA spec = [] \<and> (es_tlsCert spec \<noteq> [] \<or> es_tlsKey spec \<noteq> [])
             then Inl (errors_new ''a TLS CA certificate is required when using client certificates'')
             else if (es_tlsCert spec = []) \<noteq> (es_tlsKey spec = [])
             then Inl (errors_new ''client certificate and key must be provided together'')
             else (case List.map_filter (fileProblem X)
                      [(''CA certificate'', es_tlsCA spec), (''client certificate'', es_tlsCert spec),
                       (''client key'', es_tlsKey spec)] of
                     e # _ \<Rightarrow> Inl e
                   | [] \<Rightarrow> Inr spec))"

end
