(* ===== verification/Settings.thy ===== *)
theory Settings
  imports Auth
begin

text \<open>
  Settings an administrator edits at run time, \<open>internal/server/settings_handlers.go\<close> and
  \<open>auth_settings.go\<close>: they change the live configuration and are stored in the settings table, to
  be laid over the configuration at the next start.  The second half is the management of users.
\<close>

section \<open>Stored settings\<close>

text \<open>\<open>if v, err := s.st.GetSetting(k); err == nil && v != "" { ... }\<close>\<close>

definition whenSet :: "string \<Rightarrow> (string \<Rightarrow> ('c, 'l) app \<Rightarrow> ('c, 'l) app) \<Rightarrow> ('c, 'l) app \<Rightarrow> ('c, 'l) app" where
  "whenSet k f s =
     (case GetSetting k (ap_db s) of Inl _ \<Rightarrow> s | Inr v \<Rightarrow> if v = [] then s else f v s)"

definition isTrue :: "string \<Rightarrow> bool" where
  "isTrue v \<longleftrightarrow> v = ''1'' \<or> v = ''true''"

definition setGitHubToken :: "string \<Rightarrow> ('c, 'l) app \<Rightarrow> ('c, 'l) app" where
  "setGitHubToken v s = s\<lparr>ap_updates := (ap_updates s)\<lparr>uc_githubToken := v\<rparr>, ap_githubToken := v\<rparr>"

definition setGitLabToken :: "string \<Rightarrow> ('c, 'l) app \<Rightarrow> ('c, 'l) app" where
  "setGitLabToken v s = s\<lparr>ap_updates := (ap_updates s)\<lparr>uc_gitlabToken := v\<rparr>, ap_gitlabToken := v\<rparr>"

definition loadRuntimeSettings :: "('c, 'l) app \<Rightarrow> ('c, 'l) app" where
  "loadRuntimeSettings s0 =
     (let s1 = whenSet ''settings.changelog_count''
            (\<lambda>v s. case atoi v of None \<Rightarrow> s
                   | Some n \<Rightarrow> if n > 0 then s\<lparr>ap_updates := (ap_updates s)\<lparr>uc_changelogCount := n\<rparr>\<rparr> else s) s0;
          s2 = whenSet ''settings.include_prereleases''
            (\<lambda>v s. s\<lparr>ap_updates := (ap_updates s)\<lparr>uc_includePre := isTrue v\<rparr>\<rparr>) s1;
          s3 = whenSet ''settings.ignore_images''
            (\<lambda>v s. s\<lparr>ap_updates := (ap_updates s)\<lparr>uc_ignoreImages := splitCSV v\<rparr>\<rparr>) s2;
          s4 = whenSet ''settings.github_token'' setGitHubToken s3;
          s5 = whenSet ''settings.gitlab_token'' setGitLabToken s4;
          s6 = whenSet ''settings.self_update''
            (\<lambda>v s. s\<lparr>ap_self := (ap_self s)\<lparr>sc_enabled := isTrue v\<rparr>\<rparr>) s5
      in whenSet ''settings.self_update_interval''
            (\<lambda>v s. case parseDuration v of None \<Rightarrow> s
                   | Some d \<Rightarrow> if d > 0 then s\<lparr>ap_self := (ap_self s)\<lparr>sc_interval := d\<rparr>\<rparr> else s) s6)"

definition putSettings :: "(string \<times> string) list \<Rightarrow> db \<Rightarrow> err + db" where
  "putSettings = fold_res (\<lambda>(k, v) d. SetSetting k v d)"

text \<open>The rows \<open>saveRuntimeSettings\<close> writes, in order.\<close>

definition settingRows :: "('c, 'l) app \<Rightarrow> (string \<times> string) list" where
  "settingRows s =
     [(''settings.changelog_count'', intText (uc_changelogCount (ap_updates s))),
      (''settings.include_prereleases'', formatBool (uc_includePre (ap_updates s))),
      (''settings.ignore_images'', joinWith '','' (uc_ignoreImages (ap_updates s)))]
     @ (if uc_githubToken (ap_updates s) \<noteq> [] then [(''settings.github_token'', uc_githubToken (ap_updates s))] else [])
     @ (if uc_gitlabToken (ap_updates s) \<noteq> [] then [(''settings.gitlab_token'', uc_gitlabToken (ap_updates s))] else [])
     @ [(''settings.self_update'', formatBool (sc_enabled (ap_self s))),
        (''settings.self_update_interval'', durationString (sc_interval (ap_self s)))]"

definition saveRuntimeSettings :: "('c, 'l) app \<Rightarrow> err + ('c, 'l) app" where
  "saveRuntimeSettings s = and_then (putSettings (settingRows s) (ap_db s)) (\<lambda>d. Inr (s\<lparr>ap_db := d\<rparr>))"

definition selfUpdateInterval :: "selfUpdateConfig \<Rightarrow> int" where
  "selfUpdateInterval c = (if sc_interval c < hour then hour else sc_interval c)"

section \<open>The settings handlers\<close>

definition handleGetSettings :: "('c, 'l) handler" where
  "handleGetSettings X r s =
     (writeJSON 200 (JObj
        [(''changelog_count'', JInt (uc_changelogCount (ap_updates s))),
         (''include_prereleases'', JBool (uc_includePre (ap_updates s))),
         (''ignore_images'', JList (map JStr (uc_ignoreImages (ap_updates s)))),
         (''update_interval'', JStr (durationString (uc_interval (ap_updates s)))),
         (''github_token_set'', JBool (uc_githubToken (ap_updates s) \<noteq> [])),
         (''gitlab_token_set'', JBool (uc_gitlabToken (ap_updates s) \<noteq> [])),
         (''auth_mode'', JStr (at_mode (ap_auth s))),
         (''oidc_enabled'', JBool (OIDCEnabled (ap_auth s))),
         (''oidc_issuer'', JStr (oc_issuerURL (at_oidc (ap_auth s)))),
         (''enable_recreate'', JBool (dc_enableRecreate (wc_docker (x_cfg X)))),
         (''base_url'', JStr (wc_baseURL (x_cfg X))),
         (''self_update'', JBool (sc_enabled (ap_self s))),
         (''self_update_interval'', JStr (durationString (sc_interval (ap_self s)))),
         (''self_update_repo'', JStr (sc_repo (ap_self s)))]), s)"

text \<open>The fields are applied one after another to the live configuration; an invalid one ends the request
  there and then.\<close>

definition applyCount :: "settingsRequest \<Rightarrow> ('c, 'l) app \<Rightarrow> string option \<times> ('c, 'l) app" where
  "applyCount req s =
     (case sq_changelogCount req of
        None \<Rightarrow> (None, s)
      | Some n \<Rightarrow> if n < 1 \<or> n > 100 then (Some ''changelog_count must be 1..100'', s)
                  else (None, s\<lparr>ap_updates := (ap_updates s)\<lparr>uc_changelogCount := n\<rparr>\<rparr>))"

definition applyLists :: "settingsRequest \<Rightarrow> ('c, 'l) app \<Rightarrow> ('c, 'l) app" where
  "applyLists req s =
     (let s1 = (case sq_includePre req of None \<Rightarrow> s | Some b \<Rightarrow> s\<lparr>ap_updates := (ap_updates s)\<lparr>uc_includePre := b\<rparr>\<rparr>)
      in case sq_ignoreImages req of None \<Rightarrow> s1 | Some l \<Rightarrow> s1\<lparr>ap_updates := (ap_updates s1)\<lparr>uc_ignoreImages := l\<rparr>\<rparr>)"

definition applyInterval :: "settingsRequest \<Rightarrow> ('c, 'l) app \<Rightarrow> string option \<times> ('c, 'l) app" where
  "applyInterval req s =
     (case sq_updateInterval req of
        None \<Rightarrow> (None, s)
      | Some v \<Rightarrow>
          if v = [] then (None, s)
          else (case parseDuration v of
                  None \<Rightarrow> (Some ''invalid update_interval'', s)
                | Some d \<Rightarrow> (None, s\<lparr>ap_updates := (ap_updates s)\<lparr>uc_interval := d\<rparr>\<rparr>)))"

definition applySelfUpdate :: "settingsRequest \<Rightarrow> ('c, 'l) app \<Rightarrow> string option \<times> ('c, 'l) app" where
  "applySelfUpdate req s =
     (let s1 = (case sq_selfUpdate req of None \<Rightarrow> s | Some b \<Rightarrow> s\<lparr>ap_self := (ap_self s)\<lparr>sc_enabled := b\<rparr>\<rparr>)
      in case sq_selfUpdateInterval req of
           None \<Rightarrow> (None, s1)
         | Some v \<Rightarrow>
             if v = [] then (None, s1)
             else (case parseDuration v of
                     None \<Rightarrow> (Some ''invalid self_update_interval (minimum 1h)'', s1)
                   | Some d \<Rightarrow> if d < hour then (Some ''invalid self_update_interval (minimum 1h)'', s1)
                               else (None, s1\<lparr>ap_self := (ap_self s1)\<lparr>sc_interval := d\<rparr>\<rparr>)))"

definition applyTokens :: "settingsRequest \<Rightarrow> ('c, 'l) app \<Rightarrow> ('c, 'l) app" where
  "applyTokens req s =
     (let s1 = (if sq_githubToken req \<noteq> [] then setGitHubToken (sq_githubToken req) s else s)
      in if sq_gitlabToken req \<noteq> [] then setGitLabToken (sq_gitlabToken req) s1 else s1)"

definition handlePutSettings :: "('c, 'l) handler" where
  "handlePutSettings X r s =
     (case bd_settings (rq_body r) of
        Inl _ \<Rightarrow> (writeError 400 ''invalid body'', s)
      | Inr req \<Rightarrow>
          (case applyCount req s of
             (Some m, s1) \<Rightarrow> (writeError 400 m, s1)
           | (None, s1) \<Rightarrow>
               (case applyInterval req (applyLists req s1) of
                  (Some m, s2) \<Rightarrow> (writeError 400 m, s2)
                | (None, s2) \<Rightarrow>
                    (case applySelfUpdate req s2 of
                       (Some m, s3) \<Rightarrow> (writeError 400 m, s3)
                     | (None, s3) \<Rightarrow>
                         (let s4 = applyTokens req s3
                          in case saveRuntimeSettings s4 of
                               Inl e \<Rightarrow> (writeError 500 (msg e), s4)
                             | Inr s5 \<Rightarrow> (okJSON, s5))))))"

section \<open>The authentication settings\<close>

definition settingsAuthKey :: string where "settingsAuthKey = ''settings.auth''"

definition applyRuntimeAuth :: "authSettingsRequest \<Rightarrow> authConfig \<Rightarrow> authConfig" where
  "applyRuntimeAuth ra dst =
     dst\<lparr>at_mode := (if asr_mode ra = ''local'' \<or> asr_mode ra = ''oidc'' \<or> asr_mode ra = ''both''
                     then asr_mode ra else at_mode dst),
         at_sessionTTL := (case parseDuration (asr_sessionTTL ra) of
                             None \<Rightarrow> at_sessionTTL dst | Some d \<Rightarrow> if d > 0 then d else at_sessionTTL dst),
         at_oidc := asr_oidc ra\<rparr>"

definition loadAuthSettings :: "('c, 'l) ctx \<Rightarrow> ('c, 'l) app \<Rightarrow> err option \<times> ('c, 'l) app" where
  "loadAuthSettings X s =
     (case GetSetting settingsAuthKey (ap_db s) of
        Inl e \<Rightarrow> (Some e, s)
      | Inr raw \<Rightarrow>
          if raw = [] then (None, s)
          else (case decodeAuth X raw of
                  Inl e \<Rightarrow> (Some e, s)
                | Inr ra \<Rightarrow> (None, s\<lparr>ap_auth := applyRuntimeAuth ra (ap_auth s)\<rparr>)))"

definition saveAuthSettings :: "('c, 'l) ctx \<Rightarrow> authSettingsRequest \<Rightarrow> db \<Rightarrow> err + db" where
  "saveAuthSettings X ra d = SetSetting settingsAuthKey (encodeAuth X ra) d"

definition handleGetAuthSettings :: "('c, 'l) handler" where
  "handleGetAuthSettings X r s =
     (let a = ap_auth s; oc = at_oidc a in
      (writeJSON 200 (JObj
        [(''mode'', JStr (at_mode a)), (''session_ttl'', JStr (durationString (at_sessionTTL a))),
         (''oidc'', JObj
           [(''issuer_url'', JStr (oc_issuerURL oc)), (''client_id'', JStr (oc_clientID oc)),
            (''client_secret_set'', JBool (oc_clientSecret oc \<noteq> [])), (''redirect_url'', JStr (oc_redirectURL oc)),
            (''scopes'', JList (map JStr (oc_scopes oc))), (''username_claim'', JStr (oc_usernameClaim oc)),
            (''default_role'', JStr (oc_defaultRole oc))])]), s))"

definition oidcMissing :: "authSettingsRequest \<Rightarrow> oidcConfig \<Rightarrow> string option" where
  "oidcMissing req cur =
     (if trimSpace (oc_issuerURL (asr_oidc req)) = [] then Some ''OIDC issuer URL is required when OIDC is enabled''
      else if trimSpace (oc_clientID (asr_oidc req)) = [] then Some ''OIDC client ID is required when OIDC is enabled''
      else if trimSpace (oc_clientSecret (asr_oidc req)) = [] \<and> oc_clientSecret cur = []
      then Some ''OIDC client secret is required when OIDC is enabled''
      else None)"

definition newRuntimeAuth :: "authSettingsRequest \<Rightarrow> int \<Rightarrow> oidcConfig \<Rightarrow> authSettingsRequest" where
  "newRuntimeAuth req ttl cur =
     (let oc = asr_oidc req in
      \<lparr>asr_mode = asr_mode req, asr_sessionTTL = durationString ttl,
       asr_oidc = \<lparr>oc_issuerURL = trimSpace (oc_issuerURL oc), oc_clientID = trimSpace (oc_clientID oc),
          oc_clientSecret = (if oc_clientSecret oc \<noteq> [] then oc_clientSecret oc else oc_clientSecret cur),
          oc_redirectURL = trimSpace (oc_redirectURL oc), oc_scopes = oc_scopes oc,
          oc_usernameClaim = trimSpace (oc_usernameClaim oc), oc_defaultRole = oidcRole oc\<rparr>\<rparr>)"

definition handlePutAuthSettings :: "('c, 'l) handler" where
  "handlePutAuthSettings X r s =
     (case bd_authSettings (rq_body r) of
        Inl _ \<Rightarrow> (writeError 400 ''invalid body'', s)
      | Inr req \<Rightarrow>
          let m = asr_mode req; cur = at_oidc (ap_auth s) in
          if m \<noteq> ''local'' \<and> m \<noteq> ''oidc'' \<and> m \<noteq> ''both'' then (writeError 400 ''invalid auth mode'', s)
          else (case (if m = ''oidc'' \<or> m = ''both'' then oidcMissing req cur else None) of
                  Some e \<Rightarrow> (writeError 400 e, s)
                | None \<Rightarrow>
                    (case (if asr_sessionTTL req = [] then Some (at_sessionTTL (ap_auth s))
                           else (case parseDuration (asr_sessionTTL req) of
                                   None \<Rightarrow> None | Some d \<Rightarrow> if d \<le> 0 then None else Some d)) of
                       None \<Rightarrow> (writeError 400 ''invalid session_ttl'', s)
                     | Some ttl \<Rightarrow>
                         (let ra = newRuntimeAuth req ttl cur;
                              s1 = InvalidateOIDC (s\<lparr>ap_auth := applyRuntimeAuth ra (ap_auth s)\<rparr>)
                          in case saveAuthSettings X ra (ap_db s1) of
                               Inl e \<Rightarrow> (writeError 500 (msg e), s1)
                             | Inr d \<Rightarrow> (okJSON, s1\<lparr>ap_db := d\<rparr>)))))"

section \<open>Users\<close>

definition handleListUsers :: "('c, 'l) handler" where
  "handleListUsers X r s = (writeJSON 200 (JList (map JUser (ListUsers (ap_db s)))), s)"

definition handleCreateUser :: "('c, 'l) handler" where
  "handleCreateUser X r s =
     (case bd_user (rq_body r) of
        Inl _ \<Rightarrow> (writeError 400 ''invalid body'', s)
      | Inr req \<Rightarrow>
          let name = trimSpace (cur_username req);
              role = (if cur_role req \<noteq> RoleAdmin \<and> cur_role req \<noteq> RoleViewer then RoleViewer else cur_role req)
          in if name = [] \<or> length (cur_password req) < 8
             then (writeError 400 ''username required and password must be >= 8 chars'', s)
             else (case bcryptHash X (x_salt X) (cur_password req) of
                     Inl e \<Rightarrow> (writeError 500 (msg e), s)
                   | Inr h \<Rightarrow>
                       (case CreateUser (x_ids X 0) (x_now X)
                               \<lparr>us_id = [], us_username = name, us_role = role, us_hash = h, us_created = zero_time\<rparr> (ap_db s) of
                          Inl _ \<Rightarrow> (writeError 409 ''username already exists'', s)
                        | Inr (u, d) \<Rightarrow> (writeJSON 200 (JUser u), s\<lparr>ap_db := d\<rparr>))))"

definition patchRole :: "string \<Rightarrow> string \<Rightarrow> ('c, 'l) app \<Rightarrow> httpResponse option \<times> ('c, 'l) app" where
  "patchRole i role s =
     (if role = [] then (None, s)
      else if role \<noteq> RoleAdmin \<and> role \<noteq> RoleViewer then (Some (writeError 400 ''invalid role''), s)
      else (case UpdateUserRole i role (ap_db s) of
              Inl e \<Rightarrow> (Some (writeError 500 (msg e)), s)
            | Inr d \<Rightarrow> (None, s\<lparr>ap_db := d\<rparr>)))"

definition patchPassword ::
  "('c, 'l) ctx \<Rightarrow> string \<Rightarrow> string \<Rightarrow> ('c, 'l) app \<Rightarrow> httpResponse option \<times> ('c, 'l) app" where
  "patchPassword X i pw s =
     (if pw = [] then (None, s)
      else if length pw < 8 then (Some (writeError 400 ''password must be >= 8 chars''), s)
      else (case bcryptHash X (x_salt X) pw of
              Inl e \<Rightarrow> (Some (writeError 500 (msg e)), s)
            | Inr h \<Rightarrow>
                (case UpdateUserPassword i h (ap_db s) of
                   Inl e \<Rightarrow> (Some (writeError 500 (msg e)), s)
                 | Inr d \<Rightarrow> (None, s\<lparr>ap_db := d\<rparr>))))"

definition handleUpdateUser :: "('c, 'l) handler" where
  "handleUpdateUser X r s =
     (case bd_userPatch (rq_body r) of
        Inl _ \<Rightarrow> (writeError 400 ''invalid body'', s)
      | Inr (role, pw) \<Rightarrow>
          (case patchRole (rq_id r) role s of
             (Some resp, s1) \<Rightarrow> (resp, s1)
           | (None, s1) \<Rightarrow>
               (case patchPassword X (rq_id r) pw s1 of
                  (Some resp, s2) \<Rightarrow> (resp, s2)
                | (None, s2) \<Rightarrow> (okJSON, s2))))"

definition isSelf :: "httpRequest \<Rightarrow> db \<Rightarrow> bool" where
  "isSelf r d \<longleftrightarrow>
     (case rq_claims r of
        None \<Rightarrow> False
      | Some c \<Rightarrow>
          (case GetUserByUsername (cl_username c) d of
             Inr (Some t) \<Rightarrow> us_id t = rq_id r | _ \<Rightarrow> False))"

definition handleDeleteUser :: "('c, 'l) handler" where
  "handleDeleteUser X r s =
     (if isSelf r (ap_db s) then (writeError 400 ''cannot delete your own account'', s)
      else (case DeleteUser (rq_id r) (ap_db s) of
              Inl e \<Rightarrow> (writeError 500 (msg e), s)
            | Inr d \<Rightarrow> (okJSON, s\<lparr>ap_db := d\<rparr>)))"

end
