(* ===== verification/AgentApi.thy ===== *)
theory AgentApi
  imports Auth Snapshot
begin

text \<open>
  The protocol between the server and its agents, server side: \<open>internal/server/agent_handlers.go\<close>
  and the update jobs of \<open>update_jobs.go\<close>.  An agent authenticates with a bearer token whose hash is
  in its server row, pushes snapshots, polls for its pending commands and answers them.
\<close>

section \<open>Update jobs\<close>

definition handleUpdateStatus :: "('c, 'l) handler" where
  "handleUpdateStatus X r s =
     ((case ap_jobs s (rq_id r) of
         None \<Rightarrow> writeError 404 ''no active update''
       | Some j \<Rightarrow> writeJSON 200 (JJob j)), s)"

section \<open>Bearer tokens\<close>

definition errUnauthorized :: err where "errUnauthorized = errors_new ''unauthorized agent''"

definition serverFromBearer :: "('c, 'l) ctx \<Rightarrow> httpRequest \<Rightarrow> db \<Rightarrow> err + server" where
  "serverFromBearer X r d =
     (let h = rq_header r ''Authorization'' in
      if \<not> hasPrefix h ''Bearer '' then Inl errUnauthorized
      else
        let token = trimSpace (trimPrefix h ''Bearer '')
        in if token = [] then Inl errUnauthorized
           else and_then (GetServerByTokenHash (hashToken X token) d)
                  (\<lambda>srv. case srv of None \<Rightarrow> Inl errUnauthorized | Some srv \<Rightarrow> Inr srv))"

section \<open>Reports\<close>

text \<open>The server row the report becomes: what identifies it and its state is the server's own, what the
  agent cannot know (yet) is kept.\<close>

definition reportInfo :: "gotime \<Rightarrow> server \<Rightarrow> report \<Rightarrow> server" where
  "reportInfo now srv rep =
     (let info = rpt_info rep in
      info\<lparr>sv_id := sv_id srv, sv_isLocal := False, sv_status := ''online'', sv_lastSeen := now,
           sv_agentVersion := rpt_version rep,
           sv_agentImage := (if rpt_selfImage rep \<noteq> [] then rpt_selfImage rep else sv_agentImage srv),
           sv_agentDigest := (if rpt_selfDigest rep \<noteq> [] then rpt_selfDigest rep else sv_agentDigest srv),
           sv_role := sv_role srv, sv_services := sv_services srv,
           sv_name := (if sv_name info = [] then sv_name srv else sv_name info),
           sv_created := (if sv_created info = zero_time then now else sv_created info),
           sv_updated := now\<rparr>)"

definition reportContainers :: "gotime \<Rightarrow> server \<Rightarrow> report \<Rightarrow> container list" where
  "reportContainers now srv rep = map (\<lambda>c. c\<lparr>ct_server := sv_id srv, ct_updated := now\<rparr>) (rpt_containers rep)"

definition handleAgentReport :: "('c, 'l) handler" where
  "handleAgentReport X r s =
     (case serverFromBearer X r (ap_db s) of
        Inl _ \<Rightarrow> (writeError 401 ''unauthorized'', s)
      | Inr srv \<Rightarrow>
          (case bd_report (rq_body r) of
             Inl _ \<Rightarrow> (writeError 400 ''invalid report'', s)
           | Inr rep \<Rightarrow>
               (case ReplaceServerSnapshot (x_ids X) (reportInfo (x_now X) srv rep) (rpt_stacks rep)
                       (reportContainers (x_now X) srv rep) (ap_db s) of
                  Inl e \<Rightarrow> (writeError 500 (msg e), s)
                | Inr d \<Rightarrow> (okJSON, s\<lparr>ap_db := d\<rparr>))))"

section \<open>Commands\<close>

definition toProtocol :: "command \<Rightarrow> protocolCommand" where
  "toProtocol c = \<lparr>pc_id = cm_id c, pc_kind = cm_kind c, pc_container = cm_container c, pc_target = cm_target c\<rparr>"

definition handleAgentCommands :: "('c, 'l) handler" where
  "handleAgentCommands X r s =
     ((case serverFromBearer X r (ap_db s) of
         Inl _ \<Rightarrow> writeError 401 ''unauthorized''
       | Inr srv \<Rightarrow> writeJSON 200 (JList (map (JCommand \<circ> toProtocol) (ListPendingCommands (sv_id srv) (ap_db s))))), s)"

definition resultStatus :: "string \<Rightarrow> string" where
  "resultStatus st = (if st \<noteq> ''done'' \<and> st \<noteq> ''failed'' then ''failed'' else st)"

text \<open>The job the UI follows, for the container the command was about, when it is still known.\<close>

definition finishJob :: "('c, 'l) ctx \<Rightarrow> string \<Rightarrow> string \<Rightarrow> string \<Rightarrow> string \<Rightarrow> ('c, 'l) app \<Rightarrow> ('c, 'l) app" where
  "finishJob X serverID dockerID status m s =
     (case ContainerIDByDockerID serverID dockerID (ap_db s) of
        Inl _ \<Rightarrow> s
      | Inr cid \<Rightarrow>
          setJob X cid
            (if status = ''done''
             then \<lparr>jb_container = cid, jb_name = [], jb_status = JobDone, jb_progress = 100,
                   jb_message = ''Update complete'', jb_updated = zero_time\<rparr>
             else \<lparr>jb_container = cid, jb_name = [], jb_status = JobFailed, jb_progress = -1,
                   jb_message = m, jb_updated = zero_time\<rparr>) s)"

definition handleAgentCommandResult :: "('c, 'l) handler" where
  "handleAgentCommandResult X r s =
     (case serverFromBearer X r (ap_db s) of
        Inl _ \<Rightarrow> (writeError 401 ''unauthorized'', s)
      | Inr srv \<Rightarrow>
          (case bd_result (rq_body r) of
             Inl _ \<Rightarrow> (writeError 400 ''invalid result'', s)
           | Inr res \<Rightarrow>
               (let status = resultStatus (cr_status res) in
                case find (\<lambda>c. cm_id c = rq_id r) (ListPendingCommands (sv_id srv) (ap_db s)) of
                  None \<Rightarrow> (writeError 404 ''command not found'', s)
                | Some c \<Rightarrow>
                    (case UpdateCommandResult (rq_id r) status (cr_message res) (x_now X) (ap_db s) of
                       Inl e \<Rightarrow> (writeError 500 (msg e), s)
                     | Inr d \<Rightarrow>
                         (okJSON,
                          finishJob X (sv_id srv) (cm_container c) status (cr_message res)
                            (addEvent X (eventNow X (if status = ''done'' then ''update_done'' else ''update_failed'')
                               ''agent'' (sv_id srv) [] (cr_message res)) (s\<lparr>ap_db := d\<rparr>)))))))"

end
