(* ===== verification/Api.thy ===== *)
theory Api
  imports Endpoints Settings AgentApi
begin

text \<open>
  The data API, \<open>internal/server/api_handlers.go\<close> and \<open>selfupdate_handlers.go\<close>, one definition
  per handler, with the helpers of \<open>server.go\<close> they call.
\<close>

section \<open>Which update may run, and where\<close>

definition executorFor ::
  "('c, 'l) ctx \<Rightarrow> server \<Rightarrow> ('c, 'l) app \<Rightarrow> (err + 'c option) \<times> ('c, 'l) app" where
  "executorFor X srv s =
     (if sv_isLocal srv
      then (case x_docker X of
              None \<Rightarrow> (Inl (errors_new ''local docker client unavailable''), s)
            | Some c \<Rightarrow> (Inr (Some c), s))
      else if sv_kind srv = ServerDirect
      then (case pool_get X srv (ap_endpoints s) of
              (Inl e, p) \<Rightarrow> (Inl e, s\<lparr>ap_endpoints := p\<rparr>)
            | (Inr c, p) \<Rightarrow> (Inr (Some c), s\<lparr>ap_endpoints := p\<rparr>))
      else (Inr None, s))"

definition swarmName :: "container \<Rightarrow> string" where
  "swarmName c = (if ct_swarmServiceName c \<noteq> [] then ''service '' @ ct_swarmServiceName c else ct_name c)"

definition updateBlockedReason :: "container \<Rightarrow> server option \<Rightarrow> string" where
  "updateBlockedReason c srv =
     (if ct_swarmTaskID c \<noteq> []
      then
        let role = (case srv of None \<Rightarrow> SwarmNone | Some s \<Rightarrow> if sv_role s = RoleUnset then SwarmNone else sv_role s)
        in if role = SwarmNone
           then ''cannot update '' @ ct_name c @ '': it is a swarm task, but the host is not currently reporting as a swarm manager.''
           else if role \<noteq> SwarmManager
           then ''cannot update '' @ swarmName c @ '': this is a swarm worker node. Add a manager node and update the service there.''
           else if \<not> (case srv of None \<Rightarrow> False | Some s \<Rightarrow> sv_services s)
           then ''cannot update '' @ swarmName c @ '': swarm service updates are opt-in. Grant the services API to your socket proxy (set SERVICES=1 alongside POST=1) and restart it, then try again.''
           else []
      else if \<not> ct_managed c \<or> ct_running c then []
      else if ct_systemdUnit c = []
      then ''cannot update '' @ ct_name c @ '': it is managed by systemd and is not running. ''
             @ ''Start its unit first so it comes up on the newly pulled image.''
      else ''cannot update '' @ ct_name c @ '': it is managed by the systemd unit '' @ ct_systemdUnit c
             @ '' and is not running. Start it first (`systemctl start '' @ ct_systemdUnit c
             @ ''`) so it comes up on the newly pulled image.'')"

section \<open>Servers\<close>

definition agentBuildState :: "string \<Rightarrow> result \<Rightarrow> server \<Rightarrow> string" where
  "agentBuildState version res srv =
     (if sv_kind srv \<noteq> ServerAgent then []
      else if sv_agentVersion srv = [] then ''unknown''
      else
        let reference = (if r_latest res \<noteq> [] \<and> IsNewer (r_latest res) version then r_latest res else version)
        in if IsNewer reference (sv_agentVersion srv) then ''behind'' else ''current'')"

definition kindText :: "serverKind \<Rightarrow> string" where
  "kindText k = (case k of KindUnset \<Rightarrow> [] | ServerLocal \<Rightarrow> ''local'' | ServerAgent \<Rightarrow> ''agent'' | ServerDirect \<Rightarrow> ''direct'')"

definition roleText :: "swarmRole \<Rightarrow> string" where
  "roleText k = (case k of RoleUnset \<Rightarrow> [] | SwarmNone \<Rightarrow> ''none'' | SwarmWorker \<Rightarrow> ''worker'' | SwarmManager \<Rightarrow> ''manager'')"

definition serverJSON :: "('c, 'l) ctx \<Rightarrow> ('c, 'l) app \<Rightarrow> server \<Rightarrow> json" where
  "serverJSON X s srv = JObj
     ([(''id'', JStr (sv_id srv)), (''name'', JStr (sv_name srv)), (''is_local'', JBool (sv_isLocal srv)),
       (''kind'', JStr (kindText (sv_kind srv))), (''online'', JBool (effectiveOnline (x_now X) srv)),
       (''last_seen'', JTime (sv_lastSeen srv)), (''docker_version'', JStr (sv_dockerVersion srv)),
       (''os'', JStr (sv_os srv)), (''arch'', JStr (sv_arch srv)), (''cpus'', JInt (sv_cpus srv)),
       (''memory_bytes'', JInt (sv_memory srv)), (''labels'', JList (map JStr (sv_labels srv))),
       (''swarm_role'', JStr (roleText (sv_role srv))), (''swarm_services'', JBool (sv_services srv))]
      @ (if sv_kind srv = ServerAgent
         then [(''agent_version'', JStr (sv_agentVersion srv)), (''agent_image'', JStr (sv_agentImage srv)),
               (''agent_build'', JStr (agentBuildState (x_version X) (Cached (ap_checker s)) srv))]
         else [])
      @ (if sv_kind srv = ServerDirect
         then [(''docker_host'', JStr (sv_dockerHost srv)), (''tls'', JBool (TLSEnabled srv))] else []))"

definition handleListServers :: "('c, 'l) handler" where
  "handleListServers X r s = (writeJSON 200 (JList (map (serverJSON X s) (ListServers (ap_db s)))), s)"

definition handleGetServer :: "('c, 'l) handler" where
  "handleGetServer X r s =
     ((case GetServer (rq_id r) (ap_db s) of
         Inl _ \<Rightarrow> writeError 404 ''server not found''
       | Inr srv \<Rightarrow> writeJSON 200 (serverJSON X s srv)), s)"

definition newServer :: "string \<Rightarrow> server" where
  "newServer name = empty_server\<lparr>sv_name := name, sv_status := ''offline''\<rparr>"

definition randomToken :: "('c, 'l) ctx \<Rightarrow> string" where
  "randomToken X = ''wnd_'' @ x_ids X 1"

definition createDirect :: "('c, 'l) ctx \<Rightarrow> httpRequest \<Rightarrow> createServerRequest \<Rightarrow> ('c, 'l) app \<Rightarrow> httpResponse \<times> ('c, 'l) app" where
  "createDirect X r req s =
     (let name = trimSpace (csr_name req) in
      case validateEndpoint X (csr_dockerHost req) (csr_tlsCA req) (csr_tlsCert req) (csr_tlsKey req) of
        Inl e \<Rightarrow> (writeError 400 (msg e), s)
      | Inr spec \<Rightarrow>
          (case CreateServer (x_ids X 0) (x_now X)
                  ((newServer name)\<lparr>sv_kind := ServerDirect, sv_dockerHost := es_host spec, sv_tlsCA := es_tlsCA spec,
                     sv_tlsCert := es_tlsCert spec, sv_tlsKey := es_tlsKey spec, sv_nameCustom := True\<rparr>) (ap_db s) of
             Inl e \<Rightarrow> (writeError 500 (msg e), s)
           | Inr (srv, d) \<Rightarrow>
               (writeJSON 200 (JObj [(''id'', JStr (sv_id srv)), (''name'', JStr (sv_name srv)), (''kind'', JStr ''direct'')]),
                addEvent X (eventNow X ''server_added'' (actorOf r) (sv_id srv) []
                    (''added direct endpoint '' @ name @ '' ('' @ es_host spec @ '')''))
                  (spawn (TaskSnapshot srv) (s\<lparr>ap_db := d\<rparr>)))))"

definition createAgent :: "('c, 'l) ctx \<Rightarrow> httpRequest \<Rightarrow> createServerRequest \<Rightarrow> ('c, 'l) app \<Rightarrow> httpResponse \<times> ('c, 'l) app" where
  "createAgent X r req s =
     (let name = trimSpace (csr_name req); token = randomToken X in
      case CreateServer (x_ids X 0) (x_now X)
             ((newServer name)\<lparr>sv_kind := ServerAgent, sv_tokenHash := hashToken X token\<rparr>) (ap_db s) of
        Inl e \<Rightarrow> (writeError 500 (msg e), s)
      | Inr (srv, d) \<Rightarrow>
          (writeJSON 200 (JObj [(''id'', JStr (sv_id srv)), (''name'', JStr (sv_name srv)), (''kind'', JStr ''agent''),
                                (''token'', JStr token)]),
           addEvent X (eventNow X ''server_added'' (actorOf r) (sv_id srv) [] (''added server '' @ name)) (s\<lparr>ap_db := d\<rparr>)))"

definition handleCreateServer :: "('c, 'l) handler" where
  "handleCreateServer X r s =
     (case bd_server (rq_body r) of
        Inl _ \<Rightarrow> (writeError 400 ''invalid body'', s)
      | Inr req \<Rightarrow>
          if trimSpace (csr_name req) = [] then (writeError 400 ''name is required'', s)
          else if csr_kind req = ''direct'' then createDirect X r req s
          else if csr_kind req \<noteq> [] \<and> csr_kind req \<noteq> ''agent''
          then (writeError 400 ''kind must be \"agent\" or \"direct\"'', s)
          else createAgent X r req s)"

definition handleUpdateServer :: "('c, 'l) handler" where
  "handleUpdateServer X r s =
     (case bd_server (rq_body r) of
        Inl _ \<Rightarrow> (writeError 400 ''invalid body'', s)
      | Inr req \<Rightarrow>
          let name = trimSpace (csr_name req); i = rq_id r in
          if name = [] then (writeError 400 ''name is required'', s)
          else (case GetServer i (ap_db s) of
                  Inl _ \<Rightarrow> (writeError 404 ''server not found'', s)
                | Inr srv0 \<Rightarrow>
                    (case UpdateServerName i name (x_now X) (ap_db s) of
                       Inl e \<Rightarrow> (writeError 500 (msg e), s)
                     | Inr d1 \<Rightarrow>
                         (let s1 = s\<lparr>ap_db := d1\<rparr>; srv = srv0\<lparr>sv_name := name, sv_nameCustom := True\<rparr>
                          in if sv_kind srv \<noteq> ServerDirect \<or> trimSpace (csr_dockerHost req) = [] then (okJSON, s1)
                             else (case validateEndpoint X (csr_dockerHost req) (csr_tlsCA req) (csr_tlsCert req) (csr_tlsKey req) of
                                     Inl e \<Rightarrow> (writeError 400 (msg e), s1)
                                   | Inr spec \<Rightarrow>
                                       (case UpdateServerEndpoint i (es_host spec) (es_tlsCA spec) (es_tlsCert spec)
                                               (es_tlsKey spec) (x_now X) (ap_db s1) of
                                          Inl e \<Rightarrow> (writeError 500 (msg e), s1)
                                        | Inr d2 \<Rightarrow>
                                            (okJSON,
                                             spawn (TaskSnapshot (srv\<lparr>sv_dockerHost := es_host spec, sv_tlsCA := es_tlsCA spec,
                                                      sv_tlsCert := es_tlsCert spec, sv_tlsKey := es_tlsKey spec\<rparr>))
                                               (s1\<lparr>ap_db := d2, ap_endpoints := pool_forget i (ap_endpoints s1)\<rparr>))))))))"

definition reportEndpointCheck :: "('c, 'l) ctx \<Rightarrow> 'c \<Rightarrow> httpResponse" where
  "reportEndpointCheck X c =
     (case dockerPing X c of
        Some e \<Rightarrow> writeError 502 (''could not reach the Docker API: '' @ msg e)
      | None \<Rightarrow>
          (case dockerInfo X c of
             Inl e \<Rightarrow> writeError 502 (''connected, but reading host info failed: '' @ msg e)
           | Inr info \<Rightarrow> writeJSON 200 (JObj [(''ok'', JBool True), (''name'', JStr (sv_name info)),
               (''docker_version'', JStr (sv_dockerVersion info)), (''os'', JStr (sv_os info)),
               (''arch'', JStr (sv_arch info)), (''cpus'', JInt (sv_cpus info)), (''memory_bytes'', JInt (sv_memory info))])))"

definition orStored :: "string \<Rightarrow> string \<Rightarrow> string" where
  "orStored v stored = (if trimSpace v = [] then stored else v)"

definition testSpec :: "('c, 'l) ctx \<Rightarrow> createServerRequest \<Rightarrow> httpResponse" where
  "testSpec X req =
     (case validateEndpoint X (csr_dockerHost req) (csr_tlsCA req) (csr_tlsCert req) (csr_tlsKey req) of
        Inl e \<Rightarrow> writeError 400 (msg e)
      | Inr spec \<Rightarrow>
          (case dockerNew X \<lparr>dc_host = es_host spec, dc_apiVersion = [], dc_tls = specTLSEnabled spec,
                  dc_tlsCA = es_tlsCA spec, dc_tlsCert = es_tlsCert spec, dc_tlsKey = es_tlsKey spec,
                  dc_enableRecreate = False\<rparr> of
             Inl e \<Rightarrow> writeError 400 (msg e)
           | Inr c \<Rightarrow> reportEndpointCheck X c))"

text \<open>The body is optional; its settings stand in for stored ones where they are given.  The request type
  has the same connection fields as the one for servers.\<close>

definition handleTestEndpoint :: "('c, 'l) handler" where
  "handleTestEndpoint X r s =
     ((case (if rq_contentLength r > 0 then bd_server (rq_body r)
             else Inr \<lparr>csr_name = [], csr_kind = [], csr_dockerHost = [], csr_tlsCA = [], csr_tlsCert = [], csr_tlsKey = []\<rparr>) of
         Inl _ \<Rightarrow> writeError 400 ''invalid body''
       | Inr req \<Rightarrow>
           if rq_id r = [] then testSpec X req
           else (case GetServer (rq_id r) (ap_db s) of
                   Inl _ \<Rightarrow> writeError 404 ''server not found''
                 | Inr srv \<Rightarrow>
                     if sv_isLocal srv
                     then (case x_docker X of None \<Rightarrow> writeError 503 ''local docker client unavailable''
                           | Some c \<Rightarrow> reportEndpointCheck X c)
                     else if sv_kind srv \<noteq> ServerDirect then writeError 400 ''only direct endpoints can be tested''
                     else testSpec X (req\<lparr>csr_dockerHost := orStored (csr_dockerHost req) (sv_dockerHost srv),
                            csr_tlsCA := orStored (csr_tlsCA req) (sv_tlsCA srv),
                            csr_tlsCert := orStored (csr_tlsCert req) (sv_tlsCert srv),
                            csr_tlsKey := orStored (csr_tlsKey req) (sv_tlsKey srv)\<rparr>))), s)"

definition handleDeleteServer :: "('c, 'l) handler" where
  "handleDeleteServer X r s =
     (let i = rq_id r in
      case GetServer i (ap_db s) of
        Inl _ \<Rightarrow> (writeError 404 ''server not found'', s)
      | Inr srv \<Rightarrow>
          if sv_isLocal srv then (writeError 400 ''the local server cannot be deleted'', s)
          else (case DeleteServerCascade i (ap_db s) of
                  Inl e \<Rightarrow> (writeError 500 (msg e), s)
                | Inr d \<Rightarrow>
                    (okJSON, addEvent X (eventNow X ''server_deleted'' (actorOf r) i [] (''deleted server '' @ sv_name srv))
                       (s\<lparr>ap_db := d, ap_endpoints := pool_forget i (ap_endpoints s)\<rparr>))))"

section \<open>Listings\<close>

definition hasUpdate :: "containerWithUpdate \<Rightarrow> bool" where
  "hasUpdate c \<longleftrightarrow> cu_update c \<noteq> None"

definition handleOverview :: "('c, 'l) handler" where
  "handleOverview X r s =
     (let srvs = ListServers (ap_db s); sts = ListStacks [] (ap_db s); cs = ListContainers all_containers (ap_db s);
          count = (\<lambda>p. int (length (filter p cs)))
      in (writeJSON 200 (JObj
            [(''servers'', JInt (int (length srvs))),
             (''servers_online'', JInt (int (length (filter (effectiveOnline (x_now X)) srvs)))),
             (''stacks'', JInt (int (length sts))),
             (''containers'', JInt (int (length cs))),
             (''containers_running'', JInt (count (\<lambda>c. ct_running (cu_container c)))),
             (''updates_available'', JInt (count hasUpdate)),
             (''versions_behind_total'',
                JInt (foldl (\<lambda>n c. case cu_update c of None \<Rightarrow> n | Some u \<Rightarrow> wrap64 (n + up_versionsBehind u)) 0 cs))]), s))"

definition handleListStacks :: "('c, 'l) handler" where
  "handleListStacks X r s = (writeJSON 200 (JList (map JStack (ListStacks (rq_query r ''server'') (ap_db s)))), s)"

definition handleAbout :: "('c, 'l) handler" where
  "handleAbout X r s = (writeJSON 200 (JObj [(''name'', JStr ''WhatsNewDock''), (''version'', JStr (x_version X))]), s)"

definition containerQuery :: "httpRequest \<Rightarrow> containerFilter" where
  "containerQuery r = \<lparr>cf_server = rq_query r ''server'', cf_stack = rq_query r ''stack'',
     cf_registry = rq_query r ''registry'', cf_repository = rq_query r ''repository'', cf_state = rq_query r ''state'',
     cf_hasUpdate = (rq_query r ''has_update'' \<noteq> [] \<and> parseBool (rq_query r ''has_update'') = Some True),
     cf_search = rq_query r ''search'', cf_limit = 0\<rparr>"

definition handleListContainers :: "('c, 'l) handler" where
  "handleListContainers X r s =
     (writeJSON 200 (JList (map JContainer (ListContainers (containerQuery r) (ap_db s)))), s)"

definition handleGetContainer :: "('c, 'l) handler" where
  "handleGetContainer X r s =
     ((case GetContainer (rq_id r) (ap_db s) of
         Inl _ \<Rightarrow> writeError 404 ''container not found''
       | Inr c \<Rightarrow> writeJSON 200 (JContainer c)), s)"

text \<open>\<open>Updater.ResolveRepoKey\<close> on the live configuration.\<close>

definition liveRepoKey :: "('c, 'l) ctx \<Rightarrow> registries \<Rightarrow> container \<Rightarrow> string" where
  "liveRepoKey X regs c =
     (case Parse (x_parseNamed X) (ct_image c) of
        Inl _ \<Rightarrow> []
      | Inr ref \<Rightarrow> (case ResolveSource regs (x_hostPath X) ref (ct_labels c) of None \<Rightarrow> [] | Some src \<Rightarrow> repoKey src))"

lemma liveRepoKey_updater:
  "u_parseNamed u = x_parseNamed X \<Longrightarrow> u_parseURL u = x_hostPath X \<Longrightarrow>
   liveRepoKey X (uc_registries (u_cfg u)) c = ResolveRepoKey u c"
  by (simp add: liveRepoKey_def ResolveRepoKey_def containerSource_def split: sum.split)

definition handleContainerReleases :: "('c, 'l) handler" where
  "handleContainerReleases X r s =
     ((case GetContainer (rq_id r) (ap_db s) of
         Inl _ \<Rightarrow> writeError 404 ''container not found''
       | Inr c \<Rightarrow>
           let key = (case cu_update c of Some u \<Rightarrow> up_repoKey u
                      | None \<Rightarrow> liveRepoKey X (uc_registries (ap_updates s)) (cu_container c));
               rels = (if key \<noteq> [] then ListReleases key 0 (ap_db s) else [])
           in writeJSON 200 (JObj [(''container'', JContainer c), (''update'', JUpdate (cu_update c)),
                                   (''releases'', JList (map JRelease rels))])), s)"

definition handleListUpdates :: "('c, 'l) handler" where
  "handleListUpdates X r s =
     (writeJSON 200 (JList (map JContainer
        (ListUpdates \<lparr>uf_server = rq_query r ''server'', uf_stack = rq_query r ''stack'', uf_search = rq_query r ''search''\<rparr>
           (ap_db s)))), s)"

definition handleListEvents :: "('c, 'l) handler" where
  "handleListEvents X r s = (writeJSON 200 (JList (map JEvent (ListEvents 200 (ap_db s)))), s)"

end
