(* ===== verification/Jobs.thy ===== *)
theory Jobs
  imports Api Recreate
begin

text \<open>
  The handlers that set work in motion and that work: container updates, update checks, the
  application's own update, and the background loops of \<open>server.go\<close>, one definition per round.
\<close>

section \<open>Requesting an update\<close>

definition updateTarget :: "containerWithUpdate \<Rightarrow> updateRow \<Rightarrow> string" where
  "updateTarget cw u =
     (let c = cu_container cw in
      if up_latestTag u \<noteq> [] \<and> up_latestTag u \<noteq> ct_imageTag c then ct_imageName c @ '':'' @ up_latestTag u
      else ct_image c)"

definition newJob :: "container \<Rightarrow> jobStatus \<Rightarrow> int \<Rightarrow> string \<Rightarrow> updateJob" where
  "newJob c st p m = \<lparr>jb_container = ct_id c, jb_name = ct_name c, jb_status = st, jb_progress = p,
     jb_message = m, jb_updated = zero_time\<rparr>"

definition queueLocal ::
  "('c, 'l) ctx \<Rightarrow> string \<Rightarrow> containerWithUpdate \<Rightarrow> server \<Rightarrow> string \<Rightarrow> 'c \<Rightarrow> ('c, 'l) app \<Rightarrow> httpResponse \<times> ('c, 'l) app" where
  "queueLocal X actor cw srv target exec s =
     (let c = cu_container cw in
      (writeJSON 200 (JObj [(''queued'', JBool True), (''local'', JBool (sv_isLocal srv)),
                            (''direct'', JBool (sv_kind srv = ServerDirect)), (''swarm'', JBool (ct_swarmTaskID c \<noteq> []))]),
       addEvent X (eventNow X ''update_requested'' actor (ct_server c) (ct_id c) (ct_name c @ '' -> '' @ target))
         (spawn (TaskUpdate exec cw target actor) (setJob X (ct_id c) (newJob c JobQueued (-1) ''Queued'') s))))"

definition queueAgent ::
  "('c, 'l) ctx \<Rightarrow> string \<Rightarrow> containerWithUpdate \<Rightarrow> string \<Rightarrow> ('c, 'l) app \<Rightarrow> httpResponse \<times> ('c, 'l) app" where
  "queueAgent X actor cw target s =
     (let c = cu_container cw; s1 = setJob X (ct_id c) (newJob c JobQueued (-1) ''Queued'') s in
      case CreateCommand (x_ids X 0) (x_now X)
             \<lparr>cm_id = [], cm_server = ct_server c, cm_kind = ''update'', cm_container = ct_dockerID c, cm_target = target,
              cm_status = [], cm_result = [], cm_created = zero_time, cm_updated = zero_time\<rparr> (ap_db s1) of
        Inl e \<Rightarrow> (writeError 500 (msg e), s1)
      | Inr (cmd, d) \<Rightarrow>
          (writeJSON 200 (JObj [(''queued'', JBool True), (''local'', JBool False), (''command_id'', JStr (cm_id cmd))]),
           addEvent X (eventNow X ''update_requested'' actor (ct_server c) (ct_id c) (ct_name c @ '' -> '' @ target))
             (s1\<lparr>ap_db := d\<rparr>)))"

definition handleRequestUpdate :: "('c, 'l) handler" where
  "handleRequestUpdate X r s =
     (if \<not> dc_enableRecreate (wc_docker (x_cfg X))
      then (writeError 403 ''container updates are disabled (WND_DOCKER_ENABLE_RECREATE)'', s)
      else (case GetContainer (rq_id r) (ap_db s) of
              Inl _ \<Rightarrow> (writeError 404 ''container not found'', s)
            | Inr cw \<Rightarrow>
                (case cu_update cw of
                   None \<Rightarrow> (writeError 400 ''no update available for this container'', s)
                 | Some u \<Rightarrow>
                     (case GetServer (ct_server (cu_container cw)) (ap_db s) of
                        Inl _ \<Rightarrow> (writeError 500 ''server lookup failed'', s)
                      | Inr srv \<Rightarrow>
                          (let reason = updateBlockedReason (cu_container cw) (Some srv) in
                           if reason \<noteq> [] then (writeError 409 reason, s)
                           else (case executorFor X srv s of
                                   (Inl e, s1) \<Rightarrow> (writeError 502 (''endpoint unavailable: '' @ msg e), s1)
                                 | (Inr (Some exec), s1) \<Rightarrow> queueLocal X (actorOf r) cw srv (updateTarget cw u) exec s1
                                 | (Inr None, s1) \<Rightarrow> queueAgent X (actorOf r) cw (updateTarget cw u) s1))))))"

section \<open>Running one\<close>

text \<open>The goroutine of an update.  It works on the world of the Docker client, in which it finds the
  server's state: \<open>on_app\<close> changes it there, and the clock of the daemon dates what is written.\<close>

type_synonym ('c, 'l, 'd) on_app = "(('c, 'l) app \<Rightarrow> ('c, 'l) app) \<Rightarrow> 'd \<Rightarrow> 'd"

definition stageJob :: "container \<Rightarrow> string \<Rightarrow> int \<Rightarrow> updateJob" where
  "stageJob c stage pct =
     (if stage = ''pulling'' then newJob c JobPulling pct (''Pulling image'' @ [CHR 0xE2, CHR 0x80, CHR 0xA6])
      else if stage = ''updating'' then newJob c JobUpdating pct (''Rolling out the service'' @ [CHR 0xE2, CHR 0x80, CHR 0xA6])
      else newJob c JobRecreating pct (''Recreating container'' @ [CHR 0xE2, CHR 0x80, CHR 0xA6]))"

text \<open>\<open>X d\<close>: the context with the time of the world \<open>d\<close>.\<close>

definition jobProgress ::
  "('d \<Rightarrow> ('c, 'l) ctx) \<Rightarrow> ('c, 'l, 'd) on_app \<Rightarrow> container \<Rightarrow> 'd progress" where
  "jobProgress X on_app c = Some (\<lambda>stage pct d. on_app (setJob (X d) (ct_id c) (stageJob c stage pct)) d)"

definition finishUpdate ::
  "('d \<Rightarrow> ('c, 'l) ctx) \<Rightarrow> ('c, 'l, 'd) on_app \<Rightarrow> containerWithUpdate \<Rightarrow> string \<Rightarrow> string \<Rightarrow> err option \<Rightarrow> 'd \<Rightarrow> 'd" where
  "finishUpdate X on_app cw target actor e d =
     (let c = cu_container cw in
      case e of
        Some e \<Rightarrow>
          on_app (\<lambda>s. addEvent (X d) (eventNow (X d) ''update_failed'' actor (ct_server c) (ct_id c)
                      (ct_name c @ '' -> '' @ target @ '': '' @ msg e))
                    (setJob (X d) (ct_id c) (newJob c JobFailed (-1) (msg e)) s)) d
      | None \<Rightarrow>
          on_app (\<lambda>s. addEvent (X d) (eventNow (X d) ''update_done'' actor (ct_server c) (ct_id c)
                      (ct_name c @ '' updated to '' @ target))
                    (setJob (X d) (ct_id c) (newJob c JobDone 100 ''Update complete'') s)) d)"

text \<open>\<open>None\<close> when the update does not return within the fuel; a panic in the goroutine ends the
  process.\<close>

definition runUpdate ::
  "'d daemon \<Rightarrow> nat \<Rightarrow> ('d \<Rightarrow> ('c, 'l) ctx) \<Rightarrow> ('c, 'l, 'd) on_app \<Rightarrow> containerWithUpdate \<Rightarrow> string \<Rightarrow> string \<Rightarrow> 'd
     \<Rightarrow> (outcome \<times> 'd) option" where
  "runUpdate D fuel X on_app cw target actor d =
     (case recreateContainer D fuel (ct_dockerID (cu_container cw)) target (jobProgress X on_app (cu_container cw)) d of
        None \<Rightarrow> None
      | Some (Panicked, d') \<Rightarrow> Some (Panicked, d')
      | Some (Failed e, d') \<Rightarrow> Some (Failed e, finishUpdate X on_app cw target actor (Some e) d')
      | Some (Done, d') \<Rightarrow> Some (Done, finishUpdate X on_app cw target actor None d'))"

section \<open>Pins and checks\<close>

definition handleSetPin :: "('c, 'l) handler" where
  "handleSetPin X r s =
     (case bd_pinned (rq_body r) of
        Inl _ \<Rightarrow> (writeError 400 ''invalid body'', s)
      | Inr b \<Rightarrow>
          (case SetContainerPinned (rq_id r) b (ap_db s) of
             Inl e \<Rightarrow> (writeError 500 (msg e), s)
           | Inr d \<Rightarrow>
               (writeJSON 200 (JObj [(''pinned'', JBool b)]),
                s\<lparr>ap_db := (if b then (case DeleteUpdate (rq_id r) d of Inl _ \<Rightarrow> d | Inr d' \<Rightarrow> d') else d)\<rparr>)))"

definition checks_begin :: "gotime \<Rightarrow> string \<Rightarrow> checkRun \<Rightarrow> bool \<times> checkRun" where
  "checks_begin now trigger c =
     (if kr_running c then (False, c)
      else (True, c\<lparr>kr_running := True, kr_trigger := trigger, kr_startedAt := now, kr_err := []\<rparr>))"

definition checks_end :: "gotime \<Rightarrow> err option \<Rightarrow> checkRun \<Rightarrow> checkRun" where
  "checks_end now e c =
     c\<lparr>kr_running := False, kr_finishedAt := now, kr_err := (case e of None \<Rightarrow> kr_err c | Some e \<Rightarrow> msg e)\<rparr>"

text \<open>\<open>runUpdateCheck\<close>: the check itself is the updater's, between the beginning and the end of the run.\<close>

definition runUpdateCheck ::
  "('v, 'e) updater \<Rightarrow> ('c, 'l) ctx \<Rightarrow> string \<Rightarrow> ('c, 'l) app \<Rightarrow> 'e \<Rightarrow> err option \<times> ('c, 'l) app \<times> 'e" where
  "runUpdateCheck u X trigger s e =
     (case checks_begin (x_now X) trigger (ap_checks s) of
        (False, _) \<Rightarrow> (None, s, e)
      | (True, c) \<Rightarrow>
          (let (r, d, e1) = CheckAll u (ap_db s) e; (now, e2) = clock (u_world u) e1
           in (r, s\<lparr>ap_checks := checks_end now r c, ap_db := d\<rparr>, e2)))"

definition handleTriggerCheck :: "('c, 'l) handler" where
  "handleTriggerCheck X r s = (writeJSON 202 (JObj [(''started'', JBool True)]), spawn (TaskCheck ''manual'') s)"

text \<open>The goroutine behind it.\<close>

definition manualCheck ::
  "('v, 'e) updater \<Rightarrow> ('c, 'l) ctx \<Rightarrow> ('c, 'l) app \<Rightarrow> 'e \<Rightarrow> ('c, 'l) app \<times> 'e" where
  "manualCheck u X s e =
     (case runUpdateCheck u X ''manual'' s e of
        (None, s', e') \<Rightarrow> (s', e')
      | (Some x, s', e') \<Rightarrow> (addEvent X (eventNow X ''check_failed'' ''system'' [] [] (msg x)) s', e'))"

definition handleCheckStatus :: "('c, 'l) handler" where
  "handleCheckStatus X r s =
     (let c = ap_checks s in
      (writeJSON 200 (JObj
         ([(''running'', JBool (kr_running c)), (''trigger'', JStr (kr_trigger c)),
           (''updates_available'', JInt (int (length (filter hasUpdate (ListContainers all_containers (ap_db s)))))),
           (''last_error'', JStr (kr_err c))]
          @ (if kr_startedAt c \<noteq> zero_time then [(''started_at'', JTime (kr_startedAt c))] else [])
          @ (if kr_finishedAt c \<noteq> zero_time then [(''finished_at'', JTime (kr_finishedAt c))] else []))), s))"

section \<open>The application's own update\<close>

definition currentImage :: "('c, 'l) ctx \<Rightarrow> err + string \<times> string" where
  "currentImage X =
     (case x_docker X of
        None \<Rightarrow> Inl (errors_new ''this instance cannot identify its own container'')
      | Some c \<Rightarrow> if x_selfID X = [] then Inl (errors_new ''this instance cannot identify its own container'')
                  else selfImage X c (x_selfID X))"

definition selfUpdateImage :: "('c, 'l) ctx \<Rightarrow> ('c, 'l) app \<Rightarrow> string" where
  "selfUpdateImage X s =
     (if sc_image (ap_self s) \<noteq> [] then sc_image (ap_self s)
      else (case currentImage X of Inl _ \<Rightarrow> [] | Inr (ref, _) \<Rightarrow> ref))"

definition currentBuild :: "('c, 'l) ctx \<Rightarrow> ('c, 'l) app \<Rightarrow> current" where
  "currentBuild X s =
     (case currentImage X of
        Inl _ \<Rightarrow> \<lparr>c_version = x_version X, c_image = [], c_digest = []\<rparr>
      | Inr (ref, digest) \<Rightarrow>
          \<lparr>c_version = x_version X,
           c_image = (if sc_image (ap_self s) \<noteq> [] then sc_image (ap_self s) else ref), c_digest = digest\<rparr>)"

definition imageDigestMoved :: "('c, 'l) ctx \<Rightarrow> string \<Rightarrow> string \<Rightarrow> err + bool \<times> string" where
  "imageDigestMoved X imageRef currentDigest =
     and_then (Parse (x_parseNamed X) imageRef)
       (\<lambda>ref. and_then (x_manifestUpToDate X (rf_registry ref) (rf_repository ref) (rf_tag ref) currentDigest)
          (\<lambda>upToDate. if upToDate then Inr (False, currentDigest) else Inr (True, [])))"

definition selfCheck :: "('c, 'l) ctx \<Rightarrow> ('c, 'l) app \<Rightarrow> result \<times> ('c, 'l) app" where
  "selfCheck X s =
     (let (res, c) = Check (x_now X) (currentBuild X s) (Some (latestRelease X (sc_repo (ap_self s))))
            (Some (imageDigestMoved X)) (ap_checker s)
      in (res, s\<lparr>ap_checker := c\<rparr>))"

definition handleSelfUpdate :: "('c, 'l) handler" where
  "handleSelfUpdate X r s =
     (let res = Cached (ap_checker s) in
      (writeJSON 200 (JObj
        ([(''current'', JStr (r_current res)), (''latest'', JStr (r_latest res)),
          (''update_available'', JBool (r_available res)), (''checked_at'', JTime (r_checkedAt res)),
          (''enabled'', JBool (sc_enabled (ap_self s))),
          (''interval'', JStr (durationString (selfUpdateInterval (ap_self s)))), (''repo'', JStr (sc_repo (ap_self s))),
          (''can_apply'', JBool (x_docker X \<noteq> None \<and> x_selfID X \<noteq> [])),
          (''current_image'', JStr (selfUpdateImage X s))]
         @ (if r_url res \<noteq> [] then [(''url'', JStr (r_url res))] else [])
         @ (if r_name res \<noteq> [] then [(''name'', JStr (r_name res))] else [])
         @ (if r_published res \<noteq> zero_time then [(''published_at'', JTime (r_published res))] else [])
         @ (if r_error res \<noteq> [] then [(''error'', JStr (r_error res))] else []))), s))"

definition handleSelfUpdateRun :: "('c, 'l) handler" where
  "handleSelfUpdateRun X r s =
     ((case tracker_get (ap_tracker s) of
         None \<Rightarrow> writeJSON 200 (JObj [(''active'', JBool False)])
       | Some run \<Rightarrow> writeJSON 200 (JObj [(''active'', JBool (\<not> sr_finished run)), (''run'', JRun run)])), s)"

definition handleCheckSelfUpdate :: "('c, 'l) handler" where
  "handleCheckSelfUpdate X r s = (let (res, s') = selfCheck X s in (writeJSON 200 (JResult res), s'))"

text \<open>\<open>ap_nextRun\<close> is the address of the next run object.  An unreadable body counts as one without
  \<open>force\<close>.\<close>

definition handleApplySelfUpdate :: "('c, 'l) handler" where
  "handleApplySelfUpdate X r s =
     (let res = Cached (ap_checker s);
          target = (if sc_image (ap_self s) \<noteq> [] then sc_image (ap_self s) else r_target res)
      in if x_docker X = None
         then (writeError 409 ''self-update needs a Docker connection; this instance has none'', s)
         else if \<not> r_available res then (writeError 409 ''no newer version is known; run a check first'', s)
         else if target = [] then (writeError 409 ''cannot determine which image to deploy'', s)
         else if x_selfID X = []
         then (writeError 409 (''this instance cannot identify its own container, so it cannot redeploy itself ''
                 @ [CHR 0xE2, CHR 0x80, CHR 0x94] @ '' update the deployment with `docker compose pull && docker compose up -d`''), s)
         else
           let force = (case bd_force (rq_body r) of Inl _ \<Rightarrow> False | Inr b \<Rightarrow> b);
               res' = no_result\<lparr>r_current := r_current res, r_target := target, r_kind := r_kind res, r_available := True\<rparr>;
               k = ap_nextRun s;
               (t, d) = startSelfUpdateRun k (x_ids X 0) (\<lambda>n. x_ids X (Suc n)) (x_now X) res'
                          (Inr (ListServers (ap_db s))) (ap_tracker s, ap_db s)
           in (writeJSON 202 (JRun (tr_runs t k)),
               spawn (TaskSelfUpdate k res' force) (s\<lparr>ap_tracker := t, ap_db := d, ap_nextRun := Suc k\<rparr>)))"

section \<open>The background loops\<close>

definition markOfflineServers :: "gotime \<Rightarrow> db \<Rightarrow> db" where
  "markOfflineServers now d =
     foldl (\<lambda>d srv. if sv_isLocal srv then d
                    else if sv_status srv = ''online'' \<and> now - sv_lastSeen srv > offlineThreshold
                    then (case MarkServerOffline (sv_id srv) d of Inl _ \<Rightarrow> d | Inr d' \<Rightarrow> d')
                    else d) d (ListServers d)"

text \<open>What a Docker client says of its host (\<open>Client.Snapshot\<close>).\<close>

record hostSnapshot =
  hs_server :: server
  hs_stacks :: "stack list"
  hs_containers :: "container list"

definition storeSnapshot :: "('c, 'l) ctx \<Rightarrow> server \<Rightarrow> hostSnapshot \<Rightarrow> db \<Rightarrow> db" where
  "storeSnapshot X info snap d =
     (case ReplaceServerSnapshot (x_ids X) info (hs_stacks snap) (hs_containers snap) d of Inl _ \<Rightarrow> d | Inr d' \<Rightarrow> d')"

definition localInfo :: "gotime \<Rightarrow> string \<Rightarrow> db \<Rightarrow> server \<Rightarrow> server" where
  "localInfo now localID d srv0 =
     (let srv1 = srv0\<lparr>sv_id := localID, sv_isLocal := True, sv_kind := ServerLocal, sv_status := ''online'', sv_lastSeen := now\<rparr>;
          srv2 = (case GetServer localID d of
                    Inl _ \<Rightarrow> srv1
                  | Inr cur \<Rightarrow> if sv_nameCustom cur then srv1\<lparr>sv_name := sv_name cur, sv_nameCustom := True\<rparr> else srv1)
      in if sv_name srv2 = [] then srv2\<lparr>sv_name := ''local''\<rparr> else srv2)"

definition snapshotLocal :: "('c, 'l) ctx \<Rightarrow> err + hostSnapshot \<Rightarrow> ('c, 'l) app \<Rightarrow> ('c, 'l) app" where
  "snapshotLocal X answer s =
     (case answer of
        Inl _ \<Rightarrow> s
      | Inr snap \<Rightarrow> s\<lparr>ap_db := storeSnapshot X (localInfo (x_now X) (ap_localID s) (ap_db s) (hs_server snap)) snap (ap_db s)\<rparr>)"

definition directInfo :: "gotime \<Rightarrow> server \<Rightarrow> server \<Rightarrow> server" where
  "directInfo now srv info =
     info\<lparr>sv_id := sv_id srv, sv_name := sv_name srv, sv_nameCustom := sv_nameCustom srv, sv_isLocal := False,
          sv_kind := ServerDirect, sv_status := ''online'', sv_lastSeen := now\<rparr>"

definition snapshotDirect ::
  "('c, 'l) ctx \<Rightarrow> ('c \<Rightarrow> err + hostSnapshot) \<Rightarrow> server \<Rightarrow> ('c, 'l) app \<Rightarrow> ('c, 'l) app" where
  "snapshotDirect X ask srv s =
     (case pool_get X srv (ap_endpoints s) of
        (Inl _, p) \<Rightarrow> s\<lparr>ap_endpoints := p\<rparr>
      | (Inr c, p) \<Rightarrow>
          (case ask c of
             Inl _ \<Rightarrow> s\<lparr>ap_endpoints := p\<rparr>
           | Inr snap \<Rightarrow> s\<lparr>ap_endpoints := p,
                           ap_db := storeSnapshot X (directInfo (x_now X) srv (hs_server snap)) snap (ap_db s)\<rparr>))"

text \<open>One round over every host this process reaches; the k-th host gets its own supply of ids.\<close>

definition snapshotAll ::
  "(nat \<Rightarrow> ('c, 'l) ctx) \<Rightarrow> ('c \<Rightarrow> err + hostSnapshot) \<Rightarrow> ('c, 'l) app \<Rightarrow> ('c, 'l) app" where
  "snapshotAll X ask s =
     (let s1 = (case x_docker (X 0) of None \<Rightarrow> s | Some c \<Rightarrow> snapshotLocal (X 0) (ask c) s)
      in foldl (\<lambda>s (k, srv). snapshotDirect (X (Suc k)) ask srv s) s1
           (enumerate 0 (ListServersByKind ServerDirect (ap_db s1))))"

definition selfUpdateRound :: "('c, 'l) ctx \<Rightarrow> ('c, 'l) app \<Rightarrow> ('c, 'l) app" where
  "selfUpdateRound X s = (if sc_enabled (ap_self s) then snd (selfCheck X s) else s)"

section \<open>Starting up\<close>

definition ensureLocalServer :: "('c, 'l) ctx \<Rightarrow> ('c, 'l) app \<Rightarrow> err + ('c, 'l) app" where
  "ensureLocalServer X s =
     (case find sv_isLocal (ListServers (ap_db s)) of
        Some srv \<Rightarrow> Inr (s\<lparr>ap_localID := sv_id srv\<rparr>)
      | None \<Rightarrow>
          and_then (CreateServer [] (x_now X)
              (empty_server\<lparr>sv_id := x_ids X 1, sv_name := ''local'', sv_isLocal := True, sv_status := ''online'',
                 sv_lastSeen := x_now X\<rparr>) (ap_db s))
            (\<lambda>(srv, d). Inr (s\<lparr>ap_db := d, ap_localID := sv_id srv\<rparr>)))"

definition bootstrap :: "('c, 'l) ctx \<Rightarrow> string \<Rightarrow> ('c, 'l) app \<Rightarrow> err + ('c, 'l) app" where
  "bootstrap X fresh s =
     and_then (if x_docker X = None then Inr s else ensureLocalServer X s)
       (\<lambda>s1. and_then (ensureInitialAdmin X fresh (ap_db s1)) (\<lambda>d. Inr (s1\<lparr>ap_db := d\<rparr>)))"

end
