(* ===== verification/Access.thy ===== *)
theory Access
  imports Jobs "HOL-Library.Product_Lexorder"
begin

text \<open>
  Who reaches which handler: the routes of \<open>internal/server/routes.go\<close> and the middleware of
  \<open>middleware.go\<close>.  The patterns are matched as \<open>net/http\<close>'s mux does on a clean path: a
  pattern of a method matches that method (GET also HEAD), \<open>{id}\<close> stands for one segment that is
  not empty, a literal segment wins over it, and \<open>/\<close> takes what nothing else takes.  The modelled handlers do not panic, so
  \<open>recoverMiddleware\<close> passes everything through, and \<open>requestLogger\<close> only logs.
\<close>

section \<open>Levels of access\<close>

datatype access = Anyone | Session | Admin

text \<open>From what everyone may do to what takes an administrator.\<close>

instantiation access :: linorder
begin

definition rank :: "access \<Rightarrow> nat" where
  "rank a = (case a of Anyone \<Rightarrow> 0 | Session \<Rightarrow> 1 | Admin \<Rightarrow> 2)"

definition less_eq_access :: "access \<Rightarrow> access \<Rightarrow> bool" where
  "a \<le> b \<longleftrightarrow> rank a \<le> rank b"

definition less_access :: "access \<Rightarrow> access \<Rightarrow> bool" where
  "a < b \<longleftrightarrow> rank a < rank b"

instance
  by standard (auto simp: less_eq_access_def less_access_def rank_def split: access.splits)

end

section \<open>Routes\<close>

datatype segment = Lit string | AnyID

type_synonym ('c, 'l) route = "string \<times> segment list \<times> access \<times> ('c, 'l) handler"

definition routes :: "('c, 'l) route list" where
  "routes =
     [(''POST'', [Lit ''api'', Lit ''auth'', Lit ''login''], Anyone, handleLogin),
      (''POST'', [Lit ''api'', Lit ''auth'', Lit ''logout''], Anyone, handleLogout),
      (''GET'', [Lit ''api'', Lit ''auth'', Lit ''me''], Anyone, handleMe),
      (''GET'', [Lit ''api'', Lit ''auth'', Lit ''config''], Anyone, handleAuthConfig),
      (''GET'', [Lit ''api'', Lit ''auth'', Lit ''oidc'', Lit ''url''], Anyone, handleOIDCURL),
      (''GET'', [Lit ''api'', Lit ''auth'', Lit ''oidc'', Lit ''callback''], Anyone, handleOIDCCallback),
      (''POST'', [Lit ''api'', Lit ''agent'', Lit ''v1'', Lit ''report''], Anyone, handleAgentReport),
      (''GET'', [Lit ''api'', Lit ''agent'', Lit ''v1'', Lit ''commands''], Anyone, handleAgentCommands),
      (''POST'', [Lit ''api'', Lit ''agent'', Lit ''v1'', Lit ''commands'', AnyID, Lit ''result''], Anyone, handleAgentCommandResult),
      (''GET'', [Lit ''api'', Lit ''v1'', Lit ''overview''], Session, handleOverview),
      (''GET'', [Lit ''api'', Lit ''v1'', Lit ''about''], Session, handleAbout),
      (''GET'', [Lit ''api'', Lit ''v1'', Lit ''servers''], Session, handleListServers),
      (''GET'', [Lit ''api'', Lit ''v1'', Lit ''servers'', AnyID], Session, handleGetServer),
      (''POST'', [Lit ''api'', Lit ''v1'', Lit ''servers''], Admin, handleCreateServer),
      (''POST'', [Lit ''api'', Lit ''v1'', Lit ''servers'', Lit ''test''], Admin, handleTestEndpoint),
      (''POST'', [Lit ''api'', Lit ''v1'', Lit ''servers'', AnyID, Lit ''test''], Admin, handleTestEndpoint),
      (''PATCH'', [Lit ''api'', Lit ''v1'', Lit ''servers'', AnyID], Admin, handleUpdateServer),
      (''DELETE'', [Lit ''api'', Lit ''v1'', Lit ''servers'', AnyID], Admin, handleDeleteServer),
      (''GET'', [Lit ''api'', Lit ''v1'', Lit ''stacks''], Session, handleListStacks),
      (''GET'', [Lit ''api'', Lit ''v1'', Lit ''containers''], Session, handleListContainers),
      (''GET'', [Lit ''api'', Lit ''v1'', Lit ''containers'', AnyID], Session, handleGetContainer),
      (''GET'', [Lit ''api'', Lit ''v1'', Lit ''containers'', AnyID, Lit ''releases''], Session, handleContainerReleases),
      (''POST'', [Lit ''api'', Lit ''v1'', Lit ''containers'', AnyID, Lit ''update''], Admin, handleRequestUpdate),
      (''GET'', [Lit ''api'', Lit ''v1'', Lit ''containers'', AnyID, Lit ''update'', Lit ''status''], Session, handleUpdateStatus),
      (''POST'', [Lit ''api'', Lit ''v1'', Lit ''containers'', AnyID, Lit ''pin''], Admin, handleSetPin),
      (''GET'', [Lit ''api'', Lit ''v1'', Lit ''updates''], Session, handleListUpdates),
      (''POST'', [Lit ''api'', Lit ''v1'', Lit ''check''], Admin, handleTriggerCheck),
      (''GET'', [Lit ''api'', Lit ''v1'', Lit ''check''], Session, handleCheckStatus),
      (''GET'', [Lit ''api'', Lit ''v1'', Lit ''selfupdate''], Session, handleSelfUpdate),
      (''POST'', [Lit ''api'', Lit ''v1'', Lit ''selfupdate'', Lit ''check''], Admin, handleCheckSelfUpdate),
      (''GET'', [Lit ''api'', Lit ''v1'', Lit ''selfupdate'', Lit ''run''], Session, handleSelfUpdateRun),
      (''POST'', [Lit ''api'', Lit ''v1'', Lit ''selfupdate'', Lit ''apply''], Admin, handleApplySelfUpdate),
      (''GET'', [Lit ''api'', Lit ''v1'', Lit ''events''], Session, handleListEvents),
      (''GET'', [Lit ''api'', Lit ''v1'', Lit ''settings''], Admin, handleGetSettings),
      (''PUT'', [Lit ''api'', Lit ''v1'', Lit ''settings''], Admin, handlePutSettings),
      (''GET'', [Lit ''api'', Lit ''v1'', Lit ''auth'', Lit ''settings''], Admin, handleGetAuthSettings),
      (''PUT'', [Lit ''api'', Lit ''v1'', Lit ''auth'', Lit ''settings''], Admin, handlePutAuthSettings),
      (''GET'', [Lit ''api'', Lit ''v1'', Lit ''users''], Admin, handleListUsers),
      (''POST'', [Lit ''api'', Lit ''v1'', Lit ''users''], Admin, handleCreateUser),
      (''PATCH'', [Lit ''api'', Lit ''v1'', Lit ''users'', AnyID], Admin, handleUpdateUser),
      (''DELETE'', [Lit ''api'', Lit ''v1'', Lit ''users'', AnyID], Admin, handleDeleteUser)]"

fun matchSegs :: "segment list \<Rightarrow> string list \<Rightarrow> string option" where
  "matchSegs [] [] = Some []"
| "matchSegs (Lit l # ps) (s # ss) = (if l = s then matchSegs ps ss else None)"
| "matchSegs (AnyID # ps) (s # ss) = (if s = [] then None else map_option (\<lambda>_. s) (matchSegs ps ss))"
| "matchSegs _ _ = None"

definition methodMatches :: "string \<Rightarrow> string \<Rightarrow> bool" where
  "methodMatches pat m \<longleftrightarrow> m = pat \<or> pat = ''GET'' \<and> m = ''HEAD''"

definition pathSegs :: "string \<Rightarrow> string list" where
  "pathSegs p = splitOn CHR ''/'' (trimPrefix p ''/'')"

definition matchRoute :: "httpRequest \<Rightarrow> ('c, 'l) route \<Rightarrow> string option" where
  "matchRoute r rt =
     (let (m, pat, _, _) = rt in
      if methodMatches m (rq_method r) then matchSegs pat (pathSegs (rq_path r)) else None)"

text \<open>No two patterns match the same request unless one is more specific, and the table lists that one
  first; so the first match is the mux's choice.\<close>

definition findRoute :: "httpRequest \<Rightarrow> ('c, 'l) route list \<Rightarrow> (string \<times> access \<times> ('c, 'l) handler) option" where
  "findRoute r rts =
     (case find (\<lambda>rt. matchRoute r rt \<noteq> None) rts of
        None \<Rightarrow> None
      | Some rt \<Rightarrow> Some (the (matchRoute r rt), fst (snd (snd rt)), snd (snd (snd rt))))"

section \<open>Middleware\<close>

definition isMutating :: "string \<Rightarrow> bool" where
  "isMutating m \<longleftrightarrow> m \<in> set [''POST'', ''PUT'', ''PATCH'', ''DELETE'']"

definition requireSession :: "('c, 'l) handler \<Rightarrow> ('c, 'l) handler" where
  "requireSession next X r s =
     (if isMutating (rq_method r) \<and> rq_header r ''X-Requested-With'' \<noteq> ''whatsnewdock''
      then (writeError 403 ''missing CSRF header'', s)
      else (case rq_cookie r sessionCookie of
              None \<Rightarrow> (writeError 401 ''unauthorized'', s)
            | Some v \<Rightarrow>
                if v = [] then (writeError 401 ''unauthorized'', s)
                else (case ValidateSession X v of
                        Inl _ \<Rightarrow> (writeError 401 ''unauthorized'', s)
                      | Inr c \<Rightarrow> next X (r\<lparr>rq_claims := Some c\<rparr>) s)))"

definition requireAdmin :: "('c, 'l) handler \<Rightarrow> ('c, 'l) handler" where
  "requireAdmin next =
     requireSession (\<lambda>X r s.
       case rq_claims r of
         None \<Rightarrow> (writeError 403 ''admin role required'', s)
       | Some u \<Rightarrow> if cl_role u \<noteq> RoleAdmin then (writeError 403 ''admin role required'', s) else next X r s)"

definition guarded :: "access \<Rightarrow> ('c, 'l) handler \<Rightarrow> ('c, 'l) handler" where
  "guarded a h = (case a of Anyone \<Rightarrow> h | Session \<Rightarrow> requireSession h | Admin \<Rightarrow> requireAdmin h)"

definition fontStyleHost :: string where "fontStyleHost = ''https://fonts.googleapis.com''"
definition fontFileHost :: string where "fontFileHost = ''https://fonts.gstatic.com''"

definition quoted :: "string \<Rightarrow> string" where
  "quoted s = CHR 0x27 # s @ [CHR 0x27]"

definition contentPolicy :: string where
  "contentPolicy = ''default-src '' @ quoted ''self'' @ ''; img-src '' @ quoted ''self'' @ '' data:; ''
     @ ''style-src '' @ quoted ''self'' @ '' '' @ quoted ''unsafe-inline'' @ '' '' @ fontStyleHost @ ''; ''
     @ ''font-src '' @ quoted ''self'' @ '' '' @ fontFileHost @ ''; ''
     @ ''script-src '' @ quoted ''self'' @ ''; connect-src '' @ quoted ''self''
     @ ''; frame-ancestors '' @ quoted ''none''"

definition defensiveHeaders :: "(string \<times> string) list" where
  "defensiveHeaders = [(''X-Content-Type-Options'', ''nosniff''), (''X-Frame-Options'', ''DENY''),
     (''Referrer-Policy'', ''no-referrer''), (''Content-Security-Policy'', contentPolicy)]"

definition securityHeaders :: "httpResponse \<Rightarrow> httpResponse" where
  "securityHeaders resp = resp\<lparr>rs_headers := defensiveHeaders @ rs_headers resp\<rparr>"

text \<open>The embedded frontend: what is under \<open>/api/\<close> and not a route is not found, a path that names a
  file is that file, anything else is the index page.  The file server is an argument.\<close>

definition spaHandler :: "(string \<Rightarrow> bool) \<Rightarrow> (string \<Rightarrow> httpResponse) \<Rightarrow> httpRequest \<Rightarrow> httpResponse" where
  "spaHandler exists fileServer r =
     (if hasPrefix (rq_path r) ''/api/''
      then \<lparr>rs_status = 404, rs_headers = [(''Content-Type'', ''text/plain; charset=utf-8''), (''X-Content-Type-Options'', ''nosniff'')],
        rs_cookies = [], rs_body = Some (TextBody (''404 page not found'' @ [CHR 0x0A]))\<rparr>
      else
        let path = (let p = trimPrefix (rq_path r) ''/'' in if p = [] then ''index.html'' else p)
        in if \<not> exists path then fileServer ''/'' else fileServer (rq_path r))"

text \<open>\<open>mux.ServeHTTP\<close> under the middleware.  The request comes in without claims and path values.\<close>

definition dispatch ::
  "('c, 'l) route list \<Rightarrow> (httpRequest \<Rightarrow> httpResponse) \<Rightarrow> ('c, 'l) handler" where
  "dispatch rts spa X r0 s =
     (let r = r0\<lparr>rq_claims := None, rq_id := []\<rparr> in
      case findRoute r rts of
        None \<Rightarrow> (spa r, s)
      | Some (i, a, h) \<Rightarrow> guarded a h X (r\<lparr>rq_id := i\<rparr>) s)"

definition serve :: "(httpRequest \<Rightarrow> httpResponse) \<Rightarrow> ('c, 'l) handler" where
  "serve spa X r s = (let (resp, s') = dispatch routes spa X r s in (securityHeaders resp, s'))"

end
