(* ===== verification/ServerDemo.thy ===== *)
theory ServerDemo
  imports Access
begin

text \<open>
  A small concrete server for the witnesses: one administrator, one agent and one direct endpoint, each
  host with a container; stand-ins for the libraries that meet their documented behaviour; and requests
  against it.  Docker clients and limiters are numbers.
\<close>

definition demoNow :: gotime where "demoNow = 1000 * second"

definition demoClaims :: claims where
  "demoClaims = \<lparr>cl_username = ''ann'', cl_role = RoleAdmin, cl_source = ''local'', cl_issuedAt = demoNow,
     cl_expiresAt = demoNow + 24 * hour, cl_issuer = ''whatsnewdock''\<rparr>"

definition demoOIDC :: claims where
  "demoOIDC = demoClaims\<lparr>cl_username := ''bob'', cl_role := RoleViewer, cl_source := ''oidc''\<rparr>"

definition demoSign :: "string \<Rightarrow> claims \<Rightarrow> err + string" where
  "demoSign k c =
     (if k \<noteq> ''key'' then Inl (errors_new ''unknown key'')
      else if c = demoClaims then Inr ''ann-token''
      else if c = demoOIDC then Inr ''bob-token''
      else Inl (errors_new ''not signed here''))"

definition demoVerify :: "gotime \<Rightarrow> string \<Rightarrow> (jwtAlg \<Rightarrow> err + string) \<Rightarrow> err + claims" where
  "demoVerify now tok f =
     (if f HMAC \<noteq> Inr ''key'' then Inl (errors_new ''signature is invalid'')
      else if demoNow + 24 * hour \<le> now then Inl (errors_new ''token is expired'')
      else if tok = ''ann-token'' then Inr demoClaims
      else if tok = ''bob-token'' then Inr demoOIDC
      else Inl (errors_new ''token is malformed''))"

definition demoCtx :: "(nat, nat) ctx" where
  "demoCtx = \<lparr>x_now = demoNow, x_ids = (\<lambda>n. ''id'' @ natText n), x_salt = [], x_cfg = Default,
     x_version = ''1.0.0'', x_docker = Some 0, x_selfID = ''0123456789ab'', x_secret = ''key'',
     hashToken = (\<lambda>t. ''#'' @ t), bcryptHash = (\<lambda>salt pw. Inr (''$'' @ pw)), bcryptOK = (\<lambda>h pw. h = ''$'' @ pw),
     jwtSign = demoSign, jwtParse = demoVerify,
     newProvider = (\<lambda>_. None), authCodeURL = (\<lambda>c st. ol_issuer c @ ''/authorize?state='' @ st),
     oauthExchange = (\<lambda>c code. Inr (Some code)), verifyIDToken = (\<lambda>c raw. Inr ''subject''),
     tokenClaims = (\<lambda>raw. Inr ((\<lambda>_. None)(''preferred_username'' \<mapsto> ''bob''))),
     newLimiter = (\<lambda>_. 5), limiterAllow = (\<lambda>_ n. (n > 0, n - 1)),
     dockerNew = (\<lambda>c. if dc_host c = [] then Inl (errors_new ''create docker client: no host'') else Inr (length (dc_host c))),
     x_stat = (\<lambda>p. if hasPrefix p ''/certs/'' then Inr False else Inl (errors_new ''no such file or directory'')),
     x_parseURL = (\<lambda>u. if u = ''tcp://10.0.0.5:2376''
                       then Inr \<lparr>ur_scheme = ''tcp'', ur_host = ''10.0.0.5:2376'', ur_path = [], ur_hostname = ''10.0.0.5''\<rparr>
                       else if hasPrefix u ''/'' then Inr \<lparr>ur_scheme = [], ur_host = [], ur_path = u, ur_hostname = []\<rparr>
                       else Inl (errors_new ''parse'')),
     x_parseIP = (\<lambda>h. Some h), x_loopbackIP = (\<lambda>h. hasPrefix h ''127.''), x_inCIDR = (\<lambda>_. None),
     selfImage = (\<lambda>_ _. Inr (''ghcr.io/o/wnd:1'', ''sha256:a'')), dockerPing = (\<lambda>_. None),
     dockerInfo = (\<lambda>_. Inr (empty_server\<lparr>sv_name := ''nas''\<rparr>)),
     x_parseNamed = (\<lambda>_. Inl (errors_new ''invalid reference'')), x_hostPath = (\<lambda>_. Inl (errors_new ''parse'')),
     latestRelease = (\<lambda>_. Inr None), x_manifestUpToDate = (\<lambda>_ _ _ _. Inr True),
     encodeAuth = (\<lambda>ra. asr_mode ra), decodeAuth = (\<lambda>_. Inl (errors_new ''unexpected end of JSON input''))\<rparr>"

definition demoAgent :: server where
  "demoAgent = empty_server\<lparr>sv_id := ''srv-a'', sv_name := ''nas'', sv_kind := ServerAgent, sv_status := ''online'',
     sv_lastSeen := demoNow, sv_role := SwarmNone, sv_tokenHash := ''#wnd_1'', sv_created := 1, sv_updated := 1\<rparr>"

definition demoDirect :: server where
  "demoDirect = empty_server\<lparr>sv_id := ''srv-d'', sv_name := ''rack'', sv_kind := ServerDirect, sv_status := ''online'',
     sv_lastSeen := demoNow, sv_role := SwarmNone, sv_dockerHost := ''tcp://10.0.0.5:2376'', sv_tlsCA := ''/certs/ca.pem'',
     sv_created := 1, sv_updated := 1\<rparr>"

definition demoContainer :: "string \<Rightarrow> string \<Rightarrow> container" where
  "demoContainer i srv = empty_container\<lparr>ct_id := i, ct_server := srv, ct_dockerID := ''d-'' @ i, ct_name := ''web'',
     ct_image := ''nginx:1.25'', ct_imageName := ''docker.io/library/nginx'', ct_imageTag := ''1.25'', ct_running := True\<rparr>"

definition demoUpdate :: "string \<Rightarrow> updateRow" where
  "demoUpdate i = \<lparr>up_id = ''u-'' @ i, up_container = i, up_repoKey = ''k'', up_currentTag = ''1.25'', up_latestTag = ''1.26'',
     up_versionsBehind = 1, up_source = ''github'', up_sourceURL = [], up_checkedAt = 1\<rparr>"

definition demoCommand :: command where
  "demoCommand = \<lparr>cm_id = ''cmd1'', cm_server = ''srv-a'', cm_kind = ''update'', cm_container = ''d-c1'',
     cm_target = ''docker.io/library/nginx:1.26'', cm_status = ''pending'', cm_result = [], cm_created = 1, cm_updated = 1\<rparr>"

definition demoDB :: db where
  "demoDB = empty_db\<lparr>servers := [demoAgent, demoDirect],
     containers := [demoContainer ''c1'' ''srv-a'', demoContainer ''c2'' ''srv-d''],
     updates := [demoUpdate ''c1'', demoUpdate ''c2''],
     users := [\<lparr>us_id = ''u1'', us_username = ''ann'', us_role = RoleAdmin, us_hash = ''$correct horse'', us_created = 1\<rparr>],
     commands := [demoCommand]\<rparr>"

definition demoRun :: selfUpdateRun where
  "demoRun = \<lparr>sr_id = [], sr_started = 0, sr_phase = [], sr_kind = KindNone, sr_target = [], sr_message = [],
     sr_error = [], sr_agents = [], sr_finished = True\<rparr>"

definition demoApp :: "(nat, nat) app" where
  "demoApp = \<lparr>ap_db = demoDB, ap_localID = [],
     ap_auth = (wc_auth Default)\<lparr>at_mode := ''both'', at_oidc := (at_oidc (wc_auth Default))\<lparr>oc_issuerURL := ''https://id''\<rparr>\<rparr>,
     ap_updates = wc_updates Default, ap_self = wc_selfUpdate Default, ap_githubToken = [], ap_gitlabToken = [],
     ap_oidc = None, ap_limiter = newLoginLimiter demoNow, ap_jobs = (\<lambda>_. None),
     ap_checks = \<lparr>kr_running = False, kr_trigger = [], kr_startedAt = 0, kr_finishedAt = 0, kr_err = []\<rparr>,
     ap_endpoints = (\<lambda>_. None), ap_checker = \<lparr>ck_result = no_result\<rparr>,
     ap_tracker = \<lparr>tr_runs = (\<lambda>_. demoRun), tr_current = None\<rparr>, ap_nextRun = 0, ap_tasks = []\<rparr>"

definition noBody :: body where
  "noBody = (let e = errors_new ''EOF'' in \<lparr>bd_login = Inl e, bd_server = Inl e, bd_pinned = Inl e, bd_force = Inl e,
     bd_settings = Inl e, bd_user = Inl e, bd_userPatch = Inl e, bd_authSettings = Inl e, bd_report = Inl e, bd_result = Inl e\<rparr>)"

definition demoRequest :: "string \<Rightarrow> string \<Rightarrow> httpRequest" where
  "demoRequest m p = \<lparr>rq_method = m, rq_path = p,
     rq_header = (\<lambda>h. if h = ''X-Requested-With'' then ''whatsnewdock'' else []),
     rq_cookie = (\<lambda>_. None), rq_query = (\<lambda>_. []), rq_remoteAddr = ''10.0.0.9:40000'', rq_tls = False,
     rq_contentLength = 0, rq_body = noBody, rq_id = [], rq_claims = None\<rparr>"

definition asAdmin :: "httpRequest \<Rightarrow> httpRequest" where
  "asAdmin r = r\<lparr>rq_cookie := (\<lambda>_. None)(sessionCookie \<mapsto> ''ann-token'')\<rparr>"

definition asAgent :: "httpRequest \<Rightarrow> httpRequest" where
  "asAgent r = r\<lparr>rq_header := (\<lambda>h. if h = ''Authorization'' then ''Bearer wnd_1'' else [])\<rparr>"

definition demoSpa :: "httpRequest \<Rightarrow> httpResponse" where
  "demoSpa r = \<lparr>rs_status = 200, rs_headers = [], rs_cookies = [], rs_body = None\<rparr>"

lemma demo_session [simp]: "sessionOf demoCtx (asAdmin r) = Some demoClaims"
  by (simp add: sessionOf_def asAdmin_def ValidateSession_def demoCtx_def demoVerify_def demoNow_def)

lemma demo_bearer [simp]: "serverFromBearer demoCtx (asAgent r) (ap_db demoApp) = Inr (demoAgent\<lparr>sv_tokenHash := []\<rparr>)"
  by (simp add: serverFromBearer_def asAgent_def trimPrefix_def trimSpace_def isSpace_def demoCtx_def demoApp_def demoDB_def
      GetServerByTokenHash_def demoAgent_def scanServer_def empty_server_def empty_db_def)

end
