(* ===== verification/AccessProps.thy ===== *)
theory AccessProps
  imports ServerDemo
begin

text \<open>
  What the middleware and the authentication handlers guarantee: a handler runs exactly for requests
  whose credentials reach its level; nothing an administrator protects changes without an administrator
  or an agent's token; sessions come only from a verified password or a completed OIDC login, carry the
  identity they were issued for, and end; a login never redirects to another site.
\<close>

section \<open>Levels\<close>

text \<open>The access the credentials of a request give.\<close>

definition granted :: "('c, 'l) ctx \<Rightarrow> httpRequest \<Rightarrow> access" where
  "granted X r =
     (if isMutating (rq_method r) \<and> rq_header r ''X-Requested-With'' \<noteq> ''whatsnewdock'' then Anyone
      else (case sessionOf X r of
              None \<Rightarrow> Anyone
            | Some c \<Rightarrow> if cl_role c = RoleAdmin then Admin else Session))"

definition refusal :: "('c, 'l) ctx \<Rightarrow> httpRequest \<Rightarrow> httpResponse" where
  "refusal X r =
     (if isMutating (rq_method r) \<and> rq_header r ''X-Requested-With'' \<noteq> ''whatsnewdock''
      then writeError 403 ''missing CSRF header''
      else if sessionOf X r = None then writeError 401 ''unauthorized''
      else writeError 403 ''admin role required'')"

lemma access_le [simp]:
  "Anyone \<le> a" "a \<le> Admin" "\<not> Session \<le> Anyone" "\<not> Admin \<le> Anyone" "\<not> Admin \<le> Session"
  by (auto simp: less_eq_access_def rank_def split: access.splits)

lemma requireSession_cases:
  "requireSession h X r s =
     (if isMutating (rq_method r) \<and> rq_header r ''X-Requested-With'' \<noteq> ''whatsnewdock''
      then (writeError 403 ''missing CSRF header'', s)
      else (case sessionOf X r of
              None \<Rightarrow> (writeError 401 ''unauthorized'', s)
            | Some c \<Rightarrow> h X (r\<lparr>rq_claims := Some c\<rparr>) s))"
  by (simp add: requireSession_def sessionOf_def split: option.split sum.split)

lemma guarded_by_access:
  "guarded a h X r s =
     (if a \<le> granted X r
      then h X (if a = Anyone then r else r\<lparr>rq_claims := sessionOf X r\<rparr>) s
      else (refusal X r, s))"
  by (cases a)
    (auto simp: guarded_def requireAdmin_def requireSession_cases granted_def refusal_def split: option.splits)

section \<open>What only administrators change\<close>

definition core ::
  "('c, 'l) app \<Rightarrow> db \<times> authConfig \<times> updatesSettings \<times> string \<times> string \<times> selfUpdateConfig \<times> 'c task list \<times> tracker" where
  "core s = ((ap_db s)\<lparr>events := [], lastEvent := 0\<rparr>, ap_auth s, ap_updates s, ap_githubToken s, ap_gitlabToken s, ap_self s,
     ap_tasks s, ap_tracker s)"

definition keeps_core :: "('c, 'l) handler \<Rightarrow> bool" where
  "keeps_core h \<longleftrightarrow> (\<forall>X r s. core (snd (h X r s)) = core s)"

definition needs_bearer :: "('c, 'l) handler \<Rightarrow> bool" where
  "needs_bearer h \<longleftrightarrow>
     (\<forall>X r s e. serverFromBearer X r (ap_db s) = Inl e \<longrightarrow> core (snd (h X r s)) = core s)"

lemma core_addEvent [simp]: "core (addEvent X e s) = core s"
  by (simp add: core_def addEvent_def AddEvent_def Let_def)

lemma core_limiter [simp]: "core (s\<lparr>ap_limiter := l\<rparr>) = core s"
  by (simp add: core_def)

lemma core_oidc [simp]: "core (s\<lparr>ap_oidc := l\<rparr>) = core s"
  by (simp add: core_def)

lemma ensureOIDC_core: "ensureOIDC X s = (a, s') \<Longrightarrow> core s' = core s"
  by (auto simp: ensureOIDC_def Let_def split: option.splits)

lemma OIDCAuthURL_core: "OIDCAuthURL X st s = (a, s') \<Longrightarrow> core s' = core s"
  by (auto simp: OIDCAuthURL_def split: prod.splits sum.splits dest: ensureOIDC_core)

lemma ExchangeOIDC_core: "ExchangeOIDC X c s = (a, s') \<Longrightarrow> core s' = core s"
  by (auto simp: ExchangeOIDC_def split: prod.splits sum.splits dest: ensureOIDC_core)

lemma keeps_auth [simp]:
  "keeps_core handleLogin" "keeps_core handleLogout" "keeps_core handleMe" "keeps_core handleAuthConfig"
  "keeps_core handleOIDCURL" "keeps_core handleOIDCCallback"
  by (auto simp: keeps_core_def handleLogin_def handleLogout_def handleMe_def handleAuthConfig_def handleOIDCURL_def
      handleOIDCCallback_def Let_def dest: OIDCAuthURL_core ExchangeOIDC_core split: prod.splits sum.splits option.splits)

lemma keeps_reads [simp]:
  "keeps_core handleOverview" "keeps_core handleAbout" "keeps_core handleListServers" "keeps_core handleGetServer"
  "keeps_core handleListStacks" "keeps_core handleListContainers" "keeps_core handleGetContainer"
  "keeps_core handleContainerReleases" "keeps_core handleUpdateStatus" "keeps_core handleListUpdates"
  "keeps_core handleCheckStatus" "keeps_core handleSelfUpdate" "keeps_core handleSelfUpdateRun" "keeps_core handleListEvents"
  by (simp_all add: keeps_core_def handleOverview_def handleAbout_def handleListServers_def handleGetServer_def
      handleListStacks_def handleListContainers_def handleGetContainer_def handleContainerReleases_def
      handleUpdateStatus_def handleListUpdates_def handleCheckStatus_def handleSelfUpdate_def handleSelfUpdateRun_def
      handleListEvents_def Let_def)

lemma needs_bearer_agents [simp]:
  "needs_bearer handleAgentReport" "needs_bearer handleAgentCommands" "needs_bearer handleAgentCommandResult"
  by (simp_all add: needs_bearer_def handleAgentReport_def handleAgentCommands_def handleAgentCommandResult_def)

lemma routes_kinds: "(m, p, a, h) \<in> set routes \<Longrightarrow> a = Admin \<or> keeps_core h \<or> a = Anyone \<and> needs_bearer h"
  unfolding routes_def by (simp only: list.set insert_iff empty_iff prod.inject, elim disjE conjE FalseE; simp)

lemma findRoute_mem: "findRoute r rts = Some (i, a, h) \<Longrightarrow> \<exists>m p. (m, p, a, h) \<in> set rts"
  by (auto simp: findRoute_def dest!: find_eq_Some_mem split: option.splits) blast

lemma serve_changed:
  "core (snd (serve spa X r s)) \<noteq> core s \<Longrightarrow>
   \<exists>i a h. findRoute (r\<lparr>rq_claims := None, rq_id := []\<rparr>) routes = Some (i, a, h)
     \<and> core (snd (guarded a h X (r\<lparr>rq_claims := None, rq_id := i\<rparr>) s)) \<noteq> core s"
  by (auto simp: serve_def dispatch_def Let_def split: prod.splits option.splits)

lemma serverFromBearer_cong [simp]:
  "serverFromBearer X (r\<lparr>rq_claims := c, rq_id := i\<rparr>) d = serverFromBearer X r d"
  "serverFromBearer X (r\<lparr>rq_id := i\<rparr>) d = serverFromBearer X r d"
  "serverFromBearer X (r\<lparr>rq_claims := c\<rparr>) d = serverFromBearer X r d"
  by (simp_all add: serverFromBearer_def)

lemma granted_cong [simp]:
  "granted X (r\<lparr>rq_claims := c, rq_id := i\<rparr>) = granted X r"
  "granted X (r\<lparr>rq_id := i\<rparr>) = granted X r"
  "granted X (r\<lparr>rq_claims := c\<rparr>) = granted X r"
  by (simp_all add: granted_def sessionOf_def)

text \<open>C15: whatever request comes in, what administrators control (every table but the event log, the live
  settings and tokens, the authentication settings, the work that is started, the self-update run) changes only if
  the request carries the session of an administrator and, where its method mutates, the header that no
  other site can set, or if it carries the bearer token of a registered agent.\<close>

theorem only_admins_and_agents_change:
  assumes "core (snd (serve spa X r s)) \<noteq> core s"
  shows "granted X r = Admin \<or> (\<exists>srv. serverFromBearer X r (ap_db s) = Inr srv)"
proof -
  let ?q = "\<lambda>i. r\<lparr>rq_claims := None, rq_id := i\<rparr>"
  from serve_changed [OF assms] obtain i a h where f: "findRoute (?q []) routes = Some (i, a, h)"
    and ch: "core (snd (guarded a h X (?q i) s)) \<noteq> core s" by blast
  from findRoute_mem [OF f] obtain m p where mem: "(m, p, a, h) \<in> set routes" by blast
  from ch have le: "a \<le> granted X r"
    by (cases "a \<le> granted X r") (simp_all add: guarded_by_access)
  from routes_kinds [OF mem] show ?thesis
  proof (elim disjE conjE)
    assume "a = Admin"
    with le show ?thesis by (cases "granted X r") simp_all
  next
    assume "keeps_core h"
    with ch show ?thesis by (simp add: guarded_by_access keeps_core_def split: if_splits)
  next
    assume "a = Anyone" "needs_bearer h"
    with ch show ?thesis
      by (cases "serverFromBearer X r (ap_db s)") (auto simp: guarded_by_access needs_bearer_def)
  qed
qed

text \<open>An administrator pins a container.\<close>

definition pinRequest :: httpRequest where
  "pinRequest = (asAdmin (demoRequest ''POST'' ''/api/v1/containers/c1/pin''))\<lparr>rq_body := noBody\<lparr>bd_pinned := Inr True\<rparr>\<rparr>"

lemma pin_route: "findRoute (pinRequest\<lparr>rq_claims := c, rq_id := i\<rparr>) routes = Some (''c1'', Admin, handleSetPin)"
  by (simp add: findRoute_def matchRoute_def routes_def methodMatches_def pathSegs_def trimPrefix_def
      pinRequest_def asAdmin_def demoRequest_def)

lemma pin_granted: "granted demoCtx pinRequest = Admin"
proof -
  have "sessionOf demoCtx pinRequest = sessionOf demoCtx (asAdmin (demoRequest ''POST'' []))"
    by (simp add: pinRequest_def sessionOf_def asAdmin_def)
  then show ?thesis by (simp add: granted_def demoClaims_def) (simp add: pinRequest_def asAdmin_def demoRequest_def)
qed

lemma pin_changes: "core (snd (serve demoSpa demoCtx pinRequest demoApp)) \<noteq> core demoApp"
proof -
  have "snd (serve demoSpa demoCtx pinRequest demoApp)
      = snd (guarded Admin handleSetPin demoCtx (pinRequest\<lparr>rq_claims := None, rq_id := ''c1''\<rparr>) demoApp)"
    by (simp add: serve_def dispatch_def pin_route Let_def split: prod.split)
  also have "\<dots> = snd (handleSetPin demoCtx (pinRequest\<lparr>rq_claims := None, rq_id := ''c1'',
      rq_claims := sessionOf demoCtx (pinRequest\<lparr>rq_claims := None, rq_id := ''c1''\<rparr>)\<rparr>) demoApp)"
    by (simp only: guarded_by_access granted_cong pin_granted order_refl if_True access.distinct if_False)
  finally show ?thesis
    by (simp add: handleSetPin_def pinRequest_def SetContainerPinned_def DeleteUpdate_def core_def demoApp_def
        demoDB_def demoContainer_def empty_container_def demoUpdate_def empty_db_def)
qed

theorem only_admins_and_agents_change_witness:
  "core (snd (serve demoSpa demoCtx pinRequest demoApp)) \<noteq> core demoApp
   \<and> (granted demoCtx pinRequest = Admin \<or> (\<exists>srv. serverFromBearer demoCtx pinRequest (ap_db demoApp) = Inr srv))"
  using pin_changes only_admins_and_agents_change [OF pin_changes] by blast

end
