(* ===== verification/AuthProps.thy ===== *)
theory AuthProps
  imports AccessProps
begin

text \<open>
  Properties of sessions and logins: a session comes only from a verified password or a completed OIDC
  exchange and names the identity that was verified; it is read back until it expires and never after;
  a login never sends the browser to another site.
\<close>

section \<open>Round trip of sessions\<close>

text \<open>What the code relies on from the JWT library: a token that was signed verifies under the key it was
  signed with until its expiry, and neither later nor under another key.\<close>

definition jwt_laws :: "('c, 'l) ctx \<Rightarrow> bool" where
  "jwt_laws X \<longleftrightarrow>
     (\<forall>k c tok now f. jwtSign X k c = Inr tok \<longrightarrow>
        (if f HMAC = Inr k \<and> now < cl_expiresAt c then jwtParse X now tok f = Inr c
         else \<exists>e. jwtParse X now tok f = Inl e))"

definition sessionClaims :: "('c, 'l) ctx \<Rightarrow> authConfig \<Rightarrow> string \<Rightarrow> string \<Rightarrow> string \<Rightarrow> claims" where
  "sessionClaims X cfg username role src =
     \<lparr>cl_username = username, cl_role = role, cl_source = src, cl_issuedAt = numericDate (x_now X),
      cl_expiresAt = numericDate (x_now X + (if at_sessionTTL cfg \<le> 0 then 24 * hour else at_sessionTTL cfg)),
      cl_issuer = ''whatsnewdock''\<rparr>"

lemma IssueSession_eq: "IssueSession X cfg u role src = jwtSign X (x_secret X) (sessionClaims X cfg u role src)"
  by (simp add: IssueSession_def sessionClaims_def Let_def)

text \<open>A session that was issued is read back with exactly the identity it was issued for, at any time
  before its expiry; from then on, or after the secret has changed, it is refused.\<close>

theorem session_roundtrip:
  assumes "jwt_laws X" and "IssueSession X cfg username role src = Inr tok"
  shows "(\<forall>t. t < cl_expiresAt (sessionClaims X cfg username role src) \<longrightarrow>
            ValidateSession (X\<lparr>x_now := t\<rparr>) tok = Inr (sessionClaims X cfg username role src))
    \<and> (\<forall>t. cl_expiresAt (sessionClaims X cfg username role src) \<le> t \<longrightarrow>
            (\<exists>e. ValidateSession (X\<lparr>x_now := t\<rparr>) tok = Inl e))
    \<and> (\<forall>t k. k \<noteq> x_secret X \<longrightarrow> (\<exists>e. ValidateSession (X\<lparr>x_now := t, x_secret := k\<rparr>) tok = Inl e))"
proof -
  let ?c = "sessionClaims X cfg username role src"
  have law: "if f HMAC = Inr (x_secret X) \<and> now < cl_expiresAt ?c then jwtParse X now tok f = Inr ?c
      else \<exists>e. jwtParse X now tok f = Inl e" for now f
    using assms unfolding jwt_laws_def IssueSession_eq by blast
  show ?thesis
    using law [of "\<lambda>alg. if alg \<noteq> HMAC then Inl (errors_new ''unexpected signing method'') else Inr (x_secret X)"]
      law [of "\<lambda>alg. if alg \<noteq> HMAC then Inl (errors_new ''unexpected signing method'') else Inr k" for k]
    by (auto simp: ValidateSession_def)
qed

section \<open>Where sessions come from\<close>

text \<open>A response that sets a session cookie to something.\<close>

definition gives_session :: "httpResponse \<Rightarrow> string \<Rightarrow> bool" where
  "gives_session resp token \<longleftrightarrow>
     token \<noteq> [] \<and> (\<exists>c\<in>set (rs_cookies resp). co_name c = sessionCookie \<and> co_value c = token)"

lemma gives_session_simps [simp]:
  "\<not> gives_session (writeJSON st j) t"
  "\<not> gives_session (writeError st m) t"
  "\<not> gives_session (redirectTo X r u) t"
  "\<not> gives_session okJSON t"
  "gives_session (securityHeaders resp) t = gives_session resp t"
  "gives_session (setCookie k resp) t \<longleftrightarrow>
     t \<noteq> [] \<and> co_name k = sessionCookie \<and> co_value k = t \<or> gives_session resp t"
  by (auto simp: gives_session_def writeJSON_def writeError_def redirectTo_def Let_def okJSON_def securityHeaders_def setCookie_def)

lemma gives_session_cookies [simp]:
  "gives_session (setSessionCookie X r s tok resp) t \<longleftrightarrow> t \<noteq> [] \<and> tok = t \<or> gives_session resp t"
  "gives_session (clearCookie n resp) t \<longleftrightarrow> gives_session resp t"
  by (auto simp: setSessionCookie_def clearCookie_def newCookie_def)

definition no_session :: "('c, 'l) handler \<Rightarrow> bool" where
  "no_session h \<longleftrightarrow> (\<forall>X r s t. \<not> gives_session (fst (h X r s)) t)"

text \<open>Handlers are trees of conditions over plain answers; the rules walk down such a tree.\<close>

lemma plain_rules:
  "(b \<Longrightarrow> \<not> gives_session (fst x) t) \<Longrightarrow> (\<not> b \<Longrightarrow> \<not> gives_session (fst y) t) \<Longrightarrow> \<not> gives_session (fst (if b then x else y)) t"
  "(\<And>e. q = Inl e \<Longrightarrow> \<not> gives_session (fst (f e)) t) \<Longrightarrow> (\<And>a. q = Inr a \<Longrightarrow> \<not> gives_session (fst (g a)) t) \<Longrightarrow>
   \<not> gives_session (fst (case q of Inl e \<Rightarrow> f e | Inr a \<Rightarrow> g a)) t"
  "(w = None \<Longrightarrow> \<not> gives_session (fst x) t) \<Longrightarrow> (\<And>a. w = Some a \<Longrightarrow> \<not> gives_session (fst (k a)) t) \<Longrightarrow>
   \<not> gives_session (fst (case w of None \<Rightarrow> x | Some a \<Rightarrow> k a)) t"
  "(\<And>a b. pr = (a, b) \<Longrightarrow> \<not> gives_session (fst (j a b)) t) \<Longrightarrow> \<not> gives_session (fst (case pr of (a, b) \<Rightarrow> j a b)) t"
  "\<not> gives_session resp t \<Longrightarrow> \<not> gives_session (fst (resp, st)) t"
  by (auto split: sum.split option.split prod.split)

lemma plain_responses:
  "(b \<Longrightarrow> \<not> gives_session x t) \<Longrightarrow> (\<not> b \<Longrightarrow> \<not> gives_session y t) \<Longrightarrow> \<not> gives_session (if b then x else y) t"
  "(\<And>e. \<not> gives_session (f e) t) \<Longrightarrow> (\<And>a. \<not> gives_session (g a) t) \<Longrightarrow> \<not> gives_session (case q of Inl e \<Rightarrow> f e | Inr a \<Rightarrow> g a) t"
  "\<not> gives_session x t \<Longrightarrow> (\<And>a. \<not> gives_session (k a) t) \<Longrightarrow> \<not> gives_session (case w of None \<Rightarrow> x | Some a \<Rightarrow> k a) t"
  by (auto split: sum.split option.split)

lemmas plain = allI plain_rules plain_responses gives_session_simps(1,2,4)

lemma no_session_cookies [simp]: "no_session handleLogout" "no_session handleOIDCURL"
  by (simp_all add: no_session_def handleLogout_def handleOIDCURL_def Let_def newCookie_def sessionCookie_def
      split: prod.split sum.split)

lemma patch_no_session:
  "patchRole i role s = (Some resp, s') \<Longrightarrow> \<not> gives_session resp t"
  "patchPassword X i pw s = (Some resp, s') \<Longrightarrow> \<not> gives_session resp t"
  by (auto simp: patchRole_def patchPassword_def split: if_splits sum.splits)

lemma no_session_updateUser [simp]: "no_session handleUpdateUser"
  by (auto simp: no_session_def handleUpdateUser_def dest: patch_no_session split: sum.split option.split prod.split)

lemma no_session_plain [simp]:
  "no_session handleMe" "no_session handleAuthConfig" "no_session handleAgentReport"
  "no_session handleAgentCommands" "no_session handleAgentCommandResult" "no_session handleOverview"
  "no_session handleAbout" "no_session handleListServers" "no_session handleGetServer"
  "no_session handleCreateServer" "no_session handleTestEndpoint" "no_session handleUpdateServer"
  "no_session handleDeleteServer" "no_session handleListStacks" "no_session handleListContainers"
  "no_session handleGetContainer" "no_session handleContainerReleases" "no_session handleRequestUpdate"
  "no_session handleUpdateStatus" "no_session handleSetPin" "no_session handleListUpdates"
  "no_session handleTriggerCheck" "no_session handleCheckStatus" "no_session handleSelfUpdate"
  "no_session handleCheckSelfUpdate" "no_session handleSelfUpdateRun" "no_session handleApplySelfUpdate"
  "no_session handleListEvents" "no_session handleGetSettings" "no_session handlePutSettings"
  "no_session handleGetAuthSettings" "no_session handlePutAuthSettings" "no_session handleListUsers"
  "no_session handleCreateUser" "no_session handleDeleteUser"
  unfolding no_session_def handleMe_def handleAuthConfig_def handleAgentReport_def handleAgentCommands_def
    handleAgentCommandResult_def handleOverview_def handleAbout_def handleListServers_def handleGetServer_def
    handleCreateServer_def handleTestEndpoint_def handleUpdateServer_def handleDeleteServer_def
    handleListStacks_def handleListContainers_def handleGetContainer_def handleContainerReleases_def
    handleRequestUpdate_def handleUpdateStatus_def handleSetPin_def handleListUpdates_def
    handleTriggerCheck_def handleCheckStatus_def handleSelfUpdate_def handleCheckSelfUpdate_def
    handleSelfUpdateRun_def handleApplySelfUpdate_def handleListEvents_def handleGetSettings_def
    handlePutSettings_def handleGetAuthSettings_def handlePutAuthSettings_def handleListUsers_def
    handleCreateUser_def handleDeleteUser_def createDirect_def createAgent_def testSpec_def
    reportEndpointCheck_def queueLocal_def queueAgent_def Let_def
  by (intro plain)+

lemma routes_sessions: "(m, p, a, h) \<in> set routes \<Longrightarrow>
    no_session h \<or> h = handleLogin \<and> a = Anyone \<or> h = handleOIDCCallback \<and> a = Anyone"
  unfolding routes_def by (simp only: list.set insert_iff empty_iff prod.inject, elim disjE conjE FalseE; simp)

text \<open>What a login has checked.\<close>

definition password_verified :: "('c, 'l) ctx \<Rightarrow> httpRequest \<Rightarrow> ('c, 'l) app \<Rightarrow> string \<Rightarrow> bool" where
  "password_verified X r s token \<longleftrightarrow>
     at_mode (ap_auth s) \<noteq> ''oidc''
   \<and> (\<exists>req u. bd_login (rq_body r) = Inr req \<and> u \<in> set (users (ap_db s)) \<and> us_username u = lr_username req
        \<and> bcryptOK X (us_hash u) (lr_password req)
        \<and> IssueSession X (ap_auth s) (us_username u) (us_role u) ''local'' = Inr token)"

definition oidc_verified :: "('c, 'l) ctx \<Rightarrow> httpRequest \<Rightarrow> ('c, 'l) app \<Rightarrow> string \<Rightarrow> bool" where
  "oidc_verified X r s token \<longleftrightarrow>
     (\<exists>v s1 name role. rq_cookie r ''wnd_oidc_state'' = Some v \<and> v \<noteq> [] \<and> rq_query r ''state'' = v
        \<and> ExchangeOIDC X (rq_query r ''code'') s = (Inr (name, role), s1)
        \<and> IssueSession X (ap_auth s1) name role ''oidc'' = Inr token)"

lemma AuthenticateLocal_Inr:
  "AuthenticateLocal X d n pw = Inr u \<Longrightarrow> u \<in> set (users d) \<and> us_username u = n \<and> bcryptOK X (us_hash u) pw"
  by (auto simp: AuthenticateLocal_def and_then_eq_Inr GetUserByUsername_def dest!: find_eq_Some_mem
      split: option.splits if_splits)

lemma handleLogin_session:
  "gives_session (fst (handleLogin X r s)) t \<Longrightarrow> password_verified X r s t"
  by (auto simp: handleLogin_def password_verified_def Let_def dest: AuthenticateLocal_Inr
      split: if_splits prod.splits sum.splits)

lemma orEmpty_nonempty: "orEmpty x = v \<Longrightarrow> v \<noteq> [] \<Longrightarrow> x = Some v"
  by (cases x) (auto simp: orEmpty_def)

lemma handleOIDCCallback_session:
  "gives_session (fst (handleOIDCCallback X r s)) t \<Longrightarrow> oidc_verified X r s t"
  by (auto simp: handleOIDCCallback_def oidc_verified_def Let_def dest: orEmpty_nonempty
      split: if_splits prod.splits sum.splits)

text \<open>C16: a session is earned: a response sets a session cookie only when the request carried the password of
  an existing user, or came back from the OIDC provider with the state this browser was given and a code
  the provider honours.  The session names exactly that user and the role on record.\<close>

theorem sessions_are_earned:
  assumes "gives_session (fst (serve spa X r s)) token" and "\<And>q. rs_cookies (spa q) = []"
  shows "password_verified X r s token \<or> oidc_verified X r s token"
proof -
  let ?q = "\<lambda>i. r\<lparr>rq_claims := None, rq_id := i\<rparr>"
  have "\<not> gives_session (spa q) token" for q by (simp add: gives_session_def assms(2))
  with assms(1) obtain i a h where f: "findRoute (?q []) routes = Some (i, a, h)"
    and g: "gives_session (fst (guarded a h X (?q i) s)) token"
    by (auto simp: serve_def dispatch_def Let_def split: prod.splits option.splits)
  have ref: "\<not> gives_session (refusal X q) token" for q by (simp add: refusal_def)
  from findRoute_mem [OF f] obtain m p where mem: "(m, p, a, h) \<in> set routes" by blast
  from routes_sessions [OF mem] show ?thesis
  proof (elim disjE conjE)
    assume "no_session h"
    with g ref show ?thesis by (auto simp: guarded_by_access no_session_def split: if_splits)
  next
    assume "h = handleLogin" "a = Anyone"
    with g handleLogin_session [of X "?q i" s token] show ?thesis
      by (simp add: guarded_def password_verified_def)
  next
    assume "h = handleOIDCCallback" "a = Anyone"
    with g handleOIDCCallback_session [of X "?q i" s token] show ?thesis
      by (simp add: guarded_def oidc_verified_def)
  qed
qed

section \<open>Redirects\<close>

text \<open>How a browser reads a location: tabs and line breaks are dropped, a backslash is a slash; what
  begins with one slash stays on the site, two begin the name of a host.\<close>

definition sameSite :: "string \<Rightarrow> bool" where
  "sameSite url \<longleftrightarrow>
     (let u = filter (\<lambda>c. c \<noteq> CHR 0x09 \<and> c \<noteq> CHR 0x0A \<and> c \<noteq> CHR 0x0D) url
      in u \<noteq> [] \<and> hd u = CHR ''/'' \<and> (tl u = [] \<or> hd (tl u) \<noteq> CHR ''/'' \<and> hd (tl u) \<noteq> CHR 0x5C))"

text \<open>A location that begins with one slash and holds no control characters.\<close>

definition onSite :: "string \<Rightarrow> bool" where
  "onSite url \<longleftrightarrow> (\<forall>c\<in>set url. CHR '' '' \<le> c)
     \<and> (\<exists>t. url = CHR ''/'' # t \<and> (t = [] \<or> hd t \<noteq> CHR ''/'' \<and> hd t \<noteq> CHR 0x5C))"

lemma onSite_sameSite: "onSite url \<Longrightarrow> sameSite url"
proof -
  assume on: "onSite url"
  then have "filter (\<lambda>c. c \<noteq> CHR 0x09 \<and> c \<noteq> CHR 0x0A \<and> c \<noteq> CHR 0x0D) url = url"
    by (intro filter_True) (auto simp: onSite_def less_eq_char_def)
  with on show ?thesis by (auto simp: sameSite_def onSite_def)
qed

lemma safeRedirect_onSite:
  assumes "\<forall>c\<in>set raw. CHR '' '' \<le> c"
  shows "onSite (safeRedirect raw) \<and> CHR 0x5C \<notin> set (safeRedirect raw)"
proof (cases "safeRedirect raw = ''/''")
  case True
  then show ?thesis by (simp add: onSite_def less_eq_char_def)
next
  case False
  then have raw: "safeRedirect raw = raw" "hasPrefix raw ''/''" "\<not> hasPrefix raw ''//''" "CHR 0x5C \<notin> set raw"
    by (auto simp: safeRedirect_def split: if_splits)
  from raw(2) obtain u where u: "raw = CHR ''/'' # u" by (auto simp: hasPrefix_iff)
  from raw(3,4) have "u = [] \<or> hd u \<noteq> CHR ''/'' \<and> hd u \<noteq> CHR 0x5C"
    unfolding u by (cases u) (auto simp: hasPrefix_iff)
  with raw(1,4) assms u show ?thesis by (simp add: onSite_def)
qed

lemma cleanSegs_mem: "x \<in> set (cleanSegs rooted xs st) \<Longrightarrow> x \<in> set st \<or> x \<in> set xs \<and> x \<noteq> []"
proof (induction rooted xs st rule: cleanSegs.induct)
  case (2 rooted y xs st)
  then show ?case by (cases st) (auto split: if_splits)
qed simp

lemma joinWith_set: "set (joinWith sep xs) \<subseteq> set sep \<union> (\<Union>x\<in>set xs. set x)"
  by (induction sep xs rule: joinWith.induct) auto

lemma splitOn_set: "x \<in> set (splitOn c s) \<Longrightarrow> set x \<subseteq> set s"
  by (induction s arbitrary: x) (fastforce split: if_splits list.splits)+

lemma cleanPath_onSite:
  assumes "hasPrefix p ''/''" and "\<forall>c\<in>set p. CHR '' '' \<le> c" and "CHR 0x5C \<notin> set p"
  shows "onSite (cleanPath p)"
proof -
  let ?segs = "cleanSegs True (splitOn CHR ''/'' p) []"
  have eq: "cleanPath p = CHR ''/'' # joinWith ''/'' ?segs" using assms(1) by (simp add: cleanPath_def Let_def)
  have seg: "x \<noteq> [] \<and> CHR ''/'' \<notin> set x \<and> set x \<subseteq> set p" if "x \<in> set ?segs" for x
    using cleanSegs_mem [OF that] splitOn_no_sep splitOn_set by fastforce
  have "set (joinWith ''/'' ?segs) \<subseteq> {CHR ''/''} \<union> set p"
    using joinWith_set [of "''/''" ?segs] seg by fastforce
  then have low: "\<forall>c\<in>set (joinWith ''/'' ?segs). CHR '' '' \<le> c" using assms(2) by (auto simp: less_eq_char_def)
  have "joinWith ''/'' ?segs = [] \<or> hd (joinWith ''/'' ?segs) \<noteq> CHR ''/'' \<and> hd (joinWith ''/'' ?segs) \<noteq> CHR 0x5C"
  proof (cases ?segs)
    case (Cons x xs)
    then have x: "x \<noteq> []" "CHR ''/'' \<notin> set x" "set x \<subseteq> set p" using seg [of x] by simp_all
    then have "hd (joinWith ''/'' ?segs) = hd x" unfolding Cons by (cases xs) auto
    with x assms(3) show ?thesis using list.set_sel(1) [OF x(1)] by (metis subsetD)
  qed simp
  with low show ?thesis unfolding eq onSite_def by (auto simp: less_eq_char_def)
qed

lemma onSite_append:
  assumes "onSite p" and "\<forall>c\<in>set q. CHR '' '' \<le> c" and "p \<noteq> ''/'' \<or> q = [] \<or> hd q \<noteq> CHR ''/'' \<and> hd q \<noteq> CHR 0x5C"
  shows "onSite (p @ q)"
proof -
  obtain t where "p = CHR ''/'' # t" "t = [] \<or> hd t \<noteq> CHR ''/'' \<and> hd t \<noteq> CHR 0x5C" using assms(1) by (auto simp: onSite_def)
  with assms show ?thesis by (cases t) (auto simp: onSite_def)
qed

lemma redirectLocation_onSite:
  assumes "onSite url" and "CHR 0x5C \<notin> set url"
  shows "onSite (redirectLocation X r url)"
proof -
  define p where "p = takeWhile (\<lambda>c. c \<noteq> CHR ''?'') url"
  define q where "q = dropWhile (\<lambda>c. c \<noteq> CHR ''?'') url"
  have url: "url = p @ q" by (simp add: p_def q_def)
  obtain t where t: "url = CHR ''/'' # t" using assms(1) by (auto simp: onSite_def)
  then have p: "hasPrefix p ''/''" by (simp add: p_def)
  have low: "\<forall>c\<in>set p. CHR '' '' \<le> c" "\<forall>c\<in>set q. CHR '' '' \<le> c" "CHR 0x5C \<notin> set p"
    using assms unfolding url onSite_def by auto
  have c: "onSite (cleanPath p)" by (rule cleanPath_onSite [OF p low(1,3)])
  have q: "q = [] \<or> hd q = CHR ''?''" using hd_dropWhile [of "\<lambda>c. c \<noteq> CHR ''?''" url] unfolding q_def by blast
  let ?clean = "if hasSuffix p ''/'' \<and> \<not> hasSuffix (cleanPath p) ''/'' then cleanPath p @ ''/'' else cleanPath p"
  have "onSite ?clean"
  proof (cases "hasSuffix p ''/'' \<and> \<not> hasSuffix (cleanPath p) ''/''")
    case True
    then have "cleanPath p \<noteq> ''/''" by (auto simp: hasSuffix_def)
    then have "onSite (cleanPath p @ ''/'')" by (intro onSite_append [OF c]) (simp_all add: less_eq_char_def)
    with True show ?thesis by simp
  next
    case False
    with c show ?thesis by (simp only: if_False)
  qed
  then have "onSite (?clean @ q)" by (rule onSite_append [OF _ low(2)]) (use q in auto)
  moreover have "cutAt CHR ''?'' url = p" "drop (length p) url = q"
    by (simp add: cutAt_takeWhile p_def) (simp add: url)
  ultimately show ?thesis
    using assms(1) t by (auto simp: redirectLocation_def Let_def split: sum.split)
qed

lemma hexDigitOf_mem: "n < 16 \<Longrightarrow> hexDigitOf n \<in> set ''0123456789abcdef''"
  unfolding hexDigitOf_def by (rule nth_mem) simp

lemma hexEscape_onSite:
  assumes "onSite url"
  shows "onSite (hexEscapeNonASCII url)"
proof -
  define f where "f = (\<lambda>c. let n = of_char c :: nat in
       if n \<ge> 128 then [CHR ''%'', hexDigitOf (n div 16), hexDigitOf (n mod 16)] else [c])"
  have eq: "hexEscapeNonASCII s = concat (map f s)" for s by (simp add: hexEscapeNonASCII_def f_def)
  have hex: "CHR '' '' \<le> hexDigitOf n" if "n < 16" for n
  proof -
    have "\<forall>x\<in>set ''0123456789abcdef''. CHR '' '' \<le> x" by (simp add: less_eq_char_def)
    then show ?thesis using hexDigitOf_mem [OF that] by blast
  qed
  have low: "CHR '' '' \<le> d" if "CHR '' '' \<le> c" "d \<in> set (f c)" for c d
  proof (cases "(128 :: nat) \<le> of_char c")
    case True
    have "of_char c div 16 < (16 :: nat)" "of_char c mod 16 < (16 :: nat)" using nat_of_char_less_256 [of c] by linarith+
    moreover have "d = CHR ''%'' \<or> d = hexDigitOf (of_char c div 16) \<or> d = hexDigitOf (of_char c mod 16)"
      using that(2) True by (simp add: f_def Let_def)
    moreover have "CHR '' '' \<le> CHR ''%''" by (simp add: less_eq_char_def)
    ultimately show ?thesis using hex by metis
  next
    case False
    with that show ?thesis by (simp add: f_def)
  qed
  have ne: "f c \<noteq> [] \<and> (hd (f c) = CHR ''%'' \<or> hd (f c) = c)" for c by (simp add: f_def Let_def)
  obtain t where t: "url = CHR ''/'' # t" "t = [] \<or> hd t \<noteq> CHR ''/'' \<and> hd t \<noteq> CHR 0x5C" using assms by (auto simp: onSite_def)
  have slash: "f CHR ''/'' = ''/''" by (simp add: f_def)
  have "concat (map f t) = [] \<or> hd (concat (map f t)) \<noteq> CHR ''/'' \<and> hd (concat (map f t)) \<noteq> CHR 0x5C"
    using t(2) ne [of "hd t"] by (cases t) auto
  moreover have "\<forall>d\<in>set (concat (map f url)). CHR '' '' \<le> d" using assms low by (fastforce simp: onSite_def)
  ultimately show ?thesis unfolding eq onSite_def t(1) by (simp add: slash)
qed

lemma redirectTo_onSite:
  assumes "(''Location'', url) \<in> set (rs_headers (redirectTo X r target))" and "onSite target" and "CHR 0x5C \<notin> set target"
  shows "sameSite url"
proof -
  have "url = hexEscapeNonASCII (redirectLocation X r target)"
    using assms(1) by (simp add: redirectTo_def Let_def split: if_splits)
  then show ?thesis using onSite_sameSite [OF hexEscape_onSite [OF redirectLocation_onSite [OF assms(2,3)]]] by simp
qed

text \<open>C34: the OIDC callback sends the browser to a page of this site, whatever redirect the login was started
  with.  Cookie values hold no control characters: \<open>net/http\<close> drops them when it writes and refuses
  them when it reads a cookie.\<close>

theorem callback_stays_on_site:
  assumes "(''Location'', url) \<in> set (rs_headers (fst (handleOIDCCallback X r s)))"
    and "\<And>v c. rq_cookie r ''wnd_oidc_redirect'' = Some v \<Longrightarrow> c \<in> set v \<Longrightarrow> CHR '' '' \<le> c"
  shows "sameSite url"
proof -
  have headers: "(''Location'', url) \<notin> set (rs_headers (writeError st m))" for st m
    by (simp add: writeError_def writeJSON_def)
  have cookies: "rs_headers (setSessionCookie X r s1 tok resp) = rs_headers resp"
      "rs_headers (clearCookie n resp) = rs_headers resp" for s1 tok resp n
    by (simp_all add: setSessionCookie_def clearCookie_def setCookie_def)
  from assms(1) headers obtain target where "(''Location'', url) \<in> set (rs_headers (redirectTo X r target))"
    "target = ''/login?error=oidc_error'' \<or> target = ''/''
      \<or> (\<exists>v. rq_cookie r ''wnd_oidc_redirect'' = Some v \<and> target = safeRedirect v)"
    by (auto simp: handleOIDCCallback_def Let_def cookies split: if_splits prod.splits sum.splits option.splits)
  moreover have "onSite target \<and> CHR 0x5C \<notin> set target"
    using calculation(2)
  proof (elim disjE exE conjE)
    fix v assume "rq_cookie r ''wnd_oidc_redirect'' = Some v" "target = safeRedirect v"
    with assms(2) show ?thesis using safeRedirect_onSite [of v] by blast
  qed (simp_all add: onSite_def less_eq_char_def)
  ultimately show ?thesis using redirectTo_onSite by blast
qed

section \<open>At the demonstration server\<close>

lemma demo_jwt: "jwt_laws demoCtx"
  by (auto simp: jwt_laws_def demoCtx_def demoSign_def demoVerify_def demoClaims_def demoOIDC_def split: if_splits)

lemma demo_issue: "IssueSession demoCtx (ap_auth demoApp) ''ann'' RoleAdmin ''local'' = Inr ''ann-token''"
  by (simp add: IssueSession_def numericDate_def demoCtx_def demoSign_def demoClaims_def demoNow_def demoApp_def Default_def)

theorem session_roundtrip_witness:
  "\<exists>c. ValidateSession (demoCtx\<lparr>x_now := 2000 * second\<rparr>) ''ann-token'' = Inr c \<and> cl_role c = RoleAdmin
     \<and> (\<exists>e. ValidateSession (demoCtx\<lparr>x_now := 5 * 24 * hour\<rparr>) ''ann-token'' = Inl e)"
proof -
  let ?c = "sessionClaims demoCtx (ap_auth demoApp) ''ann'' RoleAdmin ''local''"
  have exp: "cl_expiresAt ?c = 1000 * second + 24 * hour"
    by (simp add: sessionClaims_def numericDate_def demoCtx_def demoNow_def demoApp_def Default_def)
  have "ValidateSession (demoCtx\<lparr>x_now := 2000 * second\<rparr>) ''ann-token'' = Inr ?c"
    "\<exists>e. ValidateSession (demoCtx\<lparr>x_now := 5 * 24 * hour\<rparr>) ''ann-token'' = Inl e"
    using session_roundtrip [OF demo_jwt demo_issue] exp by simp_all
  then show ?thesis by (auto simp: sessionClaims_def)
qed

definition loginOK :: httpRequest where
  "loginOK = (demoRequest ''POST'' ''/api/auth/login'')\<lparr>rq_body :=
     noBody\<lparr>bd_login := Inr \<lparr>lr_username = ''ann'', lr_password = ''correct horse''\<rparr>\<rparr>\<rparr>"

lemma login_route: "findRoute (loginOK\<lparr>rq_claims := c, rq_id := i\<rparr>) routes = Some ([], Anyone, handleLogin)"
  by (simp add: findRoute_def matchRoute_def routes_def methodMatches_def pathSegs_def trimPrefix_def loginOK_def demoRequest_def)

lemma login_gives: "gives_session (fst (serve demoSpa demoCtx loginOK demoApp)) ''ann-token''"
proof -
  have auth: "AuthenticateLocal demoCtx (ap_db demoApp) ''ann'' ''correct horse''
      = Inr \<lparr>us_id = ''u1'', us_username = ''ann'', us_role = RoleAdmin, us_hash = ''$correct horse'', us_created = 1\<rparr>"
    by (simp add: AuthenticateLocal_def GetUserByUsername_def demoApp_def demoDB_def empty_db_def demoCtx_def)
  obtain l where lim: "allow demoCtx ip (ap_limiter demoApp) = (True, l ip)" for ip
    by (simp add: allow_def Let_def demoCtx_def demoApp_def newLoginLimiter_def demoNow_def)
  have mode: "at_mode (ap_auth demoApp) = ''both''" by (simp add: demoApp_def)
  have db: "ap_db (demoApp\<lparr>ap_limiter := q\<rparr>) = ap_db demoApp" for q by simp
  show ?thesis
    by (simp add: serve_def dispatch_def login_route guarded_def handleLogin_def Let_def mode lim split: prod.split)
      (simp add: loginOK_def auth demo_issue split: sum.split)
qed

theorem sessions_are_earned_witness:
  "gives_session (fst (serve demoSpa demoCtx loginOK demoApp)) ''ann-token''
   \<and> (password_verified demoCtx loginOK demoApp ''ann-token'' \<or> oidc_verified demoCtx loginOK demoApp ''ann-token'')"
proof -
  have "rs_cookies (demoSpa q) = []" for q by (simp add: demoSpa_def)
  with login_gives sessions_are_earned [OF login_gives] show ?thesis by blast
qed

definition backFromProvider :: httpRequest where
  "backFromProvider = (demoRequest ''GET'' ''/api/auth/oidc/callback'')\<lparr>
     rq_query := (\<lambda>_. [])(''state'' := ''st1'', ''code'' := ''c''),
     rq_cookie := (\<lambda>_. None)(''wnd_oidc_state'' \<mapsto> ''st1'', ''wnd_oidc_redirect'' \<mapsto> ''//evil.example'')\<rparr>"

lemma demo_parses: "x_parseURL demoCtx ''/'' = Inr \<lparr>ur_scheme = [], ur_host = [], ur_path = ''/'', ur_hostname = []\<rparr>"
  by (simp add: demoCtx_def)

lemma callback_location: "(''Location'', ''/'') \<in> set (rs_headers (fst (handleOIDCCallback demoCtx backFromProvider demoApp)))"
proof -
  have issue: "IssueSession demoCtx (ap_auth (s1 :: (nat, nat) app)) ''bob'' RoleViewer ''oidc'' = Inr ''bob-token''"
    if "ap_auth s1 = ap_auth demoApp" for s1
    unfolding that
    by (simp add: IssueSession_def numericDate_def demoCtx_def demoSign_def demoClaims_def demoOIDC_def demoNow_def demoApp_def
        Default_def RoleViewer_def RoleAdmin_def)
  obtain s1 where ex: "ExchangeOIDC demoCtx ''c'' demoApp = (Inr (''bob'', RoleViewer), s1)" "ap_auth s1 = ap_auth demoApp"
    by (simp add: ExchangeOIDC_def ensureOIDC_def Let_def demoCtx_def demoApp_def orEmpty_def oidcRole_def Default_def
        RoleViewer_def RoleAdmin_def)
  show ?thesis
    using ex issue [OF ex(2)]
    by (simp add: handleOIDCCallback_def backFromProvider_def orEmpty_def Let_def clearCookie_def setCookie_def
        setSessionCookie_def redirectTo_def safeRedirect_def redirectLocation_def demo_parses cleanPath_def hexEscapeNonASCII_def
        cutAt_def hasSuffix_def)
qed

theorem callback_stays_on_site_witness:
  "(''Location'', ''/'') \<in> set (rs_headers (fst (handleOIDCCallback demoCtx backFromProvider demoApp))) \<and> sameSite ''/''"
proof -
  have chars: "\<And>v c. rq_cookie backFromProvider ''wnd_oidc_redirect'' = Some v \<Longrightarrow> c \<in> set v \<Longrightarrow> CHR '' '' \<le> c"
    by (auto simp: backFromProvider_def less_eq_char_def)
  have "sameSite ''/''" by (rule callback_stays_on_site [OF callback_location chars])
  with callback_location show ?thesis ..
qed

end
