(* ===== verification/Queue.thy ===== *)
theory Queue
  imports StoreProps AccessProps
begin

text \<open>
  The command queue between the server and its agents, specified on its own: each server has a set of
  pending commands; an administrator adds commands and drops a server's queue with the server, an agent
  takes away a command of its own by answering it, nobody else changes anything.  The locale
  \<open>command_queue\<close> is what this asks of the store; the whole HTTP API refines the specification.
\<close>

section \<open>The specification\<close>

text \<open>A pending command: its id and what is to be done (kind, container, target image).\<close>

type_synonym payload = "string \<times> string \<times> string"
type_synonym queue = "string \<Rightarrow> (string \<times> payload) set"

datatype actor = ByAdmin | ByAgent string

definition ids_of :: "queue \<Rightarrow> string set" where
  "ids_of q = (\<Union>t. fst ` q t)"

inductive queue_step :: "actor \<Rightarrow> queue \<Rightarrow> queue \<Rightarrow> bool" where
  enqueue: "i \<notin> ids_of q \<Longrightarrow> queue_step ByAdmin q (q(srv := insert (i, p) (q srv)))"
| drop: "queue_step ByAdmin q (q(srv := {}))"
| answer: "(i, p) \<in> q srv \<Longrightarrow> queue_step (ByAgent srv) q (q(srv := q srv - {(i, p)}))"

inductive_cases agent_stepE: "queue_step (ByAgent srv) q q'"

text \<open>What the actors do, one after another.\<close>

inductive queue_run :: "actor set \<Rightarrow> queue \<Rightarrow> queue \<Rightarrow> bool" for A where
  stay: "queue_run A q q"
| step: "queue_run A q q' \<Longrightarrow> a \<in> A \<Longrightarrow> queue_step a q' q'' \<Longrightarrow> queue_run A q q''"

lemma queue_run_one: "a \<in> A \<Longrightarrow> queue_step a q q' \<Longrightarrow> queue_run A q q'"
  by (rule queue_run.step [OF queue_run.stay])

lemma queue_run_none: "queue_run {} q q' \<Longrightarrow> q' = q"
  by (induction rule: queue_run.induct) auto

text \<open>An agent on its own reaches only its own queue, and only shrinks it.\<close>

lemma queue_run_agent:
  "queue_run {ByAgent srv} q q' \<Longrightarrow> q' srv \<subseteq> q srv \<and> (\<forall>t. t \<noteq> srv \<longrightarrow> q' t = q t)"
  by (induction rule: queue_run.induct) (auto elim!: agent_stepE split: if_splits)

section \<open>What it asks of a store\<close>

locale command_queue =
  fixes good :: "'s \<Rightarrow> bool"
    and pending :: "'s \<Rightarrow> queue"
    and add :: "string \<Rightarrow> string \<Rightarrow> payload \<Rightarrow> 's \<Rightarrow> 's option"
    and finish :: "string \<Rightarrow> string \<Rightarrow> string \<Rightarrow> 's \<Rightarrow> 's"
    and forget :: "string \<Rightarrow> 's \<Rightarrow> 's"
  assumes add_good: "good s \<Longrightarrow> add i srv p s = Some s' \<Longrightarrow> good s'"
    and add_fresh: "good s \<Longrightarrow> add i srv p s = Some s' \<Longrightarrow> i \<notin> ids_of (pending s)"
    and add_pending: "good s \<Longrightarrow> add i srv p s = Some s' \<Longrightarrow> pending s' = (pending s)(srv := insert (i, p) (pending s srv))"
    and finish_good: "good s \<Longrightarrow> good (finish i st m s)"
    and finish_pending: "good s \<Longrightarrow> st \<noteq> ''pending'' \<Longrightarrow> pending (finish i st m s) t = {c \<in> pending s t. fst c \<noteq> i}"
    and forget_good: "good s \<Longrightarrow> good (forget srv s)"
    and forget_pending: "good s \<Longrightarrow> pending (forget srv s) = (pending s)(srv := {})"
    and one_owner: "good s \<Longrightarrow> (i, p) \<in> pending s srv \<Longrightarrow> (i, p') \<in> pending s srv' \<Longrightarrow> srv' = srv \<and> p' = p"
begin

lemma add_step:
  assumes "good s" and "add i srv p s = Some s'"
  shows "queue_step ByAdmin (pending s) (pending s')"
  unfolding add_pending [OF assms] by (rule queue_step.enqueue [OF add_fresh [OF assms]])

lemma forget_step:
  assumes "good s"
  shows "queue_step ByAdmin (pending s) (pending (forget srv s))"
  unfolding forget_pending [OF assms] by (rule queue_step.drop)

lemma finish_step:
  assumes "good s" and "(i, p) \<in> pending s srv" and "st \<noteq> ''pending''"
  shows "queue_step (ByAgent srv) (pending s) (pending (finish i st m s))"
proof -
  have own: "(i, p') \<in> pending s t \<longrightarrow> t = srv \<and> p' = p" for t p'
    using one_owner [OF assms(1,2)] by blast
  have "pending (finish i st m s) = (pending s)(srv := pending s srv - {(i, p)})"
  proof (rule ext)
    fix t
    have "{c \<in> pending s t. fst c \<noteq> i} = (if t = srv then pending s srv - {(i, p)} else pending s t)"
    proof (rule set_eqI)
      fix x :: "string \<times> payload"
      obtain j r where x: "x = (j, r)" by (cases x)
      show "x \<in> {c \<in> pending s t. fst c \<noteq> i} \<longleftrightarrow> x \<in> (if t = srv then pending s srv - {(i, p)} else pending s t)"
      proof (cases "j = i")
        case True
        then show ?thesis using own [of r t] unfolding x by (cases "t = srv") simp_all
      qed (simp add: x)
    qed
    with finish_pending [OF assms(1,3), of i m t]
    show "pending (finish i st m s) t = ((pending s)(srv := pending s srv - {(i, p)})) t" by simp
  qed
  with queue_step.answer [of i p "pending s" srv] assms(2) show ?thesis by simp
qed

text \<open>A finished command is pending nowhere.\<close>

lemma finished_gone: "good s \<Longrightarrow> st \<noteq> ''pending'' \<Longrightarrow> i \<notin> ids_of (pending (finish i st m s))"
  by (auto simp: ids_of_def finish_pending)

end

section \<open>The store is one\<close>

definition payloadOf :: "command \<Rightarrow> payload" where
  "payloadOf c = (cm_kind c, cm_container c, cm_target c)"

definition pendingQueue :: "db \<Rightarrow> queue" where
  "pendingQueue d srv = (\<lambda>c. (cm_id c, payloadOf c)) ` set (ListPendingCommands srv d)"

definition newCommand :: "string \<Rightarrow> payload \<Rightarrow> command" where
  "newCommand srv p = (let (k, c, t) = p in
     \<lparr>cm_id = [], cm_server = srv, cm_kind = k, cm_container = c, cm_target = t,
      cm_status = [], cm_result = [], cm_created = zero_time, cm_updated = zero_time\<rparr>)"

definition addCommand :: "gotime \<Rightarrow> string \<Rightarrow> string \<Rightarrow> payload \<Rightarrow> db \<Rightarrow> db option" where
  "addCommand now i srv p d =
     (case CreateCommand i now (newCommand srv p) d of Inl _ \<Rightarrow> None | Inr (_, d') \<Rightarrow> Some d')"

definition finishCommand :: "gotime \<Rightarrow> string \<Rightarrow> string \<Rightarrow> string \<Rightarrow> db \<Rightarrow> db" where
  "finishCommand now i st m d = (case UpdateCommandResult i st m now d of Inl _ \<Rightarrow> d | Inr d' \<Rightarrow> d')"

definition forgetServer :: "string \<Rightarrow> db \<Rightarrow> db" where
  "forgetServer i d = (case DeleteServerCascade i d of Inl _ \<Rightarrow> d | Inr d' \<Rightarrow> d')"

lemma mem_pendingQueue:
  "(i, p) \<in> pendingQueue d srv \<longleftrightarrow>
     (\<exists>c\<in>set (commands d). cm_id c = i \<and> payloadOf c = p \<and> cm_server c = srv \<and> cm_status c = ''pending'')"
  by (auto simp: pendingQueue_def ListPendingCommands_def)

lemma pendingQueue_cong: "commands d' = commands d \<Longrightarrow> pendingQueue d' = pendingQueue d"
  by (rule ext) (simp add: pendingQueue_def ListPendingCommands_def)

lemma ids_pendingQueue: "ids_of (pendingQueue d) \<subseteq> cm_id ` set (commands d)"
  by (auto simp: ids_of_def mem_pendingQueue)

lemma addCommand_rows:
  "addCommand now i srv p d = Some d' \<Longrightarrow>
     i \<notin> cm_id ` set (commands d) \<and> (commands_ok (commands d) \<longrightarrow> commands_ok (commands d'))
   \<and> (\<exists>c. commands d' = commands d @ [c] \<and> cm_id c = i \<and> payloadOf c = p \<and> cm_server c = srv \<and> cm_status c = ''pending'')"
  by (cases p) (auto simp: addCommand_def newCommand_def CreateCommand_def Let_def payloadOf_def unique_on_Inr and_then_eq_Inr
      commands_ok_def split: sum.splits)

lemma commands_DeleteServerCascade:
  "DeleteServerCascade i d = Inr d' \<Longrightarrow> commands d' = filter (\<lambda>c. cm_server c \<noteq> i) (commands d)"
  by (auto simp: DeleteServerCascade_def DeleteServer_def delete_containers_def Let_def)

lemma bex_upd_rows: "(\<exists>y\<in>set (upd_rows q f xs). R y) \<longleftrightarrow> (\<exists>x\<in>set xs. R (if q x then f x else x))"
  by (auto simp: upd_rows_def)

lemma finishCommand_mem:
  "st \<noteq> ''pending'' \<Longrightarrow> (j, p) \<in> pendingQueue (finishCommand now i st m d) t \<longleftrightarrow> j \<noteq> i \<and> (j, p) \<in> pendingQueue d t"
  unfolding mem_pendingQueue finishCommand_def UpdateCommandResult_def sum.case
  by (simp add: bex_upd_rows payloadOf_def) (rule iffI; fastforce split: if_splits)

interpretation agents: command_queue "\<lambda>d. commands_ok (commands d)" pendingQueue "addCommand now" "finishCommand now" forgetServer
  for now
proof (unfold_locales, goal_cases)
  case (1 s i srv p s')
  then show ?case using addCommand_rows by blast
next
  case (2 s i srv p s')
  then show ?case using addCommand_rows ids_pendingQueue by blast
next
  case (3 s i srv p s')
  with addCommand_rows obtain c where c: "commands s' = commands s @ [c]" "cm_id c = i" "payloadOf c = p"
    "cm_server c = srv" "cm_status c = ''pending''" by blast
  show ?case
  proof
    fix t
    show "pendingQueue s' t = ((pendingQueue s)(srv := insert (i, p) (pendingQueue s srv))) t"
      using c by (auto simp: mem_pendingQueue)
  qed
next
  case (4 s i st m)
  then show ?case
    by (auto simp: finishCommand_def UpdateCommandResult_def commands_ok_def map_upd_rows)
next
  case (5 s st i m t)
  then show ?case
    by (intro set_eqI) (simp add: split_paired_all finishCommand_mem conj_commute)
next
  case (6 s srv)
  then show ?case
    by (cases "DeleteServerCascade srv s")
      (auto simp: forgetServer_def commands_DeleteServerCascade commands_ok_def distinct_map_filter_keep)
next
  case (7 s srv)
  obtain d' where d': "DeleteServerCascade srv s = Inr d'" by (simp add: DeleteServerCascade_def DeleteServer_def Let_def)
  show ?case
  proof
    fix t
    show "pendingQueue (forgetServer srv s) t = ((pendingQueue s)(srv := {})) t"
      by (auto simp: forgetServer_def d' commands_DeleteServerCascade [OF d'] mem_pendingQueue)
  qed
next
  case (8 s i p srv p' srv')
  then obtain c c' where "c \<in> set (commands s)" "c' \<in> set (commands s)" "cm_id c = i" "cm_id c' = i"
    "payloadOf c = p" "payloadOf c' = p'" "cm_server c = srv" "cm_server c' = srv'"
    by (auto simp: mem_pendingQueue)
  moreover from this 8(1) have "c = c'" by (auto simp: commands_ok_def dest: distinct_map_eq)
  ultimately show ?case by simp
qed

end
