(* ===== verification/QueueProps.thy ===== *)
theory QueueProps
  imports Queue
begin

text \<open>
  The HTTP API refines the command queue of \<open>Queue\<close>: whatever request is served, what happens to the
  pending commands is a run of the specification by the actors the request is authenticated as.
\<close>

section \<open>Handlers that leave the commands alone\<close>

definition keeps_commands :: "('c, 'l) handler \<Rightarrow> bool" where
  "keeps_commands h \<longleftrightarrow> (\<forall>X r s. commands (ap_db (snd (h X r s))) = commands (ap_db s))"

lemma keeps_core_commands: "keeps_core h \<Longrightarrow> keeps_commands h"
  unfolding keeps_core_def keeps_commands_def core_def prod.inject
  by (intro allI) (metis db.select_convs(10) db.surjective db.update_convs(8,9))

lemma commands_addEvent [simp]: "commands (ap_db (addEvent X e s)) = commands (ap_db s)"
  by (simp add: addEvent_def AddEvent_def Let_def)

lemma commands_setJob [simp]: "ap_db (setJob X i j s) = ap_db s"
  by (simp add: setJob_def)

lemma commands_spawn [simp]: "ap_db (spawn t s) = ap_db s"
  by (simp add: spawn_def)

lemma commands_of_steps:
  "CreateServer i now srv d = Inr (srv', d') \<Longrightarrow> commands d' = commands d"
  "UpdateServerName i n now d = Inr d' \<Longrightarrow> commands d' = commands d"
  "UpdateServerEndpoint i h a b c now d = Inr d' \<Longrightarrow> commands d' = commands d"
  "SetContainerPinned i p d = Inr d' \<Longrightarrow> commands d' = commands d"
  "DeleteUpdate i d = Inr d' \<Longrightarrow> commands d' = commands d"
  "CreateUser i now u d = Inr (u', d') \<Longrightarrow> commands d' = commands d"
  "UpdateUserRole i q d = Inr d' \<Longrightarrow> commands d' = commands d"
  "UpdateUserPassword i q d = Inr d' \<Longrightarrow> commands d' = commands d"
  "DeleteUser i d = Inr d' \<Longrightarrow> commands d' = commands d"
  "SetSetting k v d = Inr d' \<Longrightarrow> commands d' = commands d"
  by (auto simp: CreateServer_def UpdateServerName_def UpdateServerEndpoint_def upd_server_def SetContainerPinned_def
      DeleteUpdate_def CreateUser_def UpdateUserRole_def UpdateUserPassword_def DeleteUser_def SetSetting_def Let_def
      and_then_eq_Inr)

lemma commands_putSettings: "putSettings kvs d = Inr d' \<Longrightarrow> commands d' = commands d"
  unfolding putSettings_def
  by (erule fold_res_inv) (auto simp: SetSetting_def split: prod.splits)

lemma commands_settings:
  "applyCount req s = (q, s') \<Longrightarrow> ap_db s' = ap_db s"
  "ap_db (applyLists req s) = ap_db s"
  "applyInterval req s = (q, s') \<Longrightarrow> ap_db s' = ap_db s"
  "applySelfUpdate req s = (q, s') \<Longrightarrow> ap_db s' = ap_db s"
  "ap_db (applyTokens req s) = ap_db s"
  by (auto simp: applyCount_def applyLists_def applyInterval_def applySelfUpdate_def applyTokens_def
      setGitHubToken_def setGitLabToken_def Let_def split: option.splits if_splits)

lemma keeps_commands_settings [simp]: "keeps_commands handlePutSettings"
  unfolding keeps_commands_def handlePutSettings_def saveRuntimeSettings_def
  by (auto simp: commands_settings(2,5) Let_def and_then_def
      dest!: commands_settings(1,3,4) commands_putSettings split: sum.split option.split prod.split)

lemma keeps_commands_auth [simp]: "keeps_commands handlePutAuthSettings"
  by (auto simp: keeps_commands_def handlePutAuthSettings_def saveAuthSettings_def SetSetting_def InvalidateOIDC_def Let_def
      split: sum.split option.split)

lemma keeps_commands_reads [simp]:
  "keeps_commands handleGetSettings" "keeps_commands handleGetAuthSettings" "keeps_commands handleListUsers"
  "keeps_commands handleTestEndpoint" "keeps_commands handleTriggerCheck" "keeps_commands handleCheckSelfUpdate"
  "keeps_commands handleAgentCommands"
  unfolding keeps_commands_def handleGetSettings_def handleGetAuthSettings_def handleListUsers_def handleTestEndpoint_def
    handleTriggerCheck_def handleCheckSelfUpdate_def handleAgentCommands_def selfCheck_def Let_def
  by (simp_all add: split: prod.split)

lemma keeps_commands_users [simp]:
  "keeps_commands handleCreateUser" "keeps_commands handleUpdateUser" "keeps_commands handleDeleteUser"
  by (auto simp: keeps_commands_def handleCreateUser_def handleUpdateUser_def handleDeleteUser_def patchRole_def
      patchPassword_def Let_def dest!: commands_of_steps split: sum.splits option.splits prod.splits if_splits)

lemma keeps_commands_pin [simp]: "keeps_commands handleSetPin"
  by (auto simp: keeps_commands_def handleSetPin_def dest!: commands_of_steps(4,5) split: sum.splits)

lemma keeps_commands_servers [simp]: "keeps_commands handleCreateServer" "keeps_commands handleUpdateServer"
  by (auto simp: keeps_commands_def handleCreateServer_def createDirect_def createAgent_def handleUpdateServer_def Let_def
      dest!: commands_of_steps split: sum.splits)

lemma keeps_commands_report [simp]: "keeps_commands handleAgentReport"
  by (auto simp: keeps_commands_def handleAgentReport_def dest: ReplaceServerSnapshot_tables(4) split: sum.splits)

section \<open>Handlers that move the queue\<close>

abbreviation queueOf :: "('c, 'l) app \<Rightarrow> queue" where
  "queueOf s \<equiv> pendingQueue (ap_db s)"

abbreviation queue_ok :: "('c, 'l) app \<Rightarrow> bool" where
  "queue_ok s \<equiv> commands_ok (commands (ap_db s))"

definition moves_queue :: "actor set \<Rightarrow> ('c, 'l) app \<Rightarrow> ('c, 'l) app \<Rightarrow> bool" where
  "moves_queue A s s' \<longleftrightarrow> queue_ok s' \<and> queue_run A (queueOf s) (queueOf s')"

lemma moves_same: "queue_ok s \<Longrightarrow> commands (ap_db s') = commands (ap_db s) \<Longrightarrow> moves_queue A s s'"
  by (simp add: moves_queue_def queue_run.stay pendingQueue_cong [of "ap_db s'" "ap_db s"])

lemma addCommand_moves:
  assumes "queue_ok s" and "addCommand now i srv p (ap_db s) = Some d" and "commands (ap_db s') = commands d"
  shows "moves_queue {ByAdmin} s s'"
proof -
  have "queue_run {ByAdmin} (queueOf s) (pendingQueue d)"
    using agents.add_step [OF assms(1,2)] by (intro queue_run_one) simp_all
  moreover have "commands_ok (commands d)" by (rule agents.add_good [OF assms(1,2)])
  ultimately show ?thesis using assms(3) by (simp add: moves_queue_def pendingQueue_cong [of "ap_db s'" d])
qed

lemma queueAgent_moves:
  assumes "queue_ok s"
  shows "moves_queue {ByAdmin} s (snd (queueAgent X actor cw target s))"
proof -
  let ?c = "cu_container cw"
  have new: "\<lparr>cm_id = [], cm_server = ct_server ?c, cm_kind = ''update'', cm_container = ct_dockerID ?c, cm_target = target,
      cm_status = [], cm_result = [], cm_created = zero_time, cm_updated = zero_time\<rparr>
      = newCommand (ct_server ?c) (''update'', ct_dockerID ?c, target)"
    by (simp add: newCommand_def)
  show ?thesis
  proof (cases "CreateCommand (x_ids X 0) (x_now X) (newCommand (ct_server ?c) (''update'', ct_dockerID ?c, target)) (ap_db s)")
    case (Inl e)
    then show ?thesis using assms by (simp add: queueAgent_def Let_def new moves_same)
  next
    case (Inr cd)
    obtain c d where cd: "cd = (c, d)" by (cases cd)
    have "addCommand (x_now X) (x_ids X 0) (ct_server ?c) (''update'', ct_dockerID ?c, target) (ap_db s) = Some d"
      by (simp add: addCommand_def Inr cd)
    then show ?thesis
      by (rule addCommand_moves [OF assms]) (simp add: queueAgent_def Let_def new Inr cd)
  qed
qed

lemma executorFor_db: "executorFor X srv s = (a, s') \<Longrightarrow> ap_db s' = ap_db s"
  by (auto simp: executorFor_def split: if_splits option.splits sum.splits prod.splits)

lemma requestUpdate_moves:
  assumes "queue_ok s"
  shows "moves_queue {ByAdmin} s (snd (handleRequestUpdate X r s))"
proof -
  have moved: "moves_queue {ByAdmin} s (snd (queueAgent X actor cw target s1))" if "executorFor X srv s = (a, s1)"
    for actor cw target srv a s1
    using queueAgent_moves [of s1 X actor cw target] executorFor_db [OF that] assms by (simp add: moves_queue_def)
  have same: "moves_queue {ByAdmin} s s1" "moves_queue {ByAdmin} s (snd (queueLocal X actor cw srv target e s1))"
    if "executorFor X srv s = (a, s1)" for actor cw target srv a e s1
    using executorFor_db [OF that] assms by (simp_all add: moves_same queueLocal_def Let_def)
  show ?thesis
    using moved same assms by (auto simp: handleRequestUpdate_def Let_def moves_same split: sum.split option.split prod.split)
qed

lemma deleteServer_moves:
  assumes "queue_ok s"
  shows "moves_queue {ByAdmin} s (snd (handleDeleteServer X r s))"
proof -
  obtain d where d: "DeleteServerCascade (rq_id r) (ap_db s) = Inr d"
    by (simp add: DeleteServerCascade_def DeleteServer_def Let_def)
  then have f: "forgetServer (rq_id r) (ap_db s) = d" by (simp add: forgetServer_def)
  have run: "queue_run {ByAdmin} (queueOf s) (pendingQueue d)" and ok: "commands_ok (commands d)"
    using agents.forget_step [OF assms, of "rq_id r"] agents.forget_good [OF assms, of "rq_id r"]
    by (auto simp: f intro: queue_run_one)
  have "moves_queue {ByAdmin} s s'" if "commands (ap_db s') = commands d" for s'
    using run ok that by (simp add: moves_queue_def pendingQueue_cong [of "ap_db s'" d])
  then show ?thesis
    using assms d by (auto simp: handleDeleteServer_def Let_def moves_same split: sum.split)
qed

lemma commandResult_moves:
  assumes "queue_ok s" and "serverFromBearer X r (ap_db s) = Inr srv"
  shows "moves_queue {ByAgent (sv_id srv)} s (snd (handleAgentCommandResult X r s))"
proof -
  have done_: "moves_queue {ByAgent (sv_id srv)} s s'"
    if c: "find (\<lambda>c. cm_id c = i) (ListPendingCommands (sv_id srv) (ap_db s)) = Some c"
      and s': "commands (ap_db s') = commands (finishCommand now i st m (ap_db s))" and st: "st \<noteq> ''pending''"
    for i c st m now and s'
  proof -
    from c have "(i, payloadOf c) \<in> queueOf s (sv_id srv)"
      by (auto simp: pendingQueue_def dest!: find_eq_Some_mem)
    from agents.finish_step [OF assms(1) this st] have
      "queue_run {ByAgent (sv_id srv)} (queueOf s) (pendingQueue (finishCommand now i st m (ap_db s)))"
      by (intro queue_run_one) simp_all
    moreover have "commands_ok (commands (finishCommand now i st m (ap_db s)))" by (rule agents.finish_good [OF assms(1)])
    ultimately show ?thesis using s' by (simp add: moves_queue_def pendingQueue_cong [OF s'])
  qed
  have same: "moves_queue A s s" for A using assms(1) by (simp add: moves_same)
  have job: "ap_db (finishJob X a b c m t) = ap_db t" for a b c m t
    by (simp add: finishJob_def split: sum.split)
  have st: "resultStatus q \<noteq> ''pending''" for q by (simp add: resultStatus_def)
  show ?thesis
  proof (cases "bd_result (rq_body r)")
    case (Inl e)
    then show ?thesis by (simp add: handleAgentCommandResult_def assms(2) same)
  next
    case (Inr res)
    show ?thesis
    proof (cases "find (\<lambda>c. cm_id c = rq_id r) (ListPendingCommands (sv_id srv) (ap_db s))")
      case None
      then show ?thesis by (simp add: handleAgentCommandResult_def assms(2) Inr Let_def same)
    next
      case (Some c)
      have "commands (ap_db (snd (handleAgentCommandResult X r s)))
          = commands (finishCommand (x_now X) (rq_id r) (resultStatus (cr_status res)) (cr_message res) (ap_db s))"
        by (simp add: handleAgentCommandResult_def assms(2) Inr Some Let_def UpdateCommandResult_def finishCommand_def job)
      from done_ [OF Some this st] show ?thesis .
    qed
  qed
qed

section \<open>A self-update run tells the agents\<close>

lemma planAgent_moves:
  assumes "commands_ok (commands d)" and "planAgent i now res srv (as, d) = (as', d')"
  shows "commands_ok (commands d') \<and> queue_run {ByAdmin} (pendingQueue d) (pendingQueue d')"
proof -
  have new: "\<lparr>cm_id = [], cm_server = sv_id srv, cm_kind = ''self_update'', cm_container = [], cm_target = to,
      cm_status = [], cm_result = [], cm_created = zero_time, cm_updated = zero_time\<rparr>
      = newCommand (sv_id srv) (''self_update'', [], to)" for to
    by (simp add: newCommand_def)
  have add: "commands_ok (commands d1) \<and> queue_run {ByAdmin} (pendingQueue d) (pendingQueue d1)"
    if "CreateCommand i now (newCommand (sv_id srv) p) d = Inr (c, d1)" for p c d1
  proof -
    have "addCommand now i (sv_id srv) p d = Some d1" by (simp add: addCommand_def that)
    with assms(1) show ?thesis
      using agents.add_good agents.add_step queue_run_one by (metis insertI1)
  qed
  show ?thesis
    using assms by (auto simp: planAgent_def Let_def new intro: queue_run.stay dest: add split: if_splits sum.splits prod.splits)
qed

lemma queue_run_trans: "queue_run A q' q'' \<Longrightarrow> queue_run A q q' \<Longrightarrow> queue_run A q q''"
  by (induction rule: queue_run.induct) (auto intro: queue_run.step)

lemma planAgents_moves:
  assumes "commands_ok (commands d)"
    and "foldl (\<lambda>st (k, srv). planAgent (ids k) now res srv st) (as, d) (enumerate n srvs) = (as', d')"
  shows "commands_ok (commands d') \<and> queue_run {ByAdmin} (pendingQueue d) (pendingQueue d')"
  using assms
proof (induction srvs arbitrary: n as d)
  case (Cons srv srvs)
  obtain as1 d1 where 1: "planAgent (ids n) now res srv (as, d) = (as1, d1)" by fastforce
  from planAgent_moves [OF Cons.prems(1) 1] have s: "commands_ok (commands d1)"
    "queue_run {ByAdmin} (pendingQueue d) (pendingQueue d1)" by auto
  from Cons.IH [OF s(1), of as1 "Suc n"] Cons.prems(2) 1 s(2) show ?case
    by (auto intro: queue_run_trans)
qed (simp add: queue_run.stay)

lemma applySelfUpdate_moves:
  assumes "queue_ok s"
  shows "moves_queue {ByAdmin} s (snd (handleApplySelfUpdate X r s))"
proof -
  have run: "commands_ok (commands d) \<and> queue_run {ByAdmin} (queueOf s) (pendingQueue d)"
    if "startSelfUpdateRun k i ids now res (Inr srvs) (t0, ap_db s) = (t, d)" for k i ids now res srvs t0 t d
    using that planAgents_moves [OF assms, of ids now res "[]" 0 srvs]
    by (auto simp: startSelfUpdateRun_def planAgents_def Let_def split: prod.splits)
  show ?thesis
    using assms by (auto simp: handleApplySelfUpdate_def Let_def moves_same moves_queue_def queue_run.stay dest!: run split: prod.split)
qed

section \<open>The refinement\<close>

definition actors :: "('c, 'l) ctx \<Rightarrow> httpRequest \<Rightarrow> ('c, 'l) app \<Rightarrow> actor set" where
  "actors X r s =
     (if granted X r = Admin then {ByAdmin} else {})
     \<union> (case serverFromBearer X r (ap_db s) of Inl _ \<Rightarrow> {} | Inr srv \<Rightarrow> {ByAgent (sv_id srv)})"

lemma queue_run_mono: "queue_run A q q' \<Longrightarrow> A \<subseteq> B \<Longrightarrow> queue_run B q q'"
  by (induction rule: queue_run.induct) (auto intro: queue_run.intros)

definition admin_moves :: "('c, 'l) handler \<Rightarrow> bool" where
  "admin_moves h \<longleftrightarrow> (\<forall>X r s. queue_ok s \<longrightarrow> moves_queue {ByAdmin} s (snd (h X r s)))"

lemma admin_moves_handlers [simp]:
  "admin_moves handleRequestUpdate" "admin_moves handleDeleteServer" "admin_moves handleApplySelfUpdate"
  by (simp_all add: admin_moves_def requestUpdate_moves deleteServer_moves applySelfUpdate_moves)

lemma routes_queue: "(m, p, a, h) \<in> set routes \<Longrightarrow>
    keeps_core h \<or> keeps_commands h \<or> a = Admin \<and> admin_moves h \<or> a = Anyone \<and> h = handleAgentCommandResult"
  unfolding routes_def by (simp only: list.set insert_iff empty_iff prod.inject, elim disjE conjE FalseE; simp)

text \<open>C11: the whole API refines the command queue: whatever request is served, the pending commands change by
  steps of the specification, taken only by the actors the request is authenticated as.  So commands come
  from administrators alone and with ids that are not in use, and an agent can do nothing but answer a
  command that is pending for its own host.\<close>

theorem api_refines_queue:
  assumes "commands_ok (commands (ap_db s))"
  shows "commands_ok (commands (ap_db (snd (serve spa X r s))))
    \<and> queue_run (actors X r s) (pendingQueue (ap_db s)) (pendingQueue (ap_db (snd (serve spa X r s))))"
proof -
  let ?q = "\<lambda>i. r\<lparr>rq_claims := None, rq_id := i\<rparr>"
  have goal: "moves_queue (actors X r s) s (snd (dispatch routes spa X r s))"
  proof (cases "findRoute (?q []) (routes :: ('a, 'b) route list)")
    case None
    then show ?thesis using assms by (simp add: dispatch_def moves_same)
  next
    case (Some rt)
    obtain i a h where rt: "rt = (i, a, h)" by (cases rt)
    have run: "snd (dispatch routes spa X r s) = snd (guarded a h X (?q i) s)"
      using Some rt by (simp add: dispatch_def)
    from findRoute_mem [OF Some [unfolded rt]] obtain m p where mem: "(m, p, a, h) \<in> set routes" by blast
    show ?thesis
    proof (cases "a \<le> granted X r")
      case False
      then show ?thesis using assms unfolding run by (simp add: guarded_by_access moves_same)
    next
      case le: True
      then obtain r' where g: "snd (guarded a h X (?q i) s) = snd (h X r' s)"
          and r': "a = Anyone \<longrightarrow> r' = ?q i" by (simp add: guarded_by_access)
      from routes_queue [OF mem] show ?thesis
      proof (elim disjE conjE)
        assume "keeps_core h"
        from keeps_core_commands [OF this] show ?thesis unfolding run g
          using assms by (simp add: keeps_commands_def moves_same)
      next
        assume "keeps_commands h"
        then show ?thesis unfolding run g using assms by (simp add: keeps_commands_def moves_same)
      next
        assume "a = Admin" "admin_moves h"
        then have "moves_queue {ByAdmin} s (snd (h X r' s))" using assms by (simp add: admin_moves_def)
        moreover from le \<open>a = Admin\<close> have "{ByAdmin} \<subseteq> actors X r s"
          by (cases "granted X r") (simp_all add: actors_def)
        ultimately show ?thesis unfolding run g by (auto simp: moves_queue_def intro: queue_run_mono)
      next
        assume h: "a = Anyone" "h = handleAgentCommandResult"
        show ?thesis
        proof (cases "serverFromBearer X r (ap_db s)")
          case (Inl e)
          then show ?thesis unfolding run g using assms h r' by (simp add: handleAgentCommandResult_def moves_same)
        next
          case (Inr srv)
          then have "moves_queue {ByAgent (sv_id srv)} s (snd (h X r' s))"
            using commandResult_moves [OF assms, of X "?q i" srv] h r' by simp
          moreover have "{ByAgent (sv_id srv)} \<subseteq> actors X r s" by (simp add: actors_def Inr)
          ultimately show ?thesis unfolding run g by (auto simp: moves_queue_def intro: queue_run_mono)
        qed
      qed
    qed
  qed
  then show ?thesis by (cases "dispatch routes spa X r s") (simp add: moves_queue_def serve_def)
qed

text \<open>The agent of the demonstration server answers its pending command.\<close>

definition answerRequest :: httpRequest where
  "answerRequest = (asAgent (demoRequest ''POST'' ''/api/agent/v1/commands/cmd1/result''))
     \<lparr>rq_body := noBody\<lparr>bd_result := Inr \<lparr>cr_status = ''done'', cr_message = []\<rparr>\<rparr>\<rparr>"

theorem api_refines_queue_witness:
  "pendingQueue demoDB ''srv-a'' = {(''cmd1'', ''update'', ''d-c1'', ''docker.io/library/nginx:1.26'')}
   \<and> commands_ok (commands (ap_db (snd (serve demoSpa demoCtx answerRequest demoApp))))
   \<and> queue_run (actors demoCtx answerRequest demoApp) (pendingQueue (ap_db demoApp))
       (pendingQueue (ap_db (snd (serve demoSpa demoCtx answerRequest demoApp))))"
proof -
  have "commands_ok (commands (ap_db demoApp))"
    by (simp add: commands_ok_def demoApp_def demoDB_def demoCommand_def empty_db_def)
  moreover have "pendingQueue demoDB ''srv-a'' = {(''cmd1'', ''update'', ''d-c1'', ''docker.io/library/nginx:1.26'')}"
    by (simp add: pendingQueue_def ListPendingCommands_def demoDB_def demoCommand_def payloadOf_def empty_db_def)
  ultimately show ?thesis using api_refines_queue [of demoApp demoSpa demoCtx answerRequest] by blast
qed

end
