(* ===== verification/ServerInv.thy ===== *)
theory ServerInv
  imports StoreProps AccessProps
begin

text \<open>
  Invariants of the stored state under the whole HTTP API.  The locale \<open>api_invariant\<close> lists the ways
  in which the handlers write to the store; a property of the database that each of them keeps is kept
  by every request that is served.  It is interpreted on the integrity of the database, on the endpoints
  being encrypted and on the swarm roles of agent hosts; the background rounds of the server keep them too.
\<close>

section \<open>What a handler may do to the database\<close>

definition directRow :: "string \<Rightarrow> endpointSpec \<Rightarrow> server" where
  "directRow name spec = (newServer name)\<lparr>sv_kind := ServerDirect, sv_dockerHost := es_host spec,
     sv_tlsCA := es_tlsCA spec, sv_tlsCert := es_tlsCert spec, sv_tlsKey := es_tlsKey spec, sv_nameCustom := True\<rparr>"

definition agentRow :: "string \<Rightarrow> string \<Rightarrow> server" where
  "agentRow name hash = (newServer name)\<lparr>sv_kind := ServerAgent, sv_tokenHash := hash\<rparr>"

locale api_invariant =
  fixes X :: "('c, 'l) ctx" and P :: "db \<Rightarrow> bool"
  assumes P_setting: "P d \<Longrightarrow> SetSetting k v d = Inr d' \<Longrightarrow> P d'"
    and P_direct: "P d \<Longrightarrow> validateEndpoint X h ca cert key = Inr spec
          \<Longrightarrow> CreateServer i now (directRow name spec) d = Inr (srv, d') \<Longrightarrow> P d'"
    and P_agent: "P d \<Longrightarrow> CreateServer i now (agentRow name hash) d = Inr (srv, d') \<Longrightarrow> P d'"
    and P_rename: "P d \<Longrightarrow> UpdateServerName i name now d = Inr d' \<Longrightarrow> P d'"
    and P_repoint: "P d \<Longrightarrow> validateEndpoint X h ca cert key = Inr spec
          \<Longrightarrow> UpdateServerEndpoint i (es_host spec) (es_tlsCA spec) (es_tlsCert spec) (es_tlsKey spec) now d = Inr d' \<Longrightarrow> P d'"
    and P_delete: "P d \<Longrightarrow> DeleteServerCascade i d = Inr d' \<Longrightarrow> P d'"
    and P_pin: "P d \<Longrightarrow> SetContainerPinned i b d = Inr d' \<Longrightarrow> P d'"
    and P_noUpdate: "P d \<Longrightarrow> DeleteUpdate i d = Inr d' \<Longrightarrow> P d'"
    and P_user: "P d \<Longrightarrow> CreateUser i now u d = Inr (u', d') \<Longrightarrow> P d'"
    and P_role: "P d \<Longrightarrow> UpdateUserRole i q d = Inr d' \<Longrightarrow> P d'"
    and P_password: "P d \<Longrightarrow> UpdateUserPassword i q d = Inr d' \<Longrightarrow> P d'"
    and P_noUser: "P d \<Longrightarrow> DeleteUser i d = Inr d' \<Longrightarrow> P d'"
    and P_event: "P d \<Longrightarrow> AddEvent now e d = Inr d' \<Longrightarrow> P d'"
    and P_command: "P d \<Longrightarrow> CreateCommand i now c d = Inr (c', d') \<Longrightarrow> P d'"
    and P_result: "P d \<Longrightarrow> UpdateCommandResult i st m now d = Inr d' \<Longrightarrow> P d'"
    and P_report: "P d \<Longrightarrow> serverFromBearer X r d = Inr srv
          \<Longrightarrow> ReplaceServerSnapshot ids (reportInfo now srv rep) sts cs d = Inr d' \<Longrightarrow> P d'"
begin

definition keeps :: "('c, 'l) handler \<Rightarrow> bool" where
  "keeps h \<longleftrightarrow> (\<forall>r s. P (ap_db s) \<longrightarrow> P (ap_db (snd (h X r s))))"

lemma event_keeps [simp]: "P (ap_db s) \<Longrightarrow> P (ap_db (addEvent X e s))"
  by (auto simp: addEvent_def split: sum.split intro: P_event)

lemma same_keeps: "(\<And>r s. ap_db (snd (h X r s)) = ap_db s) \<Longrightarrow> keeps h"
  by (simp add: keeps_def)

lemma setJob_db [simp]: "ap_db (setJob X i j s) = ap_db s"
  by (simp add: setJob_def)

lemma spawn_db [simp]: "ap_db (spawn t s) = ap_db s"
  by (simp add: spawn_def)

lemma oidc_db:
  "ensureOIDC X s = (a, s') \<Longrightarrow> ap_db s' = ap_db s"
  "OIDCAuthURL X st s = (b, s') \<Longrightarrow> ap_db s' = ap_db s"
  "ExchangeOIDC X c s = (q, s') \<Longrightarrow> ap_db s' = ap_db s"
proof -
  show e: "ap_db s' = ap_db s" if "ensureOIDC X s = (a, s')" for a s'
    using that by (auto simp: ensureOIDC_def Let_def split: option.splits)
  show "OIDCAuthURL X st s = (b, s') \<Longrightarrow> ap_db s' = ap_db s"
    by (auto simp: OIDCAuthURL_def split: prod.splits sum.splits dest: e)
  show "ExchangeOIDC X c s = (q, s') \<Longrightarrow> ap_db s' = ap_db s"
    by (auto simp: ExchangeOIDC_def split: prod.splits sum.splits dest: e)
qed

lemma api_auth [simp]:
  "keeps handleLogin" "keeps handleLogout" "keeps handleMe" "keeps handleAuthConfig" "keeps handleOIDCURL"
  "keeps handleOIDCCallback"
  by (auto simp: keeps_def handleLogin_def handleLogout_def handleMe_def handleAuthConfig_def handleOIDCURL_def
      handleOIDCCallback_def Let_def dest!: oidc_db split: prod.splits sum.splits option.splits)

lemma api_reads [simp]:
  "keeps handleOverview" "keeps handleAbout" "keeps handleListServers" "keeps handleGetServer"
  "keeps handleListStacks" "keeps handleListContainers" "keeps handleGetContainer"
  "keeps handleContainerReleases" "keeps handleUpdateStatus" "keeps handleListUpdates"
  "keeps handleCheckStatus" "keeps handleSelfUpdate" "keeps handleSelfUpdateRun" "keeps handleListEvents"
  "keeps handleGetSettings" "keeps handleGetAuthSettings" "keeps handleListUsers"
  "keeps handleTestEndpoint" "keeps handleTriggerCheck" "keeps handleAgentCommands"
  by (simp_all add: keeps_def handleOverview_def handleAbout_def handleListServers_def handleGetServer_def
      handleListStacks_def handleListContainers_def handleGetContainer_def handleContainerReleases_def
      handleUpdateStatus_def handleListUpdates_def handleCheckStatus_def handleSelfUpdate_def handleSelfUpdateRun_def
      handleListEvents_def handleGetSettings_def handleGetAuthSettings_def handleListUsers_def handleTestEndpoint_def
      handleTriggerCheck_def handleAgentCommands_def Let_def)

lemma keeps_selfCheck [simp]: "keeps handleCheckSelfUpdate"
  by (simp add: keeps_def handleCheckSelfUpdate_def selfCheck_def Let_def split: prod.split)

lemma settings_db:
  "applyCount req s = (q, s') \<Longrightarrow> ap_db s' = ap_db s"
  "ap_db (applyLists req s) = ap_db s"
  "applyInterval req s = (q, s') \<Longrightarrow> ap_db s' = ap_db s"
  "applySelfUpdate req s = (q, s') \<Longrightarrow> ap_db s' = ap_db s"
  "ap_db (applyTokens req s) = ap_db s"
  by (auto simp: applyCount_def applyLists_def applyInterval_def applySelfUpdate_def applyTokens_def
      setGitHubToken_def setGitLabToken_def Let_def split: option.splits if_splits)

lemma putSettings_keeps: "P d \<Longrightarrow> putSettings kvs d = Inr d' \<Longrightarrow> P d'"
  unfolding putSettings_def by (erule fold_res_inv) (auto split: prod.splits intro: P_setting)

lemma keeps_settings [simp]: "keeps handlePutSettings" "keeps handlePutAuthSettings"
proof -
  show "keeps handlePutSettings"
    unfolding keeps_def handlePutSettings_def saveRuntimeSettings_def
    by (auto simp: settings_db(2,5) Let_def and_then_def dest!: settings_db(1,3,4) intro: putSettings_keeps
        split: sum.split option.split prod.split)
  show "keeps handlePutAuthSettings"
    by (auto simp: keeps_def handlePutAuthSettings_def saveAuthSettings_def InvalidateOIDC_def Let_def
        intro: P_setting split: sum.split option.split)
qed

lemma keeps_users [simp]: "keeps handleCreateUser" "keeps handleUpdateUser" "keeps handleDeleteUser"
  by (auto simp: keeps_def handleCreateUser_def handleUpdateUser_def handleDeleteUser_def patchRole_def patchPassword_def
      Let_def intro: P_user P_role P_password P_noUser split: sum.splits option.splits prod.splits if_splits)

lemma keeps_pin [simp]: "keeps handleSetPin"
  by (auto simp: keeps_def handleSetPin_def intro: P_pin P_noUpdate split: sum.split)

lemma keeps_servers [simp]: "keeps handleCreateServer" "keeps handleUpdateServer" "keeps handleDeleteServer"
proof -
  show "keeps handleCreateServer"
    by (auto simp: keeps_def handleCreateServer_def createDirect_def createAgent_def Let_def
        intro!: event_keeps intro: P_direct [unfolded directRow_def] P_agent [unfolded agentRow_def] split: sum.split)
  show "keeps handleUpdateServer"
    by (auto simp: keeps_def handleUpdateServer_def Let_def intro: P_rename P_repoint split: sum.split)
  show "keeps handleDeleteServer"
    by (auto simp: keeps_def handleDeleteServer_def Let_def intro!: event_keeps intro: P_delete split: sum.split)
qed

lemma keeps_agent [simp]: "keeps handleAgentReport" "keeps handleAgentCommandResult"
proof -
  show "keeps handleAgentReport"
    by (auto simp: keeps_def handleAgentReport_def intro: P_report split: sum.split)
  have job: "ap_db (finishJob X a b c m t) = ap_db t" for a b c m t
    by (simp add: finishJob_def split: sum.split)
  show "keeps handleAgentCommandResult"
    by (auto simp: keeps_def handleAgentCommandResult_def job Let_def intro!: event_keeps intro: P_result
        split: sum.split option.split)
qed

lemma executor_db: "executorFor X srv s = (a, s') \<Longrightarrow> ap_db s' = ap_db s"
  by (auto simp: executorFor_def split: if_splits option.splits sum.splits prod.splits)

lemma keeps_update [simp]: "keeps handleRequestUpdate"
  by (auto simp: keeps_def handleRequestUpdate_def queueLocal_def queueAgent_def Let_def dest!: executor_db
      intro!: event_keeps intro: P_command split: sum.splits option.split prod.split)

lemma planAgent_keeps: "P d \<Longrightarrow> planAgent i now res srv (as, d) = (as', d') \<Longrightarrow> P d'"
  by (auto simp: planAgent_def Let_def intro: P_command split: if_splits sum.splits prod.splits)

lemma planAgents_keeps:
  "P d \<Longrightarrow> foldl (\<lambda>st (k, srv). planAgent (ids k) now res srv st) (as, d) (enumerate n srvs) = (as', d') \<Longrightarrow> P d'"
proof (induction srvs arbitrary: n as d)
  case (Cons srv srvs)
  obtain as1 d1 where 1: "planAgent (ids n) now res srv (as, d) = (as1, d1)"
    by (cases "planAgent (ids n) now res srv (as, d)")
  from Cons.IH [OF planAgent_keeps [OF Cons.prems(1) 1], of as1 "Suc n"] Cons.prems(2) 1 show ?case by simp
qed simp

lemma keeps_apply [simp]: "keeps handleApplySelfUpdate"
proof -
  have run: "P d" if "startSelfUpdateRun k i ids now res (Inr srvs) (t0, d0) = (t, d)" "P d0"
    for k i ids now res srvs t0 t d d0
    using that planAgents_keeps [OF that(2), of ids now res "[]" 0 srvs]
    by (auto simp: startSelfUpdateRun_def planAgents_def Let_def split: prod.splits)
  show ?thesis
    by (auto simp: keeps_def handleApplySelfUpdate_def Let_def dest: run split: prod.split)
qed

lemma routes_keep: "(m, p, a, h) \<in> set routes \<Longrightarrow> keeps h"
  unfolding routes_def by (simp only: list.set insert_iff empty_iff prod.inject, elim disjE conjE FalseE; simp)

lemma serve_keeps:
  assumes "P (ap_db s)"
  shows "P (ap_db (snd (serve spa X r s)))"
proof -
  let ?q = "\<lambda>i. r\<lparr>rq_claims := None, rq_id := i\<rparr>"
  have "P (ap_db (snd (dispatch routes spa X r s)))"
  proof (cases "findRoute (?q []) (routes :: ('c, 'l) route list)")
    case None
    then show ?thesis using assms by (simp add: dispatch_def)
  next
    case (Some rt)
    obtain i a h where rt: "rt = (i, a, h)" by (cases rt)
    from findRoute_mem [OF Some [unfolded rt]] obtain m p where "(m, p, a, h) \<in> set routes" by blast
    then have h: "keeps h" by (rule routes_keep)
    have "snd (dispatch routes spa X r s) = snd (guarded a h X (?q i) s)"
      using Some rt by (simp add: dispatch_def)
    then show ?thesis using h assms by (simp add: guarded_by_access keeps_def)
  qed
  then show ?thesis by (cases "dispatch routes spa X r s") (simp add: serve_def)
qed

end

end
