(* ===== verification/ServerSteps.thy ===== *)
theory ServerSteps
  imports ServerInv UpdaterProps
begin

text \<open>
  The running server as a state machine: requests and the rounds of the background loops, in any order.
  What the locale \<open>server_invariant\<close> asks of a property of the database holds of the integrity of the
  database and of the encryption of the agentless endpoints.
\<close>

section \<open>The steps\<close>

text \<open>\<open>E\<close> says which surroundings (clock, random ids, libraries) a step may find; \<open>u\<close> is the updater.
  The poll of a direct host is two steps, with anything in between: the client is taken from the pool, and
  the snapshot is stored.  The host is the row that was listed or spawned when the poll began, whatever has
  become of that row since.  The goroutines of updates and self-updates touch the jobs, the events and the
  run tracker.\<close>

inductive server_step ::
  "(('c, 'l) ctx \<Rightarrow> bool) \<Rightarrow> ('v, 'e) updater \<Rightarrow> ('c, 'l) app \<Rightarrow> ('c, 'l) app \<Rightarrow> bool" for E u where
  request: "E X \<Longrightarrow> server_step E u s (snd (serve spa X r s))"
| local_host: "E X \<Longrightarrow> x_docker X = Some c \<Longrightarrow> server_step E u s (snapshotLocal X (ask c) s)"
| poll_begins: "E X \<Longrightarrow> server_step E u s (s\<lparr>ap_endpoints := snd (pool_get X srv (ap_endpoints s))\<rparr>)"
| poll_stores: "E X \<Longrightarrow> server_step E u s
    (s\<lparr>ap_db := storeSnapshot X (directInfo (x_now X) srv (hs_server snap)) snap (ap_db s)\<rparr>)"
| offline: "server_step E u s (s\<lparr>ap_db := markOfflineServers now (ap_db s)\<rparr>)"
| update_check: "E X \<Longrightarrow> runUpdateCheck u X trigger s e = (q, s', e') \<Longrightarrow> server_step E u s s'"
| self_check: "E X \<Longrightarrow> server_step E u s (selfUpdateRound X s)"
| job: "E X \<Longrightarrow> server_step E u s (setJob X i j s)"
| event: "E X \<Longrightarrow> server_step E u s (addEvent X ev s)"
| self_run: "server_step E u s (s\<lparr>ap_tracker := t\<rparr>)"

abbreviation server_runs ::
  "(('c, 'l) ctx \<Rightarrow> bool) \<Rightarrow> ('v, 'e) updater \<Rightarrow> ('c, 'l) app \<Rightarrow> ('c, 'l) app \<Rightarrow> bool" where
  "server_runs E u \<equiv> (server_step E u)\<^sup>*\<^sup>*"

text \<open>A poll that nothing interrupts is such a run.\<close>

lemma snapshotDirect_runs:
  assumes "E X"
  shows "server_runs E u s (snapshotDirect X ask srv s)"
proof -
  obtain q p where g: "pool_get X srv (ap_endpoints s) = (q, p)" by fastforce
  from server_step.poll_begins [of E X u s srv, OF assms] have begins: "server_runs E u s (s\<lparr>ap_endpoints := p\<rparr>)"
    unfolding g snd_conv by (rule r_into_rtranclp)
  show ?thesis
  proof (cases "\<exists>c snap. q = Inr c \<and> ask c = Inr snap")
    case True
    then obtain c snap where "q = Inr c" "ask c = Inr snap" by blast
    with rtranclp.rtrancl_into_rtrancl [OF begins server_step.poll_stores [of E X, OF assms, of u _ srv snap]]
    show ?thesis by (simp add: snapshotDirect_def g)
  next
    case False
    then have "snapshotDirect X ask srv s = s\<lparr>ap_endpoints := p\<rparr>"
      by (auto simp: snapshotDirect_def g split: sum.split)
    with begins show ?thesis by simp
  qed
qed

lemma CheckAll_frame:
  assumes "CheckAll u d e = (r, d', e')"
  shows "cycle_frame UNIV d d' \<and> (db_wf d \<longrightarrow> db_wf d')"
proof (cases "ctxErr (u_world u) e")
  case None
  obtain items seen d1 where fp: "firstPass u (ListContainers all_containers d) ([], [], d) = (items, seen, d1)"
    by (metis prod_cases3)
  obtain r2 cache d2 e2 where fa: "fetchAll u (mapOrder (u_world u) seen) ([], d1, e) = (r2, cache, d2, e2)"
    by (metis prod_cases4)
  have f12: "cycle_frame UNIV d d2" "db_wf d \<longrightarrow> db_wf d2"
    using firstPass_frame [OF fp] fetchAll_frame [OF fa] cycle_frame_trans [of "{}" d d1 d2]
      cycle_frame_mono [of "{}" d d2 UNIV] by simp_all
  show ?thesis
  proof (cases r2)
    case r: None
    then have "secondPass u cache items d2 e2 = (r, d', e')"
      using assms None fp fa by (simp add: CheckAll_def)
    from secondPass_frame [OF this] have "cycle_frame UNIV d2 d'" "db_wf d2 \<longrightarrow> db_wf d'"
      using cycle_frame_mono [of _ d2 d' UNIV] by auto
    then show ?thesis using f12 cycle_frame_trans [of UNIV d d2 d'] by blast
  next
    case (Some x)
    then have "d' = d2" using assms None fp fa by (simp add: CheckAll_def)
    then show ?thesis using f12 by simp
  qed
qed (use assms in \<open>simp add: CheckAll_def\<close>)

section \<open>What is asked of an invariant\<close>

locale server_invariant =
  fixes E :: "('c, 'l) ctx \<Rightarrow> bool" and P :: "db \<Rightarrow> bool"
  assumes api: "E X \<Longrightarrow> api_invariant X P"
    and P_offline: "P d \<Longrightarrow> MarkServerOffline i d = Inr d' \<Longrightarrow> P d'"
    and P_local: "P d \<Longrightarrow> ReplaceServerSnapshot ids (localInfo now i d info) sts cs d = Inr d' \<Longrightarrow> P d'"
    and P_polled: "P d \<Longrightarrow> ReplaceServerSnapshot ids (directInfo now srv info) sts cs d = Inr d' \<Longrightarrow> P d'"
    and P_checked: "P d \<Longrightarrow> cycle_frame UNIV d d' \<Longrightarrow> (db_wf d \<Longrightarrow> db_wf d') \<Longrightarrow> P d'"
begin

lemma offline_keeps: "P d \<Longrightarrow> P (markOfflineServers now d)"
proof -
  have "P (foldl (\<lambda>d srv. if sv_isLocal srv then d
                    else if sv_status srv = ''online'' \<and> now - sv_lastSeen srv > offlineThreshold
                    then (case MarkServerOffline (sv_id srv) d of Inl _ \<Rightarrow> d | Inr d' \<Rightarrow> d')
                    else d) d srvs)" if "P d" for srvs d
    using that
  proof (induction srvs arbitrary: d)
    case (Cons srv srvs)
    obtain d1 where "MarkServerOffline (sv_id srv) d = Inr d1" by (simp add: MarkServerOffline_def)
    then show ?case using Cons P_offline by simp
  qed simp
  then show "P d \<Longrightarrow> P (markOfflineServers now d)" unfolding markOfflineServers_def by blast
qed

lemma step_keeps:
  assumes "server_step E u s s'" and "P (ap_db s)"
  shows "P (ap_db s')"
  using assms
proof (induction rule: server_step.induct)
  case (request X s spa r)
  then show ?case using api_invariant.serve_keeps [OF api] by blast
next
  case (local_host X c s ask)
  then show ?case
    by (auto simp: snapshotLocal_def storeSnapshot_def split: sum.split intro: P_local)
next
  case (poll_begins X s srv)
  then show ?case by simp
next
  case (poll_stores X s srv snap)
  then show ?case
    by (auto simp: storeSnapshot_def split: sum.split intro: P_polled)
next
  case (offline s now)
  then show ?case by (simp add: offline_keeps)
next
  case (update_check X trigger s e q s' e')
  show ?case
  proof (cases "kr_running (ap_checks s)")
    case False
    obtain r d e1 where ch: "CheckAll u (ap_db s) e = (r, d, e1)" by (metis prod_cases3)
    from update_check.hyps(2) have "ap_db s' = d"
      using False ch by (auto simp: runUpdateCheck_def checks_begin_def Let_def split: prod.splits)
    then show ?thesis using CheckAll_frame [OF ch] P_checked [OF update_check.prems] by blast
  qed (use update_check in \<open>simp add: runUpdateCheck_def checks_begin_def\<close>)
next
  case (self_check X s)
  then show ?case by (simp add: selfUpdateRound_def selfCheck_def Let_def split: prod.split)
next
  case (job X s i j)
  then show ?case by (simp add: setJob_def)
next
  case (event X s ev)
  then show ?case using api_invariant.event_keeps [OF api] by blast
qed simp

lemma run_keeps: "server_runs E u s s' \<Longrightarrow> P (ap_db s) \<Longrightarrow> P (ap_db s')"
  by (induction rule: rtranclp_induct) (auto intro: step_keeps)

end

section \<open>The integrity of the database\<close>

lemma wf_api: "api_invariant X db_wf"
  by (unfold_locales; (erule keeps_wf, assumption))

interpretation integrity: server_invariant "\<lambda>_. True" db_wf
  by unfold_locales (auto intro: wf_api keeps_wf)

text \<open>C13: whatever requests are served and whatever the background loops do in between, keys stay unique,
  no two users share a name, no two containers of a host share a Docker id, and every update record
  belongs to a container that exists.\<close>

theorem server_keeps_integrity:
  assumes "server_runs (\<lambda>_. True) u s s'" and "db_wf (ap_db s)"
  shows "db_wf (ap_db s')"
  by (rule integrity.run_keeps [OF assms])

section \<open>Encrypted endpoints\<close>

text \<open>An agentless host without an endpoint cannot be reached at all: Docker's client takes no empty host.\<close>

definition protected :: "('c, 'l) ctx \<Rightarrow> server \<Rightarrow> bool" where
  "protected X srv \<longleftrightarrow> hostIsLoopback X (sv_dockerHost srv) \<or> TLSEnabled srv"

definition encrypted :: "('c, 'l) ctx \<Rightarrow> db \<Rightarrow> bool" where
  "encrypted X d \<longleftrightarrow>
     (\<forall>srv\<in>set (servers d). sv_kind srv = ServerDirect \<longrightarrow> sv_dockerHost srv = [] \<or> protected X srv)"

definition sameNet :: "('c, 'l) ctx \<Rightarrow> ('c, 'l) ctx \<Rightarrow> bool" where
  "sameNet X Y \<longleftrightarrow> x_parseURL Y = x_parseURL X \<and> x_loopbackIP Y = x_loopbackIP X"

lemma sameNet_loopback: "sameNet X Y \<Longrightarrow> hostIsLoopback Y h = hostIsLoopback X h"
  by (simp only: sameNet_def hostIsLoopback_def)

lemma validateEndpoint_encrypted:
  assumes "validateEndpoint X h ca cert key = Inr spec"
  shows "hostIsLoopback X (es_host spec) \<or> specTLSEnabled spec"
proof -
  obtain host where "normalizeDockerHost X h = Inr host"
    using assms by (auto simp: validateEndpoint_def and_then_eq_Inr)
  then show ?thesis
    using assms by (auto simp: validateEndpoint_def Let_def split: if_splits list.splits)
qed

lemma encrypted_cong:
  "servers d' = servers d \<Longrightarrow> encrypted X d' = encrypted X d"
  by (simp add: encrypted_def)

lemma encrypted_upd:
  assumes "encrypted X d"
    and "\<And>srv. sv_kind (f srv) = sv_kind srv \<and> (sv_kind srv = ServerDirect \<longrightarrow>
           sv_dockerHost srv = [] \<or> protected X srv \<longrightarrow> sv_dockerHost (f srv) = [] \<or> protected X (f srv))"
  shows "encrypted X (upd_server i f d)"
  unfolding encrypted_def
proof (intro ballI impI)
  fix srv assume "srv \<in> set (servers (upd_server i f d))" and k: "sv_kind srv = ServerDirect"
  then obtain srv0 where "srv0 \<in> set (servers d)" "srv = (if sv_id srv0 = i then f srv0 else srv0)"
    by (auto simp: upd_server_def elim!: mem_upd_rowsE)
  then show "sv_dockerHost srv = [] \<or> protected X srv"
    using assms k unfolding encrypted_def by (metis (full_types))
qed

lemma encrypted_upsert:
  assumes "encrypted X d"
  shows "encrypted X (upsert_server srv d)"
proof (cases "sv_id srv \<in> set (map sv_id (servers d))")
  case True
  then have "upsert_server srv d = upd_server (sv_id srv)
             (\<lambda>r. r\<lparr>sv_name := (if sv_nameCustom r then sv_name r else sv_name srv),
                sv_status := sv_status srv, sv_lastSeen := sv_lastSeen srv,
                sv_dockerVersion := sv_dockerVersion srv, sv_os := sv_os srv, sv_arch := sv_arch srv,
                sv_cpus := sv_cpus srv, sv_memory := sv_memory srv, sv_labels := sv_labels srv,
                sv_role := (if sv_role srv = RoleUnset then SwarmNone else sv_role srv),
                sv_services := sv_services srv, sv_agentVersion := sv_agentVersion srv,
                sv_agentImage := sv_agentImage srv, sv_agentDigest := sv_agentDigest srv,
                sv_updated := sv_updated srv\<rparr>) d"
    by (simp add: upsert_server_def)
  then show ?thesis
    by (simp only:) (rule encrypted_upd [OF assms], simp add: protected_def TLSEnabled_def)
next
  case False
  then show ?thesis using assms by (auto simp: upsert_server_def encrypted_def)
qed

lemma bearer_row:
  assumes "serverFromBearer X r d = Inr srv"
  obtains row where "row \<in> set (servers d)" and "srv = scanServer row" and "sv_tokenHash row \<noteq> []"
  using assms
  by (auto simp: serverFromBearer_def GetServerByTokenHash_def Let_def dest!: find_eq_Some_mem split: if_splits option.splits)

lemma scanServer_id [simp]: "sv_id (scanServer r) = sv_id r"
  by (simp add: scanServer_def)

lemma encrypted_api: "sameNet X Y \<Longrightarrow> api_invariant Y (encrypted X)"
proof unfold_locales
  fix d ids and srv :: server and now and rep :: report and sts cs d' r
  assume "sameNet X Y" "encrypted X d" and b: "serverFromBearer Y r d = Inr srv"
    and run: "ReplaceServerSnapshot ids (reportInfo now srv rep) sts cs d = Inr d'"
  have "encrypted X (upsert_server (reportInfo now srv rep) d)" by (rule encrypted_upsert [OF \<open>encrypted X d\<close>])
  then show "encrypted X d'" by (simp add: encrypted_cong [OF ReplaceServerSnapshot_tables(1) [OF run]])
next
  fix d h ca cert key spec i now name srv d'
  assume net: "sameNet X Y" and "encrypted X d" and v: "validateEndpoint Y h ca cert key = Inr spec"
    and run: "CreateServer i now (directRow name spec) d = Inr (srv, d')"
  from validateEndpoint_encrypted [OF v] have "hostIsLoopback X (es_host spec) \<or> specTLSEnabled spec"
    by (simp add: sameNet_loopback [OF net])
  then show "encrypted X d'"
    using \<open>encrypted X d\<close> run
    by (auto simp: CreateServer_def Let_def and_then_eq_Inr unique_on_Inr encrypted_def directRow_def newServer_def
        protected_def TLSEnabled_def specTLSEnabled_def empty_server_def)
next
  fix d h ca cert key spec i now d'
  assume net: "sameNet X Y" and "encrypted X d" and v: "validateEndpoint Y h ca cert key = Inr spec"
    and run: "UpdateServerEndpoint i (es_host spec) (es_tlsCA spec) (es_tlsCert spec) (es_tlsKey spec) now d = Inr d'"
  from validateEndpoint_encrypted [OF v] have "hostIsLoopback X (es_host spec) \<or> specTLSEnabled spec"
    by (simp add: sameNet_loopback [OF net])
  then have "encrypted X (upd_server i (\<lambda>r. r\<lparr>sv_dockerHost := es_host spec, sv_tlsCA := es_tlsCA spec,
      sv_tlsCert := es_tlsCert spec, sv_tlsKey := es_tlsKey spec, sv_updated := now\<rparr>) d)"
    using \<open>encrypted X d\<close> by (intro encrypted_upd) (auto simp: protected_def TLSEnabled_def specTLSEnabled_def)
  then show "encrypted X d'" using run by (simp add: UpdateServerEndpoint_def)
next
  fix d i name and now :: gotime and d'
  assume "encrypted X d" and "UpdateServerName i name now d = Inr d'"
  then show "encrypted X d'"
    by (auto simp: UpdateServerName_def protected_def TLSEnabled_def intro!: encrypted_upd)
next
  fix d i d'
  assume "encrypted X d" and "DeleteServerCascade i d = Inr d'"
  then show "encrypted X d'"
    by (auto simp: DeleteServerCascade_def DeleteServer_def delete_containers_def Let_def encrypted_def)
qed (auto simp: encrypted_def SetSetting_def CreateServer_def agentRow_def newServer_def SetContainerPinned_def DeleteUpdate_def
      CreateUser_def UpdateUserRole_def UpdateUserPassword_def DeleteUser_def AddEvent_def CreateCommand_def
      UpdateCommandResult_def Let_def and_then_eq_Inr unique_on_Inr)

interpretation endpoints: server_invariant "sameNet X" "encrypted X" for X
proof (rule server_invariant.intro)
  fix d i d'
  assume "encrypted X d" and "MarkServerOffline i d = Inr d'"
  then show "encrypted X d'"
    by (auto simp: MarkServerOffline_def protected_def TLSEnabled_def intro!: encrypted_upd)
next
  fix d ids now i info sts cs d'
  assume e: "encrypted X d" and run: "ReplaceServerSnapshot ids (localInfo now i d info) sts cs d = Inr d'"
  have "encrypted X (upsert_server (localInfo now i d info) d)" by (rule encrypted_upsert [OF e])
  then show "encrypted X d'" by (simp add: encrypted_cong [OF ReplaceServerSnapshot_tables(1) [OF run]])
next
  fix d srv ids now info sts cs d'
  assume e: "encrypted X d" and run: "ReplaceServerSnapshot ids (directInfo now srv info) sts cs d = Inr d'"
  have "encrypted X (upsert_server (directInfo now srv info) d)" by (rule encrypted_upsert [OF e])
  then show "encrypted X d'" by (simp add: encrypted_cong [OF ReplaceServerSnapshot_tables(1) [OF run]])
qed (auto simp: encrypted_api cycle_frame_def encrypted_def)

text \<open>C14: the Docker API of an agentless host is never used in the clear over the network: in every state the
  server reaches, polls that outlive the deletion or the change of their host included, each direct endpoint that
  Docker's client accepts is on this machine or protected by TLS material.  A row that such a poll brings back has
  no endpoint, and the client refuses an empty host.\<close>

theorem endpoints_stay_encrypted:
  assumes "server_runs (sameNet X) u s s'" and "encrypted X (ap_db s)"
    and "\<And>dc. dc_host dc = [] \<Longrightarrow> \<exists>e. dockerNew X dc = Inl e"
  shows "\<forall>srv\<in>set (servers (ap_db s')). sv_kind srv = ServerDirect \<longrightarrow>
    hostIsLoopback X (sv_dockerHost srv) \<or> TLSEnabled srv
    \<or> sv_dockerHost srv = [] \<and> (\<exists>e. dockerNew X (dockerConfigFor srv) = Inl e)"
proof -
  have "encrypted X (ap_db s')" by (rule endpoints.run_keeps [OF assms(1,2)])
  then show ?thesis using assms(3) by (auto simp: encrypted_def protected_def dockerConfigFor_def)
qed

end
