(* ===== verification/ServerProps.thy ===== *)
theory ServerProps
  imports ServerSteps
begin

text \<open>
  Properties of the running server on its state machine: the witnesses of its invariants, an agentless
  host that comes back after its deletion, and the swarm tasks of agent hosts.
\<close>

section \<open>The invariants at work\<close>

lemma demoApp_wf: "db_wf (ap_db demoApp)"
  by (simp add: db_wf_def table_defs demoApp_def demoDB_def demoAgent_def demoDirect_def demoContainer_def demoUpdate_def
      demoCommand_def empty_db_def empty_server_def empty_container_def)

text \<open>The administrator of the demonstration server pins a container, then the minute of the offline marker
  is over.\<close>

definition demoRunning :: "(nat, nat) app" where
  "demoRunning = (let s = snd (serve demoSpa demoCtx pinRequest demoApp)
     in s\<lparr>ap_db := markOfflineServers (demoNow + 5 * minute) (ap_db s)\<rparr>)"

lemma demo_runs:
  assumes "E demoCtx"
  shows "server_runs E u demoApp demoRunning"
proof -
  have "server_runs E u demoApp (snd (serve demoSpa demoCtx pinRequest demoApp))"
    by (rule r_into_rtranclp) (rule server_step.request [of E demoCtx, OF assms])
  from rtranclp.rtrancl_into_rtrancl [OF this server_step.offline] show ?thesis
    unfolding demoRunning_def Let_def .
qed

theorem server_keeps_integrity_witness:
  "\<forall>u :: (nat, nat) updater. server_runs (\<lambda>_. True) u demoApp demoRunning \<and> db_wf (ap_db demoRunning)"
  using demo_runs [of "\<lambda>_. True"] server_keeps_integrity [OF _ demoApp_wf] by blast

text \<open>The direct host is deleted while it is being polled, and its snapshot comes back.\<close>

definition removeDirect :: httpRequest where
  "removeDirect = asAdmin (demoRequest ''DELETE'' ''/api/v1/servers/srv-d'')"

definition demoSnap :: hostSnapshot where
  "demoSnap = \<lparr>hs_server = empty_server\<lparr>sv_name := ''rack''\<rparr>, hs_stacks = [], hs_containers = []\<rparr>"

definition demoStale :: "(nat, nat) app" where
  "demoStale = (let s1 = demoApp\<lparr>ap_endpoints := snd (pool_get demoCtx demoDirect (ap_endpoints demoApp))\<rparr>;
        s2 = snd (serve demoSpa demoCtx removeDirect s1)
     in s2\<lparr>ap_db := storeSnapshot demoCtx (directInfo (x_now demoCtx) demoDirect (hs_server demoSnap)) demoSnap (ap_db s2)\<rparr>)"

lemma stale_runs:
  assumes "E demoCtx"
  shows "server_runs E u demoApp demoStale"
proof -
  define s1 where "s1 = demoApp\<lparr>ap_endpoints := snd (pool_get demoCtx demoDirect (ap_endpoints demoApp))\<rparr>"
  define s2 where "s2 = snd (serve demoSpa demoCtx removeDirect s1)"
  have "server_step E u demoApp s1" unfolding s1_def by (rule server_step.poll_begins [of E demoCtx, OF assms])
  moreover have "server_step E u s1 s2" unfolding s2_def by (rule server_step.request [of E demoCtx, OF assms])
  moreover have "server_step E u s2 demoStale"
    unfolding demoStale_def Let_def s1_def [symmetric] s2_def [symmetric] by (rule server_step.poll_stores [of E demoCtx, OF assms])
  ultimately show ?thesis by (meson converse_rtranclp_into_rtranclp rtranclp.rtrancl_refl)
qed

lemma stale_row: "find (\<lambda>r. sv_id r = ''srv-d'') (servers (ap_db demoStale)) \<noteq> None"
  by code_simp

theorem endpoints_stay_encrypted_witness:
  "\<forall>u :: (nat, nat) updater. demoDirect \<in> set (servers (ap_db demoApp)) \<and> sv_kind demoDirect = ServerDirect
     \<and> server_runs (sameNet demoCtx) u demoApp demoStale
     \<and> find (\<lambda>r. sv_id r = ''srv-d'') (servers (ap_db demoStale)) \<noteq> None
     \<and> (\<forall>srv\<in>set (servers (ap_db demoStale)). sv_kind srv = ServerDirect \<longrightarrow>
          hostIsLoopback demoCtx (sv_dockerHost srv) \<or> TLSEnabled srv
          \<or> sv_dockerHost srv = [] \<and> (\<exists>e. dockerNew demoCtx (dockerConfigFor srv) = Inl e))"
proof -
  have "encrypted demoCtx (ap_db demoApp)"
    by (simp add: encrypted_def protected_def demoApp_def demoDB_def demoAgent_def demoDirect_def TLSEnabled_def empty_db_def)
  moreover have "\<exists>e. dockerNew demoCtx dc = Inl e" if "dc_host dc = []" for dc using that by (simp add: demoCtx_def)
  moreover have "server_runs (sameNet demoCtx) u demoApp demoStale" for u :: "(nat, nat) updater"
    by (rule stale_runs) (simp add: sameNet_def)
  moreover have "demoDirect \<in> set (servers (ap_db demoApp))" by (simp add: demoApp_def demoDB_def)
  moreover have "sv_kind demoDirect = ServerDirect" by (simp add: demoDirect_def)
  ultimately show ?thesis using endpoints_stay_encrypted [of demoCtx _ demoApp demoStale] stale_row by blast
qed

section \<open>A deleted host that is being polled\<close>

lemma deleted_server_db:
  assumes "GetServer (rq_id r) (ap_db s) = Inr srv0" and "\<not> sv_isLocal srv0"
  shows "\<exists>d. DeleteServerCascade (rq_id r) (ap_db s) = Inr d
    \<and> servers (ap_db (snd (handleDeleteServer X r s))) = servers d
    \<and> ap_endpoints (snd (handleDeleteServer X r s)) (rq_id r) = None"
proof -
  obtain d where d: "DeleteServerCascade (rq_id r) (ap_db s) = Inr d"
    by (simp add: DeleteServerCascade_def DeleteServer_def Let_def)
  then show ?thesis
    using assms by (simp add: handleDeleteServer_def addEvent_def AddEvent_def pool_forget_def Let_def)
qed

lemma deleted_gone: "DeleteServerCascade i d = Inr d' \<Longrightarrow> i \<notin> sv_id ` set (servers d')"
  by (auto simp: DeleteServerCascade_def DeleteServer_def Let_def)

text \<open>C40: an agentless host that is deleted while the snapshot loop is polling it comes back: the snapshot is
  stored as a new server of that id, without its endpoint and its TLS files.\<close>

theorem polled_host_survives_deletion:
  assumes "GetServer (sv_id srv) (ap_db s) = Inr srv" and "sv_kind srv = ServerDirect" and "\<not> sv_isLocal srv"
    and "rq_id r = sv_id srv" and "dockerNew X (dockerConfigFor srv) = Inr c" and "ask c = Inr snap"
    and "ReplaceServerSnapshot (x_ids X) (directInfo (x_now X) srv (hs_server snap)) (hs_stacks snap) (hs_containers snap)
           (ap_db (snd (handleDeleteServer Y r s))) = Inr d"
  shows "\<exists>row\<in>set (servers (ap_db (snapshotDirect X ask srv (snd (handleDeleteServer Y r s))))).
    sv_id row = sv_id srv \<and> sv_kind row = ServerDirect \<and> sv_dockerHost row = [] \<and> \<not> TLSEnabled row"
proof -
  let ?s = "snd (handleDeleteServer Y r s)" and ?info = "directInfo (x_now X) srv (hs_server snap)"
  from deleted_server_db [of r s srv Y] assms(1,3,4) obtain d0 where
    "DeleteServerCascade (sv_id srv) (ap_db s) = Inr d0" "servers (ap_db ?s) = servers d0"
    and pool: "ap_endpoints ?s (sv_id srv) = None" by auto
  with deleted_gone have gone: "sv_id srv \<notin> set (map sv_id (servers (ap_db ?s)))" by auto
  have id: "sv_id ?info = sv_id srv" by (simp add: directInfo_def)
  from gone have "servers d = servers (ap_db ?s) @ [?info\<lparr>sv_dockerHost := [], sv_tlsCA := [], sv_tlsCert := [],
      sv_tlsKey := [], sv_tokenHash := [], sv_role := (if sv_role ?info = RoleUnset then SwarmNone else sv_role ?info)\<rparr>]"
    unfolding ReplaceServerSnapshot_tables(1) [OF assms(7)] upsert_server_def id by simp
  moreover have "ap_db (snapshotDirect X ask srv ?s) = d"
    by (simp add: snapshotDirect_def pool_get_def pool Let_def assms(5,6,7) storeSnapshot_def)
  ultimately show ?thesis by (simp add: directInfo_def TLSEnabled_def)
qed

definition deleteRequest :: httpRequest where
  "deleteRequest = (asAdmin (demoRequest ''DELETE'' ''/api/v1/servers/srv-d''))\<lparr>rq_id := ''srv-d''\<rparr>"

theorem polled_host_survives_deletion_witness:
  "\<exists>row\<in>set (servers (ap_db (snapshotDirect demoCtx
        (\<lambda>_. Inr demoSnap) demoDirect
        (snd (handleDeleteServer demoCtx deleteRequest demoApp))))).
     sv_id row = ''srv-d'' \<and> sv_kind row = ServerDirect \<and> sv_dockerHost row = [] \<and> \<not> TLSEnabled row"
proof -
  have id: "sv_id demoDirect = ''srv-d''" by (simp add: demoDirect_def)
  have get: "GetServer (sv_id demoDirect) (ap_db demoApp) = Inr demoDirect"
    by (simp add: GetServer_def demoApp_def demoDB_def demoAgent_def demoDirect_def scanServer_def empty_server_def)
  have kind: "sv_kind demoDirect = ServerDirect" "\<not> sv_isLocal demoDirect"
    by (simp_all add: demoDirect_def empty_server_def)
  have "dockerNew demoCtx (dockerConfigFor demoDirect) = Inr 19"
    by (simp add: demoCtx_def dockerConfigFor_def demoDirect_def)
  moreover have snap: "hs_stacks demoSnap = []" "hs_containers demoSnap = []" by (simp_all add: demoSnap_def)
  have "ReplaceServerSnapshot ids (directInfo now demoDirect (hs_server demoSnap)) [] [] d \<noteq> Inl e" for ids now d e
    by (simp add: ReplaceServerSnapshot_def snapshot_stacks_def snapshot_containers_def and_then_def Let_def)
  then obtain d where "ReplaceServerSnapshot (x_ids demoCtx) (directInfo (x_now demoCtx) demoDirect (hs_server demoSnap))
      (hs_stacks demoSnap) (hs_containers demoSnap) (ap_db (snd (handleDeleteServer demoCtx deleteRequest demoApp))) = Inr d"
    unfolding snap by (metis sumE)
  moreover have "rq_id deleteRequest = sv_id demoDirect" by (simp add: deleteRequest_def id)
  ultimately show ?thesis
    using polled_host_survives_deletion [OF get kind, of deleteRequest demoCtx 19 "\<lambda>_. Inr demoSnap" demoSnap demoCtx d]
    unfolding id by blast
qed

section \<open>Swarm tasks of agent hosts\<close>

text \<open>What the row reads as is an agent without a role.\<close>

definition norole :: "server \<Rightarrow> bool" where
  "norole row \<longleftrightarrow> (sv_kind (scanServer row) = ServerAgent \<longrightarrow> sv_role (scanServer row) = SwarmNone)"

definition roleless :: "db \<Rightarrow> bool" where
  "roleless d \<longleftrightarrow> distinct (map sv_id (servers d)) \<and> (\<forall>srv\<in>set (servers d). norole srv)"

lemma roleless_upd:
  assumes "roleless d"
    and "\<And>row. row \<in> set (servers d) \<Longrightarrow> sv_id row = i \<Longrightarrow> sv_id (f row) = i \<and> (norole row \<longrightarrow> norole (f row))"
  shows "roleless (upd_server i f d)"
  unfolding roleless_def
proof (intro conjI ballI)
  have "map sv_id (upd_rows (\<lambda>r. sv_id r = i) f (servers d)) = map sv_id (servers d)"
    using assms(2) by (auto simp: upd_rows_def)
  then show "distinct (map sv_id (servers (upd_server i f d)))"
    using assms(1) by (simp add: upd_server_def roleless_def)
  fix srv assume "srv \<in> set (servers (upd_server i f d))"
  then obtain row where "row \<in> set (servers d)" "srv = (if sv_id row = i then f row else row)"
    by (auto simp: upd_server_def elim!: mem_upd_rowsE)
  then show "norole srv" using assms unfolding roleless_def by auto
qed

lemma roleless_cong: "servers d' = servers d \<Longrightarrow> roleless d' = roleless d"
  by (simp add: roleless_def)

lemma roleless_create:
  assumes "roleless d" and "sv_role srv0 = RoleUnset" and "CreateServer i now srv0 d = Inr (srv, d')"
  shows "roleless d'"
proof -
  from assms(3) obtain row where "servers d' = servers d @ [row]" "sv_role row = SwarmNone" "sv_id row \<notin> sv_id ` set (servers d)"
    by (auto simp: CreateServer_def Let_def and_then_eq_Inr unique_on_Inr)
  then show ?thesis using assms(1) by (simp add: roleless_def norole_def scanServer_def)
qed

lemma roleless_report:
  assumes rl: "roleless d" and b: "serverFromBearer X r d = Inr srv"
    and run: "ReplaceServerSnapshot ids (reportInfo now srv rep) sts cs d = Inr d'"
  shows "roleless d'"
proof -
  obtain row where row: "row \<in> set (servers d)" "srv = scanServer row" using b by (rule bearer_row)
  have id: "sv_id (reportInfo now srv rep) = sv_id row" and role: "sv_role (reportInfo now srv rep) = sv_role srv"
    by (simp_all add: reportInfo_def row(2) Let_def)
  have same: "x = row" if "x \<in> set (servers d)" "sv_id x = sv_id row" for x
    using rl row(1) that unfolding roleless_def distinct_map by (meson inj_onD)
  have "roleless (upsert_server (reportInfo now srv rep) d)"
    unfolding upsert_server_def id role using row(1)
    by (auto intro!: roleless_upd [OF rl] dest!: same simp: row(2) scanServer_def norole_def)
  then show ?thesis by (simp add: roleless_cong [OF ReplaceServerSnapshot_tables(1) [OF run]])
qed

lemma roleless_delete: "roleless d \<Longrightarrow> DeleteServerCascade i d = Inr d' \<Longrightarrow> roleless d'"
  by (auto simp: DeleteServerCascade_def DeleteServer_def delete_containers_def roleless_def distinct_map_filter_keep Let_def)

lemma roleless_servers:
  "roleless d \<Longrightarrow> UpdateServerName i name now d = Inr d' \<Longrightarrow> roleless d'"
  "roleless d \<Longrightarrow> UpdateServerEndpoint i h a b c now d = Inr d' \<Longrightarrow> roleless d'"
  by (auto simp: UpdateServerName_def UpdateServerEndpoint_def norole_def scanServer_def intro!: roleless_upd)

lemma roleless_others:
  "SetSetting k v d = Inr d' \<Longrightarrow> servers d' = servers d"
  "SetContainerPinned i p d = Inr d' \<Longrightarrow> servers d' = servers d"
  "DeleteUpdate i d = Inr d' \<Longrightarrow> servers d' = servers d"
  "CreateUser i now u d = Inr (u', d') \<Longrightarrow> servers d' = servers d"
  "UpdateUserRole i q d = Inr d' \<Longrightarrow> servers d' = servers d"
  "UpdateUserPassword i q d = Inr d' \<Longrightarrow> servers d' = servers d"
  "DeleteUser i d = Inr d' \<Longrightarrow> servers d' = servers d"
  "AddEvent now e d = Inr d' \<Longrightarrow> servers d' = servers d"
  "CreateCommand i now c d = Inr (c', d') \<Longrightarrow> servers d' = servers d"
  "UpdateCommandResult i st m now d = Inr d' \<Longrightarrow> servers d' = servers d"
  by (auto simp: SetSetting_def SetContainerPinned_def DeleteUpdate_def CreateUser_def UpdateUserRole_def
      UpdateUserPassword_def DeleteUser_def AddEvent_def CreateCommand_def UpdateCommandResult_def Let_def
      and_then_eq_Inr unique_on_Inr)

lemma roleless_new [simp]: "sv_role (directRow name spec) = RoleUnset" "sv_role (agentRow name hash) = RoleUnset"
  by (simp_all add: directRow_def agentRow_def newServer_def empty_server_def)

interpretation swarmless: api_invariant X roleless for X
  by unfold_locales (auto dest: roleless_others [THEN roleless_cong]
      intro: roleless_report roleless_delete roleless_servers
      roleless_create [OF _ roleless_new(1)] roleless_create [OF _ roleless_new(2)])

definition serve_all ::
  "(httpRequest \<Rightarrow> httpResponse) \<Rightarrow> (('c, 'l) ctx \<times> httpRequest) list \<Rightarrow> ('c, 'l) app \<Rightarrow> ('c, 'l) app" where
  "serve_all spa = fold (\<lambda>(X, r) s. snd (serve spa X r s))"

lemma serve_all_roleless: "roleless (ap_db s) \<Longrightarrow> roleless (ap_db (serve_all spa rs s))"
  unfolding serve_all_def by (induction rs arbitrary: s) (auto simp: swarmless.serve_keeps)

text \<open>C39: the server never learns that an agent's host is a swarm manager: agent rows are created without a role
  and every report puts the stored role back.  So no matter what the agents report, an update of a swarm
  task on an agent host is always refused as not being on a manager.\<close>

theorem agent_swarm_tasks_refused:
  assumes "roleless (ap_db s0)" and "s = serve_all spa rs s0"
    and "dc_enableRecreate (wc_docker (x_cfg X))"
    and "GetContainer (rq_id r) (ap_db s) = Inr cw" and "cu_update cw = Some u"
    and "ct_swarmTaskID (cu_container cw) \<noteq> []"
    and "GetServer (ct_server (cu_container cw)) (ap_db s) = Inr srv" and "sv_kind srv = ServerAgent"
  shows "handleRequestUpdate X r s =
    (writeError 409 (''cannot update '' @ ct_name (cu_container cw)
       @ '': it is a swarm task, but the host is not currently reporting as a swarm manager.''), s)"
proof -
  from serve_all_roleless [OF assms(1)] have rl: "roleless (ap_db s)" unfolding assms(2) .
  from assms(7) obtain row where row: "row \<in> set (servers (ap_db s))" "srv = scanServer row"
    by (auto simp: GetServer_def dest!: find_eq_Some_mem split: option.splits)
  have "sv_role srv = SwarmNone"
    using rl row assms(8) by (auto simp: roleless_def norole_def)
  then have "updateBlockedReason (cu_container cw) (Some srv) = ''cannot update '' @ ct_name (cu_container cw)
       @ '': it is a swarm task, but the host is not currently reporting as a swarm manager.''"
    using assms(6) by (simp add: updateBlockedReason_def)
  then show ?thesis using assms(3-5,7) by (simp add: handleRequestUpdate_def)
qed

text \<open>The agent reports a swarm manager with a task that has an update.\<close>

definition swarmReport :: httpRequest where
  "swarmReport = (asAgent (demoRequest ''POST'' ''/api/agent/v1/report''))\<lparr>rq_body := noBody\<lparr>bd_report := Inr
     \<lparr>rpt_agentName = ''nas'', rpt_version = ''1.0.0'',
      rpt_info = empty_server\<lparr>sv_name := ''nas'', sv_role := SwarmManager, sv_services := True\<rparr>, rpt_selfImage = [],
      rpt_selfDigest = [], rpt_stacks = [],
      rpt_containers = [(demoContainer [] [])\<lparr>ct_dockerID := ''d-c1'', ct_swarmTaskID := ''task1''\<rparr>]\<rparr>\<rparr>\<rparr>"

definition swarmApp :: "(nat, nat) app" where
  "swarmApp = serve_all demoSpa [(demoCtx, swarmReport)] demoApp"

lemma swarm_container:
  "case GetContainer ''c1'' (ap_db swarmApp) of Inl _ \<Rightarrow> False
   | Inr cw \<Rightarrow> cu_update cw \<noteq> None \<and> ct_swarmTaskID (cu_container cw) = ''task1'' \<and> ct_server (cu_container cw) = ''srv-a''
       \<and> ct_name (cu_container cw) = ''web''"
  by code_simp

lemma swarm_server:
  "case GetServer ''srv-a'' (ap_db swarmApp) of Inl _ \<Rightarrow> False | Inr srv \<Rightarrow> sv_kind srv = ServerAgent"
  by code_simp

theorem agent_swarm_tasks_refused_witness:
  "handleRequestUpdate demoCtx ((demoRequest ''POST'' [])\<lparr>rq_id := ''c1''\<rparr>) swarmApp =
    (writeError 409 ''cannot update web: it is a swarm task, but the host is not currently reporting as a swarm manager.'',
     swarmApp)"
proof -
  obtain cw u where cw: "GetContainer ''c1'' (ap_db swarmApp) = Inr cw" "cu_update cw = Some u"
    "ct_swarmTaskID (cu_container cw) = ''task1''" "ct_server (cu_container cw) = ''srv-a''" "ct_name (cu_container cw) = ''web''"
    using swarm_container by (auto split: sum.splits)
  obtain srv where srv: "GetServer ''srv-a'' (ap_db swarmApp) = Inr srv" "sv_kind srv = ServerAgent"
    using swarm_server by (auto split: sum.splits)
  have "roleless (ap_db demoApp)"
    by (simp add: roleless_def norole_def scanServer_def demoApp_def demoDB_def demoAgent_def demoDirect_def empty_db_def)
  from agent_swarm_tasks_refused [OF this swarmApp_def, of demoCtx "(demoRequest ''POST'' [])\<lparr>rq_id := ''c1''\<rparr>" cw u srv]
  show ?thesis using cw srv by (simp add: demoCtx_def Default_def)
qed

end
