(* ===== verification/Agent.thy ===== *)
theory Agent
  imports Jobs SelfHelper
begin

text \<open>
  The agent, \<open>internal/agent/agent.go\<close>: it reports snapshots of its host to the server, polls the
  server for commands, executes them and posts the results.  The Docker Engine, the name the process
  finds as its hostname and the HTTP client are the record \<open>agentEnv\<close> over the state \<open>'w\<close> of
  the world.
\<close>

section \<open>The client side of HTTP\<close>

datatype agentBody = NoBody | ReportBody report | ResultBody commandResult

record agentRequest =
  aq_method :: string
  aq_url :: string
  aq_authorization :: string
  aq_body :: agentBody

text \<open>What can go wrong, as far as \<open>errors.As\<close> and \<open>errors.Is\<close> tell it apart: an answer of the
  server, an error of the network, the three errno-like values of \<open>transient\<close>, anything else.\<close>

datatype agentErr =
    ServerError (se_status: int) (se_message: string)
  | NetError string
  | ConnRefused string
  | ConnReset string
  | EndOfFile string
  | OtherError string

fun ErrorText :: "agentErr \<Rightarrow> string" where
  "ErrorText (ServerError n m) =
     (if m \<noteq> [] then ''server returned '' @ intText n @ '': '' @ m else ''server returned '' @ intText n)"
| "ErrorText (NetError m) = m"
| "ErrorText (ConnRefused m) = m"
| "ErrorText (ConnReset m) = m"
| "ErrorText (EndOfFile m) = m"
| "ErrorText (OtherError m) = m"

definition Unavailable :: "int \<Rightarrow> bool" where
  "Unavailable n \<longleftrightarrow> n = 502 \<or> n = 503 \<or> n = 504"

text \<open>The message of an answer: the field \<open>error\<close> of a JSON object, when it is one.\<close>

definition serverError :: "httpResponse \<Rightarrow> agentErr" where
  "serverError resp =
     ServerError (rs_status resp)
       (case rs_body resp of
          Some (JsonBody (JObj kvs)) \<Rightarrow> (case map_of kvs ''error'' of Some (JStr m) \<Rightarrow> trimSpace m | _ \<Rightarrow> [])
        | _ \<Rightarrow> [])"

fun transient :: "agentErr \<Rightarrow> bool" where
  "transient (ServerError n m) = Unavailable n"
| "transient (OtherError m) = False"
| "transient _ = True"

datatype logLevel = LogDebug | LogInfo | LogWarn | LogError

definition reportFailure :: "string \<Rightarrow> agentErr \<Rightarrow> logLevel \<times> string" where
  "reportFailure what e =
     (if transient e then (LogWarn, what @ '': server unavailable, will retry'') else (LogError, what))"

section \<open>The agent\<close>

record agent =
  ag_cfg :: agentConfig
  ag_version :: string
  ag_dockerHost :: string
  ag_selfImage :: string
  ag_selfDigest :: string
  ag_log :: "(logLevel \<times> string) list"

record 'w agentEnv =
  ae_daemon :: "'w daemon"
  ae_fuel :: nat
  ae_hostname :: "err + string"
  ae_repoDigests :: "string \<Rightarrow> 'w \<Rightarrow> (err + string list) \<times> 'w"
  ae_snapshot :: "'w \<Rightarrow> (err + hostSnapshot) \<times> 'w"
  ae_send :: "agentRequest \<Rightarrow> 'w \<Rightarrow> (agentErr + httpResponse) \<times> 'w"

definition newAgent :: "agentConfig \<Rightarrow> string \<Rightarrow> string \<Rightarrow> agent" where
  "newAgent cfg version dockerHost = \<lparr>ag_cfg = cfg, ag_version = version, ag_dockerHost = dockerHost,
     ag_selfImage = [], ag_selfDigest = [], ag_log = []\<rparr>"

definition logged :: "logLevel \<times> string \<Rightarrow> agent \<Rightarrow> agent" where
  "logged l a = a\<lparr>ag_log := ag_log a @ [l]\<rparr>"

definition agentURL :: "agent \<Rightarrow> string \<Rightarrow> string" where
  "agentURL a path = trimSuffix (ac_serverURL (ag_cfg a)) ''/'' @ path"

definition postJSON ::
  "'w agentEnv \<Rightarrow> agent \<Rightarrow> string \<Rightarrow> agentBody \<Rightarrow> 'w \<Rightarrow> agentErr option \<times> 'w" where
  "postJSON E a path b w =
     (case ae_send E \<lparr>aq_method = ''POST'', aq_url = agentURL a path,
             aq_authorization = ''Bearer '' @ ac_token (ag_cfg a), aq_body = b\<rparr> w of
        (Inl e, w1) \<Rightarrow> (Some e, w1)
      | (Inr resp, w1) \<Rightarrow> (if rs_status resp \<ge> 300 then Some (serverError resp) else None, w1))"

text \<open>Decoding the answer: it has to be a list of commands.\<close>

fun decodeCommand :: "json \<Rightarrow> protocolCommand option" where
  "decodeCommand (JCommand c) = Some c"
| "decodeCommand _ = None"

definition decodeCommands :: "content option \<Rightarrow> protocolCommand list option" where
  "decodeCommands j =
     (case j of
        Some (JsonBody (JList js)) \<Rightarrow> those (map decodeCommand js)
      | _ \<Rightarrow> None)"

definition getCommands ::
  "'w agentEnv \<Rightarrow> agent \<Rightarrow> 'w \<Rightarrow> (agentErr + protocolCommand list) \<times> 'w" where
  "getCommands E a w =
     (case ae_send E \<lparr>aq_method = ''GET'', aq_url = agentURL a ''/api/agent/v1/commands'',
             aq_authorization = ''Bearer '' @ ac_token (ag_cfg a), aq_body = NoBody\<rparr> w of
        (Inl e, w1) \<Rightarrow> (Inl e, w1)
      | (Inr resp, w1) \<Rightarrow>
          (if rs_status resp \<ge> 300 then Inl (serverError resp)
           else (case decodeCommands (rs_body resp) of
                   None \<Rightarrow> Inl (OtherError ''json: cannot decode'') | Some cs \<Rightarrow> Inr cs), w1))"

section \<open>Its own container\<close>

definition resolveSelf :: "'w agentEnv \<Rightarrow> agent \<Rightarrow> 'w \<Rightarrow> (string \<times> string) \<times> agent \<times> 'w" where
  "resolveSelf E a w =
     (let i = SelfContainerID (ae_hostname E) in
      if i = [] then (([], []), a, w)
      else (case SelfImage (ae_daemon E) (ae_repoDigests E) i w of
              (Inl _, w1) \<Rightarrow> (([], []), a, w1)
            | (Inr (img, digest), w1) \<Rightarrow>
                ((img, digest), a\<lparr>ag_selfImage := img, ag_selfDigest := digest\<rparr>, w1)))"

definition agentSelfUpdate :: "'w agentEnv \<Rightarrow> string \<Rightarrow> agent \<Rightarrow> 'w \<Rightarrow> commandResult \<times> agent \<times> 'w" where
  "agentSelfUpdate E target a w =
     (let selfID = SelfContainerID (ae_hostname E) in
      if target = [] then (\<lparr>cr_status = ''failed'', cr_message = ''no target image was given''\<rparr>, a, w)
      else if selfID = []
      then (\<lparr>cr_status = ''failed'',
             cr_message = ''this agent cannot identify its own container, so it cannot update itself''\<rparr>, a, w)
      else
        let (_, a1, w1) = resolveSelf E a w
        in case startSelfUpdate (ae_daemon E) selfID target (ag_dockerHost a1) w1 of
             (Some e, w2) \<Rightarrow>
               (if wraps e = Some AlreadyCurrent
                then \<lparr>cr_status = ''done'', cr_message = ''already running '' @ target\<rparr>
                else \<lparr>cr_status = ''failed'', cr_message = msg e\<rparr>, a1, w2)
           | (None, w2) \<Rightarrow> (\<lparr>cr_status = ''done'', cr_message = ''redeploying onto '' @ target\<rparr>, a1, w2))"

section \<open>Reporting\<close>

definition reportOnce :: "'w agentEnv \<Rightarrow> agent \<Rightarrow> 'w \<Rightarrow> agent \<times> 'w" where
  "reportOnce E a w =
     (case ae_snapshot E w of
        (Inl _, w1) \<Rightarrow> (logged (LogError, ''docker snapshot failed'') a, w1)
      | (Inr snap, w1) \<Rightarrow>
          (let ((img, digest), a2, w2) =
                 (if ag_selfImage a = [] then resolveSelf E a w1 else ((ag_selfImage a, ag_selfDigest a), a, w1));
               rep = \<lparr>rpt_agentName = ac_name (ag_cfg a), rpt_version = ag_version a, rpt_info = hs_server snap,
                      rpt_selfImage = img, rpt_selfDigest = digest, rpt_stacks = hs_stacks snap,
                      rpt_containers = hs_containers snap\<rparr>
           in case postJSON E a2 ''/api/agent/v1/report'' (ReportBody rep) w2 of
                (Some e, w3) \<Rightarrow> (logged (reportFailure ''report failed'' e) a2, w3)
              | (None, w3) \<Rightarrow> (logged (LogDebug, ''reported'') a2, w3)))"

section \<open>Executing commands\<close>

text \<open>What a command comes to: \<open>None\<close> when the update does not return within the fuel, \<open>Inl\<close> when it
  panics, which ends the process.\<close>

definition runCommand ::
  "'w agentEnv \<Rightarrow> protocolCommand \<Rightarrow> agent \<Rightarrow> 'w \<Rightarrow> ('w + commandResult \<times> agent \<times> 'w) option" where
  "runCommand E cmd a w =
     (if pc_kind cmd = ''update''
      then (case recreateContainer (ae_daemon E) (ae_fuel E) (pc_container cmd) (pc_target cmd) None w of
              None \<Rightarrow> None
            | Some (Panicked, w1) \<Rightarrow> Some (Inl w1)
            | Some (Failed e, w1) \<Rightarrow> Some (Inr (\<lparr>cr_status = ''failed'', cr_message = msg e\<rparr>, a, w1))
            | Some (Done, w1) \<Rightarrow>
                Some (Inr (\<lparr>cr_status = ''done'', cr_message = ''container recreated with '' @ pc_target cmd\<rparr>, a, w1)))
      else if pc_kind cmd = ''self_update'' then Some (Inr (agentSelfUpdate E (pc_target cmd) a w))
      else Some (Inr (\<lparr>cr_status = ''failed'', cr_message = ''unknown command kind '' @ pc_kind cmd\<rparr>, a, w)))"

definition execute ::
  "'w agentEnv \<Rightarrow> protocolCommand \<Rightarrow> agent \<Rightarrow> 'w \<Rightarrow> ('w + agentErr option \<times> agent \<times> 'w) option" where
  "execute E cmd a w =
     (case runCommand E cmd a w of
        None \<Rightarrow> None
      | Some (Inl w1) \<Rightarrow> Some (Inl w1)
      | Some (Inr (res, a1, w1)) \<Rightarrow>
          (let (e, w2) = postJSON E a1 (''/api/agent/v1/commands/'' @ pc_id cmd @ ''/result'') (ResultBody res) w1
           in Some (Inr (e, a1, w2))))"

fun executeAll ::
  "'w agentEnv \<Rightarrow> protocolCommand list \<Rightarrow> agent \<Rightarrow> 'w \<Rightarrow> ('w + agent \<times> 'w) option" where
  "executeAll E [] a w = Some (Inr (a, w))"
| "executeAll E (cmd # cmds) a w =
     (case execute E cmd a w of
        None \<Rightarrow> None
      | Some (Inl w1) \<Rightarrow> Some (Inl w1)
      | Some (Inr (e, a1, w1)) \<Rightarrow>
          executeAll E cmds (case e of None \<Rightarrow> a1 | Some _ \<Rightarrow> logged (LogError, ''command execution failed'') a1) w1)"

definition pollCommands :: "'w agentEnv \<Rightarrow> agent \<Rightarrow> 'w \<Rightarrow> ('w + agent \<times> 'w) option" where
  "pollCommands E a w =
     (case getCommands E a w of
        (Inl e, w1) \<Rightarrow> Some (Inr (logged (reportFailure ''command poll failed'' e) a, w1))
      | (Inr cmds, w1) \<Rightarrow> executeAll E cmds a w1)"

section \<open>The loop\<close>

definition reportEvery :: "agentConfig \<Rightarrow> int" where
  "reportEvery cfg = (if ac_interval cfg \<le> 0 then 30 * second else ac_interval cfg)"

definition cmdEvery :: "agentConfig \<Rightarrow> int" where
  "cmdEvery cfg = (if reportEvery cfg < 10 * second then reportEvery cfg else 10 * second)"

text \<open>Which ticker fired; the \<open>select\<close> may take them in any order.  \<open>runAgent\<close> is the loop on the
  ticks until the context is cancelled.\<close>

datatype tick = ReportTick | CommandTick

fun agentTicks :: "'w agentEnv \<Rightarrow> tick list \<Rightarrow> agent \<Rightarrow> 'w \<Rightarrow> ('w + agent \<times> 'w) option" where
  "agentTicks E [] a w = Some (Inr (a, w))"
| "agentTicks E (ReportTick # tks) a w = (let (a1, w1) = reportOnce E a w in agentTicks E tks a1 w1)"
| "agentTicks E (CommandTick # tks) a w =
     (case pollCommands E a w of
        None \<Rightarrow> None
      | Some (Inl w1) \<Rightarrow> Some (Inl w1)
      | Some (Inr (a1, w1)) \<Rightarrow> agentTicks E tks a1 w1)"

definition runAgent :: "'w agentEnv \<Rightarrow> tick list \<Rightarrow> agent \<Rightarrow> 'w \<Rightarrow> ('w + agent \<times> 'w) option" where
  "runAgent E ticks a w = (let (a1, w1) = reportOnce E a w in agentTicks E ticks a1 w1)"

end
