(* ===== verification/AgentProps.thy ===== *)
theory AgentProps
  imports Agent QueueProps
begin

text \<open>
  The agent and the server together.  The world is a pair: the state of the server and that of the agent's
  host; the network hands every request of the agent to the server's router.
\<close>

section \<open>The network\<close>

definition emptyBody :: body where
  "emptyBody = (let e = errors_new ''EOF'' in \<lparr>bd_login = Inl e, bd_server = Inl e, bd_pinned = Inl e, bd_force = Inl e,
     bd_settings = Inl e, bd_user = Inl e, bd_userPatch = Inl e, bd_authSettings = Inl e, bd_report = Inl e, bd_result = Inl e\<rparr>)"

fun bodyOf :: "agentBody \<Rightarrow> body" where
  "bodyOf NoBody = emptyBody"
| "bodyOf (ReportBody rep) = emptyBody\<lparr>bd_report := Inr rep\<rparr>"
| "bodyOf (ResultBody res) = emptyBody\<lparr>bd_result := Inr res\<rparr>"

text \<open>The request as the server sees it; \<open>base\<close> is the part of the URL that names the server.\<close>

definition arrives :: "string \<Rightarrow> agentRequest \<Rightarrow> httpRequest" where
  "arrives base q = \<lparr>rq_method = aq_method q, rq_path = trimPrefix (aq_url q) base,
     rq_header = (\<lambda>h. if h = ''Authorization'' then aq_authorization q else []), rq_cookie = (\<lambda>_. None),
     rq_query = (\<lambda>_. []), rq_remoteAddr = ''10.0.0.7:50000'', rq_tls = False, rq_contentLength = 0,
     rq_body = bodyOf (aq_body q), rq_id = [], rq_claims = None\<rparr>"

definition wire ::
  "(('c, 'l) app \<times> 'd \<Rightarrow> ('c, 'l) ctx) \<Rightarrow> (httpRequest \<Rightarrow> httpResponse) \<Rightarrow> string \<Rightarrow> agentRequest
     \<Rightarrow> ('c, 'l) app \<times> 'd \<Rightarrow> (agentErr + httpResponse) \<times> ('c, 'l) app \<times> 'd" where
  "wire X spa base q w =
     (let (resp, s') = serve spa (X w) (arrives base q) (fst w) in (Inr resp, s', snd w))"

text \<open>The agent's host in this world: its Docker works on its own half.\<close>

definition hostCall :: "('d \<Rightarrow> 'r \<times> 'd) \<Rightarrow> 's \<times> 'd \<Rightarrow> 'r \<times> 's \<times> 'd" where
  "hostCall f w = (let (r, d') = f (snd w) in (r, (fst w, d')))"

definition onHost :: "'d daemon \<Rightarrow> ('s \<times> 'd) daemon" where
  "onHost D = \<lparr>ContainerInspect = (\<lambda>c i. hostCall (ContainerInspect D c i)),
     ContainerStop = (\<lambda>c i t. hostCall (ContainerStop D c i t)),
     ContainerRename = (\<lambda>c i n. hostCall (ContainerRename D c i n)),
     ContainerCreate = (\<lambda>c g h q n. hostCall (ContainerCreate D c g h q n)),
     ContainerStart = (\<lambda>c i. hostCall (ContainerStart D c i)), ContainerRemove = (\<lambda>c i. hostCall (ContainerRemove D c i)),
     ContainerList = (\<lambda>c n. hostCall (ContainerList D c n)), ImagePull = (\<lambda>c n. hostCall (ImagePull D c n)),
     ImageInspect = (\<lambda>c n. hostCall (ImageInspect D c n)), ServiceList = (\<lambda>c n. hostCall (ServiceList D c n)),
     ServiceInspect = (\<lambda>c i. hostCall (ServiceInspect D c i)),
     ServiceUpdate = (\<lambda>c i v sp z. hostCall (ServiceUpdate D c i v sp z)),
     Now = (\<lambda>w. Now D (snd w)), SleepOrDone = (\<lambda>t. hostCall (SleepOrDone D t))\<rparr>"

text \<open>What the agent's host promises: a running clock, an inspect that has the configuration, and a Docker that
  answers for the services it updates.\<close>

definition host_answers ::
  "(('c, 'l) app \<times> 'd) agentEnv \<Rightarrow> 'd daemon \<Rightarrow> ('d \<Rightarrow> bool) \<Rightarrow> (string \<Rightarrow> 'd \<Rightarrow> bool) \<Rightarrow> bool" where
  "host_answers E D ready known \<longleftrightarrow>
     ae_daemon E = onHost D \<and> 181 \<le> ae_fuel E \<and> clock_runs D \<and> answers_for D ready known \<and> inspects_config D
   \<and> (\<forall>i s d. ready d \<longrightarrow> (\<exists>r d'. ae_repoDigests E i (s, d) = (r, (s, d')) \<and> ready d'))"

lemma hostCall_eq: "hostCall f (s, d) = (r, w') \<longleftrightarrow> (\<exists>d'. f d = (r, d') \<and> w' = (s, d'))"
  by (auto simp: hostCall_def split: prod.splits)

lemma onHost_clock: "clock_runs D \<Longrightarrow> clock_runs (onHost D)"
  by (auto simp: clock_runs_def onHost_def hostCall_eq)

lemma onHost_config: "inspects_config D \<Longrightarrow> inspects_config (onHost D)"
  by (auto simp: inspects_config_def onHost_def hostCall_eq)

lemma onHost_keep:
  assumes "ops_keep D ready"
  shows "ops_keep (onHost D) (\<lambda>w. fst w = s \<and> ready (snd w))" "ops_keep (onHost D) (\<lambda>w. ready (snd w))"
  using ops_keep_snd [OF assms] by (simp_all add: ops_keep_def onHost_def hostCall_def split_beta)

lemma onHost_answers:
  fixes D :: "'d daemon"
  assumes "answers_for D ready known"
  shows "answers_for (onHost D :: ('s \<times> 'd) daemon) (\<lambda>w. ready (snd w)) (\<lambda>i w. known i (snd w))"
proof -
  have upd: "known i (snd w')" if "ready (snd w)" "ServiceUpdate (onHost D) Caller i v spec opts w = (None, w')"
    for i v spec opts and w w' :: "'s \<times> 'd"
    using that answers_forD(2) [OF assms] by (cases w) (auto simp: onHost_def hostCall_eq)
  have sleep: "known i (snd w')" if "ready (snd w)" "known i (snd w)" "SleepOrDone (onHost D) t w = (None, w')"
    for i t and w w' :: "'s \<times> 'd"
    using that answers_forD(4) [OF assms] by (cases w) (auto simp: onHost_def hostCall_eq)
  have list: "\<exists>svcs w'. ServiceList (onHost D) Caller i w = (Inr svcs, w') \<and> i \<in> sw_id ` set svcs
      \<and> (\<forall>svc\<in>set svcs. sw_id svc = i \<longrightarrow> \<not> completed_short (serviceStateFrom svc)) \<and> known i (snd w')"
    if "ready (snd w)" "known i (snd w)" for i and w :: "'s \<times> 'd"
  proof -
    from answers_forD(3) [OF assms that] obtain svcs d' where l: "ServiceList D Caller i (snd w) = (Inr svcs, d')"
      "i \<in> sw_id ` set svcs" "\<forall>svc\<in>set svcs. sw_id svc = i \<longrightarrow> \<not> completed_short (serviceStateFrom svc)" "known i d'"
      by blast
    have "ServiceList (onHost D) Caller i w = (Inr svcs, (fst w, d'))" by (simp add: onHost_def hostCall_def l(1))
    with l show ?thesis by (intro exI [of _ svcs] exI [of _ "(fst w, d')"]) simp
  qed
  show ?thesis unfolding answers_for_def
  proof (intro conjI)
    show "ops_keep (onHost D) (\<lambda>w. ready (snd w))" by (rule onHost_keep(2) [OF answers_forD(1) [OF assms]])
  qed (use upd sleep list in \<open>blast+\<close>)
qed

lemma host_updates:
  assumes "host_answers E D ready known" and "ready d"
  shows "\<exists>out d'. recreateContainer (ae_daemon E) (ae_fuel E) i img None (s, d) = Some (out, (s, d'))
    \<and> out \<noteq> Panicked \<and> ready d'"
proof -
  note h = assms(1) [unfolded host_answers_def]
  have D: "ae_daemon E = onHost D" and fuel: "181 \<le> ae_fuel E" and clock: "clock_runs D"
    and ans: "answers_for D ready known" and conf: "inspects_config D" using h by simp_all
  have "recreateContainer (onHost D) (ae_fuel E) i img None (s, d) \<noteq> None"
    by (rule recreateContainer_ends [OF onHost_clock [OF clock] onHost_answers [OF ans] _ _ fuel]) (simp_all add: assms(2))
  then obtain out w' where run: "recreateContainer (onHost D) (ae_fuel E) i img None (s, d) = Some (out, w')" by fastforce
  have "fst w' = s \<and> ready (snd w')"
    by (rule recreateContainer_keeps [OF onHost_keep(1) [OF answers_forD(1) [OF ans]] _ _ run]) (simp_all add: assms(2))
  with run recreateContainer_no_panic [OF onHost_config [OF conf] run] show ?thesis
    unfolding D by (cases w') auto
qed

text \<open>The agent's token is the one a server row was registered with, its server answers at the configured
  URL and hashes tokens in one way.\<close>

definition enrolled ::
  "(string \<Rightarrow> string) \<Rightarrow> (('c, 'l) app \<times> 'd \<Rightarrow> ('c, 'l) ctx) \<Rightarrow> (httpRequest \<Rightarrow> httpResponse)
     \<Rightarrow> (('c, 'l) app \<times> 'd) agentEnv \<Rightarrow> agent \<Rightarrow> server \<Rightarrow> ('c, 'l) app \<Rightarrow> bool" where
  "enrolled H X spa E a srv s \<longleftrightarrow>
     ae_send E = wire X spa (trimSuffix (ac_serverURL (ag_cfg a)) ''/'') \<and> (\<forall>w. hashToken (X w) = H)
   \<and> trimSpace (ac_token (ag_cfg a)) \<noteq> []
   \<and> GetServerByTokenHash (H (trimSpace (ac_token (ag_cfg a)))) (ap_db s) = Inr (Some srv)"

section \<open>The agent's requests at the server\<close>

lemma enrolled_bearer:
  assumes "enrolled H X spa E a srv s" and "aq_authorization q = ''Bearer '' @ ac_token (ag_cfg a)"
  shows "serverFromBearer (X w) (arrives base q) (ap_db s) = Inr srv"
proof -
  obtain x y where w: "w = (x, y)" by (cases w)
  show ?thesis
    using assms unfolding enrolled_def serverFromBearer_def arrives_def Let_def w
    by (simp add: trimPrefix_append [of "''Bearer ''", simplified] hasPrefix_append [of "''Bearer ''", simplified])
qed

lemma enrolled_cong:
  assumes "enrolled H X spa E a srv s" and "servers (ap_db s') = servers (ap_db s)" and "ag_cfg a' = ag_cfg a"
  shows "enrolled H X spa E a' srv s'"
  using assms by (simp add: enrolled_def GetServerByTokenHash_def)

lemma segs_commands: "pathSegs ''/api/agent/v1/commands'' = [''api'', ''agent'', ''v1'', ''commands'']"
  by (simp add: pathSegs_def trimPrefix_def)

lemma segs_result:
  assumes "CHR ''/'' \<notin> set i"
  shows "pathSegs (''/api/agent/v1/commands/'' @ i @ ''/result'') = [''api'', ''agent'', ''v1'', ''commands'', i, ''result'']"
  using splitOn_append [OF assms, of "''result''"] by (simp add: pathSegs_def trimPrefix_def)

lemma route_commands:
  assumes "rq_method r = ''GET''" and "rq_path r = ''/api/agent/v1/commands''"
  shows "findRoute r routes = Some ([], Anyone, handleAgentCommands)"
proof -
  have "pathSegs (rq_path r) = [''api'', ''agent'', ''v1'', ''commands'']" by (simp only: assms(2) segs_commands)
  then show ?thesis by (simp add: findRoute_def matchRoute_def routes_def methodMatches_def assms(1))
qed

lemma route_result:
  assumes "rq_method r = ''POST''" and "rq_path r = ''/api/agent/v1/commands/'' @ i @ ''/result''"
    and "CHR ''/'' \<notin> set i" and "i \<noteq> []"
  shows "findRoute r routes = Some (i, Anyone, handleAgentCommandResult)"
proof -
  have "pathSegs (rq_path r) = [''api'', ''agent'', ''v1'', ''commands'', i, ''result'']"
    by (simp only: assms(2) segs_result [OF assms(3)])
  then show ?thesis by (simp add: findRoute_def matchRoute_def routes_def methodMatches_def assms(1,4))
qed

lemma serve_open_route:
  assumes "findRoute (r\<lparr>rq_claims := None, rq_id := []\<rparr>) routes = Some (i, Anyone, h)"
  shows "serve spa X r s = (case h X (r\<lparr>rq_claims := None, rq_id := i\<rparr>) s of (resp, s') \<Rightarrow> (securityHeaders resp, s'))"
  by (simp add: serve_def dispatch_def guarded_def assms)

lemma commands_served:
  fixes X :: "('c, 'l) ctx"
  assumes "rq_method r = ''GET''" and "rq_path r = ''/api/agent/v1/commands''" and "serverFromBearer X r (ap_db s) = Inr srv"
  shows "serve spa X r s = (securityHeaders (writeJSON 200
    (JList (map (JCommand \<circ> toProtocol) (ListPendingCommands (sv_id srv) (ap_db s))))), s)"
proof -
  have "findRoute (r\<lparr>rq_claims := None, rq_id := []\<rparr>) (routes :: ('c, 'l) route list) = Some ([], Anyone, handleAgentCommands)"
    by (rule route_commands) (simp_all add: assms(1,2))
  then show ?thesis by (simp add: serve_open_route handleAgentCommands_def assms(3))
qed

lemma decode_listed: "decodeCommands (Some (JsonBody (JList (map (JCommand \<circ> toProtocol) cs)))) = Some (map toProtocol cs)"
  unfolding decodeCommands_def by (induction cs) simp_all

lemma getCommands_lists:
  assumes "enrolled H X spa E a srv s"
  shows "getCommands E a (s, d) = (Inr (map toProtocol (ListPendingCommands (sv_id srv) (ap_db s))), (s, d))"
proof -
  let ?base = "trimSuffix (ac_serverURL (ag_cfg a)) ''/''"
  define q where "q = \<lparr>aq_method = ''GET'', aq_url = agentURL a ''/api/agent/v1/commands'',
             aq_authorization = ''Bearer '' @ ac_token (ag_cfg a), aq_body = NoBody\<rparr>"
  have "serverFromBearer (X (s, d)) (arrives ?base q) (ap_db s) = Inr srv"
    by (rule enrolled_bearer [OF assms]) (simp add: q_def)
  then have "serve spa (X (s, d)) (arrives ?base q) s = (securityHeaders (writeJSON 200
      (JList (map (JCommand \<circ> toProtocol) (ListPendingCommands (sv_id srv) (ap_db s))))), s)"
    by (intro commands_served) (simp_all add: arrives_def q_def agentURL_def)
  moreover have "ae_send E = wire X spa ?base" using assms unfolding enrolled_def by blast
  ultimately show ?thesis
    unfolding getCommands_def q_def [symmetric]
    by (simp add: wire_def securityHeaders_def writeJSON_def decode_listed)
qed

lemma result_served:
  fixes X :: "('c, 'l) ctx"
  assumes "rq_method r = ''POST''" and "rq_path r = ''/api/agent/v1/commands/'' @ cm_id c @ ''/result''"
    and "serverFromBearer X r (ap_db s) = Inr srv" and "bd_result (rq_body r) = Inr res"
    and "commands_ok (commands (ap_db s))" and "c \<in> set (ListPendingCommands (sv_id srv) (ap_db s))"
    and "cm_id c \<noteq> []" and "CHR ''/'' \<notin> set (cm_id c)"
  shows "\<exists>s'. serve spa X r s = (securityHeaders okJSON, s') \<and> servers (ap_db s') = servers (ap_db s)
    \<and> commands (ap_db s')
      = commands (finishCommand (x_now X) (cm_id c) (resultStatus (cr_status res)) (cr_message res) (ap_db s))"
proof -
  have "findRoute (r\<lparr>rq_claims := None, rq_id := []\<rparr>) (routes :: ('c, 'l) route list)
      = Some (cm_id c, Anyone, handleAgentCommandResult)"
    by (rule route_result) (simp_all add: assms(1,2,7,8))
  note run = serve_open_route [OF this]
  have "distinct (map cm_id (ListPendingCommands (sv_id srv) (ap_db s)))"
    using assms(5) by (auto simp: ListPendingCommands_def commands_ok_def distinct_map intro: inj_on_subset)
  then have found: "find (\<lambda>x. cm_id x = cm_id c) (ListPendingCommands (sv_id srv) (ap_db s)) = Some c"
    using assms(6) by (rule find_by_key)
  have job: "ap_db (finishJob X x y z m t) = ap_db t" for x y z m t
    by (simp add: finishJob_def split: sum.split)
  have ev: "servers (ap_db (addEvent X e t)) = servers (ap_db t)" for e t
    by (simp add: addEvent_def AddEvent_def Let_def)
  show ?thesis
    by (simp add: run handleAgentCommandResult_def assms(3,4) found Let_def UpdateCommandResult_def finishCommand_def job ev)
qed

lemma result_arrives:
  assumes "enrolled H X spa E a srv s" and "commands_ok (commands (ap_db s))"
    and "c \<in> set (ListPendingCommands (sv_id srv) (ap_db s))" and "cm_id c \<noteq> []" and "CHR ''/'' \<notin> set (cm_id c)"
  shows "\<exists>s'. postJSON E a (''/api/agent/v1/commands/'' @ cm_id c @ ''/result'') (ResultBody res) (s, d) = (None, (s', d))
    \<and> servers (ap_db s') = servers (ap_db s)
    \<and> commands (ap_db s')
      = commands (finishCommand (x_now (X (s, d))) (cm_id c) (resultStatus (cr_status res)) (cr_message res) (ap_db s))"
proof -
  let ?base = "trimSuffix (ac_serverURL (ag_cfg a)) ''/''"
  define q where "q = \<lparr>aq_method = ''POST'', aq_url = agentURL a (''/api/agent/v1/commands/'' @ cm_id c @ ''/result''),
             aq_authorization = ''Bearer '' @ ac_token (ag_cfg a), aq_body = ResultBody res\<rparr>"
  have bearer: "serverFromBearer (X (s, d)) (arrives ?base q) (ap_db s) = Inr srv"
    by (rule enrolled_bearer [OF assms(1)]) (simp add: q_def)
  have "\<exists>s'. serve spa (X (s, d)) (arrives ?base q) s = (securityHeaders okJSON, s')
      \<and> servers (ap_db s') = servers (ap_db s)
      \<and> commands (ap_db s')
        = commands (finishCommand (x_now (X (s, d))) (cm_id c) (resultStatus (cr_status res)) (cr_message res) (ap_db s))"
    by (rule result_served [OF _ _ bearer _ assms(2-5)]) (simp_all add: arrives_def q_def agentURL_def)
  then obtain s' where s': "serve spa (X (s, d)) (arrives ?base q) s = (securityHeaders okJSON, s')"
    "servers (ap_db s') = servers (ap_db s)"
    "commands (ap_db s')
      = commands (finishCommand (x_now (X (s, d))) (cm_id c) (resultStatus (cr_status res)) (cr_message res) (ap_db s))"
    by blast
  have send: "ae_send E = wire X spa ?base" using assms(1) unfolding enrolled_def by blast
  have "postJSON E a (''/api/agent/v1/commands/'' @ cm_id c @ ''/result'') (ResultBody res) (s, d) = (None, (s', d))"
    unfolding postJSON_def q_def [symmetric] send wire_def fst_conv snd_conv s'(1)
    by (simp add: okJSON_def writeJSON_def securityHeaders_def)
  with s'(2,3) show ?thesis by blast
qed

section \<open>A poll empties the queue\<close>

lemma SelfImage_keeps:
  assumes "host_answers E D ready known" and "ready d" and "SelfImage (ae_daemon E) (ae_repoDigests E) i (s, d) = (r, w')"
  shows "fst w' = s \<and> ready (snd w')"
proof -
  note h = assms(1) [unfolded host_answers_def]
  have D: "ae_daemon E = onHost D" and ans: "answers_for D ready known"
    and dig: "\<And>i s d. ready d \<Longrightarrow> \<exists>r d'. ae_repoDigests E i (s, d) = (r, (s, d')) \<and> ready d'" using h by simp_all
  obtain a w1 where a: "ContainerInspect (onHost D) Caller i (s, d) = (a, w1)" by (metis prod.collapse)
  have 1: "fst w1 = s \<and> ready (snd w1)"
    by (rule ops_keepD(1) [OF onHost_keep(1) [OF answers_forD(1) [OF ans]] _ a]) (simp add: assms(2))
  then obtain d1 where w1: "w1 = (s, d1)" "ready d1" by (cases w1) auto
  obtain q d2 where q: "ae_repoDigests E (in_image (projr a)) (s, d1) = (q, (s, d2))" "ready d2" using dig [OF w1(2)] by blast
  from assms(3) a w1 q show ?thesis unfolding D
    by (cases a) (auto simp: SelfImage_def split: option.splits if_splits)
qed

lemma clearStale_keeps: "ops_keep D P \<Longrightarrow> P d \<Longrightarrow> P (clearStale D d)"
  unfolding clearStale_def by (auto intro: ops_keep_snd dest: findContainerByName_keeps split: prod.split option.split)

lemma launchHelper_keeps:
  assumes keep: "ops_keep D P" and "P d" and "launchHelper D insp i img h d = (r, d')"
  shows "P d'"
proof -
  obtain cfg hc where cfg: "SelfUpdateHelperConfig (in_image insp) i img (helperAccess insp h) = (cfg, hc)" by fastforce
  obtain a d1 where a: "ContainerCreate D Caller cfg (Some hc) None selfUpdateHelperName (clearStale D d) = (a, d1)" by fastforce
  have 1: "P d1" by (rule ops_keepD(4) [OF keep clearStale_keeps [OF keep assms(2)] a])
  obtain s d2 where s: "ContainerStart D Caller (projr a) d1 = (s, d2)" by fastforce
  have 2: "P d2" by (rule ops_keepD(5) [OF keep 1 s])
  from assms(3) cfg a 1 s 2 ops_keep_snd(6) [OF keep 2] show ?thesis
    by (cases a; cases s) (auto simp: launchHelper_def)
qed

lemma startSelfUpdate_keeps:
  assumes keep: "ops_keep D P" and "P d" and "startSelfUpdate D i img h d = (r, d')"
  shows "P d'"
proof -
  obtain a d1 where a: "ContainerInspect D Caller i d = (a, d1)" by fastforce
  have 1: "P d1" by (rule ops_keepD(1) [OF keep assms(2) a])
  obtain q d2 where q: "pullImage D img None d1 = (q, d2)" by fastforce
  have 2: "P d2" by (rule pullImage_keeps [OF keep progress_keeps_None 1 q])
  show ?thesis
  proof (cases "\<exists>insp cfg. a = Inr insp \<and> in_config insp = Some cfg")
    case True
    then obtain insp cfg where i: "a = Inr insp" "in_config insp = Some cfg" by blast
    obtain b d3 where b: "alreadyCurrent D insp cfg img d2 = (b, d3)" by fastforce
    then have 3: "P d3"
      using 2 ops_keepD(9) [OF keep 2] by (auto simp: alreadyCurrent_def split: if_splits prod.splits sum.splits)
    from assms(3) a i q b 1 2 3 launchHelper_keeps [OF keep 3] show ?thesis
      by (cases q; cases b) (auto simp: startSelfUpdate_def split: if_splits)
  qed (use assms(3) a 1 in \<open>auto simp: startSelfUpdate_def split: sum.splits option.splits\<close>)
qed

lemma resolveSelf_keeps:
  assumes "host_answers E D ready known" and "ready d" and "resolveSelf E a (s, d) = (p, a', w')"
  shows "fst w' = s \<and> ready (snd w') \<and> ag_cfg a' = ag_cfg a \<and> ag_log a' = ag_log a"
proof -
  let ?i = "SelfContainerID (ae_hostname E)"
  obtain q w1 where q: "SelfImage (ae_daemon E) (ae_repoDigests E) ?i (s, d) = (q, w1)" by (metis prod.collapse)
  from SelfImage_keeps [OF assms(1,2) q] assms(2,3) q show ?thesis
    by (auto simp: resolveSelf_def Let_def split: if_splits sum.splits)
qed

lemma agentSelfUpdate_keeps:
  assumes "host_answers E D ready known" and "ready d" and "agentSelfUpdate E target a (s, d) = (res, a', w')"
  shows "fst w' = s \<and> ready (snd w') \<and> ag_cfg a' = ag_cfg a \<and> ag_log a' = ag_log a"
proof -
  let ?i = "SelfContainerID (ae_hostname E)"
  have D: "ae_daemon E = onHost D" and ans: "answers_for D ready known" using assms(1) by (simp_all add: host_answers_def)
  obtain p a1 w1 where r: "resolveSelf E a (s, d) = (p, a1, w1)" by (metis prod_cases3)
  note 1 = resolveSelf_keeps [OF assms(1,2) r]
  obtain q w2 where q: "startSelfUpdate (onHost D) ?i target (ag_dockerHost a1) w1 = (q, w2)" by (metis prod.collapse)
  have "fst w2 = s \<and> ready (snd w2)"
    by (rule startSelfUpdate_keeps [OF onHost_keep(1) [OF answers_forD(1) [OF ans]] _ q]) (simp add: 1)
  with 1 show ?thesis
    using assms(2,3) r q unfolding agentSelfUpdate_def D by (auto simp: Let_def split: if_splits option.splits)
qed

lemma runCommand_answers:
  assumes "host_answers E D ready known" and "ready d"
  shows "\<exists>res a' d'. runCommand E cmd a (s, d) = Some (Inr (res, a', (s, d'))) \<and> ready d'
    \<and> ag_cfg a' = ag_cfg a \<and> ag_log a' = ag_log a"
proof -
  obtain out d1 where r: "recreateContainer (ae_daemon E) (ae_fuel E) (pc_container cmd) (pc_target cmd) None (s, d) = Some (out, (s, d1))"
    and out: "out \<noteq> Panicked" "ready d1"
    using host_updates [OF assms] by blast
  obtain res a2 w2 where u: "agentSelfUpdate E (pc_target cmd) a (s, d) = (res, a2, w2)" by (metis prod_cases3)
  consider "pc_kind cmd = ''update''" | "pc_kind cmd = ''self_update''" | "pc_kind cmd \<noteq> ''update''" "pc_kind cmd \<noteq> ''self_update''"
    by blast
  then show ?thesis
  proof cases
    case 1
    with r out show ?thesis by (cases out) (simp_all add: runCommand_def)
  next
    case 2
    then have "runCommand E cmd a (s, d) = Some (Inr (res, a2, (s, snd w2)))"
      using agentSelfUpdate_keeps [OF assms u] by (simp add: runCommand_def u) (metis prod.collapse)
    with agentSelfUpdate_keeps [OF assms u] show ?thesis by blast
  next
    case 3
    then have "runCommand E cmd a (s, d)
        = Some (Inr (\<lparr>cr_status = ''failed'', cr_message = ''unknown command kind '' @ pc_kind cmd\<rparr>, a, (s, d)))"
      by (simp add: runCommand_def)
    with assms(2) show ?thesis by blast
  qed
qed

lemma finished_others_pending:
  "c \<in> set (ListPendingCommands srv d) \<Longrightarrow> cm_id c \<noteq> i \<Longrightarrow> c \<in> set (ListPendingCommands srv (finishCommand now i st m d))"
  by (auto simp: ListPendingCommands_def finishCommand_def UpdateCommandResult_def upd_rows_def)

lemma finish_own_queue:
  assumes "commands_ok (commands d)" and "c \<in> set (ListPendingCommands srv d)" and "st \<noteq> ''pending''"
  shows "pendingQueue (finishCommand now (cm_id c) st m d)
    = (pendingQueue d)(srv := {x \<in> pendingQueue d srv. fst x \<noteq> cm_id c})"
proof
  fix t
  have own: "(cm_id c, payloadOf c) \<in> pendingQueue d srv" using assms(2) by (auto simp: pendingQueue_def)
  have "x \<in> pendingQueue d t \<Longrightarrow> fst x = cm_id c \<Longrightarrow> t = srv" for x
    using agents.one_owner [OF assms(1) own, of "snd x" t] by (cases x) auto
  then show "pendingQueue (finishCommand now (cm_id c) st m d) t
      = ((pendingQueue d)(srv := {x \<in> pendingQueue d srv. fst x \<noteq> cm_id c})) t"
    using agents.finish_pending [OF assms(1,3), of now "cm_id c" m t] by auto
qed

lemma executeAll_answers:
  assumes host: "host_answers E D ready known" and "enrolled H X spa E a srv s" and "commands_ok (commands (ap_db s))"
    and "ready d" and "distinct (map cm_id cs)" and "set cs \<subseteq> set (ListPendingCommands (sv_id srv) (ap_db s))"
    and "\<And>c. c \<in> set cs \<Longrightarrow> cm_id c \<noteq> [] \<and> CHR ''/'' \<notin> set (cm_id c)"
  shows "\<exists>a' s' d'. executeAll E (map toProtocol cs) a (s, d) = Some (Inr (a', s', d')) \<and> ag_log a' = ag_log a
    \<and> pendingQueue (ap_db s') = (pendingQueue (ap_db s))
        (sv_id srv := {x \<in> pendingQueue (ap_db s) (sv_id srv). fst x \<notin> cm_id ` set cs})"
  using assms(2-)
proof (induction cs arbitrary: a s d)
  case Nil
  then show ?case by simp
next
  case (Cons c cs)
  obtain res a1 d1 where run: "runCommand E (toProtocol c) a (s, d) = Some (Inr (res, a1, (s, d1)))"
    and d1: "ready d1" and a1: "ag_cfg a1 = ag_cfg a" "ag_log a1 = ag_log a"
    using runCommand_answers [OF host Cons.prems(3)] by blast
  have en1: "enrolled H X spa E a1 srv s" using enrolled_cong [OF Cons.prems(1) refl a1(1)] .
  have c: "c \<in> set (ListPendingCommands (sv_id srv) (ap_db s))" "cm_id c \<noteq> []" "CHR ''/'' \<notin> set (cm_id c)"
    using Cons.prems(5,6) by auto
  let ?now = "x_now (X (s, d1))" and ?st = "resultStatus (cr_status res)"
  let ?f = "finishCommand ?now (cm_id c) ?st (cr_message res) (ap_db s)"
  obtain s1 where post: "postJSON E a1 (''/api/agent/v1/commands/'' @ cm_id c @ ''/result'') (ResultBody res) (s, d1) = (None, (s1, d1))"
    and s1: "servers (ap_db s1) = servers (ap_db s)" "commands (ap_db s1) = commands ?f"
    using result_arrives [OF en1 Cons.prems(2) c, of res d1] by blast
  have st: "?st \<noteq> ''pending''" by (simp add: resultStatus_def)
  have pend: "ListPendingCommands i (ap_db s1) = ListPendingCommands i ?f" for i
    by (simp add: ListPendingCommands_def s1(2))
  have q1: "pendingQueue (ap_db s1) = (pendingQueue (ap_db s))
      (sv_id srv := {x \<in> pendingQueue (ap_db s) (sv_id srv). fst x \<noteq> cm_id c})"
    using finish_own_queue [OF Cons.prems(2) c(1) st] pendingQueue_cong [OF s1(2)] by simp
  have "set cs \<subseteq> set (ListPendingCommands (sv_id srv) (ap_db s1))"
  proof
    fix x assume x: "x \<in> set cs"
    then have "cm_id x \<noteq> cm_id c" using Cons.prems(4) by (metis distinct.simps(2) imageI list.simps(9) set_map)
    with x Cons.prems(5) show "x \<in> set (ListPendingCommands (sv_id srv) (ap_db s1))"
      unfolding pend by (intro finished_others_pending) auto
  qed
  moreover have "commands_ok (commands (ap_db s1))"
    unfolding s1(2) by (rule agents.finish_good [OF Cons.prems(2)])
  moreover have "enrolled H X spa E a1 srv s1" by (rule enrolled_cong [OF en1 s1(1) refl])
  moreover have "distinct (map cm_id cs)" using Cons.prems(4) by simp
  moreover have "\<And>x. x \<in> set cs \<Longrightarrow> cm_id x \<noteq> [] \<and> CHR ''/'' \<notin> set (cm_id x)" using Cons.prems(6) by simp
  ultimately obtain a' s' d' where ih: "executeAll E (map toProtocol cs) a1 (s1, d1) = Some (Inr (a', s', d'))"
    "ag_log a' = ag_log a1"
    "pendingQueue (ap_db s') = (pendingQueue (ap_db s1))
       (sv_id srv := {x \<in> pendingQueue (ap_db s1) (sv_id srv). fst x \<notin> cm_id ` set cs})"
    using Cons.IH [of a1 s1 d1] d1 by blast
  have "execute E (toProtocol c) a (s, d) = Some (Inr (None, a1, s1, d1))"
  proof -
    have "pc_id (toProtocol c) = cm_id c" by (simp add: toProtocol_def)
    then show ?thesis
      unfolding execute_def run option.case sum.case prod.case by (simp only: post Let_def prod.case)
  qed
  then have "executeAll E (map toProtocol (c # cs)) a (s, d) = Some (Inr (a', s', d'))"
    using ih(1) by simp
  moreover have "pendingQueue (ap_db s') = (pendingQueue (ap_db s))
      (sv_id srv := {x \<in> pendingQueue (ap_db s) (sv_id srv). fst x \<notin> cm_id ` set (c # cs)})"
    unfolding ih(3) q1 by (rule ext) auto
  moreover have "ag_log a' = ag_log a" using ih(2) a1(2) by simp
  ultimately show ?case by (intro exI conjI)
qed

text \<open>C12: one poll of an enrolled agent returns, answers every command that was pending for its host, touches no
  other host's queue and logs no failure.  What it rests on: the network hands the agent's requests to the
  server; the host's clock runs, Docker's inspect has the configuration, and Docker answers for the services
  it updates; the stored commands have distinct ids that are neither empty nor contain a slash, as the ids
  the server draws for them.\<close>

theorem poll_drains_queue:
  assumes "host_answers E D ready known" and "enrolled H X spa E a srv s" and "commands_ok (commands (ap_db s))"
    and "ready d" and "\<And>c. c \<in> set (commands (ap_db s)) \<Longrightarrow> cm_id c \<noteq> [] \<and> CHR ''/'' \<notin> set (cm_id c)"
  shows "\<exists>a' s' d'. pollCommands E a (s, d) = Some (Inr (a', s', d'))
    \<and> pendingQueue (ap_db s') = (pendingQueue (ap_db s))(sv_id srv := {}) \<and> ag_log a' = ag_log a"
proof -
  let ?cs = "ListPendingCommands (sv_id srv) (ap_db s)"
  have sub: "set ?cs \<subseteq> set (commands (ap_db s))" by (auto simp: ListPendingCommands_def)
  have dist: "distinct (map cm_id ?cs)"
    using assms(3) by (auto simp: ListPendingCommands_def commands_ok_def distinct_map intro: inj_on_subset)
  obtain a' s' d' where "executeAll E (map toProtocol ?cs) a (s, d) = Some (Inr (a', s', d'))" "ag_log a' = ag_log a"
    "pendingQueue (ap_db s') = (pendingQueue (ap_db s))
        (sv_id srv := {x \<in> pendingQueue (ap_db s) (sv_id srv). fst x \<notin> cm_id ` set ?cs})"
    using executeAll_answers [OF assms(1-4) dist] assms(5) sub by blast
  moreover have "{x \<in> pendingQueue (ap_db s) (sv_id srv). fst x \<notin> cm_id ` set ?cs} = {}"
    by (auto simp: pendingQueue_def)
  ultimately show ?thesis by (simp add: pollCommands_def getCommands_lists [OF assms(2)])
qed

end
