(* ===== verification/AgentDemo.thy ===== *)
theory AgentDemo
  imports AgentProps
begin

text \<open>
  The agent against the demonstration server: the host it runs on, a poll that answers the pending
  command, and what becomes of a command whose result is lost on the way.
\<close>

section \<open>A host for the demonstration\<close>

text \<open>One container, gone once its replacement was started; the number is the host's clock, which starting a container
  moves on.  The host is not in a swarm.\<close>

definition demoInspect :: inspect where
  "demoInspect = \<lparr>in_id = ''d-c1'', in_name = ''/web'', in_image = ''sha256:a'',
     in_state = Some \<lparr>st_running = False, st_startedAt = []\<rparr>,
     in_config = Some \<lparr>cfg_image = ''nginx:1.25'', cfg_labels = [], cfg_env = [], cfg_rest = []\<rparr>,
     in_host = None, in_networks = None, in_mounts = []\<rparr>"

definition demoHost :: "nat daemon" where
  "demoHost = \<lparr>ContainerInspect = (\<lambda>_ _ n. (if n = 0 then Inr demoInspect else Inl (errors_new ''No such container''), n)),
     ContainerStop = (\<lambda>_ _ _ n. (None, n)), ContainerRename = (\<lambda>_ _ _ n. (None, n)),
     ContainerCreate = (\<lambda>_ _ _ _ _ n. (Inr ''d-c2'', n)),
     ContainerStart = (\<lambda>_ _ n. (None, Suc n)), ContainerRemove = (\<lambda>_ _ n. (None, n)),
     ContainerList = (\<lambda>_ _ n. (Inr [], n)), ImagePull = (\<lambda>_ _ n. (Inr [], n)),
     ImageInspect = (\<lambda>_ _ n. (Inr ''sha256:b'', n)), ServiceList = (\<lambda>_ _ n. (Inr [], n)),
     ServiceInspect = (\<lambda>_ _ n. (Inl (errors_new ''not a swarm''), n)),
     ServiceUpdate = (\<lambda>_ _ _ _ _ n. (Some (errors_new ''not a swarm''), n)),
     Now = (\<lambda>n. demoNow + int n), SleepOrDone = (\<lambda>t n. (None, n + nat t))\<rparr>"

definition demoAgentConfig :: agentConfig where
  "demoAgentConfig = \<lparr>ac_serverURL = ''http://wnd'', ac_token = ''wnd_1'', ac_name = ''nas'', ac_interval = 30 * second,
     ac_tlsSkipVerify = False\<rparr>"

definition demoAgentProc :: agent where
  "demoAgentProc = newAgent demoAgentConfig ''1.0.0'' ''unix:///var/run/docker.sock''"

definition demoAgentEnv :: "((nat, nat) app \<times> nat) agentEnv" where
  "demoAgentEnv = \<lparr>ae_daemon = onHost demoHost, ae_fuel = 181, ae_hostname = Inr ''0123456789ab'',
     ae_repoDigests = (\<lambda>_ w. (Inr [], w)),
     ae_snapshot = (\<lambda>w. (Inl (errors_new ''no snapshot''), w)),
     ae_send = wire (\<lambda>_. demoCtx) demoSpa ''http://wnd''\<rparr>"

lemma demoHost_recreates: "recreateContainer (onHost demoHost) k i img None (s, 0) = Some (Done, (s, 1))"
proof -
  have "pullImage (onHost demoHost) img None (s, 0) = (None, (s, 0))"
    by (simp add: pullImage_def onHost_def demoHost_def hostCall_def)
  then show ?thesis
    by (simp add: recreateContainer_def recreateDirect_def replaceStopped_def createReplacement_def startReplacement_def
        onHost_def demoHost_def demoInspect_def hostCall_def wasRunningOf_def podmanSystemdUnit_def swarmTask_def
        label_def Let_def report_def)
qed

lemma demo_host_answers: "host_answers demoAgentEnv demoHost (\<lambda>_. True) (\<lambda>_ _. False)"
proof -
  have "clock_runs demoHost" by (simp add: clock_runs_def demoHost_def)
  moreover have "answers_for demoHost (\<lambda>_. True) (\<lambda>_ _. False)"
    by (simp add: answers_for_def ops_keep_def demoHost_def)
  moreover have "inspects_config demoHost" by (simp add: inspects_config_def demoHost_def demoInspect_def)
  ultimately show ?thesis by (simp add: host_answers_def demoAgentEnv_def)
qed

lemma demo_base: "trimSuffix (ac_serverURL (ag_cfg demoAgentProc)) ''/'' = ''http://wnd''"
  by (simp add: demoAgentProc_def newAgent_def demoAgentConfig_def trimSuffix_def hasSuffix_def)

lemma demo_token: "trimSpace (ac_token (ag_cfg demoAgentProc)) = ''wnd_1''"
  by (simp add: demoAgentProc_def newAgent_def demoAgentConfig_def trimSpace_def isSpace_def)

lemma demo_row: "GetServerByTokenHash ''#wnd_1'' (ap_db demoApp) = Inr (Some (demoAgent\<lparr>sv_tokenHash := []\<rparr>))"
  by (simp add: demoApp_def demoDB_def GetServerByTokenHash_def demoAgent_def scanServer_def empty_server_def empty_db_def)

lemma demo_enrolled:
  "enrolled (hashToken demoCtx) (\<lambda>_. demoCtx) demoSpa demoAgentEnv demoAgentProc (demoAgent\<lparr>sv_tokenHash := []\<rparr>) demoApp"
proof -
  have "ae_send demoAgentEnv = wire (\<lambda>_. demoCtx) demoSpa ''http://wnd''" by (simp add: demoAgentEnv_def)
  moreover have "hashToken demoCtx ''wnd_1'' = ''#wnd_1''" by (simp add: demoCtx_def)
  ultimately show ?thesis using demo_row unfolding enrolled_def demo_base demo_token by simp
qed

lemma demo_commands: "commands (ap_db demoApp) = [demoCommand]"
  by (simp add: demoApp_def demoDB_def empty_db_def)

theorem poll_drains_queue_witness:
  "\<exists>a' s' d'. pollCommands demoAgentEnv demoAgentProc (demoApp, 0) = Some (Inr (a', s', d'))
    \<and> pendingQueue (ap_db s') = (pendingQueue (ap_db demoApp))(''srv-a'' := {}) \<and> ag_log a' = []"
proof -
  have "sv_id (demoAgent\<lparr>sv_tokenHash := []\<rparr>) = ''srv-a''" by (simp add: demoAgent_def)
  moreover have "ag_log demoAgentProc = []" by (simp add: demoAgentProc_def newAgent_def)
  moreover have "commands_ok (commands (ap_db demoApp))" by (simp add: commands_ok_def demo_commands demoCommand_def)
  moreover have "\<And>c. c \<in> set (commands (ap_db demoApp)) \<Longrightarrow> cm_id c \<noteq> [] \<and> CHR ''/'' \<notin> set (cm_id c)"
    by (simp add: demo_commands demoCommand_def)
  ultimately show ?thesis using poll_drains_queue [OF demo_host_answers demo_enrolled _ TrueI, of 0] by simp
qed

section \<open>A lost result\<close>

text \<open>A network on which requests of the agent get through but posts are cut before they reach the server.\<close>

definition lossy ::
  "(agentRequest \<Rightarrow> 'w \<Rightarrow> (agentErr + httpResponse) \<times> 'w) \<Rightarrow> agentRequest \<Rightarrow> 'w \<Rightarrow> (agentErr + httpResponse) \<times> 'w" where
  "lossy send q w = (if aq_method q = ''POST'' then (Inl (ConnReset ''connection reset by peer''), w) else send q w)"

lemma getCommands_lossy: "getCommands (E\<lparr>ae_send := lossy (ae_send E)\<rparr>) a w = getCommands E a w"
  by (simp add: getCommands_def lossy_def)

lemma postJSON_lossy:
  "postJSON (E\<lparr>ae_send := lossy (ae_send E)\<rparr>) a p b w = (Some (ConnReset ''connection reset by peer''), w)"
  by (simp add: postJSON_def lossy_def)

lemma runCommand_send: "runCommand (E\<lparr>ae_send := f\<rparr>) c a w = runCommand E c a w"
proof -
  have 1: "resolveSelf (E\<lparr>ae_send := f\<rparr>) a w = resolveSelf E a w" by (simp add: resolveSelf_def cong: if_cong)
  have "agentSelfUpdate (E\<lparr>ae_send := f\<rparr>) t a w = agentSelfUpdate E t a w" for t
    unfolding agentSelfUpdate_def 1 by (simp cong: if_cong)
  then show ?thesis unfolding runCommand_def by (simp cong: if_cong)
qed

text \<open>C36: the result of an update that is lost on the way makes the agent update twice, and the update that
  succeeded is recorded as failed: the next poll lists the command again, by then its container id is gone,
  and that failure is what reaches the server.\<close>

theorem lost_result_reported_failed:
  assumes "enrolled H X spa E a srv s" and "commands_ok (commands (ap_db s))"
    and "ListPendingCommands (sv_id srv) (ap_db s) = [c]" and "cm_id c \<noteq> []" and "CHR ''/'' \<notin> set (cm_id c)"
    and "cm_kind c = ''update''"
    and "recreateContainer (ae_daemon E) (ae_fuel E) (cm_container c) (cm_target c) None (s, d) = Some (Done, (s, d1))"
    and "ContainerInspect (ae_daemon E) Caller (cm_container c) (s, d1) = (Inl e, (s, d2))"
  shows "\<exists>a1 a2 s2. pollCommands (E\<lparr>ae_send := lossy (ae_send E)\<rparr>) a (s, d) = Some (Inr (a1, (s, d1)))
    \<and> pollCommands E a1 (s, d1) = Some (Inr (a2, (s2, d2)))
    \<and> (\<exists>c'\<in>set (commands (ap_db s2)). cm_id c' = cm_id c \<and> cm_status c' = ''failed'')"
proof -
  let ?L = "E\<lparr>ae_send := lossy (ae_send E)\<rparr>" and ?c = "toProtocol c"
  let ?a1 = "logged (LogError, ''command execution failed'') a"
  have c: "pc_id ?c = cm_id c" "pc_kind ?c = ''update''" "pc_container ?c = cm_container c" "pc_target ?c = cm_target c"
    by (simp_all add: toProtocol_def assms(6))
  define ok where "ok = \<lparr>cr_status = ''done'', cr_message = ''container recreated with '' @ cm_target c\<rparr>"
  have "runCommand ?L ?c a (s, d) = Some (Inr (ok, a, (s, d1)))"
    unfolding runCommand_send by (simp add: runCommand_def c assms(7) ok_def)
  then have "execute ?L ?c a (s, d) = Some (Inr (Some (ConnReset ''connection reset by peer''), a, (s, d1)))"
    by (simp add: execute_def postJSON_lossy)
  then have first: "pollCommands ?L a (s, d) = Some (Inr (?a1, (s, d1)))"
    by (simp add: pollCommands_def getCommands_lossy getCommands_lists [OF assms(1)] assms(3))
  have en: "enrolled H X spa E ?a1 srv s" by (rule enrolled_cong [OF assms(1)]) (simp_all add: logged_def)
  define res where "res = \<lparr>cr_status = ''failed'', cr_message = msg (wrap_err ''inspect container: '' e)\<rparr>"
  have run: "runCommand E ?c ?a1 (s, d1) = Some (Inr (res, ?a1, (s, d2)))"
    by (simp add: runCommand_def c recreateContainer_def assms(8) res_def)
  obtain s2 where post: "postJSON E ?a1 (''/api/agent/v1/commands/'' @ cm_id c @ ''/result'') (ResultBody res) (s, d2) = (None, (s2, d2))"
    and s2: "commands (ap_db s2)
      = commands (finishCommand (x_now (X (s, d2))) (cm_id c) (resultStatus (cr_status res)) (cr_message res) (ap_db s))"
    using result_arrives [OF en assms(2) _ assms(4,5)] assms(3) by (metis list.set_intros(1))
  have "execute E ?c ?a1 (s, d1) = Some (Inr (None, ?a1, (s2, d2)))"
    unfolding execute_def run option.case sum.case prod.case c by (simp only: post Let_def prod.case)
  then have second: "pollCommands E ?a1 (s, d1) = Some (Inr (?a1, (s2, d2)))"
    by (simp add: pollCommands_def getCommands_lists [OF en] assms(3))
  have "c \<in> set (commands (ap_db s))"
  proof -
    have "c \<in> set (ListPendingCommands (sv_id srv) (ap_db s))" using assms(3) by simp
    then show ?thesis by (simp add: ListPendingCommands_def)
  qed
  then have "\<exists>c'\<in>set (commands (ap_db s2)). cm_id c' = cm_id c \<and> cm_status c' = ''failed''"
    unfolding s2 finishCommand_def UpdateCommandResult_def sum.case
    by (auto simp: bex_upd_rows res_def resultStatus_def)
  with first second show ?thesis by (intro exI conjI)
qed

theorem lost_result_reported_failed_witness:
  "\<exists>a1 a2 s2. pollCommands (demoAgentEnv\<lparr>ae_send := lossy (ae_send demoAgentEnv)\<rparr>) demoAgentProc (demoApp, 0)
      = Some (Inr (a1, (demoApp, 1)))
    \<and> pollCommands demoAgentEnv a1 (demoApp, 1) = Some (Inr (a2, (s2, 1)))
    \<and> (\<exists>c'\<in>set (commands (ap_db s2)). cm_id c' = ''cmd1'' \<and> cm_status c' = ''failed'')"
proof -
  let ?srv = "demoAgent\<lparr>sv_tokenHash := []\<rparr>"
  have ok: "commands_ok (commands (ap_db demoApp))" by (simp add: commands_ok_def demo_commands demoCommand_def)
  have "ListPendingCommands (sv_id ?srv) (ap_db demoApp) = [demoCommand]"
    by (simp add: ListPendingCommands_def demo_commands demoCommand_def demoAgent_def)
  note lost = lost_result_reported_failed [OF demo_enrolled ok this]
  have id: "cm_id demoCommand = ''cmd1''" and kind: "cm_kind demoCommand = ''update''" by (simp_all add: demoCommand_def)
  have "recreateContainer (ae_daemon demoAgentEnv) (ae_fuel demoAgentEnv) (cm_container demoCommand) (cm_target demoCommand) None
      (demoApp, 0) = Some (Done, (demoApp, 1))"
    by (simp add: demoAgentEnv_def demoHost_recreates)
  moreover have "ContainerInspect (ae_daemon demoAgentEnv) Caller (cm_container demoCommand) (demoApp, 1)
      = (Inl (errors_new ''No such container''), (demoApp, 1))"
    by (simp add: demoAgentEnv_def onHost_def demoHost_def hostCall_def)
  ultimately show ?thesis using lost [of 0 1 _ 1] kind unfolding id by simp
qed

end
