(* ===== verification/Timestamps.thy ===== *)
theory Timestamps
  imports GoTime
begin

text \<open>
  Timestamps as text: what \<open>ts\<close> and \<open>parseTS\<close> of \<open>internal/store/store.go\<close> write into
  the database and read from it, and what the Docker client reads of a container's start.  Both go
  through the layout \<open>time.RFC3339Nano\<close> in UTC; the layout's reader is Go's strict one for it (the
  general reader behind it, which also takes a comma for the point or an hour of one digit, is never
  reached by what the program writes).
\<close>

section \<open>The calendar\<close>

definition isLeap :: "nat \<Rightarrow> bool" where
  "isLeap y \<longleftrightarrow> y mod 4 = 0 \<and> (y mod 100 \<noteq> 0 \<or> y mod 400 = 0)"

definition yearLen :: "nat \<Rightarrow> nat" where
  "yearLen y = (if isLeap y then 366 else 365)"

definition monthLens :: "nat \<Rightarrow> nat list" where
  "monthLens y = [31, if isLeap y then 29 else 28, 31, 30, 31, 30, 31, 31, 30, 31, 30, 31]"

text \<open>Days before the first of January of a year, counted from year 1.\<close>

definition daysBefore :: "nat \<Rightarrow> int" where
  "daysBefore y = (let k = int y - 1 in 365 * k + k div 4 - k div 100 + k div 400)"

function civilYear :: "nat \<Rightarrow> nat \<Rightarrow> nat \<times> nat" where
  "civilYear y d = (if d < yearLen y then (y, d) else civilYear (Suc y) (d - yearLen y))"
  by pat_completeness auto

termination civilYear
  by (relation "measure snd") (auto simp: yearLen_def split: if_splits)

declare civilYear.simps [simp del]

fun civilMonth :: "nat list \<Rightarrow> nat \<Rightarrow> nat \<Rightarrow> nat \<times> nat" where
  "civilMonth [] m d = (m, d)"
| "civilMonth (l # ls) m d = (if d < l then (m, d) else civilMonth ls (Suc m) (d - l))"

lemma div_step: "int (Suc k) div int n = int k div int n + (if Suc k mod n = 0 then 1 else 0)"
  unfolding zdiv_int [symmetric] by (simp add: div_Suc)

lemma daysBefore_Suc:
  assumes "1 \<le> y"
  shows "daysBefore (Suc y) = daysBefore y + int (yearLen y)"
proof -
  obtain k where y: "y = Suc k" using assms by (cases y) auto
  have "Suc k mod 400 = 0 \<Longrightarrow> Suc k mod 100 = 0" "Suc k mod 100 = 0 \<Longrightarrow> Suc k mod 4 = 0"
    by presburger+
  then have "int (yearLen y) = 365 + (if Suc k mod 4 = 0 then 1 else 0) - (if Suc k mod 100 = 0 then 1 else 0)
      + (if Suc k mod 400 = 0 then 1 else 0)"
    unfolding yearLen_def isLeap_def y by (cases "Suc k mod 400 = 0"; cases "Suc k mod 100 = 0") simp_all
  moreover have "daysBefore (Suc y) = 365 * int (Suc k) + int (Suc k) div int 4 - int (Suc k) div int 100 + int (Suc k) div int 400"
    "daysBefore y = 365 * int k + int k div int 4 - int k div int 100 + int k div int 400"
    by (simp_all add: daysBefore_def y Let_def)
  ultimately show ?thesis unfolding div_step [of k 4] div_step [of k 100] div_step [of k 400] by simp
qed

lemma daysBefore_mono:
  assumes "y \<le> y'" and "1 \<le> y"
  shows "daysBefore y \<le> daysBefore y'"
  using assms(1)
proof (induction y' rule: dec_induct)
  case (step n)
  then show ?case using daysBefore_Suc [of n] assms(2) by simp
qed simp

lemma civilYear_days:
  assumes "civilYear y d = (y', d')" and "1 \<le> y"
  shows "daysBefore y' + int d' = daysBefore y + int d \<and> d' < yearLen y' \<and> 1 \<le> y'"
  using assms
proof (induction y d rule: civilYear.induct)
  case (1 y d)
  show ?case
  proof (cases "d < yearLen y")
    case True
    with 1(2,3) show ?thesis by (simp add: civilYear.simps [of y d])
  next
    case False
    with 1(2) have "civilYear (Suc y) (d - yearLen y) = (y', d')" by (simp add: civilYear.simps [of y d])
    with 1(1) [OF False] 1(3) daysBefore_Suc [OF 1(3)] False show ?thesis by simp
  qed
qed

lemma civilMonth_days:
  assumes "civilMonth ls m d = (m', d')" and "d < sum_list ls"
  shows "m \<le> m' \<and> m' - m < length ls \<and> d = sum_list (take (m' - m) ls) + d' \<and> d' < ls ! (m' - m)"
  using assms
proof (induction ls m d rule: civilMonth.induct)
  case (2 l ls m d)
  show ?case
  proof (cases "d < l")
    case False
    with 2 have "Suc m \<le> m' \<and> m' - Suc m < length ls \<and> d - l = sum_list (take (m' - Suc m) ls) + d' \<and> d' < ls ! (m' - Suc m)"
      by auto
    moreover from this have "m' - m = Suc (m' - Suc m)" by linarith
    ultimately show ?thesis using False by auto
  qed (use 2 in auto)
qed simp

lemma monthLens_sum: "sum_list (monthLens y) = yearLen y"
  by (simp add: monthLens_def yearLen_def)

lemma monthLens_length: "length (monthLens y) = 12"
  by (simp add: monthLens_def)

lemma monthLens_le: "i < 12 \<Longrightarrow> monthLens y ! i \<le> 31"
proof -
  assume "i < 12"
  then have "monthLens y ! i \<in> set (monthLens y)" by (simp add: monthLens_length)
  moreover have "\<forall>x\<in>set (monthLens y). x \<le> 31" by (simp add: monthLens_def)
  ultimately show ?thesis by blast
qed

section \<open>Digits\<close>

text \<open>The last \<open>w\<close> decimal digits of a number.\<close>

definition pad :: "nat \<Rightarrow> nat \<Rightarrow> string" where
  "pad w n = map (\<lambda>k. char_of (48 + n div 10 ^ k mod 10)) (rev [0..<w])"

lemma pad_Suc: "pad (Suc w) n = char_of (48 + n div 10 ^ w mod 10) # pad w n"
  by (simp add: pad_def)

lemma pad_0 [simp]: "pad 0 n = []"
  by (simp add: pad_def)

lemma length_pad [simp]: "length (pad w n) = w"
  by (simp add: pad_def)

lemma digit_char: "isDigit (char_of (48 + n mod 10 :: nat))"
  by (auto simp: isDigit_def less_eq_char_def)

lemma pad_digits: "\<forall>c\<in>set (pad w n). isDigit c"
  by (auto simp: pad_def digit_char)

lemma digitsVal_Cons: "digitsVal (c # cs) = digitVal c * 10 ^ length cs + digitsVal cs"
proof -
  have fold: "foldl (\<lambda>n c. n * 10 + digitVal c) a cs = a * 10 ^ length cs + foldl (\<lambda>n c. n * 10 + digitVal c) 0 cs" for a
  proof (induction cs arbitrary: a)
    case (Cons c cs)
    from Cons.IH [of "a * 10 + digitVal c"] Cons.IH [of "digitVal c"] show ?case by (simp add: algebra_simps)
  qed simp
  show ?thesis using fold [of "digitVal c"] by (simp add: digitsVal_def)
qed

lemma digitsVal_pad: "digitsVal (pad w n) = int (n mod 10 ^ w)"
proof (induction w)
  case 0
  show ?case by (simp add: digitsVal_def)
next
  case (Suc w)
  have e: "n mod (10 ^ w * 10) = 10 ^ w * (n div 10 ^ w mod 10) + n mod 10 ^ w" by (rule mod_mult2_eq)
  have "digitVal (char_of (48 + n div 10 ^ w mod 10)) = int (n div 10 ^ w mod 10)"
    by (rule digitVal_char_of) simp
  then show ?case
    unfolding pad_Suc digitsVal_Cons length_pad Suc power_Suc2 e of_nat_add of_nat_mult of_nat_power of_nat_numeral
    by (simp only: mult.commute)
qed

lemma digitsVal_zeros: "digitsVal (replicate k CHR ''0'') = 0"
  by (induction k) (simp_all add: digitsVal_Cons digitVal_def digitsVal_def)

lemma parse_pad: "n < 10 ^ w \<Longrightarrow> digitsVal (pad w n) = int n"
  by (simp add: digitsVal_pad)

section \<open>Writing\<close>

definition yearText :: "nat \<Rightarrow> string" where
  "yearText y = (if y < 10000 then pad 4 y else natText y)"

definition formatRFC3339Nano :: "gotime \<Rightarrow> string" where
  "formatRFC3339Nano t =
     (let secs = nat (t div second); tod = secs mod 86400;
          (y, yd) = civilYear 1 (secs div 86400); (m, d) = civilMonth (monthLens y) 1 yd
      in yearText y @ CHR ''-'' # pad 2 m @ CHR ''-'' # pad 2 (Suc d) @ CHR ''T'' # pad 2 (tod div 3600)
           @ CHR '':'' # pad 2 (tod div 60 mod 60) @ CHR '':'' # pad 2 (tod mod 60)
           @ fmtFrac 9 (nat (t mod second)) @ ''Z'')"

section \<open>Reading\<close>

definition parseUint :: "string \<Rightarrow> nat \<Rightarrow> nat \<Rightarrow> nat option" where
  "parseUint s lo hi =
     (if s = [] \<or> (\<exists>c\<in>set s. \<not> isDigit c) then None
      else let n = nat (digitsVal s) in if lo \<le> n \<and> n \<le> hi then Some n else None)"

text \<open>The fraction, at most nine digits of which count, and what follows it.\<close>

definition parseFraction :: "string \<Rightarrow> int \<times> string" where
  "parseFraction s =
     (if length s \<ge> 2 \<and> s ! 0 = CHR ''.'' \<and> isDigit (s ! 1)
      then (digitsVal (take 9 (takeWhile isDigit (tl s) @ replicate 9 CHR ''0'')), dropWhile isDigit (tl s))
      else (0, s))"

text \<open>The offset of the zone in seconds.\<close>

definition parseZone :: "string \<Rightarrow> int option" where
  "parseZone s =
     (if s = ''Z'' then Some 0
      else if length s \<noteq> 6 then None
      else (case (parseUint (take 2 (drop 1 s)) 0 23, parseUint (drop 4 s) 0 59) of
              (Some hr, Some mm) \<Rightarrow>
                if (s ! 0 = CHR ''-'' \<or> s ! 0 = CHR ''+'') \<and> s ! 3 = CHR '':''
                then Some ((int hr * 60 + int mm) * 60 * (if s ! 0 = CHR ''-'' then - 1 else 1)) else None
            | _ \<Rightarrow> None))"

definition parseClock :: "string \<Rightarrow> nat option" where
  "parseClock s =
     (case (parseUint (take 2 s) 0 23, parseUint (take 2 (drop 3 s)) 0 59, parseUint (take 2 (drop 6 s)) 0 59) of
        (Some hr, Some mi, Some sec) \<Rightarrow>
          if s ! 2 = CHR '':'' \<and> s ! 5 = CHR '':'' then Some (hr * 3600 + mi * 60 + sec) else None
      | _ \<Rightarrow> None)"

definition parseDate :: "string \<Rightarrow> int option" where
  "parseDate s =
     (case (parseUint (take 4 s) 0 9999, parseUint (take 2 (drop 5 s)) 1 12) of
        (Some y, Some m) \<Rightarrow>
          (case parseUint (take 2 (drop 8 s)) 1 (monthLens y ! (m - 1)) of
             Some d \<Rightarrow>
               if s ! 4 = CHR ''-'' \<and> s ! 7 = CHR ''-''
               then Some (daysBefore y + int (sum_list (take (m - 1) (monthLens y)) + d - 1)) else None
           | None \<Rightarrow> None)
      | _ \<Rightarrow> None)"

definition parseRFC3339 :: "string \<Rightarrow> gotime option" where
  "parseRFC3339 s =
     (if length s < 19 \<or> s ! 10 \<noteq> CHR ''T'' then None
      else let (nsec, zone) = parseFraction (drop 19 s)
           in (case (parseDate (take 10 s), parseClock (take 8 (drop 11 s)), parseZone zone) of
                 (Some days, Some sec, Some off) \<Rightarrow> Some ((days * 86400 + int sec - off) * second + nsec)
               | _ \<Rightarrow> None))"

text \<open>The two functions of the store.\<close>

definition tsText :: "gotime \<Rightarrow> string" where
  "tsText t = formatRFC3339Nano t"

definition parseTS :: "string \<Rightarrow> gotime" where
  "parseTS v = (case parseRFC3339 v of None \<Rightarrow> zero_time | Some t \<Rightarrow> t)"

section \<open>What is written is read back\<close>

lemma parseUint_pad: "n < 10 ^ w \<Longrightarrow> lo \<le> n \<Longrightarrow> n \<le> hi \<Longrightarrow> w > 0 \<Longrightarrow> parseUint (pad w n) lo hi = Some n"
proof -
  assume a: "n < 10 ^ w" "lo \<le> n" "n \<le> hi" "w > 0"
  then have "pad w n \<noteq> []" by (metis length_0_conv length_pad less_nat_zero_code)
  then show ?thesis using pad_digits [of w n] a by (auto simp: parseUint_def parse_pad Let_def)
qed

lemma fmtFrac_pad: "fmtFrac w n = (let ds = rev (dropWhile (\<lambda>c. c = CHR ''0'') (rev (pad w n))) in if ds = [] then [] else CHR ''.'' # ds)"
  by (simp add: fmtFrac_def pad_def rev_map)

lemma parseFraction_fmt:
  assumes "n < 10 ^ 9"
  shows "parseFraction (fmtFrac 9 n @ ''Z'') = (int n, ''Z'')"
proof -
  define zs where "zs = rev (takeWhile (\<lambda>c. c = CHR ''0'') (rev (pad 9 n)))"
  define ds where "ds = rev (dropWhile (\<lambda>c. c = CHR ''0'') (rev (pad 9 n)))"
  have split: "pad 9 n = ds @ zs"
    unfolding ds_def zs_def by (metis rev_append rev_rev_ident takeWhile_dropWhile_id)
  have "\<forall>c\<in>set zs. c = CHR ''0''" by (auto simp: zs_def dest: set_takeWhileD)
  then have z: "zs = replicate (length zs) CHR ''0''" by (rule replicate_length_same [symmetric])
  have len: "length ds + length zs = 9" using arg_cong [OF split, of length] by simp
  have dig: "\<forall>c\<in>set ds. isDigit c" using pad_digits [of 9 n] unfolding split by simp
  have val: "digitsVal (ds @ zs) = int n" using parse_pad [OF assms] unfolding split .
  show ?thesis
  proof (cases "ds = []")
    case True
    then have "fmtFrac 9 n = []" unfolding fmtFrac_pad ds_def [symmetric] by simp
    moreover have "digitsVal zs = int n" using val True by simp
    moreover have "digitsVal zs = 0" by (subst z) (rule digitsVal_zeros)
    ultimately show ?thesis by (simp add: parseFraction_def)
  next
    case False
    have "fmtFrac 9 n = CHR ''.'' # ds" unfolding fmtFrac_pad ds_def [symmetric] using False by (simp add: Let_def)
    moreover have "takeWhile isDigit (ds @ ''Z'') = ds" "dropWhile isDigit (ds @ ''Z'') = ''Z''"
      using dig by (simp_all add: takeWhile_digits dropWhile_digits isDigit_def less_eq_char_def)
    moreover have "take 9 (ds @ replicate 9 CHR ''0'') = ds @ zs"
      using len by (subst z) (simp add: min_def)
    moreover have "isDigit (hd ds)" using dig False by simp
    ultimately show ?thesis using False val by (cases ds) (simp_all add: parseFraction_def)
  qed
qed

lemma pad_2: "\<exists>a b. pad 2 k = [a, b]"
  using length_pad [of 2 k] by (auto simp: numeral_2_eq_2 length_Suc_conv simp del: length_pad)

lemma pad_4: "\<exists>a b c d. pad 4 k = [a, b, c, d]"
  using length_pad [of 4 k] by (auto simp: eval_nat_numeral length_Suc_conv simp del: length_pad)

lemma parseClock_pad:
  assumes "n < 86400"
  shows "parseClock (pad 2 (n div 3600) @ CHR '':'' # pad 2 (n div 60 mod 60) @ CHR '':'' # pad 2 (n mod 60)) = Some n"
proof -
  let ?h = "n div 3600" and ?m = "n div 60 mod 60" and ?s = "n mod 60"
  have h: "?h \<le> 23" using assms by simp
  have p: "parseUint (pad 2 ?h) 0 23 = Some ?h" "parseUint (pad 2 ?m) 0 59 = Some ?m" "parseUint (pad 2 ?s) 0 59 = Some ?s"
    using h by (auto intro!: parseUint_pad)
  obtain a b c d e f where q: "pad 2 ?h = [a, b]" "pad 2 ?m = [c, d]" "pad 2 ?s = [e, f]" using pad_2 by metis
  have "?h = n div 60 div 60" by (simp add: div_mult2_eq [symmetric])
  then have "?h * 3600 + ?m * 60 + ?s = n" using hms [of n] by linarith
  then show ?thesis using p unfolding q by (simp add: parseClock_def)
qed

lemma parseDate_pad:
  assumes "y < 10000" and "m < 12" and "d < monthLens y ! m"
  shows "parseDate (pad 4 y @ CHR ''-'' # pad 2 (Suc m) @ CHR ''-'' # pad 2 (Suc d))
    = Some (daysBefore y + int (sum_list (take m (monthLens y)) + d))"
proof -
  have d: "Suc d \<le> 31" using assms(3) monthLens_le [OF assms(2), of y] by linarith
  have p: "parseUint (pad 4 y) 0 9999 = Some y" "parseUint (pad 2 (Suc m)) 1 12 = Some (Suc m)"
    "parseUint (pad 2 (Suc d)) 1 (monthLens y ! m) = Some (Suc d)"
    using assms d by (auto intro!: parseUint_pad)
  obtain a b c e f g h k where q: "pad 2 (Suc m) = [a, b]" "pad 2 (Suc d) = [c, e]" "pad 4 y = [f, g, h, k]"
    using pad_2 [of "Suc m"] pad_2 [of "Suc d"] pad_4 [of y] by metis
  show ?thesis using p unfolding q by (simp add: parseDate_def)
qed

text \<open>C31: a timestamp the store writes is the one it reads back, to the nanosecond, for every time from year 1 to
  the end of year 9999.\<close>

theorem timestamp_roundtrip:
  assumes "0 \<le> t" and "t < 315537897600 * second"
  shows "parseTS (tsText t) = t"
proof -
  define secs where "secs = nat (t div second)"
  define ns where "ns = nat (t mod second)"
  obtain y yd where y: "civilYear 1 (secs div 86400) = (y, yd)" by (cases "civilYear 1 (secs div 86400)")
  obtain m' d where m': "civilMonth (monthLens y) 1 yd = (m', d)" by (cases "civilMonth (monthLens y) 1 yd")
  from civilYear_days [OF y] have yd: "daysBefore y + int yd = int (secs div 86400)" "yd < yearLen y" "1 \<le> y"
    by (simp_all add: daysBefore_def)
  from civilMonth_days [OF m'] yd(2) have md: "1 \<le> m'" "m' - 1 < 12" "yd = sum_list (take (m' - 1) (monthLens y)) + d"
    "d < monthLens y ! (m' - 1)"
    by (simp_all add: monthLens_sum monthLens_length)
  have secs: "int secs = t div second" and ns: "int ns = t mod second" "ns < 10 ^ 9"
    using assms(1) by (simp_all add: secs_def ns_def nat_less_iff)
  have "y < 10000"
  proof (rule ccontr)
    assume "\<not> y < 10000"
    then have "daysBefore 10000 \<le> daysBefore y" by (intro daysBefore_mono) simp_all
    then have "3652059 \<le> int (secs div 86400)" using yd(1) by (simp add: daysBefore_def)
    then have "315537897600 \<le> int secs" by linarith
    moreover have "t div second < 315537897600" using assms(2) by (simp add: div_less_iff_less_mult)
    ultimately show False using secs by simp
  qed
  then have ytext: "yearText y = pad 4 y" by (simp add: yearText_def)
  obtain m where m: "m' = Suc m" using md(1) by (cases m') auto
  let ?tod = "secs mod 86400"
  let ?date = "pad 4 y @ CHR ''-'' # pad 2 m' @ CHR ''-'' # pad 2 (Suc d)"
  let ?clock = "pad 2 (?tod div 3600) @ CHR '':'' # pad 2 (?tod div 60 mod 60) @ CHR '':'' # pad 2 (?tod mod 60)"
  let ?rest = "fmtFrac 9 ns @ ''Z''"
  have written: "tsText t = ?date @ CHR ''T'' # ?clock @ ?rest"
    unfolding tsText_def formatRFC3339Nano_def Let_def secs_def [symmetric] ns_def [symmetric] y m' prod.case ytext by simp
  have len: "length ?date = 10" "length ?clock = 8" by simp_all
  have parts: "take 10 (tsText t) = ?date" "tsText t ! 10 = CHR ''T''" "take 8 (drop 11 (tsText t)) = ?clock"
    "drop 19 (tsText t) = ?rest" "\<not> length (tsText t) < 19"
    using len unfolding written by (simp_all add: nth_append)
  have date: "parseDate ?date = Some (int (secs div 86400))"
    using parseDate_pad [OF \<open>y < 10000\<close>, of m d] md yd(1) unfolding m by simp
  have clock: "parseClock ?clock = Some ?tod" by (rule parseClock_pad) simp
  have "parseRFC3339 (tsText t) = Some ((int (secs div 86400) * 86400 + int ?tod - 0) * second + int ns)"
    using parts(5) unfolding parseRFC3339_def parts(1-4) parseFraction_fmt [OF ns(2)] date clock Let_def prod.case
    by (simp add: parseZone_def)
  moreover have "int (secs div 86400) * 86400 + int ?tod = int secs"
    by (metis div_mult_mod_eq of_nat_add of_nat_mult of_nat_numeral)
  ultimately show ?thesis using secs ns(1) by (simp add: parseTS_def)
qed

theorem timestamp_roundtrip_witness:
  "parseTS (tsText (86399 * second + 250000000)) = 86399 * second + 250000000"
  by (rule timestamp_roundtrip) simp_all

end
