(* ===== verification/HostSnapshot.thy ===== *)
theory HostSnapshot
  imports Jobs SelfHelper Timestamps Sources
begin

text \<open>
  The Docker client's view of its host, \<open>internal/dockerx/dockerx.go\<close> (and \<open>SwarmStatus\<close> of
  \<open>swarm.go\<close>): creating the client, the host's information, and the snapshot the server stores and
  the agent reports.  What the Engine API answers besides the operations of \<open>daemon\<close> (the host
  information, the list of all containers) is the record \<open>engine\<close>.

  The snapshot dereferences three things it does not check: the first name of a listed container, its host
  configuration and its state.  Each missing one is a panic.
\<close>

section \<open>The client\<close>

datatype clientOpt =
    WithHost string
  | WithAPIVersionNegotiation
  | WithVersion string
  | WithTLSClientConfig string string string

definition clientOpts :: "dockerConfig \<Rightarrow> clientOpt list" where
  "clientOpts cfg =
     [WithHost (dc_host cfg), WithAPIVersionNegotiation]
     @ (if dc_apiVersion cfg \<noteq> [] then [WithVersion (dc_apiVersion cfg)] else [])
     @ (if dc_tls cfg then [WithTLSClientConfig (dc_tlsCA cfg) (dc_tlsCert cfg) (dc_tlsKey cfg)] else [])"

record 'c dockerClient =
  cli :: 'c
  swarmCap :: swarmCapability

definition newDocker :: "(clientOpt list \<Rightarrow> err + 'c) \<Rightarrow> dockerConfig \<Rightarrow> err + 'c dockerClient" where
  "newDocker newClientWithOpts cfg =
     (case newClientWithOpts (clientOpts cfg) of
        Inl e \<Rightarrow> Inl (wrap_err ''create docker client: '' e)
      | Inr c \<Rightarrow> Inr \<lparr>cli = c, swarmCap = \<lparr>cap_checked = zero_time, cap_ok = False\<rparr>\<rparr>)"

section \<open>What the engine answers\<close>

record hostInfo =
  hi_name :: string
  hi_serverVersion :: string
  hi_osType :: string
  hi_architecture :: string
  hi_ncpu :: int
  hi_memTotal :: int
  hi_labels :: "string list"
  hi_nodeState :: string
  hi_controlAvailable :: bool

record portMapping =
  po_ip :: string
  po_private :: nat
  po_public :: nat
  po_type :: string

record listedContainer =
  lc_id :: string
  lc_names :: "string list"
  lc_image :: string
  lc_imageID :: string
  lc_state :: string
  lc_status :: string
  lc_created :: int
  lc_labels :: labels
  lc_ports :: "portMapping list"

record 'd engine =
  en_daemon :: "'d daemon"
  en_ping :: "'d \<Rightarrow> err option \<times> 'd"
  en_info :: "'d \<Rightarrow> (err + hostInfo) \<times> 'd"
  en_list :: "'d \<Rightarrow> (err + listedContainer list) \<times> 'd"
  en_parseNamed :: "string \<Rightarrow> err + named"

definition Info :: "'d engine \<Rightarrow> 'd \<Rightarrow> (err + server) \<times> 'd" where
  "Info G d =
     (case en_info G d of
        (Inl e, d1) \<Rightarrow> (Inl (wrap_err ''docker info: '' e), d1)
      | (Inr i, d1) \<Rightarrow>
          (Inr (empty_server\<lparr>sv_name := (if hi_name i = [] then ''docker-host'' else hi_name i),
              sv_dockerVersion := hi_serverVersion i, sv_os := hi_osType i, sv_arch := hi_architecture i,
              sv_cpus := hi_ncpu i, sv_memory := hi_memTotal i, sv_labels := hi_labels i,
              sv_role := swarmRoleFrom (hi_nodeState i) (hi_controlAvailable i)\<rparr>), d1))"

definition SwarmStatus :: "'d engine \<Rightarrow> swarmCapability \<Rightarrow> 'd \<Rightarrow> (err + swarmRole \<times> bool) \<times> swarmCapability \<times> 'd" where
  "SwarmStatus G cap d =
     (case en_info G d of
        (Inl e, d1) \<Rightarrow> (Inl (wrap_err ''docker info: '' e), cap, d1)
      | (Inr i, d1) \<Rightarrow>
          (let role = swarmRoleFrom (hi_nodeState i) (hi_controlAvailable i);
               (ok, cap1, d2) = probeServices (en_daemon G) role cap d1
           in (Inr (role, ok), cap1, d2)))"

section \<open>One container\<close>

definition portText :: "portMapping \<Rightarrow> string" where
  "portText p =
     (if po_public p = 0 then natText (po_private p) @ ''/'' @ po_type p
      else (if po_ip p = [] \<or> po_ip p = ''::'' then [] else po_ip p @ '':'')
           @ natText (po_public p) @ ''->'' @ natText (po_private p) @ ''/'' @ po_type p)"

definition formatPorts :: "portMapping list \<Rightarrow> string list" where
  "formatPorts ports = sort (map portText ports)"

text \<open>The fields the image reference decides.\<close>

definition withImage :: "(string \<Rightarrow> err + named) \<Rightarrow> string \<Rightarrow> container \<Rightarrow> container" where
  "withImage parseNamed img c =
     (case Parse parseNamed img of
        Inr ref \<Rightarrow> c\<lparr>ct_imageName := rf_name ref, ct_imageTag := rf_tag ref, ct_registry := rf_registry ref,
                    ct_repository := rf_repository ref\<rparr>
      | Inl _ \<Rightarrow> c\<lparr>ct_imageName := img, ct_imageTag := ''latest''\<rparr>)"

definition withUnit :: "labels \<Rightarrow> container \<Rightarrow> container" where
  "withUnit ls c =
     (let unit = podmanSystemdUnit ls in if unit \<noteq> [] then c\<lparr>ct_systemdUnit := unit, ct_managed := True\<rparr> else c)"

definition withTask :: "labels \<Rightarrow> container \<Rightarrow> container" where
  "withTask ls c =
     (let sw = swarmTask ls
      in if si_taskID sw \<noteq> []
         then c\<lparr>ct_swarmServiceID := si_serviceID sw, ct_swarmServiceName := si_serviceName sw,
               ct_swarmTaskID := si_taskID sw, ct_swarmNodeID := si_nodeID sw, ct_managed := True\<rparr>
         else c)"

definition describe :: "(string \<Rightarrow> err + named) \<Rightarrow> listedContainer \<Rightarrow> string \<Rightarrow> string \<Rightarrow> string \<Rightarrow> container" where
  "describe parseNamed ctr name restart startedAt =
     (let digest = trimPrefix (lc_imageID ctr) ''sha256:'';
          c0 = empty_container\<lparr>ct_dockerID := lc_id ctr, ct_name := name, ct_image := lc_image ctr,
                 ct_imageDigest := (if digest \<noteq> [] then ''sha256:'' @ digest else digest),
                 ct_state := lc_state ctr, ct_status := lc_status ctr, ct_running := (lc_state ctr = ''running''),
                 ct_restartPolicy := restart, ct_composeService := label (lc_labels ctr) ''com.docker.compose.service'',
                 ct_created := lc_created ctr * second + unixEpoch, ct_labels := lc_labels ctr,
                 ct_ports := formatPorts (lc_ports ctr)\<rparr>;
          c1 = (case parseRFC3339 startedAt of Some t \<Rightarrow> c0\<lparr>ct_started := t\<rparr> | None \<Rightarrow> c0);
          c2 = withImage parseNamed (lc_image ctr) c1;
          (stk, kind) = containerStack (lc_labels ctr);
          c3 = (if stk \<noteq> [] then c2\<lparr>ct_stackName := stk\<rparr> else c2)
      in withTask (lc_labels ctr) (withUnit (lc_labels ctr) c3))"

text \<open>What looking at a listed container comes to.\<close>

datatype described = Crashed | Vanished | Seen container

definition describeListed :: "'d engine \<Rightarrow> listedContainer \<Rightarrow> 'd \<Rightarrow> described \<times> 'd" where
  "describeListed G ctr d =
     (case lc_names ctr of
        [] \<Rightarrow> (Crashed, d)
      | n # _ \<Rightarrow>
          (case ContainerInspect (en_daemon G) Caller (lc_id ctr) d of
             (Inl _, d1) \<Rightarrow> (Vanished, d1)
           | (Inr insp, d1) \<Rightarrow>
               (case (in_host insp, in_state insp) of
                  (Some h, Some st) \<Rightarrow>
                    (Seen (describe (en_parseNamed G) ctr (trimPrefix n ''/'') (hc_restartPolicy h) (st_startedAt st)), d1)
                | _ \<Rightarrow> (Crashed, d1))))"

section \<open>The snapshot\<close>

text \<open>The containers seen and the stack each belongs to, in the order of the list; \<open>None\<close> is the panic.\<close>

fun describeAll :: "'d engine \<Rightarrow> listedContainer list \<Rightarrow> 'd \<Rightarrow> (container list \<times> (string \<times> string) list) option \<times> 'd" where
  "describeAll G [] d = (Some ([], []), d)"
| "describeAll G (ctr # ctrs) d =
     (case describeListed G ctr d of
        (Crashed, d1) \<Rightarrow> (None, d1)
      | (Vanished, d1) \<Rightarrow> describeAll G ctrs d1
      | (Seen c, d1) \<Rightarrow>
          (case describeAll G ctrs d1 of
             (None, d2) \<Rightarrow> (None, d2)
           | (Some (cs, stk), d2) \<Rightarrow>
               (let (n, kind) = containerStack (lc_labels ctr)
                in (Some (c # cs, if n \<noteq> [] then (n, kind) # stk else stk), d2))))"

text \<open>The stacks: each name once, in order, with the kind the last container gave it.\<close>

definition stackList :: "(string \<times> string) list \<Rightarrow> stack list" where
  "stackList pairs =
     map (\<lambda>n. \<lparr>sk_id = [], sk_server = [], sk_name = n, sk_kind = label (rev pairs) n, sk_count = 0\<rparr>)
       (sort (remdups (map fst pairs)))"

datatype snapshotResult = SnapshotPanic | SnapshotErr err | SnapshotOK hostSnapshot

definition Snapshot :: "'d engine \<Rightarrow> swarmCapability \<Rightarrow> 'd \<Rightarrow> snapshotResult \<times> swarmCapability \<times> 'd" where
  "Snapshot G cap d =
     (case Info G d of
        (Inl e, d1) \<Rightarrow> (SnapshotErr e, cap, d1)
      | (Inr info, d1) \<Rightarrow>
          (case en_list G d1 of
             (Inl e, d2) \<Rightarrow> (SnapshotErr (wrap_err ''list containers: '' e), cap, d2)
           | (Inr ctrs, d2) \<Rightarrow>
               (let (ok, cap1, d3) = probeServices (en_daemon G) (sv_role info) cap d2
                in (case describeAll G ctrs d3 of
                      (None, d4) \<Rightarrow> (SnapshotPanic, cap1, d4)
                    | (Some (cs, stk), d4) \<Rightarrow>
                        (SnapshotOK \<lparr>hs_server = info\<lparr>sv_services := ok\<rparr>, hs_stacks = stackList stk, hs_containers = cs\<rparr>,
                         cap1, d4)))))"

text \<open>The agent copies the pointed-to values; nil pointers are dropped.\<close>

definition derefStacks :: "stack option list \<Rightarrow> stack list" where
  "derefStacks xs = concat (map (\<lambda>s. case s of Some x \<Rightarrow> [x] | None \<Rightarrow> []) xs)"

definition derefContainers :: "container option list \<Rightarrow> container list" where
  "derefContainers xs = concat (map (\<lambda>c. case c of Some x \<Rightarrow> [x] | None \<Rightarrow> []) xs)"

end
