(* ===== verification/SnapshotTotal.thy ===== *)
theory SnapshotTotal
  imports SnapshotProps
begin

text \<open>
  A report that names every stack and every container once is always stored: no statement of the
  transaction can violate a constraint, and each container's row ends up pointing at its stack's row.
\<close>

section \<open>The stack phase succeeds\<close>

definition skey :: "stack \<Rightarrow> string \<times> string \<times> string" where
  "skey r = (sk_id r, sk_server r, sk_name r)"

text \<open>The rows are the old ones and, behind them, one new row per stack that was not known; every stack
  written so far has its row.\<close>

definition stacks_inv :: "(nat \<Rightarrow> string) \<Rightarrow> string \<Rightarrow> db \<Rightarrow> snap \<Rightarrow> bool" where
  "stacks_inv ids i d0 sn \<longleftrightarrow>
     (let rows = stacks (sn_db sn) in
      stacks_ok rows
    \<and> (\<exists>new. map skey rows = map skey (stacks d0) @ new
         \<and> (\<forall>(j, s, n)\<in>set new. (\<exists>k<drawn sn. j = ids k) \<and> s = i \<and> n \<in> sk_name ` set (sn_stacks sn)))
    \<and> (\<forall>st\<in>set (sn_stacks sn). (sk_id st, i, sk_name st) \<in> set (map skey rows)))"

lemma skey_row: "(j, s, n) \<in> set (map skey rows) \<longleftrightarrow> (\<exists>r\<in>set rows. sk_id r = j \<and> sk_server r = s \<and> sk_name r = n)"
  by (auto simp: skey_def)

lemma stacks_of_None: "map_of (stacks_of i d) n = None \<Longrightarrow> (j, i, n) \<notin> set (map skey (stacks d))"
  by (auto simp: stacks_of_def skey_def map_of_eq_None_iff image_iff)

lemma stack_rows:
  assumes "stacks_inv ids i d0 sn" and "(j, s, n) \<in> set (map skey (stacks (sn_db sn)))"
  shows "(j, s, n) \<in> set (map skey (stacks d0)) \<or> (\<exists>k<drawn sn. j = ids k) \<and> s = i \<and> n \<in> sk_name ` set (sn_stacks sn)"
proof -
  obtain new where new: "map skey (stacks (sn_db sn)) = map skey (stacks d0) @ new"
    "\<forall>(j, s, n)\<in>set new. (\<exists>k<drawn sn. j = ids k) \<and> s = i \<and> n \<in> sk_name ` set (sn_stacks sn)"
    using assms(1) unfolding stacks_inv_def Let_def by blast
  then show ?thesis using assms(2) unfolding new(1) by auto
qed

lemma put_stack_succeeds:
  assumes ok: "stacks_ok (stacks d0)" and fresh: "fresh_ids ids (map sk_id (stacks d0))"
    and inv: "stacks_inv ids i d0 sn" and st: "sk_id st = []" "sk_name st \<notin> sk_name ` set (sn_stacks sn)"
  shows "\<exists>sn'. put_stack ids i (stacks_of i d0) st sn = Inr sn' \<and> stacks_inv ids i d0 sn'
    \<and> map sk_name (sn_stacks sn') = map sk_name (sn_stacks sn) @ [sk_name st]"
proof -
  let ?rows = "stacks (sn_db sn)"
  from inv have rows: "stacks_ok ?rows"
    and written: "\<forall>s\<in>set (sn_stacks sn). (sk_id s, i, sk_name s) \<in> set (map skey ?rows)"
    unfolding stacks_inv_def Let_def by blast+
  obtain new where new: "map skey ?rows = map skey (stacks d0) @ new"
    "\<And>j s n. (j, s, n) \<in> set new \<Longrightarrow> (\<exists>k<drawn sn. j = ids k) \<and> s = i \<and> n \<in> sk_name ` set (sn_stacks sn)"
    using inv unfolding stacks_inv_def Let_def by fast
  show ?thesis
  proof (cases "map_of (stacks_of i d0) (sk_name st)")
    case (Some j)
    then obtain r0 where "r0 \<in> set (stacks d0)" "sk_server r0 = i" "sk_name r0 = sk_name st" "sk_id r0 = j"
      by (blast dest: stacks_of_Some)
    then have mem: "(j, i, sk_name st) \<in> set (map skey ?rows)" unfolding new(1) by (auto simp: skey_def)
    let ?upd = "upd_rows (\<lambda>r. sk_id r = j) (\<lambda>r. r\<lparr>sk_name := sk_name st, sk_kind := sk_kind st\<rparr>) ?rows"
    have same: "skey (r\<lparr>sk_name := sk_name st, sk_kind := sk_kind st\<rparr>) = skey r" if "r \<in> set ?rows" "sk_id r = j" for r
    proof -
      from mem obtain r1 where "r1 \<in> set ?rows" "sk_id r1 = j" "sk_name r1 = sk_name st" unfolding skey_row by blast
      moreover from this have "r1 = r" using rows that distinct_map_eq [of sk_id ?rows r1 r] unfolding stacks_ok_def by metis
      ultimately show ?thesis by (simp add: skey_def)
    qed
    have keys: "map skey ?upd = map skey ?rows"
      using same by (induction ?rows) (auto simp: upd_rows_def)
    have "distinct (map sk_id ?upd)" "distinct (map (\<lambda>r. (sk_server r, sk_name r)) ?upd)"
      using rows arg_cong [OF keys, of "map fst"] arg_cong [OF keys, of "map snd"]
      by (simp_all add: stacks_ok_def skey_def comp_def)
    moreover have "j \<in> set (map sk_id ?rows)" using mem unfolding skey_row by auto
    ultimately have "put_stack ids i (stacks_of i d0) st sn
        = Inr (sn\<lparr>sn_db := (sn_db sn)\<lparr>stacks := ?upd\<rparr>, sn_stacks := sn_stacks sn @ [st\<lparr>sk_id := j\<rparr>]\<rparr>)"
      by (simp add: put_stack_def resolve_stack_id_def st(1) Some write_stack_def unique_on_def)
    moreover have "stacks_inv ids i d0
        (sn\<lparr>sn_db := (sn_db sn)\<lparr>stacks := ?upd\<rparr>, sn_stacks := sn_stacks sn @ [st\<lparr>sk_id := j\<rparr>]\<rparr>)"
      unfolding stacks_inv_def Let_def
    proof (intro conjI exI)
      show "stacks_ok (stacks (sn_db (sn\<lparr>sn_db := (sn_db sn)\<lparr>stacks := ?upd\<rparr>, sn_stacks := sn_stacks sn @ [st\<lparr>sk_id := j\<rparr>]\<rparr>)))"
        using \<open>distinct (map sk_id ?upd)\<close> \<open>distinct (map (\<lambda>r. (sk_server r, sk_name r)) ?upd)\<close> by (simp add: stacks_ok_def)
    qed (use keys new written mem in auto)
    ultimately show ?thesis by - (rule exI, rule conjI, assumption, rule conjI, assumption, simp)
  next
    case None
    have new2: "\<exists>k<Suc (drawn sn). j = ids k" if "(j, s, n) \<in> set new" for j s n
      using new(2) [OF that] less_SucI by blast
    let ?j = "ids (drawn sn)" and ?row = "st\<lparr>sk_id := ids (drawn sn), sk_server := i, sk_count := 0\<rparr>"
    have free: "(?j, s, n) \<notin> set (map skey ?rows)" for s n
    proof
      assume mem: "(?j, s, n) \<in> set (map skey ?rows)"
      have "?j \<notin> sk_id ` set (stacks d0)" using fresh by (simp add: fresh_ids_def)
      then have "(?j, s, n) \<notin> set (map skey (stacks d0))" unfolding skey_row by force
      with stack_rows [OF inv mem] obtain k where "k < drawn sn" "?j = ids k" by blast
      then show False using fresh by (auto simp: fresh_ids_def dest: injD)
    qed
    then have id: "?j \<notin> set (map sk_id ?rows)" unfolding skey_row by (metis imageE list.set_map)
    have "(j, i, sk_name st) \<notin> set (map skey ?rows)" for j
      using stack_rows [OF inv, of j i "sk_name st"] stacks_of_None [OF None] st(2) by blast
    then have name: "(i, sk_name st) \<notin> set (map (\<lambda>r. (sk_server r, sk_name r)) ?rows)" unfolding skey_row by force
    have ok': "stacks_ok (?rows @ [?row])" using rows id name by (simp add: stacks_ok_def)
    then have "put_stack ids i (stacks_of i d0) st sn
        = Inr (sn\<lparr>sn_db := (sn_db sn)\<lparr>stacks := ?rows @ [?row]\<rparr>, drawn := Suc (drawn sn),
                  sn_stacks := sn_stacks sn @ [st\<lparr>sk_id := ?j\<rparr>]\<rparr>)"
      using id by (simp add: put_stack_def resolve_stack_id_def st(1) None write_stack_def unique_on_def stacks_ok_def Let_def)
    moreover have "stacks_inv ids i d0 (sn\<lparr>sn_db := (sn_db sn)\<lparr>stacks := ?rows @ [?row]\<rparr>, drawn := Suc (drawn sn),
                  sn_stacks := sn_stacks sn @ [st\<lparr>sk_id := ?j\<rparr>]\<rparr>)"
      unfolding stacks_inv_def Let_def
    proof (intro conjI exI)
      show "map skey (stacks (sn_db (sn\<lparr>sn_db := (sn_db sn)\<lparr>stacks := ?rows @ [?row]\<rparr>, drawn := Suc (drawn sn),
                  sn_stacks := sn_stacks sn @ [st\<lparr>sk_id := ?j\<rparr>]\<rparr>)))
          = map skey (stacks d0) @ new @ [(?j, i, sk_name st)]"
        using new(1) by (simp add: skey_def)
    qed (use ok' written in \<open>auto simp: skey_def dest: new(2) intro: new2\<close>)
    ultimately show ?thesis by - (rule exI, rule conjI, assumption, rule conjI, assumption, simp)
  qed
qed

lemma fold_put_stack_succeeds:
  assumes "stacks_ok (stacks d0)" and "fresh_ids ids (map sk_id (stacks d0))"
    and "stacks_inv ids i d0 sn" and "\<forall>st\<in>set sts. sk_id st = []"
    and "distinct (map sk_name (sn_stacks sn) @ map sk_name sts)"
  shows "\<exists>sn'. fold_res (put_stack ids i (stacks_of i d0)) sts sn = Inr sn' \<and> stacks_inv ids i d0 sn'
    \<and> map sk_name (sn_stacks sn') = map sk_name (sn_stacks sn) @ map sk_name sts"
  using assms(3-)
proof (induction sts arbitrary: sn)
  case (Cons st sts)
  have "sk_name st \<notin> sk_name ` set (sn_stacks sn)" "sk_id st = []" using Cons.prems(2,3) by auto
  with put_stack_succeeds [OF assms(1,2) Cons.prems(1)] obtain sn1 where
    sn1: "put_stack ids i (stacks_of i d0) st sn = Inr sn1" "stacks_inv ids i d0 sn1"
      "map sk_name (sn_stacks sn1) = map sk_name (sn_stacks sn) @ [sk_name st]" by blast
  have "\<forall>st\<in>set sts. sk_id st = []" using Cons.prems(2) by simp
  moreover have "distinct (map sk_name (sn_stacks sn1) @ map sk_name sts)" unfolding sn1(3) using Cons.prems(3) by simp
  ultimately obtain sn' where "fold_res (put_stack ids i (stacks_of i d0)) sts sn1 = Inr sn'" "stacks_inv ids i d0 sn'"
    "map sk_name (sn_stacks sn') = map sk_name (sn_stacks sn1) @ map sk_name sts" using Cons.IH [OF sn1(2)] by blast
  with sn1 show ?case by simp
qed simp

text \<open>After the phase every stack of the report has a row under the server.\<close>

lemma snapshot_stacks_succeeds:
  assumes "stacks_ok (stacks d)" and "fresh_ids ids (map sk_id (stacks d))"
    and "\<forall>st\<in>set sts. sk_id st = []" and "distinct (map sk_name sts)"
  shows "\<exists>sn. snapshot_stacks ids i sts d = Inr sn
    \<and> (\<forall>st\<in>set (sn_stacks sn). \<exists>r\<in>set (stacks (sn_db sn)). sk_id r = sk_id st \<and> sk_server r = i \<and> sk_name r = sk_name st)
    \<and> map sk_name (sn_stacks sn) = map sk_name sts"
proof -
  have "stacks_inv ids i d \<lparr>sn_db = d, drawn = 0, sn_stacks = [], sn_containers = []\<rparr>"
    using assms(1) by (simp add: stacks_inv_def)
  with fold_put_stack_succeeds [OF assms(1,2) this assms(3)] assms(4) obtain sn1 where
    sn1: "fold_res (put_stack ids i (stacks_of i d)) sts \<lparr>sn_db = d, drawn = 0, sn_stacks = [], sn_containers = []\<rparr> = Inr sn1"
      "stacks_inv ids i d sn1" "map sk_name (sn_stacks sn1) = map sk_name sts" by auto
  then have "\<forall>st\<in>set (sn_stacks sn1). \<exists>r\<in>set (stacks (sn_db sn1)). sk_id r = sk_id st \<and> sk_server r = i \<and> sk_name r = sk_name st"
    unfolding stacks_inv_def Let_def skey_row by blast
  then show ?thesis
    by (auto simp: snapshot_stacks_def sn1 drop_stacks_def)
qed

section \<open>The container phase succeeds\<close>

text \<open>The row of a container written so far has the stack it was written with.\<close>

definition stack_ids_inv :: "string \<Rightarrow> snap \<Rightarrow> bool" where
  "stack_ids_inv i sn \<longleftrightarrow>
     (\<forall>c\<in>set (sn_containers sn). \<forall>r\<in>set (containers (sn_db sn)).
        ct_server r = i \<and> ct_dockerID r = ct_dockerID c \<longrightarrow> ct_stackID r = ct_stackID c)"

abbreviation stackFor :: "(string \<times> string) list \<Rightarrow> container \<Rightarrow> string" where
  "stackFor fin c \<equiv> (if ct_stackName c \<noteq> [] then label fin (ct_stackName c) else [])"

lemma resolve_container_stack_id: "ct_stackID c = [] \<Longrightarrow> ct_stackID (resolve_container_stack fin c) = stackFor fin c"
  by (simp add: resolve_container_stack_def)

lemma csnap_rows_docker:
  assumes "csnap_inv ids i d0 sn" and "containers_ok (containers d0)"
    and "r \<in> set (containers (sn_db sn))" and "ct_server r = i"
    and "ct_dockerID r \<notin> ct_dockerID ` set (sn_containers sn)"
  shows "map_of (containers_of i d0) (ct_dockerID r) = Some (ct_id r, ct_pinned r)"
proof -
  from csnap_invD(1) [OF assms(1,3)] assms(5) have "ckey r \<in> set (map ckey (containers d0))" by auto
  then obtain r0 where "r0 \<in> set (containers d0)" "ckey r = ckey r0" by (metis (lifting) imageE set_map)
  with containers_of_mem [OF assms(2), of r0] assms(4) show ?thesis by auto
qed

lemma put_container_succeeds:
  assumes ok: "containers_ok (containers d0)" and fresh: "fresh_ids ids (map ct_id (containers d0))"
    and inv: "csnap_inv ids i d0 sn" and rows: "containers_ok (containers (sn_db sn))" and stk: "stack_ids_inv i sn"
    and c0: "ct_id c0 = []" "ct_stackID c0 = []" "ct_dockerID c0 \<notin> ct_dockerID ` set (sn_containers sn)"
  shows "\<exists>sn'. put_container ids i (containers_of i d0) fin c0 sn = Inr sn' \<and> csnap_inv ids i d0 sn'
    \<and> containers_ok (containers (sn_db sn')) \<and> stack_ids_inv i sn'
    \<and> map (\<lambda>c. (ct_dockerID c, ct_stackID c)) (sn_containers sn')
      = map (\<lambda>c. (ct_dockerID c, ct_stackID c)) (sn_containers sn) @ [(ct_dockerID c0, stackFor fin c0)]"
proof -
  let ?rows = "containers (sn_db sn)" and ?key = "\<lambda>r. (ct_server r, ct_dockerID r)"
  have ids: "distinct (map ct_id ?rows)" and keys: "distinct (map ?key ?rows)" using rows by (simp_all add: containers_ok_def)
  show ?thesis
  proof (cases "map_of (containers_of i d0) (ct_dockerID c0)")
    case (Some jp)
    then obtain j p where jp: "map_of (containers_of i d0) (ct_dockerID c0) = Some (j, p)" by (cases jp) auto
    define c where "c = resolve_container_stack fin (c0\<lparr>ct_id := j, ct_pinned := ct_pinned c0 \<or> p\<rparr>)"
    have c: "ct_id c = j" "ct_dockerID c = ct_dockerID c0" "ct_stackID c = stackFor fin c0"
      using c0(2) by (simp_all add: c_def resolve_container_stack_id)
    let ?upd = "upd_rows (\<lambda>r. ct_id r = j) (merge_container c) ?rows"
    from jp obtain r0 where r0: "r0 \<in> set (containers d0)" "ct_server r0 = i" "ct_dockerID r0 = ct_dockerID c0" "ct_id r0 = j"
      by (blast dest: containers_of_Some)
    with csnap_invD(3) [OF inv] obtain r1 where r1: "r1 \<in> set ?rows" "ct_id r1 = j" "ct_server r1 = i" "ct_dockerID r1 = ct_dockerID c0"
      by (metis prod.inject)
    have "map ct_id ?upd = map ct_id ?rows" "map ?key ?upd = map ?key ?rows" by (simp_all add: map_upd_rows)
    then have ok': "containers_ok ?upd" using ids keys by (simp add: containers_ok_def)
    define sn' where "sn' = sn\<lparr>sn_db := (sn_db sn)\<lparr>containers := ?upd\<rparr>, sn_containers := sn_containers sn @ [c]\<rparr>"
    have "j \<in> set (map ct_id ?rows)" using r1 by auto
    then have run: "put_container ids i (containers_of i d0) fin c0 sn = Inr sn'"
      using ok' by (simp add: put_container_def resolve_container_def jp c_def [symmetric] write_container_def unique_on_def c
          containers_ok_def sn'_def)
    have "ct_stackID r = ct_stackID x"
      if "x \<in> set (sn_containers sn @ [c])" "r \<in> set ?upd" "ct_server r = i" "ct_dockerID r = ct_dockerID x" for x r
    proof -
      from that(2) obtain y where y: "y \<in> set ?rows" "r = (if ct_id y = j then merge_container c y else y)"
        by (rule mem_upd_rowsE)
      then have same: "ct_server y = i" "ct_dockerID y = ct_dockerID x" using that(3,4) by (auto split: if_splits)
      show ?thesis
      proof (cases "ct_id y = j")
        case True
        then have "y = r1" using distinct_map_eq [OF ids y(1) r1(1)] r1(2) by simp
        then have "x \<notin> set (sn_containers sn)" using same r1(4) c0(3) by (metis imageI)
        with that(1) have "x = c" by simp
        then show ?thesis using y(2) True by (simp add: merge_container_def)
      next
        case False
        then have "r = y" "ct_dockerID y \<noteq> ct_dockerID c0"
          using y(2) distinct_map_eq [OF keys y(1) r1(1)] r1 same by auto
        with that(1) same c(2) have "x \<in> set (sn_containers sn)" by auto
        then show ?thesis using stk same y(1) \<open>r = y\<close> unfolding stack_ids_inv_def by metis
      qed
    qed
    moreover have "sn_containers sn' = sn_containers sn @ [c]" "containers (sn_db sn') = ?upd" by (simp_all add: sn'_def)
    ultimately have "stack_ids_inv i sn'" unfolding stack_ids_inv_def by metis
    moreover have "csnap_inv ids i d0 sn'" by (rule csnap_inv_step [OF ok fresh inv c0(1) run])
    ultimately show ?thesis using run ok' c by (simp add: sn'_def)
  next
    case None
    define c where "c = resolve_container_stack fin (c0\<lparr>ct_id := ids (drawn sn)\<rparr>)"
    have c: "ct_id c = ids (drawn sn)" "ct_dockerID c = ct_dockerID c0" "ct_stackID c = stackFor fin c0"
      using c0(2) by (simp_all add: c_def resolve_container_stack_id)
    let ?new = "?rows @ [c\<lparr>ct_server := i, ct_stackName := []\<rparr>]"
    have free: "\<not> (ct_server r = i \<and> ct_dockerID r = ct_dockerID c0)" if "r \<in> set ?rows" for r
      using csnap_rows_docker [OF inv ok that] None c0(3) by force
    then have "(i, ct_dockerID c0) \<notin> set (map ?key ?rows)" by force
    moreover have id: "ids (drawn sn) \<notin> set (map ct_id ?rows)" by (rule csnap_inv_fresh [OF inv fresh])
    ultimately have ok': "containers_ok ?new" using ids keys c by (simp add: containers_ok_def)
    define sn' where "sn' = sn\<lparr>sn_db := (sn_db sn)\<lparr>containers := ?new\<rparr>, drawn := Suc (drawn sn), sn_containers := sn_containers sn @ [c]\<rparr>"
    have run: "put_container ids i (containers_of i d0) fin c0 sn = Inr sn'"
      using ok' id by (simp add: put_container_def resolve_container_def None c0(1) c_def [symmetric] write_container_def unique_on_def c
          containers_ok_def sn'_def)
    have "ct_stackID r = ct_stackID x"
      if "x \<in> set (sn_containers sn @ [c])" "r \<in> set ?new" "ct_server r = i" "ct_dockerID r = ct_dockerID x" for x r
    proof (cases "r \<in> set ?rows")
      case True
      with free that have "x \<in> set (sn_containers sn)" using c(2) by auto
      then show ?thesis using stk True that unfolding stack_ids_inv_def by metis
    next
      case False
      with that(2) have r: "r = c\<lparr>ct_server := i, ct_stackName := []\<rparr>" by simp
      with that(4) c(2) c0(3) have "x \<notin> set (sn_containers sn)" by force
      with that(1) r show ?thesis by simp
    qed
    moreover have "sn_containers sn' = sn_containers sn @ [c]" "containers (sn_db sn') = ?new" by (simp_all add: sn'_def)
    ultimately have "stack_ids_inv i sn'" unfolding stack_ids_inv_def by metis
    moreover have "csnap_inv ids i d0 sn'" by (rule csnap_inv_step [OF ok fresh inv c0(1) run])
    ultimately show ?thesis using run ok' c by (simp add: sn'_def)
  qed
qed

lemma fold_put_container_succeeds:
  assumes ok: "containers_ok (containers d0)" and fresh: "fresh_ids ids (map ct_id (containers d0))"
    and "csnap_inv ids i d0 sn" and "containers_ok (containers (sn_db sn))" and "stack_ids_inv i sn"
    and "\<forall>c\<in>set cs. ct_id c = [] \<and> ct_stackID c = []"
    and "distinct (map ct_dockerID (sn_containers sn) @ map ct_dockerID cs)"
  shows "\<exists>sn'. fold_res (put_container ids i (containers_of i d0) fin) cs sn = Inr sn' \<and> csnap_inv ids i d0 sn'
    \<and> stack_ids_inv i sn'
    \<and> map (\<lambda>c. (ct_dockerID c, ct_stackID c)) (sn_containers sn')
      = map (\<lambda>c. (ct_dockerID c, ct_stackID c)) (sn_containers sn) @ map (\<lambda>c. (ct_dockerID c, stackFor fin c)) cs"
  using assms(3-)
proof (induction cs arbitrary: sn)
  case (Cons c cs)
  have c: "ct_id c = []" "ct_stackID c = []" "ct_dockerID c \<notin> ct_dockerID ` set (sn_containers sn)"
    using Cons.prems(4,5) by auto
  obtain sn1 where sn1: "put_container ids i (containers_of i d0) fin c sn = Inr sn1" "csnap_inv ids i d0 sn1"
    "containers_ok (containers (sn_db sn1))" "stack_ids_inv i sn1"
    and l: "map (\<lambda>c. (ct_dockerID c, ct_stackID c)) (sn_containers sn1)
      = map (\<lambda>c. (ct_dockerID c, ct_stackID c)) (sn_containers sn) @ [(ct_dockerID c, stackFor fin c)]"
    using put_container_succeeds [OF ok fresh Cons.prems(1-3) c, of fin] by blast
  have "map ct_dockerID (sn_containers sn1) = map ct_dockerID (sn_containers sn) @ [ct_dockerID c]"
    by (rule put_container_docker [OF sn1(1)])
  then have "distinct (map ct_dockerID (sn_containers sn1) @ map ct_dockerID cs)" using Cons.prems(5) by simp
  moreover have "\<forall>c\<in>set cs. ct_id c = [] \<and> ct_stackID c = []" using Cons.prems(4) by simp
  ultimately obtain sn' where "fold_res (put_container ids i (containers_of i d0) fin) cs sn1 = Inr sn'"
    "csnap_inv ids i d0 sn'" "stack_ids_inv i sn'"
    "map (\<lambda>c. (ct_dockerID c, ct_stackID c)) (sn_containers sn')
      = map (\<lambda>c. (ct_dockerID c, ct_stackID c)) (sn_containers sn1) @ map (\<lambda>c. (ct_dockerID c, stackFor fin c)) cs"
    using Cons.IH [OF sn1(2-4)] by blast
  with sn1(1) l show ?case by simp
qed simp

section \<open>The whole transaction succeeds\<close>

lemma final_stack_ids_label:
  assumes "n \<in> sk_name ` set sts" and "n \<noteq> []"
  shows "\<exists>st\<in>set sts. sk_name st = n \<and> label (final_stack_ids sts) n = sk_id st"
proof -
  have "n \<in> fst ` set (final_stack_ids sts)" using assms by (force simp: final_stack_ids_def)
  then obtain j where j: "map_of (final_stack_ids sts) n = Some j" by (metis map_of_eq_None_iff not_None_eq)
  then have "(n, j) \<in> set (final_stack_ids sts)" by (rule map_of_SomeD)
  with j show ?thesis by (auto simp: final_stack_ids_def label_def)
qed

text \<open>A report that names each stack and each container once and puts every container's stack on its list.\<close>

definition tidy_report :: "stack list \<Rightarrow> container list \<Rightarrow> bool" where
  "tidy_report sts cs \<longleftrightarrow> distinct (map sk_name sts) \<and> distinct (map ct_dockerID cs)
     \<and> (\<forall>c\<in>set cs. ct_stackID c = [] \<and> (ct_stackName c \<noteq> [] \<longrightarrow> ct_stackName c \<in> sk_name ` set sts))"

lemma tidy_report_stored:
  assumes wf: "db_wf d" and plain: "plain_report sts cs" and tidy: "tidy_report sts cs" and fresh: "fresh_for ids d"
  shows "\<exists>d'. ReplaceServerSnapshot ids srv sts cs d = Inr d'
    \<and> (\<forall>c\<in>set cs. ct_stackName c \<noteq> [] \<longrightarrow>
         (\<forall>r\<in>set (containers d'). ct_server r = sv_id srv \<and> ct_dockerID r = ct_dockerID c \<longrightarrow>
            (\<exists>st\<in>set (stacks d'). sk_id st = ct_stackID r \<and> sk_server st = sv_id srv \<and> sk_name st = ct_stackName c)))"
proof -
  let ?i = "sv_id srv" and ?u = "upsert_server srv d"
  have wfu: "db_wf ?u" by (rule upsert_server_wf [OF wf])
  have fs: "fresh_ids ids (map sk_id (stacks ?u))" and fc: "fresh_ids ids (map ct_id (containers d))"
    using fresh by (auto simp: fresh_for_def fresh_ids_def)
  have oku: "stacks_ok (stacks ?u)" using wfu by (simp add: db_wf_def)
  have st0: "\<forall>st\<in>set sts. sk_id st = []" using plain by (simp add: plain_report_def)
  obtain s1 where s1: "snapshot_stacks ids ?i sts ?u = Inr s1"
    and rows: "\<forall>st\<in>set (sn_stacks s1). \<exists>r\<in>set (stacks (sn_db s1)). sk_id r = sk_id st \<and> sk_server r = ?i \<and> sk_name r = sk_name st"
    and names: "map sk_name (sn_stacks s1) = map sk_name sts"
    using snapshot_stacks_succeeds [OF oku fs st0] tidy unfolding tidy_report_def by blast
  note frame = snapshot_stacks_frame [OF oku fs st0 s1]
  let ?d1 = "sn_db s1" and ?fin = "final_stack_ids (sn_stacks s1)"
  have cont: "containers ?d1 = containers d" by (subst frame(1)) simp
  have "db_wf ?d1" by (rule snapshot_stacks_wf [OF wfu s1])
  then have okc: "containers_ok (containers ?d1)" by (simp add: db_wf_def)
  have "fresh_ids ids (map ct_id (containers ?d1))" unfolding cont by (rule fc)
  note phase = fold_put_container_succeeds [OF okc this csnap_inv_start [OF frame(2)] okc, of ?i cs ?fin]
  have "stack_ids_inv ?i s1" by (simp add: stack_ids_inv_def frame(2))
  moreover have "\<forall>c\<in>set cs. ct_id c = [] \<and> ct_stackID c = []" using plain tidy by (simp add: plain_report_def tidy_report_def)
  moreover have "distinct (map ct_dockerID (sn_containers s1) @ map ct_dockerID cs)" using tidy by (simp add: frame(2) tidy_report_def)
  ultimately obtain s2 where s2: "fold_res (put_container ids ?i (containers_of ?i ?d1) ?fin) cs s1 = Inr s2"
    "csnap_inv ids ?i ?d1 s2" "stack_ids_inv ?i s2"
    and l: "map (\<lambda>c. (ct_dockerID c, ct_stackID c)) (sn_containers s2) = map (\<lambda>c. (ct_dockerID c, stackFor ?fin c)) cs"
    using phase by (auto simp: frame(2))
  let ?d' = "drop_containers (map (\<lambda>e. fst (snd e)) (containers_of ?i ?d1)) (map ct_id (sn_containers s2)) (sn_db s2)"
  have run: "ReplaceServerSnapshot ids srv sts cs d = Inr ?d'"
    by (simp add: ReplaceServerSnapshot_def s1 snapshot_containers_def s2(1) Let_def)
  have "\<exists>st\<in>set (stacks ?d'). sk_id st = ct_stackID r \<and> sk_server st = ?i \<and> sk_name st = ct_stackName c"
    if c: "c \<in> set cs" "ct_stackName c \<noteq> []" and r: "r \<in> set (containers ?d')" "ct_server r = ?i" "ct_dockerID r = ct_dockerID c"
    for c r
  proof -
    have "(ct_dockerID c, stackFor ?fin c) \<in> set (map (\<lambda>c. (ct_dockerID c, stackFor ?fin c)) cs)" using c(1) by simp
    then obtain x where x: "x \<in> set (sn_containers s2)" "ct_dockerID x = ct_dockerID c" "ct_stackID x = stackFor ?fin c"
      unfolding l [symmetric] by auto
    have "r \<in> set (containers (sn_db s2))" using r(1) by (simp add: drop_containers_sel)
    with s2(3) x r have "ct_stackID r = label ?fin (ct_stackName c)" using c(2) unfolding stack_ids_inv_def by metis
    moreover have "ct_stackName c \<in> sk_name ` set sts" using tidy c unfolding tidy_report_def by blast
    then have "ct_stackName c \<in> sk_name ` set (sn_stacks s1)" using names by (metis set_map)
    ultimately obtain st where "st \<in> set (sn_stacks s1)" "sk_name st = ct_stackName c" "ct_stackID r = sk_id st"
      using final_stack_ids_label [of "ct_stackName c"] c(2) by metis
    moreover have "stacks ?d' = stacks ?d1" by (subst csnap_invD(5) [OF s2(2)]) (simp add: drop_containers_def delete_containers_def Let_def)
    ultimately show ?thesis using rows by metis
  qed
  with run show ?thesis by blast
qed

end
