(* ===== verification/HostSnapshotProps.thy ===== *)
theory HostSnapshotProps
  imports HostSnapshot SnapshotTotal ServerProps AgentDemo
begin

text \<open>
  Properties of the host snapshot: what it says of a container, that the server can always store it, and
  the container that makes it panic.
\<close>

section \<open>What is described\<close>

lemma describe_keys:
  "ct_id (describe P ctr n rp st) = []" "ct_stackID (describe P ctr n rp st) = []"
  "ct_dockerID (describe P ctr n rp st) = lc_id ctr"
  "ct_stackName (describe P ctr n rp st) = fst (containerStack (lc_labels ctr))"
  by (simp_all add: describe_def withTask_def withUnit_def withImage_def empty_container_def Let_def
      split: sum.split option.split prod.split)

lemma describe_managed:
  "ct_managed (describe P ctr n rp st) \<longleftrightarrow>
     ct_systemdUnit (describe P ctr n rp st) \<noteq> [] \<or> ct_swarmTaskID (describe P ctr n rp st) \<noteq> []"
  by (simp add: describe_def withTask_def withUnit_def withImage_def empty_container_def Let_def
      split: sum.split option.split prod.split)

lemma describeListed_Seen:
  "describeListed G ctr d = (Seen c, d1) \<Longrightarrow> \<exists>n rp st. c = describe (en_parseNamed G) ctr n rp st"
  by (auto simp: describeListed_def split: list.splits sum.splits option.splits prod.splits)

lemma describeAll_Cons_Some:
  assumes "describeAll G (ctr # ctrs) d = (Some (cs, stk), d')"
  obtains (skipped) d1 where "describeAll G ctrs d1 = (Some (cs, stk), d')"
  | (seen) c cs0 stk0 n kind rp st nm d1 where "c = describe (en_parseNamed G) ctr nm rp st"
      "describeAll G ctrs d1 = (Some (cs0, stk0), d')" "containerStack (lc_labels ctr) = (n, kind)"
      "cs = c # cs0" "stk = (if n \<noteq> [] then (n, kind) # stk0 else stk0)"
proof -
  obtain r d1 where r: "describeListed G ctr d = (r, d1)" by (cases "describeListed G ctr d")
  obtain n kind where nk: "containerStack (lc_labels ctr) = (n, kind)" by (cases "containerStack (lc_labels ctr)")
  show thesis
  proof (cases r)
    case Crashed
    then show thesis using assms r by simp
  next
    case Vanished
    then show thesis using assms r skipped by simp
  next
    case (Seen c)
    obtain nm rp st where c: "c = describe (en_parseNamed G) ctr nm rp st"
      using describeListed_Seen [of G ctr d c d1] r Seen by auto
    obtain x d2 where x: "describeAll G ctrs d1 = (x, d2)" by (cases "describeAll G ctrs d1")
    then obtain cs0 stk0 where "x = Some (cs0, stk0)" using assms r Seen by (cases x) auto
    with x have "describeAll G ctrs d1 = (Some (cs0, stk0), d')" "cs = c # cs0"
      "stk = (if n \<noteq> [] then (n, kind) # stk0 else stk0)"
      using assms r Seen nk by (simp_all add: Let_def)
    with seen c nk show thesis by blast
  qed
qed

lemma describeAll_report:
  assumes "describeAll G ctrs d = (Some (cs, stk), d')"
  shows "\<forall>c\<in>set cs. (\<exists>ctr\<in>set ctrs. \<exists>n rp st. c = describe (en_parseNamed G) ctr n rp st)
      \<and> (ct_stackName c \<noteq> [] \<longrightarrow> ct_stackName c \<in> fst ` set stk)"
    and "distinct (map lc_id ctrs) \<Longrightarrow> distinct (map ct_dockerID cs)"
proof -
  have "(\<forall>c\<in>set cs. (\<exists>ctr\<in>set ctrs. \<exists>n rp st. c = describe (en_parseNamed G) ctr n rp st)
      \<and> (ct_stackName c \<noteq> [] \<longrightarrow> ct_stackName c \<in> fst ` set stk))
    \<and> (distinct (map lc_id ctrs) \<longrightarrow> distinct (map ct_dockerID cs))"
    using assms
  proof (induction ctrs arbitrary: cs stk d)
    case (Cons ctr ctrs)
    from Cons.prems show ?case
    proof (cases rule: describeAll_Cons_Some)
      case (skipped d1)
      from Cons.IH [OF this] show ?thesis by auto
    next
      case (seen c cs0 stk0 n kind rp st nm d1)
      note ih = Cons.IH [OF seen(2)]
      have name: "ct_stackName c = n" using seen(3) by (simp add: seen(1) describe_keys)
      have ids: "ct_dockerID c = lc_id ctr" by (simp add: seen(1) describe_keys)
      have "lc_id ctr \<notin> ct_dockerID ` set cs0" if "lc_id ctr \<notin> lc_id ` set ctrs"
        using ih that by (force simp: describe_keys)
      with ih name ids show ?thesis unfolding seen(4,5) using seen(1) by auto
    qed
  qed simp
  then show "\<forall>c\<in>set cs. (\<exists>ctr\<in>set ctrs. \<exists>n rp st. c = describe (en_parseNamed G) ctr n rp st)
      \<and> (ct_stackName c \<noteq> [] \<longrightarrow> ct_stackName c \<in> fst ` set stk)"
    and "distinct (map lc_id ctrs) \<Longrightarrow> distinct (map ct_dockerID cs)" by blast+
qed

lemma Snapshot_OK:
  assumes "Snapshot G cap d = (SnapshotOK snap, cap', d')"
  obtains d1 d2 ctrs d3 stk where "en_list G d1 = (Inr ctrs, d2)"
    "describeAll G ctrs d3 = (Some (hs_containers snap, stk), d')" "hs_stacks snap = stackList stk"
  using assms that
  by (auto simp: Snapshot_def Let_def split: prod.splits sum.splits option.splits)

lemma stackList_names: "map sk_name (stackList pairs) = sort (remdups (map fst pairs))"
  by (simp add: stackList_def comp_def)

lemma snapshot_tidy:
  assumes "Snapshot G cap d = (SnapshotOK snap, cap', d')"
    and "\<And>v ctrs v'. en_list G v = (Inr ctrs, v') \<Longrightarrow> distinct (map lc_id ctrs)"
  shows "plain_report (hs_stacks snap) (hs_containers snap)" and "tidy_report (hs_stacks snap) (hs_containers snap)"
    and "c \<in> set (hs_containers snap) \<Longrightarrow> ct_managed c \<longleftrightarrow> ct_systemdUnit c \<noteq> [] \<or> ct_swarmTaskID c \<noteq> []"
proof -
  obtain d1 d2 ctrs d3 stk where s: "en_list G d1 = (Inr ctrs, d2)"
    "describeAll G ctrs d3 = (Some (hs_containers snap, stk), d')" "hs_stacks snap = stackList stk"
    by (rule Snapshot_OK [OF assms(1)])
  note rep = describeAll_report [OF s(2)]
  show "plain_report (hs_stacks snap) (hs_containers snap)"
    using rep(1) by (auto simp: plain_report_def s(3) stackList_def describe_keys)
  have names: "sk_name ` set (stackList stk) = fst ` set stk"
    using arg_cong [OF stackList_names [of stk], of set] by simp
  have "distinct (map sk_name (stackList stk))" unfolding stackList_names by simp
  moreover have "distinct (map ct_dockerID (hs_containers snap))" by (rule rep(2) [OF assms(2) [OF s(1)]])
  ultimately show "tidy_report (hs_stacks snap) (hs_containers snap)"
    using rep(1) by (auto simp: tidy_report_def s(3) names describe_keys)
  show "ct_managed c \<longleftrightarrow> ct_systemdUnit c \<noteq> [] \<or> ct_swarmTaskID c \<noteq> []" if "c \<in> set (hs_containers snap)"
    using bspec [OF rep(1) that] by (auto simp: describe_managed)
qed

section \<open>It can be stored\<close>

text \<open>C6: what the Docker client says of a host can always be stored, under whatever server row: the transaction
  succeeds, afterwards the server's containers are exactly the reported ones, and the row of each container
  of a stack points at the row of that stack.\<close>

theorem host_snapshot_stored:
  assumes "Snapshot G cap w = (SnapshotOK snap, cap', w')"
    and "\<And>v ctrs v'. en_list G v = (Inr ctrs, v') \<Longrightarrow> distinct (map lc_id ctrs)"
    and "db_wf d" and "fresh_for ids d"
  shows "\<exists>d'. ReplaceServerSnapshot ids srv (hs_stacks snap) (hs_containers snap) d = Inr d'
    \<and> ct_dockerID ` {r \<in> set (containers d'). ct_server r = sv_id srv} = ct_dockerID ` set (hs_containers snap)
    \<and> (\<forall>c\<in>set (hs_containers snap). ct_stackName c \<noteq> [] \<longrightarrow>
         (\<forall>r\<in>set (containers d'). ct_server r = sv_id srv \<and> ct_dockerID r = ct_dockerID c \<longrightarrow>
            (\<exists>st\<in>set (stacks d'). sk_id st = ct_stackID r \<and> sk_server st = sv_id srv \<and> sk_name st = ct_stackName c)))"
proof -
  have tidy: "plain_report (hs_stacks snap) (hs_containers snap)" "tidy_report (hs_stacks snap) (hs_containers snap)"
    by (rule snapshot_tidy(1,2) [OF assms(1)], rule assms(2), assumption)+
  obtain d' where run: "ReplaceServerSnapshot ids srv (hs_stacks snap) (hs_containers snap) d = Inr d'"
    and stk: "\<forall>c\<in>set (hs_containers snap). ct_stackName c \<noteq> [] \<longrightarrow>
         (\<forall>r\<in>set (containers d'). ct_server r = sv_id srv \<and> ct_dockerID r = ct_dockerID c \<longrightarrow>
            (\<exists>st\<in>set (stacks d'). sk_id st = ct_stackID r \<and> sk_server st = sv_id srv \<and> sk_name st = ct_stackName c))"
    using tidy_report_stored [OF assms(3) tidy assms(4), where srv = srv] by blast
  have "ct_dockerID ` {r \<in> set (containers d'). ct_server r = sv_id srv} = ct_dockerID ` set (hs_containers snap)"
    by (rule snapshot_exact_rows [OF assms(3) tidy(1) assms(4) run])
  with run stk show ?thesis by blast
qed

text \<open>An engine with one container, which belongs to a compose project.\<close>

definition demoListed :: listedContainer where
  "demoListed = \<lparr>lc_id = ''d-c1'', lc_names = [''/web''], lc_image = ''nginx:1.25'', lc_imageID = ''sha256:a'',
     lc_state = ''running'', lc_status = ''Up 2 hours'', lc_created = 0,
     lc_labels = [(''com.docker.compose.project'', ''shop'')],
     lc_ports = [\<lparr>po_ip = ''::'', po_private = 80, po_public = 8080, po_type = ''tcp''\<rparr>]\<rparr>"

definition demoHostConfig :: hostConfig where
  "demoHostConfig = \<lparr>hc_swappiness = None, hc_autoRemove = False, hc_networkMode = [], hc_binds = [], hc_groupAdd = [],
     hc_mounts = [], hc_restartPolicy = ''always'', hc_rest = []\<rparr>"

definition demoEngine :: "listedContainer list \<Rightarrow> nat engine" where
  "demoEngine ctrs = \<lparr>en_daemon = demoHost\<lparr>ContainerInspect := (\<lambda>_ _ w. (Inr (demoInspect\<lparr>in_host := Some demoHostConfig\<rparr>), w))\<rparr>,
     en_ping = (\<lambda>w. (None, w)),
     en_info = (\<lambda>w. (Inr \<lparr>hi_name = ''nas'', hi_serverVersion = ''27.0'', hi_osType = ''linux'', hi_architecture = ''x86_64'',
        hi_ncpu = 4, hi_memTotal = 8, hi_labels = [], hi_nodeState = ''inactive'', hi_controlAvailable = False\<rparr>, w)),
     en_list = (\<lambda>w. (Inr ctrs, w)), en_parseNamed = (\<lambda>_. Inl (errors_new ''invalid reference''))\<rparr>"

definition coldCap :: swarmCapability where
  "coldCap = \<lparr>cap_checked = zero_time, cap_ok = False\<rparr>"

definition seenContainer :: container where
  "seenContainer = describe (en_parseNamed (demoEngine [])) demoListed ''web'' ''always'' []"

lemma demo_snapshot:
  "\<exists>snap. Snapshot (demoEngine [demoListed]) coldCap w = (SnapshotOK snap, coldCap, w)
    \<and> hs_containers snap = [seenContainer]"
proof -
  have "describeAll (demoEngine [demoListed]) [demoListed] w = (Some ([seenContainer], [(''shop'', ''compose'')]), w)"
    by (simp add: describeListed_def demoEngine_def demoListed_def demoHostConfig_def demoInspect_def seenContainer_def
        containerStack_def trimPrefix_def Let_def)
  then show ?thesis
    by (simp add: Snapshot_def Info_def demoEngine_def probeServices_def swarmRoleFrom_def coldCap_def)
qed

theorem host_snapshot_stored_witness:
  "\<exists>snap d'. Snapshot (demoEngine [demoListed]) coldCap 0 = (SnapshotOK snap, coldCap, 0)
    \<and> ReplaceServerSnapshot (\<lambda>n. ''id'' @ natText n) demoDirect (hs_stacks snap) (hs_containers snap) demoDB = Inr d'
    \<and> ct_dockerID ` {r \<in> set (containers d'). ct_server r = ''srv-d''} = {''d-c1''}
    \<and> (\<exists>st\<in>set (stacks d'). sk_server st = ''srv-d'' \<and> sk_name st = ''shop'')"
proof -
  obtain snap where snap: "Snapshot (demoEngine [demoListed]) coldCap 0 = (SnapshotOK snap, coldCap, 0)"
    and cs: "hs_containers snap = [seenContainer]" using demo_snapshot by blast
  have "\<And>v ctrs v'. en_list (demoEngine [demoListed]) v = (Inr ctrs, v') \<Longrightarrow> distinct (map lc_id ctrs)"
    by (auto simp: demoEngine_def)
  moreover have "db_wf demoDB" using demoApp_wf by (simp add: demoApp_def)
  moreover have "map ct_id (containers demoDB) @ map sk_id (stacks demoDB) = [''c1'', ''c2'']"
    by (simp add: demoDB_def demoContainer_def empty_db_def)
  then have "fresh_for (\<lambda>n. ''id'' @ natText n) demoDB"
    unfolding fresh_for_def by (simp only:) (simp add: fresh_ids_def inj_def)
  ultimately obtain d' where d': "ReplaceServerSnapshot (\<lambda>n. ''id'' @ natText n) demoDirect (hs_stacks snap) (hs_containers snap) demoDB = Inr d'"
    and ids: "ct_dockerID ` {r \<in> set (containers d'). ct_server r = sv_id demoDirect} = ct_dockerID ` set (hs_containers snap)"
    and stk: "\<forall>c\<in>set (hs_containers snap). ct_stackName c \<noteq> [] \<longrightarrow>
         (\<forall>r\<in>set (containers d'). ct_server r = sv_id demoDirect \<and> ct_dockerID r = ct_dockerID c \<longrightarrow>
            (\<exists>st\<in>set (stacks d'). sk_id st = ct_stackID r \<and> sk_server st = sv_id demoDirect \<and> sk_name st = ct_stackName c))"
    using host_snapshot_stored [OF snap, where srv = demoDirect] by blast
  have srv: "sv_id demoDirect = ''srv-d''" by (simp add: demoDirect_def)
  have c: "ct_dockerID seenContainer = ''d-c1''" "ct_stackName seenContainer = ''shop''"
    by (simp_all add: seenContainer_def describe_keys demoListed_def containerStack_def Let_def)
  have img: "ct_dockerID ` set (hs_containers snap) = {''d-c1''}" unfolding cs by (simp add: c)
  note ids' = ids [unfolded img srv]
  have "''d-c1'' \<in> ct_dockerID ` {r \<in> set (containers d'). ct_server r = ''srv-d''}" unfolding ids' by (rule singletonI)
  then obtain r where "r \<in> {r \<in> set (containers d'). ct_server r = ''srv-d''}" "''d-c1'' = ct_dockerID r" by (rule imageE)
  then have r: "r \<in> set (containers d')" "ct_server r = ''srv-d''" "ct_dockerID r = ''d-c1''" by simp_all
  have "seenContainer \<in> set (hs_containers snap)" by (simp add: cs)
  from bspec [OF stk this] r have "\<exists>st\<in>set (stacks d'). sk_server st = ''srv-d'' \<and> sk_name st = ''shop''"
    unfolding c srv by auto
  with snap d' ids' show ?thesis by blast
qed

section \<open>A container without a name\<close>

lemma nameless_crashes:
  "ctr \<in> set ctrs \<Longrightarrow> lc_names ctr = [] \<Longrightarrow> fst (describeAll G ctrs d) = None"
proof (induction ctrs arbitrary: d)
  case (Cons x xs)
  obtain r d1 where r: "describeListed G x d = (r, d1)" by (cases "describeListed G x d")
  show ?case
  proof (cases "lc_names x = []")
    case True
    then show ?thesis by (simp add: describeListed_def)
  next
    case False
    with Cons have "fst (describeAll G xs d1) = None" by auto
    with r show ?thesis by (cases r; cases "describeAll G xs d1") simp_all
  qed
qed simp

text \<open>One container the engine lists without a name (as it does for a container it is removing) makes every
  snapshot of the host panic; nothing recovers it, so it ends the agent, or the server that polls the host.\<close>

theorem nameless_container_panics:
  assumes "en_info G d = (Inr i, d1)" and "en_list G d1 = (Inr ctrs, d2)" and "ctr \<in> set ctrs" and "lc_names ctr = []"
  shows "fst (Snapshot G cap d) = SnapshotPanic"
proof -
  obtain ok cap1 d3 where "probeServices (en_daemon G) (swarmRoleFrom (hi_nodeState i) (hi_controlAvailable i)) cap d2 = (ok, cap1, d3)"
    by (metis prod_cases3)
  moreover have "fst (describeAll G ctrs d3) = None" by (rule nameless_crashes [OF assms(3,4)])
  ultimately show ?thesis by (cases "describeAll G ctrs d3") (simp add: Snapshot_def Info_def assms(1,2))
qed

theorem nameless_container_panics_witness:
  "fst (Snapshot (demoEngine [demoListed, demoListed\<lparr>lc_names := []\<rparr>]) coldCap 0) = SnapshotPanic"
  by (rule nameless_container_panics [where ctr = "demoListed\<lparr>lc_names := []\<rparr>"
        and ctrs = "[demoListed, demoListed\<lparr>lc_names := []\<rparr>]"]) (simp_all add: demoEngine_def)

end
