(* ===== verification/Migrate.thy ===== *)
theory Migrate
  imports Daemon
begin

text \<open>
  Opening the database, \<open>internal/store/store.go\<close>: the schema, the versioned additive migrations and
  the loop \<open>migrate\<close> that applies them.  The rest of the development works on the typed tables of
  \<open>Store\<close>; here a table is its list of column names and its rows, a row the values of its columns.
  Any statement may fail for reasons outside the program (a full disk, a locked file): \<open>fault n\<close> says
  whether the n-th statement of the run does.  A failed transaction is rolled back; the statements of the
  schema are not in one and stay.
\<close>

section \<open>SQL as the migrations use it\<close>

datatype sqlValue = SqlNull | SqlText string | SqlInt int

text \<open>The three forms of column definition the migrations add.\<close>

datatype columnDef = ColText | ColTextDefault string | ColIntDefault int

fun defaultValue :: "columnDef \<Rightarrow> sqlValue" where
  "defaultValue ColText = SqlNull"
| "defaultValue (ColTextDefault s) = SqlText s"
| "defaultValue (ColIntDefault n) = SqlInt n"

record sqlTable =
  tb_columns :: "string list"
  tb_rows :: "(string \<Rightarrow> sqlValue) list"

record sqlite =
  sq_tables :: "string \<Rightarrow> sqlTable option"
  sq_indexes :: "string list"
  sq_versions :: "int list"

type_synonym faults = "nat \<Rightarrow> err option"

definition no_faults :: faults where
  "no_faults = (\<lambda>_. None)"

datatype schemaStmt = CreateTable string "string list" | CreateIndex string string string

fun schemaExec :: "schemaStmt \<Rightarrow> sqlite \<Rightarrow> err + sqlite" where
  "schemaExec (CreateTable t cols) d =
     (if sq_tables d t \<noteq> None then Inr d
      else Inr (d\<lparr>sq_tables := (sq_tables d)(t \<mapsto> \<lparr>tb_columns = cols, tb_rows = []\<rparr>)\<rparr>))"
| "schemaExec (CreateIndex i t c) d =
     (if i \<in> set (sq_indexes d) then Inr d
      else (case sq_tables d t of
              None \<Rightarrow> Inl (errors_new (''no such table: '' @ t))
            | Some tb \<Rightarrow> if c \<in> set (tb_columns tb) then Inr (d\<lparr>sq_indexes := sq_indexes d @ [i]\<rparr>)
                         else Inl (errors_new (''no such column: '' @ c))))"

definition schema :: "schemaStmt list" where
  "schema =
     [CreateTable ''schema_migrations'' [''version''],
      CreateTable ''servers'' [''id'', ''name'', ''is_local'', ''status'', ''last_seen'', ''docker_version'', ''os'', ''arch'',
        ''cpus'', ''memory_bytes'', ''labels'', ''agent_token_hash'', ''kind'', ''docker_host'', ''tls_ca'', ''tls_cert'',
        ''tls_key'', ''name_custom'', ''swarm_role'', ''swarm_services'', ''agent_version'', ''agent_image'',
        ''agent_digest'', ''created_at'', ''updated_at''],
      CreateTable ''stacks'' [''id'', ''server_id'', ''name'', ''kind''],
      CreateTable ''containers'' [''id'', ''server_id'', ''stack_id'', ''docker_id'', ''name'', ''image'', ''image_name'',
        ''image_tag'', ''image_digest'', ''registry'', ''repository'', ''state'', ''status'', ''running'', ''restart_policy'',
        ''compose_service'', ''created_at'', ''started_at'', ''labels'', ''ports'', ''pinned'', ''systemd_unit'', ''managed'',
        ''swarm_service_id'', ''swarm_service_name'', ''swarm_task_id'', ''swarm_node_id'', ''updated_at''],
      CreateTable ''updates'' [''id'', ''container_id'', ''repo_key'', ''current_tag'', ''latest_tag'', ''versions_behind'',
        ''source'', ''source_url'', ''checked_at''],
      CreateTable ''releases'' [''id'', ''repo_key'', ''tag'', ''title'', ''body'', ''url'', ''published_at'', ''prerelease''],
      CreateTable ''users'' [''id'', ''username'', ''role'', ''password_hash'', ''created_at''],
      CreateTable ''settings'' [''key'', ''value''],
      CreateTable ''events'' [''id'', ''timestamp'', ''kind'', ''actor'', ''server_id'', ''container_id'', ''message''],
      CreateTable ''commands'' [''id'', ''server_id'', ''kind'', ''container_id'', ''target_image'', ''status'', ''result'',
        ''created_at'', ''updated_at''],
      CreateIndex ''idx_containers_server'' ''containers'' ''server_id'',
      CreateIndex ''idx_containers_stack'' ''containers'' ''stack_id'',
      CreateIndex ''idx_updates_container'' ''updates'' ''container_id'',
      CreateIndex ''idx_releases_repokey'' ''releases'' ''repo_key'',
      CreateIndex ''idx_stacks_server'' ''stacks'' ''server_id'',
      CreateIndex ''idx_commands_server'' ''commands'' ''server_id'']"

section \<open>Adding a column\<close>

definition columnExists :: "sqlite \<Rightarrow> string \<Rightarrow> string \<Rightarrow> bool" where
  "columnExists d t c \<longleftrightarrow> (case sq_tables d t of None \<Rightarrow> False | Some tb \<Rightarrow> c \<in> set (tb_columns tb))"

definition alterTable :: "string \<Rightarrow> string \<Rightarrow> columnDef \<Rightarrow> sqlite \<Rightarrow> err + sqlite" where
  "alterTable t c df d =
     (case sq_tables d t of
        None \<Rightarrow> Inl (errors_new (''no such table: '' @ t))
      | Some tb \<Rightarrow>
          if c \<in> set (tb_columns tb) then Inl (errors_new (''duplicate column name: '' @ c))
          else Inr (d\<lparr>sq_tables := (sq_tables d)(t \<mapsto>
            \<lparr>tb_columns = tb_columns tb @ [c], tb_rows = map (\<lambda>r. r(c := defaultValue df)) (tb_rows tb)\<rparr>)\<rparr>))"

text \<open>Each operation counts the statements it issued.\<close>

definition addColumn :: "faults \<Rightarrow> string \<Rightarrow> string \<Rightarrow> columnDef \<Rightarrow> nat \<times> sqlite \<Rightarrow> (err + sqlite) \<times> nat" where
  "addColumn fault t c df = (\<lambda>(n, d).
     (case fault n of
        Some e \<Rightarrow> (Inl e, Suc n)
      | None \<Rightarrow>
          if columnExists d t c then (Inr d, Suc n)
          else (case fault (Suc n) of Some e \<Rightarrow> (Inl e, n + 2) | None \<Rightarrow> (alterTable t c df d, n + 2))))"

fun addColumns :: "faults \<Rightarrow> string \<Rightarrow> (string \<times> columnDef) list \<Rightarrow> nat \<times> sqlite \<Rightarrow> (err + sqlite) \<times> nat" where
  "addColumns fault t [] (n, d) = (Inr d, n)"
| "addColumns fault t ((c, df) # cs) (n, d) =
     (case addColumn fault t c df (n, d) of
        (Inl e, m) \<Rightarrow> (Inl e, m)
      | (Inr d1, m) \<Rightarrow> addColumns fault t cs (m, d1))"

section \<open>The migrations\<close>

text \<open>\<open>UPDATE servers SET kind = 'local' WHERE is_local = 1\<close>\<close>

definition markLocal :: "sqlite \<Rightarrow> err + sqlite" where
  "markLocal d =
     (case sq_tables d ''servers'' of
        None \<Rightarrow> Inl (errors_new ''no such table: servers'')
      | Some tb \<Rightarrow>
          Inr (d\<lparr>sq_tables := (sq_tables d)(''servers'' \<mapsto>
            tb\<lparr>tb_rows := map (\<lambda>r. if r ''is_local'' = SqlInt 1 then r(''kind'' := SqlText ''local'') else r) (tb_rows tb)\<rparr>)\<rparr>))"

text \<open>A step: its version, the columns it adds table by table, and whether it marks the local server.\<close>

record migration =
  mg_version :: int
  mg_columns :: "(string \<times> (string \<times> columnDef) list) list"
  mg_markLocal :: bool

definition migrations :: "migration list" where
  "migrations =
     [\<lparr>mg_version = 1, mg_columns = [(''servers'', [(''kind'', ColTextDefault ''agent''), (''docker_host'', ColText),
         (''tls_ca'', ColText), (''tls_cert'', ColText), (''tls_key'', ColText)])], mg_markLocal = True\<rparr>,
      \<lparr>mg_version = 2, mg_columns = [(''containers'', [(''systemd_unit'', ColText), (''managed'', ColIntDefault 0)])],
         mg_markLocal = False\<rparr>,
      \<lparr>mg_version = 3, mg_columns = [(''servers'', [(''name_custom'', ColIntDefault 0)])], mg_markLocal = False\<rparr>,
      \<lparr>mg_version = 5, mg_columns = [(''servers'', [(''agent_version'', ColText), (''agent_image'', ColText),
         (''agent_digest'', ColText)])], mg_markLocal = False\<rparr>,
      \<lparr>mg_version = 4, mg_columns = [(''servers'', [(''swarm_role'', ColTextDefault ''none''),
         (''swarm_services'', ColIntDefault 0)]),
         (''containers'', [(''swarm_service_id'', ColText), (''swarm_service_name'', ColText), (''swarm_task_id'', ColText),
          (''swarm_node_id'', ColText)])], mg_markLocal = False\<rparr>]"

fun applyTables :: "faults \<Rightarrow> (string \<times> (string \<times> columnDef) list) list \<Rightarrow> nat \<times> sqlite \<Rightarrow> (err + sqlite) \<times> nat" where
  "applyTables fault [] (n, d) = (Inr d, n)"
| "applyTables fault ((t, cs) # tcs) (n, d) =
     (case addColumns fault t cs (n, d) of
        (Inl e, m) \<Rightarrow> (Inl e, m)
      | (Inr d1, m) \<Rightarrow> applyTables fault tcs (m, d1))"

definition applyMigration :: "faults \<Rightarrow> migration \<Rightarrow> nat \<times> sqlite \<Rightarrow> (err + sqlite) \<times> nat" where
  "applyMigration fault mg nd =
     (case applyTables fault (mg_columns mg) nd of
        (Inl e, m) \<Rightarrow> (Inl e, m)
      | (Inr d1, m) \<Rightarrow>
          if \<not> mg_markLocal mg then (Inr d1, m)
          else (case fault m of Some e \<Rightarrow> (Inl e, Suc m) | None \<Rightarrow> (markLocal d1, Suc m)))"

section \<open>The loop\<close>

text \<open>One turn: is the version recorded, and if not the transaction of its step.  An error is returned with
  the database as it was.\<close>

definition migrateOne :: "faults \<Rightarrow> migration \<Rightarrow> nat \<times> sqlite \<Rightarrow> (err + sqlite) \<times> nat" where
  "migrateOne fault mg = (\<lambda>(n, d).
     (case fault n of
        Some e \<Rightarrow> (Inl (wrap_err (''check migration '' @ intText (mg_version mg) @ '': '') e), Suc n)
      | None \<Rightarrow>
          if mg_version mg \<in> set (sq_versions d) then (Inr d, Suc n)
          else (case fault (Suc n) of
                  Some e \<Rightarrow> (Inl e, n + 2)
                | None \<Rightarrow>
                    (case applyMigration fault mg (n + 2, d) of
                       (Inl e, m) \<Rightarrow> (Inl (wrap_err (''migration '' @ intText (mg_version mg) @ '': '') e), m)
                     | (Inr d1, m) \<Rightarrow>
                         (case fault m of
                            Some e \<Rightarrow> (Inl (wrap_err (''record migration '' @ intText (mg_version mg) @ '': '') e), Suc m)
                          | None \<Rightarrow>
                              (case fault (Suc m) of
                                 Some e \<Rightarrow> (Inl e, m + 2)
                               | None \<Rightarrow> (Inr (d1\<lparr>sq_versions := sq_versions d1 @ [mg_version mg]\<rparr>), m + 2)))))))"

fun migrateLoop :: "faults \<Rightarrow> migration list \<Rightarrow> nat \<times> sqlite \<Rightarrow> err option \<times> sqlite" where
  "migrateLoop fault [] (n, d) = (None, d)"
| "migrateLoop fault (mg # mgs) (n, d) =
     (case migrateOne fault mg (n, d) of
        (Inl e, _) \<Rightarrow> (Some e, d)
      | (Inr d1, m) \<Rightarrow> migrateLoop fault mgs (m, d1))"

fun runSchema :: "faults \<Rightarrow> schemaStmt list \<Rightarrow> nat \<times> sqlite \<Rightarrow> err option \<times> nat \<times> sqlite" where
  "runSchema fault [] (n, d) = (None, n, d)"
| "runSchema fault (st # sts) (n, d) =
     (case fault n of
        Some e \<Rightarrow> (Some e, Suc n, d)
      | None \<Rightarrow>
          (case schemaExec st d of
             Inl e \<Rightarrow> (Some e, Suc n, d)
           | Inr d1 \<Rightarrow> runSchema fault sts (Suc n, d1)))"

definition migrate :: "faults \<Rightarrow> sqlite \<Rightarrow> err option \<times> sqlite" where
  "migrate fault d =
     (case runSchema fault schema (0, d) of
        (Some e, _, d1) \<Rightarrow> (Some (wrap_err ''migrate schema: '' e), d1)
      | (None, n, d1) \<Rightarrow> migrateLoop fault migrations (n, d1))"

text \<open>\<open>Open\<close>: the file is opened and pinged, then migrated; a database that cannot be migrated is closed
  again.  What it yields is the migrated database or the error, and what is left in the file.\<close>

definition Open :: "err option \<Rightarrow> err option \<Rightarrow> faults \<Rightarrow> sqlite \<Rightarrow> (err + sqlite) \<times> sqlite" where
  "Open openErr pingErr fault d =
     (case openErr of
        Some e \<Rightarrow> (Inl (wrap_err ''open sqlite: '' e), d)
      | None \<Rightarrow>
          (case pingErr of
             Some e \<Rightarrow> (Inl (wrap_err ''ping sqlite: '' e), d)
           | None \<Rightarrow>
               (case migrate fault d of
                  (Some e, d1) \<Rightarrow> (Inl e, d1)
                | (None, d1) \<Rightarrow> (Inr d1, d1))))"

end
