(* ===== verification/MigrateProps.thy ===== *)
theory MigrateProps
  imports Migrate
begin

text \<open>
  Properties of the migrations: an upgrade that was interrupted anywhere is finished by the next start as if
  nothing had happened, an upgrade loses no data, and a database of any earlier version ends up with every
  column the schema names.  The first rests on the locale \<open>resumable\<close>: a list of steps each of which does
  nothing once it has been done.
\<close>

section \<open>Steps that can be taken up again\<close>

fun runSteps :: "('i \<Rightarrow> 'd \<Rightarrow> err + 'd) \<Rightarrow> 'i list \<Rightarrow> 'd \<Rightarrow> err option \<times> 'd" where
  "runSteps step [] d = (None, d)"
| "runSteps step (i # is) d =
     (case step i d of Inl e \<Rightarrow> (Some e, d) | Inr d1 \<Rightarrow> runSteps step is d1)"

lemma runSteps_append:
  "runSteps step xs d = (None, d1) \<Longrightarrow> runSteps step (xs @ ys) d = runSteps step ys d1"
  by (induction xs arbitrary: d) (auto split: sum.splits)

locale resumable =
  fixes step :: "'i \<Rightarrow> 'd \<Rightarrow> err + 'd" and finished :: "'i \<Rightarrow> 'd \<Rightarrow> bool"
  assumes skips: "finished i d \<Longrightarrow> step i d = Inr d"
    and finishes: "step i d = Inr d' \<Longrightarrow> finished i d'"
    and stays: "finished i d \<Longrightarrow> step j d = Inr d' \<Longrightarrow> finished i d'"
begin

lemma stays_run: "runSteps step xs d = (None, d') \<Longrightarrow> finished i d \<Longrightarrow> finished i d'"
  by (induction xs arbitrary: d) (auto split: sum.splits intro: stays)

lemma run_finishes: "runSteps step xs d = (None, d') \<Longrightarrow> i \<in> set xs \<Longrightarrow> finished i d'"
proof (induction xs arbitrary: d)
  case (Cons x xs)
  then obtain d1 where "step x d = Inr d1" "runSteps step xs d1 = (None, d')" by (auto split: sum.splits)
  with Cons.IH [of d1] Cons.prems(2) finishes stays_run show ?case by auto
qed simp

lemma run_skips: "(\<And>i. i \<in> set xs \<Longrightarrow> finished i d) \<Longrightarrow> runSteps step xs d = (None, d)"
  by (induction xs) (simp_all add: skips)

lemma resumes:
  assumes "runSteps step xs d = (None, d1)"
  shows "runSteps step (xs @ ys) d1 = runSteps step (xs @ ys) d"
proof -
  have "runSteps step xs d1 = (None, d1)" by (rule run_skips) (rule run_finishes [OF assms])
  from runSteps_append [OF this] runSteps_append [OF assms] show ?thesis by simp
qed

end

section \<open>What no statement takes away\<close>

text \<open>The one column a migration rewrites.\<close>

definition rewritten :: "string \<Rightarrow> string \<Rightarrow> bool" where
  "rewritten t c \<longleftrightarrow> t = ''servers'' \<and> c = ''kind''"

definition table_kept :: "string \<Rightarrow> sqlTable \<Rightarrow> sqlTable \<Rightarrow> bool" where
  "table_kept t tb tb' \<longleftrightarrow>
     set (tb_columns tb) \<subseteq> set (tb_columns tb') \<and> length (tb_rows tb') = length (tb_rows tb)
   \<and> (\<forall>k<length (tb_rows tb). \<forall>c\<in>set (tb_columns tb). \<not> rewritten t c \<longrightarrow> (tb_rows tb' ! k) c = (tb_rows tb ! k) c)"

definition carried :: "sqlite \<Rightarrow> sqlite \<Rightarrow> bool" where
  "carried d d' \<longleftrightarrow>
     set (sq_indexes d) \<subseteq> set (sq_indexes d') \<and> set (sq_versions d) \<subseteq> set (sq_versions d')
   \<and> (\<forall>t tb. sq_tables d t = Some tb \<longrightarrow> (\<exists>tb'. sq_tables d' t = Some tb' \<and> table_kept t tb tb'))"

lemma table_kept_refl [simp]: "table_kept t tb tb"
  by (simp add: table_kept_def)

lemma table_kept_trans:
  assumes 1: "table_kept t a b" and 2: "table_kept t b c"
  shows "table_kept t a c"
proof -
  from 1 2 have sub: "set (tb_columns a) \<subseteq> set (tb_columns b)" "set (tb_columns b) \<subseteq> set (tb_columns c)"
    and len: "length (tb_rows b) = length (tb_rows a)" "length (tb_rows c) = length (tb_rows b)"
    by (simp_all add: table_kept_def)
  have "(tb_rows c ! k) x = (tb_rows a ! k) x" if "k < length (tb_rows a)" "x \<in> set (tb_columns a)" "\<not> rewritten t x" for k x
  proof -
    have "(tb_rows b ! k) x = (tb_rows a ! k) x" using 1 that by (simp add: table_kept_def)
    moreover have "(tb_rows c ! k) x = (tb_rows b ! k) x" using 2 that sub len by (auto simp: table_kept_def)
    ultimately show ?thesis by simp
  qed
  with sub len show ?thesis by (auto simp: table_kept_def)
qed

lemma carried_refl [simp]: "carried d d"
  by (simp add: carried_def)

lemma carried_trans: "carried d d1 \<Longrightarrow> carried d1 d2 \<Longrightarrow> carried d d2"
  unfolding carried_def by (meson subset_trans table_kept_trans)

lemma carried_table: "carried d d' \<Longrightarrow> sq_tables d t = Some tb \<Longrightarrow> \<exists>tb'. sq_tables d' t = Some tb' \<and> table_kept t tb tb'"
  by (simp add: carried_def)

lemma carried_column: "carried d d' \<Longrightarrow> columnExists d t c \<Longrightarrow> columnExists d' t c"
  by (auto simp: columnExists_def table_kept_def split: option.splits dest!: carried_table)

lemma carried_versions: "carried d d' \<Longrightarrow> v \<in> set (sq_versions d) \<Longrightarrow> v \<in> set (sq_versions d')"
  by (auto simp: carried_def)

lemma carried_has: "carried d d' \<Longrightarrow> sq_tables d t \<noteq> None \<Longrightarrow> sq_tables d' t \<noteq> None"
  by (auto dest!: carried_table)

lemma carried_set_table:
  assumes "\<And>tb0. sq_tables d t = Some tb0 \<Longrightarrow> table_kept t tb0 tb"
  shows "carried d (d\<lparr>sq_tables := (sq_tables d)(t \<mapsto> tb)\<rparr>)"
  using assms by (auto simp: carried_def)

lemma schemaExec_carried: "schemaExec st d = Inr d' \<Longrightarrow> carried d d'"
  by (cases st) (auto simp: carried_def split: if_splits option.splits)

lemma alterTable_carried: "alterTable t c df d = Inr d' \<Longrightarrow> carried d d'"
  by (auto simp: alterTable_def table_kept_def split: option.splits if_splits intro!: carried_set_table)

lemma addColumn_carried: "addColumn fault t c df (n, d) = (Inr d', m) \<Longrightarrow> carried d d'"
  by (auto simp: addColumn_def split: option.splits if_splits intro: alterTable_carried)

lemma addColumns_carried: "addColumns fault t cs (n, d) = (Inr d', m) \<Longrightarrow> carried d d'"
proof (induction cs arbitrary: n d)
  case (Cons x cs)
  obtain c df where x: "x = (c, df)" by (cases x)
  with Cons.prems obtain d1 m1 where "addColumn fault t c df (n, d) = (Inr d1, m1)" "addColumns fault t cs (m1, d1) = (Inr d', m)"
    by (auto split: prod.splits sum.splits)
  with Cons.IH addColumn_carried carried_trans show ?case by blast
qed simp

lemma applyTables_carried: "applyTables fault tcs (n, d) = (Inr d', m) \<Longrightarrow> carried d d'"
proof (induction tcs arbitrary: n d)
  case (Cons x tcs)
  obtain t cs where x: "x = (t, cs)" by (cases x)
  with Cons.prems obtain d1 m1 where "addColumns fault t cs (n, d) = (Inr d1, m1)" "applyTables fault tcs (m1, d1) = (Inr d', m)"
    by (auto split: prod.splits sum.splits)
  with Cons.IH addColumns_carried carried_trans show ?case by blast
qed simp

lemma markLocal_carried: "markLocal d = Inr d' \<Longrightarrow> carried d d'"
  by (auto simp: markLocal_def table_kept_def rewritten_def split: option.splits intro!: carried_set_table)

lemma applyMigration_carried: "applyMigration fault mg (n, d) = (Inr d', m) \<Longrightarrow> carried d d'"
  by (auto simp: applyMigration_def split: prod.splits sum.splits if_splits option.splits
      dest!: applyTables_carried markLocal_carried intro: carried_trans)

lemma migrateOne_carried:
  assumes "migrateOne fault mg (n, d) = (Inr d', m)"
  shows "carried d d'"
proof (cases "mg_version mg \<in> set (sq_versions d)")
  case False
  with assms obtain d1 k where "applyMigration fault mg (n + 2, d) = (Inr d1, k)"
    "d' = d1\<lparr>sq_versions := sq_versions d1 @ [mg_version mg]\<rparr>"
    by (auto simp: migrateOne_def split: prod.splits sum.splits option.splits)
  moreover have "carried x (x\<lparr>sq_versions := sq_versions x @ [v]\<rparr>)" for x v by (auto simp: carried_def)
  ultimately show ?thesis using applyMigration_carried carried_trans by blast
qed (use assms in \<open>auto simp: migrateOne_def split: option.splits\<close>)

section \<open>A success does not depend on the faults\<close>

lemma addColumn_pure:
  "addColumn fault t c df (n, d) = (Inr d', m) \<Longrightarrow> fst (addColumn no_faults t c df (k, d)) = Inr d'"
  by (auto simp: addColumn_def no_faults_def split: option.splits if_splits)

lemma addColumns_pure:
  "addColumns fault t cs (n, d) = (Inr d', m) \<Longrightarrow> fst (addColumns no_faults t cs (k, d)) = Inr d'"
proof (induction cs arbitrary: n d k)
  case (Cons x cs)
  obtain c df where x: "x = (c, df)" by (cases x)
  with Cons.prems obtain d1 m1 where 1: "addColumn fault t c df (n, d) = (Inr d1, m1)" "addColumns fault t cs (m1, d1) = (Inr d', m)"
    by (auto split: prod.splits sum.splits)
  obtain r l where r: "addColumn no_faults t c df (k, d) = (r, l)" by (cases "addColumn no_faults t c df (k, d)")
  with addColumn_pure [OF 1(1), of k] have "r = Inr d1" by simp
  with r x Cons.IH [OF 1(2), of l] show ?case by simp
qed simp

lemma applyTables_pure:
  "applyTables fault tcs (n, d) = (Inr d', m) \<Longrightarrow> fst (applyTables no_faults tcs (k, d)) = Inr d'"
proof (induction tcs arbitrary: n d k)
  case (Cons x tcs)
  obtain t cs where x: "x = (t, cs)" by (cases x)
  with Cons.prems obtain d1 m1 where 1: "addColumns fault t cs (n, d) = (Inr d1, m1)" "applyTables fault tcs (m1, d1) = (Inr d', m)"
    by (auto split: prod.splits sum.splits)
  obtain r l where r: "addColumns no_faults t cs (k, d) = (r, l)" by (cases "addColumns no_faults t cs (k, d)")
  with addColumns_pure [OF 1(1), of k] have "r = Inr d1" by simp
  with r x Cons.IH [OF 1(2), of l] show ?case by simp
qed simp

lemma applyMigration_pure:
  assumes "applyMigration fault mg (n, d) = (Inr d', m)"
  shows "fst (applyMigration no_faults mg (k, d)) = Inr d'"
proof -
  from assms obtain d1 m1 where 1: "applyTables fault (mg_columns mg) (n, d) = (Inr d1, m1)"
    "(if mg_markLocal mg then markLocal d1 else Inr d1) = Inr d'"
    by (auto simp: applyMigration_def split: prod.splits sum.splits if_splits option.splits)
  obtain r l where r: "applyTables no_faults (mg_columns mg) (k, d) = (r, l)" by (cases "applyTables no_faults (mg_columns mg) (k, d)")
  with applyTables_pure [OF 1(1), of k] have "r = Inr d1" by simp
  with r 1(2) show ?thesis by (simp add: applyMigration_def no_faults_def split: if_splits)
qed

lemma migrateOne_pure:
  assumes "migrateOne fault mg (n, d) = (Inr d', m)"
  shows "fst (migrateOne no_faults mg (k, d)) = Inr d'"
proof (cases "mg_version mg \<in> set (sq_versions d)")
  case False
  with assms obtain d1 l where 1: "applyMigration fault mg (n + 2, d) = (Inr d1, l)"
    "d' = d1\<lparr>sq_versions := sq_versions d1 @ [mg_version mg]\<rparr>"
    by (auto simp: migrateOne_def split: prod.splits sum.splits option.splits)
  obtain r j where r: "applyMigration no_faults mg (k + 2, d) = (r, j)" by (cases "applyMigration no_faults mg (k + 2, d)")
  with applyMigration_pure [OF 1(1), of "k + 2"] have "r = Inr d1" by simp
  with r 1(2) False show ?thesis by (simp add: migrateOne_def no_faults_def)
qed (use assms in \<open>auto simp: migrateOne_def no_faults_def split: option.splits\<close>)

text \<open>Without faults the count of statements does not matter either.\<close>

lemma migrateOne_count: "fst (migrateOne no_faults mg (n, d)) = fst (migrateOne no_faults mg (k, d))"
proof -
  have A: "fst (addColumn no_faults t c df (n, d)) = fst (addColumn no_faults t c df (k, d))" for t c df n k d
    by (simp add: addColumn_def no_faults_def)
  have B: "fst (addColumns no_faults t cs (n, d)) = fst (addColumns no_faults t cs (k, d))" for t cs n k d
  proof (induction cs arbitrary: n k d)
    case (Cons x cs)
    obtain c df where x: "x = (c, df)" by (cases x)
    obtain r a where 1: "addColumn no_faults t c df (n, d) = (r, a)" by (cases "addColumn no_faults t c df (n, d)")
    obtain r' b where 2: "addColumn no_faults t c df (k, d) = (r', b)" by (cases "addColumn no_faults t c df (k, d)")
    from A [of t c df n d k] 1 2 have "r' = r" by simp
    with 1 2 x Cons.IH show ?case by (cases r) simp_all
  qed simp
  have C: "fst (applyTables no_faults tcs (n, d)) = fst (applyTables no_faults tcs (k, d))" for tcs n k d
  proof (induction tcs arbitrary: n k d)
    case (Cons x tcs)
    obtain t cs where x: "x = (t, cs)" by (cases x)
    obtain r a where 1: "addColumns no_faults t cs (n, d) = (r, a)" by (cases "addColumns no_faults t cs (n, d)")
    obtain r' b where 2: "addColumns no_faults t cs (k, d) = (r', b)" by (cases "addColumns no_faults t cs (k, d)")
    from B [of t cs n d k] 1 2 have "r' = r" by simp
    with 1 2 x Cons.IH show ?case by (cases r) simp_all
  qed simp
  have D: "fst (applyMigration no_faults mg (n, d)) = fst (applyMigration no_faults mg (k, d))" for n k
    using C [of "mg_columns mg" n d k]
    by (cases "applyTables no_faults (mg_columns mg) (n, d)"; cases "applyTables no_faults (mg_columns mg) (k, d)"; cases "fst (applyTables no_faults (mg_columns mg) (n, d))")
      (simp_all add: applyMigration_def no_faults_def)
  show ?thesis
    using D [of "n + 2" "k + 2"]
    by (cases "applyMigration no_faults mg (n + 2, d)"; cases "applyMigration no_faults mg (k + 2, d)"; cases "fst (applyMigration no_faults mg (n + 2, d))")
      (simp_all add: migrateOne_def no_faults_def)
qed

section \<open>The upgrade as a list of steps\<close>

definition upgradeStep :: "schemaStmt + migration \<Rightarrow> sqlite \<Rightarrow> err + sqlite" where
  "upgradeStep x d =
     (case x of
        Inl st \<Rightarrow> (case schemaExec st d of Inl e \<Rightarrow> Inl (wrap_err ''migrate schema: '' e) | Inr d1 \<Rightarrow> Inr d1)
      | Inr mg \<Rightarrow> fst (migrateOne no_faults mg (0, d)))"

definition upgradeSteps :: "(schemaStmt + migration) list" where
  "upgradeSteps = map Inl schema @ map Inr migrations"

fun finished :: "schemaStmt + migration \<Rightarrow> sqlite \<Rightarrow> bool" where
  "finished (Inl (CreateTable t cols)) d \<longleftrightarrow> sq_tables d t \<noteq> None"
| "finished (Inl (CreateIndex i t c)) d \<longleftrightarrow> i \<in> set (sq_indexes d)"
| "finished (Inr mg) d \<longleftrightarrow> mg_version mg \<in> set (sq_versions d)"

lemma upgradeStep_carried: "upgradeStep x d = Inr d' \<Longrightarrow> carried d d'"
proof (cases x)
  case (Inr mg)
  moreover assume "upgradeStep x d = Inr d'"
  ultimately show ?thesis
    using migrateOne_carried by (cases "migrateOne no_faults mg (0, d)") (auto simp: upgradeStep_def)
qed (auto simp: upgradeStep_def schemaExec_carried split: sum.splits)

lemma migrateOne_records: "migrateOne fault mg (n, d) = (Inr d', m) \<Longrightarrow> mg_version mg \<in> set (sq_versions d')"
  by (auto simp: migrateOne_def split: option.splits if_splits prod.splits sum.splits)

interpretation upgrade: resumable upgradeStep finished
proof (unfold_locales, goal_cases)
  case (1 i d)
  then show ?case
    by (cases "(i, d)" rule: finished.cases) (auto simp: upgradeStep_def migrateOne_def no_faults_def split: option.splits)
next
  case (2 i d d')
  then show ?case
  proof (cases "(i, d')" rule: finished.cases)
    case (3 mg x)
    with 2 migrateOne_records [of no_faults mg 0 d d'] show ?thesis
      by (cases "migrateOne no_faults mg (0, d)") (auto simp: upgradeStep_def)
  qed (auto simp: upgradeStep_def split: sum.splits option.splits if_splits)
next
  case (3 i d j d')
  from upgradeStep_carried [OF 3(2)] 3(1) show ?case
    by (cases "(i, d)" rule: finished.cases) (auto simp: carried_def dest!: spec)
qed

text \<open>A run of the loop with faults is a prefix of the steps.\<close>

lemma migrateLoop_prefix:
  "migrateLoop fault mgs (n, d) = (r, d') \<Longrightarrow>
     \<exists>xs ys. map Inr mgs = xs @ ys \<and> runSteps upgradeStep xs d = (None, d') \<and> (r = None \<longrightarrow> ys = [])"
proof (induction mgs arbitrary: n d)
  case (Cons mg mgs)
  obtain x m where x: "migrateOne fault mg (n, d) = (x, m)" by (cases "migrateOne fault mg (n, d)")
  show ?case
  proof (cases x)
    case (Inl e)
    with Cons.prems x have "r = Some e" "d' = d" by simp_all
    then show ?thesis by (metis append_Nil option.distinct(1) runSteps.simps(1))
  next
    case (Inr d1)
    with Cons.prems x have "migrateLoop fault mgs (m, d1) = (r, d')" by simp
    with Cons.IH obtain xs ys where 1: "map Inr mgs = xs @ ys" "runSteps upgradeStep xs d1 = (None, d')" "r = None \<longrightarrow> ys = []"
      by blast
    have "upgradeStep (Inr mg) d = Inr d1" using migrateOne_pure x Inr by (simp add: upgradeStep_def)
    with 1 show ?thesis by (intro exI [of _ "Inr mg # xs"] exI [of _ ys]) simp
  qed
qed simp

lemma runSchema_prefix:
  "runSchema fault sts (n, d) = (r, m, d') \<Longrightarrow>
     \<exists>xs ys. map Inl sts = xs @ ys \<and> runSteps upgradeStep xs d = (None, d') \<and> (r = None \<longrightarrow> ys = [])"
proof (induction sts arbitrary: n d)
  case (Cons st sts)
  show ?case
  proof (cases "fault n = None \<and> (\<exists>d1. schemaExec st d = Inr d1)")
    case True
    then obtain d1 where d1: "fault n = None" "schemaExec st d = Inr d1" by blast
    with Cons.prems have "runSchema fault sts (Suc n, d1) = (r, m, d')" by simp
    with Cons.IH obtain xs ys where 1: "map Inl sts = xs @ ys" "runSteps upgradeStep xs d1 = (None, d')" "r = None \<longrightarrow> ys = []"
      by blast
    have "upgradeStep (Inl st) d = Inr d1" using d1 by (simp add: upgradeStep_def)
    with 1 show ?thesis by (intro exI [of _ "Inl st # xs"] exI [of _ ys]) simp
  next
    case False
    with Cons.prems have "d' = d" "r \<noteq> None" by (cases "fault n"; cases "schemaExec st d"; auto)+
    then show ?thesis by (metis append_Nil runSteps.simps(1))
  qed
qed simp

lemma migrate_prefix:
  assumes "migrate fault d = (r, d')"
  shows "\<exists>xs ys. upgradeSteps = xs @ ys \<and> runSteps upgradeStep xs d = (None, d') \<and> (r = None \<longrightarrow> ys = [])"
proof -
  obtain r1 m d1 where s: "runSchema fault schema (0, d) = (r1, m, d1)" by (metis prod_cases3)
  obtain xs ys where 1: "map Inl schema = xs @ ys" "runSteps upgradeStep xs d = (None, d1)" "r1 = None \<longrightarrow> ys = []"
    using runSchema_prefix [OF s] by blast
  show ?thesis
  proof (cases r1)
    case (Some e)
    with s assms have "d' = d1" "r \<noteq> None" by (auto simp: migrate_def)
    moreover have "upgradeSteps = xs @ ys @ map Inr migrations" using 1(1) by (simp add: upgradeSteps_def)
    ultimately show ?thesis using 1(2) by blast
  next
    case None
    with s assms have "migrateLoop fault migrations (m, d1) = (r, d')" by (simp add: migrate_def)
    from migrateLoop_prefix [OF this] obtain us vs where
      2: "map Inr migrations = us @ vs" "runSteps upgradeStep us d1 = (None, d')" "r = None \<longrightarrow> vs = []" by blast
    have "runSteps upgradeStep (xs @ us) d = (None, d')" using runSteps_append [OF 1(2)] 2(2) by simp
    moreover have "upgradeSteps = (xs @ us) @ vs" using 1(1,3) 2(1) None by (simp add: upgradeSteps_def)
    ultimately show ?thesis using 2(3) by blast
  qed
qed

text \<open>Without faults it is all of them.\<close>

lemma migrateLoop_runs: "migrateLoop no_faults mgs (n, d) = runSteps upgradeStep (map Inr mgs) d"
proof (induction mgs arbitrary: n d)
  case (Cons mg mgs)
  have "fst (migrateOne no_faults mg (n, d)) = upgradeStep (Inr mg) d"
    using migrateOne_count by (simp add: upgradeStep_def)
  with Cons show ?case by (cases "migrateOne no_faults mg (n, d)") (auto split: sum.splits)
qed simp

lemma runSchema_runs:
  "(case runSchema no_faults sts (n, d) of (Some e, _, d1) \<Rightarrow> (Some (wrap_err ''migrate schema: '' e), d1)
      | (None, m, d1) \<Rightarrow> (None, d1)) = runSteps upgradeStep (map Inl sts) d"
proof (induction sts arbitrary: n d)
  case (Cons st sts)
  then show ?case by (cases "schemaExec st d") (simp_all add: no_faults_def upgradeStep_def)
qed simp

lemma runSteps_append_any:
  "runSteps step (xs @ ys) d = (case runSteps step xs d of (Some e, d1) \<Rightarrow> (Some e, d1) | (None, d1) \<Rightarrow> runSteps step ys d1)"
  by (induction xs arbitrary: d) (auto split: sum.splits)

lemma migrate_runs: "migrate no_faults d = runSteps upgradeStep upgradeSteps d"
proof -
  obtain r m d1 where s: "runSchema no_faults schema (0, d) = (r, m, d1)" by (metis prod_cases3)
  have q: "runSteps upgradeStep (map Inl schema) d
      = (case r of Some e \<Rightarrow> (Some (wrap_err ''migrate schema: '' e), d1) | None \<Rightarrow> (None, d1))"
    using runSchema_runs [of schema 0 d] by (cases r) (simp_all add: s)
  show ?thesis
    by (cases r) (simp_all add: s q migrate_def upgradeSteps_def runSteps_append_any migrateLoop_runs)
qed

text \<open>C19: an upgrade that fails at any statement, for any reason, is resumed by the next start: what that start makes
  of the database left behind is what it would have made of the original one.\<close>

theorem migration_resumes: "migrate no_faults (snd (migrate fault d)) = migrate no_faults d"
proof -
  obtain r d' where m: "migrate fault d = (r, d')" by (cases "migrate fault d")
  from migrate_prefix [OF m] obtain xs ys where "upgradeSteps = xs @ ys" "runSteps upgradeStep xs d = (None, d')" by blast
  with upgrade.resumes [of xs d d' ys] show ?thesis by (simp add: m migrate_runs)
qed

section \<open>No data is lost\<close>

lemma runSteps_carried: "runSteps upgradeStep xs d = (r, d') \<Longrightarrow> carried d d'"
proof (induction xs arbitrary: d)
  case (Cons x xs)
  then show ?case
    by (cases "upgradeStep x d") (auto intro: carried_trans upgradeStep_carried)
qed simp

text \<open>C20: an upgrade, finished or interrupted, keeps every table, every row and the value of every column, but for
  the kind of a server, which the first migration sets.\<close>

theorem migration_keeps_data:
  assumes "sq_tables d t = Some tb" and "k < length (tb_rows tb)" and "c \<in> set (tb_columns tb)"
    and "t \<noteq> ''servers'' \<or> c \<noteq> ''kind''"
  shows "\<exists>tb'. sq_tables (snd (migrate fault d)) t = Some tb' \<and> length (tb_rows tb') = length (tb_rows tb)
    \<and> c \<in> set (tb_columns tb') \<and> (tb_rows tb' ! k) c = (tb_rows tb ! k) c"
proof -
  obtain r d' where m: "migrate fault d = (r, d')" by (cases "migrate fault d")
  from migrate_prefix [OF m] obtain xs where "runSteps upgradeStep xs d = (None, d')" by blast
  from carried_table [OF runSteps_carried [OF this] assms(1)] obtain tb' where
    "sq_tables d' t = Some tb'" "table_kept t tb tb'" by blast
  with assms(2-4) m show ?thesis by (auto simp: table_kept_def rewritten_def)
qed

section \<open>An upgrade arrives\<close>

text \<open>The columns the migrations add to a table; a database of an earlier version has the others, and those of the
  migrations it records.\<close>

definition addedColumns :: "string \<Rightarrow> string list" where
  "addedColumns t = concat (map (\<lambda>mg. concat (map (\<lambda>(t', cs). if t' = t then map fst cs else []) (mg_columns mg))) migrations)"

definition has_columns :: "migration \<Rightarrow> sqlite \<Rightarrow> bool" where
  "has_columns mg d \<longleftrightarrow> (\<forall>(t, cs)\<in>set (mg_columns mg). \<forall>(c, df)\<in>set cs. columnExists d t c)"

definition legacy :: "sqlite \<Rightarrow> bool" where
  "legacy d \<longleftrightarrow>
     (\<forall>st\<in>set schema. case st of
        CreateTable t cols \<Rightarrow>
          (case sq_tables d t of None \<Rightarrow> True | Some tb \<Rightarrow> set cols - set (addedColumns t) \<subseteq> set (tb_columns tb))
      | CreateIndex i t c \<Rightarrow> True)
   \<and> (\<forall>mg\<in>set migrations. mg_version mg \<in> set (sq_versions d) \<longrightarrow> has_columns mg d)"

lemma addColumns_versions: "addColumns fault t cs (n, d) = (Inr d', m) \<Longrightarrow> sq_versions d' = sq_versions d"
proof (induction cs arbitrary: n d)
  case (Cons x cs)
  obtain c df where x: "x = (c, df)" by (cases x)
  with Cons.prems obtain d1 m1 where 1: "addColumn fault t c df (n, d) = (Inr d1, m1)" "addColumns fault t cs (m1, d1) = (Inr d', m)"
    by (auto split: prod.splits sum.splits)
  then have "sq_versions d1 = sq_versions d"
    by (auto simp: addColumn_def alterTable_def split: option.splits if_splits)
  with Cons.IH [OF 1(2)] show ?case by simp
qed simp

lemma applyTables_versions: "applyTables fault tcs (n, d) = (Inr d', m) \<Longrightarrow> sq_versions d' = sq_versions d"
proof (induction tcs arbitrary: n d)
  case (Cons x tcs)
  obtain t cs where x: "x = (t, cs)" by (cases x)
  with Cons.prems obtain d1 m1 where 1: "addColumns fault t cs (n, d) = (Inr d1, m1)" "applyTables fault tcs (m1, d1) = (Inr d', m)"
    by (auto split: prod.splits sum.splits)
  with Cons.IH [OF 1(2)] addColumns_versions [OF 1(1)] show ?case by simp
qed simp

lemma has_columns_carried: "carried d d' \<Longrightarrow> has_columns mg d \<Longrightarrow> has_columns mg d'"
  unfolding has_columns_def using carried_column by fast

lemma addColumn_total:
  assumes "sq_tables d t \<noteq> None"
  shows "\<exists>d' m. addColumn no_faults t c df (n, d) = (Inr d', m) \<and> columnExists d' t c"
  using assms by (auto simp: addColumn_def no_faults_def alterTable_def columnExists_def)

lemma addColumns_total:
  assumes "sq_tables d t \<noteq> None"
  shows "\<exists>d' m. addColumns no_faults t cs (n, d) = (Inr d', m) \<and> (\<forall>(c, df)\<in>set cs. columnExists d' t c)"
  using assms
proof (induction cs arbitrary: n d)
  case (Cons x cs)
  obtain c df where x: "x = (c, df)" by (cases x)
  from addColumn_total [OF Cons.prems, of c df n] obtain d1 m1 where
    1: "addColumn no_faults t c df (n, d) = (Inr d1, m1)" "columnExists d1 t c" by blast
  have "sq_tables d1 t \<noteq> None" by (rule carried_has [OF addColumn_carried [OF 1(1)] Cons.prems])
  from Cons.IH [OF this, of m1] obtain d' m where
    2: "addColumns no_faults t cs (m1, d1) = (Inr d', m)" "\<forall>(c, df)\<in>set cs. columnExists d' t c" by blast
  have "columnExists d' t c" by (rule carried_column [OF addColumns_carried [OF 2(1)] 1(2)])
  with 1(1) 2 x show ?case by simp
qed simp

lemma applyTables_total:
  assumes "\<forall>(t, cs)\<in>set tcs. sq_tables d t \<noteq> None"
  shows "\<exists>d' m. applyTables no_faults tcs (n, d) = (Inr d', m)
    \<and> (\<forall>(t, cs)\<in>set tcs. \<forall>(c, df)\<in>set cs. columnExists d' t c)"
  using assms
proof (induction tcs arbitrary: n d)
  case (Cons x tcs)
  obtain t cs where x: "x = (t, cs)" by (cases x)
  with Cons.prems have "sq_tables d t \<noteq> None" by simp
  from addColumns_total [OF this, of cs n] obtain d1 m1 where
    1: "addColumns no_faults t cs (n, d) = (Inr d1, m1)" "\<forall>(c, df)\<in>set cs. columnExists d1 t c" by blast
  have "\<forall>(t, cs)\<in>set tcs. sq_tables d1 t \<noteq> None"
    using Cons.prems carried_has [OF addColumns_carried [OF 1(1)]] by auto
  from Cons.IH [OF this, of m1] obtain d' m where
    2: "applyTables no_faults tcs (m1, d1) = (Inr d', m)" "\<forall>(t, cs)\<in>set tcs. \<forall>(c, df)\<in>set cs. columnExists d' t c" by blast
  have "\<forall>(c, df)\<in>set cs. columnExists d' t c"
    using 1(2) carried_column [OF applyTables_carried [OF 2(1)]] by fast
  with 1(1) 2 x show ?case by simp
qed simp

text \<open>The tables the migrations touch, and what stays true while they run.\<close>

definition ready :: "sqlite \<Rightarrow> bool" where
  "ready d \<longleftrightarrow> sq_tables d ''servers'' \<noteq> None \<and> sq_tables d ''containers'' \<noteq> None
     \<and> (\<forall>mg\<in>set migrations. mg_version mg \<in> set (sq_versions d) \<longrightarrow> has_columns mg d)"

lemma migration_tables: "mg \<in> set migrations \<Longrightarrow> (t, cs) \<in> set (mg_columns mg) \<Longrightarrow> t = ''servers'' \<or> t = ''containers''"
  by (auto simp: migrations_def)

lemma migration_versions: "mg \<in> set migrations \<Longrightarrow> mg' \<in> set migrations \<Longrightarrow> mg_version mg = mg_version mg' \<Longrightarrow> mg = mg'"
  by (rule distinct_map_eq [of mg_version migrations]) (simp_all add: migrations_def)

lemma migrateOne_total:
  assumes "ready d" and "mg \<in> set migrations"
  shows "\<exists>d' m. migrateOne no_faults mg (n, d) = (Inr d', m) \<and> ready d' \<and> has_columns mg d'"
proof (cases "mg_version mg \<in> set (sq_versions d)")
  case True
  with assms have "has_columns mg d" by (simp add: ready_def)
  with True assms(1) show ?thesis by (simp add: migrateOne_def no_faults_def)
next
  case False
  have "\<forall>(t, cs)\<in>set (mg_columns mg). sq_tables d t \<noteq> None"
  proof (intro ballI)
    fix x assume x: "x \<in> set (mg_columns mg)"
    obtain t cs where "x = (t, cs)" by (cases x)
    with x migration_tables [OF assms(2), of t cs] assms(1) show "case x of (t, cs) \<Rightarrow> sq_tables d t \<noteq> None"
      by (auto simp: ready_def)
  qed
  from applyTables_total [OF this, of "n + 2"] obtain d1 k where
    1: "applyTables no_faults (mg_columns mg) (n + 2, d) = (Inr d1, k)"
      "\<forall>(t, cs)\<in>set (mg_columns mg). \<forall>(c, df)\<in>set cs. columnExists d1 t c" by blast
  note c1 = applyTables_carried [OF 1(1)]
  have "sq_tables d1 ''servers'' \<noteq> None" using carried_has [OF c1] assms(1) unfolding ready_def by blast
  then obtain d2 where d2: "markLocal d1 = Inr d2" by (auto simp: markLocal_def)
  define d3 where "d3 = (if mg_markLocal mg then d2 else d1)"
  have c3: "carried d1 d3" unfolding d3_def using markLocal_carried [OF d2] by simp
  define d4 where "d4 = d3\<lparr>sq_versions := sq_versions d3 @ [mg_version mg]\<rparr>"
  have "\<exists>k'. applyMigration no_faults mg (n + 2, d) = (Inr d3, k')"
    unfolding applyMigration_def 1(1) d3_def by (cases "mg_markLocal mg") (simp_all add: d2 no_faults_def)
  then have run: "\<exists>m. migrateOne no_faults mg (n, d) = (Inr d4, m)"
    using False by (auto simp: migrateOne_def d4_def) (simp add: no_faults_def)
  then have c4: "carried d d4" using migrateOne_carried by blast
  have "has_columns mg d1" using 1(2) by (simp add: has_columns_def)
  then have "has_columns mg d3" by (rule has_columns_carried [OF c3])
  then have cols: "has_columns mg d4" by (simp add: has_columns_def d4_def columnExists_def)
  have "sq_versions d1 = sq_versions d3"
    unfolding d3_def using d2 by (auto simp: markLocal_def split: option.splits)
  have vers: "set (sq_versions d4) \<subseteq> insert (mg_version mg) (set (sq_versions d))"
    using applyTables_versions [OF 1(1)] \<open>sq_versions d1 = sq_versions d3\<close> by (simp add: d4_def)
  have "has_columns mg' d4" if "mg' \<in> set migrations" "mg_version mg' \<in> set (sq_versions d4)" for mg'
  proof (cases "mg_version mg' = mg_version mg")
    case True
    with migration_versions [OF that(1) assms(2)] cols show ?thesis by simp
  next
    case False
    with that vers have "mg_version mg' \<in> set (sq_versions d)" by auto
    with assms(1) that(1) have "has_columns mg' d" by (simp add: ready_def)
    then show ?thesis by (rule has_columns_carried [OF c4])
  qed
  then have "ready d4" using assms(1) carried_has [OF c4] unfolding ready_def by blast
  with run cols show ?thesis by blast
qed

lemma migrateLoop_total:
  assumes "ready d" and "set mgs \<subseteq> set migrations"
  shows "\<exists>d'. migrateLoop no_faults mgs (n, d) = (None, d') \<and> carried d d' \<and> (\<forall>mg\<in>set mgs. has_columns mg d')"
  using assms
proof (induction mgs arbitrary: n d)
  case (Cons mg mgs)
  from migrateOne_total [OF Cons.prems(1), of mg n] Cons.prems(2) obtain d1 m where
    1: "migrateOne no_faults mg (n, d) = (Inr d1, m)" "ready d1" "has_columns mg d1" by auto
  from Cons.IH [OF 1(2), of m] Cons.prems(2) obtain d' where
    2: "migrateLoop no_faults mgs (m, d1) = (None, d')" "carried d1 d'" "\<forall>mg\<in>set mgs. has_columns mg d'" by auto
  with 1 have "carried d d'" "has_columns mg d'"
    using migrateOne_carried carried_trans has_columns_carried by blast+
  with 1(1) 2(1,3) show ?case by simp
qed simp

definition schemaTables :: "(string \<times> string list) list" where
  "schemaTables = concat (map (\<lambda>st. case st of CreateTable t cols \<Rightarrow> [(t, cols)] | CreateIndex i t c \<Rightarrow> []) schema)"

definition schemaIndexes :: "(string \<times> string \<times> string) list" where
  "schemaIndexes = concat (map (\<lambda>st. case st of CreateTable t cols \<Rightarrow> [] | CreateIndex i t c \<Rightarrow> [(i, t, c)]) schema)"

lemma schema_split:
  "schema = map (\<lambda>(t, cols). CreateTable t cols) schemaTables @ map (\<lambda>(i, t, c). CreateIndex i t c) schemaIndexes"
  by (simp add: schema_def schemaTables_def schemaIndexes_def)

lemma schemaTables_distinct: "distinct (map fst schemaTables)"
  by (simp add: schemaTables_def schema_def)

lemma indexed_columns:
  "\<forall>(i, t, c)\<in>set schemaIndexes. \<exists>cols. (t, cols) \<in> set schemaTables \<and> c \<in> set cols - set (addedColumns t)"
  by (simp add: schemaIndexes_def schemaTables_def schema_def addedColumns_def migrations_def)

lemma createTables_run:
  "\<exists>d1. runSchema no_faults (map (\<lambda>(t, cols). CreateTable t cols) tcs @ sts) (n, d) = runSchema no_faults sts (n + length tcs, d1)
     \<and> carried d d1 \<and> sq_versions d1 = sq_versions d
     \<and> (\<forall>(t, cols)\<in>set tcs. sq_tables d1 t \<noteq> None)
     \<and> (\<forall>t tb. sq_tables d1 t = Some tb \<longrightarrow> sq_tables d t = Some tb \<or> (t, tb_columns tb) \<in> set tcs)"
proof (induction tcs arbitrary: n d)
  case (Cons x tcs)
  obtain t cols where x: "x = (t, cols)" by (cases x)
  have "\<exists>d0. schemaExec (CreateTable t cols) d = Inr d0" by (cases "sq_tables d t") simp_all
  then obtain d0 where d0: "schemaExec (CreateTable t cols) d = Inr d0" by blast
  then have d0': "sq_tables d0 t \<noteq> None" "sq_versions d0 = sq_versions d"
    "\<And>u tb. sq_tables d0 u = Some tb \<Longrightarrow> sq_tables d u = Some tb \<or> (u, tb_columns tb) = (t, cols)"
    by (auto split: if_splits)
  from Cons.IH [of "Suc n" d0] obtain d1 where
    1: "runSchema no_faults (map (\<lambda>(t, cols). CreateTable t cols) tcs @ sts) (Suc n, d0) = runSchema no_faults sts (Suc n + length tcs, d1)"
      "carried d0 d1" "sq_versions d1 = sq_versions d0" "\<forall>(t, cols)\<in>set tcs. sq_tables d1 t \<noteq> None"
      "\<And>u tb. sq_tables d1 u = Some tb \<Longrightarrow> sq_tables d0 u = Some tb \<or> (u, tb_columns tb) \<in> set tcs" by blast
  have "carried d d1" using schemaExec_carried [OF d0] 1(2) by (rule carried_trans)
  moreover have "sq_tables d1 t \<noteq> None" by (rule carried_has [OF 1(2) d0'(1)])
  moreover have "sq_tables d u = Some tb \<or> (u, tb_columns tb) \<in> set (x # tcs)" if "sq_tables d1 u = Some tb" for u tb
    using 1(5) [OF that] d0'(3) x by auto
  ultimately show ?case using 1(1,3,4) d0 d0'(2) x by (intro exI [of _ d1]) (simp add: no_faults_def)
qed (rule exI, auto)

lemma createIndexes_run:
  "(\<forall>(i, t, c)\<in>set ixs. columnExists d t c) \<Longrightarrow>
   \<exists>m d1. runSchema no_faults (map (\<lambda>(i, t, c). CreateIndex i t c) ixs) (n, d) = (None, m, d1)
     \<and> carried d d1 \<and> sq_versions d1 = sq_versions d"
proof (induction ixs arbitrary: n d)
  case (Cons x ixs)
  obtain i t c where x: "x = (i, t, c)" by (cases x)
  with Cons.prems have "columnExists d t c" by simp
  then have "\<exists>d0. schemaExec (CreateIndex i t c) d = Inr d0"
    by (cases "i \<in> set (sq_indexes d)") (auto simp: columnExists_def split: option.splits)
  then obtain d0 where d0: "schemaExec (CreateIndex i t c) d = Inr d0" by blast
  note c0 = schemaExec_carried [OF d0]
  have "sq_versions d0 = sq_versions d" using d0 by (auto split: if_splits option.splits)
  moreover have "\<forall>(i, t, c)\<in>set ixs. columnExists d0 t c" using Cons.prems carried_column [OF c0] by auto
  from Cons.IH [OF this, of "Suc n"] obtain m d1 where
    "runSchema no_faults (map (\<lambda>(i, t, c). CreateIndex i t c) ixs) (Suc n, d0) = (None, m, d1)" "carried d0 d1"
    "sq_versions d1 = sq_versions d0" by blast
  ultimately show ?case using d0 x carried_trans [OF c0] by (auto simp: no_faults_def simp del: schemaExec.simps)
qed simp

lemma legacy_base:
  "legacy d \<Longrightarrow> (t, cols) \<in> set schemaTables \<Longrightarrow> sq_tables d t = Some tb \<Longrightarrow> set cols - set (addedColumns t) \<subseteq> set (tb_columns tb)"
proof -
  assume a: "legacy d" "(t, cols) \<in> set schemaTables" "sq_tables d t = Some tb"
  then have "CreateTable t cols \<in> set schema" unfolding schema_split by force
  with a(1,3) show ?thesis unfolding legacy_def by fastforce
qed

lemma addedColumns_mem:
  assumes "c \<in> set (addedColumns t)"
  shows "\<exists>mg\<in>set migrations. \<exists>cs df. (t, cs) \<in> set (mg_columns mg) \<and> (c, df) \<in> set cs"
  using assms by (fastforce simp: addedColumns_def split: if_splits)

text \<open>A database of any earlier version can be upgraded, and the upgrade gives it every column of every table
  the schema names.\<close>

theorem upgrade_completes:
  assumes "legacy d"
  shows "\<exists>d'. migrate no_faults d = (None, d')
    \<and> (\<forall>t cols c. CreateTable t cols \<in> set schema \<longrightarrow> c \<in> set cols \<longrightarrow> columnExists d' t c)"
proof -
  obtain d1 where 1: "runSchema no_faults schema (0, d)
        = runSchema no_faults (map (\<lambda>(i, t, c). CreateIndex i t c) schemaIndexes) (length schemaTables, d1)"
      "carried d d1" "sq_versions d1 = sq_versions d" "\<forall>(t, cols)\<in>set schemaTables. sq_tables d1 t \<noteq> None"
      "\<And>t tb. sq_tables d1 t = Some tb \<Longrightarrow> sq_tables d t = Some tb \<or> (t, tb_columns tb) \<in> set schemaTables"
    using createTables_run [of schemaTables "map (\<lambda>(i, t, c). CreateIndex i t c) schemaIndexes" 0 d]
    unfolding schema_split [symmetric] by auto
  have base: "columnExists d1 t c" if "(t, cols) \<in> set schemaTables" "c \<in> set cols" "c \<notin> set (addedColumns t)" for t cols c
  proof -
    from 1(4) that(1) obtain tb where tb: "sq_tables d1 t = Some tb" by fastforce
    from 1(5) [OF tb] have "c \<in> set (tb_columns tb)"
    proof
      assume "sq_tables d t = Some tb"
      from legacy_base [OF assms that(1) this] that(2,3) show ?thesis by blast
    next
      assume "(t, tb_columns tb) \<in> set schemaTables"
      with that(1) schemaTables_distinct have "tb_columns tb = cols" by (metis eq_key_imp_eq_value)
      with that(2) show ?thesis by simp
    qed
    with tb show ?thesis by (simp add: columnExists_def)
  qed
  have "\<forall>(i, t, c)\<in>set schemaIndexes. columnExists d1 t c" using indexed_columns base by fastforce
  from createIndexes_run [OF this, of "length schemaTables"] obtain m d2 where
    2: "runSchema no_faults schema (0, d) = (None, m, d2)" "carried d1 d2" "sq_versions d2 = sq_versions d1"
    unfolding 1(1) by blast
  have tables: "sq_tables d2 t \<noteq> None" if "t \<in> fst ` set schemaTables" for t
    using that 1(4) by (intro carried_has [OF 2(2)]) fastforce
  have "ready d2"
    unfolding ready_def
  proof (intro conjI ballI impI)
    fix mg assume mg: "mg \<in> set migrations" "mg_version mg \<in> set (sq_versions d2)"
    then have "has_columns mg d" using assms 1(3) 2(3) by (simp add: legacy_def)
    then show "has_columns mg d2" by (rule has_columns_carried [OF carried_trans [OF 1(2) 2(2)]])
  qed (rule tables, simp add: schemaTables_def schema_def)+
  from migrateLoop_total [OF this order_refl, of m] obtain d' where
    3: "migrateLoop no_faults migrations (m, d2) = (None, d')" "carried d2 d'" "\<forall>mg\<in>set migrations. has_columns mg d'"
    by blast
  have "columnExists d' t c" if "CreateTable t cols \<in> set schema" "c \<in> set cols" for t cols c
  proof (cases "c \<in> set (addedColumns t)")
    case True
    from addedColumns_mem [OF this] 3(3) show ?thesis unfolding has_columns_def by fast
  next
    case False
    from that(1) have "(t, cols) \<in> set schemaTables" unfolding schema_split by auto
    from base [OF this that(2) False] show ?thesis using carried_column 2(2) 3(2) by blast
  qed
  with 2(1) 3(1) show ?thesis by (intro exI [of _ d']) (simp add: migrate_def)
qed

text \<open>A database of the first version, with its local server.\<close>

definition firstTables :: "string \<Rightarrow> sqlTable option" where
  "firstTables = (\<lambda>_. None)(''servers'' \<mapsto>
     \<lparr>tb_columns = [''id'', ''name'', ''is_local'', ''status'', ''last_seen'', ''docker_version'', ''os'', ''arch'', ''cpus'',
        ''memory_bytes'', ''labels'', ''agent_token_hash'', ''created_at'', ''updated_at''],
      tb_rows = [(\<lambda>_. SqlNull)(''id'' := SqlText ''local'', ''is_local'' := SqlInt 1)]\<rparr>)"

definition firstDB :: sqlite where
  "firstDB = \<lparr>sq_tables = firstTables, sq_indexes = [], sq_versions = []\<rparr>"

lemma firstDB_legacy: "legacy firstDB"
  by (simp add: legacy_def firstDB_def firstTables_def schema_def addedColumns_def migrations_def insert_Diff_if)

theorem upgrade_completes_witness:
  "\<exists>d'. migrate no_faults firstDB = (None, d') \<and> columnExists d' ''servers'' ''swarm_role''
    \<and> columnExists d' ''containers'' ''swarm_task_id''"
proof -
  from upgrade_completes [OF firstDB_legacy] obtain d' where d': "migrate no_faults firstDB = (None, d')"
    "\<And>t cols c. CreateTable t cols \<in> set schema \<Longrightarrow> c \<in> set cols \<Longrightarrow> columnExists d' t c" by blast
  have "columnExists d' ''servers'' ''swarm_role''" "columnExists d' ''containers'' ''swarm_task_id''"
    by (rule d'(2), simp add: schema_def, simp)+
  with d'(1) show ?thesis by blast
qed

theorem migration_keeps_data_witness:
  "\<exists>tb. sq_tables (snd (migrate (\<lambda>n. if n = 30 then Some (errors_new ''disk full'') else None) firstDB)) ''servers'' = Some tb
    \<and> (tb_rows tb ! 0) ''id'' = SqlText ''local''"
proof -
  let ?tb = "the (sq_tables firstDB ''servers'')"
  have 1: "sq_tables firstDB ''servers'' = Some ?tb" by (simp add: firstDB_def firstTables_def)
  have 2: "0 < length (tb_rows ?tb)" "''id'' \<in> set (tb_columns ?tb)" "(tb_rows ?tb ! 0) ''id'' = SqlText ''local''"
    by (simp_all add: firstDB_def firstTables_def)
  have "''servers'' \<noteq> ''servers'' \<or> ''id'' \<noteq> ''kind''" by simp
  from migration_keeps_data [OF 1 2(1,2) this] 2(3) show ?thesis by metis
qed

end
