(* ===== verification/Startup.thy ===== *)
theory Startup
  imports Access HostSnapshot
begin

text \<open>
  The life of the process: \<open>server.New\<close> and \<open>Server.Run\<close> of \<open>internal/server/server.go\<close>,
  and the dispatch on the mode in \<open>cmd/whatsnewdock/main.go\<close>.

  \<open>Run\<close> is four background loops, the HTTP server and a \<open>select\<close>; its threads are a step relation.
  What the operating system and the other packages answer on the way (directories, the database file,
  random bytes, the environment) are arguments.
\<close>

section \<open>Building the server\<close>

definition blankRun :: selfUpdateRun where
  "blankRun = \<lparr>sr_id = [], sr_started = zero_time, sr_phase = [], sr_kind = KindNone, sr_target = [], sr_message = [],
     sr_error = [], sr_agents = [], sr_finished = False\<rparr>"

text \<open>The server's fields before anything is loaded: the configuration's own values.\<close>

definition initialApp :: "('c, 'l) ctx \<Rightarrow> db \<Rightarrow> ('c, 'l) app" where
  "initialApp X d =
     (let cfg = x_cfg X in
      \<lparr>ap_db = d, ap_localID = [], ap_auth = wc_auth cfg, ap_updates = wc_updates cfg, ap_self = wc_selfUpdate cfg,
       ap_githubToken = uc_githubToken (wc_updates cfg), ap_gitlabToken = uc_gitlabToken (wc_updates cfg),
       ap_oidc = None, ap_limiter = newLoginLimiter (x_now X), ap_jobs = (\<lambda>_. None),
       ap_checks = \<lparr>kr_running = False, kr_trigger = [], kr_startedAt = zero_time, kr_finishedAt = zero_time, kr_err = []\<rparr>,
       ap_endpoints = (\<lambda>_. None), ap_checker = \<lparr>ck_result = no_result\<rparr>,
       ap_tracker = \<lparr>tr_runs = (\<lambda>_. blankRun), tr_current = None\<rparr>, ap_nextRun = 0, ap_tasks = []\<rparr>)"

text \<open>What the outside answers while the server is built.\<close>

record startAnswers =
  sa_mkdir :: "err option"
  sa_open :: "err + db"
  sa_random :: "err + string"
  sa_password :: string
  sa_uid :: int
  sa_gid :: int

definition openError :: "string \<Rightarrow> int \<Rightarrow> int \<Rightarrow> err \<Rightarrow> err" where
  "openError dir uid gid e =
     Err (wraps e) (''open database in '' @ dir @ '': '' @ msg e @ '' '' @ emDash
       @ '' the data directory must be writable by the container user (uid='' @ intText uid @ '' gid='' @ intText gid
       @ ''). For a bind mount, run `chown -R '' @ intText uid @ '':'' @ intText gid @ '' '' @ dir
       @ ''`, use a named volume, or set `user:` in docker-compose'')"

definition localDocker :: "('c, 'l) ctx \<Rightarrow> 'c option" where
  "localDocker X =
     (if dc_host (wc_docker (x_cfg X)) = [] then None
      else (case dockerNew X (wc_docker (x_cfg X)) of Inl _ \<Rightarrow> None | Inr c \<Rightarrow> Some c))"

text \<open>The server and the context its handlers run in, which now holds the session secret and the local client.\<close>

definition buildServer :: "('c, 'l) ctx \<Rightarrow> startAnswers \<Rightarrow> err + ('c, 'l) ctx \<times> ('c, 'l) app" where
  "buildServer X A =
     (case sa_mkdir A of
        Some e \<Rightarrow> Inl (wrap_err ''create data dir: '' e)
      | None \<Rightarrow>
          (case sa_open A of
             Inl e \<Rightarrow> Inl (openError (wc_dataDir (x_cfg X)) (sa_uid A) (sa_gid A) e)
           | Inr d0 \<Rightarrow>
               and_then (loadSecret (wc_auth (x_cfg X)) (sa_random A) d0)
                 (\<lambda>(secret, d1).
                    let X1 = X\<lparr>x_secret := secret, x_docker := localDocker X\<rparr>
                    in and_then (bootstrap X1 (sa_password A) (initialApp X d1))
                         (\<lambda>s. Inr (X1, snd (loadAuthSettings X1 (loadRuntimeSettings s)))))))"

section \<open>Running it\<close>

datatype thread = SnapshotLoop | UpdaterLoop | OfflineMarkerLoop | SelfUpdateLoop

text \<open>Where \<open>Run\<close> itself is: in the \<open>select\<close>, waiting for the loops with the value it will return, or
  back.\<close>

datatype runPhase = Selecting | Waiting "err option" | Returned "err option"

record runState =
  ru_cancelled :: bool
  ru_loops :: "thread list"
  ru_errCh :: "err option"
  ru_listening :: bool
  ru_phase :: runPhase

definition runStart :: runState where
  "runStart = \<lparr>ru_cancelled = False, ru_loops = [SnapshotLoop, UpdaterLoop, OfflineMarkerLoop, SelfUpdateLoop],
     ru_errCh = None, ru_listening = True, ru_phase = Selecting\<rparr>"

text \<open>The context is cancelled by a signal; the listener may fail on its own; a loop returns on \<open>ctx.Done()\<close>
  and only then; the \<open>select\<close> takes either of its two cases when it is ready.\<close>

inductive run_step :: "runState \<Rightarrow> runState \<Rightarrow> bool" where
  signal: "run_step s (s\<lparr>ru_cancelled := True\<rparr>)"
| listenFails: "ru_listening s \<Longrightarrow> run_step s (s\<lparr>ru_listening := False, ru_errCh := Some e\<rparr>)"
| loopReturns: "ru_cancelled s \<Longrightarrow> t \<in> set (ru_loops s) \<Longrightarrow> run_step s (s\<lparr>ru_loops := removeAll t (ru_loops s)\<rparr>)"
| shutsDown: "ru_phase s = Selecting \<Longrightarrow> ru_cancelled s \<Longrightarrow>
    run_step s (s\<lparr>ru_listening := False, ru_phase := Waiting None\<rparr>)"
| takesError: "ru_phase s = Selecting \<Longrightarrow> ru_errCh s = Some e \<Longrightarrow> run_step s (s\<lparr>ru_phase := Waiting (Some e)\<rparr>)"
| returns: "ru_phase s = Waiting r \<Longrightarrow> ru_loops s = [] \<Longrightarrow> run_step s (s\<lparr>ru_phase := Returned r\<rparr>)"

abbreviation run_steps :: "runState \<Rightarrow> runState \<Rightarrow> bool" where
  "run_steps \<equiv> run_step\<^sup>*\<^sup>*"

section \<open>The loops\<close>

definition localSnapshotInterval :: int where "localSnapshotInterval = 30 * second"
definition offlineMarkInterval :: int where "offlineMarkInterval = 60 * second"

text \<open>The interval the check loop is started with, and its events until it is stopped: the timer of the first
  check and the ticks.\<close>

definition checkInterval :: "updatesSettings \<Rightarrow> int" where
  "checkInterval u = (if uc_interval u \<le> 0 then 6 * hour else uc_interval u)"

datatype checkTick = FirstCheck | CheckTick

fun updaterLoop ::
  "('v, 'e) updater \<Rightarrow> (nat \<Rightarrow> ('c, 'l) ctx) \<Rightarrow> checkTick list \<Rightarrow> ('c, 'l) app \<Rightarrow> 'e \<Rightarrow> ('c, 'l) app \<times> 'e" where
  "updaterLoop u X [] s e = (s, e)"
| "updaterLoop u X (tk # tks) s e =
     (let (_, s1, e1) = runUpdateCheck u (X (length tks)) ''scheduled'' s e in updaterLoop u X tks s1 e1)"

fun snapshotLoop ::
  "(nat \<Rightarrow> nat \<Rightarrow> ('c, 'l) ctx) \<Rightarrow> ('c \<Rightarrow> err + hostSnapshot) \<Rightarrow> nat \<Rightarrow> ('c, 'l) app \<Rightarrow> ('c, 'l) app" where
  "snapshotLoop X ask 0 s = snapshotAll (X 0) ask s"
| "snapshotLoop X ask (Suc n) s = snapshotAll (X (Suc n)) ask (snapshotLoop X ask n s)"

fun offlineMarkerLoop :: "gotime list \<Rightarrow> ('c, 'l) app \<Rightarrow> ('c, 'l) app" where
  "offlineMarkerLoop [] s = s"
| "offlineMarkerLoop (now # nows) s = offlineMarkerLoop nows (s\<lparr>ap_db := markOfflineServers now (ap_db s)\<rparr>)"

fun selfUpdateLoop :: "('c, 'l) ctx list \<Rightarrow> ('c, 'l) app \<Rightarrow> ('c, 'l) app" where
  "selfUpdateLoop [] s = s"
| "selfUpdateLoop (X # Xs) s = selfUpdateLoop Xs (selfUpdateRound X s)"

text \<open>Before anything else \<open>Run\<close> marks the hosts offline.\<close>

definition runBegin :: "('c, 'l) app \<Rightarrow> ('c, 'l) app" where
  "runBegin s = s\<lparr>ap_db := (case MarkAllOffline (ap_db s) of Inl _ \<Rightarrow> ap_db s | Inr d \<Rightarrow> d)\<rparr>"

section \<open>The program\<close>

datatype logThreshold = ThresholdDebug | ThresholdInfo | ThresholdWarn | ThresholdError

definition setupLogging :: "string \<Rightarrow> logThreshold" where
  "setupLogging level =
     (let l = toLower level
      in if l = ''debug'' then ThresholdDebug
         else if l = ''warn'' \<or> l = ''warning'' then ThresholdWarn
         else if l = ''error'' then ThresholdError
         else ThresholdInfo)"

definition isCleanShutdown :: "err \<Rightarrow> bool" where
  "isCleanShutdown e \<longleftrightarrow> wraps e = Some CtxDone"

text \<open>The helper: it needs both variables, then it runs the flow on its container.\<close>

definition EnvSelfUpdateContainer :: string where "EnvSelfUpdateContainer = ''WND_SELFUPDATE_CONTAINER''"
definition EnvSelfUpdateImage :: string where "EnvSelfUpdateImage = ''WND_SELFUPDATE_IMAGE''"

definition runSelfUpdateHelper ::
  "environ \<Rightarrow> (dockerConfig \<Rightarrow> err + 'd daemon) \<Rightarrow> nat \<Rightarrow> wndConfig \<Rightarrow> 'd \<Rightarrow> (outcome \<times> 'd) option" where
  "runSelfUpdateHelper E newClient fuel cfg d =
     (let selfID = orEmpty (E EnvSelfUpdateContainer); target = orEmpty (E EnvSelfUpdateImage)
      in if selfID = [] \<or> target = []
         then Some (Failed (errors_new (''helper needs '' @ EnvSelfUpdateContainer @ '' and '' @ EnvSelfUpdateImage)), d)
         else (case newClient (wc_docker cfg) of
                 Inl e \<Rightarrow> Some (Failed e, d)
               | Inr D \<Rightarrow> RunSelfUpdateHelper D fuel selfID target d))"

text \<open>The exit code of the process, given how each mode's run ends.\<close>

definition exitWith :: "err option \<Rightarrow> int" where
  "exitWith r = (case r of None \<Rightarrow> 0 | Some e \<Rightarrow> if isCleanShutdown e then 0 else 1)"

definition mainProgram ::
  "bool \<Rightarrow> err + wndConfig \<Rightarrow> (wndConfig \<Rightarrow> 'w \<Rightarrow> err option \<times> 'w) \<Rightarrow> (wndConfig \<Rightarrow> 'w \<Rightarrow> err option \<times> 'w)
     \<Rightarrow> (wndConfig \<Rightarrow> 'w \<Rightarrow> err option \<times> 'w) \<Rightarrow> 'w \<Rightarrow> int \<times> 'w" where
  "mainProgram version loaded helper runAgent runServer w =
     (if version then (0, w)
      else (case loaded of
              Inl _ \<Rightarrow> (1, w)
            | Inr cfg \<Rightarrow>
                if wc_mode cfg = ''selfupdate''
                then (let (r, w1) = helper cfg w in (case r of None \<Rightarrow> 0 | Some _ \<Rightarrow> 1, w1))
                else if wc_mode cfg = ''agent'' then (let (r, w1) = runAgent cfg w in (exitWith r, w1))
                else (let (r, w1) = runServer cfg w in (exitWith r, w1))))"

end
