(* ===== verification/StartupProps.thy ===== *)
theory StartupProps
  imports Startup ServerProps
begin

text \<open>
  When the process ends: \<open>Run\<close> in \<open>server.go\<close> against the signals and the listener.
\<close>

section \<open>When Run returns\<close>

inductive_cases run_stepE: "run_step s t"

text \<open>Steps between two signals.\<close>

definition ownStep :: "runState \<Rightarrow> runState \<Rightarrow> bool" where
  "ownStep s t \<longleftrightarrow> run_step s t \<and> ru_cancelled t = ru_cancelled s"

definition run_ok :: "runState \<Rightarrow> bool" where
  "run_ok s \<longleftrightarrow> (\<not> ru_cancelled s \<longrightarrow> ru_loops s = ru_loops runStart \<and> (\<forall>r. ru_phase s \<noteq> Returned r))"

lemma run_ok_step: "run_step s t \<Longrightarrow> run_ok s \<Longrightarrow> run_ok t"
  by (induction rule: run_step.induct) (auto simp: run_ok_def runStart_def)

lemma run_ok_reachable: "run_steps runStart s \<Longrightarrow> run_ok s"
proof (induction rule: rtranclp_induct)
  case (step t u)
  then show ?case using run_ok_step by blast
qed (simp add: run_ok_def runStart_def)

lemma ownStep_ok: "ownStep\<^sup>*\<^sup>* s t \<Longrightarrow> run_ok s \<Longrightarrow> run_ok t \<and> ru_cancelled t = ru_cancelled s"
  by (induction rule: rtranclp_induct) (auto simp: ownStep_def intro: run_ok_step)

lemma loops_stop:
  assumes "ru_cancelled s"
  shows "\<exists>t. ownStep\<^sup>*\<^sup>* s t \<and> ru_loops t = [] \<and> ru_phase t = ru_phase s \<and> ru_cancelled t"
  using assms
proof (induction "length (ru_loops s)" arbitrary: s rule: less_induct)
  case less
  show ?case
  proof (cases "ru_loops s")
    case Nil
    with less.prems show ?thesis by blast
  next
    case (Cons x xs)
    let ?s = "s\<lparr>ru_loops := removeAll x (ru_loops s)\<rparr>"
    have "ownStep s ?s" using run_step.loopReturns [OF less.prems, of x] Cons by (simp add: ownStep_def)
    moreover have "length (ru_loops ?s) < length (ru_loops s)"
      using Cons length_removeAll_less_eq [of x xs] by (simp add: less_Suc_eq_le)
    from less.hyps [OF this] less.prems obtain t where
      "ownStep\<^sup>*\<^sup>* ?s t" "ru_loops t = []" "ru_phase t = ru_phase s" "ru_cancelled t" by auto
    ultimately show ?thesis by (metis converse_rtranclp_into_rtranclp)
  qed
qed

text \<open>C35: \<open>Run\<close> can come back when its context is cancelled and only then.  In particular a listener that
  fails, because the port is taken, does not end the process: \<open>Run\<close> takes the error and then waits for
  loops that nothing stops.\<close>

theorem run_returns_iff_cancelled:
  assumes "run_steps runStart s"
  shows "(\<exists>t r. ownStep\<^sup>*\<^sup>* s t \<and> ru_phase t = Returned r) \<longleftrightarrow> ru_cancelled s"
proof
  assume "\<exists>t r. ownStep\<^sup>*\<^sup>* s t \<and> ru_phase t = Returned r"
  then obtain t r where t: "ownStep\<^sup>*\<^sup>* s t" "ru_phase t = Returned r" by blast
  with ownStep_ok [OF t(1) run_ok_reachable [OF assms]] show "ru_cancelled s" by (auto simp: run_ok_def)
next
  assume "ru_cancelled s"
  then obtain s1 where s1: "ownStep\<^sup>*\<^sup>* s s1" "ru_loops s1 = []" "ru_phase s1 = ru_phase s" "ru_cancelled s1"
    using loops_stop by blast
  have home: "\<exists>t. ownStep x t \<and> ru_phase t = Returned r" if "ru_phase x = Waiting r" "ru_loops x = []" for x r
    using run_step.returns [OF that] by (intro exI [of _ "x\<lparr>ru_phase := Returned r\<rparr>"]) (simp add: ownStep_def)
  show "\<exists>t r. ownStep\<^sup>*\<^sup>* s t \<and> ru_phase t = Returned r"
  proof (cases "ru_phase s")
    case Selecting
    let ?s2 = "s1\<lparr>ru_listening := False, ru_phase := Waiting None\<rparr>"
    have "ownStep s1 ?s2" using s1 Selecting by (auto simp: ownStep_def intro!: run_step.shutsDown)
    moreover obtain t where "ownStep ?s2 t" "ru_phase t = Returned None" using home [of ?s2 None] s1(2) by auto
    ultimately show ?thesis using s1(1) by (meson rtranclp.rtrancl_into_rtrancl)
  next
    case (Waiting r)
    with home [of s1 r] s1 show ?thesis by (metis rtranclp.rtrancl_into_rtrancl)
  next
    case (Returned r)
    then show ?thesis by blast
  qed
qed

text \<open>The port is taken: the error is in hand and \<open>Run\<close> is stuck.\<close>

theorem run_returns_iff_cancelled_witness:
  "run_steps runStart (runStart\<lparr>ru_listening := False, ru_errCh := Some (errors_new ''address already in use''),
       ru_phase := Waiting (Some (errors_new ''address already in use''))\<rparr>)
   \<and> \<not> (\<exists>t r. ownStep\<^sup>*\<^sup>* (runStart\<lparr>ru_listening := False, ru_errCh := Some (errors_new ''address already in use''),
       ru_phase := Waiting (Some (errors_new ''address already in use''))\<rparr>) t \<and> ru_phase t = Returned r)"
proof -
  let ?e = "errors_new ''address already in use''"
  let ?s1 = "runStart\<lparr>ru_listening := False, ru_errCh := Some ?e\<rparr>"
  have "run_step runStart ?s1" by (rule run_step.listenFails) (simp add: runStart_def)
  moreover have "run_step ?s1 (?s1\<lparr>ru_phase := Waiting (Some ?e)\<rparr>)" by (rule run_step.takesError) (simp_all add: runStart_def)
  ultimately have r: "run_steps runStart (?s1\<lparr>ru_phase := Waiting (Some ?e)\<rparr>)" by (meson r_into_rtranclp rtranclp.rtrancl_into_rtrancl)
  have "\<not> ru_cancelled (?s1\<lparr>ru_phase := Waiting (Some ?e)\<rparr>)" by (simp add: runStart_def)
  with run_returns_iff_cancelled [OF r] r show ?thesis by simp
qed

end
