(* ===== verification/Restart.thy ===== *)
theory Restart
  imports StartupProps
begin

text \<open>What the settings page saves and what the next start reads back of it: \<open>saveRuntimeSettings\<close>
  in \<open>settings_handlers.go\<close> against \<open>New\<close> and \<open>loadRuntimeSettings\<close> in \<open>server.go\<close>.\<close>

section \<open>Settings across a restart\<close>

lemma atoi_intText: "0 \<le> n \<Longrightarrow> n < 2 ^ 63 \<Longrightarrow> atoi (intText n) = Some n"
  using atoi_digits [of "natText (nat n)"] natText_digits [of "nat n"] by (simp add: intText_def digitsVal_natText)

lemma joinWith_not_Nil: "ss \<noteq> [] \<Longrightarrow> hd ss \<noteq> [] \<Longrightarrow> joinWith sep ss \<noteq> []"
  by (cases ss; cases "tl ss") auto

lemma durationString_not_Nil [simp]: "durationString d \<noteq> []"
  by (simp add: durationString_def Let_def)

lemma formatBool_reads [simp]: "formatBool b \<noteq> []" "isTrue (formatBool b) = b"
  by (simp_all add: formatBool_def isTrue_def)

lemma intText_not_Nil [simp]: "intText n \<noteq> []"
  by (simp add: intText_def)

lemma putSettings_stores:
  "\<exists>d'. putSettings rows d = Inr d' \<and> users d' = users d
     \<and> map_of (settings d') = map_of (settings d) ++ map_of (rev rows)"
proof (induction rows arbitrary: d)
  case (Cons x rows)
  obtain k v where x: "x = (k, v)" by (cases x)
  let ?d = "d\<lparr>settings := put_setting k v (settings d)\<rparr>"
  obtain d' where "putSettings rows ?d = Inr d'" "users d' = users ?d" "map_of (settings d') = map_of (settings ?d) ++ map_of (rev rows)"
    using Cons.IH by blast
  then show ?case
    by (simp add: x putSettings_def SetSetting_def map_of_put_setting map_add_upd_left map_add_assoc [symmetric])
qed (simp add: putSettings_def)

text \<open>What a start reads of a stored setting.\<close>

definition storedAt :: "string \<Rightarrow> db \<Rightarrow> string" where
  "storedAt k d = orEmpty (map_of (settings d) k)"

lemma whenSet_stored: "whenSet k f s = (if storedAt k (ap_db s) = [] then s else f (storedAt k (ap_db s)) s)"
  by (simp add: whenSet_def GetSetting_def storedAt_def orEmpty_def split: option.split)

lemma loadSecret_settings:
  "loadSecret cfg rnd d = Inr (secret, d') \<Longrightarrow> k \<noteq> ''session_secret'' \<Longrightarrow> storedAt k d' = storedAt k d"
  by (auto simp: loadSecret_def storedAt_def SetSetting_def map_of_put_setting and_then_eq_Inr split: if_splits sum.splits)

lemma bootstrap_frame:
  assumes "bootstrap X fresh s = Inr s'"
  shows "settings (ap_db s') = settings (ap_db s) \<and> ap_updates s' = ap_updates s \<and> ap_self s' = ap_self s \<and> ap_auth s' = ap_auth s
    \<and> ap_limiter s' = ap_limiter s"
proof -
  have admin: "settings d' = settings d" if "ensureInitialAdmin X fresh d = Inr d'" for d d'
    using that by (auto simp: ensureInitialAdmin_def CreateUser_def Let_def and_then_eq_Inr unique_on_Inr split: if_splits)
  have local: "settings (ap_db t') = settings (ap_db t) \<and> ap_updates t' = ap_updates t \<and> ap_self t' = ap_self t
      \<and> ap_auth t' = ap_auth t \<and> ap_limiter t' = ap_limiter t"
    if "ensureLocalServer X t = Inr t'" for t t'
    using that by (auto simp: ensureLocalServer_def CreateServer_def Let_def and_then_eq_Inr unique_on_Inr split: option.splits)
  from assms obtain s1 d where 1: "(if x_docker X = None then Inr s else ensureLocalServer X s) = Inr s1"
    "ensureInitialAdmin X fresh (ap_db s1) = Inr d" "s' = s1\<lparr>ap_db := d\<rparr>"
    unfolding bootstrap_def and_then_eq_Inr by auto
  with admin [OF 1(2)] local show ?thesis by (auto split: if_splits)
qed

text \<open>What the saved rows leave in the table, key by key.\<close>

lemma saved_settings:
  assumes "saveRuntimeSettings s = Inr s'"
  shows "storedAt ''settings.changelog_count'' (ap_db s') = intText (uc_changelogCount (ap_updates s))"
    and "storedAt ''settings.include_prereleases'' (ap_db s') = formatBool (uc_includePre (ap_updates s))"
    and "storedAt ''settings.ignore_images'' (ap_db s') = joinWith '','' (uc_ignoreImages (ap_updates s))"
    and "uc_githubToken (ap_updates s) \<noteq> [] \<Longrightarrow> storedAt ''settings.github_token'' (ap_db s') = uc_githubToken (ap_updates s)"
    and "uc_gitlabToken (ap_updates s) \<noteq> [] \<Longrightarrow> storedAt ''settings.gitlab_token'' (ap_db s') = uc_gitlabToken (ap_updates s)"
    and "storedAt ''settings.self_update'' (ap_db s') = formatBool (sc_enabled (ap_self s))"
    and "storedAt ''settings.self_update_interval'' (ap_db s') = durationString (sc_interval (ap_self s))"
proof -
  obtain d' where d: "putSettings (settingRows s) (ap_db s) = Inr d'"
      "map_of (settings d') = map_of (settings (ap_db s)) ++ map_of (rev (settingRows s))"
    using putSettings_stores by blast
  with assms have "ap_db s' = d'" by (auto simp: saveRuntimeSettings_def)
  then have m: "storedAt k (ap_db s') = orEmpty ((map_of (settings (ap_db s)) ++ map_of (rev (settingRows s))) k)" for k
    using d(2) by (simp add: storedAt_def)
  show "storedAt ''settings.changelog_count'' (ap_db s') = intText (uc_changelogCount (ap_updates s))"
    "storedAt ''settings.include_prereleases'' (ap_db s') = formatBool (uc_includePre (ap_updates s))"
    "storedAt ''settings.ignore_images'' (ap_db s') = joinWith '','' (uc_ignoreImages (ap_updates s))"
    "uc_githubToken (ap_updates s) \<noteq> [] \<Longrightarrow> storedAt ''settings.github_token'' (ap_db s') = uc_githubToken (ap_updates s)"
    "uc_gitlabToken (ap_updates s) \<noteq> [] \<Longrightarrow> storedAt ''settings.gitlab_token'' (ap_db s') = uc_gitlabToken (ap_updates s)"
    "storedAt ''settings.self_update'' (ap_db s') = formatBool (sc_enabled (ap_self s))"
    "storedAt ''settings.self_update_interval'' (ap_db s') = durationString (sc_interval (ap_self s))"
    by (simp_all add: m settingRows_def map_add_def orEmpty_def)
qed

lemma loadAuthSettings_frame [simp]:
  "ap_updates (snd (loadAuthSettings X s)) = ap_updates s" "ap_self (snd (loadAuthSettings X s)) = ap_self s"
  by (auto simp: loadAuthSettings_def split: sum.splits)

lemma initialApp_fields [simp]:
  "ap_db (initialApp X d) = d" "ap_updates (initialApp X d) = wc_updates (x_cfg X)" "ap_self (initialApp X d) = wc_selfUpdate (x_cfg X)"
  "ap_auth (initialApp X d) = wc_auth (x_cfg X)" "ap_limiter (initialApp X d) = newLoginLimiter (x_now X)"
  by (simp_all add: initialApp_def Let_def)

text \<open>The start reads the runtime settings of the file it opened into its configuration.\<close>

lemma buildServer_reads:
  fixes X :: "('c, 'l) ctx"
  assumes "buildServer X A = Inr (X', t)" and "sa_open A = Inr d"
  shows "\<exists>u :: ('c, 'l) app. (\<forall>k. k \<noteq> ''session_secret'' \<longrightarrow> storedAt k (ap_db u) = storedAt k d)
    \<and> ap_updates u = wc_updates (x_cfg X) \<and> ap_self u = wc_selfUpdate (x_cfg X)
    \<and> ap_updates t = ap_updates (loadRuntimeSettings u) \<and> ap_self t = ap_self (loadRuntimeSettings u)"
proof -
  from assms obtain secret d1 where 1: "loadSecret (wc_auth (x_cfg X)) (sa_random A) d = Inr (secret, d1)"
    "and_then (bootstrap (X\<lparr>x_secret := secret, x_docker := localDocker X\<rparr>) (sa_password A) (initialApp X d1))
       (\<lambda>s. Inr (X\<lparr>x_secret := secret, x_docker := localDocker X\<rparr>,
          snd (loadAuthSettings (X\<lparr>x_secret := secret, x_docker := localDocker X\<rparr>) (loadRuntimeSettings s)))) = Inr (X', t)"
    by (auto simp: buildServer_def and_then_eq_Inr Let_def split: option.splits)
  then obtain u where u: "bootstrap (X\<lparr>x_secret := secret, x_docker := localDocker X\<rparr>) (sa_password A) (initialApp X d1) = Inr u"
    "t = snd (loadAuthSettings (X\<lparr>x_secret := secret, x_docker := localDocker X\<rparr>) (loadRuntimeSettings u))"
    by (auto simp: and_then_eq_Inr)
  note f = bootstrap_frame [OF u(1)]
  have "storedAt k (ap_db u) = storedAt k d1" for k using f by (simp add: storedAt_def)
  with loadSecret_settings [OF 1(1)] f u(2) show ?thesis by (intro exI [of _ u]) simp
qed

text \<open>The runtime settings read from a table whose keys are known.\<close>

lemma whenSet_GitHub:
  "\<exists>g h. whenSet k setGitHubToken s = s\<lparr>ap_updates := (ap_updates s)\<lparr>uc_githubToken := g\<rparr>, ap_githubToken := h\<rparr>
     \<and> (storedAt k (ap_db s) = [] \<or> g = storedAt k (ap_db s))"
proof (cases "storedAt k (ap_db s) = []")
  case True
  then show ?thesis
    by (intro exI [of _ "uc_githubToken (ap_updates s)"] exI [of _ "ap_githubToken s"]) (simp add: whenSet_stored)
qed (auto simp: whenSet_stored setGitHubToken_def)

lemma whenSet_GitLab:
  "\<exists>g h. whenSet k setGitLabToken s = s\<lparr>ap_updates := (ap_updates s)\<lparr>uc_gitlabToken := g\<rparr>, ap_gitlabToken := h\<rparr>
     \<and> (storedAt k (ap_db s) = [] \<or> g = storedAt k (ap_db s))"
proof (cases "storedAt k (ap_db s) = []")
  case True
  then show ?thesis
    by (intro exI [of _ "uc_gitlabToken (ap_updates s)"] exI [of _ "ap_gitlabToken s"]) (simp add: whenSet_stored)
qed (auto simp: whenSet_stored setGitLabToken_def)

lemma loadRuntimeSettings_reads:
  assumes "atoi (storedAt ''settings.changelog_count'' (ap_db u)) = Some n" and "0 < n"
      "storedAt ''settings.changelog_count'' (ap_db u) \<noteq> []"
    and "storedAt ''settings.include_prereleases'' (ap_db u) = formatBool pr"
    and "storedAt ''settings.self_update'' (ap_db u) = formatBool se"
    and "parseDuration (storedAt ''settings.self_update_interval'' (ap_db u)) = Some d" and "0 < d"
      "storedAt ''settings.self_update_interval'' (ap_db u) \<noteq> []"
  shows "\<exists>gh gl. ap_updates (loadRuntimeSettings u) = (ap_updates u)\<lparr>uc_changelogCount := n, uc_includePre := pr,
        uc_ignoreImages := (let v = storedAt ''settings.ignore_images'' (ap_db u) in
          if v = [] then uc_ignoreImages (ap_updates u) else splitCSV v), uc_githubToken := gh, uc_gitlabToken := gl\<rparr>
    \<and> ap_self (loadRuntimeSettings u) = (ap_self u)\<lparr>sc_enabled := se, sc_interval := d\<rparr>
    \<and> (let v = storedAt ''settings.github_token'' (ap_db u) in v = [] \<or> gh = v)
    \<and> (let v = storedAt ''settings.gitlab_token'' (ap_db u) in v = [] \<or> gl = v)"
proof -
  define s3 where "s3 = u\<lparr>ap_updates := (ap_updates u)\<lparr>uc_changelogCount := n, uc_includePre := pr,
      uc_ignoreImages := (let v = storedAt ''settings.ignore_images'' (ap_db u) in
        if v = [] then uc_ignoreImages (ap_updates u) else splitCSV v)\<rparr>\<rparr>"
  have 1: "whenSet ''settings.changelog_count'' (\<lambda>v s. case atoi v of None \<Rightarrow> s
             | Some n \<Rightarrow> if n > 0 then s\<lparr>ap_updates := (ap_updates s)\<lparr>uc_changelogCount := n\<rparr>\<rparr> else s) u
      = u\<lparr>ap_updates := (ap_updates u)\<lparr>uc_changelogCount := n\<rparr>\<rparr>"
    using assms(1-3) by (simp add: whenSet_stored)
  have 2: "whenSet ''settings.include_prereleases'' (\<lambda>v s. s\<lparr>ap_updates := (ap_updates s)\<lparr>uc_includePre := isTrue v\<rparr>\<rparr>)
      (u\<lparr>ap_updates := (ap_updates u)\<lparr>uc_changelogCount := n\<rparr>\<rparr>)
      = u\<lparr>ap_updates := (ap_updates u)\<lparr>uc_changelogCount := n, uc_includePre := pr\<rparr>\<rparr>"
    using assms(4) by (simp add: whenSet_stored)
  have 3: "whenSet ''settings.ignore_images'' (\<lambda>v s. s\<lparr>ap_updates := (ap_updates s)\<lparr>uc_ignoreImages := splitCSV v\<rparr>\<rparr>)
      (u\<lparr>ap_updates := (ap_updates u)\<lparr>uc_changelogCount := n, uc_includePre := pr\<rparr>\<rparr>) = s3"
    by (simp add: whenSet_stored s3_def Let_def)
  have db: "ap_db s3 = ap_db u" by (simp add: s3_def)
  obtain gh g where 4: "whenSet ''settings.github_token'' setGitHubToken s3
        = s3\<lparr>ap_updates := (ap_updates s3)\<lparr>uc_githubToken := gh\<rparr>, ap_githubToken := g\<rparr>"
      "storedAt ''settings.github_token'' (ap_db u) = [] \<or> gh = storedAt ''settings.github_token'' (ap_db u)"
    using whenSet_GitHub [of "''settings.github_token''" s3] unfolding db by blast
  define s4 where "s4 = s3\<lparr>ap_updates := (ap_updates s3)\<lparr>uc_githubToken := gh\<rparr>, ap_githubToken := g\<rparr>"
  obtain gl l where 5: "whenSet ''settings.gitlab_token'' setGitLabToken s4
        = s4\<lparr>ap_updates := (ap_updates s4)\<lparr>uc_gitlabToken := gl\<rparr>, ap_gitlabToken := l\<rparr>"
      "storedAt ''settings.gitlab_token'' (ap_db u) = [] \<or> gl = storedAt ''settings.gitlab_token'' (ap_db u)"
    using whenSet_GitLab [of "''settings.gitlab_token''" s4] db by (auto simp: s4_def)
  show ?thesis
    unfolding loadRuntimeSettings_def Let_def 1 2 3 4(1) s4_def [symmetric] 5(1)
    using assms(5-8) 4(2) 5(2)
    by - (rule exI [of _ gh], rule exI [of _ gl], simp add: whenSet_stored s3_def s4_def Let_def)
qed

text \<open>C32: the settings page survives a restart in part: the changelog count, the prerelease switch, the tokens, a
  self-update interval of whole seconds, its switch and an ignore list whose entries hold no comma and no space
  around them are read back as they were saved; an emptied ignore list is not, the
  configured one returns; and the check interval never was saved, so the next start checks at the configured one
  again.\<close>

theorem settings_survive_restart:
  fixes X :: "('c, 'l) ctx" and s :: "('c, 'l) app"
  assumes "saveRuntimeSettings s = Inr s'" and "sa_open A = Inr (ap_db s')" and "buildServer X A = Inr (X', t)"
    and "0 < uc_changelogCount (ap_updates s)" and "uc_changelogCount (ap_updates s) < 2 ^ 63"
    and "\<forall>i\<in>set (uc_ignoreImages (ap_updates s)). i \<noteq> [] \<and> CHR '','' \<notin> set i \<and> trimSpace i = i"
    and "sc_interval (ap_self s) = k * second" and "0 < k" and "k * second < 2 ^ 63"
  shows "uc_changelogCount (ap_updates t) = uc_changelogCount (ap_updates s)
    \<and> uc_includePre (ap_updates t) = uc_includePre (ap_updates s)
    \<and> uc_ignoreImages (ap_updates t) = (if uc_ignoreImages (ap_updates s) = [] then uc_ignoreImages (wc_updates (x_cfg X))
         else uc_ignoreImages (ap_updates s))
    \<and> (uc_githubToken (ap_updates s) = [] \<or> uc_githubToken (ap_updates t) = uc_githubToken (ap_updates s))
    \<and> (uc_gitlabToken (ap_updates s) = [] \<or> uc_gitlabToken (ap_updates t) = uc_gitlabToken (ap_updates s))
    \<and> uc_interval (ap_updates t) = uc_interval (wc_updates (x_cfg X))
    \<and> sc_enabled (ap_self t) = sc_enabled (ap_self s) \<and> sc_interval (ap_self t) = sc_interval (ap_self s)"
proof -
  from buildServer_reads [OF assms(3,2)]
  obtain u :: "('c, 'l) app" where u: "\<forall>k. k \<noteq> ''session_secret'' \<longrightarrow> storedAt k (ap_db u) = storedAt k (ap_db s')"
    "ap_updates u = wc_updates (x_cfg X)" "ap_self u = wc_selfUpdate (x_cfg X)"
    "ap_updates t = ap_updates (loadRuntimeSettings u)" "ap_self t = ap_self (loadRuntimeSettings u)"
    by (elim exE conjE) (rule that, assumption+)
  note rd = saved_settings(1-3,6,7) [OF assms(1)] and tk = saved_settings(4,5) [OF assms(1)]
  let ?l = "uc_ignoreImages (ap_updates s)"
  have l: "joinWith '','' ?l \<noteq> []" if "?l \<noteq> []"
    using that assms(6) by (intro joinWith_not_Nil) auto
  have rb: "splitCSV (joinWith '','' ?l) = ?l" by (rule splitCSV_joinWith [OF assms(6)])
  have d: "parseDuration (durationString (sc_interval (ap_self s))) = Some (sc_interval (ap_self s))" "sc_interval (ap_self s) > 0"
    using assms(7-9) duration_roundtrip [of k] by simp_all
  have st: "storedAt ''settings.changelog_count'' (ap_db u) = intText (uc_changelogCount (ap_updates s))"
    "storedAt ''settings.include_prereleases'' (ap_db u) = formatBool (uc_includePre (ap_updates s))"
    "storedAt ''settings.ignore_images'' (ap_db u) = joinWith '','' ?l"
    "storedAt ''settings.self_update'' (ap_db u) = formatBool (sc_enabled (ap_self s))"
    "storedAt ''settings.self_update_interval'' (ap_db u) = durationString (sc_interval (ap_self s))"
    "storedAt ''settings.github_token'' (ap_db u) = storedAt ''settings.github_token'' (ap_db s')"
    "storedAt ''settings.gitlab_token'' (ap_db u) = storedAt ''settings.gitlab_token'' (ap_db s')"
    using rd by (simp_all add: u(1) [rule_format])
  have "atoi (storedAt ''settings.changelog_count'' (ap_db u)) = Some (uc_changelogCount (ap_updates s))"
      "storedAt ''settings.changelog_count'' (ap_db u) \<noteq> []"
      "parseDuration (storedAt ''settings.self_update_interval'' (ap_db u)) = Some (sc_interval (ap_self s))"
      "storedAt ''settings.self_update_interval'' (ap_db u) \<noteq> []"
    unfolding st using assms(4,5) d by (simp_all add: atoi_intText)
  note r = loadRuntimeSettings_reads [OF this(1) assms(4) this(2) st(2,4) this(3) d(2) this(4)]
  have ig: "(let v = joinWith '','' ?l in if v = [] then uc_ignoreImages (ap_updates u) else splitCSV v)
      = (if ?l = [] then uc_ignoreImages (wc_updates (x_cfg X)) else ?l)"
    using l rb u(2) by (auto simp: Let_def)
  from r obtain gh gl where ld: "ap_updates (loadRuntimeSettings u) = (ap_updates u)\<lparr>uc_changelogCount := uc_changelogCount (ap_updates s),
        uc_includePre := uc_includePre (ap_updates s),
        uc_ignoreImages := (if ?l = [] then uc_ignoreImages (wc_updates (x_cfg X)) else ?l), uc_githubToken := gh, uc_gitlabToken := gl\<rparr>"
    "ap_self (loadRuntimeSettings u) = (ap_self u)\<lparr>sc_enabled := sc_enabled (ap_self s), sc_interval := sc_interval (ap_self s)\<rparr>"
    "storedAt ''settings.github_token'' (ap_db s') = [] \<or> gh = storedAt ''settings.github_token'' (ap_db s')"
    "storedAt ''settings.gitlab_token'' (ap_db s') = [] \<or> gl = storedAt ''settings.gitlab_token'' (ap_db s')"
    unfolding st(3,6,7) ig by (auto simp only: Let_def)
  have "uc_githubToken (ap_updates s) = [] \<or> gh = uc_githubToken (ap_updates s)"
      "uc_gitlabToken (ap_updates s) = [] \<or> gl = uc_gitlabToken (ap_updates s)"
    using ld(3,4) tk by metis+
  then show ?thesis by (simp add: u(2-5) ld(1,2))
qed

text \<open>An operator emptied the ignore list and asked for hourly checks: after the restart the configured list and
  the configured interval of six hours are back.\<close>

definition demoSaved :: "(nat, nat) app" where
  "demoSaved = demoApp\<lparr>ap_updates := (ap_updates demoApp)\<lparr>uc_changelogCount := 5, uc_ignoreImages := [], uc_interval := hour\<rparr>\<rparr>"

definition demoRestart :: "(nat, nat) ctx" where
  "demoRestart = demoCtx\<lparr>x_cfg := Default\<lparr>wc_docker := (wc_docker Default)\<lparr>dc_host := []\<rparr>,
     wc_updates := (wc_updates Default)\<lparr>uc_ignoreImages := [''scratch'']\<rparr>\<rparr>\<rparr>"

theorem settings_survive_restart_witness:
  "\<exists>d' X' t. buildServer demoRestart \<lparr>sa_mkdir = None, sa_open = Inr d', sa_random = Inr ''key'', sa_password = [],
        sa_uid = 0, sa_gid = 0\<rparr> = Inr (X', t)
     \<and> saveRuntimeSettings demoSaved = Inr (demoSaved\<lparr>ap_db := d'\<rparr>)
     \<and> uc_changelogCount (ap_updates t) = 5 \<and> uc_ignoreImages (ap_updates t) = [''scratch'']
     \<and> uc_interval (ap_updates t) = 6 * hour \<and> sc_interval (ap_self t) = 24 * hour"
proof -
  obtain d' where d: "putSettings (settingRows demoSaved) (ap_db demoSaved) = Inr d'" "users d' = users (ap_db demoSaved)"
    using putSettings_stores by blast
  then have sv: "saveRuntimeSettings demoSaved = Inr (demoSaved\<lparr>ap_db := d'\<rparr>)" by (simp add: saveRuntimeSettings_def)
  let ?A = "\<lparr>sa_mkdir = None, sa_open = Inr d', sa_random = Inr ''key'', sa_password = [], sa_uid = 0, sa_gid = 0\<rparr>"
  have "\<exists>sec d1. loadSecret cfg (Inr v) d' = Inr (sec, d1) \<and> users d1 = users d'" for cfg v
    by (cases "map_of (settings d') ''session_secret''") (auto simp: loadSecret_def GetSetting_def SetSetting_def)
  then obtain sec d1 where ls: "loadSecret (wc_auth (x_cfg demoRestart)) (Inr ''key'') d' = Inr (sec, d1)" "users d1 = users d'"
    by blast
  have "users d1 \<noteq> []" using d(2) ls(2) by (simp add: demoSaved_def demoApp_def demoDB_def)
  then obtain X' t where ns: "buildServer demoRestart ?A = Inr (X', t)"
    using ls(1) by (simp add: buildServer_def bootstrap_def ensureInitialAdmin_def localDocker_def demoRestart_def CountUsers_def Let_def)
  have k: "sc_interval (ap_self demoSaved) = 86400 * second" by (simp add: demoSaved_def demoApp_def Default_def)
  from settings_survive_restart [OF sv _ ns _ _ _ k]
  have "uc_changelogCount (ap_updates t) = 5 \<and> uc_ignoreImages (ap_updates t) = [''scratch'']
      \<and> uc_interval (ap_updates t) = 6 * hour \<and> sc_interval (ap_self t) = 24 * hour"
    by (simp add: demoSaved_def demoRestart_def demoApp_def Default_def demoCtx_def)
  with sv ns show ?thesis by - (rule exI, rule exI, rule exI, rule conjI, assumption, rule conjI, assumption)
qed

end
