(* ===== verification/FirstLogin.thy ===== *)
theory FirstLogin
  imports Restart AuthProps
begin

text \<open>
  A first start followed by a first login: \<open>New\<close> and \<open>ensureInitialAdmin\<close> of \<open>server.go\<close> with
  \<open>handleLogin\<close>, the sessions of \<open>auth.go\<close> and the administrator's guard of \<open>middleware.go\<close>.
\<close>

definition adminName :: "wndConfig \<Rightarrow> string" where
  "adminName cfg = (if wc_initialAdminUser cfg = [] then ''admin'' else wc_initialAdminUser cfg)"

definition adminPassword :: "wndConfig \<Rightarrow> string \<Rightarrow> string" where
  "adminPassword cfg fresh = (if wc_initialAdminPassword cfg = [] then fresh else wc_initialAdminPassword cfg)"

lemma whenSet_frame: "(\<And>v s. g (f v s) = g s) \<Longrightarrow> g (whenSet k f s) = g s"
  by (simp add: whenSet_stored)

lemma loadRuntimeSettings_frame:
  "ap_db (loadRuntimeSettings s) = ap_db s" "ap_auth (loadRuntimeSettings s) = ap_auth s"
  "ap_limiter (loadRuntimeSettings s) = ap_limiter s"
  by (simp_all add: loadRuntimeSettings_def Let_def whenSet_frame [where g = ap_db] whenSet_frame [where g = ap_auth]
      whenSet_frame [where g = ap_limiter] setGitHubToken_def setGitLabToken_def split: option.split)

lemma ensureLocalServer_users: "ensureLocalServer X s = Inr s' \<Longrightarrow> users (ap_db s') = users (ap_db s)"
  by (auto simp: ensureLocalServer_def CreateServer_def Let_def and_then_eq_Inr unique_on_Inr split: option.splits)

lemma bootstrap_admin:
  assumes "bootstrap X fresh s = Inr s'" and "users (ap_db s) = []"
  shows "\<exists>u. users (ap_db s') = [u] \<and> us_username u = adminName (x_cfg X) \<and> us_role u = RoleAdmin
    \<and> bcryptHash X (x_salt X) (adminPassword (x_cfg X) fresh) = Inr (us_hash u)"
proof -
  from assms(1) obtain s1 d where 1: "(if x_docker X = None then Inr s else ensureLocalServer X s) = Inr s1"
    "ensureInitialAdmin X fresh (ap_db s1) = Inr d" "s' = s1\<lparr>ap_db := d\<rparr>"
    unfolding bootstrap_def and_then_eq_Inr by auto
  have "users (ap_db s1) = users (ap_db s)"
    using 1(1) ensureLocalServer_users [of X s s1] by (cases "x_docker X = None") simp_all
  with 1(2,3) assms(2) show ?thesis
    by (auto simp: ensureInitialAdmin_def CountUsers_def CreateUser_def Let_def and_then_eq_Inr unique_on_Inr adminName_def
        adminPassword_def split: if_splits)
qed

text \<open>What a start on a fresh file leaves for the login.\<close>

lemma buildServer_first:
  assumes "buildServer X A = Inr (X1, s)" and "sa_open A = Inr d" and "users d = []" and "storedAt settingsAuthKey d = []"
  shows "\<exists>u secret. X1 = X\<lparr>x_secret := secret, x_docker := localDocker X\<rparr> \<and> users (ap_db s) = [u]
    \<and> us_username u = adminName (x_cfg X) \<and> us_role u = RoleAdmin
    \<and> bcryptHash X (x_salt X) (adminPassword (x_cfg X) (sa_password A)) = Inr (us_hash u)
    \<and> ap_auth s = wc_auth (x_cfg X) \<and> ap_limiter s = newLoginLimiter (x_now X)"
proof -
  from assms(1,2) obtain secret d1 s1 where 1: "loadSecret (wc_auth (x_cfg X)) (sa_random A) d = Inr (secret, d1)"
    "X1 = X\<lparr>x_secret := secret, x_docker := localDocker X\<rparr>"
    "bootstrap X1 (sa_password A) (initialApp X d1) = Inr s1"
    "s = snd (loadAuthSettings X1 (loadRuntimeSettings s1))"
    by (auto simp: buildServer_def and_then_eq_Inr Let_def split: option.splits)
  have u1: "users d1 = users d"
    using 1(1) by (auto simp: loadSecret_def SetSetting_def and_then_eq_Inr split: if_splits sum.splits)
  note f = bootstrap_frame [OF 1(3)]
  have "storedAt settingsAuthKey (ap_db (loadRuntimeSettings s1)) = []"
    using f loadSecret_settings [OF 1(1), of settingsAuthKey] assms(4)
    by (simp add: loadRuntimeSettings_frame storedAt_def settingsAuthKey_def)
  then have "s = loadRuntimeSettings s1"
    using 1(4) by (auto simp: loadAuthSettings_def storedAt_def GetSetting_def orEmpty_def split: option.splits)
  with f 1(2) bootstrap_admin [OF 1(3)] u1 assms(3) show ?thesis
    by (auto simp: loadRuntimeSettings_frame)
qed

lemma login_found:
  assumes "rq_method r = ''POST''" and "rq_path r = ''/api/auth/login''"
  shows "findRoute r routes = Some ([], Anyone, handleLogin)"
  using assms by (simp add: findRoute_def matchRoute_def routes_def methodMatches_def pathSegs_def trimPrefix_def)

text \<open>C29: after a first start with local login, that is on a file without users and without saved authentication
  settings and in any mode but \<open>oidc\<close>, the configured name and password, or \<open>admin\<close> and the generated one that is
  logged, are accepted by the first request to the login, and the session that comes back passes for an
  administrator until it expires.  It rests on bcrypt accepting the password it has hashed, on the JWT library
  signing the session and reading it back, and on a new bucket of the limiter letting an attempt through.  In
  mode \<open>oidc\<close> the login is closed and nothing is claimed.\<close>

theorem first_start_admits_admin:
  fixes X :: "('c, 'l) ctx"
  assumes start: "buildServer X A = Inr (X1, s)" "sa_open A = Inr d" "users d = []" "storedAt settingsAuthKey d = []"
    and mode: "at_mode (wc_auth (x_cfg X)) \<noteq> ''oidc''"
    and bcrypt: "\<And>salt pw h. bcryptHash X salt pw = Inr h \<Longrightarrow> bcryptOK X h pw"
    and jwt: "jwt_laws (X1\<lparr>x_now := t\<rparr>)"
      "IssueSession (X1\<lparr>x_now := t\<rparr>) (wc_auth (x_cfg X)) (adminName (x_cfg X)) RoleAdmin ''local'' = Inr tok" "tok \<noteq> []"
    and limiter: "fst (limiterAllow X t (newLimiter X t))"
    and request: "rq_method r = ''POST''" "rq_path r = ''/api/auth/login''"
      "bd_login (rq_body r) = Inr \<lparr>lr_username = adminName (x_cfg X), lr_password = adminPassword (x_cfg X) (sa_password A)\<rparr>"
  shows "rs_status (fst (serve spa (X1\<lparr>x_now := t\<rparr>) r s)) = 200
     \<and> gives_session (fst (serve spa (X1\<lparr>x_now := t\<rparr>) r s)) tok
     \<and> (\<forall>q t'. rq_cookie q sessionCookie = Some tok \<longrightarrow> rq_header q ''X-Requested-With'' = ''whatsnewdock''
          \<longrightarrow> t' < cl_expiresAt (sessionClaims (X1\<lparr>x_now := t\<rparr>) (wc_auth (x_cfg X)) (adminName (x_cfg X)) RoleAdmin ''local'')
          \<longrightarrow> granted (X1\<lparr>x_now := t'\<rparr>) q = Admin)"
proof -
  let ?X = "X1\<lparr>x_now := t\<rparr>" and ?n = "adminName (x_cfg X)" and ?pw = "adminPassword (x_cfg X) (sa_password A)"
  obtain u secret where s: "X1 = X\<lparr>x_secret := secret, x_docker := localDocker X\<rparr>" "users (ap_db s) = [u]"
    "us_username u = ?n" "us_role u = RoleAdmin" "bcryptHash X (x_salt X) ?pw = Inr (us_hash u)"
    "ap_auth s = wc_auth (x_cfg X)" "ap_limiter s = newLoginLimiter (x_now X)"
    using buildServer_first [OF start] by blast
  have ok: "fst (allow ?X ip (ap_limiter s))" for ip
    using limiter by (cases "limiterAllow X t (newLimiter X t)") (simp add: s(1,7) allow_def newLoginLimiter_def Let_def)
  let ?q = "r\<lparr>rq_claims := None, rq_id := []\<rparr>"
  obtain ip lim where al: "(case remoteIP ?X ?q of None \<Rightarrow> ''<nil>'' | Some ip \<Rightarrow> ip) = ip" "allow ?X ip (ap_limiter s) = (True, lim)"
    using ok by (metis (full_types) prod.collapse)
  have auth: "AuthenticateLocal ?X (ap_db s) ?n ?pw = Inr u"
    using bcrypt [OF s(5)] by (simp add: AuthenticateLocal_def GetUserByUsername_def s(1-3))
  have login: "\<exists>s'. handleLogin ?X ?q s = (setSessionCookie ?X ?q (s\<lparr>ap_limiter := lim\<rparr>) tok
      (writeJSON 200 (JObj [(''username'', JStr ?n), (''role'', JStr RoleAdmin)])), s')"
    using mode jwt(2) request(3) auth by (simp add: handleLogin_def s(3,4,6) al Let_def)
  then obtain s' where login: "handleLogin ?X ?q s = (setSessionCookie ?X ?q (s\<lparr>ap_limiter := lim\<rparr>) tok
      (writeJSON 200 (JObj [(''username'', JStr ?n), (''role'', JStr RoleAdmin)])), s')" ..
  have "dispatch routes spa ?X r s = handleLogin ?X ?q s"
    using request(1,2) by (simp add: dispatch_def guarded_def login_found Let_def)
  then have served: "fst (serve spa ?X r s) = securityHeaders (fst (handleLogin ?X ?q s))"
    by (cases "handleLogin ?X ?q s") (simp add: serve_def)
  have admin: "granted (X1\<lparr>x_now := t'\<rparr>) q = Admin"
    if "rq_cookie q sessionCookie = Some tok" "rq_header q ''X-Requested-With'' = ''whatsnewdock''"
      "t' < cl_expiresAt (sessionClaims ?X (wc_auth (x_cfg X)) ?n RoleAdmin ''local'')" for q t'
  proof -
    from session_roundtrip [OF jwt(1,2)] that(3)
    have "ValidateSession (X1\<lparr>x_now := t'\<rparr>) tok = Inr (sessionClaims ?X (wc_auth (x_cfg X)) ?n RoleAdmin ''local'')" by simp
    then show ?thesis using that(1,2) jwt(3) by (simp add: granted_def sessionOf_def sessionClaims_def)
  qed
  show ?thesis
    using admin jwt(3) by (simp add: served login) (simp add: securityHeaders_def setSessionCookie_def setCookie_def writeJSON_def)
qed

text \<open>The demonstration server on an empty file, its administrator named in the configuration.\<close>

definition firstCtx :: "(nat, nat) ctx" where
  "firstCtx = demoCtx\<lparr>x_cfg := Default\<lparr>wc_initialAdminUser := ''ann'', wc_docker := (wc_docker Default)\<lparr>dc_host := []\<rparr>\<rparr>\<rparr>"

definition firstStart :: startAnswers where
  "firstStart = \<lparr>sa_mkdir = None, sa_open = Inr empty_db, sa_random = Inr ''key'', sa_password = ''correct horse'',
     sa_uid = 0, sa_gid = 0\<rparr>"

lemma firstStart_runs:
  "\<exists>s. buildServer firstCtx firstStart = Inr (firstCtx\<lparr>x_secret := ''key'', x_docker := None\<rparr>, s)"
proof -
  let ?X = "firstCtx\<lparr>x_secret := ''key'', x_docker := None\<rparr>"
  have ld: "localDocker firstCtx = None" by (simp add: localDocker_def firstCtx_def)
  have ls: "loadSecret (wc_auth (x_cfg firstCtx)) (Inr ''key'') empty_db
      = Inr (''key'', empty_db\<lparr>settings := put_setting ''session_secret'' ''key'' (settings empty_db)\<rparr>)"
    by (simp add: loadSecret_def firstCtx_def Default_def GetSetting_def SetSetting_def empty_db_def)
  have bs: "\<exists>s. bootstrap ?X pw (initialApp firstCtx d) = Inr s" if "users d = []" for pw d
    using that by (simp add: bootstrap_def ensureInitialAdmin_def CountUsers_def CreateUser_def unique_on_def Let_def firstCtx_def demoCtx_def)
  from bs [of "empty_db\<lparr>settings := put_setting ''session_secret'' ''key'' (settings empty_db)\<rparr>" "''correct horse''"]
  obtain s where "bootstrap ?X ''correct horse'' (initialApp firstCtx
      (empty_db\<lparr>settings := put_setting ''session_secret'' ''key'' (settings empty_db)\<rparr>)) = Inr s" by (auto simp: empty_db_def)
  then show ?thesis by (simp add: buildServer_def firstStart_def ls ld Let_def)
qed

theorem first_start_admits_admin_witness:
  "\<exists>X1 s. buildServer firstCtx firstStart = Inr (X1, s)
     \<and> gives_session (fst (serve demoSpa (X1\<lparr>x_now := demoNow\<rparr>) loginOK s)) ''ann-token''
     \<and> granted (X1\<lparr>x_now := demoNow\<rparr>) (asAdmin (demoRequest ''DELETE'' ''/api/v1/users/u2'')) = Admin"
proof -
  let ?X = "firstCtx\<lparr>x_secret := ''key'', x_docker := None\<rparr>"
  obtain s where s: "buildServer firstCtx firstStart = Inr (?X, s)" using firstStart_runs by blast
  have o: "sa_open firstStart = Inr empty_db" "users empty_db = []" "storedAt settingsAuthKey empty_db = []"
    by (simp_all add: firstStart_def empty_db_def storedAt_def orEmpty_def)
  have m: "at_mode (wc_auth (x_cfg firstCtx)) \<noteq> ''oidc''" by (simp add: firstCtx_def Default_def)
  have b: "bcryptOK firstCtx h pw" if "bcryptHash firstCtx salt pw = Inr h" for salt pw h
    using that by (simp add: firstCtx_def demoCtx_def)
  have jl: "jwt_laws (?X\<lparr>x_now := demoNow\<rparr>)"
    by (auto simp: jwt_laws_def firstCtx_def demoCtx_def demoSign_def demoVerify_def demoClaims_def demoOIDC_def split: if_splits)
  have sc: "sessionClaims (?X\<lparr>x_now := demoNow\<rparr>) (wc_auth (x_cfg firstCtx)) (adminName (x_cfg firstCtx)) RoleAdmin ''local'' = demoClaims"
    by (simp add: sessionClaims_def adminName_def firstCtx_def Default_def numericDate_def demoNow_def demoClaims_def)
  have js: "IssueSession (?X\<lparr>x_now := demoNow\<rparr>) (wc_auth (x_cfg firstCtx)) (adminName (x_cfg firstCtx)) RoleAdmin ''local'' = Inr ''ann-token''"
    unfolding IssueSession_eq sc by (simp add: firstCtx_def demoCtx_def demoSign_def)
  have lim: "fst (limiterAllow firstCtx demoNow (newLimiter firstCtx demoNow))" by (simp add: firstCtx_def demoCtx_def)
  have r: "rq_method loginOK = ''POST''" "rq_path loginOK = ''/api/auth/login''"
    "bd_login (rq_body loginOK) = Inr \<lparr>lr_username = adminName (x_cfg firstCtx), lr_password = adminPassword (x_cfg firstCtx) (sa_password firstStart)\<rparr>"
    by (simp_all add: loginOK_def demoRequest_def adminName_def adminPassword_def firstCtx_def firstStart_def Default_def)
  note login = first_start_admits_admin [OF s o m b jl js _ lim r, where spa = demoSpa, unfolded sc]
  have q: "rq_cookie (asAdmin (demoRequest ''DELETE'' ''/api/v1/users/u2'')) sessionCookie = Some ''ann-token''"
    "rq_header (asAdmin (demoRequest ''DELETE'' ''/api/v1/users/u2'')) ''X-Requested-With'' = ''whatsnewdock''"
    by (simp_all add: asAdmin_def demoRequest_def)
  have "demoNow < cl_expiresAt demoClaims" by (simp add: demoClaims_def demoNow_def)
  with login q have "gives_session (fst (serve demoSpa (?X\<lparr>x_now := demoNow\<rparr>) loginOK s)) ''ann-token''"
    "granted (?X\<lparr>x_now := demoNow\<rparr>) (asAdmin (demoRequest ''DELETE'' ''/api/v1/users/u2'')) = Admin" by simp_all
  with s show ?thesis by blast
qed

end
