(* ===== verification/LoginRate.thy ===== *)
theory LoginRate
  imports AuthProps
begin

text \<open>
  How fast passwords can be guessed: \<open>loginLimiter\<close> of \<open>internal/server/ratelimit.go\<close> under the whole API.
  The token bucket is the library's; the code asks it for one attempt per two seconds with a burst of five
  and drops the table of all buckets every ten minutes.
\<close>

section \<open>What the library promises of a bucket\<close>

text \<open>\<open>credit\<close> is the time of refilling that a bucket holds: never more than the burst of five attempts at two
  seconds each, it refills no faster than time passes, and an attempt that is allowed costs its two seconds.\<close>

definition bucket_law :: "('c, 'l) ctx \<Rightarrow> ('l \<Rightarrow> gotime \<Rightarrow> int) \<Rightarrow> bool" where
  "bucket_law X credit \<longleftrightarrow>
     (\<forall>l t. 0 \<le> credit l t \<and> credit l t \<le> 10 * second)
   \<and> (\<forall>l t t'. t \<le> t' \<longrightarrow> credit l t' \<le> credit l t + (t' - t))
   \<and> (\<forall>l t. credit (snd (limiterAllow X t l)) t \<le> credit l t - (if fst (limiterAllow X t l) then 2 * second else 0))"

section \<open>Only the login touches the limiter\<close>

definition keeps_limiter :: "('c, 'l) handler \<Rightarrow> bool" where
  "keeps_limiter h \<longleftrightarrow> (\<forall>X r s. ap_limiter (snd (h X r s)) = ap_limiter s)"

lemma limiter_steps [simp]:
  "ap_limiter (addEvent X e s) = ap_limiter s" "ap_limiter (setJob X i j s) = ap_limiter s" "ap_limiter (spawn t s) = ap_limiter s"
  "ap_limiter (finishJob X a b c m s) = ap_limiter s"
  by (simp_all add: addEvent_def setJob_def spawn_def finishJob_def split: sum.split)

lemma limiter_parts:
  "ensureOIDC X s = (a, s') \<Longrightarrow> ap_limiter s' = ap_limiter s"
  "executorFor X srv s = (q, s') \<Longrightarrow> ap_limiter s' = ap_limiter s"
  "patchRole i role s = (b, s') \<Longrightarrow> ap_limiter s' = ap_limiter s"
  "patchPassword X i pw s = (b, s') \<Longrightarrow> ap_limiter s' = ap_limiter s"
  "applyCount req s = (m, s') \<Longrightarrow> ap_limiter s' = ap_limiter s"
  "applyInterval req s = (m, s') \<Longrightarrow> ap_limiter s' = ap_limiter s"
  "applySelfUpdate req s = (m, s') \<Longrightarrow> ap_limiter s' = ap_limiter s"
  "ap_limiter (applyLists req s) = ap_limiter s" "ap_limiter (applyTokens req s) = ap_limiter s"
  by (auto simp: ensureOIDC_def executorFor_def patchRole_def patchPassword_def applyCount_def applyInterval_def applySelfUpdate_def
      applyLists_def applyTokens_def setGitHubToken_def setGitLabToken_def Let_def split: option.splits if_splits sum.splits prod.splits)

lemma limiter_oidc:
  "OIDCAuthURL X st s = (a, s') \<Longrightarrow> ap_limiter s' = ap_limiter s" "ExchangeOIDC X c s = (b, s') \<Longrightarrow> ap_limiter s' = ap_limiter s"
  by (auto simp: OIDCAuthURL_def ExchangeOIDC_def split: prod.splits sum.splits dest: limiter_parts(1))

lemma keeps_limiter_auth [simp]:
  "keeps_limiter handleLogout" "keeps_limiter handleMe" "keeps_limiter handleAuthConfig" "keeps_limiter handleOIDCURL"
  "keeps_limiter handleOIDCCallback"
  by (auto simp: keeps_limiter_def handleLogout_def handleMe_def handleAuthConfig_def handleOIDCURL_def handleOIDCCallback_def Let_def
      dest: limiter_oidc split: prod.splits sum.splits option.splits)

lemma keeps_limiter_reads [simp]:
  "keeps_limiter handleOverview" "keeps_limiter handleAbout" "keeps_limiter handleListServers" "keeps_limiter handleGetServer"
  "keeps_limiter handleListStacks" "keeps_limiter handleListContainers" "keeps_limiter handleGetContainer"
  "keeps_limiter handleContainerReleases" "keeps_limiter handleUpdateStatus" "keeps_limiter handleListUpdates"
  "keeps_limiter handleCheckStatus" "keeps_limiter handleSelfUpdate" "keeps_limiter handleSelfUpdateRun" "keeps_limiter handleListEvents"
  "keeps_limiter handleGetSettings" "keeps_limiter handleGetAuthSettings" "keeps_limiter handleListUsers"
  "keeps_limiter handleTestEndpoint" "keeps_limiter handleTriggerCheck" "keeps_limiter handleAgentCommands"
  by (simp_all add: keeps_limiter_def handleOverview_def handleAbout_def handleListServers_def handleGetServer_def
      handleListStacks_def handleListContainers_def handleGetContainer_def handleContainerReleases_def
      handleUpdateStatus_def handleListUpdates_def handleCheckStatus_def handleSelfUpdate_def handleSelfUpdateRun_def
      handleListEvents_def handleGetSettings_def handleGetAuthSettings_def handleListUsers_def handleTestEndpoint_def
      handleTriggerCheck_def handleAgentCommands_def Let_def)

lemma keeps_limiter_hosts [simp]:
  "keeps_limiter handleCreateServer" "keeps_limiter handleUpdateServer" "keeps_limiter handleDeleteServer" "keeps_limiter handleSetPin"
  "keeps_limiter handleAgentReport" "keeps_limiter handleAgentCommandResult" "keeps_limiter handleRequestUpdate"
  "keeps_limiter handleApplySelfUpdate"
  by (auto simp: keeps_limiter_def handleCreateServer_def createDirect_def createAgent_def handleUpdateServer_def handleDeleteServer_def
      handleSetPin_def handleAgentReport_def handleAgentCommandResult_def handleRequestUpdate_def queueLocal_def queueAgent_def
      handleApplySelfUpdate_def Let_def dest!: limiter_parts(2) split: prod.splits sum.splits option.splits)

lemma keeps_limiter_admin [simp]:
  "keeps_limiter handleCheckSelfUpdate" "keeps_limiter handlePutAuthSettings" "keeps_limiter handleCreateUser"
  "keeps_limiter handleUpdateUser" "keeps_limiter handleDeleteUser"
  by (auto simp: keeps_limiter_def handleCheckSelfUpdate_def selfCheck_def handlePutAuthSettings_def InvalidateOIDC_def
      handleCreateUser_def handleUpdateUser_def handleDeleteUser_def Let_def dest!: limiter_parts(3,4)
      split: prod.splits sum.splits option.splits)

lemma keeps_limiter_settings [simp]: "keeps_limiter handlePutSettings"
  by (auto simp: keeps_limiter_def handlePutSettings_def saveRuntimeSettings_def and_then_def Let_def limiter_parts(8,9)
      dest!: limiter_parts(5-7) split: prod.splits sum.splits option.splits)

text \<open>Which requests are attempts, and whom they are charged to.\<close>

definition toLogin :: "httpRequest \<Rightarrow> bool" where
  "toLogin r \<longleftrightarrow> rq_method r = ''POST'' \<and> matchSegs [Lit ''api'', Lit ''auth'', Lit ''login''] (pathSegs (rq_path r)) \<noteq> None"

definition loginIP :: "('c, 'l) ctx \<Rightarrow> httpRequest \<Rightarrow> string" where
  "loginIP X r = (case remoteIP X r of None \<Rightarrow> ''<nil>'' | Some ip \<Rightarrow> ip)"

definition bucketOf :: "string \<Rightarrow> string" where
  "bucketOf ip = (if ip = [] then ''unknown'' else ip)"

lemma routes_limiter: "(m, p, a, h) \<in> set routes \<Longrightarrow>
    keeps_limiter h \<or> m = ''POST'' \<and> p = [Lit ''api'', Lit ''auth'', Lit ''login'']"
  unfolding routes_def by (simp only: list.set insert_iff empty_iff prod.inject, elim disjE conjE FalseE; simp)

lemma findRoute_matched: "findRoute r rts = Some (i, a, h) \<Longrightarrow> \<exists>m p. (m, p, a, h) \<in> set rts \<and> matchRoute r (m, p, a, h) \<noteq> None"
proof -
  assume f: "findRoute r rts = Some (i, a, h)"
  then obtain rt where rt: "find (\<lambda>rt. matchRoute r rt \<noteq> None) rts = Some rt" "snd (snd rt) = (a, h)"
    by (auto simp: findRoute_def split: option.splits)
  from rt(1) have "rt \<in> set rts" "matchRoute r rt \<noteq> None" by (auto simp: find_Some_iff)
  with rt(2) show ?thesis by (metis prod.collapse)
qed

lemma toLogin_route: "toLogin r \<Longrightarrow> \<exists>i. findRoute r routes = Some (i, Anyone, handleLogin)"
  by (auto simp: toLogin_def findRoute_def matchRoute_def routes_def methodMatches_def)

lemma other_route: "findRoute r routes = Some (i, a, h) \<Longrightarrow> \<not> toLogin r \<Longrightarrow> keeps_limiter h"
proof -
  assume f: "findRoute r routes = Some (i, a, h)" and n: "\<not> toLogin r"
  from findRoute_matched [OF f] obtain m p where m: "(m, p, a, h) \<in> set routes" "matchRoute r (m, p, a, h) \<noteq> None" by blast
  from m(2) n have "\<not> (m = ''POST'' \<and> p = [Lit ''api'', Lit ''auth'', Lit ''login''])"
    unfolding toLogin_def matchRoute_def methodMatches_def Let_def prod.case by (auto simp del: matchSegs.simps split: if_splits)
  with routes_limiter [OF m(1)] show ?thesis by argo
qed

lemma toLogin_cong [simp]: "toLogin (r\<lparr>rq_claims := c, rq_id := i\<rparr>) = toLogin r"
  by (simp add: toLogin_def)

lemma serve_other:
  fixes X :: "('c, 'l) ctx"
  assumes n: "\<not> toLogin r"
  shows "ap_limiter (snd (serve spa X r s)) = ap_limiter s"
proof -
  let ?q = "r\<lparr>rq_claims := None, rq_id := []\<rparr>"
  show ?thesis
  proof (cases "findRoute ?q (routes :: ('c, 'l) route list)")
    case None
    then show ?thesis by (simp add: serve_def dispatch_def Let_def)
  next
    case (Some f)
    obtain i a h where f: "f = (i, a, h)" by (cases f)
    have k: "keeps_limiter h" using other_route [of ?q i a h] Some n by (simp add: f)
    have "serve spa X r s = (let (resp, s') = guarded a h X (r\<lparr>rq_claims := None, rq_id := i\<rparr>) s in (securityHeaders resp, s'))"
      using Some by (simp add: serve_def dispatch_def Let_def f)
    then show ?thesis using k by (simp add: guarded_by_access keeps_limiter_def split: prod.split) (metis snd_conv)
  qed
qed

lemma handleLogin_limiter:
  "ap_limiter (snd (handleLogin X r s)) = (if at_mode (ap_auth s) = ''oidc'' then ap_limiter s else snd (allow X (loginIP X r) (ap_limiter s)))"
  "at_mode (ap_auth s) \<noteq> ''oidc'' \<Longrightarrow> rs_status (fst (handleLogin X r s)) \<noteq> 429 \<longleftrightarrow> fst (allow X (loginIP X r) (ap_limiter s))"
  by (auto simp: handleLogin_def loginIP_def Let_def writeError_def writeJSON_def setSessionCookie_def setCookie_def
      split: prod.split sum.split)

lemma serve_login:
  fixes X :: "('c, 'l) ctx"
  assumes "toLogin r"
  shows "\<exists>q. loginIP X q = loginIP X r \<and> rs_status (fst (serve spa X r s)) = rs_status (fst (handleLogin X q s))
    \<and> snd (serve spa X r s) = snd (handleLogin X q s)"
proof -
  from assms obtain i
    where "findRoute (r\<lparr>rq_claims := None, rq_id := []\<rparr>) (routes :: ('c, 'l) route list) = Some (i, Anyone, handleLogin)"
    using toLogin_route toLogin_cong by blast
  then have "serve spa X r s = (let (resp, s') = handleLogin X (r\<lparr>rq_claims := None, rq_id := i\<rparr>) s in (securityHeaders resp, s'))"
    by (simp add: serve_def dispatch_def guarded_def Let_def)
  then show ?thesis
    by (intro exI [of _ "r\<lparr>rq_claims := None, rq_id := i\<rparr>"]) (simp add: loginIP_def remoteIP_def securityHeaders_def cong: option.case_cong split: prod.split)
qed

section \<open>Counting the guesses\<close>

text \<open>An attempt the limiter let through: a request to the login, charged to this bucket, that was not turned
  away with 429.\<close>

definition guess :: "(httpRequest \<Rightarrow> httpResponse) \<Rightarrow> ('c, 'l) ctx \<Rightarrow> string \<Rightarrow> httpRequest \<Rightarrow> ('c, 'l) app \<Rightarrow> bool" where
  "guess spa X key r s \<longleftrightarrow> toLogin r \<and> bucketOf (loginIP X r) = key \<and> at_mode (ap_auth s) \<noteq> ''oidc''
     \<and> rs_status (fst (serve spa X r s)) \<noteq> 429"

fun guesses :: "(httpRequest \<Rightarrow> httpResponse) \<Rightarrow> ('c, 'l) ctx \<Rightarrow> string \<Rightarrow> (gotime \<times> httpRequest) list \<Rightarrow> ('c, 'l) app \<Rightarrow> nat" where
  "guesses spa X key [] s = 0"
| "guesses spa X key ((t, r) # rest) s =
     (if guess spa (X\<lparr>x_now := t\<rparr>) key r s then 1 else 0) + guesses spa X key rest (snd (serve spa (X\<lparr>x_now := t\<rparr>) r s))"

text \<open>What a bucket has left at a time, the one that does not exist yet being full.\<close>

definition left :: "('l \<Rightarrow> gotime \<Rightarrow> int) \<Rightarrow> string \<Rightarrow> gotime \<Rightarrow> 'l loginLimiter \<Rightarrow> int" where
  "left credit key t l = (case ll_ips l key of None \<Rightarrow> 10 * second | Some b \<Rightarrow> credit b t)"

lemma allow_spends:
  assumes "bucket_law X credit" and "t \<le> x_now X" and "allow X ip l = (ok, l')"
  shows "ll_last l' = ll_last l \<and> (if ok \<and> bucketOf ip = key then 2 * second else 0) + left credit key (x_now X) l'
           \<le> left credit key t l + (x_now X - t)
    \<or> ll_last l' = x_now X \<and> 10 * minute < x_now X - ll_last l
      \<and> (if ok \<and> bucketOf ip = key then 2 * second else 0) + left credit key (x_now X) l' \<le> 10 * second"
proof -
  let ?now = "x_now X"
  have law: "credit b u \<le> 10 * second" "u \<le> u' \<Longrightarrow> credit b u' \<le> credit b u + (u' - u)"
    "limiterAllow X u b = (o1, b') \<Longrightarrow> credit b' u \<le> credit b u - (if o1 then 2 * second else 0)" for u u' b b' o1
    using assms(1) unfolding bucket_law_def by (metis fst_conv snd_conv)+
  define l1 where "l1 = (if ?now - ll_last l > 10 * minute then \<lparr>ll_ips = (\<lambda>_. None), ll_last = ?now\<rparr> else l)"
  define b where "b = (case ll_ips l1 (bucketOf ip) of None \<Rightarrow> newLimiter X ?now | Some b \<Rightarrow> b)"
  obtain o1 b' where b': "limiterAllow X ?now b = (o1, b')" by fastforce
  have l': "ok = o1" "l' = l1\<lparr>ll_ips := (ll_ips l1)(bucketOf ip \<mapsto> b')\<rparr>"
    using assms(3) b' unfolding allow_def Let_def bucketOf_def [symmetric] l1_def [symmetric] b_def [symmetric] by simp_all
  have b_left: "credit b ?now \<le> left credit (bucketOf ip) ?now l1"
    using law(1) by (simp add: b_def left_def split: option.split)
  have step: "(if ok \<and> bucketOf ip = key then 2 * second else 0) + left credit key ?now l' \<le> left credit key ?now l1"
    using law(3) [OF b'] b_left l' by (auto simp: left_def)
  have age: "left credit key ?now l \<le> left credit key t l + (?now - t)"
    using law(2) [OF assms(2)] assms(2) by (simp add: left_def split: option.split)
  show ?thesis
  proof (cases "?now - ll_last l > 10 * minute")
    case True
    then have "left credit key ?now l1 = 10 * second" "ll_last l1 = ?now" by (simp_all add: l1_def left_def)
    with True step l' show ?thesis by simp
  next
    case False
    then have "l1 = l" by (simp add: l1_def)
    with step age l' show ?thesis by simp
  qed
qed

text \<open>The books are balanced: what was guessed since \<open>t1\<close> and what is left were granted by the burst at hand, by
  time and by the bursts of the \<open>k\<close> times the table was dropped, of which all but the first waited for ten minutes.\<close>

definition balanced :: "('l \<Rightarrow> gotime \<Rightarrow> int) \<Rightarrow> string \<Rightarrow> gotime \<Rightarrow> gotime \<Rightarrow> int \<Rightarrow> 'l loginLimiter \<Rightarrow> bool" where
  "balanced credit key t1 t n l \<longleftrightarrow>
     (\<exists>k. 2 * second * n + left credit key t l \<le> 10 * second * (1 + k) + (t - t1)
        \<and> (k = 0 \<or> (k - 1) * (10 * minute) \<le> ll_last l - t1))
     \<and> ll_last l \<le> t \<and> t1 \<le> t"

lemma left_bounds: "bucket_law X credit \<Longrightarrow> 0 \<le> left credit key t l \<and> left credit key t l \<le> 10 * second"
  by (simp add: bucket_law_def left_def split: option.split)

lemma balanced_step:
  assumes law: "bucket_law X credit" and "t \<le> x_now X" and bal: "balanced credit key t1 t n (ap_limiter s)"
  shows "balanced credit key t1 (x_now X) (n + (if guess spa X key r s then 1 else 0)) (ap_limiter (snd (serve spa X r s)))"
proof -
  let ?now = "x_now X" and ?l = "ap_limiter s" and ?l' = "ap_limiter (snd (serve spa X r s))"
  let ?cost = "if guess spa X key r s then 2 * second else 0"
  have spent: "ll_last ?l' = ll_last ?l \<and> ?cost + left credit key ?now ?l' \<le> left credit key t ?l + (?now - t)
    \<or> ll_last ?l' = ?now \<and> 10 * minute < ?now - ll_last ?l \<and> ?cost + left credit key ?now ?l' \<le> 10 * second"
  proof (cases "toLogin r \<and> at_mode (ap_auth s) \<noteq> ''oidc''")
    case True
    then obtain q where q: "loginIP X q = loginIP X r" "rs_status (fst (serve spa X r s)) = rs_status (fst (handleLogin X q s))"
      "snd (serve spa X r s) = snd (handleLogin X q s)" using serve_login by blast
    obtain ok l' where a: "allow X (loginIP X r) ?l = (ok, l')" by fastforce
    from True q a have "?l' = l'" "guess spa X key r s \<longleftrightarrow> ok \<and> bucketOf (loginIP X r) = key"
      using handleLogin_limiter [where X = X and r = q and s = s] by (auto simp: guess_def)
    with allow_spends [OF law assms(2) a, of key] show ?thesis by simp
  next
    case False
    then have "\<not> guess spa X key r s" by (auto simp: guess_def)
    moreover have "?l' = ?l"
    proof (cases "toLogin r")
      case True
      with False serve_login [of r X spa s] show ?thesis by (auto simp: handleLogin_limiter)
    qed (rule serve_other)
    moreover have "left credit key ?now ?l \<le> left credit key t ?l + (?now - t)"
      using law assms(2) by (simp add: bucket_law_def left_def split: option.split)
    ultimately show ?thesis by simp
  qed
  obtain k where k: "2 * second * n + left credit key t ?l \<le> 10 * second * (1 + k) + (t - t1)"
    "k = 0 \<or> (k - 1) * (10 * minute) \<le> ll_last ?l - t1" "ll_last ?l \<le> t" "t1 \<le> t" using bal by (auto simp: balanced_def)
  have pos: "0 \<le> left credit key t ?l" using left_bounds [OF law] by blast
  from spent show ?thesis
  proof (elim disjE conjE)
    assume "ll_last ?l' = ll_last ?l" "?cost + left credit key ?now ?l' \<le> left credit key t ?l + (?now - t)"
    with k assms(2) show ?thesis unfolding balanced_def by (intro conjI exI [of _ k]) (auto simp: algebra_simps)
  next
    assume l': "ll_last ?l' = ?now" "10 * minute < ?now - ll_last ?l" "?cost + left credit key ?now ?l' \<le> 10 * second"
    have "(k + 1 - 1) * (10 * minute) \<le> ll_last ?l' - t1"
      using k(2,4) assms(2) l'(1,2) by (auto simp: algebra_simps)
    with k l' pos assms(2) show ?thesis unfolding balanced_def by (intro conjI exI [of _ "k + 1"]) (auto simp: algebra_simps)
  qed
qed

lemma balanced_run:
  assumes "bucket_law X credit" and "balanced credit key t1 t n (ap_limiter s)"
    and "sorted (t # map fst trs @ [T])"
  shows "\<exists>t' l. t' \<le> T \<and> balanced credit key t1 t' (n + int (guesses spa X key trs s)) l"
  using assms(2,3)
proof (induction trs arbitrary: t n s)
  case Nil
  then show ?case by auto
next
  case (Cons tr trs)
  obtain u r where tr: "tr = (u, r)" by fastforce
  let ?X = "X\<lparr>x_now := u\<rparr>"
  have law: "bucket_law ?X credit" using assms(1) by (simp add: bucket_law_def)
  have "balanced credit key t1 u (n + (if guess spa ?X key r s then 1 else 0)) (ap_limiter (snd (serve spa ?X r s)))"
    using balanced_step [OF law _ Cons.prems(1), of spa r] Cons.prems(2) by (simp add: tr)
  from Cons.IH [OF this] Cons.prems(2) show ?case by (simp add: tr add.assoc split: if_split_asm)
qed


text \<open>Nine attempts from one address just before the table is dropped and nine just after it.\<close>

definition bucketCtx :: "(nat, nat) ctx" where
  "bucketCtx = demoCtx\<lparr>newLimiter := (\<lambda>_. 5), limiterAllow := (\<lambda>_ n. let m = min n 5 in (m > 0, m - 1))\<rparr>"

definition agedApp :: "(nat, nat) app" where
  "agedApp = demoApp\<lparr>ap_limiter := \<lparr>ll_ips = (\<lambda>_. None)(''10.0.0.9'' \<mapsto> 5), ll_last = demoNow - 599 * second\<rparr>\<rparr>"


end
