(* ===== verification/Flags.thy ===== *)
theory Flags
  imports Startup
begin

text \<open>
  The command line: \<open>ParseFlags\<close> of \<open>internal/config/config.go\<close> over the package \<open>flag\<close> of the standard library,
  with the numbers of \<open>strconv\<close> that a flag is read with.
\<close>

section \<open>Numbers\<close>

text \<open>What \<open>strconv.ParseUint\<close> says of a text.\<close>

datatype numResult = NumOK int | NumSyntax | NumRange

definition digitOf :: "char \<Rightarrow> int option" where
  "digitOf c =
     (let n = int (of_char c) in
      if 48 \<le> n \<and> n \<le> 57 then Some (n - 48)
      else if 97 \<le> n \<and> n \<le> 122 then Some (n - 87)
      else if 65 \<le> n \<and> n \<le> 90 then Some (n - 55) else None)"

fun parseDigits :: "int \<Rightarrow> string \<Rightarrow> int \<Rightarrow> numResult" where
  "parseDigits base [] n = NumOK n"
| "parseDigits base (c # cs) n =
     (if c = CHR ''_'' then parseDigits base cs n
      else (case digitOf c of
              None \<Rightarrow> NumSyntax
            | Some d \<Rightarrow> if d \<ge> base then NumSyntax
                        else if n * base + d \<ge> 2 ^ 64 then NumRange else parseDigits base cs (n * base + d)))"

text \<open>The base of a number that names it itself, and its digits.\<close>

definition splitBase :: "string \<Rightarrow> int \<times> string" where
  "splitBase s =
     (if s = [] \<or> hd s \<noteq> CHR ''0'' then (10, s)
      else if length s \<ge> 3 \<and> s ! 1 \<in> {CHR ''b'', CHR ''B''} then (2, drop 2 s)
      else if length s \<ge> 3 \<and> s ! 1 \<in> {CHR ''o'', CHR ''O''} then (8, drop 2 s)
      else if length s \<ge> 3 \<and> s ! 1 \<in> {CHR ''x'', CHR ''X''} then (16, drop 2 s)
      else (8, drop 1 s))"

text \<open>Underscores separate digits or the base from them; what was seen last is a digit, an underscore or
  neither.\<close>

datatype seen = SeenDigit | SeenUnderscore | SeenOther

fun underscores :: "bool \<Rightarrow> seen \<Rightarrow> string \<Rightarrow> bool" where
  "underscores hex saw [] = (saw \<noteq> SeenUnderscore)"
| "underscores hex saw (c # cs) =
     (if isDigit c \<or> hex \<and> (CHR ''a'' \<le> c \<and> c \<le> CHR ''f'' \<or> CHR ''A'' \<le> c \<and> c \<le> CHR ''F'') then underscores hex SeenDigit cs
      else if c = CHR ''_'' then saw = SeenDigit \<and> underscores hex SeenUnderscore cs
      else saw \<noteq> SeenUnderscore \<and> underscores hex SeenOther cs)"

definition underscoreOK :: "string \<Rightarrow> bool" where
  "underscoreOK s =
     (if length s \<ge> 2 \<and> hd s = CHR ''0''
         \<and> s ! 1 \<in> {CHR ''b'', CHR ''B'', CHR ''o'', CHR ''O'', CHR ''x'', CHR ''X''}
      then underscores (s ! 1 \<in> {CHR ''x'', CHR ''X''}) SeenDigit (drop 2 s)
      else underscores False SeenOther s)"

definition parseUint0 :: "string \<Rightarrow> numResult" where
  "parseUint0 s =
     (if s = [] then NumSyntax
      else let (base, ds) = splitBase s in
           case parseDigits base ds 0 of
             NumOK n \<Rightarrow> if CHR ''_'' \<in> set ds \<and> \<not> underscoreOK s then NumSyntax else NumOK n
           | r \<Rightarrow> r)"

text \<open>\<open>strconv.ParseInt\<close> with base 0 at 64 bits: the value, and what package \<open>flag\<close> makes of the error.\<close>

definition parseInt0 :: "string \<Rightarrow> int \<times> string option" where
  "parseInt0 s =
     (let neg = (s \<noteq> [] \<and> hd s = CHR ''-'');
          u = (if s \<noteq> [] \<and> hd s \<in> {CHR ''-'', CHR ''+''} then tl s else s);
          range = Some ''value out of range''
      in case parseUint0 u of
           NumSyntax \<Rightarrow> (0, Some ''parse error'')
         | NumRange \<Rightarrow> (if neg then - (2 ^ 63) else 2 ^ 63 - 1, range)
         | NumOK n \<Rightarrow> if \<not> neg \<and> n \<ge> 2 ^ 63 then (2 ^ 63 - 1, range)
                      else if neg \<and> n > 2 ^ 63 then (- (2 ^ 63), range)
                      else (if neg then - n else n, None))"

section \<open>Flags\<close>

text \<open>An argument: one that ends the flags, because it does not begin with a dash or is two dashes alone; one with
  bad syntax; or a flag, its name and the value after an equals sign.\<close>

datatype argForm = NoFlag | BadFlag | FlagArg string "string option"

definition splitFlag :: "string \<Rightarrow> argForm" where
  "splitFlag s =
     (if length s < 2 \<or> hd s \<noteq> CHR ''-'' then NoFlag
      else if s = ''--'' then NoFlag
      else
        let name = (if s ! 1 = CHR ''-'' then drop 2 s else drop 1 s) in
        if name = [] \<or> hd name = CHR ''-'' \<or> hd name = CHR ''='' then BadFlag
        else FlagArg (takeWhile (\<lambda>c. c \<noteq> CHR ''='') name)
               (if CHR ''='' \<in> set name then Some (tl (dropWhile (\<lambda>c. c \<noteq> CHR ''='') name)) else None))"

text \<open>What \<open>flag.ContinueOnError\<close> writes to the standard error before it gives up: a line for the error and the
  usage, or the usage alone when help is asked for.\<close>

definition line :: "string \<Rightarrow> string" where
  "line s = s @ [CHR 0x0A]"

definition usage :: string where
  "usage = line ''Usage of whatsnewdock:'' @ concat (map (\<lambda>(flag, help). line (''  -'' @ flag) @ line (''    '' @ [CHR 0x09] @ help))
     [(''config string'', ''path to a YAML config file''), (''data-dir string'', ''data directory''),
      (''host string'', ''listen address''), (''mode string'', ''operating mode: server|agent''),
      (''port int'', ''listen port''), (''version'', ''print version and exit'')])"

definition failed :: "string \<Rightarrow> string" where
  "failed m = line m @ usage"

text \<open>The value of a flag that needs one, and the arguments behind it.\<close>

definition valueOf :: "string option \<Rightarrow> string list \<Rightarrow> (string \<times> string list) option" where
  "valueOf v args =
     (case v of Some x \<Rightarrow> Some (x, args)
      | None \<Rightarrow> (case args of [] \<Rightarrow> None | x # rest \<Rightarrow> Some (x, rest)))"

definition noFlags :: flags where
  "noFlags = \<lparr>fl_configPath = [], fl_mode = [], fl_host = [], fl_port = 0, fl_dataDir = [], fl_version = False\<rparr>"

definition textFlag :: "string \<Rightarrow> (string \<Rightarrow> flags \<Rightarrow> flags) option" where
  "textFlag name =
     (if name = ''config'' then Some (\<lambda>v f. f\<lparr>fl_configPath := v\<rparr>)
      else if name = ''mode'' then Some (\<lambda>v f. f\<lparr>fl_mode := v\<rparr>)
      else if name = ''host'' then Some (\<lambda>v f. f\<lparr>fl_host := v\<rparr>)
      else if name = ''data-dir'' then Some (\<lambda>v f. f\<lparr>fl_dataDir := v\<rparr>)
      else None)"

lemma valueOf_length: "valueOf v args = Some (x, rest) \<Longrightarrow> length rest \<le> length args"
  by (auto simp: valueOf_def split: option.splits list.splits)

text \<open>\<open>FlagSet.Parse\<close> on the six flags, with what it writes to the standard error.  It stops at the first argument that
  is no flag or no flag of the program, and at a value that cannot be read, which leaves what \<open>strconv\<close> returned
  in the flag.  \<open>Q\<close> is \<open>strconv.Quote\<close>.\<close>

function parseArgs :: "(string \<Rightarrow> string) \<Rightarrow> string list \<Rightarrow> flags \<Rightarrow> flags \<times> string" where
  "parseArgs Q [] f = (f, [])"
| "parseArgs Q (s # args) f =
     (case splitFlag s of
        NoFlag \<Rightarrow> (f, [])
      | BadFlag \<Rightarrow> (f, failed (''bad flag syntax: '' @ s))
      | FlagArg name v \<Rightarrow>
          (case textFlag name of
             Some put \<Rightarrow>
               (case valueOf v args of
                  None \<Rightarrow> (f, failed (''flag needs an argument: -'' @ name))
                | Some (x, rest) \<Rightarrow> parseArgs Q rest (put x f))
           | None \<Rightarrow>
               if name = ''port''
               then (case valueOf v args of
                       None \<Rightarrow> (f, failed ''flag needs an argument: -port'')
                     | Some (x, rest) \<Rightarrow>
                         let f' = f\<lparr>fl_port := fst (parseInt0 x)\<rparr>
                         in (case snd (parseInt0 x) of
                               Some e \<Rightarrow> (f', failed (''invalid value '' @ Q x @ '' for flag -port: '' @ e))
                             | None \<Rightarrow> parseArgs Q rest f'))
               else if name = ''version''
               then (case parseBool (case v of None \<Rightarrow> ''true'' | Some x \<Rightarrow> x) of
                       None \<Rightarrow> (f\<lparr>fl_version := False\<rparr>,
                                failed (''invalid boolean value '' @ Q (the v) @ '' for -version: parse error''))
                     | Some b \<Rightarrow> parseArgs Q args (f\<lparr>fl_version := b\<rparr>))
               else if name = ''help'' \<or> name = ''h'' then (f, usage)
               else (f, failed (''flag provided but not defined: -'' @ name))))"
  by pat_completeness auto
termination
  by (relation "measure (\<lambda>(_, args, _). length args)") (auto dest: valueOf_length)

definition ParseFlags :: "(string \<Rightarrow> string) \<Rightarrow> string list \<Rightarrow> flags \<times> string" where
  "ParseFlags Q args = parseArgs Q args noFlags"

text \<open>The start of \<open>main\<close>: the flags and what was written about them, the configuration they lead to, the mode
  that runs.  The error of \<open>Parse\<close> is dropped: the program goes on with the flags that were read.\<close>

definition mainArgs ::
  "(string \<Rightarrow> string) \<Rightarrow> files \<Rightarrow> environ \<Rightarrow> string list \<Rightarrow> (wndConfig \<Rightarrow> 'w \<Rightarrow> err option \<times> 'w)
     \<Rightarrow> (wndConfig \<Rightarrow> 'w \<Rightarrow> err option \<times> 'w) \<Rightarrow> (wndConfig \<Rightarrow> 'w \<Rightarrow> err option \<times> 'w) \<Rightarrow> 'w \<Rightarrow> string \<times> int \<times> 'w" where
  "mainArgs Q F E args helper runAgent runServer w =
     (let (f, stderr) = ParseFlags Q args
      in (stderr, mainProgram (fl_version f) (Load F E (Some f)) helper runAgent runServer w))"

section \<open>What a command line means\<close>

text \<open>One setting on a command line, with one or two dashes; a value follows an equals sign or is an
  argument of its own, whatever it begins with.\<close>

datatype setting = SetText bool string string bool | SetPort bool string bool | SetVersion bool "string option"

definition dashes :: "bool \<Rightarrow> string" where
  "dashes two = (if two then ''--'' else ''-'')"

definition written :: "bool \<Rightarrow> string \<Rightarrow> string \<Rightarrow> bool \<Rightarrow> string list" where
  "written two name v inline = (if inline then [dashes two @ name @ ''='' @ v] else [dashes two @ name, v])"

primrec render :: "setting \<Rightarrow> string list" where
  "render (SetText two name v inline) = written two name v inline"
| "render (SetPort two v inline) = written two ''port'' v inline"
| "render (SetVersion two v) = [dashes two @ ''version'' @ (case v of None \<Rightarrow> [] | Some x \<Rightarrow> ''='' @ x)]"

definition textNames :: "string list" where
  "textNames = [''config'', ''mode'', ''host'', ''data-dir'']"

primrec readable :: "setting \<Rightarrow> bool" where
  "readable (SetText two name v inline) \<longleftrightarrow> name \<in> set textNames"
| "readable (SetPort two v inline) \<longleftrightarrow> snd (parseInt0 v) = None"
| "readable (SetVersion two v) \<longleftrightarrow> (case v of None \<Rightarrow> True | Some x \<Rightarrow> parseBool x \<noteq> None)"

primrec meaning :: "setting \<Rightarrow> flags \<Rightarrow> flags" where
  "meaning (SetText two name v inline) f =
     (if name = ''config'' then f\<lparr>fl_configPath := v\<rparr> else if name = ''mode'' then f\<lparr>fl_mode := v\<rparr>
      else if name = ''host'' then f\<lparr>fl_host := v\<rparr> else f\<lparr>fl_dataDir := v\<rparr>)"
| "meaning (SetPort two v inline) f = f\<lparr>fl_port := fst (parseInt0 v)\<rparr>"
| "meaning (SetVersion two v) f = f\<lparr>fl_version := (case v of None \<Rightarrow> True | Some x \<Rightarrow> the (parseBool x))\<rparr>"

text \<open>Where reading ends: at an argument that is no flag, or none of the program's; and what is said about it.\<close>

definition unknownArg :: "string \<Rightarrow> bool" where
  "unknownArg s \<longleftrightarrow> (case splitFlag s of FlagArg name _ \<Rightarrow> name \<notin> set (''port'' # ''version'' # textNames) | _ \<Rightarrow> True)"

definition said :: "string list \<Rightarrow> string" where
  "said rest = (case rest of [] \<Rightarrow> [] | s # _ \<Rightarrow>
     (case splitFlag s of
        NoFlag \<Rightarrow> []
      | BadFlag \<Rightarrow> failed (''bad flag syntax: '' @ s)
      | FlagArg name _ \<Rightarrow> if name \<in> {''help'', ''h''} then usage else failed (''flag provided but not defined: -'' @ name)))"

text \<open>A name a flag can have: nothing in it ends it.\<close>

definition plainName :: "string \<Rightarrow> bool" where
  "plainName n \<longleftrightarrow> n \<noteq> [] \<and> hd n \<noteq> CHR ''-'' \<and> CHR ''='' \<notin> set n"

lemma splitFlag_name:
  assumes "plainName n"
  shows "splitFlag (dashes two @ n) = FlagArg n None" "splitFlag (dashes two @ n @ ''='' @ v) = FlagArg n (Some v)"
proof -
  obtain c cs where n: "n = c # cs" "c \<noteq> CHR ''-''" "CHR ''='' \<notin> set n" using assms by (cases n) (auto simp: plainName_def)
  have tw: "takeWhile (\<lambda>c. c \<noteq> CHR ''='') n = n" "takeWhile (\<lambda>c. c \<noteq> CHR ''='') (n @ CHR ''='' # v) = n"
    "dropWhile (\<lambda>c. c \<noteq> CHR ''='') (n @ CHR ''='' # v) = CHR ''='' # v"
    using n(3) by (auto simp: takeWhile_eq_all_conv takeWhile_append dropWhile_append)
  show "splitFlag (dashes two @ n) = FlagArg n None" "splitFlag (dashes two @ n @ ''='' @ v) = FlagArg n (Some v)"
    using tw n by (auto simp: splitFlag_def dashes_def Let_def)
qed

lemma textNames_plain: "n \<in> set textNames \<Longrightarrow> plainName n"
  by (auto simp: textNames_def plainName_def)

lemma textFlag_meaning:
  "n \<in> set textNames \<Longrightarrow> \<exists>put. textFlag n = Some put \<and> (\<forall>two v inline f. put v f = meaning (SetText two n v inline) f)"
  "n \<notin> set textNames \<Longrightarrow> textFlag n = None"
  by (auto simp: textFlag_def textNames_def)

lemma plain_others: "plainName ''port''" "plainName ''version''" "textFlag ''port'' = None" "textFlag ''version'' = None"
  by (simp_all add: plainName_def textFlag_def)

lemma valueOf_simps [simp]:
  "valueOf (Some x) args = Some (x, args)" "valueOf None (x # rest) = Some (x, rest)"
  by (simp_all add: valueOf_def)

text \<open>One setting is read as what it means.\<close>

lemma parseArgs_setting:
  assumes "readable i"
  shows "parseArgs Q (render i @ rest) f = parseArgs Q rest (meaning i f)"
proof (cases i)
  case (SetText two n v inline)
  with assms have n: "n \<in> set textNames" by simp
  then obtain put where "textFlag n = Some put" "put v f = meaning i f" using textFlag_meaning(1) SetText by blast
  with SetText splitFlag_name [OF textNames_plain [OF n]] show ?thesis by (auto simp: written_def simp del: meaning.simps)
next
  case (SetPort two v inline)
  with assms splitFlag_name(1) [OF plain_others(1), of two] splitFlag_name(2) [OF plain_others(1), of two v] show ?thesis
    by (auto simp: written_def plain_others Let_def)
next
  case (SetVersion two v)
  have "parseBool ''true'' = Some True" by (simp add: parseBool_def)
  with SetVersion assms splitFlag_name(1) [OF plain_others(2), of two] splitFlag_name(2) [OF plain_others(2), of two "the v"] show ?thesis
    by (cases v) (auto simp: plain_others Let_def)
qed

lemma parseArgs_unknown:
  assumes "unknownArg s"
  shows "parseArgs Q (s # rest) f = (f, said (s # rest))"
proof (cases "splitFlag s")
  case (FlagArg name v)
  with assms have n: "name \<notin> set textNames" "name \<noteq> ''port''" "name \<noteq> ''version''" by (simp_all add: unknownArg_def)
  from textFlag_meaning(2) [OF n(1)] show ?thesis
    unfolding parseArgs.simps said_def list.case FlagArg argForm.case by (simp add: n(2,3) del: parseArgs.simps)
qed (simp_all add: said_def)

lemma parseArgs_settings:
  "\<forall>i\<in>set items. readable i \<Longrightarrow> parseArgs Q (concat (map render items) @ rest) f = parseArgs Q rest (fold meaning items f)"
  by (induction items arbitrary: f) (simp_all add: parseArgs_setting del: parseArgs.simps)

text \<open>C33: settings whose values can be read mean on the command line, from left to right, later ones over earlier ones,
  in whichever of the forms each is written, up to the first argument that is no flag of the program.  That one and
  everything behind it set nothing: a plain argument is passed over in silence, the request for help brings the
  usage, and a flag that is malformed or does not exist is complained of on the standard error, after which the program goes on
  with the settings before it.\<close>

theorem flags_mean_settings:
  assumes "\<forall>i\<in>set items. readable i" and "rest = [] \<or> unknownArg (hd rest)"
  shows "ParseFlags Q (concat (map render items) @ rest) = (fold meaning items noFlags, said rest)"
  unfolding ParseFlags_def parseArgs_settings [OF assms(1)]
  using assms(2) by (cases rest) (simp_all add: parseArgs_unknown said_def [of "[]"] del: parseArgs.simps(2))

text \<open>A flag of another version of the program makes the agent start as a server.\<close>

theorem flags_mean_settings_witness:
  "\<forall>Q. ParseFlags Q [''-port=0x1F_90'', ''--host'', ''127.0.0.1'', ''--verbose'', ''--mode'', ''agent'']
    = (noFlags\<lparr>fl_host := ''127.0.0.1'', fl_port := 8080\<rparr>, failed ''flag provided but not defined: -verbose'')"
proof
  fix Q
  have n: "parseInt0 ''0x1F_90'' = (8080, None)" by code_simp
  have u: "unknownArg ''--verbose''" by (simp add: unknownArg_def splitFlag_def textNames_def)
  have m: "said [''--verbose'', ''--mode'', ''agent''] = failed ''flag provided but not defined: -verbose''"
    by (simp add: said_def splitFlag_def)
  from flags_mean_settings [of "[SetPort False ''0x1F_90'' True, SetText True ''host'' ''127.0.0.1'' False]"
      "[''--verbose'', ''--mode'', ''agent'']" Q] n u m
  show "ParseFlags Q [''-port=0x1F_90'', ''--host'', ''127.0.0.1'', ''--verbose'', ''--mode'', ''agent'']
    = (noFlags\<lparr>fl_host := ''127.0.0.1'', fl_port := 8080\<rparr>, failed ''flag provided but not defined: -verbose'')"
    by (simp add: written_def dashes_def noFlags_def textNames_def)
qed

end
