(* ===== verification/ResponseProps.thy ===== *)
theory ResponseProps
  imports AccessProps
begin

text \<open>
  The shape of every answer of the API: \<open>writeJSON\<close>, \<open>writeError\<close> and \<open>http.Redirect\<close> are the
  only ways in which the handlers answer, the error body goes with the error statuses, and the cookies of
  a session are out of reach of scripts.
\<close>

definition errorStatuses :: "int list" where
  "errorStatuses = [400, 401, 403, 404, 409, 429, 500, 502, 503]"

text \<open>Over TLS a cookie is never sent back in the clear.\<close>

definition hardened :: "bool \<Rightarrow> cookie \<Rightarrow> bool" where
  "hardened tls c \<longleftrightarrow> co_httpOnly c \<and> co_sameSiteLax c \<and> co_path c = ''/'' \<and> (tls \<longrightarrow> co_secure c)
     \<and> co_name c \<in> set [sessionCookie, ''wnd_oidc_state'', ''wnd_oidc_redirect'']"

definition isError :: "json \<Rightarrow> bool" where
  "isError v = (case v of JObj [(k, JStr m)] \<Rightarrow> k = ''error'' | _ \<Rightarrow> False)"

definition jsonAnswer :: "httpResponse \<Rightarrow> bool" where
  "jsonAnswer resp = (case rs_body resp of
      None \<Rightarrow> False
    | Some (TextBody t) \<Rightarrow> False
    | Some (JsonBody v) \<Rightarrow> rs_headers resp = [(''Content-Type'', ''application/json'')]
        \<and> (if isError v then rs_status resp \<in> set errorStatuses else rs_status resp \<in> set [200, 202]))"

definition redirectAnswer :: "httpResponse \<Rightarrow> bool" where
  "redirectAnswer resp \<longleftrightarrow> rs_status resp = 302
     \<and> (\<exists>url. rs_headers resp = [(''Location'', url)] \<and> rs_body resp = None
          \<or> rs_headers resp = [(''Location'', url), (''Content-Type'', ''text/html; charset=utf-8'')]
            \<and> (rs_body resp = None \<or> (\<exists>page. rs_body resp = Some (TextBody page))))"

definition typedResponse :: "bool \<Rightarrow> httpResponse \<Rightarrow> bool" where
  "typedResponse tls resp \<longleftrightarrow> (jsonAnswer resp \<or> redirectAnswer resp) \<and> (\<forall>c\<in>set (rs_cookies resp). hardened tls c)"

definition answersTyped :: "('c, 'l) handler \<Rightarrow> bool" where
  "answersTyped h \<longleftrightarrow> (\<forall>X r s. typedResponse (isTLS X r) (fst (h X r s)))"

lemma typed_json [simp]:
  "typedResponse tls (writeJSON st v) = (if isError v then st \<in> set errorStatuses else st \<in> set [200, 202])"
  by (simp add: typedResponse_def jsonAnswer_def redirectAnswer_def writeJSON_def)

lemma typed_error [simp]: "typedResponse tls (writeError st m) = (st \<in> set errorStatuses)"
  by (simp add: writeError_def isError_def)

lemma isError_False [simp]:
  "isError (JObj (a # b # l)) = False" "isError (JObj []) = False" "isError (JList ls) = False" "isError (JContainer c) = False"
  "isError (JStack t) = False" "isError (JJob j) = False" "isError (JRun q) = False" "isError (JResult e) = False" "isError (JUser u) = False"
  "isError (JObj [(k, v)]) = (k = ''error'' \<and> (case v of JStr m \<Rightarrow> True | _ \<Rightarrow> False))"
  by (auto simp: isError_def split: json.split prod.split list.split)

lemma typed_ok [simp]: "typedResponse tls okJSON"
  by (simp add: okJSON_def)

lemma typed_redirect [simp]: "typedResponse tls (redirectTo X r u)"
  by (simp add: typedResponse_def redirectAnswer_def redirectTo_def Let_def)

lemma typed_cookie [simp]: "typedResponse tls (setCookie c resp) = (hardened tls c \<and> typedResponse tls resp)"
  by (auto simp: typedResponse_def setCookie_def jsonAnswer_def redirectAnswer_def split: option.split content.split)

lemma errorStatuses_mem [simp]: "st \<in> set errorStatuses \<longleftrightarrow> st \<in> {400, 401, 403, 404, 409, 429, 500, 502, 503}"
  by (simp add: errorStatuses_def)

lemma hardened_new [simp]:
  "hardened tls (newCookie name v secure age) =
     ((tls \<longrightarrow> secure) \<and> name \<in> set [sessionCookie, ''wnd_oidc_state'', ''wnd_oidc_redirect''])"
  by (simp add: hardened_def newCookie_def)

lemma typed_clear [simp]: "name \<in> set [sessionCookie, ''wnd_oidc_state'', ''wnd_oidc_redirect''] \<Longrightarrow>
    typedResponse tls (clearCookie name resp) = typedResponse tls resp"
  by (simp add: clearCookie_def)

lemma typed_session [simp]: "typedResponse (isTLS X r) (setSessionCookie X r s t resp) = typedResponse (isTLS X r) resp"
  by (simp add: setSessionCookie_def)

lemma typed_auth [simp]:
  "answersTyped handleLogin" "answersTyped handleLogout" "answersTyped handleMe" "answersTyped handleAuthConfig" "answersTyped handleOIDCURL"
  "answersTyped handleOIDCCallback"
  by (auto simp: answersTyped_def handleLogin_def handleLogout_def handleMe_def handleAuthConfig_def handleOIDCURL_def
      handleOIDCCallback_def Let_def split: prod.splits sum.splits option.splits)

lemma typed_parts [simp]:
  "typedResponse tls (reportEndpointCheck X c)" "typedResponse tls (testSpec X req)"
  "typedResponse tls (fst (createDirect X r req s))" "typedResponse tls (fst (createAgent X r req s))"
  "typedResponse tls (fst (queueLocal X actor cw srv target exec s))" "typedResponse tls (fst (queueAgent X actor cw target s))"
  by (auto simp: reportEndpointCheck_def testSpec_def createDirect_def createAgent_def queueLocal_def queueAgent_def Let_def
      split: prod.splits sum.splits option.splits)

lemma typed_patch:
  "patchRole i role s = (Some resp, s') \<Longrightarrow> typedResponse tls resp"
  "patchPassword X i pw s = (Some resp, s') \<Longrightarrow> typedResponse tls resp"
  by (auto simp: patchRole_def patchPassword_def split: if_splits sum.splits)

lemma server_no_error [simp]: "isError (serverJSON X s srv) = False"
  by (simp add: serverJSON_def)

lemma typed_reads [simp]:
  "answersTyped handleOverview" "answersTyped handleAbout" "answersTyped handleListServers" "answersTyped handleGetServer"
  "answersTyped handleListStacks" "answersTyped handleListContainers" "answersTyped handleGetContainer"
  "answersTyped handleContainerReleases" "answersTyped handleUpdateStatus" "answersTyped handleListUpdates"
  "answersTyped handleCheckStatus" "answersTyped handleSelfUpdate" "answersTyped handleSelfUpdateRun" "answersTyped handleListEvents"
  "answersTyped handleGetSettings" "answersTyped handleGetAuthSettings" "answersTyped handleListUsers"
  "answersTyped handleTestEndpoint" "answersTyped handleTriggerCheck" "answersTyped handleAgentCommands"
  by (auto simp add: answersTyped_def handleOverview_def handleAbout_def handleListServers_def handleGetServer_def
      handleListStacks_def handleListContainers_def handleGetContainer_def handleContainerReleases_def
      handleUpdateStatus_def handleListUpdates_def handleCheckStatus_def handleSelfUpdate_def handleSelfUpdateRun_def
      handleListEvents_def handleGetSettings_def handleGetAuthSettings_def handleListUsers_def handleTestEndpoint_def
      handleTriggerCheck_def handleAgentCommands_def Let_def split: prod.splits sum.splits option.splits)

lemma typed_servers [simp]:
  "answersTyped handleCreateServer" "answersTyped handleUpdateServer" "answersTyped handleDeleteServer"
  "answersTyped handleRequestUpdate" "answersTyped handleSetPin"
  by (auto simp: answersTyped_def handleCreateServer_def handleUpdateServer_def handleDeleteServer_def handleRequestUpdate_def
      handleSetPin_def Let_def split: prod.splits sum.splits option.splits)

lemma typed_agents [simp]: "answersTyped handleAgentReport" "answersTyped handleAgentCommandResult"
  by (auto simp: answersTyped_def handleAgentReport_def handleAgentCommandResult_def Let_def
      split: prod.splits sum.splits option.splits)

lemma typed_settings [simp]:
  "answersTyped handlePutSettings" "answersTyped handlePutAuthSettings" "answersTyped handleCreateUser"
  "answersTyped handleUpdateUser" "answersTyped handleDeleteUser" "answersTyped handleCheckSelfUpdate" "answersTyped handleApplySelfUpdate"
  by (auto simp: answersTyped_def handlePutSettings_def handlePutAuthSettings_def handleCreateUser_def handleUpdateUser_def
      handleDeleteUser_def handleCheckSelfUpdate_def handleApplySelfUpdate_def Let_def dest: typed_patch
      split: prod.splits sum.splits option.splits)

lemma routes_typed: "(m, p, a, h) \<in> set routes \<Longrightarrow> answersTyped h"
  unfolding routes_def by (simp only: list.set insert_iff empty_iff prod.inject, elim disjE conjE FalseE; simp)

lemma remoteIP_tagged [simp]:
  "remoteIP X (r\<lparr>rq_claims := c\<rparr>) = remoteIP X r" "remoteIP X (r\<lparr>rq_id := i\<rparr>) = remoteIP X r"
  by (simp_all add: remoteIP_def cong: option.case_cong)

lemma isTLS_tagged [simp]:
  "isTLS X (r\<lparr>rq_claims := c\<rparr>) = isTLS X r" "isTLS X (r\<lparr>rq_id := i\<rparr>) = isTLS X r"
  by (simp_all add: isTLS_def isTrustedProxy_def)

lemma typed_refusal [simp]: "typedResponse tls (refusal X r)"
  by (simp add: refusal_def)

text \<open>C21: every request that a route takes is answered in one of three ways, under the defensive headers: JSON that is
  not an error with status 200 or 202, an error object with one of nine error statuses, or a redirect to one
  place; and whatever cookies the answer sets are out of reach of scripts, same-site, and over TLS never sent in
  the clear.\<close>

theorem api_responses_typed:
  assumes "findRoute (r\<lparr>rq_claims := None, rq_id := []\<rparr>) (routes :: ('c, 'l) route list) = Some rt"
  shows "\<exists>resp. typedResponse (isTLS (X :: ('c, 'l) ctx) r) resp \<and> fst (serve spa X r s) = securityHeaders resp"
proof -
  let ?q = "\<lambda>i. r\<lparr>rq_claims := None, rq_id := i\<rparr>"
  obtain i a h where rt: "rt = (i, a, h)" by (cases rt)
  from findRoute_mem [OF assms [unfolded rt]] obtain m p where "(m, p, a, h) \<in> set routes" by blast
  then have h: "answersTyped h" by (rule routes_typed)
  have tls: "isTLS X (?q i) = isTLS X r" "isTLS X ((?q i)\<lparr>rq_claims := c\<rparr>) = isTLS X r" for c
    by (simp_all only: isTLS_tagged)
  have typed: "typedResponse (isTLS X r) (fst (h X q s))" if "isTLS X q = isTLS X r" for q
  proof -
    from h have "typedResponse (isTLS X q) (fst (h X q s))" by (simp add: answersTyped_def)
    then show ?thesis by (simp only: that)
  qed
  have d: "dispatch routes spa X r s = guarded a h X (?q i) s"
    using assms rt by (simp add: dispatch_def)
  have "typedResponse (isTLS X r) (fst (guarded a h X (?q i) s))"
    using typed [OF tls(1)] typed [OF tls(2)] by (simp add: guarded_by_access)
  with d show ?thesis by (auto simp: serve_def split: prod.split)
qed

text \<open>Without a session the user list is an error object, not a page; an error body under status 200 would not be
  a typed answer.\<close>

theorem api_responses_typed_witness:
  "(\<exists>resp. typedResponse (isTLS demoCtx (demoRequest ''GET'' ''/api/v1/users'')) resp
     \<and> fst (serve demoSpa demoCtx (demoRequest ''GET'' ''/api/v1/users'') demoApp) = securityHeaders resp)
   \<and> typedResponse True (refusal demoCtx (demoRequest ''GET'' ''/api/v1/users''))
   \<and> \<not> typedResponse True \<lparr>rs_status = 200, rs_headers = [(''Content-Type'', ''application/json'')], rs_cookies = [],
        rs_body = Some (JsonBody (JObj [(''error'', JStr [])]))\<rparr>"
proof -
  let ?r = "demoRequest ''GET'' ''/api/v1/users''"
  have "\<exists>rt. findRoute (?r\<lparr>rq_claims := None, rq_id := []\<rparr>) (routes :: (nat, nat) route list) = Some rt"
    by (simp add: findRoute_def routes_def matchRoute_def methodMatches_def pathSegs_def demoRequest_def trimPrefix_def)
  then obtain rt where f: "findRoute (?r\<lparr>rq_claims := None, rq_id := []\<rparr>) (routes :: (nat, nat) route list) = Some rt" ..
  have "\<not> typedResponse True \<lparr>rs_status = 200, rs_headers = [(''Content-Type'', ''application/json'')], rs_cookies = [],
        rs_body = Some (JsonBody (JObj [(''error'', JStr [])]))\<rparr>"
    by (simp add: typedResponse_def jsonAnswer_def redirectAnswer_def isError_def)
  with api_responses_typed [OF f, of demoCtx demoSpa demoApp] show ?thesis by simp
qed

end
