(* ===== verification/SettingsProps.thy ===== *)
theory SettingsProps
  imports ServerSteps
begin

text \<open>
  The limits of the live settings: only \<open>handlePutSettings\<close> writes them, and what it accepts stays
  within the limits that the page promises, whatever else the server does in between.
\<close>

definition conf :: "('c, 'l) app \<Rightarrow> updatesSettings \<times> selfUpdateConfig" where
  "conf s = (ap_updates s, ap_self s)"

definition inLimits :: "('c, 'l) app \<Rightarrow> bool" where
  "inLimits s \<longleftrightarrow> 1 \<le> uc_changelogCount (ap_updates s) \<and> uc_changelogCount (ap_updates s) \<le> 100 \<and> hour \<le> sc_interval (ap_self s)"

definition keeps_conf :: "('c, 'l) handler \<Rightarrow> bool" where
  "keeps_conf h \<longleftrightarrow> (\<forall>X r s. conf (snd (h X r s)) = conf s)"

definition keeps_limits :: "('c, 'l) handler \<Rightarrow> bool" where
  "keeps_limits h \<longleftrightarrow> (\<forall>X r s. inLimits s \<longrightarrow> inLimits (snd (h X r s)))"

lemma conf_core: "core t = core s \<Longrightarrow> conf t = conf s"
  by (simp add: core_def conf_def)

lemma conf_steps [simp]:
  "conf (addEvent X e s) = conf s" "conf (setJob X i j s) = conf s" "conf (spawn t s) = conf s"
  "conf (s\<lparr>ap_db := d\<rparr>) = conf s" "conf (s\<lparr>ap_endpoints := p\<rparr>) = conf s" "conf (s\<lparr>ap_auth := a\<rparr>) = conf s"
  "conf (s\<lparr>ap_checker := k\<rparr>) = conf s" "conf (s\<lparr>ap_tracker := t'\<rparr>) = conf s" "conf (s\<lparr>ap_oidc := q\<rparr>) = conf s"
  "conf (s\<lparr>ap_nextRun := n\<rparr>) = conf s" "conf (s\<lparr>ap_checks := c\<rparr>) = conf s"
  by (simp_all add: conf_def addEvent_def setJob_def spawn_def)

lemma keeps_core_conf: "keeps_core h \<Longrightarrow> keeps_conf h"
  by (auto simp: keeps_core_def keeps_conf_def intro: conf_core)

lemma executor_conf: "executorFor X srv s = (a, s') \<Longrightarrow> conf s' = conf s"
  by (auto simp: executorFor_def conf_def split: if_splits option.splits sum.splits prod.splits)

lemma patch_conf:
  "patchRole i role s = (a, s') \<Longrightarrow> conf s' = conf s" "patchPassword X i pw s = (a, s') \<Longrightarrow> conf s' = conf s"
  by (auto simp: patchRole_def patchPassword_def split: if_splits sum.splits)

lemma conf_finishJob [simp]: "conf (finishJob X a b c m t) = conf t"
  by (simp add: finishJob_def split: sum.split)

lemma keeps_conf_rest [simp]:
  "keeps_conf handleGetSettings" "keeps_conf handleGetAuthSettings" "keeps_conf handleListUsers"
  "keeps_conf handleTestEndpoint" "keeps_conf handleTriggerCheck" "keeps_conf handleAgentCommands"
  "keeps_conf handleCheckSelfUpdate" "keeps_conf handlePutAuthSettings" "keeps_conf handleCreateUser" "keeps_conf handleUpdateUser"
  "keeps_conf handleDeleteUser" "keeps_conf handleSetPin"
  by (auto simp: keeps_conf_def handleGetSettings_def handleGetAuthSettings_def handleListUsers_def handleTestEndpoint_def
      handleTriggerCheck_def handleAgentCommands_def handleCheckSelfUpdate_def selfCheck_def handlePutAuthSettings_def InvalidateOIDC_def
      handleCreateUser_def handleUpdateUser_def handleDeleteUser_def handleSetPin_def Let_def dest!: patch_conf
      split: prod.splits sum.splits option.splits)

lemma keeps_conf_hosts [simp]:
  "keeps_conf handleCreateServer" "keeps_conf handleUpdateServer" "keeps_conf handleDeleteServer"
  "keeps_conf handleAgentReport" "keeps_conf handleAgentCommandResult"
  "keeps_conf handleRequestUpdate" "keeps_conf handleApplySelfUpdate"
  by (auto simp: keeps_conf_def handleCreateServer_def createDirect_def createAgent_def handleUpdateServer_def handleDeleteServer_def
      handleAgentReport_def handleAgentCommandResult_def handleRequestUpdate_def queueLocal_def queueAgent_def
      handleApplySelfUpdate_def Let_def dest!: executor_conf
      split: prod.splits sum.splits option.splits)

section \<open>The one writer\<close>

lemma inLimits_conf: "conf t = conf s \<Longrightarrow> inLimits t = inLimits s"
  by (simp add: conf_def inLimits_def)

lemma keeps_conf_limits: "keeps_conf h \<Longrightarrow> keeps_limits h"
  by (auto simp: keeps_conf_def keeps_limits_def dest: inLimits_conf)

lemma inLimits_parts:
  "applyCount req s = (q, s') \<Longrightarrow> inLimits s \<Longrightarrow> inLimits s'"
  "inLimits s \<Longrightarrow> inLimits (applyLists req s)"
  "applyInterval req s = (q, s') \<Longrightarrow> inLimits s \<Longrightarrow> inLimits s'"
  "applySelfUpdate req s = (q, s') \<Longrightarrow> inLimits s \<Longrightarrow> inLimits s'"
  "inLimits s \<Longrightarrow> inLimits (applyTokens req s)"
  "inLimits (s\<lparr>ap_db := d\<rparr>) = inLimits s"
  by (auto simp: inLimits_def applyCount_def applyLists_def applyInterval_def applySelfUpdate_def applyTokens_def
      setGitHubToken_def setGitLabToken_def Let_def split: option.splits if_splits)

lemma putSettings_limits: "keeps_limits handlePutSettings"
proof -
  have "inLimits (snd (handlePutSettings X r s))" if "inLimits s" for X :: "('a, 'b) ctx" and r s
  proof (cases "bd_settings (rq_body r)")
    case (Inr req)
    obtain m1 s1 where 1: "applyCount req s = (m1, s1)" by fastforce
    obtain m2 s2 where 2: "applyInterval req (applyLists req s1) = (m2, s2)" by fastforce
    obtain m3 s3 where 3: "applySelfUpdate req s2 = (m3, s3)" by fastforce
    note l1 = inLimits_parts(1) [OF 1 that]
    note l2 = inLimits_parts(3) [OF 2 inLimits_parts(2) [OF l1]]
    note l3 = inLimits_parts(4) [OF 3 l2]
    from l1 l2 l3 inLimits_parts(5) [OF l3, of req] show ?thesis
      by (auto simp: handlePutSettings_def Inr 1 2 3 Let_def saveRuntimeSettings_def and_then_def inLimits_parts(6)
          split: option.split sum.split)
  qed (simp add: handlePutSettings_def that)
  then show ?thesis by (simp add: keeps_limits_def)
qed

lemma routes_limits: "(m, p, a, h) \<in> set routes \<Longrightarrow> keeps_limits h"
  unfolding routes_def
  by (simp only: list.set insert_iff empty_iff prod.inject, elim disjE conjE FalseE;
      simp add: putSettings_limits keeps_conf_limits keeps_core_conf)

lemma serve_limits:
  fixes X :: "('c, 'l) ctx"
  assumes "inLimits s"
  shows "inLimits (snd (serve spa X r s))"
proof -
  let ?q = "\<lambda>i. r\<lparr>rq_claims := None, rq_id := i\<rparr>"
  have "inLimits (snd (dispatch routes spa X r s))"
  proof (cases "findRoute (?q []) (routes :: ('c, 'l) route list)")
    case None
    then show ?thesis using assms by (simp add: dispatch_def)
  next
    case (Some rt)
    obtain i a h where rt: "rt = (i, a, h)" by (cases rt)
    from findRoute_mem [OF Some [unfolded rt]] obtain m p where "(m, p, a, h) \<in> set routes" by blast
    then have h: "keeps_limits h" by (rule routes_limits)
    have "snd (dispatch routes spa X r s) = snd (guarded a h X (?q i) s)"
      using Some rt by (simp add: dispatch_def)
    then show ?thesis using h assms by (simp add: guarded_by_access keeps_limits_def)
  qed
  then show ?thesis by (cases "dispatch routes spa X r s") (simp add: serve_def)
qed

lemma step_limits:
  assumes "server_step E u s s'" and "inLimits s"
  shows "inLimits s'"
  using assms
proof (induction rule: server_step.induct)
  case (request X s spa r)
  then show ?case by (simp add: serve_limits)
next
  case (local_host X c s ask)
  then show ?case
    by (auto simp: snapshotLocal_def storeSnapshot_def inLimits_parts(6) split: sum.split)
next
  case (poll_begins X s srv)
  then show ?case by (simp add: inLimits_def)
next
  case (poll_stores X s srv snap)
  then show ?case by (simp add: inLimits_def)
next
  case (update_check X trigger s e q s' e')
  obtain r d e1 where ch: "CheckAll u (ap_db s) e = (r, d, e1)" by (metis prod_cases3)
  obtain now e2 where ck: "clock (u_world u) e1 = (now, e2)" by fastforce
  have "s' = s \<or> s' = s\<lparr>ap_checks := checks_end now r (snd (checks_begin (x_now X) trigger (ap_checks s))), ap_db := d\<rparr>"
    using update_check.hyps(2) ch ck
    by (cases "kr_running (ap_checks s)") (auto simp: runUpdateCheck_def checks_begin_def simp del: conf_steps)
  then have "conf s' = conf s" by (auto simp: conf_def)
  from inLimits_conf [OF this] update_check.prems show ?case by simp
next
  case (self_check X s)
  then show ?case by (simp add: selfUpdateRound_def selfCheck_def Let_def inLimits_def split: prod.split)
qed (simp_all add: inLimits_def setJob_def addEvent_def)


text \<open>An administrator asks for 250 entries: refused, and five remain.\<close>

definition demoSettingsRequest :: httpRequest where
  "demoSettingsRequest = (asAdmin (demoRequest ''PUT'' ''/api/v1/settings''))\<lparr>rq_body := noBody\<lparr>bd_settings :=
     Inr \<lparr>sq_changelogCount = Some 250, sq_includePre = Some True, sq_ignoreImages = None, sq_updateInterval = None,
       sq_selfUpdate = None, sq_selfUpdateInterval = None, sq_githubToken = [], sq_gitlabToken = []\<rparr>\<rparr>\<rparr>"


end
