(* ===== verification/Spec2Isabelle.thy ===== *)
theory Spec2Isabelle
  imports SelfUpdate FetchProps FakeUpdates SelfHelper SelfRunProps AuthProps QueueProps ServerProps AgentDemo
    HostSnapshotProps MigrateProps FirstLogin LoginRate Flags ResponseProps SettingsProps
begin

text \<open>
  A verification library for WhatsNewDock, a server that watches the containers of Docker and Podman hosts,
  finds newer versions of their images and recreates containers and swarm services on them.  It models the
  Go program under \<open>src/cmd\<close> and \<open>src/internal\<close>.

  THE PROGRAM.  One binary runs in three modes.  The server keeps a SQLite database, serves an HTTP API to a
  web page and to its agents, and runs four loops: it takes snapshots of the hosts it reaches itself, checks
  for image updates, marks silent hosts offline and looks for its own next release.  An agent reports
  snapshots of its host, polls for commands, executes them and posts the results.  The helper is a short-lived
  container that recreates the container of the server or of an agent.

  CONVENTIONS.  A Go string is a list of bytes (\<open>string\<close>), \<open>int\<close> and durations are \<open>int\<close> with the
  wrap-around written out where the code can reach it, a struct is a record, a string enumeration with fixed
  values a datatype or its text, an error a value \<open>err\<close> with the sentinel \<open>errors.Is\<close> finds, a pair
  (value, error) a sum.  State is passed explicitly.  What is not in the repository is an argument: the Engine
  API (record \<open>daemon\<close>), HTTP (records \<open>transport\<close> and \<open>agentEnv\<close>), semver, JWT, bcrypt, OIDC, the
  rate limiter, URL parsing and the image reference grammar (record \<open>ctx\<close>, \<open>upstream\<close>, \<open>parseNamed\<close>), clocks
  and random ids.  What is relied on of them are hypotheses named in the theorems, and every such theorem has
  a witness with concrete functions.

  THE THEORIES, in the order of their imports.

  Foundations.  \<open>Prelude\<close> holds the errors, the sums and the hint collections; \<open>GoStrings\<close>, \<open>GoTime\<close> and
  \<open>Timestamps\<close> the routines of \<open>strings\<close>, \<open>strconv\<close> and \<open>time\<close> that the source calls, with the
  calendar behind RFC 3339 text.

  The store (\<open>internal/store\<close>).  \<open>Models\<close> has the rows, \<open>Store\<close> every query and statement, \<open>Snapshot\<close> the
  transaction \<open>ReplaceServerSnapshot\<close>, \<open>StoreInv\<close> the integrity \<open>db_wf\<close> and its preservation by each
  statement, \<open>SnapshotProps\<close> and \<open>SnapshotTotal\<close> what a report does and that a tidy one is always stored,
  \<open>StoreProps\<close> the reachable databases.  \<open>Migrate\<close> has the schema, the versioned migrations and \<open>Open\<close> over a
  small model of the file in which any statement may fail; \<open>MigrateProps\<close> shows that an interrupted upgrade
  is resumed and loses nothing.

  Finding updates (\<open>internal/reference\<close>, \<open>changelog\<close>, \<open>updater\<close>, \<open>selfupdate\<close>).  \<open>Sources\<close> resolves where the
  releases of an image come from, \<open>Fetchers\<close> asks the forges and registries, \<open>Updater\<close> decides and runs the
  check cycle, \<open>SelfUpdate\<close> compares the application's own versions.  \<open>UpdaterProps\<close> and \<open>FetchProps\<close> show which
  update is offered, that none is a downgrade, where tokens go, and that paging ends.

  Applying updates (\<open>internal/dockerx\<close>).  \<open>Daemon\<close> is the Engine API, \<open>Swarm\<close> the service updates, \<open>Recreate\<close>
  the direct and the systemd flow, \<open>SelfHelper\<close> the helper container, \<open>HostSnapshot\<close> the client and the
  snapshot of a host.  \<open>FakeDaemon\<close> is the daemon of the repository's own tests.  \<open>RecreateProps\<close>,
  \<open>FakeUpdates\<close> and \<open>HostSnapshotProps\<close> hold their properties.

  The server (\<open>internal/server\<close>, \<open>config\<close>, \<open>protocol\<close>, \<open>cmd\<close>).  \<open>Config\<close> is the configuration, \<open>Flags\<close> the command line, \<open>ServerState\<close> the
  requests, the state \<open>app\<close> and the context, \<open>Auth\<close>, \<open>Endpoints\<close>, \<open>Settings\<close>, \<open>AgentApi\<close>, \<open>Api\<close> and \<open>Jobs\<close> the
  handlers and the goroutines they start, \<open>SelfRun\<close> the update of a whole deployment, \<open>Access\<close> the route table
  and the middleware, \<open>Startup\<close> the start, the loops, the shutdown and \<open>main\<close>.  \<open>ServerDemo\<close> is a small
  concrete server for the witnesses.  \<open>AccessProps\<close>, \<open>AuthProps\<close>, \<open>ResponseProps\<close>, \<open>SettingsProps\<close>, \<open>SelfRunProps\<close>,
  \<open>StartupProps\<close> and \<open>Restart\<close> hold the properties of these parts; \<open>FirstLogin\<close> follows a first start to the
  administrator's session, \<open>LoginRate\<close> bounds how often a password can be guessed; \<open>ServerInv\<close>, \<open>ServerSteps\<close> and \<open>ServerProps\<close>
  treat the running server as a step relation of requests and background rounds.

  The agent (\<open>internal/agent\<close>).  \<open>Agent\<close> models it; \<open>AgentProps\<close> and \<open>AgentDemo\<close> put it and the server's router
  together over a network that hands requests across.

  INTERFACES.  \<open>container_daemon\<close> is what the update flow relies on of the Engine API, extended by
  \<open>listing_daemon\<close> for the helper; both are interpreted on the daemon of the tests.  Every call may fail there, for
  the reasons the Engine API documents; \<open>recovery_works\<close> says when the calls of the recovery do not: a rename when
  no other container bears the name, a removal when the container exists.  The agent's host in \<open>AgentProps\<close>
  promises its Docker's answers only, and the flow's theorems give what an update does on it.  \<open>command_queue\<close> is what the
  agents' queue relies on of the store, interpreted on the commands table; \<open>QueueProps\<close> shows that the whole
  API refines it.  \<open>api_invariant\<close> and \<open>server_invariant\<close> say what a property of the database must survive to hold
  on every run; they are interpreted on integrity, on the encryption of agentless endpoints and on the roles
  of agent hosts.  \<open>resumable\<close> is a list of steps that can be taken up again, interpreted on the upgrade of the
  database file.

  LOOPS.  The waits on a daemon take fuel, one unit per poll, and not to return within it is \<open>None\<close>.  151 polls
  are the five minutes of a rollout at two seconds, 181 the ninety seconds of a respawn at half a second (and
  cover the former), 62 the three minutes of a run over the agents, 300 the pages of a tag listing that stops
  at 300 tags; each has a theorem that it is enough.  Its hypotheses are that the host's clock runs (\<open>clock_runs\<close>)
  and, where a service is updated, that Docker answers for it (\<open>answers_for\<close>): from the accepted update on the
  service stays in the list, and it is not called completed while it is short of tasks.  Nothing is asked of
  services that are not there.  \<open>converge_never_ends\<close> shows when no fuel is enough.  Everything else is total.

  NOT MODELLED.  The web page and its embedded files; the parsing of YAML and of JSON (a decoded value or an
  error is the argument); the timeouts of contexts, which the environment decides, and
  logging other than the agent's; the middleware's recovery of panics; SQLite below the statements; the limiter
  that spaces out requests to the forges, which only sleeps.  Concurrency is modelled as interleaving of whole
  handlers and rounds, which share one database connection and guard their trackers by locks, and of the two
  halves of every poll of an agentless host, between which anything may happen to its row
  (\<open>server_step\<close>): what \<open>endpoints_stay_encrypted\<close> and \<open>server_keeps_integrity\<close> state holds of polls that outlive
  the deletion of their host too, and \<open>polled_host_survives_deletion\<close> shows what such a poll leaves behind.
  The standard error is modelled where the command line is complained of; \<open>strconv.Quote\<close> and \<open>url.Parse\<close> are
  arguments.
\<close>

end
